(* ===== verification/Prelude.thy ===== *)
theory Prelude
  imports Main "HOL-Library.Word" "HOL-Library.Multiset" "HOL-Library.AList" "HOL-Library.Monad_Syntax"
begin

text \<open>
  The shared vocabulary of the development. A Go function that returns \<open>(T, error)\<close> and
  may dereference a nil pointer becomes a state transformer into \<open>outcome\<close>: the
  value, the error, or the panic. The state is threaded through every branch, so that what a
  function changed before it failed is still there afterwards, as it is in Go. The second half
  is the proof vocabulary: inversion rules for successful runs, and the locale \<open>frame\<close>,
  which lifts a reflexive and transitive relation on states from the steps of a program to the
  whole program.
\<close>

section \<open>Outcomes and programs\<close>

datatype ('e, 'a) outcome = Ok 'a | Err 'e | Panic | Diverged

text \<open>\<open>Diverged\<close> is a call that has not returned: only a loop that is cut off by its fuel gives it.\<close>

type_synonym ('s, 'e, 'a) prog = "'s \<Rightarrow> ('e, 'a) outcome \<times> 's"

definition ret :: "'a \<Rightarrow> ('s, 'e, 'a) prog" where
  "ret x = (\<lambda>s. (Ok x, s))"

definition failE :: "'e \<Rightarrow> ('s, 'e, 'a) prog" where
  "failE e = (\<lambda>s. (Err e, s))"

definition panicE :: "('s, 'e, 'a) prog" where
  "panicE = (\<lambda>s. (Panic, s))"

definition bindE :: "('s, 'e, 'a) prog \<Rightarrow> ('a \<Rightarrow> ('s, 'e, 'b) prog) \<Rightarrow> ('s, 'e, 'b) prog" where
  "bindE m f = (\<lambda>s. case m s of
       (Ok x, t) \<Rightarrow> f x t
     | (Err e, t) \<Rightarrow> (Err e, t)
     | (Panic, t) \<Rightarrow> (Panic, t)
     | (Diverged, t) \<Rightarrow> (Diverged, t))"

text \<open>\<open>attempt m\<close> is a call whose error the caller inspects instead of returning it.\<close>

definition attempt :: "('s, 'e, 'a) prog \<Rightarrow> ('s, 'e, 'e + 'a) prog" where
  "attempt m = (\<lambda>s. case m s of
       (Ok x, t) \<Rightarrow> (Ok (Inr x), t)
     | (Err e, t) \<Rightarrow> (Ok (Inl e), t)
     | (Panic, t) \<Rightarrow> (Panic, t)
     | (Diverged, t) \<Rightarrow> (Diverged, t))"

definition divergeE :: "('s, 'e, 'a) prog" where
  "divergeE = (\<lambda>s. (Diverged, s))"

definition getsE :: "('s \<Rightarrow> 'a) \<Rightarrow> ('s, 'e, 'a) prog" where
  "getsE f = (\<lambda>s. (Ok (f s), s))"

definition modifyE :: "('s \<Rightarrow> 's) \<Rightarrow> ('s, 'e, unit) prog" where
  "modifyE f = (\<lambda>s. (Ok (), f s))"

definition whenE :: "bool \<Rightarrow> ('s, 'e, unit) prog \<Rightarrow> ('s, 'e, unit) prog" where
  "whenE b m = (if b then m else ret ())"

text \<open>Reading through a pointer: \<open>None\<close> is the nil pointer.\<close>

definition deref :: "'a option \<Rightarrow> ('s, 'e, 'a) prog" where
  "deref p = (case p of None \<Rightarrow> panicE | Some x \<Rightarrow> ret x)"

definition liftS :: "'e + 'a \<Rightarrow> ('s, 'e, 'a) prog" where
  "liftS r = (case r of Inl e \<Rightarrow> failE e | Inr x \<Rightarrow> ret x)"

text \<open>A pure computation that may fail or panic.\<close>

definition liftO :: "('e, 'a) outcome \<Rightarrow> ('s, 'e, 'a) prog" where
  "liftO r = (\<lambda>s. (r, s))"

text \<open>A \<open>range\<close> loop whose body returns an error stops at the first one.\<close>

primrec forE :: "('a \<Rightarrow> ('s, 'e, unit) prog) \<Rightarrow> 'a list \<Rightarrow> ('s, 'e, unit) prog" where
  "forE f [] = ret ()"
| "forE f (x # xs) = bindE (f x) (\<lambda>_. forE f xs)"

primrec foldE :: "('b \<Rightarrow> 'a \<Rightarrow> ('s, 'e, 'b) prog) \<Rightarrow> 'b \<Rightarrow> 'a list \<Rightarrow> ('s, 'e, 'b) prog" where
  "foldE f acc [] = ret acc"
| "foldE f acc (x # xs) = bindE (f acc x) (\<lambda>acc'. foldE f acc' xs)"

primrec mapE :: "('a \<Rightarrow> ('s, 'e, 'b) prog) \<Rightarrow> 'a list \<Rightarrow> ('s, 'e, 'b list) prog" where
  "mapE f [] = ret []"
| "mapE f (x # xs) = bindE (f x) (\<lambda>y. bindE (mapE f xs) (\<lambda>ys. ret (y # ys)))"

text \<open>The first element of a list that passes a test, as in a loop that returns from its body.\<close>

primrec findE :: "('a \<Rightarrow> ('s, 'e, bool) prog) \<Rightarrow> 'a list \<Rightarrow> ('s, 'e, 'a option) prog" where
  "findE p [] = ret None"
| "findE p (x # xs) = bindE (p x) (\<lambda>b. if b then ret (Some x) else findE p xs)"

text \<open>Returning an error after wrapping it.\<close>

definition mapErr :: "('e \<Rightarrow> 'e) \<Rightarrow> ('s, 'e, 'a) prog \<Rightarrow> ('s, 'e, 'a) prog" where
  "mapErr f m = (\<lambda>s. case m s of
       (Ok x, t) \<Rightarrow> (Ok x, t)
     | (Err e, t) \<Rightarrow> (Err (f e), t)
     | (Panic, t) \<Rightarrow> (Panic, t)
     | (Diverged, t) \<Rightarrow> (Diverged, t))"

section \<open>Running programs\<close>

named_theorems run_simps \<open>equations that run a program on a state\<close>

lemma ret_run [run_simps]: "ret x s = (Ok x, s)"
  by (simp add: ret_def)

lemma failE_run [run_simps]: "failE e s = (Err e, s)"
  by (simp add: failE_def)

lemma panicE_run [run_simps]: "panicE s = (Panic, s)"
  by (simp add: panicE_def)

lemma divergeE_run [run_simps]: "divergeE s = (Diverged, s)"
  by (simp add: divergeE_def)

lemma getsE_run [run_simps]: "getsE f s = (Ok (f s), s)"
  by (simp add: getsE_def)

lemma modifyE_run [run_simps]: "modifyE f s = (Ok (), f s)"
  by (simp add: modifyE_def)

lemma deref_run [run_simps]:
  "deref None s = (Panic, s)" "deref (Some x) s = (Ok x, s)"
  by (simp_all add: deref_def run_simps)

lemma liftS_run [run_simps]:
  "liftS (Inl e) s = (Err e, s)" "liftS (Inr x) s = (Ok x, s)"
  by (simp_all add: liftS_def run_simps)

lemma liftO_run [run_simps]: "liftO r s = (r, s)"
  by (simp add: liftO_def)

lemma whenE_run [run_simps]: "whenE b m s = (if b then m s else (Ok (), s))"
  by (simp add: whenE_def run_simps)

lemma bindE_run [run_simps]:
  "bindE m f s = (case m s of
       (Ok x, t) \<Rightarrow> f x t
     | (Err e, t) \<Rightarrow> (Err e, t)
     | (Panic, t) \<Rightarrow> (Panic, t)
     | (Diverged, t) \<Rightarrow> (Diverged, t))"
  by (simp add: bindE_def)

lemma attempt_run [run_simps]:
  "attempt m s = (case m s of
       (Ok x, t) \<Rightarrow> (Ok (Inr x), t)
     | (Err e, t) \<Rightarrow> (Ok (Inl e), t)
     | (Panic, t) \<Rightarrow> (Panic, t)
     | (Diverged, t) \<Rightarrow> (Diverged, t))"
  by (simp add: attempt_def)

lemma mapErr_run [run_simps]:
  "mapErr f m s = (case m s of
       (Ok x, t) \<Rightarrow> (Ok x, t)
     | (Err e, t) \<Rightarrow> (Err (f e), t)
     | (Panic, t) \<Rightarrow> (Panic, t)
     | (Diverged, t) \<Rightarrow> (Diverged, t))"
  by (simp add: mapErr_def)

text \<open>Inversion: what a run that ended in a given way did on the way.\<close>

lemma bindE_Ok: "bindE m f s = (Ok y, u) \<longleftrightarrow> (\<exists>x t. m s = (Ok x, t) \<and> f x t = (Ok y, u))"
  by (auto simp: bindE_def split: prod.splits outcome.splits)

lemma bindE_Err:
  "bindE m f s = (Err e, u) \<longleftrightarrow> m s = (Err e, u) \<or> (\<exists>x t. m s = (Ok x, t) \<and> f x t = (Err e, u))"
  by (auto simp: bindE_def split: prod.splits outcome.splits)

lemma bindE_Panic:
  "bindE m f s = (Panic, u) \<longleftrightarrow> m s = (Panic, u) \<or> (\<exists>x t. m s = (Ok x, t) \<and> f x t = (Panic, u))"
  by (auto simp: bindE_def split: prod.splits outcome.splits)

lemma attempt_Ok:
  "attempt m s = (Ok r, u) \<longleftrightarrow>
     (case r of Inl e \<Rightarrow> m s = (Err e, u) | Inr x \<Rightarrow> m s = (Ok x, u))"
  by (auto simp: attempt_def split: prod.splits outcome.splits sum.splits)

lemma attempt_not_Err: "attempt m s \<noteq> (Err e, u)"
  by (auto simp: attempt_def split: prod.splits outcome.splits)

lemma attempt_Panic: "attempt m s = (Panic, u) \<longleftrightarrow> m s = (Panic, u)"
  by (auto simp: attempt_def split: prod.splits outcome.splits)

lemma mapErr_Ok: "mapErr f m s = (Ok x, u) \<longleftrightarrow> m s = (Ok x, u)"
  by (auto simp: mapErr_def split: prod.splits outcome.splits)

lemma mapErr_Err: "mapErr f m s = (Err e, u) \<longleftrightarrow> (\<exists>e'. e = f e' \<and> m s = (Err e', u))"
  by (auto simp: mapErr_def split: prod.splits outcome.splits)

lemma mapErr_Panic: "mapErr f m s = (Panic, u) \<longleftrightarrow> m s = (Panic, u)"
  by (auto simp: mapErr_def split: prod.splits outcome.splits)

lemma ret_eq: "ret x s = (r, u) \<longleftrightarrow> r = Ok x \<and> u = s"
  by (auto simp: ret_def)

lemma failE_eq: "failE e s = (r, u) \<longleftrightarrow> r = Err e \<and> u = s"
  by (auto simp: failE_def)

lemma panicE_eq: "panicE s = (r, u) \<longleftrightarrow> r = Panic \<and> u = s"
  by (auto simp: panicE_def)

lemma divergeE_eq: "divergeE s = (r, u) \<longleftrightarrow> r = Diverged \<and> u = s"
  by (auto simp: divergeE_def)

lemma getsE_eq: "getsE f s = (r, u) \<longleftrightarrow> r = Ok (f s) \<and> u = s"
  by (auto simp: getsE_def)

lemma modifyE_eq: "modifyE f s = (r, u) \<longleftrightarrow> r = Ok () \<and> u = f s"
  by (auto simp: modifyE_def)

lemma deref_eq:
  "deref p s = (r, u) \<longleftrightarrow> u = s \<and> r = (case p of None \<Rightarrow> Panic | Some x \<Rightarrow> Ok x)"
  by (auto simp: deref_def ret_def panicE_def split: option.splits)

lemma liftS_eq:
  "liftS v s = (r, u) \<longleftrightarrow> u = s \<and> r = (case v of Inl e \<Rightarrow> Err e | Inr x \<Rightarrow> Ok x)"
  by (auto simp: liftS_def ret_def failE_def split: sum.splits)

lemma liftS_Ok: "liftS v s = (Ok x, u) \<longleftrightarrow> u = s \<and> v = Inr x"
  by (auto simp: liftS_eq split: sum.splits)

lemma liftO_eq: "liftO v s = (r, u) \<longleftrightarrow> r = v \<and> u = s"
  by (auto simp: liftO_def)

lemma whenE_eq:
  "whenE b m s = (r, u) \<longleftrightarrow> (if b then m s = (r, u) else r = Ok () \<and> u = s)"
  by (auto simp: whenE_def ret_def)

lemmas run_eqs = ret_eq failE_eq panicE_eq divergeE_eq getsE_eq modifyE_eq deref_eq liftS_eq liftO_eq whenE_eq

lemmas run_Ok = bindE_Ok attempt_Ok mapErr_Ok run_eqs
lemmas run_Err = bindE_Err attempt_not_Err mapErr_Err run_eqs
lemmas run_Panic = bindE_Panic attempt_Panic mapErr_Panic run_eqs

lemma bindE_cases:
  assumes "bindE m f s = (r, u)"
  obtains (stop) q where "m s = (q, u)" "\<And>x. q \<noteq> Ok x" "\<And>x. r \<noteq> Ok x"
  | (go) x t where "m s = (Ok x, t)" "f x t = (r, u)"
  using assms by (auto simp: bindE_def split: prod.splits outcome.splits)

text \<open>The monad laws, used to line a model up with a restructured version of it.\<close>

lemma bindE_ret_left: "bindE (ret x) f = f x"
  by (rule ext) (simp add: run_simps)

lemma bindE_ret_right: "bindE m ret = m"
  by (rule ext) (simp add: run_simps split: prod.split outcome.split)

lemma bindE_assoc: "bindE (bindE m f) g = bindE m (\<lambda>x. bindE (f x) g)"
  by (rule ext) (simp add: run_simps split: prod.split outcome.split)

lemma forE_append: "forE f (xs @ ys) = bindE (forE f xs) (\<lambda>_. forE f ys)"
  by (induction xs) (simp_all add: bindE_ret_left bindE_assoc)

section \<open>Frames\<close>

text \<open>
  \<open>preserves R m\<close>: whatever way \<open>m\<close> ends, the state it leaves is related to the state it
  started from. For a reflexive and transitive \<open>R\<close> it is enough to look at the steps.
\<close>

definition preserves :: "('s \<Rightarrow> 's \<Rightarrow> bool) \<Rightarrow> ('s, 'e, 'a) prog \<Rightarrow> bool" where
  "preserves R m \<longleftrightarrow> (\<forall>s. R s (snd (m s)))"

lemma preservesD: "preserves R m \<Longrightarrow> m s = (r, t) \<Longrightarrow> R s t"
  unfolding preserves_def by (metis snd_conv)

lemma preservesI: "(\<And>s r t. m s = (r, t) \<Longrightarrow> R s t) \<Longrightarrow> preserves R m"
  unfolding preserves_def by (metis prod.collapse)

locale frame =
  fixes R :: "'s \<Rightarrow> 's \<Rightarrow> bool"
  assumes R_refl: "R s s"
    and R_trans: "R s t \<Longrightarrow> R t u \<Longrightarrow> R s u"
begin

lemma ret: "preserves R (ret x)"
  by (simp add: preserves_def run_simps R_refl)

lemma failE: "preserves R (failE e)"
  by (simp add: preserves_def run_simps R_refl)

lemma panicE: "preserves R panicE"
  by (simp add: preserves_def run_simps R_refl)

lemma divergeE: "preserves R divergeE"
  by (simp add: preserves_def run_simps R_refl)

lemma getsE: "preserves R (getsE f)"
  by (simp add: preserves_def run_simps R_refl)

lemma deref: "preserves R (deref p)"
  by (cases p) (simp_all add: preserves_def run_simps R_refl)

lemma liftS: "preserves R (liftS r)"
  by (cases r) (simp_all add: preserves_def run_simps R_refl)

lemma liftO: "preserves R (liftO r)"
  by (simp add: preserves_def run_simps R_refl)

lemma modifyE: "(\<And>s. R s (f s)) \<Longrightarrow> preserves R (modifyE f)"
  by (simp add: preserves_def run_simps)

lemma bindE:
  assumes "preserves R m" and "\<And>x. preserves R (f x)"
  shows "preserves R (bindE m f)"
proof (rule preservesI)
  fix s r u
  assume run: "Prelude.bindE m f s = (r, u)"
  obtain q t where m: "m s = (q, t)" by fastforce
  with assms(1) have st: "R s t" by (rule preservesD)
  show "R s u"
  proof (cases q)
    case (Ok x)
    with run m have "f x t = (r, u)" by (simp add: run_simps)
    with assms(2) have "R t u" by (rule preservesD)
    with st show ?thesis by (rule R_trans)
  qed (use run m st in \<open>simp_all add: run_simps\<close>)
qed

lemma attempt: "preserves R m \<Longrightarrow> preserves R (attempt m)"
  by (rule preservesI) (auto simp: run_simps dest: preservesD split: prod.splits outcome.splits)

lemma whenE: "(b \<Longrightarrow> preserves R m) \<Longrightarrow> preserves R (whenE b m)"
  by (simp add: whenE_def ret)

lemma forE: "(\<And>x. x \<in> set xs \<Longrightarrow> preserves R (f x)) \<Longrightarrow> preserves R (forE f xs)"
  by (induction xs) (auto intro!: ret bindE)

lemma foldE: "(\<And>a x. x \<in> set xs \<Longrightarrow> preserves R (f a x)) \<Longrightarrow> preserves R (foldE f acc xs)"
  by (induction xs arbitrary: acc) (auto intro!: ret bindE)

lemma mapE: "(\<And>x. x \<in> set xs \<Longrightarrow> preserves R (f x)) \<Longrightarrow> preserves R (mapE f xs)"
  by (induction xs) (auto intro!: ret bindE)

lemma if_prog:
  "(b \<Longrightarrow> preserves R m) \<Longrightarrow> (\<not> b \<Longrightarrow> preserves R n) \<Longrightarrow> preserves R (if b then m else n)"
  by simp

lemma findE: "(\<And>x. x \<in> set xs \<Longrightarrow> preserves R (p x)) \<Longrightarrow> preserves R (findE p xs)"
  by (induction xs) (auto intro!: ret bindE if_prog)

lemma mapErr: "preserves R m \<Longrightarrow> preserves R (mapErr f m)"
  by (rule preservesI) (auto simp: run_simps dest: preservesD split: prod.splits outcome.splits)

lemma case_option_prog:
  "(x = None \<Longrightarrow> preserves R m) \<Longrightarrow> (\<And>y. x = Some y \<Longrightarrow> preserves R (f y)) \<Longrightarrow>
   preserves R (case x of None \<Rightarrow> m | Some y \<Rightarrow> f y)"
  by (cases x) auto

lemma case_sum_prog:
  "(\<And>y. x = Inl y \<Longrightarrow> preserves R (f y)) \<Longrightarrow> (\<And>y. x = Inr y \<Longrightarrow> preserves R (g y)) \<Longrightarrow>
   preserves R (case x of Inl y \<Rightarrow> f y | Inr y \<Rightarrow> g y)"
  by (cases x) auto

lemma case_list_prog:
  "(x = [] \<Longrightarrow> preserves R m) \<Longrightarrow> (\<And>y ys. x = y # ys \<Longrightarrow> preserves R (f y ys)) \<Longrightarrow>
   preserves R (case x of [] \<Rightarrow> m | y # ys \<Rightarrow> f y ys)"
  by (cases x) auto

lemma case_prod_prog:
  "(\<And>y z. x = (y, z) \<Longrightarrow> preserves R (f y z)) \<Longrightarrow> preserves R (case x of (y, z) \<Rightarrow> f y z)"
  by (cases x) auto

lemmas intros = ret failE panicE divergeE getsE deref liftS liftO modifyE bindE attempt whenE forE foldE mapE
  findE mapErr if_prog case_option_prog case_sum_prog case_list_prog case_prod_prog

end

section \<open>Programs that return\<close>

text \<open>A program built without a fuelled loop returns, whatever the state it is run on.\<close>

definition returns :: "('s, 'e, 'a) prog \<Rightarrow> bool" where
  "returns m \<longleftrightarrow> (\<forall>s. fst (m s) \<noteq> Diverged)"

lemma returnsD: "returns m \<Longrightarrow> m s \<noteq> (Diverged, t)"
  by (auto simp: returns_def dest: spec [of _ s])

lemma returns_basics:
  "returns (ret x)" "returns (failE e)" "returns panicE" "returns (getsE f)" "returns (modifyE g)"
  "returns (deref p)" "returns (liftS v)"
  by (cases p; cases v; simp add: returns_def run_simps)+

lemma returns_liftO: "r \<noteq> Diverged \<Longrightarrow> returns (liftO r)"
  by (simp add: returns_def run_simps)

lemma returns_bindE: "returns m \<Longrightarrow> (\<And>x. returns (f x)) \<Longrightarrow> returns (bindE m f)"
  unfolding returns_def bindE_run by (auto split: prod.split outcome.split) (metis fst_conv)

lemma returns_attempt: "returns m \<Longrightarrow> returns (attempt m)"
  unfolding returns_def attempt_run by (auto split: prod.split outcome.split) (metis fst_conv)

lemma returns_mapErr: "returns m \<Longrightarrow> returns (mapErr f m)"
  unfolding returns_def mapErr_run by (auto split: prod.split outcome.split) (metis fst_conv)

lemma returns_if: "(b \<Longrightarrow> returns m) \<Longrightarrow> (\<not> b \<Longrightarrow> returns n) \<Longrightarrow> returns (if b then m else n)"
  by simp

lemma returns_whenE: "(b \<Longrightarrow> returns m) \<Longrightarrow> returns (whenE b m)"
  by (simp add: whenE_def returns_basics)

lemma returns_loops:
  "(\<And>x. returns (f x)) \<Longrightarrow> returns (forE f xs)"
  "(\<And>x. returns (p x)) \<Longrightarrow> returns (findE p xs)"
  "(\<And>x. returns (g x)) \<Longrightarrow> returns (mapE g xs)"
  "(\<And>a x. returns (h a x)) \<Longrightarrow> returns (foldE h acc xs)"
  by (induction xs arbitrary: acc) (auto intro!: returns_basics returns_bindE returns_if)

lemma returns_cases:
  "(x = None \<Longrightarrow> returns m) \<Longrightarrow> (\<And>y. x = Some y \<Longrightarrow> returns (f y)) \<Longrightarrow>
   returns (case x of None \<Rightarrow> m | Some y \<Rightarrow> f y)"
  "(\<And>y. v = Inl y \<Longrightarrow> returns (g y)) \<Longrightarrow> (\<And>y. v = Inr y \<Longrightarrow> returns (h y)) \<Longrightarrow>
   returns (case v of Inl y \<Rightarrow> g y | Inr y \<Rightarrow> h y)"
  "(l = [] \<Longrightarrow> returns m) \<Longrightarrow> (\<And>y ys. l = y # ys \<Longrightarrow> returns (k y ys)) \<Longrightarrow>
   returns (case l of [] \<Rightarrow> m | y # ys \<Rightarrow> k y ys)"
  by (cases x; cases v; cases l; simp)+

lemmas returns_intros = returns_basics returns_liftO returns_bindE returns_attempt returns_mapErr
  returns_if returns_whenE returns_loops returns_cases

section \<open>What successful runs yield\<close>

text \<open>\<open>yields m Q\<close>: whenever \<open>m\<close> succeeds, \<open>Q\<close> holds of its value and the state it leaves.\<close>

definition yields :: "('s, 'e, 'a) prog \<Rightarrow> ('a \<Rightarrow> 's \<Rightarrow> bool) \<Rightarrow> bool" where
  "yields m Q \<longleftrightarrow> (\<forall>s x t. m s = (Ok x, t) \<longrightarrow> Q x t)"

lemma yieldsI: "(\<And>s x t. m s = (Ok x, t) \<Longrightarrow> Q x t) \<Longrightarrow> yields m Q"
  by (simp add: yields_def)

lemma yieldsD: "yields m Q \<Longrightarrow> m s = (Ok x, t) \<Longrightarrow> Q x t"
  by (auto simp: yields_def)

lemma yields_stops: "yields (failE e) Q" "yields panicE Q" "yields divergeE Q"
  by (simp_all add: yields_def run_simps)

lemma yields_bindE: "(\<And>x. yields (f x) Q) \<Longrightarrow> yields (bindE m f) Q"
  by (auto simp: yields_def bindE_Ok)

lemma yields_if: "(b \<Longrightarrow> yields m Q) \<Longrightarrow> (\<not> b \<Longrightarrow> yields n Q) \<Longrightarrow> yields (if b then m else n) Q"
  by simp

lemma yields_cases:
  "(x = None \<Longrightarrow> yields m Q) \<Longrightarrow> (\<And>y. x = Some y \<Longrightarrow> yields (f y) Q) \<Longrightarrow>
   yields (case x of None \<Rightarrow> m | Some y \<Rightarrow> f y) Q"
  "(\<And>y. v = Inl y \<Longrightarrow> yields (g y) Q) \<Longrightarrow> (\<And>y. v = Inr y \<Longrightarrow> yields (h y) Q) \<Longrightarrow>
   yields (case v of Inl y \<Rightarrow> g y | Inr y \<Rightarrow> h y) Q"
  "(l = [] \<Longrightarrow> yields m Q) \<Longrightarrow> (\<And>y ys. l = y # ys \<Longrightarrow> yields (k y ys) Q) \<Longrightarrow>
   yields (case l of [] \<Rightarrow> m | y # ys \<Rightarrow> k y ys) Q"
  by (cases x; cases v; cases l; simp)+

lemmas yields_intros = yields_stops yields_bindE yields_if yields_cases

section \<open>Loops over pure steps that may panic\<close>

text \<open>\<open>collect f xs\<close> concatenates what the steps produce; \<open>None\<close> is a nil dereference in one of them.\<close>

fun collect :: "('a \<Rightarrow> 'b list option) \<Rightarrow> 'a list \<Rightarrow> 'b list option" where
  "collect f [] = Some []"
| "collect f (x # xs) =
     (case f x of None \<Rightarrow> None
      | Some ys \<Rightarrow> (case collect f xs of None \<Rightarrow> None | Some zs \<Rightarrow> Some (ys @ zs)))"

lemma collect_None: "collect f xs = None \<longleftrightarrow> (\<exists>x\<in>set xs. f x = None)"
  by (induction xs) (auto split: option.splits)

lemma collect_Some:
  "collect f xs = Some zs \<Longrightarrow> set zs = (\<Union>x\<in>set xs. set (case f x of None \<Rightarrow> [] | Some ys \<Rightarrow> ys))"
  by (induction xs arbitrary: zs) (auto split: option.splits)

lemma collect_Nil: "collect f xs = Some [] \<longleftrightarrow> (\<forall>x\<in>set xs. f x = Some [])"
  by (induction xs) (auto split: option.splits)

lemma collect_total: "(\<And>x. x \<in> set xs \<Longrightarrow> f x \<noteq> None) \<Longrightarrow> \<exists>zs. collect f xs = Some zs"
  by (metis collect_None option.exhaust)

section \<open>Go maps filled from a list\<close>

text \<open>
  A Go map with iteration is an association list with distinct keys: filling it entry by entry
  overwrites the value of a key it already holds.
\<close>

definition gomap :: "('k \<times> 'v) list \<Rightarrow> ('k \<times> 'v) list" where
  "gomap kvs = fold (\<lambda>(k, v) m. AList.update k v m) kvs []"

lemma gomap_Nil [simp]: "gomap [] = []"
  by (simp add: gomap_def)

lemma gomap_snoc [simp]: "gomap (kvs @ [(k, v)]) = AList.update k v (gomap kvs)"
  by (simp add: gomap_def)

lemma map_of_gomap: "map_of (gomap kvs) = map_of (rev kvs)"
  by (induction kvs rule: rev_induct) (auto simp: fun_eq_iff update_conv')

lemma distinct_gomap: "distinct (List.map fst (gomap kvs))"
  by (induction kvs rule: rev_induct) (auto intro: distinct_update)

lemma keys_gomap: "fst ` set (gomap kvs) = fst ` set kvs"
  by (metis dom_map_of_conv_image_fst map_of_gomap set_rev)

lemma gomap_distinct:
  assumes "distinct (List.map fst kvs)"
  shows "map_of (gomap kvs) = map_of kvs"
  using assms by (simp add: map_of_gomap map_of_inject_set rev_map distinct_map)

end
