(* ===== verification/GoStd.thy ===== *)
theory GoStd
  imports Prelude
begin

text \<open>
  What the code uses of the Go language and its standard library: error values with wrapping
  and \<open>errors.As\<close>, \<open>strings.TrimRight\<close>, \<open>strings.ToLower\<close> and
  \<open>strings.ReplaceAll\<close>, \<open>fmt.Sscanf\<close> for a format \<open>literal%s\<close>, and the unspecified
  iteration order of a map. A Go string is a byte string (\<open>string\<close>, a list of bytes).
\<close>

section \<open>Errors\<close>

text \<open>
  \<open>errors.New\<close> and \<open>fmt.Errorf\<close> are \<open>Errorf\<close> with the format and its arguments left
  unformatted; \<open>fmt.Errorf\<close> with a \<open>%w\<close> verb is \<open>Wrapf\<close> and keeps the wrapped error.
  The AWS SDK's \<open>smithy.APIError\<close> is \<open>ApiError code message\<close>, its
  \<open>smithy.OperationError\<close> wraps the error of a service operation, and an error of the
  Kubernetes client is \<open>K8sError reason message\<close>. \<open>CalleePanic\<close> is no error value of Go: it
  stands in the answer to a call for the panic of the callee, and making the call panics (\<open>invoke\<close>).
\<close>

datatype farg = FS string | FN nat | FL "string list"

datatype error =
    Errorf string "farg list"
  | Wrapf string "farg list" error
  | ApiError string string
  | OperationError string string error
  | K8sError string string
  | CalleePanic

text \<open>\<open>errors.As(err, &ae)\<close> with \<open>var ae smithy.APIError\<close>: the code and message found first on the chain.\<close>

primrec as_api_error :: "error \<Rightarrow> (string \<times> string) option" where
  "as_api_error (Errorf f as) = None"
| "as_api_error (Wrapf f as e) = as_api_error e"
| "as_api_error (ApiError c m) = Some (c, m)"
| "as_api_error (OperationError s n e) = as_api_error e"
| "as_api_error (K8sError r m) = None"
| "as_api_error CalleePanic = None"

lemma as_api_error_returned: "as_api_error e = Some ae \<Longrightarrow> e \<noteq> CalleePanic"
  by auto

text \<open>\<open>errors.As(err, &oe)\<close> with \<open>var oe *smithy.OperationError\<close>: its service and operation.\<close>

primrec as_operation_error :: "error \<Rightarrow> (string \<times> string) option" where
  "as_operation_error (Errorf f as) = None"
| "as_operation_error (Wrapf f as e) = as_operation_error e"
| "as_operation_error (ApiError c m) = None"
| "as_operation_error (OperationError s n e) = Some (s, n)"
| "as_operation_error (K8sError r m) = None"

section \<open>Strings\<close>

definition trim_right :: "string \<Rightarrow> char \<Rightarrow> string" where
  "trim_right s c = rev (dropWhile (\<lambda>d. d = c) (rev s))"

definition lower_char :: "char \<Rightarrow> char" where
  "lower_char c = (let n = of_char c :: nat in if 65 \<le> n \<and> n \<le> 90 then char_of (n + 32) else c)"

definition to_lower :: "string \<Rightarrow> string" where
  "to_lower s = List.map lower_char s"

definition strip_spaces :: "string \<Rightarrow> string" where
  "strip_spaces s = filter (\<lambda>c. c \<noteq> CHR '' '') s"

text \<open>
  \<open>fmt.Sscanf(s, lit + "%s", &v)\<close>, for a literal without spaces and percent signs: match the
  literal byte by byte, skip blanks (a newline is an error), and read the next word. Anything
  behind the word is left unread.
\<close>

definition is_space :: "char \<Rightarrow> bool" where
  "is_space c = (of_char c \<in> {9 :: nat, 10, 11, 12, 13, 32})"

definition scan_word :: "string \<Rightarrow> error + string" where
  "scan_word s = (case dropWhile (\<lambda>c. is_space c \<and> c \<noteq> CHR 0x0A) s of
       [] \<Rightarrow> Inl (Errorf ''unexpected EOF'' [])
     | c # cs \<Rightarrow> if c = CHR 0x0A then Inl (Errorf ''unexpected newline'' [])
                else Inr (takeWhile (\<lambda>d. \<not> is_space d) (c # cs)))"

fun sscanf :: "string \<Rightarrow> string \<Rightarrow> error + string" where
  "sscanf s [] = scan_word s"
| "sscanf [] (l # ls) = Inl (Errorf ''unexpected EOF'' [])"
| "sscanf (c # cs) (l # ls) =
     (if c = l then sscanf cs ls else Inl (Errorf ''input does not match format'' []))"

lemma sscanf_prefix [simp]: "sscanf (lit @ s) lit = scan_word s"
  by (induction lit) simp_all

text \<open>A word is scanned to itself, so the literal and the word are recovered from their concatenation.\<close>

lemma scan_word_word:
  assumes "w \<noteq> []" "\<forall>c\<in>set w. \<not> is_space c"
  shows "scan_word w = Inr w"
proof -
  obtain c cs where w: "w = c # cs" using assms(1) by (cases w) auto
  have "\<not> is_space c" using assms(2) w by simp
  moreover from this have "c \<noteq> CHR 0x0A" by (auto simp: is_space_def)
  moreover have "takeWhile (\<lambda>d. \<not> is_space d) (c # cs) = c # cs"
    using assms(2) w by (metis takeWhile_eq_all_conv)
  ultimately show ?thesis by (simp add: scan_word_def w)
qed

lemma sscanf_Inr_prefix: "sscanf s lit = Inr w \<Longrightarrow> \<exists>rest. s = lit @ rest \<and> scan_word rest = Inr w"
  by (induction s lit rule: sscanf.induct) (auto split: if_splits)

lemma scan_word_nonempty:
  assumes "scan_word s = Inr w"
  shows "w \<noteq> []"
proof (cases "dropWhile (\<lambda>c. is_space c \<and> c \<noteq> CHR 0x0A) s")
  case Nil
  with assms show ?thesis by (simp add: scan_word_def)
next
  case (Cons c cs)
  then have "\<not> (is_space c \<and> c \<noteq> CHR 0x0A)"
    using hd_dropWhile [of "\<lambda>c. is_space c \<and> c \<noteq> CHR 0x0A" s] by simp
  with Cons assms show ?thesis
    by (simp only: scan_word_def list.case) (auto split: if_splits)
qed

lemma trim_right_snoc: "trim_right (s @ [c]) c = trim_right s c"
  by (simp add: trim_right_def)

lemma trim_right_id: "(s = [] \<or> last s \<noteq> c) \<Longrightarrow> trim_right s c = s"
  by (cases s rule: rev_cases) (auto simp: trim_right_def)

lemma trim_right_last: "trim_right s c = [] \<or> last (trim_right s c) \<noteq> c"
  by (induction s rule: rev_induct) (auto simp: trim_right_def)

section \<open>Iterating over a map\<close>

text \<open>
  A \<open>range\<close> over a Go map visits every key once, in an unspecified order. A
  \<open>range_order\<close> is one such choice: a function that permutes the list of keys it is given.
\<close>

typedef range_order = "{f :: string list \<Rightarrow> string list. \<forall>xs. mset (f xs) = mset xs}"
  morphisms visit Range_order
  by (rule exI [of _ id]) simp

setup_lifting type_definition_range_order

lift_definition insertion_order :: range_order is "\<lambda>xs. xs"
  by simp

lift_definition reverse_order :: range_order is rev
  by simp

lemma visit_insertion [simp]: "visit insertion_order xs = xs"
  by transfer simp

lemma visit_reverse [simp]: "visit reverse_order xs = rev xs"
  by transfer simp

lemma mset_visit [simp]: "mset (visit ord xs) = mset xs"
  using visit [of ord] by simp

lemma set_visit [simp]: "set (visit ord xs) = set xs"
  using mset_visit [of ord xs] by (metis set_mset_mset)

lemma distinct_visit [simp]: "distinct (visit ord xs) = distinct xs"
  using mset_visit [of ord xs] by (metis mset_eq_imp_distinct_iff)

lemma length_visit [simp]: "length (visit ord xs) = length xs"
  using mset_visit [of ord xs] by (metis size_mset)

text \<open>The keys of a map filled from a list, each once.\<close>

definition range_keys :: "range_order \<Rightarrow> string list \<Rightarrow> string list" where
  "range_keys ord ks = visit ord (remdups ks)"

lemma set_range_keys [simp]: "set (range_keys ord ks) = set ks"
  by (simp add: range_keys_def)

lemma distinct_range_keys [simp]: "distinct (range_keys ord ks)"
  by (simp add: range_keys_def)

end
