(* ===== verification/Api.thy ===== *)
theory Api
  imports GoStd
begin

text \<open>
  The custom resources of \<open>api/v1alpha2\<close> and \<open>api/v1alpha1\<close> as records, one per Go struct
  and in the order of the source, with the fields the controllers read or write. A pointer is an
  \<open>option\<close> with nil as \<open>None\<close>, an \<open>int32\<close> is a 32-bit word, a slice is a list (a nil
  slice and an empty one are the same list) and a zero time is \<open>None\<close>. Of the Kubernetes
  object metadata the fields below are modelled; resource versions are not.
\<close>

type_synonym int32 = "32 word"

record objectMeta =
  om_Name :: string
  om_Namespace :: string
  om_Labels :: "(string \<times> string) list"
  om_Finalizers :: "string list"
  om_DeletionTimestamp :: "int option"
  om_CreationTimestamp :: int

text \<open>\<open>metav1.Condition\<close>; its transition time is the business of the library that sets it.\<close>

datatype condition_status = ConditionTrue | ConditionFalse | ConditionUnknown

record condition =
  cd_Type :: string
  cd_Status :: condition_status
  cd_Reason :: string
  cd_Message :: string

record secretReference =
  sr_Name :: string
  sr_Namespace :: string

section \<open>VpcEndpoint\<close>

record securityGroupRule =
  sgr_CidrIp :: string
  sgr_FromPort :: int32
  sgr_ToPort :: int32
  sgr_Protocol :: string

record securityGroup =
  sg_IngressRules :: "securityGroupRule list"
  sg_EgressRules :: "securityGroupRule list"
  sg_UseVpcCidr :: bool

record tag =
  tag_Key :: string
  tag_Value :: string

record vpc =
  vpc_AutoDiscoverSubnets :: bool
  vpc_SubnetIds :: "string list"
  vpc_Ids :: "string list"
  vpc_Tags :: "tag list"
  vpc_SubnetTags :: "tag list"

record externalNameService =
  ens_Name :: string

record route53HostedZoneRecord =
  rec_Hostname :: string
  rec_ExternalNameService :: externalNameService

record dnsSelector =
  dns_Name :: string

record objectFieldSelector =
  ofs_FieldPath :: string

record hostedControlPlaneSelector =
  hcp_NamespaceFieldRef :: "objectFieldSelector option"

record domainNameSource =
  dns_DnsRef :: "dnsSelector option"
  dns_HostedControlPlaneRef :: "hostedControlPlaneSelector option"

record domainName =
  dn_Name :: string
  dn_ValueFrom :: "domainNameSource option"

record associatedVpc =
  av_CredentialsSecretRef :: "secretReference option"
  av_VpcId :: string
  av_Region :: string

record route53PrivateHostedZone =
  phz_AutoDiscover :: bool
  phz_AssociatedVpcs :: "associatedVpc list"
  phz_DomainName :: string
  phz_DomainNameRef :: "domainName option"
  phz_Id :: string
  phz_Record :: route53HostedZoneRecord

record customDns =
  dns_Route53PrivateHostedZone :: route53PrivateHostedZone

record awsEndpointSelector =
  aes_Name :: string

record serviceNameSource =
  sns_AwsEndpointServiceRef :: "awsEndpointSelector option"

record serviceName =
  sn_Name :: string
  sn_ValueFrom :: "serviceNameSource option"

record vpcEndpointSpec =
  sp_ServiceName :: string
  sp_ServiceNameRef :: "serviceName option"
  sp_SecurityGroup :: securityGroup
  sp_AssumeRoleArn :: string
  sp_AWSCredentialOverrideRef :: "secretReference option"
  sp_Region :: string
  sp_EnablePrivateDns :: bool
  sp_Vpc :: vpc
  sp_CustomDns :: customDns

definition AWSVpcEndpointCondition :: string where
  "AWSVpcEndpointCondition = ''AWSVpcEndpointReady''"

definition AWSSecurityGroupCondition :: string where
  "AWSSecurityGroupCondition = ''AWSSecurityGroupReady''"

definition ExternalNameServiceCondition :: string where
  "ExternalNameServiceCondition = ''ExternalNameServiceReady''"

definition AWSRoute53RecordCondition :: string where
  "AWSRoute53RecordCondition = ''AWSRoute53RecordReady''"

definition AWSRoute53TagsCondition :: string where
  "AWSRoute53TagsCondition = ''AWSRoute53TagsReady''"

lemmas condition_type_defs = AWSVpcEndpointCondition_def AWSSecurityGroupCondition_def
  ExternalNameServiceCondition_def AWSRoute53RecordCondition_def AWSRoute53TagsCondition_def

lemma condition_types_distinct [simp]:
  "distinct [AWSVpcEndpointCondition, AWSSecurityGroupCondition, ExternalNameServiceCondition,
     AWSRoute53RecordCondition, AWSRoute53TagsCondition]"
  by (simp add: condition_type_defs)

lemmas condition_types_neq [simp] = condition_types_distinct [simplified]

record vpcEndpointStatus =
  st_Status :: string
  st_SecurityGroupId :: string
  st_VPCId :: string
  st_VPCEndpointId :: string
  st_VPCEndpointServiceName :: string
  st_HostedZoneId :: string
  st_ResourceRecordSet :: string
  st_InfraId :: string
  st_Conditions :: "condition list"

record vpcEndpoint =
  ve_Meta :: objectMeta
  ve_Spec :: vpcEndpointSpec
  ve_Status :: vpcEndpointStatus

abbreviation ve_Name :: "vpcEndpoint \<Rightarrow> string" where
  "ve_Name v \<equiv> om_Name (ve_Meta v)"

abbreviation ve_Namespace :: "vpcEndpoint \<Rightarrow> string" where
  "ve_Namespace v \<equiv> om_Namespace (ve_Meta v)"

abbreviation ve_Zone :: "vpcEndpoint \<Rightarrow> route53PrivateHostedZone" where
  "ve_Zone v \<equiv> dns_Route53PrivateHostedZone (sp_CustomDns (ve_Spec v))"

section \<open>VpcEndpointTemplate\<close>

record vpceTemplateSpec =
  vts_Meta :: objectMeta
  vts_Spec :: vpcEndpointSpec

definition HCPVpcEndpointTemplateType :: string where
  "HCPVpcEndpointTemplateType = ''HostedControlPlane''"

text \<open>\<open>metav1.LabelSelector\<close>: the match labels, and the match expressions in printed form.\<close>

record labelSelector =
  ls_MatchLabels :: "(string \<times> string) list"
  ls_MatchExpressions :: "string list"

record vpcEndpointTemplateSpec =
  vt_Type :: string
  vt_Selector :: labelSelector
  vt_Template :: vpceTemplateSpec

record vpcEndpointTemplate =
  vet_Meta :: objectMeta
  vet_Spec :: vpcEndpointTemplateSpec

section \<open>VpcEndpointAcceptance\<close>

record aaoAccountAcceptanceCriteria =
  aao_Namespace :: string

record acceptanceCriteria =
  ac_AwsAccountOperatorAccount :: "aaoAccountAcceptanceCriteria option"
  ac_AlwaysAccept :: bool

record vpcEndpointAcceptanceSpec =
  vas_Id :: string
  vas_AssumeRoleArn :: string
  vas_Region :: string
  vas_AcceptanceCriteria :: acceptanceCriteria

record vpcEndpointAcceptance =
  va_Meta :: objectMeta
  va_Spec :: vpcEndpointAcceptanceSpec

section \<open>AvoConfig\<close>

record avoConfig =
  cfg_EnableVpcEndpointController :: "bool option"
  cfg_EnableVpcEndpointAcceptanceController :: "bool option"
  cfg_EnableVpcEndpointTemplateController :: "bool option"
  cfg_EnablePrivateDns :: "bool option"

end
