(* ===== verification/World.thy ===== *)
theory World
  imports Api
begin

text \<open>
  Everything the operator talks to. The AWS and Kubernetes APIs, the clock and the helper
  libraries are not under \<open>src/\<close>: they are the parameter \<open>env\<close> of the model, a record of
  response functions that is never defined here. Every call is an \<open>event\<close> with its arguments
  (and, for AWS, the client it is made with); a response function sees the whole history of
  events up to and including the call, so a response may depend on anything the operator did
  before, and every theorem over all \<open>env\<close> covers every behaviour of the outside world. The
  state of a controller extends \<open>world\<close>, whose only field is that history.
\<close>

section \<open>Data of the AWS APIs\<close>

datatype awsCredentials = DefaultCredentials | AssumedRole string | StaticKeys string string

record awsConfig =
  aws_Region :: string
  aws_Credentials :: awsCredentials

record ec2Filter =
  flt_Name :: string
  flt_Values :: "string list"

record ec2Tag =
  et_Key :: "string option"
  et_Value :: "string option"

record ec2SecurityGroup =
  esg_GroupId :: "string option"
  esg_Tags :: "ec2Tag list"

record ec2SecurityGroupRule =
  esr_IsEgress :: "bool option"
  esr_IpProtocol :: "string option"
  esr_FromPort :: "int32 option"
  esr_ToPort :: "int32 option"
  esr_CidrIpv4 :: "string option"
  esr_ReferencedGroupInfo :: "string option option"

record ipPermission =
  ip_Protocol :: string
  ip_FromPort :: int32
  ip_ToPort :: int32
  ip_Ranges :: "string list"
  ip_UserIdGroupPairs :: "string option list"

record authorizeInput =
  au_GroupId :: "string option"
  au_IpPermissions :: "ipPermission list"
  au_Tags :: "ec2Tag list"

record ec2VpcEndpoint =
  evp_VpcEndpointId :: "string option"
  evp_VpcId :: "string option"
  evp_State :: string
  evp_PrivateDnsEnabled :: "bool option"
  evp_SubnetIds :: "string list"
  evp_Groups :: "string option list"
  evp_DnsEntries :: "string option list"

record modifyVpcEndpointInput =
  mv_VpcEndpointId :: "string option"
  mv_PrivateDnsEnabled :: "bool option"
  mv_AddSubnetIds :: "string list"
  mv_RemoveSubnetIds :: "string list"
  mv_AddSecurityGroupIds :: "string list"
  mv_RemoveSecurityGroupIds :: "string list"

record ec2Vpc =
  ev_VpcId :: "string option"
  ev_CidrBlock :: "string option"

record ec2Subnet =
  es_SubnetId :: "string option"
  es_VpcId :: "string option"
  es_AvailabilityZone :: "string option"

record vpcEndpointConnection =
  vc_VpcEndpointId :: "string option"
  vc_VpcEndpointOwner :: "string option"

record hostedZone =
  hz_Id :: "string option"
  hz_Name :: "string option"
  hz_PrivateZone :: "bool option"

record hostedZoneSummary =
  hs_HostedZoneId :: "string option"
  hs_Name :: "string option"

record getHostedZoneOutput =
  gh_HostedZone :: "hostedZone option"
  gh_VPCs :: "string option list"

record resourceRecordSet =
  rrs_Name :: "string option"
  rrs_Type :: string
  rrs_TTL :: "int option"
  rrs_Values :: "string option list"

section \<open>Data of the Kubernetes API\<close>

record platformStatus =
  ps_Type :: string
  ps_AWSRegion :: "string option"

record infrastructure =
  inf_PlatformStatus :: "platformStatus option"
  inf_InfrastructureName :: string

record servicePublishing =
  svp_Service :: string
  svp_Type :: string
  svp_RouteHostname :: "string option"

record hostedControlPlane =
  hc_Meta :: objectMeta
  hc_InfraID :: string
  hc_Services :: "servicePublishing list"

record service =
  svc_Name :: string
  svc_Namespace :: string
  svc_Type :: string
  svc_ExternalName :: string
  svc_Owners :: "string list"

section \<open>Events\<close>

datatype ec2Call =
    DoDescribeSecurityGroups "ec2Filter list" "string list"
  | DoCreateSecurityGroup string string "ec2Tag list" string
  | DoWaitSecurityGroupExists string
  | DoDeleteSecurityGroup string
  | DoDescribeSecurityGroupRules "ec2Filter list"
  | DoAuthorizeSecurityGroupIngress authorizeInput
  | DoAuthorizeSecurityGroupEgress authorizeInput
  | DoCreateTags "string list" "ec2Tag list"
  | DoDescribeVpcEndpoints "ec2Filter list" "string list"
  | DoCreateVpcEndpoint string string "ec2Tag list"
  | DoDeleteVpcEndpoints "string list"
  | DoModifyVpcEndpoint modifyVpcEndpointInput
  | DoDescribeVpcs "ec2Filter list" "string list"
  | DoDescribeSubnets "ec2Filter list" "string list"
  | DoDescribeVpcEndpointServices "string list"
  | DoDescribeVpcEndpointConnections "ec2Filter list"
  | DoAcceptVpcEndpointConnections string "string list"

datatype r53Call =
    DoGetHostedZone string
  | DoListHostedZonesByVPC string string
  | DoListHostedZonesByName string
  | DoListResourceRecordSets string
  | DoUpsertResourceRecordSet resourceRecordSet string
  | DoDeleteResourceRecordSet resourceRecordSet string
  | DoCreateHostedZone string string string
  | DoDeleteHostedZone string
  | DoListTagsForResource string
  | DoChangeTagsForResource string "ec2Tag list"
  | DoCreateVPCAssociationAuthorization string string string
  | DoAssociateVPCWithHostedZone string string string

datatype k8sCall =
    DoGetVpcEndpoint string string
  | DoUpdateStatus vpcEndpoint
  | DoUpdateVpcEndpoint vpcEndpoint
  | DoCreateVpcEndpointCR vpcEndpoint
  | DoDeleteVpcEndpointCR vpcEndpoint
  | DoListVpcEndpoints string "string option"
  | DoGetTemplate string string
  | DoUpdateTemplate vpcEndpointTemplate
  | DoListTemplates
  | DoGetAcceptance string string
  | DoListAccounts string
  | DoGetInfrastructure string
  | DoGetDNS string
  | DoListHostedControlPlanes string
  | DoGetAWSEndpointService string string
  | DoGetSecret string string
  | DoGetService string string
  | DoCreateService service
  | DoUpdateService service

datatype metric =
    GaugeSet string "string list" int
  | GaugeInc string "string list"
  | DeleteLabelValues string "string list"
  | CounterInc string "string list"
  | Observe string int

datatype event =
    Ec2 awsConfig ec2Call
  | R53 awsConfig r53Call
  | K8s k8sCall
  | Metric metric
  | Recorded string string
  | LoadDefaultConfig string
  | Slept int
  | Enqueued string string

text \<open>
  Which calls can change something on the other side: the AWS calls that create, modify or delete,
  and the Kubernetes calls that write an object or its status.
\<close>

fun ec2_writes :: "ec2Call \<Rightarrow> bool" where
  "ec2_writes (DoDescribeSecurityGroups _ _) = False"
| "ec2_writes (DoWaitSecurityGroupExists _) = False"
| "ec2_writes (DoDescribeSecurityGroupRules _) = False"
| "ec2_writes (DoDescribeVpcEndpoints _ _) = False"
| "ec2_writes (DoDescribeVpcs _ _) = False"
| "ec2_writes (DoDescribeSubnets _ _) = False"
| "ec2_writes (DoDescribeVpcEndpointServices _) = False"
| "ec2_writes (DoDescribeVpcEndpointConnections _) = False"
| "ec2_writes _ = True"

fun r53_writes :: "r53Call \<Rightarrow> bool" where
  "r53_writes (DoGetHostedZone _) = False"
| "r53_writes (DoListHostedZonesByVPC _ _) = False"
| "r53_writes (DoListHostedZonesByName _) = False"
| "r53_writes (DoListResourceRecordSets _) = False"
| "r53_writes (DoListTagsForResource _) = False"
| "r53_writes _ = True"

fun k8s_writes :: "k8sCall \<Rightarrow> bool" where
  "k8s_writes (DoUpdateStatus _) = True"
| "k8s_writes (DoUpdateVpcEndpoint _) = True"
| "k8s_writes (DoCreateVpcEndpointCR _) = True"
| "k8s_writes (DoDeleteVpcEndpointCR _) = True"
| "k8s_writes (DoUpdateTemplate _) = True"
| "k8s_writes (DoCreateService _) = True"
| "k8s_writes (DoUpdateService _) = True"
| "k8s_writes _ = False"

fun aws_read :: "event \<Rightarrow> bool" where
  "aws_read (Ec2 _ c) = (\<not> ec2_writes c)"
| "aws_read (R53 _ c) = (\<not> r53_writes c)"
| "aws_read _ = False"

fun aws_write :: "event \<Rightarrow> bool" where
  "aws_write (Ec2 _ c) = ec2_writes c"
| "aws_write (R53 _ c) = r53_writes c"
| "aws_write _ = False"

fun k8s_read :: "event \<Rightarrow> bool" where
  "k8s_read (K8s c) = (\<not> k8s_writes c)"
| "k8s_read _ = False"

type_synonym 'a responder = "event list \<Rightarrow> error + 'a"

section \<open>The environment\<close>

record ec2Api =
  ec2_DescribeSecurityGroups :: "ec2SecurityGroup list responder"
  ec2_CreateSecurityGroup :: "string option responder"
  ec2_WaitSecurityGroupExists :: "unit responder"
  ec2_DeleteSecurityGroup :: "unit responder"
  ec2_DescribeSecurityGroupRules :: "ec2SecurityGroupRule list responder"
  ec2_AuthorizeSecurityGroupIngress :: "ec2SecurityGroupRule list responder"
  ec2_AuthorizeSecurityGroupEgress :: "ec2SecurityGroupRule list responder"
  ec2_CreateTags :: "unit responder"
  ec2_DescribeVpcEndpoints :: "ec2VpcEndpoint list responder"
  ec2_VpcEndpointPages :: "event list \<Rightarrow> (error + ec2VpcEndpoint list) list"
  ec2_CreateVpcEndpoint :: "ec2VpcEndpoint option responder"
  ec2_DeleteVpcEndpoints :: "unit responder"
  ec2_ModifyVpcEndpoint :: "unit responder"
  ec2_DescribeVpcs :: "ec2Vpc list responder"
  ec2_DescribeSubnets :: "ec2Subnet list responder"
  ec2_DescribeVpcEndpointServices :: "string list list responder"
  ec2_DescribeVpcEndpointConnections :: "vpcEndpointConnection list responder"
  ec2_AcceptVpcEndpointConnections :: "unit responder"

record r53Api =
  r53_GetHostedZone :: "getHostedZoneOutput responder"
  r53_ListHostedZonesByVPC :: "hostedZoneSummary list responder"
  r53_ListHostedZonesByName :: "hostedZone list responder"
  r53_ListResourceRecordSets :: "resourceRecordSet list responder"
  r53_ChangeResourceRecordSets :: "unit responder"
  r53_CreateHostedZone :: "hostedZone option responder"
  r53_DeleteHostedZone :: "unit responder"
  r53_ListTagsForResource :: "ec2Tag list option responder"
  r53_ChangeTagsForResource :: "unit responder"
  r53_CreateVPCAssociationAuthorization :: "unit responder"
  r53_AssociateVPCWithHostedZone :: "unit responder"

record k8sApi =
  k8s_GetVpcEndpoint :: "vpcEndpoint responder"
  k8s_UpdateStatus :: "unit responder"
  k8s_UpdateVpcEndpoint :: "unit responder"
  k8s_CreateVpcEndpoint :: "unit responder"
  k8s_DeleteVpcEndpoint :: "unit responder"
  k8s_ListVpcEndpoints :: "vpcEndpoint list responder"
  k8s_GetTemplate :: "vpcEndpointTemplate responder"
  k8s_UpdateTemplate :: "unit responder"
  k8s_ListTemplates :: "vpcEndpointTemplate list responder"
  k8s_GetAcceptance :: "vpcEndpointAcceptance responder"
  k8s_ListAccounts :: "string list responder"
  k8s_GetInfrastructure :: "infrastructure responder"
  k8s_GetDNS :: "string responder"
  k8s_ListHostedControlPlanes :: "hostedControlPlane list responder"
  k8s_GetAWSEndpointService :: "string responder"
  k8s_GetSecret :: "(string \<rightharpoonup> string) responder"
  k8s_GetService :: "service responder"
  k8s_CreateService :: "unit responder"
  k8s_UpdateService :: "unit responder"

text \<open>
  The helper libraries the source calls, the clock (in nanoseconds), whether the context of the
  reconciliation was cancelled, and the text of an error (\<open>err.Error()\<close>).
\<close>

record libApi =
  lib_SetStatusCondition :: "condition list \<Rightarrow> condition \<Rightarrow> condition list"
  lib_IsStatusConditionTrue :: "condition list \<Rightarrow> string \<Rightarrow> bool"
  lib_ContainsFinalizer :: "string list \<Rightarrow> string \<Rightarrow> bool"
  lib_AddFinalizer :: "string list \<Rightarrow> string \<Rightarrow> string list"
  lib_RemoveFinalizer :: "string list \<Rightarrow> string \<Rightarrow> string list"
  lib_SetControllerReference :: "vpcEndpoint \<Rightarrow> service \<Rightarrow> error + service"
  lib_IsNotFound :: "error \<Rightarrow> bool"
  lib_IgnoreNotFound :: "error \<Rightarrow> error option"
  lib_LabelSelectorAsSelector :: "labelSelector \<Rightarrow> error + string"
  lib_AsValidatedSelector :: "(string \<times> string) list \<Rightarrow> error + string"
  lib_LoadDefaultConfig :: "unit responder"
  lib_Now :: "event list \<Rightarrow> int"
  lib_Range :: "event list \<Rightarrow> range_order"
  lib_ContextErr :: "event list \<Rightarrow> error option"
  lib_ErrorText :: "error \<Rightarrow> string"

record env =
  ec2 :: ec2Api
  r53 :: r53Api
  k8s :: k8sApi
  lib :: libApi

section \<open>Calls\<close>

record world =
  history :: "event list"

text \<open>An answer is a value or an error, or the callee panics; then the caller panics.\<close>

abbreviation raised :: "error \<Rightarrow> (error, 'a) outcome" where
  "raised e \<equiv> (if e = CalleePanic then Panic else Err e)"

definition invoke :: "event \<Rightarrow> 'a responder \<Rightarrow> ('x world_scheme, error, 'a) prog" where
  "invoke ev respond = (\<lambda>s.
     let h = history s @ [ev]; s' = s\<lparr>history := h\<rparr>
     in case respond h of Inl e \<Rightarrow> (raised e, s') | Inr x \<Rightarrow> (Ok x, s'))"

definition emit :: "event \<Rightarrow> ('x world_scheme, error, unit) prog" where
  "emit ev = modifyE (\<lambda>s. s\<lparr>history := history s @ [ev]\<rparr>)"

definition now :: "env \<Rightarrow> ('x world_scheme, error, int) prog" where
  "now E = getsE (\<lambda>s. lib_Now (lib E) (history s))"

definition range_order_now :: "env \<Rightarrow> ('x world_scheme, error, range_order) prog" where
  "range_order_now E = getsE (\<lambda>s. lib_Range (lib E) (history s))"

lemma invoke_run [run_simps]:
  "invoke ev respond s =
     (case respond (history s @ [ev]) of
        Inl e \<Rightarrow> (raised e, s\<lparr>history := history s @ [ev]\<rparr>)
      | Inr x \<Rightarrow> (Ok x, s\<lparr>history := history s @ [ev]\<rparr>))"
  by (simp add: invoke_def Let_def)

lemma invoke_eq:
  "invoke ev respond s = (r, u) \<longleftrightarrow>
     u = s\<lparr>history := history s @ [ev]\<rparr> \<and>
     r = (case respond (history s @ [ev]) of Inl e \<Rightarrow> raised e | Inr x \<Rightarrow> Ok x)"
  by (auto simp: invoke_run split: sum.splits if_splits)

lemma invoke_Ok:
  "invoke ev respond s = (Ok x, u) \<longleftrightarrow>
     u = s\<lparr>history := history s @ [ev]\<rparr> \<and> respond (history s @ [ev]) = Inr x"
  by (auto simp: invoke_run split: sum.splits if_splits)

lemma invoke_Err:
  "invoke ev respond s = (Err e, u) \<longleftrightarrow>
     u = s\<lparr>history := history s @ [ev]\<rparr> \<and> respond (history s @ [ev]) = Inl e \<and> e \<noteq> CalleePanic"
  by (auto simp: invoke_run split: sum.splits if_splits)

lemma invoke_Panic:
  "invoke ev respond s = (Panic, u) \<longleftrightarrow>
     u = s\<lparr>history := history s @ [ev]\<rparr> \<and> respond (history s @ [ev]) = Inl CalleePanic"
  by (auto simp: invoke_run split: sum.splits if_splits)

lemma emit_run [run_simps]: "emit ev s = (Ok (), s\<lparr>history := history s @ [ev]\<rparr>)"
  by (simp add: emit_def run_simps)

lemma emit_eq: "emit ev s = (r, u) \<longleftrightarrow> r = Ok () \<and> u = s\<lparr>history := history s @ [ev]\<rparr>"
  by (auto simp: emit_run)

lemma now_run [run_simps]: "now E s = (Ok (lib_Now (lib E) (history s)), s)"
  by (simp add: now_def run_simps)

lemma now_eq: "now E s = (r, u) \<longleftrightarrow> u = s \<and> r = Ok (lib_Now (lib E) (history s))"
  by (auto simp: now_run)

lemma range_order_now_run [run_simps]:
  "range_order_now E s = (Ok (lib_Range (lib E) (history s)), s)"
  by (simp add: range_order_now_def run_simps)

lemma range_order_now_eq:
  "range_order_now E s = (r, u) \<longleftrightarrow> u = s \<and> r = Ok (lib_Range (lib E) (history s))"
  by (auto simp: range_order_now_run)

lemma invoke_not_Diverged: "invoke ev respond s \<noteq> (Diverged, u)"
  by (auto simp: invoke_run split: sum.splits if_splits)

lemma returns_events:
  "returns (invoke ev respond)" "returns (emit ev)" "returns (now E)" "returns (range_order_now E)"
  by (auto simp: returns_def run_simps split: sum.split)

lemmas world_Ok = run_Ok invoke_Ok emit_eq now_eq range_order_now_eq
lemmas world_Panic = run_Panic invoke_Panic emit_eq now_eq range_order_now_eq
lemmas world_Err = run_Err invoke_Err emit_eq now_eq range_order_now_eq

section \<open>Frames of calls\<close>

text \<open>
  \<open>emits A\<close>: the history grows, by events that satisfy \<open>A\<close>. \<open>calls A\<close>: in addition nothing
  else of the state changes, as for the methods of the AWS clients.
\<close>

definition emits :: "(event \<Rightarrow> bool) \<Rightarrow> 'x world_scheme \<Rightarrow> 'x world_scheme \<Rightarrow> bool" where
  "emits A s s' \<longleftrightarrow> (\<exists>tr. history s' = history s @ tr \<and> (\<forall>e\<in>set tr. A e))"

definition calls :: "(event \<Rightarrow> bool) \<Rightarrow> 'x world_scheme \<Rightarrow> 'x world_scheme \<Rightarrow> bool" where
  "calls A s s' \<longleftrightarrow> (\<exists>tr. s' = s\<lparr>history := history s @ tr\<rparr> \<and> (\<forall>e\<in>set tr. A e))"

lemma emits_refl: "emits A s s"
  by (simp add: emits_def)

lemma emits_trans: "emits A s t \<Longrightarrow> emits A t u \<Longrightarrow> emits A s u"
  by (force simp: emits_def)

interpretation em: frame "emits A :: 'x world_scheme \<Rightarrow> 'x world_scheme \<Rightarrow> bool" for A
  by unfold_locales (rule emits_refl, rule emits_trans)

lemma calls_refl: "calls A s s"
  unfolding calls_def by (rule exI [of _ "[]"]) simp

lemma calls_trans:
  assumes "calls A s t" "calls A t u"
  shows "calls A s u"
proof -
  obtain tr where t: "t = s\<lparr>history := history s @ tr\<rparr>" "\<forall>e\<in>set tr. A e"
    using assms(1) by (auto simp: calls_def)
  obtain tr' where u: "u = t\<lparr>history := history t @ tr'\<rparr>" "\<forall>e\<in>set tr'. A e"
    using assms(2) by (auto simp: calls_def)
  show ?thesis
    unfolding calls_def by (rule exI [of _ "tr @ tr'"]) (use t u in auto)
qed

interpretation cl: frame "calls A :: 'x world_scheme \<Rightarrow> 'x world_scheme \<Rightarrow> bool" for A
  by unfold_locales (rule calls_refl, rule calls_trans)

lemma calls_emits: "calls A s t \<Longrightarrow> emits A s t"
  by (auto simp: calls_def emits_def)

lemma calls_weaken: "calls A s t \<Longrightarrow> (\<And>e. A e \<Longrightarrow> B e) \<Longrightarrow> calls B s t"
  by (auto simp: calls_def)

lemma emits_weaken: "emits A s t \<Longrightarrow> (\<And>e. A e \<Longrightarrow> B e) \<Longrightarrow> emits B s t"
  by (auto simp: emits_def)

lemma preserves_calls_emits: "preserves (calls A) m \<Longrightarrow> preserves (emits A) m"
  by (simp add: preserves_def calls_emits)

lemma preserves_emits_weaken:
  "preserves (emits A) m \<Longrightarrow> (\<And>e. A e \<Longrightarrow> B e) \<Longrightarrow> preserves (emits B) m"
  by (auto simp: preserves_def intro: emits_weaken)

lemma preserves_calls_weaken:
  "preserves (calls A) m \<Longrightarrow> (\<And>e. A e \<Longrightarrow> B e) \<Longrightarrow> preserves (calls B) m"
  by (auto simp: preserves_def intro: calls_weaken)

lemma calls_step: "A ev \<Longrightarrow> calls A s (s\<lparr>history := history s @ [ev]\<rparr>)"
  by (auto simp: calls_def)

lemma calls_invoke: "A ev \<Longrightarrow> preserves (calls A) (invoke ev respond)"
  by (rule preservesI) (auto simp: invoke_eq intro: calls_step)

lemma calls_emit: "A ev \<Longrightarrow> preserves (calls A) (emit ev)"
  by (rule preservesI) (auto simp: emit_eq intro: calls_step)

lemma calls_now: "preserves (calls A) (now E)"
  by (simp add: now_def cl.getsE)

lemma calls_range: "preserves (calls A) (range_order_now E)"
  by (simp add: range_order_now_def cl.getsE)

lemmas calls_intros = calls_invoke calls_emit calls_now calls_range cl.ret cl.failE cl.panicE cl.divergeE
  cl.getsE cl.deref cl.liftS cl.liftO cl.bindE cl.attempt cl.whenE cl.forE cl.foldE cl.mapE cl.findE cl.mapErr cl.if_prog
  cl.case_option_prog cl.case_sum_prog cl.case_list_prog cl.case_prod_prog

lemmas emits_intros = calls_invoke [THEN preserves_calls_emits]
  calls_emit [THEN preserves_calls_emits] calls_now [THEN preserves_calls_emits]
  calls_range [THEN preserves_calls_emits] em.ret em.failE em.panicE em.divergeE
  em.getsE em.deref em.liftS em.liftO em.bindE em.attempt em.whenE em.forE em.foldE em.mapE em.findE em.mapErr em.if_prog
  em.case_option_prog em.case_sum_prog em.case_list_prog em.case_prod_prog

text \<open>A change of the state that leaves the history alone emits nothing.\<close>

lemma emits_modify: "(\<And>s. history (f s) = history s) \<Longrightarrow> preserves (emits A) (modifyE f)"
  by (rule em.modifyE) (simp add: emits_def)

section \<open>The events of a run\<close>

definition new_events :: "'x world_scheme \<Rightarrow> 'x world_scheme \<Rightarrow> event list" where
  "new_events s t = drop (length (history s)) (history t)"

lemma new_events_append [simp]: "history t = history s @ tr \<Longrightarrow> new_events s t = tr"
  by (simp add: new_events_def)

lemma new_events_emits: "emits A s t \<Longrightarrow> e \<in> set (new_events s t) \<Longrightarrow> A e"
  by (auto simp: emits_def)

lemma emits_history: "emits A s t \<Longrightarrow> history t = history s @ new_events s t"
  by (auto simp: emits_def)

lemma new_events_trans:
  assumes "emits A s t" "emits B t u"
  shows "new_events s u = new_events s t @ new_events t u"
  using assms by (auto simp: emits_def)

lemma emits_True: "preserves (emits A) m \<Longrightarrow> preserves (emits (\<lambda>_. True)) m"
  by (rule preserves_emits_weaken) simp_all

lemma emits_any: "emits A s t \<Longrightarrow> emits (\<lambda>_. True) s t"
  by (rule emits_weaken) simp_all

lemma emits_any_prog: "preserves (emits A) m \<Longrightarrow> preserves (emits (\<lambda>_. True)) m"
  by (rule preserves_emits_weaken) simp_all

text \<open>An event of a sequence belongs to the part that can emit it.\<close>

lemma event_later:
  assumes run: "bindE m f s = (r, u)" and e: "e \<in> set (new_events s u)"
    and m: "preserves (emits A) m" and f: "\<And>x. preserves (emits B) (f x)" and "\<not> A e"
  obtains x t where "m s = (Ok x, t)" "f x t = (r, u)" "e \<in> set (new_events t u)" "emits A s t"
proof -
  obtain q t where mt: "m s = (q, t)" by fastforce
  have st: "emits A s t" using m mt by (rule preservesD)
  show thesis
  proof (cases q)
    case (Ok x)
    with run mt have ft: "f x t = (r, u)" by (simp add: run_simps)
    have tu: "emits B t u" using f ft by (rule preservesD)
    have "e \<in> set (new_events t u)"
      using e new_events_trans [OF st tu] new_events_emits [OF st] assms(5) by auto
    with Ok mt ft st that show thesis by blast
  qed (use run mt e new_events_emits [OF st] assms(5) in \<open>auto simp: run_simps\<close>)
qed

lemma event_earlier:
  assumes run: "bindE m f s = (r, u)" and e: "e \<in> set (new_events s u)"
    and m: "preserves (emits A) m" and f: "\<And>x. preserves (emits B) (f x)" and "\<not> B e"
  obtains q t where "m s = (q, t)" "e \<in> set (new_events s t)"
proof -
  obtain q t where mt: "m s = (q, t)" by fastforce
  have st: "emits A s t" using m mt by (rule preservesD)
  show thesis
  proof (cases q)
    case (Ok x)
    with run mt have ft: "f x t = (r, u)" by (simp add: run_simps)
    have tu: "emits B t u" using f ft by (rule preservesD)
    have "e \<in> set (new_events s t)"
      using e new_events_trans [OF st tu] new_events_emits [OF tu] assms(5) by auto
    with mt that show thesis by blast
  qed (use run mt e that in \<open>auto simp: run_simps\<close>)
qed

text \<open>A run that starts with a call has that call among its events.\<close>

lemma attempted_event:
  assumes "bindE (attempt (invoke ev respond)) f s = (r, t)" "\<And>x. preserves (emits A) (f x)"
  shows "ev \<in> set (new_events s t)"
proof -
  let ?s1 = "s\<lparr>history := history s @ [ev]\<rparr>"
  consider "t = ?s1" | v where "f v ?s1 = (r, t)"
    using assms(1) by (auto simp: run_simps split: sum.splits if_splits)
  then show ?thesis
  proof cases
    case (2 v)
    with assms(2) have "emits A ?s1 t" by (rule preservesD)
    then show ?thesis by (auto simp: emits_def)
  qed (simp add: new_events_def)
qed

lemma invoked_event:
  assumes "bindE (invoke ev respond) f s = (r, t)" "\<And>x. preserves (emits A) (f x)"
  shows "ev \<in> set (new_events s t)"
proof (cases "respond (history s @ [ev])")
  case (Inl e)
  with assms(1) show ?thesis by (auto simp: run_simps new_events_def split: if_splits)
next
  case (Inr v)
  let ?s1 = "s\<lparr>history := history s @ [ev]\<rparr>"
  have "f v ?s1 = (r, t)" using assms(1) Inr by (simp add: run_simps)
  with assms(2) have "emits A ?s1 t" by (rule preservesD)
  then show ?thesis by (auto simp: emits_def)
qed

section \<open>What was reported\<close>

text \<open>\<open>reported respond ev x s t\<close>: between \<open>s\<close> and \<open>t\<close> the call \<open>ev\<close> was made and answered \<open>x\<close>.\<close>

definition reported :: "'a responder \<Rightarrow> event \<Rightarrow> 'a \<Rightarrow> 'x world_scheme \<Rightarrow> 'x world_scheme \<Rightarrow> bool" where
  "reported respond ev x s t \<longleftrightarrow>
     (\<exists>h rest. history t = history s @ h @ [ev] @ rest \<and> respond (history s @ h @ [ev]) = Inr x)"

lemma reported_later: "reported respond ev x s t \<Longrightarrow> emits A t u \<Longrightarrow> reported respond ev x s u"
  unfolding reported_def emits_def by (metis append_assoc)

lemma reported_sooner:
  assumes "emits A r s" "reported respond ev x s t"
  shows "reported respond ev x r t"
proof -
  obtain tr where "history s = history r @ tr" using assms(1) by (auto simp: emits_def)
  then show ?thesis using assms(2) unfolding reported_def by (metis append_assoc)
qed

lemma invoke_reported: "invoke ev respond s = (Ok x, t) \<Longrightarrow> reported respond ev x s t"
  unfolding reported_def by (rule exI [of _ "[]"]) (auto simp: invoke_Ok)

lemma reported_event: "reported respond ev x s t \<Longrightarrow> ev \<in> set (new_events s t)"
  by (auto simp: reported_def new_events_def)

end
