(* ===== verification/Libraries.thy ===== *)
theory Libraries
  imports World
begin

text \<open>
  What the controllers rely on of the helper libraries of \<open>env\<close>, as named laws that state their
  documented behaviour: status conditions (\<open>apimachinery/pkg/api/meta\<close>), finalizers
  (\<open>controllerutil\<close>), the classification of API errors and the clock. The environment
  \<open>ref_env\<close> is an instance of all of them, so that theorems with these hypotheses can be applied.
\<close>

section \<open>Laws\<close>

definition condition_laws :: "env \<Rightarrow> bool" where
  "condition_laws E \<longleftrightarrow> (\<forall>cs c ty.
     lib_IsStatusConditionTrue (lib E) (lib_SetStatusCondition (lib E) cs c) ty =
       (if cd_Type c = ty then cd_Status c = ConditionTrue
        else lib_IsStatusConditionTrue (lib E) cs ty))"

definition finalizer_laws :: "env \<Rightarrow> bool" where
  "finalizer_laws E \<longleftrightarrow> (\<forall>fs f.
     lib_ContainsFinalizer (lib E) fs f = (f \<in> set fs) \<and>
     set (lib_AddFinalizer (lib E) fs f) = insert f (set fs) \<and>
     set (lib_RemoveFinalizer (lib E) fs f) = set fs - {f})"

definition clock_laws :: "env \<Rightarrow> bool" where
  "clock_laws E \<longleftrightarrow>
     (\<forall>h e. lib_Now (lib E) h \<le> lib_Now (lib E) (h @ [e])) \<and>
     (\<forall>h d. lib_Now (lib E) h + d \<le> lib_Now (lib E) (h @ [Slept d]))"

definition notfound_laws :: "env \<Rightarrow> bool" where
  "notfound_laws E \<longleftrightarrow> (\<forall>e.
     lib_IgnoreNotFound (lib E) e = (if lib_IsNotFound (lib E) e then None else Some e))"

text \<open>\<open>SetControllerReference\<close> adds an owner and changes nothing else of the service.\<close>

definition reference_laws :: "env \<Rightarrow> bool" where
  "reference_laws E \<longleftrightarrow> (\<forall>v svc svc'. lib_SetControllerReference (lib E) v svc = Inr svc' \<longrightarrow>
     svc'\<lparr>svc_Owners := svc_Owners svc\<rparr> = svc)"

lemma condition_set_same:
  "condition_laws E \<Longrightarrow> cd_Type c = ty \<Longrightarrow>
   lib_IsStatusConditionTrue (lib E) (lib_SetStatusCondition (lib E) cs c) ty \<longleftrightarrow> cd_Status c = ConditionTrue"
  by (simp add: condition_laws_def)

lemma condition_set_other:
  "condition_laws E \<Longrightarrow> cd_Type c \<noteq> ty \<Longrightarrow>
   lib_IsStatusConditionTrue (lib E) (lib_SetStatusCondition (lib E) cs c) ty =
   lib_IsStatusConditionTrue (lib E) cs ty"
  by (simp add: condition_laws_def)

lemma clock_mono: "clock_laws E \<Longrightarrow> lib_Now (lib E) h \<le> lib_Now (lib E) (h @ tr)"
proof (induction tr rule: rev_induct)
  case (snoc e tr)
  then have "lib_Now (lib E) h \<le> lib_Now (lib E) (h @ tr)" by simp
  also have "\<dots> \<le> lib_Now (lib E) ((h @ tr) @ [e])" using snoc.prems unfolding clock_laws_def by blast
  finally show ?case by simp
qed simp

section \<open>An environment that satisfies them\<close>

fun set_condition :: "condition list \<Rightarrow> condition \<Rightarrow> condition list" where
  "set_condition [] c = [c]"
| "set_condition (d # ds) c = (if cd_Type d = cd_Type c then c # ds else d # set_condition ds c)"

fun condition_true :: "condition list \<Rightarrow> string \<Rightarrow> bool" where
  "condition_true [] ty = False"
| "condition_true (d # ds) ty =
     (if cd_Type d = ty then cd_Status d = ConditionTrue else condition_true ds ty)"

fun not_found :: "error \<Rightarrow> bool" where
  "not_found (K8sError reason _) = (reason = ''NotFound'')"
| "not_found (Wrapf _ _ e) = not_found e"
| "not_found _ = False"

text \<open>A clock that ticks with every event and advances by what was slept.\<close>

fun event_time :: "event \<Rightarrow> int" where
  "event_time (Slept d) = max 1 d"
| "event_time _ = 1"

definition ref_lib :: libApi where
  "ref_lib = \<lparr>
     lib_SetStatusCondition = set_condition,
     lib_IsStatusConditionTrue = condition_true,
     lib_ContainsFinalizer = (\<lambda>fs f. f \<in> set fs),
     lib_AddFinalizer = (\<lambda>fs f. if f \<in> set fs then fs else fs @ [f]),
     lib_RemoveFinalizer = (\<lambda>fs f. filter (\<lambda>g. g \<noteq> f) fs),
     lib_SetControllerReference = (\<lambda>owner svc. Inr (svc\<lparr>svc_Owners := [ve_Name owner]\<rparr>)),
     lib_IsNotFound = not_found,
     lib_IgnoreNotFound = (\<lambda>e. if not_found e then None else Some e),
     lib_LabelSelectorAsSelector = (\<lambda>sel. Inr (concat (ls_MatchExpressions sel))),
     lib_AsValidatedSelector = (\<lambda>kvs. Inr (concat (List.map (\<lambda>(k, v). k @ ''='' @ v @ '','') kvs))),
     lib_LoadDefaultConfig = (\<lambda>h. Inr ()),
     lib_Now = (\<lambda>h. sum_list (List.map event_time h)),
     lib_Range = (\<lambda>h. insertion_order),
     lib_ContextErr = (\<lambda>h. None),
     lib_ErrorText = (\<lambda>e. ''error'')\<rparr>"

text \<open>AWS accounts and clusters that hold nothing and accept every write.\<close>

definition ref_ec2 :: ec2Api where
  "ref_ec2 = \<lparr>
     ec2_DescribeSecurityGroups = (\<lambda>h. Inr []),
     ec2_CreateSecurityGroup = (\<lambda>h. Inr (Some ''sg-1'')),
     ec2_WaitSecurityGroupExists = (\<lambda>h. Inr ()),
     ec2_DeleteSecurityGroup = (\<lambda>h. Inr ()),
     ec2_DescribeSecurityGroupRules = (\<lambda>h. Inr []),
     ec2_AuthorizeSecurityGroupIngress = (\<lambda>h. Inr []),
     ec2_AuthorizeSecurityGroupEgress = (\<lambda>h. Inr []),
     ec2_CreateTags = (\<lambda>h. Inr ()),
     ec2_DescribeVpcEndpoints = (\<lambda>h. Inr []),
     ec2_VpcEndpointPages = (\<lambda>h. [Inr []]),
     ec2_CreateVpcEndpoint = (\<lambda>h. Inr None),
     ec2_DeleteVpcEndpoints = (\<lambda>h. Inr ()),
     ec2_ModifyVpcEndpoint = (\<lambda>h. Inr ()),
     ec2_DescribeVpcs = (\<lambda>h. Inr []),
     ec2_DescribeSubnets = (\<lambda>h. Inr []),
     ec2_DescribeVpcEndpointServices = (\<lambda>h. Inr [[]]),
     ec2_DescribeVpcEndpointConnections = (\<lambda>h. Inr []),
     ec2_AcceptVpcEndpointConnections = (\<lambda>h. Inr ())\<rparr>"

definition ref_r53 :: r53Api where
  "ref_r53 = \<lparr>
     r53_GetHostedZone = (\<lambda>h. Inr \<lparr>gh_HostedZone = None, gh_VPCs = []\<rparr>),
     r53_ListHostedZonesByVPC = (\<lambda>h. Inr []),
     r53_ListHostedZonesByName = (\<lambda>h. Inr []),
     r53_ListResourceRecordSets = (\<lambda>h. Inr []),
     r53_ChangeResourceRecordSets = (\<lambda>h. Inr ()),
     r53_CreateHostedZone = (\<lambda>h. Inr None),
     r53_DeleteHostedZone = (\<lambda>h. Inr ()),
     r53_ListTagsForResource = (\<lambda>h. Inr (Some [])),
     r53_ChangeTagsForResource = (\<lambda>h. Inr ()),
     r53_CreateVPCAssociationAuthorization = (\<lambda>h. Inr ()),
     r53_AssociateVPCWithHostedZone = (\<lambda>h. Inr ())\<rparr>"

definition absent :: error where
  "absent = K8sError ''NotFound'' ''not found''"

definition ref_k8s :: k8sApi where
  "ref_k8s = \<lparr>
     k8s_GetVpcEndpoint = (\<lambda>h. Inl absent),
     k8s_UpdateStatus = (\<lambda>h. Inr ()),
     k8s_UpdateVpcEndpoint = (\<lambda>h. Inr ()),
     k8s_CreateVpcEndpoint = (\<lambda>h. Inr ()),
     k8s_DeleteVpcEndpoint = (\<lambda>h. Inr ()),
     k8s_ListVpcEndpoints = (\<lambda>h. Inr []),
     k8s_GetTemplate = (\<lambda>h. Inl absent),
     k8s_UpdateTemplate = (\<lambda>h. Inr ()),
     k8s_ListTemplates = (\<lambda>h. Inr []),
     k8s_GetAcceptance = (\<lambda>h. Inl absent),
     k8s_ListAccounts = (\<lambda>h. Inr []),
     k8s_GetInfrastructure = (\<lambda>h. Inl absent),
     k8s_GetDNS = (\<lambda>h. Inr ''cluster.example.com''),
     k8s_ListHostedControlPlanes = (\<lambda>h. Inr []),
     k8s_GetAWSEndpointService = (\<lambda>h. Inl absent),
     k8s_GetSecret = (\<lambda>h. Inl absent),
     k8s_GetService = (\<lambda>h. Inl absent),
     k8s_CreateService = (\<lambda>h. Inr ()),
     k8s_UpdateService = (\<lambda>h. Inr ())\<rparr>"

definition ref_env :: env where
  "ref_env = \<lparr>ec2 = ref_ec2, r53 = ref_r53, k8s = ref_k8s, lib = ref_lib\<rparr>"

lemmas ref_defs = ref_env_def ref_ec2_def ref_r53_def ref_k8s_def ref_lib_def absent_def

lemma ref_env_lib [simp]: "lib ref_env = ref_lib"
  by (simp add: ref_env_def)

lemma condition_true_set:
  "condition_true (set_condition cs c) ty =
     (if cd_Type c = ty then cd_Status c = ConditionTrue else condition_true cs ty)"
  by (induction cs) auto

lemma event_time_pos [simp]: "0 \<le> event_time e"
  by (cases e) simp_all

text \<open>The laws are about the libraries only: they hold for every environment with these.\<close>

lemma ref_laws:
  assumes "lib E = ref_lib"
  shows "condition_laws E" "finalizer_laws E" "clock_laws E" "notfound_laws E" "reference_laws E"
  using assms
  by (auto simp: condition_laws_def finalizer_laws_def clock_laws_def notfound_laws_def reference_laws_def ref_lib_def
      condition_true_set event_time_pos)

end
