(* ===== verification/Naming.thy ===== *)
theory Naming
  imports World
begin

text \<open>
  \<open>pkg/util/naming.go\<close>: the names and tags the operator gives to AWS resources. The interface
  \<open>resource_namer\<close> is shared by the generators of security group and VPC endpoint names, which
  differ in their suffix only; its lemmas (never a panic, the suffix, the length) are proved
  once and interpreted for both.
\<close>

section \<open>Constants\<close>

definition OperatorTagKey :: string where
  "OperatorTagKey = ''kubernetes.io/aws-vpce-operator''"

definition OperatorTagValue :: string where
  "OperatorTagValue = ''managed''"

definition RedHatManagedTagKey :: string where
  "RedHatManagedTagKey = ''red-hat-managed''"

definition RedHatManagedTagValue :: string where
  "RedHatManagedTagValue = ''true''"

definition SecurityGroupDescription :: string where
  "SecurityGroupDescription = ''Managed by AWS VPCE Operator''"

definition LegacyClusterTagPrefix :: string where
  "LegacyClusterTagPrefix = ''kubernetes.io/cluster''"

definition CapiClusterTagPrefix :: string where
  "CapiClusterTagPrefix = ''sigs.k8s.io/cluster-api-provider-aws/cluster''"

text \<open>The formats \<open>%s-master-sg\<close>, ... applied to the infrastructure name.\<close>

definition SupportedInfraIDSuffixes :: "(string \<Rightarrow> string) list" where
  "SupportedInfraIDSuffixes =
     [\<lambda>s. s @ ''-master-sg'', \<lambda>s. s @ ''-worker-sg'', \<lambda>s. s @ ''-controlplane'', \<lambda>s. s @ ''-node'']"

section \<open>Tags\<close>

definition mk_tag :: "string \<Rightarrow> string \<Rightarrow> ec2Tag" where
  "mk_tag k v = \<lparr>et_Key = Some k, et_Value = Some v\<rparr>"

definition GenerateAwsTags :: "string \<Rightarrow> string \<Rightarrow> error + ec2Tag list" where
  "GenerateAwsTags name clusterTagKey =
     (if name = '''' \<or> clusterTagKey = ''''
      then Inl (Errorf ''failed to GenerateAwsTags: name and clusterTagKey must not be empty'' [])
      else Inr
        [mk_tag OperatorTagKey OperatorTagValue,
         mk_tag RedHatManagedTagKey RedHatManagedTagValue,
         mk_tag clusterTagKey ''owned'',
         mk_tag ''Name'' name])"

text \<open>Reading \<open>*tag.Key\<close> and \<open>*tag.Value\<close> of every tag; \<open>None\<close> is a nil dereference.\<close>

fun tag_pairs :: "ec2Tag list \<Rightarrow> (string \<times> string) list option" where
  "tag_pairs [] = Some []"
| "tag_pairs (t # ts) =
     (case (et_Key t, et_Value t, tag_pairs ts) of
        (Some k, Some v, Some kvs) \<Rightarrow> Some ((k, v) # kvs)
      | _ \<Rightarrow> None)"

definition GenerateAwsTagsAsMap :: "string \<Rightarrow> string \<Rightarrow> (error, (string \<times> string) list) outcome" where
  "GenerateAwsTagsAsMap name clusterTagKey =
     (case GenerateAwsTags name clusterTagKey of
        Inl err \<Rightarrow> Err err
      | Inr tags \<Rightarrow> (case tag_pairs tags of None \<Rightarrow> Panic | Some kvs \<Rightarrow> Ok (gomap kvs)))"

definition GetClusterLegacyTagKey :: "string \<Rightarrow> error + string" where
  "GetClusterLegacyTagKey infraName =
     (if infraName = ''''
      then Inl (Errorf ''failed to GetClusterLegacyTagKey: infraName must be specified'' [])
      else Inr (LegacyClusterTagPrefix @ ''/'' @ infraName))"

definition GetClusterCapiTagKey :: "string \<Rightarrow> error + string" where
  "GetClusterCapiTagKey infraName =
     (if infraName = ''''
      then Inl (Errorf ''failed to GetClusterCapiTagKey: infraName must be specified'' [])
      else Inr (CapiClusterTagPrefix @ ''/'' @ infraName))"

definition GenerateR53Tags :: "string \<Rightarrow> error + ec2Tag list" where
  "GenerateR53Tags clusterTagKey =
     (if clusterTagKey = '''' then Inl (Errorf ''clusterTagKey must not be empty'' [])
      else Inr
        [mk_tag OperatorTagKey OperatorTagValue,
         mk_tag clusterTagKey ''owned'',
         mk_tag RedHatManagedTagKey RedHatManagedTagValue])"

lemma mk_tag_sel [simp]: "et_Key (mk_tag k v) = Some k" "et_Value (mk_tag k v) = Some v"
  by (simp_all add: mk_tag_def)

lemma GenerateAwsTagsAsMap_Ok:
  assumes "name \<noteq> ''''" "clusterTagKey \<noteq> ''''"
  shows "GenerateAwsTagsAsMap name clusterTagKey =
    Ok (gomap [(OperatorTagKey, OperatorTagValue), (RedHatManagedTagKey, RedHatManagedTagValue),
        (clusterTagKey, ''owned''), (''Name'', name)])"
  using assms by (simp add: GenerateAwsTagsAsMap_def GenerateAwsTags_def)

section \<open>Names\<close>

text \<open>The slice expression \<open>prefix[:n]\<close> panics for a negative \<open>n\<close>.\<close>

definition generateName :: "string \<Rightarrow> string \<Rightarrow> int \<Rightarrow> (error, string) outcome" where
  "generateName prefix suffix maxLength =
     (if prefix = '''' \<or> suffix = '''' then Err (Errorf ''prefix and suffix must be specified'' [])
      else if maxLength < 1 then Err (Errorf ''maxLength must be greater than 0'' [])
      else if int (length prefix) > maxLength - int (length suffix) then
        (let n = maxLength - int (length suffix) - 1
         in if n < 0 then Panic else Ok (take (nat n) prefix @ ''-'' @ suffix))
      else Ok (prefix @ ''-'' @ suffix))"

definition GenerateSecurityGroupName :: "string \<Rightarrow> string \<Rightarrow> (error, string) outcome" where
  "GenerateSecurityGroupName clusterName purpose =
     (if clusterName = ''''
      then Err (Errorf ''clusterName must not be empty when generating a security group name'' [])
      else generateName (clusterName @ ''-'' @ purpose) ''sg'' 255)"

definition GenerateVPCEndpointName :: "string \<Rightarrow> string \<Rightarrow> (error, string) outcome" where
  "GenerateVPCEndpointName clusterName purpose =
     (if clusterName = ''''
      then Err (Errorf ''clusterName must not be empty when generating a vpc endpoint name'' [])
      else generateName (clusterName @ ''-'' @ purpose) ''vpce'' 255)"

locale resource_namer =
  fixes gen :: "string \<Rightarrow> string \<Rightarrow> (error, string) outcome"
    and suffix :: string
  assumes gen_empty: "\<exists>e. gen '''' purpose = Err e"
    and gen_name: "cluster \<noteq> '''' \<Longrightarrow> gen cluster purpose = generateName (cluster @ ''-'' @ purpose) suffix 255"
    and suffix_length: "0 < length suffix" "length suffix < 254"
begin

lemma short:
  assumes "cluster \<noteq> ''''" "length cluster + 1 + length purpose + length suffix \<le> 255"
  shows "gen cluster purpose = Ok (cluster @ ''-'' @ purpose @ ''-'' @ suffix)"
  using assms suffix_length by (auto simp: gen_name generateName_def)

lemma long:
  assumes "cluster \<noteq> ''''" "255 < length cluster + 1 + length purpose + length suffix"
  shows "gen cluster purpose =
    Ok (take (254 - length suffix) (cluster @ ''-'' @ purpose) @ ''-'' @ suffix)"
proof -
  have "nat (255 - int (length suffix) - 1) = 254 - length suffix"
    using suffix_length by simp
  with assms suffix_length show ?thesis
    by (auto simp: gen_name generateName_def Let_def)
qed

lemma total: "cluster \<noteq> '''' \<Longrightarrow> \<exists>n. gen cluster purpose = Ok n"
  by (cases "length cluster + 1 + length purpose + length suffix \<le> 255") (auto simp: short long)

lemma never_panics: "gen cluster purpose \<noteq> Panic"
  using total [of cluster purpose] gen_empty [of purpose] by (cases "cluster = ''''") auto

lemma suffixed:
  assumes "gen cluster purpose = Ok n"
  shows "\<exists>p. n = p @ ''-'' @ suffix \<and> (\<exists>rest. cluster @ ''-'' @ purpose = p @ rest)"
proof -
  have c: "cluster \<noteq> ''''" using assms gen_empty [of purpose] by auto
  show ?thesis
  proof (cases "length cluster + 1 + length purpose + length suffix \<le> 255")
    case True
    with c assms have "n = (cluster @ ''-'' @ purpose) @ ''-'' @ suffix" by (simp add: short)
    then show ?thesis by blast
  next
    case False
    with c assms have "n = take (254 - length suffix) (cluster @ ''-'' @ purpose) @ ''-'' @ suffix"
      by (simp add: long)
    then show ?thesis by (metis append_take_drop_id)
  qed
qed

text \<open>
  The guard compares with \<open>maxLength - len(suffix)\<close> and so forgets the dash: a prefix of
  exactly that length passes uncut and the name is one character too long.
\<close>

lemma length_name:
  assumes "gen cluster purpose = Ok n"
  shows "length n = (if length cluster + 1 + length purpose + length suffix \<le> 255
                     then length cluster + 1 + length purpose + 1 + length suffix else 255)"
proof -
  have c: "cluster \<noteq> ''''" using assms gen_empty [of purpose] by auto
  show ?thesis
  proof (cases "length cluster + 1 + length purpose + length suffix \<le> 255")
    case True
    with c assms have "n = (cluster @ ''-'' @ purpose) @ ''-'' @ suffix" by (simp add: short)
    with True show ?thesis by simp
  next
    case False
    with c assms have "n = take (254 - length suffix) (cluster @ ''-'' @ purpose) @ ''-'' @ suffix"
      by (simp add: long)
    with False suffix_length show ?thesis by simp
  qed
qed

lemma over_length:
  assumes "gen cluster purpose = Ok n"
  shows "255 < length n \<longleftrightarrow> length cluster + 1 + length purpose + length suffix = 255"
  using length_name [OF assms] by auto

lemma length_bound: "gen cluster purpose = Ok n \<Longrightarrow> length n \<le> 256"
  using length_name [of cluster purpose n] by (simp split: if_splits)

lemma short_injective:
  assumes "gen c p = Ok n" "gen c p' = Ok n"
    and "length n < 255"
  shows "p = p'"
proof -
  have c: "c \<noteq> ''''" using assms(1) gen_empty [of p] by auto
  have "length c + 1 + length p + length suffix \<le> 255"
    and "length c + 1 + length p' + length suffix \<le> 255"
    using assms(3) length_name [OF assms(1)] length_name [OF assms(2)] by (auto split: if_splits)
  with c assms(1,2) have "c @ ''-'' @ p @ ''-'' @ suffix = c @ ''-'' @ p' @ ''-'' @ suffix"
    by (simp add: short)
  then show ?thesis by simp
qed

end

interpretation sgn: resource_namer GenerateSecurityGroupName "''sg''"
  by unfold_locales (auto simp: GenerateSecurityGroupName_def)

interpretation vpn: resource_namer GenerateVPCEndpointName "''vpce''"
  by unfold_locales (auto simp: GenerateVPCEndpointName_def)

section \<open>Properties\<close>

lemma resource_namer_spec:
  assumes "resource_namer gen suffix"
  shows "case gen cluster purpose of
      Ok n \<Rightarrow> cluster \<noteq> '''' \<and>
        (\<exists>p rest. n = p @ ''-'' @ suffix \<and> cluster @ ''-'' @ purpose = p @ rest \<and>
           (if length (cluster @ ''-'' @ purpose) \<le> 255 - length suffix then rest = '''' else length n = 255))
    | Err e \<Rightarrow> cluster = ''''
    | _ \<Rightarrow> False"
proof (cases "cluster = ''''")
  case True
  then show ?thesis using resource_namer.gen_empty [OF assms, of purpose] by auto
next
  case False
  note namer = resource_namer.suffix_length [OF assms]
  show ?thesis
  proof (cases "length cluster + 1 + length purpose + length suffix \<le> 255")
    case True
    then have "length (cluster @ ''-'' @ purpose) \<le> 255 - length suffix" using namer by simp
    with True False show ?thesis by (simp add: resource_namer.short [OF assms])
  next
    case long: False
    note l = resource_namer.long [OF assms False, of purpose]
    from l long resource_namer.length_name [OF assms l] False namer show ?thesis
      by (auto intro!: exI [of _ "take (254 - length suffix) (cluster @ ''-'' @ purpose)"]
          exI [of _ "drop (254 - length suffix) (cluster @ ''-'' @ purpose)"] simp flip: take_append drop_append)
  qed
qed

lemma suffix_literals:
  "''-'' @ ''sg'' = ''-sg''" "255 - length ''sg'' = 253" "''-'' @ ''vpce'' = ''-vpce''" "255 - length ''vpce'' = 251"
  by simp_all

text \<open>
  C39: the names of AWS resources. Generating the name of a security group or a VPC endpoint never
  panics and fails only without a cluster name. Otherwise the name is the cluster and the purpose, then a
  dash and the suffix. Nothing is cut off if the length check lets the name pass, and what is cut off
  leaves a name of exactly 255 characters.
\<close>

theorem resource_names:
  "(case GenerateSecurityGroupName cluster purpose of
      Ok n \<Rightarrow> cluster \<noteq> '''' \<and>
        (\<exists>p rest. n = p @ ''-sg'' \<and> cluster @ ''-'' @ purpose = p @ rest \<and>
           (if length (cluster @ ''-'' @ purpose) \<le> 253 then rest = '''' else length n = 255))
    | Err e \<Rightarrow> cluster = '''' | _ \<Rightarrow> False) \<and>
   (case GenerateVPCEndpointName cluster purpose of
      Ok n \<Rightarrow> cluster \<noteq> '''' \<and>
        (\<exists>p rest. n = p @ ''-vpce'' \<and> cluster @ ''-'' @ purpose = p @ rest \<and>
           (if length (cluster @ ''-'' @ purpose) \<le> 251 then rest = '''' else length n = 255))
    | Err e \<Rightarrow> cluster = '''' | _ \<Rightarrow> False)"
  using resource_namer_spec [OF sgn.resource_namer_axioms, unfolded suffix_literals]
    resource_namer_spec [OF vpn.resource_namer_axioms, unfolded suffix_literals] by (rule conjI)

text \<open>
  C40: one character too long. The names are meant to fit the 255 characters AWS allows, but the
  length check forgets the dash before the suffix: when cluster and purpose together with the
  suffix have exactly the length that just fits without it, the name has 256 characters.
\<close>

theorem group_name_over_length:
  "case GenerateSecurityGroupName cluster purpose of
     Ok n \<Rightarrow> 255 < length n \<longleftrightarrow> length cluster + length purpose = 252
   | _ \<Rightarrow> cluster = ''''"
  using sgn.total [of cluster purpose] sgn.over_length [of cluster purpose] sgn.never_panics [of cluster purpose]
    sgn.gen_empty [of purpose]
  by (cases "cluster = ''''") (auto split: outcome.splits)

text \<open>
  Names tell resources apart. Two purposes that give the same name of fewer than 255
  characters in one cluster are the same, for security groups as well as for endpoints, so the
  lookup by the \<open>Name\<close> tag finds the resource of this object and of no other.
\<close>

lemma names_identify:
  assumes "gen \<in> {GenerateSecurityGroupName, GenerateVPCEndpointName}"
    and "gen cluster p = Ok n" "gen cluster p' = Ok n" "length n < 255"
  shows "p = p'"
  using assms sgn.short_injective [of cluster p n p'] vpn.short_injective [of cluster p n p'] by auto

lemma sample_name: "GenerateVPCEndpointName ''c'' ''a'' = Ok ''c-a-vpce''"
  by (simp add: vpn.short)

lemma names_identify_example:
  "\<forall>p. GenerateVPCEndpointName ''c'' p = Ok ''c-a-vpce'' \<longleftrightarrow> p = ''a''"
proof (intro allI iffI)
  fix p
  assume "GenerateVPCEndpointName ''c'' p = Ok ''c-a-vpce''"
  then show "p = ''a''"
    using names_identify [of GenerateVPCEndpointName "''c''" p "''c-a-vpce''" "''a''"] sample_name
    by (simp only: insert_iff simp_thms) simp
qed (simp only: sample_name)

text \<open>
  The tags of a resource. The map of expected tags has the four keys operator, red-hat-managed,
  cluster and Name with their values (a cluster tag never collides with the fixed keys, as it
  starts with the cluster prefix); generating it never panics and fails only without a name or tag.
\<close>

lemma tag_map_exact:
  "case GenerateAwsTagsAsMap name (LegacyClusterTagPrefix @ ''/'' @ infra) of
     Ok m \<Rightarrow> name \<noteq> '''' \<and> distinct (List.map fst m) \<and> map_of m =
       [OperatorTagKey \<mapsto> OperatorTagValue, RedHatManagedTagKey \<mapsto> RedHatManagedTagValue,
        LegacyClusterTagPrefix @ ''/'' @ infra \<mapsto> ''owned'', ''Name'' \<mapsto> name]
   | Err e \<Rightarrow> name = ''''
   | _ \<Rightarrow> False"
proof (cases "name = ''''")
  case True
  then show ?thesis by (simp add: GenerateAwsTagsAsMap_def GenerateAwsTags_def)
next
  case False
  let ?kvs = "[(OperatorTagKey, OperatorTagValue), (RedHatManagedTagKey, RedHatManagedTagValue),
        (LegacyClusterTagPrefix @ ''/'' @ infra, ''owned''), (''Name'', name)]"
  have d: "distinct (List.map fst ?kvs)"
    by (simp add: OperatorTagKey_def RedHatManagedTagKey_def LegacyClusterTagPrefix_def)
  have "GenerateAwsTagsAsMap name (LegacyClusterTagPrefix @ ''/'' @ infra) = Ok (gomap ?kvs)"
    using False by (simp add: GenerateAwsTagsAsMap_Ok LegacyClusterTagPrefix_def)
  moreover have "map_of (gomap ?kvs) = map_of ?kvs" using d by (rule gomap_distinct)
  ultimately show ?thesis
    using False d by (auto simp: distinct_gomap fun_eq_iff)
qed

end
