(* ===== verification/Ec2Client.thy ===== *)
theory Ec2Client
  imports Naming
begin

text \<open>
  The EC2 half of \<open>pkg/aws_client\<close>: security groups and their rules, VPC endpoints, endpoint
  services, subnets and tags. The receiver of a method is the client \<open>c\<close>, identified by the
  configuration it was built from. A response pointer that a method may return as nil without
  an error (\<open>return nil, nil\<close>) is an \<open>option\<close>.
\<close>

section \<open>Security groups\<close>

definition FilterClusterNodeSecurityGroupsByDefaultTags ::
    "env \<Rightarrow> awsConfig \<Rightarrow> string \<Rightarrow> ('x world_scheme, error, ec2SecurityGroup list) prog" where
  "FilterClusterNodeSecurityGroupsByDefaultTags E c infraName =
     bindE (liftS (GetClusterLegacyTagKey infraName)) (\<lambda>clusterLegacyTag.
     bindE (liftS (GetClusterCapiTagKey infraName)) (\<lambda>clusterCapiTag.
     let nameValues = List.map (\<lambda>format. format infraName) SupportedInfraIDSuffixes in
     invoke (Ec2 c (DoDescribeSecurityGroups
         [\<lparr>flt_Name = ''tag-key'', flt_Values = [clusterLegacyTag, clusterCapiTag]\<rparr>,
          \<lparr>flt_Name = ''tag:Name'', flt_Values = nameValues\<rparr>] []))
       (ec2_DescribeSecurityGroups (ec2 E))))"

definition FilterSecurityGroupByDefaultTags ::
    "env \<Rightarrow> awsConfig \<Rightarrow> string \<Rightarrow> string \<Rightarrow> ('x world_scheme, error, ec2SecurityGroup list) prog" where
  "FilterSecurityGroupByDefaultTags E c infraName sgNameTag =
     bindE (liftS (GetClusterLegacyTagKey infraName)) (\<lambda>clusterTag.
     invoke (Ec2 c (DoDescribeSecurityGroups
         [\<lparr>flt_Name = ''tag:Name'', flt_Values = [sgNameTag]\<rparr>,
          \<lparr>flt_Name = ''tag-key'', flt_Values = [clusterTag]\<rparr>,
          \<lparr>flt_Name = ''tag:'' @ OperatorTagKey, flt_Values = [OperatorTagValue]\<rparr>] []))
       (ec2_DescribeSecurityGroups (ec2 E)))"

text \<open>\<open>None\<close> is the nil response for a group that AWS says does not exist.\<close>

definition FilterSecurityGroupById ::
    "env \<Rightarrow> awsConfig \<Rightarrow> string \<Rightarrow> ('x world_scheme, error, ec2SecurityGroup list option) prog" where
  "FilterSecurityGroupById E c groupId =
     (if groupId = '''' then ret (Some [])
      else bindE (attempt (invoke (Ec2 c (DoDescribeSecurityGroups [] [groupId]))
                             (ec2_DescribeSecurityGroups (ec2 E)))) (\<lambda>resp.
        case resp of
          Inl err \<Rightarrow>
            (case as_api_error err of
               Some ae \<Rightarrow> if fst ae = ''InvalidGroup.NotFound'' then ret None else failE err
             | None \<Rightarrow> failE err)
        | Inr sgs \<Rightarrow> ret (Some sgs)))"

definition CreateSecurityGroup ::
    "env \<Rightarrow> awsConfig \<Rightarrow> string \<Rightarrow> string \<Rightarrow> string \<Rightarrow> ('x world_scheme, error, string option) prog" where
  "CreateSecurityGroup E c name vpcId tagKey =
     bindE (liftS (GenerateAwsTags name tagKey)) (\<lambda>tags.
     bindE (invoke (Ec2 c (DoCreateSecurityGroup name SecurityGroupDescription tags vpcId))
             (ec2_CreateSecurityGroup (ec2 E))) (\<lambda>sg.
     bindE (deref sg) (\<lambda>groupId.
     bindE (invoke (Ec2 c (DoWaitSecurityGroupExists groupId))
             (ec2_WaitSecurityGroupExists (ec2 E))) (\<lambda>_.
     ret sg))))"

text \<open>A group that is gone already counts as deleted.\<close>

definition DeleteSecurityGroup ::
    "env \<Rightarrow> awsConfig \<Rightarrow> string \<Rightarrow> ('x world_scheme, error, unit) prog" where
  "DeleteSecurityGroup E c groupId =
     bindE (attempt (invoke (Ec2 c (DoDeleteSecurityGroup groupId))
                       (ec2_DeleteSecurityGroup (ec2 E)))) (\<lambda>resp.
     case resp of
       Inl err \<Rightarrow>
         (case as_api_error err of
            Some ae \<Rightarrow> if fst ae = ''InvalidGroup.NotFound'' then ret () else failE err
          | None \<Rightarrow> failE err)
     | Inr _ \<Rightarrow> ret ())"

definition DescribeSecurityGroupRules ::
    "env \<Rightarrow> awsConfig \<Rightarrow> string \<Rightarrow> ('x world_scheme, error, ec2SecurityGroupRule list) prog" where
  "DescribeSecurityGroupRules E c groupId =
     invoke (Ec2 c (DoDescribeSecurityGroupRules [\<lparr>flt_Name = ''group-id'', flt_Values = [groupId]\<rparr>]))
       (ec2_DescribeSecurityGroupRules (ec2 E))"

definition AuthorizeSecurityGroupRules ::
    "env \<Rightarrow> awsConfig \<Rightarrow> authorizeInput \<Rightarrow> authorizeInput \<Rightarrow>
     ('x world_scheme, error, ec2SecurityGroupRule list) prog" where
  "AuthorizeSecurityGroupRules E c ingress egress =
     bindE (if au_IpPermissions ingress \<noteq> []
            then invoke (Ec2 c (DoAuthorizeSecurityGroupIngress ingress))
                   (ec2_AuthorizeSecurityGroupIngress (ec2 E))
            else ret []) (\<lambda>rules.
     bindE (if au_IpPermissions egress \<noteq> []
            then invoke (Ec2 c (DoAuthorizeSecurityGroupEgress egress))
                   (ec2_AuthorizeSecurityGroupEgress (ec2 E))
            else ret []) (\<lambda>rules'.
     ret (rules @ rules')))"

definition CreateTags ::
    "env \<Rightarrow> awsConfig \<Rightarrow> string list \<Rightarrow> ec2Tag list \<Rightarrow> ('x world_scheme, error, unit) prog" where
  "CreateTags E c resources tags =
     invoke (Ec2 c (DoCreateTags resources tags)) (ec2_CreateTags (ec2 E))"

section \<open>VPCs and VPC endpoints\<close>

definition MaxInt :: int where
  "MaxInt = 2 ^ 63 - 1"

text \<open>One page of endpoints: \<open>vpcePerVpc[*vpce.VpcId]++\<close>, where a missing key counts from zero.\<close>

definition count_page ::
    "(string \<times> int) list \<Rightarrow> ec2VpcEndpoint list \<Rightarrow> ('x world_scheme, error, (string \<times> int) list) prog" where
  "count_page m vpces = foldE (\<lambda>m vpce.
     bindE (deref (evp_VpcId vpce)) (\<lambda>vpcId.
     ret (AList.update vpcId ((case map_of m vpcId of None \<Rightarrow> 0 | Some n \<Rightarrow> n) + 1) m))) m vpces"

text \<open>The last loop, over the map: keep the first VPC with the fewest endpoints seen so far.\<close>

definition least_used :: "(string \<times> int) list \<Rightarrow> string list \<Rightarrow> string \<times> int" where
  "least_used m vpcIds = fold (\<lambda>vpcId (minVpcId, minVpceConsumed).
     let vpceCount = (case map_of m vpcId of None \<Rightarrow> 0 | Some n \<Rightarrow> n)
     in if vpceCount < minVpceConsumed then (vpcId, vpceCount) else (minVpcId, minVpceConsumed))
     vpcIds ('''', MaxInt)"

definition SelectVPCForVPCEndpoint ::
    "env \<Rightarrow> awsConfig \<Rightarrow> string list \<Rightarrow> ('x world_scheme, error, string) prog" where
  "SelectVPCForVPCEndpoint E c ids =
     (if ids = [] then failE (Errorf ''must specify vpc id when counting VPC Endpoints per VPC'' [])
      else
        let input = Ec2 c (DoDescribeVpcEndpoints [\<lparr>flt_Name = ''vpc-id'', flt_Values = ids\<rparr>] []) in
        bindE (getsE (\<lambda>s. ec2_VpcEndpointPages (ec2 E) (history s @ [input]))) (\<lambda>pages.
        bindE (foldE (\<lambda>m page. bindE (invoke input (\<lambda>_. page)) (count_page m))
                 (gomap (List.map (\<lambda>id. (id, 0)) ids)) pages) (\<lambda>vpcePerVpc.
        bindE (range_order_now E) (\<lambda>ord.
        let minVpcId = fst (least_used vpcePerVpc (visit ord (List.map fst vpcePerVpc))) in
        if minVpcId = '''' then failE (Errorf ''unexpectedly did not select a VPC for the VPC Endpoint'' [])
        else ret minVpcId))))"

definition FilterVpcIdsByTags ::
    "env \<Rightarrow> awsConfig \<Rightarrow> tag list \<Rightarrow> ('x world_scheme, error, string list) prog" where
  "FilterVpcIdsByTags E c tags =
     (if tags = [] then failE (Errorf ''must specify tags when filtering VPCs by tags'' [])
      else
        let filters = List.map (\<lambda>t. \<lparr>flt_Name = ''tag:'' @ tag_Key t, flt_Values = [tag_Value t]\<rparr>) tags in
        bindE (invoke (Ec2 c (DoDescribeVpcs filters [])) (ec2_DescribeVpcs (ec2 E))) (\<lambda>vpcs.
        if vpcs = [] then failE (Errorf ''no VPCs found when filtering by tags: %v'' (List.map (\<lambda>t. FS (tag_Key t)) tags))
        else mapE (\<lambda>v. deref (ev_VpcId v)) vpcs))"

definition GetVpcCidrBlock ::
    "env \<Rightarrow> awsConfig \<Rightarrow> string \<Rightarrow> ('x world_scheme, error, string) prog" where
  "GetVpcCidrBlock E c vpcId =
     (if vpcId = '''' then failE (Errorf ''must specify vpc id when getting VPC CIDR block'' [])
      else bindE (attempt (invoke (Ec2 c (DoDescribeVpcs [] [vpcId])) (ec2_DescribeVpcs (ec2 E)))) (\<lambda>resp.
        case resp of
          Inl err \<Rightarrow> failE (Wrapf ''failed to describe VPC %s: %w'' [FS vpcId] err)
        | Inr vpcs \<Rightarrow>
            (case vpcs of
               [] \<Rightarrow> failE (Errorf ''no VPC found with id: %s'' [FS vpcId])
             | v # _ \<Rightarrow>
                 (case ev_CidrBlock v of
                    None \<Rightarrow> failE (Errorf ''VPC %s has no CIDR block'' [FS vpcId])
                  | Some cidr \<Rightarrow> ret cidr))))"

definition DescribeSingleVPCEndpointById ::
    "env \<Rightarrow> awsConfig \<Rightarrow> string \<Rightarrow> ('x world_scheme, error, ec2VpcEndpoint list option) prog" where
  "DescribeSingleVPCEndpointById E c vpceId =
     (if vpceId = '''' then ret (Some [])
      else bindE (attempt (invoke (Ec2 c (DoDescribeVpcEndpoints [] [vpceId]))
                             (ec2_DescribeVpcEndpoints (ec2 E)))) (\<lambda>resp.
        case resp of
          Inl err \<Rightarrow>
            (case as_api_error err of
               Some ae \<Rightarrow> if fst ae = ''InvalidVpcEndpointId.NotFound'' then ret None else failE err
             | None \<Rightarrow> failE err)
        | Inr vpces \<Rightarrow>
            if length vpces \<noteq> 1
            then failE (Errorf ''expected 1 VPC endpoint, got %d'' [FN (length vpces)])
            else ret (Some vpces)))"

definition FilterVPCEndpointByDefaultTags ::
    "env \<Rightarrow> awsConfig \<Rightarrow> string \<Rightarrow> string \<Rightarrow> ('x world_scheme, error, ec2VpcEndpoint list) prog" where
  "FilterVPCEndpointByDefaultTags E c clusterTag vpceNameTag =
     (if clusterTag = '''' then ret []
      else invoke (Ec2 c (DoDescribeVpcEndpoints
          [\<lparr>flt_Name = ''tag:Name'', flt_Values = [vpceNameTag]\<rparr>,
           \<lparr>flt_Name = ''tag-key'', flt_Values = [clusterTag]\<rparr>,
           \<lparr>flt_Name = ''tag:'' @ OperatorTagKey, flt_Values = [OperatorTagValue]\<rparr>] []))
        (ec2_DescribeVpcEndpoints (ec2 E)))"

definition CreateDefaultInterfaceVPCEndpoint ::
    "env \<Rightarrow> awsConfig \<Rightarrow> string \<Rightarrow> string \<Rightarrow> string \<Rightarrow> string \<Rightarrow>
     ('x world_scheme, error, ec2VpcEndpoint option) prog" where
  "CreateDefaultInterfaceVPCEndpoint E c name vpcId serviceName tagKey =
     bindE (liftS (GenerateAwsTags name tagKey)) (\<lambda>tags.
     invoke (Ec2 c (DoCreateVpcEndpoint vpcId serviceName tags)) (ec2_CreateVpcEndpoint (ec2 E)))"

definition DeleteVPCEndpoint ::
    "env \<Rightarrow> awsConfig \<Rightarrow> string \<Rightarrow> ('x world_scheme, error, unit) prog" where
  "DeleteVPCEndpoint E c vpceId =
     invoke (Ec2 c (DoDeleteVpcEndpoints [vpceId])) (ec2_DeleteVpcEndpoints (ec2 E))"

definition ModifyVpcEndpoint ::
    "env \<Rightarrow> awsConfig \<Rightarrow> modifyVpcEndpointInput \<Rightarrow> ('x world_scheme, error, unit) prog" where
  "ModifyVpcEndpoint E c input =
     invoke (Ec2 c (DoModifyVpcEndpoint input)) (ec2_ModifyVpcEndpoint (ec2 E))"

section \<open>Endpoint services\<close>

definition GetVpcEndpointServiceAZs ::
    "env \<Rightarrow> awsConfig \<Rightarrow> string \<Rightarrow> ('x world_scheme, error, string list) prog" where
  "GetVpcEndpointServiceAZs E c serviceName =
     (if serviceName = ''''
      then failE (Errorf ''GetVpcEndpointServiceAZs: serviceName must be specified'' [])
      else bindE (invoke (Ec2 c (DoDescribeVpcEndpointServices [serviceName]))
                    (ec2_DescribeVpcEndpointServices (ec2 E))) (\<lambda>details.
        case details of
          [azs] \<Rightarrow> ret azs
        | _ \<Rightarrow> failE (Errorf ''expected one VPC Endpoint Service with name %s, got %d''
                        [FS serviceName, FN (length details)])))"

definition GetVpcEndpointConnectionsPendingAcceptance ::
    "env \<Rightarrow> awsConfig \<Rightarrow> string \<Rightarrow> ('x world_scheme, error, vpcEndpointConnection list) prog" where
  "GetVpcEndpointConnectionsPendingAcceptance E c serviceId =
     (if serviceId = '''' then ret []
      else invoke (Ec2 c (DoDescribeVpcEndpointConnections
          [\<lparr>flt_Name = ''service-id'', flt_Values = [serviceId]\<rparr>,
           \<lparr>flt_Name = ''vpc-endpoint-state'', flt_Values = [''pendingAcceptance'']\<rparr>]))
        (ec2_DescribeVpcEndpointConnections (ec2 E)))"

definition AcceptVpcEndpointConnections ::
    "env \<Rightarrow> awsConfig \<Rightarrow> string \<Rightarrow> string list \<Rightarrow> ('x world_scheme, error, unit) prog" where
  "AcceptVpcEndpointConnections E c serviceId vpcEndpointIds =
     (if vpcEndpointIds = [] then ret ()
      else invoke (Ec2 c (DoAcceptVpcEndpointConnections serviceId vpcEndpointIds))
        (ec2_AcceptVpcEndpointConnections (ec2 E)))"

section \<open>Subnets\<close>

definition privateSubnetTagKey :: string where
  "privateSubnetTagKey = ''kubernetes.io/role/internal-elb''"

definition GetVPCId :: "env \<Rightarrow> awsConfig \<Rightarrow> string list \<Rightarrow> ('x world_scheme, error, string) prog" where
  "GetVPCId E c subnetIds =
     (if subnetIds = [] then failE (Errorf ''no subnets provided'' [])
      else bindE (attempt (invoke (Ec2 c (DoDescribeSubnets [] subnetIds))
                             (ec2_DescribeSubnets (ec2 E)))) (\<lambda>resp.
        case resp of
          Inl err \<Rightarrow> failE (Wrapf ''failed to describe subnets: %w'' [] err)
        | Inr [] \<Rightarrow> failE (Errorf ''no subnets found with ids: %v'' [FL subnetIds])
        | Inr (s0 # rest) \<Rightarrow>
            bindE (deref (es_VpcId s0)) (\<lambda>vpcId.
            bindE (forE (\<lambda>s. bindE (deref (es_VpcId s)) (\<lambda>v.
                     if v \<noteq> vpcId
                     then failE (Errorf ''subnets %v are a part of multiple VPCs'' [FL subnetIds])
                     else ret ())) (s0 # rest)) (\<lambda>_.
            ret vpcId))))"

text \<open>The filter of one tag: none for an empty key, by key for an empty value.\<close>

definition tag_filter :: "tag \<Rightarrow> ec2Filter list" where
  "tag_filter t =
     (if tag_Key t \<noteq> '''' then
        (if tag_Value t = '''' then [\<lparr>flt_Name = ''tag-key'', flt_Values = [tag_Key t]\<rparr>]
         else [\<lparr>flt_Name = ''tag:'' @ tag_Key t, flt_Values = [tag_Value t]\<rparr>])
      else [])"

definition DescribeSubnetsByTags ::
    "env \<Rightarrow> awsConfig \<Rightarrow> tag list \<Rightarrow> ('x world_scheme, error, ec2Subnet list) prog" where
  "DescribeSubnetsByTags E c tags =
     invoke (Ec2 c (DoDescribeSubnets (concat (List.map tag_filter tags)) [])) (ec2_DescribeSubnets (ec2 E))"

definition AutodiscoverPrivateSubnets ::
    "env \<Rightarrow> awsConfig \<Rightarrow> string \<Rightarrow> tag list \<Rightarrow> ('x world_scheme, error, ec2Subnet list) prog" where
  "AutodiscoverPrivateSubnets E c clusterTag tags =
     bindE (DescribeSubnetsByTags E c
              (tags @ [\<lparr>tag_Key = clusterTag, tag_Value = ''''\<rparr>,
                       \<lparr>tag_Key = privateSubnetTagKey, tag_Value = ''''\<rparr>])) (\<lambda>nonByovpc.
     if nonByovpc \<noteq> [] then ret nonByovpc
     else bindE (DescribeSubnetsByTags E c
                   (tags @ [\<lparr>tag_Key = clusterTag, tag_Value = ''''\<rparr>])) (\<lambda>byovpc.
          if byovpc \<noteq> [] then ret byovpc
          else failE (Errorf ''failed to find subnets with tag key: %s'' [FS clusterTag])))"

section \<open>What an answer comes from\<close>

lemma DescribeSingle_Ok:
  assumes "DescribeSingleVPCEndpointById E c i s = (Ok (Some (v # rest)), t)"
  shows "reported (ec2_DescribeVpcEndpoints (ec2 E)) (Ec2 c (DoDescribeVpcEndpoints [] [i])) [v] s t"
proof -
  from assms obtain x u where a: "attempt (invoke (Ec2 c (DoDescribeVpcEndpoints [] [i])) (ec2_DescribeVpcEndpoints (ec2 E))) s =
      (Ok x, u)"
    and k: "(case x of
          Inl err \<Rightarrow> (case as_api_error err of
             Some ae \<Rightarrow> if fst ae = ''InvalidVpcEndpointId.NotFound'' then ret None else failE err
           | None \<Rightarrow> failE err)
        | Inr vpces \<Rightarrow> if length vpces \<noteq> 1 then failE (Errorf ''expected 1 VPC endpoint, got %d'' [FN (length vpces)])
            else ret (Some vpces)) u = (Ok (Some (v # rest)), t)"
    by (auto simp: DescribeSingleVPCEndpointById_def bindE_Ok ret_eq split: if_splits)
  show ?thesis
  proof (cases x)
    case (Inl err)
    with k show ?thesis by (auto simp: run_eqs split: option.splits if_splits)
  next
    case (Inr vpces)
    with k have "vpces = v # rest" "rest = []" "t = u" by (auto simp: run_eqs split: if_splits)
    with a Inr show ?thesis by (auto simp: attempt_Ok dest: invoke_reported)
  qed
qed

section \<open>Which calls the methods make\<close>

text \<open>
  The methods change nothing but the history. A reader makes calls that only read; a writer
  makes, besides, the calls it is named after.
\<close>

named_theorems aws_calls \<open>which calls the AWS client methods make\<close>

lemma ec2_readers [aws_calls]:
  assumes "\<And>e. aws_read e \<Longrightarrow> A e"
  shows "preserves (calls A) (FilterClusterNodeSecurityGroupsByDefaultTags E c infraName)"
    and "preserves (calls A) (FilterSecurityGroupByDefaultTags E c infraName sgNameTag)"
    and "preserves (calls A) (FilterSecurityGroupById E c groupId)"
    and "preserves (calls A) (DescribeSecurityGroupRules E c groupId)"
    and "preserves (calls A) (GetVpcCidrBlock E c vpcId)"
    and "preserves (calls A) (DescribeSingleVPCEndpointById E c vpceId)"
    and "preserves (calls A) (FilterVPCEndpointByDefaultTags E c clusterTag vpceNameTag)"
    and "preserves (calls A) (FilterVpcIdsByTags E c tags)"
    and "preserves (calls A) (GetVpcEndpointServiceAZs E c svcName)"
    and "preserves (calls A) (GetVpcEndpointConnectionsPendingAcceptance E c serviceId)"
    and "preserves (calls A) (GetVPCId E c subnetIds)"
    and "preserves (calls A) (DescribeSubnetsByTags E c tags)"
  unfolding FilterClusterNodeSecurityGroupsByDefaultTags_def FilterSecurityGroupByDefaultTags_def
    FilterSecurityGroupById_def DescribeSecurityGroupRules_def GetVpcCidrBlock_def
    DescribeSingleVPCEndpointById_def FilterVPCEndpointByDefaultTags_def FilterVpcIdsByTags_def
    GetVpcEndpointServiceAZs_def GetVpcEndpointConnectionsPendingAcceptance_def GetVPCId_def
    DescribeSubnetsByTags_def Let_def
  by (intro calls_intros; simp add: assms)+

lemma AutodiscoverPrivateSubnets_calls [aws_calls]:
  assumes "\<And>e. aws_read e \<Longrightarrow> A e"
  shows "preserves (calls A) (AutodiscoverPrivateSubnets E c clusterTag tags)"
  unfolding AutodiscoverPrivateSubnets_def by (intro calls_intros aws_calls assms)

lemma count_page_calls: "preserves (calls A) (count_page m vpces)"
  unfolding count_page_def by (intro calls_intros)

lemma SelectVPCForVPCEndpoint_calls [aws_calls]:
  assumes "\<And>e. aws_read e \<Longrightarrow> A e"
  shows "preserves (calls A) (SelectVPCForVPCEndpoint E c ids)"
  unfolding SelectVPCForVPCEndpoint_def Let_def
  by (intro calls_intros count_page_calls) (simp add: assms)

lemma ec2_writers [aws_calls]:
  shows "(\<And>n d t v. A (Ec2 c (DoCreateSecurityGroup n d t v))) \<Longrightarrow> (\<And>e. aws_read e \<Longrightarrow> A e) \<Longrightarrow>
      preserves (calls A) (CreateSecurityGroup E c name vpcId tagKey)"
    and "A (Ec2 c (DoDeleteSecurityGroup groupId)) \<Longrightarrow>
      preserves (calls A) (DeleteSecurityGroup E c groupId)"
    and "A (Ec2 c (DoAuthorizeSecurityGroupIngress ingress)) \<Longrightarrow>
      A (Ec2 c (DoAuthorizeSecurityGroupEgress egress)) \<Longrightarrow>
      preserves (calls A) (AuthorizeSecurityGroupRules E c ingress egress)"
    and "A (Ec2 c (DoCreateTags resources ectags)) \<Longrightarrow>
      preserves (calls A) (CreateTags E c resources ectags)"
    and "(\<And>t. A (Ec2 c (DoCreateVpcEndpoint vpcId svcName t))) \<Longrightarrow>
      preserves (calls A) (CreateDefaultInterfaceVPCEndpoint E c name vpcId svcName tagKey)"
    and "A (Ec2 c (DoDeleteVpcEndpoints [vpceId])) \<Longrightarrow>
      preserves (calls A) (DeleteVPCEndpoint E c vpceId)"
    and "A (Ec2 c (DoModifyVpcEndpoint input)) \<Longrightarrow>
      preserves (calls A) (ModifyVpcEndpoint E c input)"
    and "A (Ec2 c (DoAcceptVpcEndpointConnections serviceId ids)) \<Longrightarrow>
      preserves (calls A) (AcceptVpcEndpointConnections E c serviceId ids)"
  unfolding CreateSecurityGroup_def DeleteSecurityGroup_def AuthorizeSecurityGroupRules_def
    CreateTags_def CreateDefaultInterfaceVPCEndpoint_def DeleteVPCEndpoint_def
    ModifyVpcEndpoint_def AcceptVpcEndpointConnections_def
  by (intro calls_intros; simp)+

end
