(* ===== verification/Acceptance.thy ===== *)
theory Acceptance
  imports Libraries Ec2Client
begin

text \<open>
  The VpcEndpointAcceptance controller (controllers/vpcendpointacceptance): which pending
  connections to an endpoint service are accepted, and the reconciliation that accepts them.
\<close>

record acceptor = world +
  aw_awsClient :: "awsConfig option"

type_synonym 'a aprog = "(acceptor, error, 'a) prog"

text \<open>
  One iteration of the loop over the connections: the ids it appends. The accounts are listed
  again for every connection.
\<close>

definition acceptConnection ::
    "env \<Rightarrow> acceptanceCriteria \<Rightarrow> vpcEndpointConnection \<Rightarrow> string list aprog" where
  "acceptConnection E criteria conn =
     (if ac_AlwaysAccept criteria then bindE (deref (vc_VpcEndpointId conn)) (\<lambda>i. ret [i])
      else (case ac_AwsAccountOperatorAccount criteria of
              None \<Rightarrow> ret []
            | Some aao \<Rightarrow>
                bindE (invoke (K8s (DoListAccounts (aao_Namespace aao))) (k8s_ListAccounts (k8s E))) (\<lambda>accounts.
                bindE (deref (vc_VpcEndpointOwner conn)) (\<lambda>owner.
                if owner \<in> set accounts then bindE (deref (vc_VpcEndpointId conn)) (\<lambda>i. ret [i])
                else ret []))))"

definition connectionsToAccept ::
    "env \<Rightarrow> acceptanceCriteria \<Rightarrow> vpcEndpointConnection list \<Rightarrow> string list aprog" where
  "connectionsToAccept E criteria conns =
     foldE (\<lambda>acc conn. bindE (acceptConnection E criteria conn) (\<lambda>ids. ret (acc @ ids))) [] conns"

definition acceptanceConfig :: "env \<Rightarrow> vpcEndpointAcceptanceSpec \<Rightarrow> awsConfig aprog" where
  "acceptanceConfig E spec =
     bindE (invoke (LoadDefaultConfig (vas_Region spec)) (lib_LoadDefaultConfig (lib E))) (\<lambda>_.
     ret \<lparr>aws_Region = vas_Region spec,
          aws_Credentials = (if 0 < length (vas_AssumeRoleArn spec)
                             then AssumedRole (vas_AssumeRoleArn spec) else DefaultCredentials)\<rparr>)"

text \<open>Poll AWS: the client, and the ids of the pending connections that may be accepted.\<close>

definition pollPending :: "env \<Rightarrow> vpcEndpointAcceptance \<Rightarrow> (awsConfig \<times> string list) aprog" where
  "pollPending E acc =
     bindE (acceptanceConfig E (va_Spec acc)) (\<lambda>cfg.
     bindE (modifyE (\<lambda>s. s\<lparr>aw_awsClient := Some cfg\<rparr>)) (\<lambda>_.
     bindE (GetVpcEndpointConnectionsPendingAcceptance E cfg (vas_Id (va_Spec acc))) (\<lambda>conns.
     bindE (connectionsToAccept E (vas_AcceptanceCriteria (va_Spec acc)) conns) (\<lambda>ids.
     bindE (emit (Metric (GaugeSet ''aws_vpce_operator_vpcendpointacceptance_queue''
              [om_Name (va_Meta acc), om_Namespace (va_Meta acc)] (int (length ids))))) (\<lambda>_.
     ret (cfg, ids))))))"

text \<open>The result is the time after which to look again, in nanoseconds; 0 is never.\<close>

definition acceptFetched :: "env \<Rightarrow> vpcEndpointAcceptance \<Rightarrow> int aprog" where
  "acceptFetched E acc =
     (if om_DeletionTimestamp (va_Meta acc) \<noteq> None then
        bindE (emit (Metric (DeleteLabelValues ''aws_vpce_operator_vpcendpointacceptance_queue''
                 [om_Name (va_Meta acc), om_Namespace (va_Meta acc)]))) (\<lambda>_. ret 0)
      else
        bindE (pollPending E acc) (\<lambda>(cfg, ids).
        bindE (AcceptVpcEndpointConnections E cfg (vas_Id (va_Spec acc)) ids) (\<lambda>_.
        ret (60 * 1000000000))))"

definition reconcileAcceptance :: "env \<Rightarrow> string \<Rightarrow> string \<Rightarrow> int aprog" where
  "reconcileAcceptance E namespace name =
     bindE (attempt (invoke (K8s (DoGetAcceptance namespace name)) (k8s_GetAcceptance (k8s E)))) (\<lambda>got.
     case got of
       Inl err \<Rightarrow> (case lib_IgnoreNotFound (lib E) err of None \<Rightarrow> ret 0 | Some e \<Rightarrow> failE e)
     | Inr acc \<Rightarrow> acceptFetched E acc)"

section \<open>Which connections are accepted\<close>

text \<open>
  \<open>approved E criteria conn\<close>: the criteria let the connection in, because they accept everything or
  because the owner is one of the accounts some answer of the API server listed.
\<close>

definition approved :: "env \<Rightarrow> acceptanceCriteria \<Rightarrow> vpcEndpointConnection \<Rightarrow> bool" where
  "approved E criteria conn \<longleftrightarrow> ac_AlwaysAccept criteria \<or>
     (\<exists>aao h accounts owner. ac_AwsAccountOperatorAccount criteria = Some aao \<and>
        k8s_ListAccounts (k8s E) (h @ [K8s (DoListAccounts (aao_Namespace aao))]) = Inr accounts \<and>
        vc_VpcEndpointOwner conn = Some owner \<and> owner \<in> set accounts)"

lemma acceptConnection_Ok:
  assumes "acceptConnection E criteria conn s = (Ok ids, t)" "i \<in> set ids"
  shows "vc_VpcEndpointId conn = Some i \<and> approved E criteria conn"
  using assms
  by (auto simp: acceptConnection_def approved_def world_Ok split: if_splits option.splits)

lemma connectionsToAccept_Ok:
  assumes "foldE (\<lambda>acc conn. bindE (acceptConnection E criteria conn) (\<lambda>ids. ret (acc @ ids))) acc0 conns s
    = (Ok ids, t)" "i \<in> set ids"
  shows "i \<in> set acc0 \<or> (\<exists>conn\<in>set conns. vc_VpcEndpointId conn = Some i \<and> approved E criteria conn)"
  using assms
proof (induction conns arbitrary: acc0 s)
  case (Cons conn conns)
  then obtain new u where a: "acceptConnection E criteria conn s = (Ok new, u)"
    and rest: "foldE (\<lambda>acc conn. bindE (acceptConnection E criteria conn) (\<lambda>ids. ret (acc @ ids)))
      (acc0 @ new) conns u = (Ok ids, t)" by (auto simp: world_Ok)
  from Cons.IH [OF rest Cons.prems(2)] show ?case
    using acceptConnection_Ok [OF a] by auto
qed (simp add: world_Ok)

lemma connectionsToAccept_all:
  assumes "ac_AlwaysAccept criteria" "\<And>conn. conn \<in> set conns \<Longrightarrow> vc_VpcEndpointId conn \<noteq> None"
  shows "foldE (\<lambda>acc conn. bindE (acceptConnection E criteria conn) (\<lambda>ids. ret (acc @ ids))) acc0 conns s =
    (Ok (acc0 @ List.map (\<lambda>conn. the (vc_VpcEndpointId conn)) conns), s)"
  using assms(2)
proof (induction conns arbitrary: acc0)
  case (Cons conn conns)
  from Cons.prems [of conn] obtain i where "vc_VpcEndpointId conn = Some i" by auto
  with Cons assms(1) show ?case by (simp add: acceptConnection_def run_simps)
qed (simp add: run_simps)

text \<open>All that happens before the acceptance itself.\<close>

definition pendingFilters :: "string \<Rightarrow> ec2Filter list" where
  "pendingFilters serviceId =
     [\<lparr>flt_Name = ''service-id'', flt_Values = [serviceId]\<rparr>,
      \<lparr>flt_Name = ''vpc-endpoint-state'', flt_Values = [''pendingAcceptance'']\<rparr>]"

fun no_acceptance :: "event \<Rightarrow> bool" where
  "no_acceptance (Ec2 _ (DoAcceptVpcEndpointConnections _ _)) = False"
| "no_acceptance _ = True"

lemma no_acceptance_read: "aws_read e \<Longrightarrow> no_acceptance e"
  by (cases e rule: no_acceptance.cases) simp_all

lemma acceptance_steps:
  "preserves (calls no_acceptance) (acceptConnection E criteria conn)"
  "preserves (calls no_acceptance) (acceptanceConfig E spec)"
  unfolding acceptConnection_def acceptanceConfig_def by (intro calls_intros; simp)+

lemma connectionsToAccept_calls: "preserves (calls no_acceptance) (connectionsToAccept E criteria conns)"
  unfolding connectionsToAccept_def by (intro calls_intros acceptance_steps)

lemma GetPending_Ok:
  assumes "GetVpcEndpointConnectionsPendingAcceptance E c serviceId s = (Ok conns, t)"
  shows "conns = [] \<or> ec2_DescribeVpcEndpointConnections (ec2 E)
    (history s @ [Ec2 c (DoDescribeVpcEndpointConnections (pendingFilters serviceId))]) = Inr conns"
  using assms by (auto simp: GetVpcEndpointConnectionsPendingAcceptance_def pendingFilters_def world_Ok
      split: if_splits)

lemma AcceptVpcEndpointConnections_event:
  assumes "AcceptVpcEndpointConnections E c serviceId ids s = (r, t)"
    and "Ec2 c' (DoAcceptVpcEndpointConnections sid ids') \<in> set (new_events s t)"
  shows "c' = c \<and> sid = serviceId \<and> ids' = ids \<and> ids \<noteq> []"
  using assms by (auto simp: AcceptVpcEndpointConnections_def run_simps new_events_def
      split: if_splits sum.splits)

text \<open>\<open>acceptable E c sid criteria ids\<close>: AWS reported a pending connection for each id, and the criteria let it in.\<close>

definition acceptable :: "env \<Rightarrow> awsConfig \<Rightarrow> string \<Rightarrow> acceptanceCriteria \<Rightarrow> string list \<Rightarrow> bool" where
  "acceptable E c sid criteria ids \<longleftrightarrow>
     (\<exists>h pending. ec2_DescribeVpcEndpointConnections (ec2 E)
          (h @ [Ec2 c (DoDescribeVpcEndpointConnections (pendingFilters sid))]) = Inr pending \<and>
        (\<forall>i\<in>set ids. \<exists>conn\<in>set pending. vc_VpcEndpointId conn = Some i \<and> approved E criteria conn))"

lemma pollPending_calls: "preserves (emits no_acceptance) (pollPending E acc)"
  unfolding pollPending_def
  by (intro emits_intros emits_modify acceptance_steps [THEN preserves_calls_emits]
      connectionsToAccept_calls [THEN preserves_calls_emits]
      aws_calls [THEN preserves_calls_emits]; auto intro: no_acceptance_read)

lemma pollPending_Ok:
  assumes "pollPending E acc s = (Ok (c, ids), t)" "ids \<noteq> []"
  shows "acceptable E c (vas_Id (va_Spec acc)) (vas_AcceptanceCriteria (va_Spec acc)) ids"
proof -
  from assms obtain u v conns where
    p: "GetVpcEndpointConnectionsPendingAcceptance E c (vas_Id (va_Spec acc)) u = (Ok conns, v)"
    and ids: "\<exists>w. connectionsToAccept E (vas_AcceptanceCriteria (va_Spec acc)) conns v = (Ok ids, w)"
    unfolding pollPending_def by (auto simp: world_Ok)
  then have "\<forall>i\<in>set ids. \<exists>conn\<in>set conns. vc_VpcEndpointId conn = Some i \<and>
      approved E (vas_AcceptanceCriteria (va_Spec acc)) conn"
    using connectionsToAccept_Ok unfolding connectionsToAccept_def by fastforce
  with GetPending_Ok [OF p] assms(2) show ?thesis
    unfolding acceptable_def by (metis empty_iff empty_set last_in_set)
qed

lemma acceptFetched_accepts:
  assumes run: "acceptFetched E acc s = (r, t)"
    and e: "Ec2 c (DoAcceptVpcEndpointConnections sid ids) \<in> set (new_events s t)"
  shows "om_DeletionTimestamp (va_Meta acc) = None \<and> sid = vas_Id (va_Spec acc) \<and> ids \<noteq> [] \<and>
    acceptable E c sid (vas_AcceptanceCriteria (va_Spec acc)) ids"
proof (cases "om_DeletionTimestamp (va_Meta acc)")
  case (Some d)
  with run e show ?thesis by (auto simp: acceptFetched_def run_simps new_events_def)
next
  case None
  define post where "post = (\<lambda>(cfg, ids). bindE (AcceptVpcEndpointConnections E cfg (vas_Id (va_Spec acc)) ids)
    (\<lambda>_. ret (60 * 1000000000) :: int aprog))"
  have split: "bindE (pollPending E acc) post s = (r, t)"
    using run None by (simp add: acceptFetched_def post_def)
  have post: "preserves (emits (\<lambda>_. True)) (post x)" for x
    unfolding post_def by (cases x) (auto intro!: emits_intros aws_calls [THEN preserves_calls_emits])
  obtain x u where p: "pollPending E acc s = (Ok x, u)" and a: "post x u = (r, t)"
    and eu: "Ec2 c (DoAcceptVpcEndpointConnections sid ids) \<in> set (new_events u t)"
    by (rule event_later [OF split e pollPending_calls post]) simp_all
  obtain cfg ids' where x: "x = (cfg, ids')" by fastforce
  obtain q w where w: "AcceptVpcEndpointConnections E cfg (vas_Id (va_Spec acc)) ids' u = (q, w)" by fastforce
  with a x have "t = w" by (cases q) (simp_all add: post_def run_simps)
  with AcceptVpcEndpointConnections_event [OF w] eu
  have "c = cfg" "sid = vas_Id (va_Spec acc)" "ids = ids'" "ids' \<noteq> []" by auto
  with None p x show ?thesis by (auto intro: pollPending_Ok)
qed

text \<open>
  C29: only approved connections are accepted. If a reconciliation of a VpcEndpointAcceptance asks
  AWS to accept connections, then the resource is not being deleted, the service is the one in
  its spec, and for every id AWS reported a pending connection that the criteria let in: they
  accept everything, or the owner is an account that the API server listed.
\<close>

theorem accepted_connections_are_approved:
  assumes "k8s_GetAcceptance (k8s E) (history s @ [K8s (DoGetAcceptance ns n)]) = Inr acc"
    and "Ec2 c (DoAcceptVpcEndpointConnections sid ids) \<in> set (new_events s (snd (reconcileAcceptance E ns n s)))"
  shows "om_DeletionTimestamp (va_Meta acc) = None \<and> sid = vas_Id (va_Spec acc) \<and> ids \<noteq> [] \<and>
    acceptable E c sid (vas_AcceptanceCriteria (va_Spec acc)) ids"
proof -
  let ?u = "s\<lparr>history := history s @ [K8s (DoGetAcceptance ns n)]\<rparr>"
  obtain r t where run: "acceptFetched E acc ?u = (r, t)" by fastforce
  with assms(1) have rec: "reconcileAcceptance E ns n s = (r, t)"
    by (simp add: reconcileAcceptance_def run_simps)
  have "preserves (emits (\<lambda>_. True)) (acceptFetched E acc)"
    unfolding acceptFetched_def
    by (intro emits_intros emits_True [OF pollPending_calls] aws_calls [THEN preserves_calls_emits]; simp)
  then have "emits (\<lambda>_. True) ?u t" using run by (rule preservesD)
  with assms(2) rec have "Ec2 c (DoAcceptVpcEndpointConnections sid ids) \<in> set (new_events ?u t)"
    by (auto simp: emits_def new_events_def)
  with run show ?thesis by (rule acceptFetched_accepts)
qed

definition sample_acceptance :: vpcEndpointAcceptance where
  "sample_acceptance = \<lparr>va_Meta = \<lparr>om_Name = ''acceptance'', om_Namespace = ''default'', om_Labels = [],
       om_Finalizers = [], om_DeletionTimestamp = None, om_CreationTimestamp = 0\<rparr>,
     va_Spec = \<lparr>vas_Id = ''vpce-svc-1'', vas_AssumeRoleArn = '''', vas_Region = ''us-east-1'',
       vas_AcceptanceCriteria = \<lparr>ac_AwsAccountOperatorAccount = Some \<lparr>aao_Namespace = ''aao''\<rparr>,
         ac_AlwaysAccept = False\<rparr>\<rparr>\<rparr>"

definition sample_connections :: "vpcEndpointConnection list" where
  "sample_connections =
     [\<lparr>vc_VpcEndpointId = Some ''vpce-1'', vc_VpcEndpointOwner = Some ''111''\<rparr>,
      \<lparr>vc_VpcEndpointId = Some ''vpce-2'', vc_VpcEndpointOwner = Some ''222''\<rparr>]"

definition acceptance_env :: env where
  "acceptance_env = ref_env\<lparr>k8s := ref_k8s\<lparr>k8s_GetAcceptance := (\<lambda>h. Inr sample_acceptance),
       k8s_ListAccounts := (\<lambda>h. Inr [''222''])\<rparr>,
     ec2 := ref_ec2\<lparr>ec2_DescribeVpcEndpointConnections := (\<lambda>h. Inr sample_connections)\<rparr>\<rparr>"

definition sample_acceptor :: acceptor where
  "sample_acceptor = \<lparr>history = [], aw_awsClient = None\<rparr>"

lemma sample_acceptance_event:
  "Ec2 \<lparr>aws_Region = ''us-east-1'', aws_Credentials = DefaultCredentials\<rparr>
     (DoAcceptVpcEndpointConnections ''vpce-svc-1'' [''vpce-2''])
     \<in> set (new_events sample_acceptor
         (snd (reconcileAcceptance acceptance_env ''default'' ''acceptance'' sample_acceptor)))"
  by (simp add: reconcileAcceptance_def acceptFetched_def pollPending_def acceptanceConfig_def
      GetVpcEndpointConnectionsPendingAcceptance_def connectionsToAccept_def acceptConnection_def
      AcceptVpcEndpointConnections_def run_simps acceptance_env_def sample_acceptance_def
      sample_connections_def sample_acceptor_def ref_defs new_events_def)

lemma sample_acceptance_get: "k8s_GetAcceptance (k8s acceptance_env) h = Inr sample_acceptance"
  by (simp add: acceptance_env_def)

theorem accepted_connections_are_approved_witness:
  "acceptable acceptance_env \<lparr>aws_Region = ''us-east-1'', aws_Credentials = DefaultCredentials\<rparr>
     ''vpce-svc-1'' (vas_AcceptanceCriteria (va_Spec sample_acceptance)) [''vpce-2'']"
  using accepted_connections_are_approved [OF sample_acceptance_get sample_acceptance_event]
  by (simp add: sample_acceptance_def)

lemma connectionsToAccept_accounts:
  assumes "\<not> ac_AlwaysAccept criteria" "ac_AwsAccountOperatorAccount criteria = Some aao"
    and "\<And>h. k8s_ListAccounts (k8s E) h = Inr accounts"
    and "\<And>conn. conn \<in> set conns \<Longrightarrow> vc_VpcEndpointId conn \<noteq> None \<and> vc_VpcEndpointOwner conn \<noteq> None"
  shows "fst (foldE (\<lambda>acc conn. bindE (acceptConnection E criteria conn) (\<lambda>ids. ret (acc @ ids))) acc0 conns s) =
    Ok (acc0 @ List.map (\<lambda>conn. the (vc_VpcEndpointId conn))
          (filter (\<lambda>conn. the (vc_VpcEndpointOwner conn) \<in> set accounts) conns))"
  using assms(4)
proof (induction conns arbitrary: acc0 s)
  case (Cons conn conns)
  from Cons.prems [of conn] obtain i owner
    where "vc_VpcEndpointId conn = Some i" "vc_VpcEndpointOwner conn = Some owner" by auto
  with Cons assms(1-3) show ?case by (simp add: acceptConnection_def run_simps)
qed (simp add: run_simps)

text \<open>
  C30: the criteria decide, and decide completely. For pending connections that carry an id and an
  owner: with \<open>alwaysAccept\<close> every one of them is accepted; with the account criterion exactly
  those whose owner is among the accounts that the API server lists are, in order.
\<close>

theorem acceptance_is_complete:
  assumes "\<forall>conn\<in>set conns. vc_VpcEndpointId conn \<noteq> None \<and> vc_VpcEndpointOwner conn \<noteq> None"
    and "\<forall>h. k8s_ListAccounts (k8s E) h = Inr accounts"
    and "ac_AlwaysAccept criteria \<or> ac_AwsAccountOperatorAccount criteria \<noteq> None"
  shows "fst (connectionsToAccept E criteria conns s) =
    Ok (List.map (\<lambda>conn. the (vc_VpcEndpointId conn))
          (filter (\<lambda>conn. ac_AlwaysAccept criteria \<or> the (vc_VpcEndpointOwner conn) \<in> set accounts) conns))"
proof (cases "ac_AlwaysAccept criteria")
  case True
  with connectionsToAccept_all [of criteria conns E "[]" s] assms(1) show ?thesis
    by (simp add: connectionsToAccept_def)
next
  case False
  with assms(3) obtain aao where "ac_AwsAccountOperatorAccount criteria = Some aao" by auto
  with connectionsToAccept_accounts [of criteria aao E accounts conns "[]" s] assms(1,2) False
  show ?thesis by (simp add: connectionsToAccept_def)
qed

theorem acceptance_is_complete_witness:
  "fst (connectionsToAccept acceptance_env (vas_AcceptanceCriteria (va_Spec sample_acceptance))
     sample_connections sample_acceptor) = Ok [''vpce-2'']"
  by (subst acceptance_is_complete [where accounts = "[''222'']"])
    (simp_all add: acceptance_env_def sample_acceptance_def sample_connections_def)

end
