(* ===== verification/Template.thy ===== *)
theory Template
  imports Libraries
begin

text \<open>
  The VpcEndpointTemplate controller (controllers/vpcendpointtemplate): one VpcEndpoint per hosted
  control plane, kept equal to the template, and the handler that queues the templates when a
  hosted control plane changes. Two specs are compared as values; \<open>reflect.DeepEqual\<close> also tells
  a nil slice from an empty one, which the API server does not store.
\<close>

type_synonym 'a tprog = "(world, error, 'a) prog"

definition template_finalizer :: string where
  "template_finalizer = ''vpcendpointtemplate.avo.openshift.io/finalizer''"

section \<open>Operations on VpcEndpoints\<close>

definition newVpcEndpoint :: "vpcEndpointTemplate \<Rightarrow> string \<Rightarrow> vpcEndpoint" where
  "newVpcEndpoint vpcet namespace =
     \<lparr>ve_Meta = \<lparr>om_Name = om_Name (vet_Meta vpcet), om_Namespace = namespace,
        om_Labels = om_Labels (vts_Meta (vt_Template (vet_Spec vpcet))),
        om_Finalizers = [], om_DeletionTimestamp = None, om_CreationTimestamp = 0\<rparr>,
      ve_Spec = vts_Spec (vt_Template (vet_Spec vpcet)),
      ve_Status = \<lparr>st_Status = '''', st_SecurityGroupId = '''', st_VPCId = '''', st_VPCEndpointId = '''',
        st_VPCEndpointServiceName = '''', st_HostedZoneId = '''', st_ResourceRecordSet = '''',
        st_InfraId = '''', st_Conditions = []\<rparr>\<rparr>"

definition CreateVpcEndpoint :: "env \<Rightarrow> vpcEndpointTemplate \<Rightarrow> string \<Rightarrow> unit tprog" where
  "CreateVpcEndpoint E vpcet namespace =
     invoke (K8s (DoCreateVpcEndpointCR (newVpcEndpoint vpcet namespace))) (k8s_CreateVpcEndpoint (k8s E))"

definition deleteVpcEndpoint :: "env \<Rightarrow> vpcEndpoint \<Rightarrow> unit tprog" where
  "deleteVpcEndpoint E vpce = invoke (K8s (DoDeleteVpcEndpointCR vpce)) (k8s_DeleteVpcEndpoint (k8s E))"

definition matches :: "vpcEndpointTemplate \<Rightarrow> vpcEndpoint \<Rightarrow> bool" where
  "matches vpcet vpce \<longleftrightarrow> ve_Spec vpce = vts_Spec (vt_Template (vet_Spec vpcet))"

definition replaced :: "vpcEndpointTemplate \<Rightarrow> vpcEndpoint \<Rightarrow> vpcEndpoint" where
  "replaced vpcet actual = actual\<lparr>ve_Spec := vts_Spec (vt_Template (vet_Spec vpcet))\<rparr>"

definition ReplaceVpcEndpointSpec :: "env \<Rightarrow> vpcEndpoint \<Rightarrow> vpcEndpointTemplate \<Rightarrow> unit tprog" where
  "ReplaceVpcEndpointSpec E actual vpcet =
     whenE (\<not> matches vpcet actual)
       (invoke (K8s (DoUpdateVpcEndpoint (replaced vpcet actual))) (k8s_UpdateVpcEndpoint (k8s E)))"

section \<open>One VpcEndpoint per hosted control plane\<close>

text \<open>The loop over several endpoints: delete those that differ, and say whether one did not.\<close>

definition deleteExtras :: "env \<Rightarrow> vpcEndpointTemplate \<Rightarrow> vpcEndpoint list \<Rightarrow> bool tprog" where
  "deleteExtras E vpcet items =
     foldE (\<lambda>found vpce.
       if matches vpcet vpce then ret True
       else bindE (deleteVpcEndpoint E vpce) (\<lambda>_. ret found)) False items"

definition validateItems ::
    "env \<Rightarrow> vpcEndpointTemplate \<Rightarrow> string \<Rightarrow> vpcEndpoint list \<Rightarrow> unit tprog" where
  "validateItems E vpcet namespace items =
     (case items of
        [] \<Rightarrow> CreateVpcEndpoint E vpcet namespace
      | [vpce] \<Rightarrow> ReplaceVpcEndpointSpec E vpce vpcet
      | _ \<Rightarrow> bindE (deleteExtras E vpcet items) (\<lambda>found.
             whenE (\<not> found) (CreateVpcEndpoint E vpcet namespace)))"

definition validateHostedControlPlane ::
    "env \<Rightarrow> vpcEndpointTemplate \<Rightarrow> string \<Rightarrow> hostedControlPlane \<Rightarrow> unit tprog" where
  "validateHostedControlPlane E vpcet labelSelector hcp =
     bindE (invoke (K8s (DoListVpcEndpoints (om_Namespace (hc_Meta hcp)) (Some labelSelector)))
              (k8s_ListVpcEndpoints (k8s E))) (\<lambda>items.
     if om_DeletionTimestamp (hc_Meta hcp) \<noteq> None then forE (deleteVpcEndpoint E) items
     else validateItems E vpcet (om_Namespace (hc_Meta hcp)) items)"

definition ValidateVpcEndpointForHostedControlPlanes ::
    "env \<Rightarrow> vpcEndpointTemplate \<Rightarrow> hostedControlPlane list \<Rightarrow> unit tprog" where
  "ValidateVpcEndpointForHostedControlPlanes E vpcet hcpList =
     bindE (liftS (lib_AsValidatedSelector (lib E) (ls_MatchLabels (vt_Selector (vet_Spec vpcet))))) (\<lambda>labelSelector.
     forE (validateHostedControlPlane E vpcet labelSelector) hcpList)"

definition FilterHostedControlPlanes ::
    "env \<Rightarrow> vpcEndpointTemplate \<Rightarrow> hostedControlPlane list tprog" where
  "FilterHostedControlPlanes E vpcet =
     (if vt_Type (vet_Spec vpcet) \<noteq> HCPVpcEndpointTemplateType then ret []
      else invoke (K8s (DoListHostedControlPlanes '''')) (k8s_ListHostedControlPlanes (k8s E)))"

section \<open>The reconciliation\<close>

definition with_finalizers :: "vpcEndpointTemplate \<Rightarrow> string list \<Rightarrow> vpcEndpointTemplate" where
  "with_finalizers vpcet fs = vpcet\<lparr>vet_Meta := (vet_Meta vpcet)\<lparr>om_Finalizers := fs\<rparr>\<rparr>"

definition updateTemplate :: "env \<Rightarrow> vpcEndpointTemplate \<Rightarrow> unit tprog" where
  "updateTemplate E vpcet = invoke (K8s (DoUpdateTemplate vpcet)) (k8s_UpdateTemplate (k8s E))"

definition templateDeletion :: "env \<Rightarrow> vpcEndpointTemplate \<Rightarrow> unit tprog" where
  "templateDeletion E vpcet =
     bindE (whenE (lib_ContainsFinalizer (lib E) (om_Finalizers (vet_Meta vpcet)) template_finalizer)
              (bindE (liftS (lib_LabelSelectorAsSelector (lib E) (vt_Selector (vet_Spec vpcet)))) (\<lambda>selector.
               bindE (invoke (K8s (DoListVpcEndpoints '''' (Some selector))) (k8s_ListVpcEndpoints (k8s E))) (\<lambda>items.
               forE (deleteVpcEndpoint E) items)))) (\<lambda>_.
     updateTemplate E (with_finalizers vpcet
       (lib_RemoveFinalizer (lib E) (om_Finalizers (vet_Meta vpcet)) template_finalizer)))"

definition registerTemplate :: "env \<Rightarrow> vpcEndpointTemplate \<Rightarrow> vpcEndpointTemplate tprog" where
  "registerTemplate E vpcet =
     (if lib_ContainsFinalizer (lib E) (om_Finalizers (vet_Meta vpcet)) template_finalizer then ret vpcet
      else
        let vpcet' = with_finalizers vpcet
              (lib_AddFinalizer (lib E) (om_Finalizers (vet_Meta vpcet)) template_finalizer)
        in bindE (updateTemplate E vpcet') (\<lambda>_. ret vpcet'))"

definition reconcileTemplate :: "env \<Rightarrow> string \<Rightarrow> string \<Rightarrow> unit tprog" where
  "reconcileTemplate E namespace name =
     bindE (attempt (invoke (K8s (DoGetTemplate namespace name)) (k8s_GetTemplate (k8s E)))) (\<lambda>got.
     case got of
       Inl err \<Rightarrow> (case lib_IgnoreNotFound (lib E) err of None \<Rightarrow> ret () | Some e \<Rightarrow> failE e)
     | Inr vpcet \<Rightarrow>
         if om_DeletionTimestamp (vet_Meta vpcet) \<noteq> None then templateDeletion E vpcet
         else
           bindE (registerTemplate E vpcet) (\<lambda>vpcet'.
           bindE (FilterHostedControlPlanes E vpcet') (\<lambda>hcpList.
           ValidateVpcEndpointForHostedControlPlanes E vpcet' hcpList)))"

section \<open>Queueing templates\<close>

type_synonym request = "string \<times> string"

definition enqueue :: "request list \<Rightarrow> request \<Rightarrow> request list tprog" where
  "enqueue reqs req =
     (if req \<in> set reqs then ret reqs
      else bindE (emit (Enqueued (fst req) (snd req))) (\<lambda>_. ret (req # reqs)))"

definition templateRequests :: "vpcEndpointTemplate list \<Rightarrow> request list" where
  "templateRequests templates =
     List.map (\<lambda>t. (om_Namespace (vet_Meta t), om_Name (vet_Meta t)))
       (filter (\<lambda>t. vt_Type (vet_Spec t) = HCPVpcEndpointTemplateType) templates)"

definition mapAndEnqueue :: "env \<Rightarrow> request list \<Rightarrow> request list tprog" where
  "mapAndEnqueue E reqs =
     bindE (attempt (invoke (K8s DoListTemplates) (k8s_ListTemplates (k8s E)))) (\<lambda>listed.
     case listed of
       Inl err \<Rightarrow> ret reqs
     | Inr templates \<Rightarrow> foldE enqueue reqs (templateRequests templates))"

text \<open>The handlers of create, delete and generic events are the same; an update looks twice.\<close>

definition onCreate :: "env \<Rightarrow> unit tprog" where
  "onCreate E = bindE (mapAndEnqueue E []) (\<lambda>_. ret ())"

definition onUpdate :: "env \<Rightarrow> unit tprog" where
  "onUpdate E = bindE (mapAndEnqueue E []) (\<lambda>reqs. bindE (mapAndEnqueue E reqs) (\<lambda>_. ret ()))"

definition onDelete :: "env \<Rightarrow> unit tprog" where
  "onDelete E = bindE (mapAndEnqueue E []) (\<lambda>_. ret ())"

definition onGeneric :: "env \<Rightarrow> unit tprog" where
  "onGeneric E = bindE (mapAndEnqueue E []) (\<lambda>_. ret ())"

section \<open>What the API server holds afterwards\<close>

text \<open>
  The effect of an accepted write on the VpcEndpoints of a namespace: an object is known by its
  name and namespace.
\<close>

definition ve_key :: "vpcEndpoint \<Rightarrow> string \<times> string" where
  "ve_key v = (ve_Namespace v, ve_Name v)"

fun stored :: "event \<Rightarrow> vpcEndpoint list \<Rightarrow> vpcEndpoint list" where
  "stored (K8s (DoCreateVpcEndpointCR v)) vs = vs @ [v]"
| "stored (K8s (DoDeleteVpcEndpointCR v)) vs = filter (\<lambda>w. ve_key w \<noteq> ve_key v) vs"
| "stored (K8s (DoUpdateVpcEndpoint v)) vs = List.map (\<lambda>w. if ve_key w = ve_key v then v else w) vs"
| "stored _ vs = vs"

lemma stored_deletes:
  "fold stored (List.map (\<lambda>v. K8s (DoDeleteVpcEndpointCR v)) ds) vs =
     filter (\<lambda>w. ve_key w \<notin> ve_key ` set ds) vs"
  by (induction ds arbitrary: vs) (auto intro: filter_cong)

lemma keep_by_key:
  assumes "distinct (List.map ve_key items)"
  shows "filter (\<lambda>w. ve_key w \<notin> ve_key ` set (filter (\<lambda>v. \<not> P v) items)) items = filter P items"
  using assms by (intro filter_cong) (auto simp: distinct_map inj_on_def)

lemma new_matches: "matches vpcet (newVpcEndpoint vpcet namespace)"
  by (simp add: matches_def newVpcEndpoint_def)

lemma deleteExtras_Ok:
  assumes "foldE (\<lambda>found vpce. if matches vpcet vpce then ret True
       else bindE (deleteVpcEndpoint E vpce) (\<lambda>_. ret found)) found0 items s = (Ok found, t)"
  shows "found = (found0 \<or> (\<exists>v\<in>set items. matches vpcet v)) \<and>
    history t = history s @ List.map (\<lambda>v. K8s (DoDeleteVpcEndpointCR v)) (filter (\<lambda>v. \<not> matches vpcet v) items)"
  using assms
proof (induction items arbitrary: found0 s)
  case (Cons v items)
  show ?case
  proof (cases "matches vpcet v")
    case True
    with Cons show ?thesis by (simp add: run_simps) blast
  next
    case False
    let ?s1 = "s\<lparr>history := history s @ [K8s (DoDeleteVpcEndpointCR v)]\<rparr>"
    from False Cons.prems have "foldE (\<lambda>found vpce. if matches vpcet vpce then ret True
       else bindE (deleteVpcEndpoint E vpce) (\<lambda>_. ret found)) found0 items ?s1 = (Ok found, t)"
      by (auto simp: deleteVpcEndpoint_def world_Ok)
    from Cons.IH [OF this] False show ?thesis by simp
  qed
qed (simp add: world_Ok)

lemma forE_deletes:
  assumes "forE (deleteVpcEndpoint E) items s = (Ok x, t)"
  shows "history t = history s @ List.map (\<lambda>v. K8s (DoDeleteVpcEndpointCR v)) items"
  using assms
  by (induction items arbitrary: s) (auto simp: deleteVpcEndpoint_def world_Ok)

lemma validateItems_Ok:
  assumes "validateItems E vpcet namespace items s = (Ok x, t)" "distinct (List.map ve_key items)"
  shows "\<exists>tr. history t = history s @ tr \<and>
    (let kept = fold stored tr items in kept \<noteq> [] \<and> (\<forall>v\<in>set kept. matches vpcet v))"
proof (cases items rule: remdups_adj.cases)
  case 1
  with assms(1) show ?thesis
    by (auto simp: validateItems_def CreateVpcEndpoint_def world_Ok new_matches)
next
  case (2 v)
  with assms(1) show ?thesis
    by (auto simp: validateItems_def ReplaceVpcEndpointSpec_def world_Ok replaced_def matches_def ve_key_def
        split: if_splits)
next
  case (3 v w vs)
  with assms(1) obtain found u where d: "deleteExtras E vpcet items s = (Ok found, u)"
    and c: "whenE (\<not> found) (CreateVpcEndpoint E vpcet namespace) u = (Ok (), t)"
    by (auto simp: validateItems_def bindE_Ok)
  let ?ds = "List.map (\<lambda>v. K8s (DoDeleteVpcEndpointCR v)) (filter (\<lambda>v. \<not> matches vpcet v) items)"
  have f: "found = (\<exists>v\<in>set items. matches vpcet v)" "history u = history s @ ?ds"
    using deleteExtras_Ok [OF d [unfolded deleteExtras_def]] by simp_all
  have kept: "fold stored ?ds items = filter (matches vpcet) items"
    using keep_by_key [OF assms(2)] by (simp only: stored_deletes)
  show ?thesis
  proof (cases found)
    case True
    with c have "t = u" by (simp add: whenE_eq)
    with f kept True show ?thesis by (intro exI [of _ ?ds]) (auto simp: filter_empty_conv)
  next
    case False
    with c have "history t = history u @ [K8s (DoCreateVpcEndpointCR (newVpcEndpoint vpcet namespace))]"
      by (auto simp: whenE_run CreateVpcEndpoint_def world_Ok)
    with f kept show ?thesis
      by (intro exI [of _ "?ds @ [K8s (DoCreateVpcEndpointCR (newVpcEndpoint vpcet namespace))]"])
        (auto simp: new_matches)
  qed
qed

text \<open>
  C31: the template is enforced. When the check of one hosted control plane succeeds, apply what it
  wrote to the VpcEndpoints that the API server had listed for the namespace: for a control plane
  that is being deleted nothing is left; otherwise there is at least one VpcEndpoint, and every
  one of them has the spec of the template.
\<close>

theorem hosted_control_plane_converges:
  assumes "validateHostedControlPlane E vpcet sel hcp s = (Ok (), t)"
    and "k8s_ListVpcEndpoints (k8s E)
      (history s @ [K8s (DoListVpcEndpoints (om_Namespace (hc_Meta hcp)) (Some sel))]) = Inr items"
    and "distinct (List.map ve_key items)"
  shows "let kept = fold stored (new_events s t) items in
    if om_DeletionTimestamp (hc_Meta hcp) \<noteq> None then kept = []
    else kept \<noteq> [] \<and> list_all (matches vpcet) kept"
proof -
  let ?list = "K8s (DoListVpcEndpoints (om_Namespace (hc_Meta hcp)) (Some sel))"
  let ?s1 = "s\<lparr>history := history s @ [?list]\<rparr>"
  have run: "(if om_DeletionTimestamp (hc_Meta hcp) \<noteq> None then forE (deleteVpcEndpoint E) items
     else validateItems E vpcet (om_Namespace (hc_Meta hcp)) items) ?s1 = (Ok (), t)"
    using assms(1,2) by (simp add: validateHostedControlPlane_def bindE_run invoke_run)
  show ?thesis
  proof (cases "om_DeletionTimestamp (hc_Meta hcp)")
    case (Some d)
    with run forE_deletes [of E items ?s1 "()" t]
    have "new_events s t = ?list # List.map (\<lambda>v. K8s (DoDeleteVpcEndpointCR v)) items" by simp
    with Some show ?thesis by (simp add: stored_deletes)
  next
    case None
    with run have "validateItems E vpcet (om_Namespace (hc_Meta hcp)) items ?s1 = (Ok (), t)" by simp
    from validateItems_Ok [OF this assms(3)] None show ?thesis by (auto simp: Let_def list_all_iff)
  qed
qed

definition sample_template :: vpcEndpointTemplate where
  "sample_template =
     (let meta = \<lparr>om_Name = ''template'', om_Namespace = ''avo'', om_Labels = [], om_Finalizers = [],
            om_DeletionTimestamp = None, om_CreationTimestamp = 0\<rparr>;
          zone = \<lparr>phz_AutoDiscover = False, phz_AssociatedVpcs = [], phz_DomainName = '''',
            phz_DomainNameRef = None, phz_Id = '''',
            phz_Record = \<lparr>rec_Hostname = '''', rec_ExternalNameService = \<lparr>ens_Name = ''''\<rparr>\<rparr>\<rparr>;
          spec = \<lparr>sp_ServiceName = ''svc'', sp_ServiceNameRef = None,
            sp_SecurityGroup = \<lparr>sg_IngressRules = [], sg_EgressRules = [], sg_UseVpcCidr = False\<rparr>,
            sp_AssumeRoleArn = '''', sp_AWSCredentialOverrideRef = None, sp_Region = '''',
            sp_EnablePrivateDns = False,
            sp_Vpc = \<lparr>vpc_AutoDiscoverSubnets = True, vpc_SubnetIds = [], vpc_Ids = [],
              vpc_Tags = [], vpc_SubnetTags = []\<rparr>,
            sp_CustomDns = \<lparr>dns_Route53PrivateHostedZone = zone\<rparr>\<rparr>
      in \<lparr>vet_Meta = meta, vet_Spec = \<lparr>vt_Type = HCPVpcEndpointTemplateType,
           vt_Selector = \<lparr>ls_MatchLabels = [], ls_MatchExpressions = []\<rparr>,
           vt_Template = \<lparr>vts_Meta = meta, vts_Spec = spec\<rparr>\<rparr>\<rparr>)"

definition sample_hcp :: hostedControlPlane where
  "sample_hcp = \<lparr>hc_Meta = \<lparr>om_Name = ''hcp'', om_Namespace = ''hcp-ns'', om_Labels = [],
     om_Finalizers = [], om_DeletionTimestamp = None, om_CreationTimestamp = 0\<rparr>,
     hc_InfraID = ''infra'', hc_Services = []\<rparr>"

text \<open>Two VpcEndpoints of different names, both as the template wants them.\<close>

definition sample_twins :: "vpcEndpoint list" where
  "sample_twins = [newVpcEndpoint sample_template ''hcp-ns'',
     (newVpcEndpoint sample_template ''hcp-ns'')\<lparr>ve_Meta :=
       (ve_Meta (newVpcEndpoint sample_template ''hcp-ns''))\<lparr>om_Name := ''twin''\<rparr>\<rparr>]"

definition twins_env :: env where
  "twins_env = ref_env\<lparr>k8s := ref_k8s\<lparr>k8s_ListVpcEndpoints := (\<lambda>h. Inr sample_twins)\<rparr>\<rparr>"

lemma twins_matches: "v \<in> set sample_twins \<Longrightarrow> matches sample_template v"
  by (auto simp: sample_twins_def matches_def newVpcEndpoint_def)

lemma twins_keys: "distinct (List.map ve_key sample_twins)"
  by (simp add: sample_twins_def ve_key_def newVpcEndpoint_def sample_template_def Let_def)

lemma twins_run:
  "validateHostedControlPlane twins_env sample_template '''' sample_hcp \<lparr>history = []\<rparr> =
     (Ok (), \<lparr>history = [K8s (DoListVpcEndpoints ''hcp-ns'' (Some ''''))]\<rparr>)"
  by (simp add: validateHostedControlPlane_def validateItems_def deleteExtras_def run_simps twins_env_def
      sample_hcp_def sample_twins_def matches_def newVpcEndpoint_def ref_env_def)

theorem hosted_control_plane_converges_witness:
  "let kept = fold stored [K8s (DoListVpcEndpoints ''hcp-ns'' (Some ''''))] sample_twins
   in kept \<noteq> [] \<and> list_all (matches sample_template) kept"
  using hosted_control_plane_converges [OF twins_run _ twins_keys]
  by (simp add: twins_env_def sample_hcp_def Let_def)

text \<open>
  C38: extra VpcEndpoints that match are kept. The comments say that only one matching VpcEndpoint
  is kept and the extras are deleted; but the loop skips every endpoint that matches, so several
  that match all stay: the check writes nothing at all.
\<close>

theorem matching_extras_are_kept:
  assumes "k8s_ListVpcEndpoints (k8s E)
      (history s @ [K8s (DoListVpcEndpoints (om_Namespace (hc_Meta hcp)) (Some sel))]) = Inr items"
    and "\<forall>v\<in>set items. matches vpcet v" "1 < length items"
    and "om_DeletionTimestamp (hc_Meta hcp) = None"
  shows "validateHostedControlPlane E vpcet sel hcp s =
    (Ok (), s\<lparr>history := history s @ [K8s (DoListVpcEndpoints (om_Namespace (hc_Meta hcp)) (Some sel))]\<rparr>)"
proof -
  have extras: "foldE (\<lambda>found vpce. if matches vpcet vpce then ret True
       else bindE (deleteVpcEndpoint E vpce) (\<lambda>_. ret found)) f vs u = (Ok (f \<or> vs \<noteq> []), u)"
    if "\<forall>v\<in>set vs. matches vpcet v" for f vs u
    using that by (induction vs arbitrary: f) (simp_all add: run_simps)
  obtain v w vs where items: "items = v # w # vs"
    using assms(3) by (cases items rule: remdups_adj.cases) auto
  show ?thesis
    using assms extras [OF assms(2), of False]
    by (simp add: validateHostedControlPlane_def validateItems_def deleteExtras_def run_simps items)
qed

theorem matching_extras_are_kept_witness:
  "snd (validateHostedControlPlane twins_env sample_template '''' sample_hcp \<lparr>history = []\<rparr>) =
     \<lparr>history = [K8s (DoListVpcEndpoints ''hcp-ns'' (Some ''''))]\<rparr>"
  by (subst matching_extras_are_kept [where items = sample_twins])
    (auto simp: twins_env_def sample_hcp_def twins_matches, simp_all add: sample_twins_def)

definition queued :: "event list \<Rightarrow> request list" where
  "queued = List.map_filter (\<lambda>e. case e of Enqueued ns n \<Rightarrow> Some (ns, n) | _ \<Rightarrow> None)"

lemma queued_simps [simp]:
  "queued [] = []" "queued (Enqueued ns n # tr) = (ns, n) # queued tr"
  "queued (K8s c # tr) = queued tr"
  by (simp_all add: queued_def map_filter_simps)

lemma queued_append [simp]: "queued (xs @ ys) = queued xs @ queued ys"
  by (simp add: queued_def map_filter_def)

text \<open>\<open>queues reqs reqs' tr\<close>: the events queue each request that is new in \<open>reqs'\<close> once.\<close>

definition queues :: "request list \<Rightarrow> request list \<Rightarrow> event list \<Rightarrow> bool" where
  "queues reqs reqs' tr \<longleftrightarrow> set reqs \<subseteq> set reqs' \<and> distinct (queued tr) \<and>
     set (queued tr) = set reqs' - set reqs"

lemma queues_trans: "queues a b tr \<Longrightarrow> queues b c tr' \<Longrightarrow> queues a c (tr @ tr')"
  by (auto simp: queues_def)

lemma enqueue_run:
  "enqueue reqs req s = (if req \<in> set reqs then (Ok reqs, s)
     else (Ok (req # reqs), s\<lparr>history := history s @ [Enqueued (fst req) (snd req)]\<rparr>))"
  by (simp add: enqueue_def run_simps)

lemma foldE_enqueue:
  "\<exists>reqs' tr. foldE enqueue reqs rs s = (Ok reqs', s\<lparr>history := history s @ tr\<rparr>) \<and>
     queues reqs reqs' tr \<and> set rs \<subseteq> set reqs'"
proof (induction rs arbitrary: reqs s)
  case Nil
  then show ?case by (auto simp: run_simps queues_def intro!: exI [of _ "[]"])
next
  case (Cons r rs)
  show ?case
  proof (cases "r \<in> set reqs")
    case True
    with Cons.IH [of reqs s] show ?thesis by (auto simp: enqueue_run [of reqs r s] run_simps queues_def)
  next
    case False
    let ?s1 = "s\<lparr>history := history s @ [Enqueued (fst r) (snd r)]\<rparr>"
    have "queues reqs (r # reqs) [Enqueued (fst r) (snd r)]" using False by (auto simp: queues_def)
    moreover obtain reqs' tr where "foldE enqueue (r # reqs) rs ?s1 = (Ok reqs', ?s1\<lparr>history := history ?s1 @ tr\<rparr>)"
      and "queues (r # reqs) reqs' tr" "set rs \<subseteq> set reqs'" using Cons.IH [of "r # reqs" ?s1] by blast
    ultimately show ?thesis
      using False queues_trans [of reqs "r # reqs" _ reqs' tr]
      by (intro exI [of _ reqs'] exI [of _ "Enqueued (fst r) (snd r) # tr"])
        (auto simp: enqueue_run [of reqs r s] run_simps queues_def)
  qed
qed

lemma mapAndEnqueue_run:
  "\<exists>reqs' tr. mapAndEnqueue E reqs s = (Ok reqs', s\<lparr>history := history s @ tr\<rparr>) \<and> queues reqs reqs' tr \<and>
     (\<forall>ts. k8s_ListTemplates (k8s E) (history s @ [K8s DoListTemplates]) = Inr ts \<longrightarrow>
        set (templateRequests ts) \<subseteq> set reqs')"
  if "\<And>h. k8s_ListTemplates (k8s E) h \<noteq> Inl CalleePanic"
proof (cases "k8s_ListTemplates (k8s E) (history s @ [K8s DoListTemplates])")
  case (Inl err)
  with that have "err \<noteq> CalleePanic" by metis
  with Inl show ?thesis
    by (intro exI [of _ reqs] exI [of _ "[K8s DoListTemplates]"])
      (simp add: mapAndEnqueue_def run_simps queues_def)
next
  case (Inr ts)
  let ?s1 = "s\<lparr>history := history s @ [K8s DoListTemplates]\<rparr>"
  obtain reqs' tr where f: "foldE enqueue reqs (templateRequests ts) ?s1 =
      (Ok reqs', ?s1\<lparr>history := history ?s1 @ tr\<rparr>)"
    and q: "queues reqs reqs' tr" "set (templateRequests ts) \<subseteq> set reqs'"
    using foldE_enqueue by blast
  with Inr show ?thesis
    by (intro exI [of _ reqs'] exI [of _ "K8s DoListTemplates # tr"])
      (auto simp: mapAndEnqueue_def run_simps queues_def)
qed

text \<open>
  Templates are queued once. Whatever the API server answers to the two listings (a client does not panic), handling an
  update of a hosted control plane succeeds and queues no template twice; and if the first
  listing is answered, every template of the hosted control plane type in it is queued.
\<close>

lemma templates_queued_once:
  "\<exists>tr. onUpdate E s = (Ok (), s\<lparr>history := history s @ tr\<rparr>) \<and> distinct (queued tr) \<and>
     (case k8s_ListTemplates (k8s E) (history s @ [K8s DoListTemplates]) of
        Inr ts \<Rightarrow> set (templateRequests ts) \<subseteq> set (queued tr)
      | Inl _ \<Rightarrow> True)"
  if "\<And>h. k8s_ListTemplates (k8s E) h \<noteq> Inl CalleePanic"
proof -
  note mapAndEnqueue_run = mapAndEnqueue_run [OF that]
  obtain r1 tr1 where a: "mapAndEnqueue E [] s = (Ok r1, s\<lparr>history := history s @ tr1\<rparr>)" "queues [] r1 tr1"
    and l: "\<forall>ts. k8s_ListTemplates (k8s E) (history s @ [K8s DoListTemplates]) = Inr ts \<longrightarrow>
        set (templateRequests ts) \<subseteq> set r1" using mapAndEnqueue_run by blast
  let ?s1 = "s\<lparr>history := history s @ tr1\<rparr>"
  obtain r2 tr2 where b: "mapAndEnqueue E r1 ?s1 = (Ok r2, ?s1\<lparr>history := history ?s1 @ tr2\<rparr>)" "queues r1 r2 tr2"
    using mapAndEnqueue_run by blast
  from queues_trans [OF a(2) b(2)] a b l show ?thesis
    by (intro exI [of _ "tr1 @ tr2"])
      (auto simp: onUpdate_def run_simps queues_def split: sum.split)
qed

end
