(* ===== verification/GoMemory.thy ===== *)
theory GoMemory
  imports GoStd
begin

text \<open>
  The memory behind pointers and slices, for the code whose point is which memory is shared: the deep
  copies of the API types. A memory maps addresses to cells and knows the next free address. A cell holds an
  array; what \<open>new(T)\<close> allocates is an array of length one, and a pointer is the address of an array with an
  index, so that a pointer into a slice is a pointer as well. The type of cells is a parameter, with one wrapper
  per Go type (\<open>cellType\<close>). The interface \<open>deep_copy\<close> is the contract of a \<open>DeepCopyInto\<close> method, and its rules
  give the contract of a pointer, a slice and a struct from those of what they hold.
\<close>

section \<open>Memories\<close>

record 'c memory =
  mem_cells :: "nat \<Rightarrow> 'c option"
  mem_next :: nat

datatype pointer = NilPointer | Pointer nat nat

text \<open>A slice is an array, the index it starts at, and its length. Its capacity is not modelled.\<close>

datatype slice = NilSlice | Slice nat nat nat

record ('c, 'a) cellType =
  ct_wrap :: "'a list \<Rightarrow> 'c"
  ct_unwrap :: "'c \<Rightarrow> 'a list option"

definition typed :: "('c, 'a) cellType \<Rightarrow> bool" where
  "typed T \<longleftrightarrow> (\<forall>xs. ct_unwrap T (ct_wrap T xs) = Some xs)"

definition array_at :: "('c, 'a) cellType \<Rightarrow> 'c memory \<Rightarrow> nat \<Rightarrow> 'a list option" where
  "array_at T m a = Option.bind (mem_cells m a) (ct_unwrap T)"

definition pointee :: "('c, 'a) cellType \<Rightarrow> 'c memory \<Rightarrow> pointer \<Rightarrow> 'a option" where
  "pointee T m p = (case p of NilPointer \<Rightarrow> None
     | Pointer a i \<Rightarrow> Option.bind (array_at T m a) (\<lambda>xs. if i < length xs then Some (xs ! i) else None))"

definition elements :: "('c, 'a) cellType \<Rightarrow> 'c memory \<Rightarrow> slice \<Rightarrow> 'a list option" where
  "elements T m s = (case s of NilSlice \<Rightarrow> Some []
     | Slice a i n \<Rightarrow> Option.bind (array_at T m a) (\<lambda>xs. if i + n \<le> length xs then Some (take n (drop i xs)) else None))"

definition set_array :: "('c, 'a) cellType \<Rightarrow> nat \<Rightarrow> 'a list \<Rightarrow> 'c memory \<Rightarrow> 'c memory" where
  "set_array T a xs m = m\<lparr>mem_cells := (mem_cells m)(a \<mapsto> ct_wrap T xs)\<rparr>"

text \<open>A memory is well formed if nothing lies beyond the next address; it grows if the old cells stay.\<close>

definition well_formed :: "'c memory \<Rightarrow> bool" where
  "well_formed m \<longleftrightarrow> (\<forall>a. mem_next m \<le> a \<longrightarrow> mem_cells m a = None)"

definition grows :: "'c memory \<Rightarrow> 'c memory \<Rightarrow> bool" where
  "grows m m' \<longleftrightarrow> well_formed m' \<and> mem_next m \<le> mem_next m' \<and> (\<forall>a < mem_next m. mem_cells m' a = mem_cells m a)"

definition fresh :: "'c memory \<Rightarrow> 'c memory \<Rightarrow> nat set" where
  "fresh m m' = {mem_next m..<mem_next m'}"

lemma grows_refl: "well_formed m \<Longrightarrow> grows m m"
  by (simp add: grows_def)

lemma grows_trans: "grows m m' \<Longrightarrow> grows m' m'' \<Longrightarrow> grows m m''"
  by (auto simp: grows_def)

lemma grows_well: "grows m m' \<Longrightarrow> well_formed m'"
  by (simp add: grows_def)

lemma grows_cells: "grows m m' \<Longrightarrow> a < mem_next m \<Longrightarrow> mem_cells m' a = mem_cells m a"
  by (simp add: grows_def)

lemma fresh_mono: "grows m m' \<Longrightarrow> grows m' m'' \<Longrightarrow> fresh m m' \<subseteq> fresh m m'' \<and> fresh m' m'' \<subseteq> fresh m m''"
  by (auto simp: fresh_def grows_def)

lemma well_formed_dom: "well_formed m \<Longrightarrow> a \<in> dom (mem_cells m) \<Longrightarrow> a < mem_next m"
  by (metis domD well_formed_def linorder_not_less option.distinct(1))

section \<open>Reading, allocating and writing\<close>

definition load :: "('c, 'a) cellType \<Rightarrow> pointer \<Rightarrow> ('c memory, 'e, 'a) prog" where
  "load T p = bindE (getsE (\<lambda>m. pointee T m p)) deref"

definition load_slice :: "('c, 'a) cellType \<Rightarrow> slice \<Rightarrow> ('c memory, 'e, 'a list) prog" where
  "load_slice T s = bindE (getsE (\<lambda>m. elements T m s)) deref"

definition alloc :: "('c, 'a) cellType \<Rightarrow> 'a list \<Rightarrow> ('c memory, 'e, nat) prog" where
  "alloc T xs = bindE (getsE mem_next) (\<lambda>a.
     bindE (modifyE (\<lambda>m. set_array T a xs (m\<lparr>mem_next := a + 1\<rparr>))) (\<lambda>_. ret a))"

definition store :: "('c, 'a) cellType \<Rightarrow> nat \<Rightarrow> 'a list \<Rightarrow> ('c memory, 'e, unit) prog" where
  "store T a xs = modifyE (set_array T a xs)"

lemma load_run [run_simps]: "load T p m = (case pointee T m p of None \<Rightarrow> (Panic, m) | Some x \<Rightarrow> (Ok x, m))"
  by (simp add: load_def run_simps split: option.split)

lemma load_slice_run [run_simps]:
  "load_slice T s m = (case elements T m s of None \<Rightarrow> (Panic, m) | Some xs \<Rightarrow> (Ok xs, m))"
  by (simp add: load_slice_def run_simps split: option.split)

lemma alloc_run [run_simps]: "alloc T xs m = (Ok (mem_next m), set_array T (mem_next m) xs (m\<lparr>mem_next := mem_next m + 1\<rparr>))"
  by (simp add: alloc_def run_simps)

lemma store_run [run_simps]: "store T a xs m = (Ok (), set_array T a xs m)"
  by (simp add: store_def run_simps)

lemma set_array_simps [simp]:
  "mem_next (set_array T a xs m) = mem_next m"
  "mem_cells (set_array T a xs m) b = (if b = a then Some (ct_wrap T xs) else mem_cells m b)"
  by (simp_all add: set_array_def)

lemma array_at_set: "typed T \<Longrightarrow> array_at T (set_array T a xs m) a = Some xs"
  by (simp add: array_at_def typed_def)

lemma array_at_cong: "mem_cells m' a = mem_cells m a \<Longrightarrow> array_at T m' a = array_at T m a"
  by (simp add: array_at_def)

lemma array_at_allocated: "array_at T m a = Some xs \<Longrightarrow> a \<in> dom (mem_cells m)"
  by (auto simp: array_at_def bind_eq_Some_conv)

lemma set_array_grows: "grows m m' \<Longrightarrow> a \<in> fresh m m' \<Longrightarrow> grows m (set_array T a xs m')"
  by (auto simp: grows_def fresh_def well_formed_def)

lemma alloc_grows: "well_formed m \<Longrightarrow> grows m (set_array T (mem_next m) xs (m\<lparr>mem_next := mem_next m + 1\<rparr>))"
  by (auto simp: grows_def well_formed_def)

section \<open>The contract of a deep copy\<close>

text \<open>
  \<open>read\<close> is the value that a representation stands for in a memory, \<open>foot\<close> the addresses it depends on.
  A copy stands for the same value, and everything it depends on is new.
\<close>

locale deep_copy =
  fixes read :: "'c memory \<Rightarrow> 'r \<Rightarrow> 'v option"
    and foot :: "'c memory \<Rightarrow> 'r \<Rightarrow> nat set"
    and copy :: "'r \<Rightarrow> ('c memory, error, 'r) prog"
  assumes read_frame: "read m r = Some v \<Longrightarrow> \<forall>a\<in>foot m r. mem_cells m' a = mem_cells m a \<Longrightarrow>
      read m' r = Some v \<and> foot m' r = foot m r"
    and foot_allocated: "read m r = Some v \<Longrightarrow> foot m r \<subseteq> dom (mem_cells m)"
    and copy_fresh: "well_formed m \<Longrightarrow> read m r = Some v \<Longrightarrow>
      \<exists>r' m'. copy r m = (Ok r', m') \<and> grows m m' \<and> read m' r' = Some v \<and> foot m' r' \<subseteq> fresh m m'"
begin

lemma foot_below: "well_formed m \<Longrightarrow> read m r = Some v \<Longrightarrow> a \<in> foot m r \<Longrightarrow> a < mem_next m"
  using foot_allocated well_formed_dom by blast

lemma read_grows:
  assumes "well_formed m" "read m r = Some v" "grows m m'"
  shows "read m' r = Some v" "foot m' r = foot m r"
proof -
  have "\<forall>a\<in>foot m r. mem_cells m' a = mem_cells m a"
    using foot_below [OF assms(1,2)] grows_cells [OF assms(3)] by blast
  from read_frame [OF assms(2) this] show "read m' r = Some v" "foot m' r = foot m r" by simp_all
qed

text \<open>What is written into the old memory leaves the copy as it is.\<close>

lemma copy_untouched:
  assumes "read m' r' = Some v" "foot m' r' \<subseteq> fresh m m'" "\<And>a. mem_next m \<le> a \<Longrightarrow> mem_cells m'' a = mem_cells m' a"
  shows "read m'' r' = Some v"
proof -
  have "\<forall>a\<in>foot m' r'. mem_cells m'' a = mem_cells m' a"
    using assms(2,3) by (auto simp: fresh_def)
  with read_frame [OF assms(1)] show ?thesis by blast
qed

end
section \<open>Structs\<close>

text \<open>A type without pointers is copied by the assignment \<open>*out = *in\<close> alone.\<close>

lemma deep_copy_flat: "deep_copy (\<lambda>m r. Some r) (\<lambda>m r. {}) ret"
  by unfold_locales (auto simp: run_simps intro: grows_refl)

definition both :: "'a option \<Rightarrow> 'b option \<Rightarrow> ('a \<times> 'b) option" where
  "both x y = Option.bind x (\<lambda>a. map_option (Pair a) y)"

lemma both_Some: "both x y = Some z \<longleftrightarrow> x = Some (fst z) \<and> y = Some (snd z)"
  by (cases x; cases y; cases z) (auto simp: both_def)

definition read_pair :: "('c memory \<Rightarrow> 'r \<Rightarrow> 'v option) \<Rightarrow> ('c memory \<Rightarrow> 's \<Rightarrow> 'w option) \<Rightarrow>
    'c memory \<Rightarrow> 'r \<times> 's \<Rightarrow> ('v \<times> 'w) option" where
  "read_pair rd rd' m r = both (rd m (fst r)) (rd' m (snd r))"

definition foot_pair :: "('c memory \<Rightarrow> 'r \<Rightarrow> nat set) \<Rightarrow> ('c memory \<Rightarrow> 's \<Rightarrow> nat set) \<Rightarrow> 'c memory \<Rightarrow> 'r \<times> 's \<Rightarrow> nat set" where
  "foot_pair ft ft' m r = ft m (fst r) \<union> ft' m (snd r)"

definition copy_pair :: "('r \<Rightarrow> ('s, 'e, 'r) prog) \<Rightarrow> ('t \<Rightarrow> ('s, 'e, 't) prog) \<Rightarrow> 'r \<times> 't \<Rightarrow> ('s, 'e, 'r \<times> 't) prog" where
  "copy_pair cp cp' r = bindE (cp (fst r)) (\<lambda>x. bindE (cp' (snd r)) (\<lambda>y. ret (x, y)))"

text \<open>Copying one part after another: the second copy leaves the first as it was.\<close>

lemma deep_copy_then:
  assumes "deep_copy rd ft cp" "deep_copy rd' ft' cp'"
    and "well_formed m" "rd m r = Some v" "rd' m s = Some w"
  obtains r' s' m1 m2 where "cp r m = (Ok r', m1)" "cp' s m1 = (Ok s', m2)" "grows m m2"
    and "rd m2 r' = Some v" "rd' m2 s' = Some w" "ft m2 r' \<subseteq> fresh m m2" "ft' m2 s' \<subseteq> fresh m m2"
proof -
  obtain r' m1 where 1: "cp r m = (Ok r', m1)" "grows m m1" "rd m1 r' = Some v" "ft m1 r' \<subseteq> fresh m m1"
    using deep_copy.copy_fresh [OF assms(1,3,4)] by blast
  have s: "rd' m1 s = Some w" using deep_copy.read_grows(1) [OF assms(2,3,5) 1(2)] .
  obtain s' m2 where 2: "cp' s m1 = (Ok s', m2)" "grows m1 m2" "rd' m2 s' = Some w" "ft' m2 s' \<subseteq> fresh m1 m2"
    using deep_copy.copy_fresh [OF assms(2) grows_well [OF 1(2)] s] by blast
  note kept = deep_copy.read_grows [OF assms(1) grows_well [OF 1(2)] 1(3) 2(2)]
  show thesis
    using that [OF 1(1) 2(1) grows_trans [OF 1(2) 2(2)] kept(1) 2(3)] kept(2) 1(4) 2(4) fresh_mono [OF 1(2) 2(2)] by blast
qed

lemma deep_copy_pair:
  assumes "deep_copy rd ft cp" "deep_copy rd' ft' cp'"
  shows "deep_copy (read_pair rd rd') (foot_pair ft ft') (copy_pair cp cp')"
proof
  fix m m' :: "_ memory" and r v
  assume "read_pair rd rd' m r = Some v" "\<forall>a\<in>foot_pair ft ft' m r. mem_cells m' a = mem_cells m a"
  then show "read_pair rd rd' m' r = Some v \<and> foot_pair ft ft' m' r = foot_pair ft ft' m r"
    using deep_copy.read_frame [OF assms(1), of m "fst r" "fst v" m'] deep_copy.read_frame [OF assms(2), of m "snd r" "snd v" m']
    by (simp add: read_pair_def foot_pair_def both_Some)
next
  fix m :: "_ memory" and r v
  assume "read_pair rd rd' m r = Some v"
  then show "foot_pair ft ft' m r \<subseteq> dom (mem_cells m)"
    using deep_copy.foot_allocated [OF assms(1)] deep_copy.foot_allocated [OF assms(2)]
    by (simp add: read_pair_def foot_pair_def both_Some)
next
  fix m :: "_ memory" and r v
  assume w: "well_formed m" and "read_pair rd rd' m r = Some v"
  then have "rd m (fst r) = Some (fst v)" "rd' m (snd r) = Some (snd v)" by (simp_all add: read_pair_def both_Some)
  from deep_copy_then [OF assms w this] obtain r' s' m1 m2 where
    "cp (fst r) m = (Ok r', m1)" "cp' (snd r) m1 = (Ok s', m2)" "grows m m2"
    "rd m2 r' = Some (fst v)" "rd' m2 s' = Some (snd v)" "ft m2 r' \<subseteq> fresh m m2" "ft' m2 s' \<subseteq> fresh m m2" .
  then show "\<exists>r' m'. copy_pair cp cp' r m = (Ok r', m') \<and> grows m m' \<and> read_pair rd rd' m' r' = Some v \<and>
      foot_pair ft ft' m' r' \<subseteq> fresh m m'"
    by (simp add: copy_pair_def run_simps read_pair_def foot_pair_def both_Some)
qed

text \<open>A struct is copied by copying the fields that have pointers in them; \<open>build\<close> is the value from the rest and theirs.\<close>

lemma deep_copy_struct:
  assumes "deep_copy rd ft cp"
    and "\<And>m r. read m r = map_option (build r) (rd m (refs r))" "\<And>m r. foot m r = ft m (refs r)"
    and "\<And>r. copy r = bindE (cp (refs r)) (\<lambda>x. ret (set_refs r x))"
    and "\<And>r x. refs (set_refs r x) = x" "\<And>r x. build (set_refs r x) = build r"
  shows "deep_copy read foot copy"
proof
  fix m m' :: "_ memory" and r v
  assume "read m r = Some v" "\<forall>a\<in>foot m r. mem_cells m' a = mem_cells m a"
  then show "read m' r = Some v \<and> foot m' r = foot m r"
    using deep_copy.read_frame [OF assms(1), of m "refs r" _ m'] by (auto simp: assms(2,3))
next
  fix m :: "_ memory" and r v
  assume "read m r = Some v"
  then show "foot m r \<subseteq> dom (mem_cells m)"
    using deep_copy.foot_allocated [OF assms(1), of m "refs r"] by (auto simp: assms(2,3))
next
  fix m :: "_ memory" and r v
  assume w: "well_formed m" and "read m r = Some v"
  then obtain x where x: "rd m (refs r) = Some x" "v = build r x" by (auto simp: assms(2))
  from deep_copy.copy_fresh [OF assms(1) w x(1)] x(2)
  show "\<exists>r' m'. copy r m = (Ok r', m') \<and> grows m m' \<and> read m' r' = Some v \<and> foot m' r' \<subseteq> fresh m m'"
    by (auto simp: assms(2-6) run_simps)
qed

section \<open>Arrays\<close>

definition read_list :: "('c memory \<Rightarrow> 'r \<Rightarrow> 'v option) \<Rightarrow> 'c memory \<Rightarrow> 'r list \<Rightarrow> 'v list option" where
  "read_list rd m rs = those (List.map (rd m) rs)"

definition foot_list :: "('c memory \<Rightarrow> 'r \<Rightarrow> nat set) \<Rightarrow> 'c memory \<Rightarrow> 'r list \<Rightarrow> nat set" where
  "foot_list ft m rs = \<Union> (ft m ` set rs)"

lemma read_list_simps [simp]:
  "read_list rd m [] = Some []"
  "read_list rd m (r # rs) = Some vs \<longleftrightarrow> (\<exists>w ws. vs = w # ws \<and> rd m r = Some w \<and> read_list rd m rs = Some ws)"
  by (auto simp: read_list_def split: option.splits)

lemma foot_list_simps [simp]: "foot_list ft m [] = {}" "foot_list ft m (r # rs) = ft m r \<union> foot_list ft m rs"
  by (simp_all add: foot_list_def)

lemma read_list_length: "read_list rd m rs = Some vs \<Longrightarrow> length vs = length rs"
  by (induction rs arbitrary: vs) auto

lemma read_list_flat: "read_list (\<lambda>m r. Some r) m rs = Some rs"
  by (induction rs) auto

lemma deep_copy_list:
  assumes "deep_copy rd ft cp"
  shows "deep_copy (read_list rd) (foot_list ft) (mapE cp)"
proof
  fix m m' :: "_ memory" and r v
  assume "read_list rd m r = Some v" "\<forall>a\<in>foot_list ft m r. mem_cells m' a = mem_cells m a"
  then show "read_list rd m' r = Some v \<and> foot_list ft m' r = foot_list ft m r"
  proof (induction r arbitrary: v)
    case (Cons r rs)
    then show ?case using deep_copy.read_frame [OF assms, of m r _ m'] by auto
  qed simp
next
  fix m :: "_ memory" and r v
  assume "read_list rd m r = Some v"
  then show "foot_list ft m r \<subseteq> dom (mem_cells m)"
  proof (induction r arbitrary: v)
    case (Cons r rs)
    then obtain w ws where "rd m r = Some w" "read_list rd m rs = Some ws" by auto
    with Cons.IH deep_copy.foot_allocated [OF assms, of m r w] show ?case by simp
  qed simp
next
  fix m :: "_ memory" and r v
  assume "well_formed m" "read_list rd m r = Some v"
  then show "\<exists>r' m'. mapE cp r m = (Ok r', m') \<and> grows m m' \<and> read_list rd m' r' = Some v \<and> foot_list ft m' r' \<subseteq> fresh m m'"
  proof (induction r arbitrary: m v)
    case (Cons r rs)
    then obtain w ws where v: "v = w # ws" "rd m r = Some w" "read_list rd m rs = Some ws" by auto
    obtain r' m1 where 1: "cp r m = (Ok r', m1)" "grows m m1" "rd m1 r' = Some w" "ft m1 r' \<subseteq> fresh m m1"
      using deep_copy.copy_fresh [OF assms Cons.prems(1) v(2)] by blast
    have "read_list rd m1 rs = Some ws"
      using v(3) deep_copy.read_grows(1) [OF assms Cons.prems(1) _ 1(2)] by (induction rs arbitrary: ws) auto
    from Cons.IH [OF grows_well [OF 1(2)] this] obtain rs' m2 where 2: "mapE cp rs m1 = (Ok rs', m2)" "grows m1 m2"
      "read_list rd m2 rs' = Some ws" "foot_list ft m2 rs' \<subseteq> fresh m1 m2" by blast
    note kept = deep_copy.read_grows [OF assms grows_well [OF 1(2)] 1(3) 2(2)]
    show ?case
      using 1(1,4) 2 kept grows_trans [OF 1(2) 2(2)] fresh_mono [OF 1(2) 2(2)] by (auto simp: run_simps v(1))
  qed (simp add: run_simps grows_refl)
qed

text \<open>
  A new array for the copies of the elements. Like \<open>*out = *in\<close> it starts as the array it is copied from,
  and each element is then replaced by its copy.
\<close>

definition copy_array :: "('c, 'r) cellType \<Rightarrow> ('r \<Rightarrow> ('c memory, 'e, 'r) prog) \<Rightarrow> 'r list \<Rightarrow> ('c memory, 'e, nat) prog" where
  "copy_array T cp xs =
     bindE (alloc T xs) (\<lambda>a.
     bindE (mapE cp xs) (\<lambda>ys.
     bindE (store T a ys) (\<lambda>_.
     ret a)))"

lemma copy_array_fresh:
  assumes "typed T" "deep_copy rd ft cp" "well_formed m" "read_list rd m xs = Some vs"
  obtains a ys m' where "copy_array T cp xs m = (Ok a, m')" "grows m m'" "a \<in> fresh m m'"
    and "array_at T m' a = Some ys" "read_list rd m' ys = Some vs" "foot_list ft m' ys \<subseteq> fresh m m'"
proof -
  let ?a = "mem_next m" and ?m1 = "set_array T (mem_next m) xs (m\<lparr>mem_next := mem_next m + 1\<rparr>)"
  note lst = deep_copy_list [OF assms(2)]
  have g1: "grows m ?m1" by (rule alloc_grows [OF assms(3)])
  have r1: "read_list rd ?m1 xs = Some vs" by (rule deep_copy.read_grows(1) [OF lst assms(3,4) g1])
  obtain ys m2 where 2: "mapE cp xs ?m1 = (Ok ys, m2)" "grows ?m1 m2" "read_list rd m2 ys = Some vs" "foot_list ft m2 ys \<subseteq> fresh ?m1 m2"
    using deep_copy.copy_fresh [OF lst grows_well [OF g1] r1] by blast
  have a: "?a \<in> fresh m m2" using 2(2) by (simp add: fresh_def grows_def)
  have "\<forall>b\<in>foot_list ft m2 ys. mem_cells (set_array T ?a ys m2) b = mem_cells m2 b"
    using 2(4) by (auto simp: fresh_def)
  from deep_copy.read_frame [OF lst 2(3) this] have 3: "read_list rd (set_array T ?a ys m2) ys = Some vs"
    "foot_list ft (set_array T ?a ys m2) ys = foot_list ft m2 ys" by simp_all
  have g: "grows m (set_array T ?a ys m2)" by (rule set_array_grows [OF grows_trans [OF g1 2(2)] a])
  show thesis
    by (rule that [OF _ g, of ?a ys]) (use 2 3 a fresh_mono [OF g1 2(2)] in
      \<open>auto simp: copy_array_def run_simps array_at_set [OF assms(1)] fresh_def\<close>)
qed

section \<open>Pointers\<close>

text \<open>\<open>if in.F != nil { *out = new(T); (*in).DeepCopyInto(*out) }\<close>\<close>

definition copy_pointer :: "('c, 'r) cellType \<Rightarrow> ('r \<Rightarrow> ('c memory, 'e, 'r) prog) \<Rightarrow> pointer \<Rightarrow> ('c memory, 'e, pointer) prog" where
  "copy_pointer T cp p = (case p of
     NilPointer \<Rightarrow> ret NilPointer
   | Pointer _ _ \<Rightarrow>
       bindE (load T p) (\<lambda>x.
       bindE (copy_array T cp [x]) (\<lambda>a.
       ret (Pointer a 0))))"

definition read_pointer :: "('c, 'r) cellType \<Rightarrow> ('c memory \<Rightarrow> 'r \<Rightarrow> 'v option) \<Rightarrow> 'c memory \<Rightarrow> pointer \<Rightarrow> 'v option option" where
  "read_pointer T rd m p = (case p of
     NilPointer \<Rightarrow> Some None
   | Pointer _ _ \<Rightarrow> map_option Some (Option.bind (pointee T m p) (rd m)))"

definition foot_pointer :: "('c, 'r) cellType \<Rightarrow> ('c memory \<Rightarrow> 'r \<Rightarrow> nat set) \<Rightarrow> 'c memory \<Rightarrow> pointer \<Rightarrow> nat set" where
  "foot_pointer T ft m p = (case p of
     NilPointer \<Rightarrow> {}
   | Pointer a _ \<Rightarrow> insert a (case pointee T m p of None \<Rightarrow> {} | Some x \<Rightarrow> ft m x))"

lemma pointee_cong: "mem_cells m' a = mem_cells m a \<Longrightarrow> pointee T m' (Pointer a i) = pointee T m (Pointer a i)"
  by (simp add: pointee_def array_at_def)

lemma pointee_allocated: "pointee T m (Pointer a i) = Some x \<Longrightarrow> a \<in> dom (mem_cells m)"
  unfolding pointee_def by (cases "array_at T m a") (simp_all add: array_at_allocated)

lemma deep_copy_pointer:
  assumes "typed T" "deep_copy rd ft cp"
  shows "deep_copy (read_pointer T rd) (foot_pointer T ft) (copy_pointer T cp)"
proof
  fix m m' :: "_ memory" and p v
  assume p: "read_pointer T rd m p = Some v" "\<forall>a\<in>foot_pointer T ft m p. mem_cells m' a = mem_cells m a"
  show "read_pointer T rd m' p = Some v \<and> foot_pointer T ft m' p = foot_pointer T ft m p"
  proof (cases p)
    case (Pointer a i)
    with p obtain x w where x: "pointee T m p = Some x" "rd m x = Some w" "v = Some w"
      by (auto simp: read_pointer_def bind_eq_Some_conv)
    with p(2) Pointer deep_copy.read_frame [OF assms(2) x(2), of m'] pointee_cong [of m' a m T i] show ?thesis
      by (auto simp: read_pointer_def foot_pointer_def)
  qed (use p in \<open>simp_all add: read_pointer_def foot_pointer_def\<close>)
next
  fix m :: "_ memory" and p v
  assume p: "read_pointer T rd m p = Some v"
  show "foot_pointer T ft m p \<subseteq> dom (mem_cells m)"
  proof (cases p)
    case (Pointer a i)
    with p obtain x y where x: "pointee T m p = Some x" "rd m x = Some y" by (auto simp: read_pointer_def bind_eq_Some_conv)
    with Pointer show ?thesis
      using deep_copy.foot_allocated [OF assms(2) x(2)] pointee_allocated [of T m a i x] by (simp add: foot_pointer_def)
  qed (simp add: foot_pointer_def)
next
  fix m :: "_ memory" and p v
  assume w: "well_formed m" and p: "read_pointer T rd m p = Some v"
  show "\<exists>q m'. copy_pointer T cp p m = (Ok q, m') \<and> grows m m' \<and> read_pointer T rd m' q = Some v \<and>
      foot_pointer T ft m' q \<subseteq> fresh m m'"
  proof (cases p)
    case (Pointer b i)
    with p obtain x y where x: "pointee T m p = Some x" "rd m x = Some y" "v = Some y"
      by (auto simp: read_pointer_def bind_eq_Some_conv)
    then have "read_list rd m [x] = Some [y]" by simp
    from copy_array_fresh [OF assms w this] obtain a ys m' where c: "copy_array T cp [x] m = (Ok a, m')" "grows m m'"
      "a \<in> fresh m m'" "array_at T m' a = Some ys" "read_list rd m' ys = Some [y]" "foot_list ft m' ys \<subseteq> fresh m m'" .
    moreover from read_list_length [OF c(5)] obtain z where "ys = [z]" by (cases ys) auto
    ultimately show ?thesis
      using Pointer x by (auto simp: copy_pointer_def run_simps read_pointer_def foot_pointer_def pointee_def)
  qed (use p w in \<open>simp add: copy_pointer_def run_simps read_pointer_def foot_pointer_def grows_refl\<close>)
qed

section \<open>Slices\<close>

text \<open>\<open>if in.F != nil { *out = make([]T, len(*in)) }\<close>, and the elements one by one, or all at once by \<open>copy\<close>.\<close>

definition copy_slice :: "('c, 'r) cellType \<Rightarrow> ('r \<Rightarrow> ('c memory, 'e, 'r) prog) \<Rightarrow> slice \<Rightarrow> ('c memory, 'e, slice) prog" where
  "copy_slice T cp s = (case s of
     NilSlice \<Rightarrow> ret NilSlice
   | Slice _ _ _ \<Rightarrow>
       bindE (load_slice T s) (\<lambda>xs.
       bindE (copy_array T cp xs) (\<lambda>a.
       ret (Slice a 0 (length xs)))))"

definition read_slice :: "('c, 'r) cellType \<Rightarrow> ('c memory \<Rightarrow> 'r \<Rightarrow> 'v option) \<Rightarrow> 'c memory \<Rightarrow> slice \<Rightarrow> 'v list option" where
  "read_slice T rd m s = Option.bind (elements T m s) (read_list rd m)"

definition foot_slice :: "('c, 'r) cellType \<Rightarrow> ('c memory \<Rightarrow> 'r \<Rightarrow> nat set) \<Rightarrow> 'c memory \<Rightarrow> slice \<Rightarrow> nat set" where
  "foot_slice T ft m s = (case s of
     NilSlice \<Rightarrow> {}
   | Slice a _ _ \<Rightarrow> insert a (case elements T m s of None \<Rightarrow> {} | Some xs \<Rightarrow> foot_list ft m xs))"

lemma elements_cong: "mem_cells m' a = mem_cells m a \<Longrightarrow> elements T m' (Slice a i n) = elements T m (Slice a i n)"
  by (simp add: elements_def array_at_def)

lemma elements_allocated: "elements T m (Slice a i n) = Some xs \<Longrightarrow> a \<in> dom (mem_cells m)"
  unfolding elements_def by (cases "array_at T m a") (simp_all add: array_at_allocated)

lemma deep_copy_slice:
  assumes "typed T" "deep_copy rd ft cp"
  shows "deep_copy (read_slice T rd) (foot_slice T ft) (copy_slice T cp)"
proof
  note lst = deep_copy_list [OF assms(2)]
  fix m m' :: "_ memory" and s v
  assume s: "read_slice T rd m s = Some v" "\<forall>a\<in>foot_slice T ft m s. mem_cells m' a = mem_cells m a"
  show "read_slice T rd m' s = Some v \<and> foot_slice T ft m' s = foot_slice T ft m s"
  proof (cases s)
    case (Slice a i n)
    with s obtain xs where x: "elements T m s = Some xs" "read_list rd m xs = Some v"
      by (auto simp: read_slice_def bind_eq_Some_conv)
    with s(2) Slice deep_copy.read_frame [OF lst x(2), of m'] elements_cong [of m' a m T i n] show ?thesis
      by (auto simp: read_slice_def foot_slice_def)
  qed (use s in \<open>simp_all add: read_slice_def foot_slice_def elements_def\<close>)
next
  fix m :: "_ memory" and s v
  assume s: "read_slice T rd m s = Some v"
  show "foot_slice T ft m s \<subseteq> dom (mem_cells m)"
  proof (cases s)
    case (Slice a i n)
    with s obtain xs where x: "elements T m s = Some xs" "read_list rd m xs = Some v"
      by (auto simp: read_slice_def bind_eq_Some_conv)
    with Slice show ?thesis
      using deep_copy.foot_allocated [OF deep_copy_list [OF assms(2)] x(2)] elements_allocated [of T m a i n xs]
      by (simp add: foot_slice_def)
  qed (simp add: foot_slice_def)
next
  fix m :: "_ memory" and s v
  assume w: "well_formed m" and s: "read_slice T rd m s = Some v"
  show "\<exists>q m'. copy_slice T cp s m = (Ok q, m') \<and> grows m m' \<and> read_slice T rd m' q = Some v \<and>
      foot_slice T ft m' q \<subseteq> fresh m m'"
  proof (cases s)
    case (Slice b i n)
    with s obtain xs where x: "elements T m s = Some xs" "read_list rd m xs = Some v"
      by (auto simp: read_slice_def bind_eq_Some_conv)
    from copy_array_fresh [OF assms w x(2)] obtain a ys m' where c: "copy_array T cp xs m = (Ok a, m')" "grows m m'"
      "a \<in> fresh m m'" "array_at T m' a = Some ys" "read_list rd m' ys = Some v" "foot_list ft m' ys \<subseteq> fresh m m'" .
    moreover from read_list_length [OF c(5)] read_list_length [OF x(2)] have "length ys = length xs" by simp
    ultimately show ?thesis
      using Slice x by (auto simp: copy_slice_def run_simps read_slice_def foot_slice_def elements_def)
  qed (use s w in \<open>simp add: copy_slice_def run_simps read_slice_def foot_slice_def elements_def grows_refl\<close>)
qed

text \<open>A nil slice stays nil and an empty one stays empty, which JSON tells apart.\<close>

lemma copy_slice_nil: "copy_slice T cp s m = (Ok q, m') \<Longrightarrow> q = NilSlice \<longleftrightarrow> s = NilSlice"
  by (auto simp: copy_slice_def run_simps split: slice.splits option.splits prod.splits outcome.splits)

lemma copy_pointer_nil: "copy_pointer T cp p m = (Ok q, m') \<Longrightarrow> q = NilPointer \<longleftrightarrow> p = NilPointer"
  by (auto simp: copy_pointer_def run_simps split: pointer.splits option.splits prod.splits outcome.splits)

section \<open>Independence\<close>

text \<open>
  The copy has the value of the original, and shares nothing with it: whatever is written into the memory that the
  copy has taken, the original stays what it was, and the other way round.
\<close>

definition independent :: "('c memory \<Rightarrow> 'r \<Rightarrow> 'v option) \<Rightarrow> 'c memory \<Rightarrow> 'r \<Rightarrow> 'c memory \<Rightarrow> 'r \<Rightarrow> 'v \<Rightarrow> bool" where
  "independent rd m r m' r' v \<longleftrightarrow> rd m' r' = Some v \<and>
     (\<forall>m''. (\<forall>a. a < mem_next m \<longrightarrow> mem_cells m'' a = mem_cells m' a) \<longrightarrow> rd m'' r = Some v) \<and>
     (\<forall>m''. (\<forall>a. mem_next m \<le> a \<longrightarrow> mem_cells m'' a = mem_cells m' a) \<longrightarrow> rd m'' r' = Some v)"

context deep_copy
begin

lemma copy_independent:
  assumes "well_formed m" "read m r = Some v"
  obtains r' m' where "copy r m = (Ok r', m')" "grows m m'" "independent read m r m' r' v"
proof -
  obtain r' m' where c: "copy r m = (Ok r', m')" "grows m m'" "read m' r' = Some v" "foot m' r' \<subseteq> fresh m m'"
    using copy_fresh [OF assms] by blast
  have "read m'' r = Some v" if "\<forall>a. a < mem_next m \<longrightarrow> mem_cells m'' a = mem_cells m' a" for m''
  proof -
    have "\<forall>a\<in>foot m r. mem_cells m'' a = mem_cells m a"
      using foot_below [OF assms] that grows_cells [OF c(2)] by simp
    with read_frame [OF assms(2)] show ?thesis by blast
  qed
  moreover have "read m'' r' = Some v" if "\<forall>a. mem_next m \<le> a \<longrightarrow> mem_cells m'' a = mem_cells m' a" for m''
    using copy_untouched [OF c(3,4)] that by blast
  ultimately show thesis using that [OF c(1,2)] c(3) by (simp add: independent_def)
qed

end

end
