(* ===== verification/ApiMemory.thy ===== *)
theory ApiMemory
  imports GoMemory Api
begin

text \<open>
  The API types as Go lays them out: a struct with a pointer, a slice or a map in it is a record
  \<open>raw_T\<close> that holds addresses where the record of Api holds the value; a struct without is the record of Api itself.
  \<open>read_T\<close> is the value that a struct stands for in a memory and \<open>foot_T\<close> the addresses that it depends on.
  The types of \<open>metav1\<close> have the fields that Api has, and their copies are those of the library (\<open>metav1\<close>).
\<close>

section \<open>Types of the library\<close>

record typeMeta =
  tm_Kind :: string
  tm_APIVersion :: string

record listMeta =
  lm_ResourceVersion :: string
  lm_Continue :: string
  lm_RemainingItemCount :: "int option"

text \<open>Of the configuration of the manager, a part with and a part without pointers.\<close>

record managerConfig =
  mc_SyncPeriod :: "int option"
  mc_CacheNamespace :: string
  mc_GracefulShutdownTimeout :: "int option"

text \<open>A map is a reference to its entries.\<close>

record raw_objectMeta =
  rom_Name :: string
  rom_Namespace :: string
  rom_Labels :: pointer
  rom_Finalizers :: slice
  rom_DeletionTimestamp :: pointer
  rom_CreationTimestamp :: int

record raw_listMeta =
  rlm_ResourceVersion :: string
  rlm_Continue :: string
  rlm_RemainingItemCount :: pointer

record raw_labelSelector =
  rls_MatchLabels :: pointer
  rls_MatchExpressions :: slice

record raw_managerConfig =
  rmc_SyncPeriod :: pointer
  rmc_CacheNamespace :: string
  rmc_GracefulShutdownTimeout :: pointer

section \<open>v1alpha2\<close>

type_synonym vpcEndpointTemplateStatus = unit

record vpcEndpointList =
  vel_TypeMeta :: typeMeta
  vel_ListMeta :: listMeta
  vel_Items :: "(typeMeta \<times> vpcEndpoint) list"

record vpcEndpointTemplateList =
  vetl_TypeMeta :: typeMeta
  vetl_ListMeta :: listMeta
  vetl_Items :: "(typeMeta \<times> vpcEndpointTemplate) list"

record raw_associatedVpc =
  rav_CredentialsSecretRef :: pointer
  rav_VpcId :: string
  rav_Region :: string

record raw_hostedControlPlaneSelector =
  rhcp_NamespaceFieldRef :: pointer

record raw_domainNameSource =
  rdns_DnsRef :: pointer
  rdns_HostedControlPlaneRef :: pointer

record raw_domainName =
  rdn_Name :: string
  rdn_ValueFrom :: pointer

record raw_route53PrivateHostedZone =
  rphz_AutoDiscover :: bool
  rphz_AssociatedVpcs :: slice
  rphz_DomainName :: string
  rphz_DomainNameRef :: pointer
  rphz_Id :: string
  rphz_Record :: route53HostedZoneRecord

record raw_customDns =
  rdns_Route53PrivateHostedZone :: raw_route53PrivateHostedZone

record raw_securityGroup =
  rsg_IngressRules :: slice
  rsg_EgressRules :: slice
  rsg_UseVpcCidr :: bool

record raw_serviceNameSource =
  rsns_AwsEndpointServiceRef :: pointer

record raw_serviceName =
  rsn_Name :: string
  rsn_ValueFrom :: pointer

record raw_vpc =
  rvpc_AutoDiscoverSubnets :: bool
  rvpc_SubnetIds :: slice
  rvpc_Ids :: slice
  rvpc_Tags :: slice
  rvpc_SubnetTags :: slice

record raw_vpcEndpointSpec =
  rsp_ServiceName :: string
  rsp_ServiceNameRef :: pointer
  rsp_SecurityGroup :: raw_securityGroup
  rsp_AssumeRoleArn :: string
  rsp_AWSCredentialOverrideRef :: pointer
  rsp_Region :: string
  rsp_EnablePrivateDns :: bool
  rsp_Vpc :: raw_vpc
  rsp_CustomDns :: raw_customDns

record raw_vpcEndpointStatus =
  rst_Status :: string
  rst_SecurityGroupId :: string
  rst_VPCId :: string
  rst_VPCEndpointId :: string
  rst_VPCEndpointServiceName :: string
  rst_HostedZoneId :: string
  rst_ResourceRecordSet :: string
  rst_InfraId :: string
  rst_Conditions :: slice

record raw_vpcEndpoint =
  rve_TypeMeta :: typeMeta
  rve_Meta :: raw_objectMeta
  rve_Spec :: raw_vpcEndpointSpec
  rve_Status :: raw_vpcEndpointStatus

record raw_vpcEndpointList =
  rvel_TypeMeta :: typeMeta
  rvel_ListMeta :: raw_listMeta
  rvel_Items :: slice

record raw_vpceTemplateSpec =
  rvts_Meta :: raw_objectMeta
  rvts_Spec :: raw_vpcEndpointSpec

record raw_vpcEndpointTemplateSpec =
  rvt_Type :: string
  rvt_Selector :: raw_labelSelector
  rvt_Template :: raw_vpceTemplateSpec

record raw_vpcEndpointTemplate =
  rvet_TypeMeta :: typeMeta
  rvet_Meta :: raw_objectMeta
  rvet_Spec :: raw_vpcEndpointTemplateSpec
  rvet_Status :: vpcEndpointTemplateStatus

record raw_vpcEndpointTemplateList =
  rvetl_TypeMeta :: typeMeta
  rvetl_ListMeta :: raw_listMeta
  rvetl_Items :: slice

section \<open>v1alpha1\<close>

text \<open>The VpcEndpoint of v1alpha1 is registered and served, but no controller uses it.\<close>

record v1_securityGroupRule =
  sgr1_FromPort :: int32
  sgr1_ToPort :: int32
  sgr1_Protocol :: string

record v1_securityGroup =
  sg1_IngressRules :: "v1_securityGroupRule list"
  sg1_EgressRules :: "v1_securityGroupRule list"

record v1_externalNameServiceSpec =
  ens1_Name :: string

record v1_vpcEndpointSpec =
  sp1_ServiceName :: string
  sp1_SecurityGroup :: v1_securityGroup
  sp1_SubdomainName :: string
  sp1_ExternalNameService :: v1_externalNameServiceSpec
  sp1_AddtlHostedZoneName :: string

record v1_vpcEndpointStatus =
  st1_Status :: string
  st1_SecurityGroupId :: string
  st1_VPCEndpointId :: string
  st1_Conditions :: "condition list"

record v1_vpcEndpoint =
  ve1_Meta :: objectMeta
  ve1_Spec :: v1_vpcEndpointSpec
  ve1_Status :: v1_vpcEndpointStatus

record v1_vpcEndpointList =
  vel1_TypeMeta :: typeMeta
  vel1_ListMeta :: listMeta
  vel1_Items :: "(typeMeta \<times> v1_vpcEndpoint) list"

type_synonym vpcEndpointAcceptanceStatus = unit

record vpcEndpointAcceptanceList =
  val_TypeMeta :: typeMeta
  val_ListMeta :: listMeta
  val_Items :: "(typeMeta \<times> vpcEndpointAcceptance) list"

record avoConfigList =
  cfgl_TypeMeta :: typeMeta
  cfgl_ListMeta :: listMeta
  cfgl_Items :: "(typeMeta \<times> managerConfig \<times> avoConfig) list"

record raw_acceptanceCriteria =
  rac_AwsAccountOperatorAccount :: pointer
  rac_AlwaysAccept :: bool

record raw_avoConfig =
  rcfg_TypeMeta :: typeMeta
  rcfg_ManagerConfig :: raw_managerConfig
  rcfg_EnableVpcEndpointController :: pointer
  rcfg_EnableVpcEndpointAcceptanceController :: pointer
  rcfg_EnableVpcEndpointTemplateController :: pointer
  rcfg_EnablePrivateDns :: pointer

record raw_avoConfigList =
  rcfgl_TypeMeta :: typeMeta
  rcfgl_ListMeta :: raw_listMeta
  rcfgl_Items :: slice

record raw_v1_securityGroup =
  rsg1_IngressRules :: slice
  rsg1_EgressRules :: slice

record raw_v1_vpcEndpointSpec =
  rsp1_ServiceName :: string
  rsp1_SecurityGroup :: raw_v1_securityGroup
  rsp1_SubdomainName :: string
  rsp1_ExternalNameService :: v1_externalNameServiceSpec
  rsp1_AddtlHostedZoneName :: string

record raw_v1_vpcEndpointStatus =
  rst1_Status :: string
  rst1_SecurityGroupId :: string
  rst1_VPCEndpointId :: string
  rst1_Conditions :: slice

record raw_v1_vpcEndpoint =
  rve1_TypeMeta :: typeMeta
  rve1_Meta :: raw_objectMeta
  rve1_Spec :: raw_v1_vpcEndpointSpec
  rve1_Status :: raw_v1_vpcEndpointStatus

record raw_v1_vpcEndpointList =
  rvel1_TypeMeta :: typeMeta
  rvel1_ListMeta :: raw_listMeta
  rvel1_Items :: slice

record raw_vpcEndpointAcceptanceSpec =
  rvas_Id :: string
  rvas_AssumeRoleArn :: string
  rvas_Region :: string
  rvas_AcceptanceCriteria :: raw_acceptanceCriteria

record raw_vpcEndpointAcceptance =
  rva_TypeMeta :: typeMeta
  rva_Meta :: raw_objectMeta
  rva_Spec :: raw_vpcEndpointAcceptanceSpec
  rva_Status :: vpcEndpointAcceptanceStatus

record raw_vpcEndpointAcceptanceList =
  rval_TypeMeta :: typeMeta
  rval_ListMeta :: raw_listMeta
  rval_Items :: slice

section \<open>Cells\<close>

text \<open>A cell holds an array of one of the types that are pointed to or sliced.\<close>

datatype flatCell =
  StringCell "string list"
| SecretReferenceCell "secretReference list"
| ConditionCell "condition list"
| AwsEndpointSelectorCell "awsEndpointSelector list"
| DnsSelectorCell "dnsSelector list"
| ExternalNameServiceCell "externalNameService list"
| ObjectFieldSelectorCell "objectFieldSelector list"
| Route53HostedZoneRecordCell "route53HostedZoneRecord list"
| SecurityGroupRuleCell "securityGroupRule list"
| TagCell "tag list"
| VpcEndpointTemplateStatusCell "vpcEndpointTemplateStatus list"
| BoolCell "bool list"
| AAOAccountAcceptanceCriteriaCell "aaoAccountAcceptanceCriteria list"
| v1_ExternalNameServiceSpecCell "v1_externalNameServiceSpec list"
| v1_SecurityGroupRuleCell "v1_securityGroupRule list"
| VpcEndpointAcceptanceStatusCell "vpcEndpointAcceptanceStatus list"
| LabelMapCell "((string \<times> string) list) list"
| IntCell "int list"

datatype v2Cell =
  AssociatedVpcCell "raw_associatedVpc list"
| HostedControlPlaneSelectorCell "raw_hostedControlPlaneSelector list"
| DomainNameSourceCell "raw_domainNameSource list"
| DomainNameCell "raw_domainName list"
| Route53PrivateHostedZoneCell "raw_route53PrivateHostedZone list"
| CustomDnsCell "raw_customDns list"
| SecurityGroupCell "raw_securityGroup list"
| ServiceNameSourceCell "raw_serviceNameSource list"
| ServiceNameCell "raw_serviceName list"
| VpcCell "raw_vpc list"
| VpcEndpointSpecCell "raw_vpcEndpointSpec list"
| VpcEndpointStatusCell "raw_vpcEndpointStatus list"
| VpcEndpointCell "raw_vpcEndpoint list"
| VpcEndpointListCell "raw_vpcEndpointList list"
| VpceTemplateSpecCell "raw_vpceTemplateSpec list"
| VpcEndpointTemplateSpecCell "raw_vpcEndpointTemplateSpec list"
| VpcEndpointTemplateCell "raw_vpcEndpointTemplate list"
| VpcEndpointTemplateListCell "raw_vpcEndpointTemplateList list"

datatype v1Cell =
  AcceptanceCriteriaCell "raw_acceptanceCriteria list"
| AvoConfigCell "raw_avoConfig list"
| AvoConfigListCell "raw_avoConfigList list"
| v1_SecurityGroupCell "raw_v1_securityGroup list"
| v1_VpcEndpointSpecCell "raw_v1_vpcEndpointSpec list"
| v1_VpcEndpointStatusCell "raw_v1_vpcEndpointStatus list"
| v1_VpcEndpointCell "raw_v1_vpcEndpoint list"
| v1_VpcEndpointListCell "raw_v1_vpcEndpointList list"
| VpcEndpointAcceptanceSpecCell "raw_vpcEndpointAcceptanceSpec list"
| VpcEndpointAcceptanceCell "raw_vpcEndpointAcceptance list"
| VpcEndpointAcceptanceListCell "raw_vpcEndpointAcceptanceList list"

datatype cell = Flat flatCell | V2 v2Cell | V1 v1Cell

definition String_cells :: "(cell, string) cellType" where
  "String_cells = \<lparr>ct_wrap = \<lambda>xs. Flat (StringCell xs),
     ct_unwrap = \<lambda>c. case c of Flat (StringCell xs) \<Rightarrow> Some xs | _ \<Rightarrow> None\<rparr>"

definition SecretReference_cells :: "(cell, secretReference) cellType" where
  "SecretReference_cells = \<lparr>ct_wrap = \<lambda>xs. Flat (SecretReferenceCell xs),
     ct_unwrap = \<lambda>c. case c of Flat (SecretReferenceCell xs) \<Rightarrow> Some xs | _ \<Rightarrow> None\<rparr>"

definition Condition_cells :: "(cell, condition) cellType" where
  "Condition_cells = \<lparr>ct_wrap = \<lambda>xs. Flat (ConditionCell xs),
     ct_unwrap = \<lambda>c. case c of Flat (ConditionCell xs) \<Rightarrow> Some xs | _ \<Rightarrow> None\<rparr>"

definition AwsEndpointSelector_cells :: "(cell, awsEndpointSelector) cellType" where
  "AwsEndpointSelector_cells = \<lparr>ct_wrap = \<lambda>xs. Flat (AwsEndpointSelectorCell xs),
     ct_unwrap = \<lambda>c. case c of Flat (AwsEndpointSelectorCell xs) \<Rightarrow> Some xs | _ \<Rightarrow> None\<rparr>"

definition DnsSelector_cells :: "(cell, dnsSelector) cellType" where
  "DnsSelector_cells = \<lparr>ct_wrap = \<lambda>xs. Flat (DnsSelectorCell xs),
     ct_unwrap = \<lambda>c. case c of Flat (DnsSelectorCell xs) \<Rightarrow> Some xs | _ \<Rightarrow> None\<rparr>"

definition ExternalNameService_cells :: "(cell, externalNameService) cellType" where
  "ExternalNameService_cells = \<lparr>ct_wrap = \<lambda>xs. Flat (ExternalNameServiceCell xs),
     ct_unwrap = \<lambda>c. case c of Flat (ExternalNameServiceCell xs) \<Rightarrow> Some xs | _ \<Rightarrow> None\<rparr>"

definition ObjectFieldSelector_cells :: "(cell, objectFieldSelector) cellType" where
  "ObjectFieldSelector_cells = \<lparr>ct_wrap = \<lambda>xs. Flat (ObjectFieldSelectorCell xs),
     ct_unwrap = \<lambda>c. case c of Flat (ObjectFieldSelectorCell xs) \<Rightarrow> Some xs | _ \<Rightarrow> None\<rparr>"

definition Route53HostedZoneRecord_cells :: "(cell, route53HostedZoneRecord) cellType" where
  "Route53HostedZoneRecord_cells = \<lparr>ct_wrap = \<lambda>xs. Flat (Route53HostedZoneRecordCell xs),
     ct_unwrap = \<lambda>c. case c of Flat (Route53HostedZoneRecordCell xs) \<Rightarrow> Some xs | _ \<Rightarrow> None\<rparr>"

definition SecurityGroupRule_cells :: "(cell, securityGroupRule) cellType" where
  "SecurityGroupRule_cells = \<lparr>ct_wrap = \<lambda>xs. Flat (SecurityGroupRuleCell xs),
     ct_unwrap = \<lambda>c. case c of Flat (SecurityGroupRuleCell xs) \<Rightarrow> Some xs | _ \<Rightarrow> None\<rparr>"

definition Tag_cells :: "(cell, tag) cellType" where
  "Tag_cells = \<lparr>ct_wrap = \<lambda>xs. Flat (TagCell xs),
     ct_unwrap = \<lambda>c. case c of Flat (TagCell xs) \<Rightarrow> Some xs | _ \<Rightarrow> None\<rparr>"

definition VpcEndpointTemplateStatus_cells :: "(cell, vpcEndpointTemplateStatus) cellType" where
  "VpcEndpointTemplateStatus_cells = \<lparr>ct_wrap = \<lambda>xs. Flat (VpcEndpointTemplateStatusCell xs),
     ct_unwrap = \<lambda>c. case c of Flat (VpcEndpointTemplateStatusCell xs) \<Rightarrow> Some xs | _ \<Rightarrow> None\<rparr>"

definition Bool_cells :: "(cell, bool) cellType" where
  "Bool_cells = \<lparr>ct_wrap = \<lambda>xs. Flat (BoolCell xs),
     ct_unwrap = \<lambda>c. case c of Flat (BoolCell xs) \<Rightarrow> Some xs | _ \<Rightarrow> None\<rparr>"

definition AAOAccountAcceptanceCriteria_cells :: "(cell, aaoAccountAcceptanceCriteria) cellType" where
  "AAOAccountAcceptanceCriteria_cells = \<lparr>ct_wrap = \<lambda>xs. Flat (AAOAccountAcceptanceCriteriaCell xs),
     ct_unwrap = \<lambda>c. case c of Flat (AAOAccountAcceptanceCriteriaCell xs) \<Rightarrow> Some xs | _ \<Rightarrow> None\<rparr>"

definition v1_ExternalNameServiceSpec_cells :: "(cell, v1_externalNameServiceSpec) cellType" where
  "v1_ExternalNameServiceSpec_cells = \<lparr>ct_wrap = \<lambda>xs. Flat (v1_ExternalNameServiceSpecCell xs),
     ct_unwrap = \<lambda>c. case c of Flat (v1_ExternalNameServiceSpecCell xs) \<Rightarrow> Some xs | _ \<Rightarrow> None\<rparr>"

definition v1_SecurityGroupRule_cells :: "(cell, v1_securityGroupRule) cellType" where
  "v1_SecurityGroupRule_cells = \<lparr>ct_wrap = \<lambda>xs. Flat (v1_SecurityGroupRuleCell xs),
     ct_unwrap = \<lambda>c. case c of Flat (v1_SecurityGroupRuleCell xs) \<Rightarrow> Some xs | _ \<Rightarrow> None\<rparr>"

definition VpcEndpointAcceptanceStatus_cells :: "(cell, vpcEndpointAcceptanceStatus) cellType" where
  "VpcEndpointAcceptanceStatus_cells = \<lparr>ct_wrap = \<lambda>xs. Flat (VpcEndpointAcceptanceStatusCell xs),
     ct_unwrap = \<lambda>c. case c of Flat (VpcEndpointAcceptanceStatusCell xs) \<Rightarrow> Some xs | _ \<Rightarrow> None\<rparr>"

definition LabelMap_cells :: "(cell, (string \<times> string) list) cellType" where
  "LabelMap_cells = \<lparr>ct_wrap = \<lambda>xs. Flat (LabelMapCell xs),
     ct_unwrap = \<lambda>c. case c of Flat (LabelMapCell xs) \<Rightarrow> Some xs | _ \<Rightarrow> None\<rparr>"

definition Int_cells :: "(cell, int) cellType" where
  "Int_cells = \<lparr>ct_wrap = \<lambda>xs. Flat (IntCell xs),
     ct_unwrap = \<lambda>c. case c of Flat (IntCell xs) \<Rightarrow> Some xs | _ \<Rightarrow> None\<rparr>"

definition AssociatedVpc_cells :: "(cell, raw_associatedVpc) cellType" where
  "AssociatedVpc_cells = \<lparr>ct_wrap = \<lambda>xs. V2 (AssociatedVpcCell xs),
     ct_unwrap = \<lambda>c. case c of V2 (AssociatedVpcCell xs) \<Rightarrow> Some xs | _ \<Rightarrow> None\<rparr>"

definition HostedControlPlaneSelector_cells :: "(cell, raw_hostedControlPlaneSelector) cellType" where
  "HostedControlPlaneSelector_cells = \<lparr>ct_wrap = \<lambda>xs. V2 (HostedControlPlaneSelectorCell xs),
     ct_unwrap = \<lambda>c. case c of V2 (HostedControlPlaneSelectorCell xs) \<Rightarrow> Some xs | _ \<Rightarrow> None\<rparr>"

definition DomainNameSource_cells :: "(cell, raw_domainNameSource) cellType" where
  "DomainNameSource_cells = \<lparr>ct_wrap = \<lambda>xs. V2 (DomainNameSourceCell xs),
     ct_unwrap = \<lambda>c. case c of V2 (DomainNameSourceCell xs) \<Rightarrow> Some xs | _ \<Rightarrow> None\<rparr>"

definition DomainName_cells :: "(cell, raw_domainName) cellType" where
  "DomainName_cells = \<lparr>ct_wrap = \<lambda>xs. V2 (DomainNameCell xs),
     ct_unwrap = \<lambda>c. case c of V2 (DomainNameCell xs) \<Rightarrow> Some xs | _ \<Rightarrow> None\<rparr>"

definition Route53PrivateHostedZone_cells :: "(cell, raw_route53PrivateHostedZone) cellType" where
  "Route53PrivateHostedZone_cells = \<lparr>ct_wrap = \<lambda>xs. V2 (Route53PrivateHostedZoneCell xs),
     ct_unwrap = \<lambda>c. case c of V2 (Route53PrivateHostedZoneCell xs) \<Rightarrow> Some xs | _ \<Rightarrow> None\<rparr>"

definition CustomDns_cells :: "(cell, raw_customDns) cellType" where
  "CustomDns_cells = \<lparr>ct_wrap = \<lambda>xs. V2 (CustomDnsCell xs),
     ct_unwrap = \<lambda>c. case c of V2 (CustomDnsCell xs) \<Rightarrow> Some xs | _ \<Rightarrow> None\<rparr>"

definition SecurityGroup_cells :: "(cell, raw_securityGroup) cellType" where
  "SecurityGroup_cells = \<lparr>ct_wrap = \<lambda>xs. V2 (SecurityGroupCell xs),
     ct_unwrap = \<lambda>c. case c of V2 (SecurityGroupCell xs) \<Rightarrow> Some xs | _ \<Rightarrow> None\<rparr>"

definition ServiceNameSource_cells :: "(cell, raw_serviceNameSource) cellType" where
  "ServiceNameSource_cells = \<lparr>ct_wrap = \<lambda>xs. V2 (ServiceNameSourceCell xs),
     ct_unwrap = \<lambda>c. case c of V2 (ServiceNameSourceCell xs) \<Rightarrow> Some xs | _ \<Rightarrow> None\<rparr>"

definition ServiceName_cells :: "(cell, raw_serviceName) cellType" where
  "ServiceName_cells = \<lparr>ct_wrap = \<lambda>xs. V2 (ServiceNameCell xs),
     ct_unwrap = \<lambda>c. case c of V2 (ServiceNameCell xs) \<Rightarrow> Some xs | _ \<Rightarrow> None\<rparr>"

definition Vpc_cells :: "(cell, raw_vpc) cellType" where
  "Vpc_cells = \<lparr>ct_wrap = \<lambda>xs. V2 (VpcCell xs),
     ct_unwrap = \<lambda>c. case c of V2 (VpcCell xs) \<Rightarrow> Some xs | _ \<Rightarrow> None\<rparr>"

definition VpcEndpointSpec_cells :: "(cell, raw_vpcEndpointSpec) cellType" where
  "VpcEndpointSpec_cells = \<lparr>ct_wrap = \<lambda>xs. V2 (VpcEndpointSpecCell xs),
     ct_unwrap = \<lambda>c. case c of V2 (VpcEndpointSpecCell xs) \<Rightarrow> Some xs | _ \<Rightarrow> None\<rparr>"

definition VpcEndpointStatus_cells :: "(cell, raw_vpcEndpointStatus) cellType" where
  "VpcEndpointStatus_cells = \<lparr>ct_wrap = \<lambda>xs. V2 (VpcEndpointStatusCell xs),
     ct_unwrap = \<lambda>c. case c of V2 (VpcEndpointStatusCell xs) \<Rightarrow> Some xs | _ \<Rightarrow> None\<rparr>"

definition VpcEndpoint_cells :: "(cell, raw_vpcEndpoint) cellType" where
  "VpcEndpoint_cells = \<lparr>ct_wrap = \<lambda>xs. V2 (VpcEndpointCell xs),
     ct_unwrap = \<lambda>c. case c of V2 (VpcEndpointCell xs) \<Rightarrow> Some xs | _ \<Rightarrow> None\<rparr>"

definition VpcEndpointList_cells :: "(cell, raw_vpcEndpointList) cellType" where
  "VpcEndpointList_cells = \<lparr>ct_wrap = \<lambda>xs. V2 (VpcEndpointListCell xs),
     ct_unwrap = \<lambda>c. case c of V2 (VpcEndpointListCell xs) \<Rightarrow> Some xs | _ \<Rightarrow> None\<rparr>"

definition VpceTemplateSpec_cells :: "(cell, raw_vpceTemplateSpec) cellType" where
  "VpceTemplateSpec_cells = \<lparr>ct_wrap = \<lambda>xs. V2 (VpceTemplateSpecCell xs),
     ct_unwrap = \<lambda>c. case c of V2 (VpceTemplateSpecCell xs) \<Rightarrow> Some xs | _ \<Rightarrow> None\<rparr>"

definition VpcEndpointTemplateSpec_cells :: "(cell, raw_vpcEndpointTemplateSpec) cellType" where
  "VpcEndpointTemplateSpec_cells = \<lparr>ct_wrap = \<lambda>xs. V2 (VpcEndpointTemplateSpecCell xs),
     ct_unwrap = \<lambda>c. case c of V2 (VpcEndpointTemplateSpecCell xs) \<Rightarrow> Some xs | _ \<Rightarrow> None\<rparr>"

definition VpcEndpointTemplate_cells :: "(cell, raw_vpcEndpointTemplate) cellType" where
  "VpcEndpointTemplate_cells = \<lparr>ct_wrap = \<lambda>xs. V2 (VpcEndpointTemplateCell xs),
     ct_unwrap = \<lambda>c. case c of V2 (VpcEndpointTemplateCell xs) \<Rightarrow> Some xs | _ \<Rightarrow> None\<rparr>"

definition VpcEndpointTemplateList_cells :: "(cell, raw_vpcEndpointTemplateList) cellType" where
  "VpcEndpointTemplateList_cells = \<lparr>ct_wrap = \<lambda>xs. V2 (VpcEndpointTemplateListCell xs),
     ct_unwrap = \<lambda>c. case c of V2 (VpcEndpointTemplateListCell xs) \<Rightarrow> Some xs | _ \<Rightarrow> None\<rparr>"

definition AcceptanceCriteria_cells :: "(cell, raw_acceptanceCriteria) cellType" where
  "AcceptanceCriteria_cells = \<lparr>ct_wrap = \<lambda>xs. V1 (AcceptanceCriteriaCell xs),
     ct_unwrap = \<lambda>c. case c of V1 (AcceptanceCriteriaCell xs) \<Rightarrow> Some xs | _ \<Rightarrow> None\<rparr>"

definition AvoConfig_cells :: "(cell, raw_avoConfig) cellType" where
  "AvoConfig_cells = \<lparr>ct_wrap = \<lambda>xs. V1 (AvoConfigCell xs),
     ct_unwrap = \<lambda>c. case c of V1 (AvoConfigCell xs) \<Rightarrow> Some xs | _ \<Rightarrow> None\<rparr>"

definition AvoConfigList_cells :: "(cell, raw_avoConfigList) cellType" where
  "AvoConfigList_cells = \<lparr>ct_wrap = \<lambda>xs. V1 (AvoConfigListCell xs),
     ct_unwrap = \<lambda>c. case c of V1 (AvoConfigListCell xs) \<Rightarrow> Some xs | _ \<Rightarrow> None\<rparr>"

definition v1_SecurityGroup_cells :: "(cell, raw_v1_securityGroup) cellType" where
  "v1_SecurityGroup_cells = \<lparr>ct_wrap = \<lambda>xs. V1 (v1_SecurityGroupCell xs),
     ct_unwrap = \<lambda>c. case c of V1 (v1_SecurityGroupCell xs) \<Rightarrow> Some xs | _ \<Rightarrow> None\<rparr>"

definition v1_VpcEndpointSpec_cells :: "(cell, raw_v1_vpcEndpointSpec) cellType" where
  "v1_VpcEndpointSpec_cells = \<lparr>ct_wrap = \<lambda>xs. V1 (v1_VpcEndpointSpecCell xs),
     ct_unwrap = \<lambda>c. case c of V1 (v1_VpcEndpointSpecCell xs) \<Rightarrow> Some xs | _ \<Rightarrow> None\<rparr>"

definition v1_VpcEndpointStatus_cells :: "(cell, raw_v1_vpcEndpointStatus) cellType" where
  "v1_VpcEndpointStatus_cells = \<lparr>ct_wrap = \<lambda>xs. V1 (v1_VpcEndpointStatusCell xs),
     ct_unwrap = \<lambda>c. case c of V1 (v1_VpcEndpointStatusCell xs) \<Rightarrow> Some xs | _ \<Rightarrow> None\<rparr>"

definition v1_VpcEndpoint_cells :: "(cell, raw_v1_vpcEndpoint) cellType" where
  "v1_VpcEndpoint_cells = \<lparr>ct_wrap = \<lambda>xs. V1 (v1_VpcEndpointCell xs),
     ct_unwrap = \<lambda>c. case c of V1 (v1_VpcEndpointCell xs) \<Rightarrow> Some xs | _ \<Rightarrow> None\<rparr>"

definition v1_VpcEndpointList_cells :: "(cell, raw_v1_vpcEndpointList) cellType" where
  "v1_VpcEndpointList_cells = \<lparr>ct_wrap = \<lambda>xs. V1 (v1_VpcEndpointListCell xs),
     ct_unwrap = \<lambda>c. case c of V1 (v1_VpcEndpointListCell xs) \<Rightarrow> Some xs | _ \<Rightarrow> None\<rparr>"

definition VpcEndpointAcceptanceSpec_cells :: "(cell, raw_vpcEndpointAcceptanceSpec) cellType" where
  "VpcEndpointAcceptanceSpec_cells = \<lparr>ct_wrap = \<lambda>xs. V1 (VpcEndpointAcceptanceSpecCell xs),
     ct_unwrap = \<lambda>c. case c of V1 (VpcEndpointAcceptanceSpecCell xs) \<Rightarrow> Some xs | _ \<Rightarrow> None\<rparr>"

definition VpcEndpointAcceptance_cells :: "(cell, raw_vpcEndpointAcceptance) cellType" where
  "VpcEndpointAcceptance_cells = \<lparr>ct_wrap = \<lambda>xs. V1 (VpcEndpointAcceptanceCell xs),
     ct_unwrap = \<lambda>c. case c of V1 (VpcEndpointAcceptanceCell xs) \<Rightarrow> Some xs | _ \<Rightarrow> None\<rparr>"

definition VpcEndpointAcceptanceList_cells :: "(cell, raw_vpcEndpointAcceptanceList) cellType" where
  "VpcEndpointAcceptanceList_cells = \<lparr>ct_wrap = \<lambda>xs. V1 (VpcEndpointAcceptanceListCell xs),
     ct_unwrap = \<lambda>c. case c of V1 (VpcEndpointAcceptanceListCell xs) \<Rightarrow> Some xs | _ \<Rightarrow> None\<rparr>"

lemmas cellType_defs =
  String_cells_def
  SecretReference_cells_def
  Condition_cells_def
  AwsEndpointSelector_cells_def
  DnsSelector_cells_def
  ExternalNameService_cells_def
  ObjectFieldSelector_cells_def
  Route53HostedZoneRecord_cells_def
  SecurityGroupRule_cells_def
  Tag_cells_def
  VpcEndpointTemplateStatus_cells_def
  Bool_cells_def
  AAOAccountAcceptanceCriteria_cells_def
  v1_ExternalNameServiceSpec_cells_def
  v1_SecurityGroupRule_cells_def
  VpcEndpointAcceptanceStatus_cells_def
  LabelMap_cells_def
  Int_cells_def
  AssociatedVpc_cells_def
  HostedControlPlaneSelector_cells_def
  DomainNameSource_cells_def
  DomainName_cells_def
  Route53PrivateHostedZone_cells_def
  CustomDns_cells_def
  SecurityGroup_cells_def
  ServiceNameSource_cells_def
  ServiceName_cells_def
  Vpc_cells_def
  VpcEndpointSpec_cells_def
  VpcEndpointStatus_cells_def
  VpcEndpoint_cells_def
  VpcEndpointList_cells_def
  VpceTemplateSpec_cells_def
  VpcEndpointTemplateSpec_cells_def
  VpcEndpointTemplate_cells_def
  VpcEndpointTemplateList_cells_def
  AcceptanceCriteria_cells_def
  AvoConfig_cells_def
  AvoConfigList_cells_def
  v1_SecurityGroup_cells_def
  v1_VpcEndpointSpec_cells_def
  v1_VpcEndpointStatus_cells_def
  v1_VpcEndpoint_cells_def
  v1_VpcEndpointList_cells_def
  VpcEndpointAcceptanceSpec_cells_def
  VpcEndpointAcceptance_cells_def
  VpcEndpointAcceptanceList_cells_def

lemma typed_cells:
  shows typed_String: "typed String_cells"
    and typed_SecretReference: "typed SecretReference_cells"
    and typed_Condition: "typed Condition_cells"
    and typed_AwsEndpointSelector: "typed AwsEndpointSelector_cells"
    and typed_DnsSelector: "typed DnsSelector_cells"
    and typed_ExternalNameService: "typed ExternalNameService_cells"
    and typed_ObjectFieldSelector: "typed ObjectFieldSelector_cells"
    and typed_Route53HostedZoneRecord: "typed Route53HostedZoneRecord_cells"
    and typed_SecurityGroupRule: "typed SecurityGroupRule_cells"
    and typed_Tag: "typed Tag_cells"
    and typed_VpcEndpointTemplateStatus: "typed VpcEndpointTemplateStatus_cells"
    and typed_Bool: "typed Bool_cells"
    and typed_AAOAccountAcceptanceCriteria: "typed AAOAccountAcceptanceCriteria_cells"
    and typed_v1_ExternalNameServiceSpec: "typed v1_ExternalNameServiceSpec_cells"
    and typed_v1_SecurityGroupRule: "typed v1_SecurityGroupRule_cells"
    and typed_VpcEndpointAcceptanceStatus: "typed VpcEndpointAcceptanceStatus_cells"
    and typed_LabelMap: "typed LabelMap_cells"
    and typed_Int: "typed Int_cells"
    and typed_AssociatedVpc: "typed AssociatedVpc_cells"
    and typed_HostedControlPlaneSelector: "typed HostedControlPlaneSelector_cells"
    and typed_DomainNameSource: "typed DomainNameSource_cells"
    and typed_DomainName: "typed DomainName_cells"
    and typed_Route53PrivateHostedZone: "typed Route53PrivateHostedZone_cells"
    and typed_CustomDns: "typed CustomDns_cells"
    and typed_SecurityGroup: "typed SecurityGroup_cells"
    and typed_ServiceNameSource: "typed ServiceNameSource_cells"
    and typed_ServiceName: "typed ServiceName_cells"
    and typed_Vpc: "typed Vpc_cells"
    and typed_VpcEndpointSpec: "typed VpcEndpointSpec_cells"
    and typed_VpcEndpointStatus: "typed VpcEndpointStatus_cells"
    and typed_VpcEndpoint: "typed VpcEndpoint_cells"
    and typed_VpcEndpointList: "typed VpcEndpointList_cells"
    and typed_VpceTemplateSpec: "typed VpceTemplateSpec_cells"
    and typed_VpcEndpointTemplateSpec: "typed VpcEndpointTemplateSpec_cells"
    and typed_VpcEndpointTemplate: "typed VpcEndpointTemplate_cells"
    and typed_VpcEndpointTemplateList: "typed VpcEndpointTemplateList_cells"
    and typed_AcceptanceCriteria: "typed AcceptanceCriteria_cells"
    and typed_AvoConfig: "typed AvoConfig_cells"
    and typed_AvoConfigList: "typed AvoConfigList_cells"
    and typed_v1_SecurityGroup: "typed v1_SecurityGroup_cells"
    and typed_v1_VpcEndpointSpec: "typed v1_VpcEndpointSpec_cells"
    and typed_v1_VpcEndpointStatus: "typed v1_VpcEndpointStatus_cells"
    and typed_v1_VpcEndpoint: "typed v1_VpcEndpoint_cells"
    and typed_v1_VpcEndpointList: "typed v1_VpcEndpointList_cells"
    and typed_VpcEndpointAcceptanceSpec: "typed VpcEndpointAcceptanceSpec_cells"
    and typed_VpcEndpointAcceptance: "typed VpcEndpointAcceptance_cells"
    and typed_VpcEndpointAcceptanceList: "typed VpcEndpointAcceptanceList_cells"
  by (simp_all add: typed_def cellType_defs)

end
