(* ===== verification/Metav1.thy ===== *)
theory Metav1
  imports ApiMemory
begin

text \<open>
  What the copies of the API types use of the Kubernetes library: the copies of the object metadata, the list
  metadata, the label selector, the condition and the configuration of the manager. They are parameters (\<open>metav1\<close>),
  and \<open>metav1_laws\<close> is their documentation: each is a deep copy. \<open>ref_metav1\<close> is a library of which this holds.
\<close>

lemmas copy_struct_simps = read_pair_def foot_pair_def copy_pair_def bindE_assoc bindE_ret_left Un_assoc

section \<open>What the types of the library stand for\<close>

definition value_ObjectMeta :: "raw_objectMeta \<Rightarrow> (string \<times> string) list option \<times> string list \<times> int option \<Rightarrow> objectMeta" where
  "value_ObjectMeta r = (\<lambda>(labels, finalizers, deleted).
     \<lparr>om_Name = rom_Name r, om_Namespace = rom_Namespace r,
       om_Labels = (case labels of None \<Rightarrow> [] | Some kvs \<Rightarrow> kvs), om_Finalizers = finalizers,
       om_DeletionTimestamp = deleted, om_CreationTimestamp = rom_CreationTimestamp r\<rparr>)"

definition read_ObjectMeta :: "cell memory \<Rightarrow> raw_objectMeta \<Rightarrow> objectMeta option" where
  "read_ObjectMeta m r = map_option (value_ObjectMeta r)
     (both (read_pointer LabelMap_cells (\<lambda>m r. Some r) m (rom_Labels r))
       (both (read_slice String_cells (\<lambda>m r. Some r) m (rom_Finalizers r))
       (read_pointer Int_cells (\<lambda>m r. Some r) m (rom_DeletionTimestamp r))))"

definition foot_ObjectMeta :: "cell memory \<Rightarrow> raw_objectMeta \<Rightarrow> nat set" where
  "foot_ObjectMeta m r =
     foot_pointer LabelMap_cells (\<lambda>m r. {}) m (rom_Labels r) \<union>
     foot_slice String_cells (\<lambda>m r. {}) m (rom_Finalizers r) \<union>
     foot_pointer Int_cells (\<lambda>m r. {}) m (rom_DeletionTimestamp r)"

definition value_ListMeta :: "raw_listMeta \<Rightarrow> int option \<Rightarrow> listMeta" where
  "value_ListMeta r = (\<lambda>remaining. \<lparr>lm_ResourceVersion = rlm_ResourceVersion r, lm_Continue = rlm_Continue r,
     lm_RemainingItemCount = remaining\<rparr>)"

definition read_ListMeta :: "cell memory \<Rightarrow> raw_listMeta \<Rightarrow> listMeta option" where
  "read_ListMeta m r = map_option (value_ListMeta r)
     (read_pointer Int_cells (\<lambda>m r. Some r) m (rlm_RemainingItemCount r))"

definition foot_ListMeta :: "cell memory \<Rightarrow> raw_listMeta \<Rightarrow> nat set" where
  "foot_ListMeta m r = foot_pointer Int_cells (\<lambda>m r. {}) m (rlm_RemainingItemCount r)"

definition value_LabelSelector :: "raw_labelSelector \<Rightarrow> (string \<times> string) list option \<times> string list \<Rightarrow> labelSelector" where
  "value_LabelSelector r = (\<lambda>(labels, expressions).
     \<lparr>ls_MatchLabels = (case labels of None \<Rightarrow> [] | Some kvs \<Rightarrow> kvs), ls_MatchExpressions = expressions\<rparr>)"

definition read_LabelSelector :: "cell memory \<Rightarrow> raw_labelSelector \<Rightarrow> labelSelector option" where
  "read_LabelSelector m r = map_option (value_LabelSelector r)
     (both (read_pointer LabelMap_cells (\<lambda>m r. Some r) m (rls_MatchLabels r))
       (read_slice String_cells (\<lambda>m r. Some r) m (rls_MatchExpressions r)))"

definition foot_LabelSelector :: "cell memory \<Rightarrow> raw_labelSelector \<Rightarrow> nat set" where
  "foot_LabelSelector m r =
     foot_pointer LabelMap_cells (\<lambda>m r. {}) m (rls_MatchLabels r) \<union>
     foot_slice String_cells (\<lambda>m r. {}) m (rls_MatchExpressions r)"

definition value_ManagerConfig :: "raw_managerConfig \<Rightarrow> int option \<times> int option \<Rightarrow> managerConfig" where
  "value_ManagerConfig r = (\<lambda>(sync, graceful).
     \<lparr>mc_SyncPeriod = sync, mc_CacheNamespace = rmc_CacheNamespace r, mc_GracefulShutdownTimeout = graceful\<rparr>)"

definition read_ManagerConfig :: "cell memory \<Rightarrow> raw_managerConfig \<Rightarrow> managerConfig option" where
  "read_ManagerConfig m r = map_option (value_ManagerConfig r)
     (both (read_pointer Int_cells (\<lambda>m r. Some r) m (rmc_SyncPeriod r))
       (read_pointer Int_cells (\<lambda>m r. Some r) m (rmc_GracefulShutdownTimeout r)))"

definition foot_ManagerConfig :: "cell memory \<Rightarrow> raw_managerConfig \<Rightarrow> nat set" where
  "foot_ManagerConfig m r =
     foot_pointer Int_cells (\<lambda>m r. {}) m (rmc_SyncPeriod r) \<union>
     foot_pointer Int_cells (\<lambda>m r. {}) m (rmc_GracefulShutdownTimeout r)"

section \<open>Its copies\<close>

record metav1 =
  lib_ObjectMeta :: "raw_objectMeta \<Rightarrow> (cell memory, error, raw_objectMeta) prog"
  lib_ListMeta :: "raw_listMeta \<Rightarrow> (cell memory, error, raw_listMeta) prog"
  lib_LabelSelector :: "raw_labelSelector \<Rightarrow> (cell memory, error, raw_labelSelector) prog"
  lib_Condition :: "condition \<Rightarrow> (cell memory, error, condition) prog"
  lib_ManagerConfig :: "raw_managerConfig \<Rightarrow> (cell memory, error, raw_managerConfig) prog"

definition metav1_laws :: "metav1 \<Rightarrow> bool" where
  "metav1_laws L \<longleftrightarrow>
     deep_copy read_ObjectMeta foot_ObjectMeta (lib_ObjectMeta L) \<and>
     deep_copy read_ListMeta foot_ListMeta (lib_ListMeta L) \<and>
     deep_copy read_LabelSelector foot_LabelSelector (lib_LabelSelector L) \<and>
     deep_copy (\<lambda>m r. Some r) (\<lambda>m r. {}) (lib_Condition L) \<and>
     deep_copy read_ManagerConfig foot_ManagerConfig (lib_ManagerConfig L)"

lemma metav1_lawsD:
  assumes "metav1_laws L"
  shows "deep_copy read_ObjectMeta foot_ObjectMeta (lib_ObjectMeta L)"
    and "deep_copy read_ListMeta foot_ListMeta (lib_ListMeta L)"
    and "deep_copy read_LabelSelector foot_LabelSelector (lib_LabelSelector L)"
    and "deep_copy (\<lambda>m r. Some r) (\<lambda>m r. {}) (lib_Condition L)"
    and "deep_copy read_ManagerConfig foot_ManagerConfig (lib_ManagerConfig L)"
  using assms by (simp_all add: metav1_laws_def)

definition ref_metav1 :: metav1 where
  "ref_metav1 = \<lparr>
     lib_ObjectMeta = (\<lambda>r.
       bindE (copy_pointer LabelMap_cells ret (rom_Labels r)) (\<lambda>labels.
       bindE (copy_slice String_cells ret (rom_Finalizers r)) (\<lambda>finalizers.
       bindE (copy_pointer Int_cells ret (rom_DeletionTimestamp r)) (\<lambda>deleted.
       ret (r\<lparr>rom_Labels := labels, rom_Finalizers := finalizers, rom_DeletionTimestamp := deleted\<rparr>))))),
     lib_ListMeta = (\<lambda>r.
       bindE (copy_pointer Int_cells ret (rlm_RemainingItemCount r)) (\<lambda>remaining.
       ret (r\<lparr>rlm_RemainingItemCount := remaining\<rparr>))),
     lib_LabelSelector = (\<lambda>r.
       bindE (copy_pointer LabelMap_cells ret (rls_MatchLabels r)) (\<lambda>labels.
       bindE (copy_slice String_cells ret (rls_MatchExpressions r)) (\<lambda>expressions.
       ret (r\<lparr>rls_MatchLabels := labels, rls_MatchExpressions := expressions\<rparr>)))),
     lib_Condition = ret,
     lib_ManagerConfig = (\<lambda>r.
       bindE (copy_pointer Int_cells ret (rmc_SyncPeriod r)) (\<lambda>sync.
       bindE (copy_pointer Int_cells ret (rmc_GracefulShutdownTimeout r)) (\<lambda>graceful.
       ret (r\<lparr>rmc_SyncPeriod := sync, rmc_GracefulShutdownTimeout := graceful\<rparr>))))\<rparr>"

lemma ref_ObjectMeta: "deep_copy read_ObjectMeta foot_ObjectMeta (lib_ObjectMeta ref_metav1)"
  by (rule deep_copy_struct [OF deep_copy_pair [OF deep_copy_pointer [OF typed_LabelMap deep_copy_flat]
      deep_copy_pair [OF deep_copy_slice [OF typed_String deep_copy_flat] deep_copy_pointer [OF typed_Int deep_copy_flat]]],
      where build = value_ObjectMeta and refs = "\<lambda>r. (rom_Labels r, rom_Finalizers r, rom_DeletionTimestamp r)" and
        set_refs = "\<lambda>r x. r\<lparr>rom_Labels := fst x, rom_Finalizers := fst (snd x), rom_DeletionTimestamp := snd (snd x)\<rparr>"])
    (simp_all add: copy_struct_simps value_ObjectMeta_def read_ObjectMeta_def foot_ObjectMeta_def ref_metav1_def)

lemma ref_ListMeta: "deep_copy read_ListMeta foot_ListMeta (lib_ListMeta ref_metav1)"
  by (rule deep_copy_struct [OF deep_copy_pointer [OF typed_Int deep_copy_flat], where build = value_ListMeta and
        refs = rlm_RemainingItemCount and set_refs = "\<lambda>r x. r\<lparr>rlm_RemainingItemCount := x\<rparr>"])
    (simp_all add: copy_struct_simps value_ListMeta_def read_ListMeta_def foot_ListMeta_def ref_metav1_def)

lemma ref_LabelSelector: "deep_copy read_LabelSelector foot_LabelSelector (lib_LabelSelector ref_metav1)"
  by (rule deep_copy_struct [OF deep_copy_pair [OF deep_copy_pointer [OF typed_LabelMap deep_copy_flat]
      deep_copy_slice [OF typed_String deep_copy_flat]], where build = value_LabelSelector and
        refs = "\<lambda>r. (rls_MatchLabels r, rls_MatchExpressions r)" and
        set_refs = "\<lambda>r x. r\<lparr>rls_MatchLabels := fst x, rls_MatchExpressions := snd x\<rparr>"])
    (simp_all add: copy_struct_simps value_LabelSelector_def read_LabelSelector_def foot_LabelSelector_def ref_metav1_def)

lemma ref_ManagerConfig: "deep_copy read_ManagerConfig foot_ManagerConfig (lib_ManagerConfig ref_metav1)"
  by (rule deep_copy_struct [OF deep_copy_pair [OF deep_copy_pointer [OF typed_Int deep_copy_flat]
      deep_copy_pointer [OF typed_Int deep_copy_flat]], where build = value_ManagerConfig and
        refs = "\<lambda>r. (rmc_SyncPeriod r, rmc_GracefulShutdownTimeout r)" and
        set_refs = "\<lambda>r x. r\<lparr>rmc_SyncPeriod := fst x, rmc_GracefulShutdownTimeout := snd x\<rparr>"])
    (simp_all add: copy_struct_simps value_ManagerConfig_def read_ManagerConfig_def foot_ManagerConfig_def ref_metav1_def)

lemma ref_metav1_laws: "metav1_laws ref_metav1"
  using ref_ObjectMeta ref_ListMeta ref_LabelSelector ref_ManagerConfig deep_copy_flat
  by (simp add: metav1_laws_def ref_metav1_def)

end
