(* ===== verification/DeepCopyV2.thy ===== *)
theory DeepCopyV2
  imports Metav1
begin

text \<open>
  The deep copies of \<open>api/v1alpha2\<close> (zz_generated.deepcopy.go). \<open>DeepCopyInto_T\<close> takes the struct that \<open>in\<close> points
  to and returns the one that \<open>out\<close> points to in the end: it starts as \<open>*out = *in\<close>, and the fields with
  pointers are replaced by copies. \<open>DeepCopy_T\<close> is about pointers: nil for nil, a new struct otherwise.
  Each type has the contract \<open>deep_copy\<close>, put together from those of its fields.
\<close>

section \<open>Types without pointers\<close>

definition DeepCopyInto_AwsEndpointSelector :: "awsEndpointSelector \<Rightarrow> (cell memory, error, awsEndpointSelector) prog" where
  "DeepCopyInto_AwsEndpointSelector = ret"

definition DeepCopy_AwsEndpointSelector :: "pointer \<Rightarrow> (cell memory, error, pointer) prog" where
  "DeepCopy_AwsEndpointSelector = copy_pointer AwsEndpointSelector_cells DeepCopyInto_AwsEndpointSelector"

definition DeepCopyInto_DnsSelector :: "dnsSelector \<Rightarrow> (cell memory, error, dnsSelector) prog" where
  "DeepCopyInto_DnsSelector = ret"

definition DeepCopy_DnsSelector :: "pointer \<Rightarrow> (cell memory, error, pointer) prog" where
  "DeepCopy_DnsSelector = copy_pointer DnsSelector_cells DeepCopyInto_DnsSelector"

definition DeepCopyInto_ExternalNameService :: "externalNameService \<Rightarrow> (cell memory, error, externalNameService) prog" where
  "DeepCopyInto_ExternalNameService = ret"

definition DeepCopy_ExternalNameService :: "pointer \<Rightarrow> (cell memory, error, pointer) prog" where
  "DeepCopy_ExternalNameService = copy_pointer ExternalNameService_cells DeepCopyInto_ExternalNameService"

definition DeepCopyInto_ObjectFieldSelector :: "objectFieldSelector \<Rightarrow> (cell memory, error, objectFieldSelector) prog" where
  "DeepCopyInto_ObjectFieldSelector = ret"

definition DeepCopy_ObjectFieldSelector :: "pointer \<Rightarrow> (cell memory, error, pointer) prog" where
  "DeepCopy_ObjectFieldSelector = copy_pointer ObjectFieldSelector_cells DeepCopyInto_ObjectFieldSelector"

definition DeepCopyInto_Route53HostedZoneRecord :: "route53HostedZoneRecord \<Rightarrow> (cell memory, error, route53HostedZoneRecord) prog" where
  "DeepCopyInto_Route53HostedZoneRecord = ret"

definition DeepCopy_Route53HostedZoneRecord :: "pointer \<Rightarrow> (cell memory, error, pointer) prog" where
  "DeepCopy_Route53HostedZoneRecord = copy_pointer Route53HostedZoneRecord_cells DeepCopyInto_Route53HostedZoneRecord"

definition DeepCopyInto_SecurityGroupRule :: "securityGroupRule \<Rightarrow> (cell memory, error, securityGroupRule) prog" where
  "DeepCopyInto_SecurityGroupRule = ret"

definition DeepCopy_SecurityGroupRule :: "pointer \<Rightarrow> (cell memory, error, pointer) prog" where
  "DeepCopy_SecurityGroupRule = copy_pointer SecurityGroupRule_cells DeepCopyInto_SecurityGroupRule"

definition DeepCopyInto_Tag :: "tag \<Rightarrow> (cell memory, error, tag) prog" where
  "DeepCopyInto_Tag = ret"

definition DeepCopy_Tag :: "pointer \<Rightarrow> (cell memory, error, pointer) prog" where
  "DeepCopy_Tag = copy_pointer Tag_cells DeepCopyInto_Tag"

definition DeepCopyInto_VpcEndpointTemplateStatus :: "vpcEndpointTemplateStatus \<Rightarrow> (cell memory, error, vpcEndpointTemplateStatus) prog" where
  "DeepCopyInto_VpcEndpointTemplateStatus = ret"

definition DeepCopy_VpcEndpointTemplateStatus :: "pointer \<Rightarrow> (cell memory, error, pointer) prog" where
  "DeepCopy_VpcEndpointTemplateStatus = copy_pointer VpcEndpointTemplateStatus_cells DeepCopyInto_VpcEndpointTemplateStatus"

section \<open>Types with pointers\<close>

definition value_AssociatedVpc ::
    "raw_associatedVpc \<Rightarrow> secretReference option \<Rightarrow> associatedVpc" where
  "value_AssociatedVpc r = (\<lambda>credentialsSecretRef'.
      \<lparr>av_CredentialsSecretRef = credentialsSecretRef', av_VpcId = rav_VpcId r,
       av_Region = rav_Region r\<rparr>)"

definition read_AssociatedVpc :: "cell memory \<Rightarrow> raw_associatedVpc \<Rightarrow> associatedVpc option" where
  "read_AssociatedVpc m r = map_option (value_AssociatedVpc r)
     (read_pointer SecretReference_cells (\<lambda>m r. Some r) m (rav_CredentialsSecretRef r))"

definition foot_AssociatedVpc :: "cell memory \<Rightarrow> raw_associatedVpc \<Rightarrow> nat set" where
  "foot_AssociatedVpc m r =
     foot_pointer SecretReference_cells (\<lambda>m r. {}) m (rav_CredentialsSecretRef r)"

definition DeepCopyInto_AssociatedVpc :: "raw_associatedVpc \<Rightarrow> (cell memory, error, raw_associatedVpc) prog" where
  "DeepCopyInto_AssociatedVpc r =
     bindE (copy_pointer SecretReference_cells ret (rav_CredentialsSecretRef r)) (\<lambda>credentialsSecretRef.
     ret (r\<lparr>rav_CredentialsSecretRef := credentialsSecretRef\<rparr>))"

definition DeepCopy_AssociatedVpc :: "pointer \<Rightarrow> (cell memory, error, pointer) prog" where
  "DeepCopy_AssociatedVpc = copy_pointer AssociatedVpc_cells DeepCopyInto_AssociatedVpc"

lemma deep_copy_AssociatedVpc:
  "deep_copy read_AssociatedVpc foot_AssociatedVpc DeepCopyInto_AssociatedVpc"
  by (rule deep_copy_struct [OF deep_copy_pointer [OF typed_SecretReference deep_copy_flat],
      where build = value_AssociatedVpc and refs = "\<lambda>r. rav_CredentialsSecretRef r" and
        set_refs = "\<lambda>r x. r\<lparr>rav_CredentialsSecretRef := x\<rparr>"])
    (simp_all add: copy_struct_simps value_AssociatedVpc_def read_AssociatedVpc_def foot_AssociatedVpc_def
      DeepCopyInto_AssociatedVpc_def)

definition value_HostedControlPlaneSelector ::
    "raw_hostedControlPlaneSelector \<Rightarrow> objectFieldSelector option \<Rightarrow> hostedControlPlaneSelector" where
  "value_HostedControlPlaneSelector r = (\<lambda>namespaceFieldRef'.
      \<lparr>hcp_NamespaceFieldRef = namespaceFieldRef'\<rparr>)"

definition read_HostedControlPlaneSelector :: "cell memory \<Rightarrow> raw_hostedControlPlaneSelector \<Rightarrow> hostedControlPlaneSelector option" where
  "read_HostedControlPlaneSelector m r = map_option (value_HostedControlPlaneSelector r)
     (read_pointer ObjectFieldSelector_cells (\<lambda>m r. Some r) m (rhcp_NamespaceFieldRef r))"

definition foot_HostedControlPlaneSelector :: "cell memory \<Rightarrow> raw_hostedControlPlaneSelector \<Rightarrow> nat set" where
  "foot_HostedControlPlaneSelector m r =
     foot_pointer ObjectFieldSelector_cells (\<lambda>m r. {}) m (rhcp_NamespaceFieldRef r)"

definition DeepCopyInto_HostedControlPlaneSelector :: "raw_hostedControlPlaneSelector \<Rightarrow> (cell memory, error, raw_hostedControlPlaneSelector) prog" where
  "DeepCopyInto_HostedControlPlaneSelector r =
     bindE (copy_pointer ObjectFieldSelector_cells ret (rhcp_NamespaceFieldRef r)) (\<lambda>namespaceFieldRef.
     ret (r\<lparr>rhcp_NamespaceFieldRef := namespaceFieldRef\<rparr>))"

definition DeepCopy_HostedControlPlaneSelector :: "pointer \<Rightarrow> (cell memory, error, pointer) prog" where
  "DeepCopy_HostedControlPlaneSelector = copy_pointer HostedControlPlaneSelector_cells DeepCopyInto_HostedControlPlaneSelector"

lemma deep_copy_HostedControlPlaneSelector:
  "deep_copy read_HostedControlPlaneSelector foot_HostedControlPlaneSelector DeepCopyInto_HostedControlPlaneSelector"
  by (rule deep_copy_struct [OF deep_copy_pointer [OF typed_ObjectFieldSelector deep_copy_flat],
      where build = value_HostedControlPlaneSelector and refs = "\<lambda>r. rhcp_NamespaceFieldRef r" and
        set_refs = "\<lambda>r x. r\<lparr>rhcp_NamespaceFieldRef := x\<rparr>"])
    (simp_all add: copy_struct_simps value_HostedControlPlaneSelector_def read_HostedControlPlaneSelector_def foot_HostedControlPlaneSelector_def
      DeepCopyInto_HostedControlPlaneSelector_def)

definition value_DomainNameSource ::
    "raw_domainNameSource \<Rightarrow> dnsSelector option \<times> hostedControlPlaneSelector option \<Rightarrow> domainNameSource" where
  "value_DomainNameSource r = (\<lambda>(dnsRef', hostedControlPlaneRef').
      \<lparr>dns_DnsRef = dnsRef', dns_HostedControlPlaneRef = hostedControlPlaneRef'\<rparr>)"

definition read_DomainNameSource :: "cell memory \<Rightarrow> raw_domainNameSource \<Rightarrow> domainNameSource option" where
  "read_DomainNameSource m r = map_option (value_DomainNameSource r)
     (both (read_pointer DnsSelector_cells (\<lambda>m r. Some r) m (rdns_DnsRef r))
       (read_pointer HostedControlPlaneSelector_cells read_HostedControlPlaneSelector m (rdns_HostedControlPlaneRef r)))"

definition foot_DomainNameSource :: "cell memory \<Rightarrow> raw_domainNameSource \<Rightarrow> nat set" where
  "foot_DomainNameSource m r =
     foot_pointer DnsSelector_cells (\<lambda>m r. {}) m (rdns_DnsRef r) \<union>
     foot_pointer HostedControlPlaneSelector_cells foot_HostedControlPlaneSelector m (rdns_HostedControlPlaneRef r)"

definition DeepCopyInto_DomainNameSource :: "raw_domainNameSource \<Rightarrow> (cell memory, error, raw_domainNameSource) prog" where
  "DeepCopyInto_DomainNameSource r =
     bindE (copy_pointer DnsSelector_cells ret (rdns_DnsRef r)) (\<lambda>dnsRef.
     bindE (copy_pointer HostedControlPlaneSelector_cells DeepCopyInto_HostedControlPlaneSelector (rdns_HostedControlPlaneRef r)) (\<lambda>hostedControlPlaneRef.
     ret (r\<lparr>rdns_DnsRef := dnsRef, rdns_HostedControlPlaneRef := hostedControlPlaneRef\<rparr>)))"

definition DeepCopy_DomainNameSource :: "pointer \<Rightarrow> (cell memory, error, pointer) prog" where
  "DeepCopy_DomainNameSource = copy_pointer DomainNameSource_cells DeepCopyInto_DomainNameSource"

lemma deep_copy_DomainNameSource:
  "deep_copy read_DomainNameSource foot_DomainNameSource DeepCopyInto_DomainNameSource"
  by (rule deep_copy_struct [OF deep_copy_pair [OF deep_copy_pointer [OF typed_DnsSelector deep_copy_flat]
      deep_copy_pointer [OF typed_HostedControlPlaneSelector deep_copy_HostedControlPlaneSelector]],
      where build = value_DomainNameSource and refs = "\<lambda>r. (rdns_DnsRef r, rdns_HostedControlPlaneRef r)" and
        set_refs = "\<lambda>r x. r\<lparr>rdns_DnsRef := fst x, rdns_HostedControlPlaneRef := snd x\<rparr>"])
    (simp_all add: copy_struct_simps value_DomainNameSource_def read_DomainNameSource_def foot_DomainNameSource_def
      DeepCopyInto_DomainNameSource_def)

definition value_DomainName ::
    "raw_domainName \<Rightarrow> domainNameSource option \<Rightarrow> domainName" where
  "value_DomainName r = (\<lambda>valueFrom'.
      \<lparr>dn_Name = rdn_Name r, dn_ValueFrom = valueFrom'\<rparr>)"

definition read_DomainName :: "cell memory \<Rightarrow> raw_domainName \<Rightarrow> domainName option" where
  "read_DomainName m r = map_option (value_DomainName r)
     (read_pointer DomainNameSource_cells read_DomainNameSource m (rdn_ValueFrom r))"

definition foot_DomainName :: "cell memory \<Rightarrow> raw_domainName \<Rightarrow> nat set" where
  "foot_DomainName m r =
     foot_pointer DomainNameSource_cells foot_DomainNameSource m (rdn_ValueFrom r)"

definition DeepCopyInto_DomainName :: "raw_domainName \<Rightarrow> (cell memory, error, raw_domainName) prog" where
  "DeepCopyInto_DomainName r =
     bindE (copy_pointer DomainNameSource_cells DeepCopyInto_DomainNameSource (rdn_ValueFrom r)) (\<lambda>valueFrom.
     ret (r\<lparr>rdn_ValueFrom := valueFrom\<rparr>))"

definition DeepCopy_DomainName :: "pointer \<Rightarrow> (cell memory, error, pointer) prog" where
  "DeepCopy_DomainName = copy_pointer DomainName_cells DeepCopyInto_DomainName"

lemma deep_copy_DomainName:
  "deep_copy read_DomainName foot_DomainName DeepCopyInto_DomainName"
  by (rule deep_copy_struct [OF deep_copy_pointer [OF typed_DomainNameSource deep_copy_DomainNameSource],
      where build = value_DomainName and refs = "\<lambda>r. rdn_ValueFrom r" and
        set_refs = "\<lambda>r x. r\<lparr>rdn_ValueFrom := x\<rparr>"])
    (simp_all add: copy_struct_simps value_DomainName_def read_DomainName_def foot_DomainName_def
      DeepCopyInto_DomainName_def)

definition value_Route53PrivateHostedZone ::
    "raw_route53PrivateHostedZone \<Rightarrow> associatedVpc list \<times> domainName option \<Rightarrow> route53PrivateHostedZone" where
  "value_Route53PrivateHostedZone r = (\<lambda>(associatedVpcs', domainNameRef').
      \<lparr>phz_AutoDiscover = rphz_AutoDiscover r, phz_AssociatedVpcs = associatedVpcs',
       phz_DomainName = rphz_DomainName r, phz_DomainNameRef = domainNameRef',
       phz_Id = rphz_Id r, phz_Record = rphz_Record r\<rparr>)"

definition read_Route53PrivateHostedZone :: "cell memory \<Rightarrow> raw_route53PrivateHostedZone \<Rightarrow> route53PrivateHostedZone option" where
  "read_Route53PrivateHostedZone m r = map_option (value_Route53PrivateHostedZone r)
     (both (read_slice AssociatedVpc_cells read_AssociatedVpc m (rphz_AssociatedVpcs r))
       (read_pointer DomainName_cells read_DomainName m (rphz_DomainNameRef r)))"

definition foot_Route53PrivateHostedZone :: "cell memory \<Rightarrow> raw_route53PrivateHostedZone \<Rightarrow> nat set" where
  "foot_Route53PrivateHostedZone m r =
     foot_slice AssociatedVpc_cells foot_AssociatedVpc m (rphz_AssociatedVpcs r) \<union>
     foot_pointer DomainName_cells foot_DomainName m (rphz_DomainNameRef r)"

definition DeepCopyInto_Route53PrivateHostedZone :: "raw_route53PrivateHostedZone \<Rightarrow> (cell memory, error, raw_route53PrivateHostedZone) prog" where
  "DeepCopyInto_Route53PrivateHostedZone r =
     bindE (copy_slice AssociatedVpc_cells DeepCopyInto_AssociatedVpc (rphz_AssociatedVpcs r)) (\<lambda>associatedVpcs.
     bindE (copy_pointer DomainName_cells DeepCopyInto_DomainName (rphz_DomainNameRef r)) (\<lambda>domainNameRef.
     ret (r\<lparr>rphz_AssociatedVpcs := associatedVpcs, rphz_DomainNameRef := domainNameRef\<rparr>)))"

definition DeepCopy_Route53PrivateHostedZone :: "pointer \<Rightarrow> (cell memory, error, pointer) prog" where
  "DeepCopy_Route53PrivateHostedZone = copy_pointer Route53PrivateHostedZone_cells DeepCopyInto_Route53PrivateHostedZone"

lemma deep_copy_Route53PrivateHostedZone:
  "deep_copy read_Route53PrivateHostedZone foot_Route53PrivateHostedZone DeepCopyInto_Route53PrivateHostedZone"
  by (rule deep_copy_struct [OF deep_copy_pair [OF deep_copy_slice [OF typed_AssociatedVpc deep_copy_AssociatedVpc]
      deep_copy_pointer [OF typed_DomainName deep_copy_DomainName]],
      where build = value_Route53PrivateHostedZone and refs = "\<lambda>r. (rphz_AssociatedVpcs r, rphz_DomainNameRef r)" and
        set_refs = "\<lambda>r x. r\<lparr>rphz_AssociatedVpcs := fst x, rphz_DomainNameRef := snd x\<rparr>"])
    (simp_all add: copy_struct_simps value_Route53PrivateHostedZone_def read_Route53PrivateHostedZone_def foot_Route53PrivateHostedZone_def
      DeepCopyInto_Route53PrivateHostedZone_def)

definition value_CustomDns ::
    "raw_customDns \<Rightarrow> route53PrivateHostedZone \<Rightarrow> customDns" where
  "value_CustomDns r = (\<lambda>route53PrivateHostedZone'.
      \<lparr>dns_Route53PrivateHostedZone = route53PrivateHostedZone'\<rparr>)"

definition read_CustomDns :: "cell memory \<Rightarrow> raw_customDns \<Rightarrow> customDns option" where
  "read_CustomDns m r = map_option (value_CustomDns r)
     (read_Route53PrivateHostedZone m (rdns_Route53PrivateHostedZone r))"

definition foot_CustomDns :: "cell memory \<Rightarrow> raw_customDns \<Rightarrow> nat set" where
  "foot_CustomDns m r =
     foot_Route53PrivateHostedZone m (rdns_Route53PrivateHostedZone r)"

definition DeepCopyInto_CustomDns :: "raw_customDns \<Rightarrow> (cell memory, error, raw_customDns) prog" where
  "DeepCopyInto_CustomDns r =
     bindE (DeepCopyInto_Route53PrivateHostedZone (rdns_Route53PrivateHostedZone r)) (\<lambda>route53PrivateHostedZone.
     ret (r\<lparr>rdns_Route53PrivateHostedZone := route53PrivateHostedZone\<rparr>))"

definition DeepCopy_CustomDns :: "pointer \<Rightarrow> (cell memory, error, pointer) prog" where
  "DeepCopy_CustomDns = copy_pointer CustomDns_cells DeepCopyInto_CustomDns"

lemma deep_copy_CustomDns:
  "deep_copy read_CustomDns foot_CustomDns DeepCopyInto_CustomDns"
  by (rule deep_copy_struct [OF deep_copy_Route53PrivateHostedZone,
      where build = value_CustomDns and refs = "\<lambda>r. rdns_Route53PrivateHostedZone r" and
        set_refs = "\<lambda>r x. r\<lparr>rdns_Route53PrivateHostedZone := x\<rparr>"])
    (simp_all add: copy_struct_simps value_CustomDns_def read_CustomDns_def foot_CustomDns_def
      DeepCopyInto_CustomDns_def)

definition value_SecurityGroup ::
    "raw_securityGroup \<Rightarrow> securityGroupRule list \<times> securityGroupRule list \<Rightarrow> securityGroup" where
  "value_SecurityGroup r = (\<lambda>(ingressRules', egressRules').
      \<lparr>sg_IngressRules = ingressRules', sg_EgressRules = egressRules',
       sg_UseVpcCidr = rsg_UseVpcCidr r\<rparr>)"

definition read_SecurityGroup :: "cell memory \<Rightarrow> raw_securityGroup \<Rightarrow> securityGroup option" where
  "read_SecurityGroup m r = map_option (value_SecurityGroup r)
     (both (read_slice SecurityGroupRule_cells (\<lambda>m r. Some r) m (rsg_IngressRules r))
       (read_slice SecurityGroupRule_cells (\<lambda>m r. Some r) m (rsg_EgressRules r)))"

definition foot_SecurityGroup :: "cell memory \<Rightarrow> raw_securityGroup \<Rightarrow> nat set" where
  "foot_SecurityGroup m r =
     foot_slice SecurityGroupRule_cells (\<lambda>m r. {}) m (rsg_IngressRules r) \<union>
     foot_slice SecurityGroupRule_cells (\<lambda>m r. {}) m (rsg_EgressRules r)"

definition DeepCopyInto_SecurityGroup :: "raw_securityGroup \<Rightarrow> (cell memory, error, raw_securityGroup) prog" where
  "DeepCopyInto_SecurityGroup r =
     bindE (copy_slice SecurityGroupRule_cells ret (rsg_IngressRules r)) (\<lambda>ingressRules.
     bindE (copy_slice SecurityGroupRule_cells ret (rsg_EgressRules r)) (\<lambda>egressRules.
     ret (r\<lparr>rsg_IngressRules := ingressRules, rsg_EgressRules := egressRules\<rparr>)))"

definition DeepCopy_SecurityGroup :: "pointer \<Rightarrow> (cell memory, error, pointer) prog" where
  "DeepCopy_SecurityGroup = copy_pointer SecurityGroup_cells DeepCopyInto_SecurityGroup"

lemma deep_copy_SecurityGroup:
  "deep_copy read_SecurityGroup foot_SecurityGroup DeepCopyInto_SecurityGroup"
  by (rule deep_copy_struct [OF deep_copy_pair [OF deep_copy_slice [OF typed_SecurityGroupRule deep_copy_flat]
      deep_copy_slice [OF typed_SecurityGroupRule deep_copy_flat]],
      where build = value_SecurityGroup and refs = "\<lambda>r. (rsg_IngressRules r, rsg_EgressRules r)" and
        set_refs = "\<lambda>r x. r\<lparr>rsg_IngressRules := fst x, rsg_EgressRules := snd x\<rparr>"])
    (simp_all add: copy_struct_simps value_SecurityGroup_def read_SecurityGroup_def foot_SecurityGroup_def
      DeepCopyInto_SecurityGroup_def)

definition value_ServiceNameSource ::
    "raw_serviceNameSource \<Rightarrow> awsEndpointSelector option \<Rightarrow> serviceNameSource" where
  "value_ServiceNameSource r = (\<lambda>awsEndpointServiceRef'.
      \<lparr>sns_AwsEndpointServiceRef = awsEndpointServiceRef'\<rparr>)"

definition read_ServiceNameSource :: "cell memory \<Rightarrow> raw_serviceNameSource \<Rightarrow> serviceNameSource option" where
  "read_ServiceNameSource m r = map_option (value_ServiceNameSource r)
     (read_pointer AwsEndpointSelector_cells (\<lambda>m r. Some r) m (rsns_AwsEndpointServiceRef r))"

definition foot_ServiceNameSource :: "cell memory \<Rightarrow> raw_serviceNameSource \<Rightarrow> nat set" where
  "foot_ServiceNameSource m r =
     foot_pointer AwsEndpointSelector_cells (\<lambda>m r. {}) m (rsns_AwsEndpointServiceRef r)"

definition DeepCopyInto_ServiceNameSource :: "raw_serviceNameSource \<Rightarrow> (cell memory, error, raw_serviceNameSource) prog" where
  "DeepCopyInto_ServiceNameSource r =
     bindE (copy_pointer AwsEndpointSelector_cells ret (rsns_AwsEndpointServiceRef r)) (\<lambda>awsEndpointServiceRef.
     ret (r\<lparr>rsns_AwsEndpointServiceRef := awsEndpointServiceRef\<rparr>))"

definition DeepCopy_ServiceNameSource :: "pointer \<Rightarrow> (cell memory, error, pointer) prog" where
  "DeepCopy_ServiceNameSource = copy_pointer ServiceNameSource_cells DeepCopyInto_ServiceNameSource"

lemma deep_copy_ServiceNameSource:
  "deep_copy read_ServiceNameSource foot_ServiceNameSource DeepCopyInto_ServiceNameSource"
  by (rule deep_copy_struct [OF deep_copy_pointer [OF typed_AwsEndpointSelector deep_copy_flat],
      where build = value_ServiceNameSource and refs = "\<lambda>r. rsns_AwsEndpointServiceRef r" and
        set_refs = "\<lambda>r x. r\<lparr>rsns_AwsEndpointServiceRef := x\<rparr>"])
    (simp_all add: copy_struct_simps value_ServiceNameSource_def read_ServiceNameSource_def foot_ServiceNameSource_def
      DeepCopyInto_ServiceNameSource_def)

definition value_ServiceName ::
    "raw_serviceName \<Rightarrow> serviceNameSource option \<Rightarrow> serviceName" where
  "value_ServiceName r = (\<lambda>valueFrom'.
      \<lparr>sn_Name = rsn_Name r, sn_ValueFrom = valueFrom'\<rparr>)"

definition read_ServiceName :: "cell memory \<Rightarrow> raw_serviceName \<Rightarrow> serviceName option" where
  "read_ServiceName m r = map_option (value_ServiceName r)
     (read_pointer ServiceNameSource_cells read_ServiceNameSource m (rsn_ValueFrom r))"

definition foot_ServiceName :: "cell memory \<Rightarrow> raw_serviceName \<Rightarrow> nat set" where
  "foot_ServiceName m r =
     foot_pointer ServiceNameSource_cells foot_ServiceNameSource m (rsn_ValueFrom r)"

definition DeepCopyInto_ServiceName :: "raw_serviceName \<Rightarrow> (cell memory, error, raw_serviceName) prog" where
  "DeepCopyInto_ServiceName r =
     bindE (copy_pointer ServiceNameSource_cells DeepCopyInto_ServiceNameSource (rsn_ValueFrom r)) (\<lambda>valueFrom.
     ret (r\<lparr>rsn_ValueFrom := valueFrom\<rparr>))"

definition DeepCopy_ServiceName :: "pointer \<Rightarrow> (cell memory, error, pointer) prog" where
  "DeepCopy_ServiceName = copy_pointer ServiceName_cells DeepCopyInto_ServiceName"

lemma deep_copy_ServiceName:
  "deep_copy read_ServiceName foot_ServiceName DeepCopyInto_ServiceName"
  by (rule deep_copy_struct [OF deep_copy_pointer [OF typed_ServiceNameSource deep_copy_ServiceNameSource],
      where build = value_ServiceName and refs = "\<lambda>r. rsn_ValueFrom r" and
        set_refs = "\<lambda>r x. r\<lparr>rsn_ValueFrom := x\<rparr>"])
    (simp_all add: copy_struct_simps value_ServiceName_def read_ServiceName_def foot_ServiceName_def
      DeepCopyInto_ServiceName_def)

definition value_Vpc ::
    "raw_vpc \<Rightarrow> string list \<times> string list \<times> tag list \<times> tag list \<Rightarrow> vpc" where
  "value_Vpc r = (\<lambda>(subnetIds', ids', tags', subnetTags').
      \<lparr>vpc_AutoDiscoverSubnets = rvpc_AutoDiscoverSubnets r, vpc_SubnetIds = subnetIds',
       vpc_Ids = ids', vpc_Tags = tags', vpc_SubnetTags = subnetTags'\<rparr>)"

definition read_Vpc :: "cell memory \<Rightarrow> raw_vpc \<Rightarrow> vpc option" where
  "read_Vpc m r = map_option (value_Vpc r)
     (both (read_slice String_cells (\<lambda>m r. Some r) m (rvpc_SubnetIds r))
       (both (read_slice String_cells (\<lambda>m r. Some r) m (rvpc_Ids r))
       (both (read_slice Tag_cells (\<lambda>m r. Some r) m (rvpc_Tags r))
       (read_slice Tag_cells (\<lambda>m r. Some r) m (rvpc_SubnetTags r)))))"

definition foot_Vpc :: "cell memory \<Rightarrow> raw_vpc \<Rightarrow> nat set" where
  "foot_Vpc m r =
     foot_slice String_cells (\<lambda>m r. {}) m (rvpc_SubnetIds r) \<union>
     foot_slice String_cells (\<lambda>m r. {}) m (rvpc_Ids r) \<union>
     foot_slice Tag_cells (\<lambda>m r. {}) m (rvpc_Tags r) \<union>
     foot_slice Tag_cells (\<lambda>m r. {}) m (rvpc_SubnetTags r)"

definition DeepCopyInto_Vpc :: "raw_vpc \<Rightarrow> (cell memory, error, raw_vpc) prog" where
  "DeepCopyInto_Vpc r =
     bindE (copy_slice String_cells ret (rvpc_SubnetIds r)) (\<lambda>subnetIds.
     bindE (copy_slice String_cells ret (rvpc_Ids r)) (\<lambda>ids.
     bindE (copy_slice Tag_cells ret (rvpc_Tags r)) (\<lambda>tags.
     bindE (copy_slice Tag_cells ret (rvpc_SubnetTags r)) (\<lambda>subnetTags.
     ret (r\<lparr>rvpc_SubnetIds := subnetIds, rvpc_Ids := ids,
       rvpc_Tags := tags, rvpc_SubnetTags := subnetTags\<rparr>)))))"

definition DeepCopy_Vpc :: "pointer \<Rightarrow> (cell memory, error, pointer) prog" where
  "DeepCopy_Vpc = copy_pointer Vpc_cells DeepCopyInto_Vpc"

lemma deep_copy_Vpc:
  "deep_copy read_Vpc foot_Vpc DeepCopyInto_Vpc"
  by (rule deep_copy_struct [OF deep_copy_pair [OF deep_copy_slice [OF typed_String deep_copy_flat]
      deep_copy_pair [OF deep_copy_slice [OF typed_String deep_copy_flat]
      deep_copy_pair [OF deep_copy_slice [OF typed_Tag deep_copy_flat]
      deep_copy_slice [OF typed_Tag deep_copy_flat]]]],
      where build = value_Vpc and refs = "\<lambda>r. (rvpc_SubnetIds r, rvpc_Ids r, rvpc_Tags r, rvpc_SubnetTags r)" and
        set_refs = "\<lambda>r x. r\<lparr>rvpc_SubnetIds := fst x, rvpc_Ids := fst (snd x), rvpc_Tags := fst (snd (snd x)), rvpc_SubnetTags := snd (snd (snd x))\<rparr>"])
    (simp_all add: copy_struct_simps value_Vpc_def read_Vpc_def foot_Vpc_def
      DeepCopyInto_Vpc_def)

definition value_VpcEndpointSpec ::
    "raw_vpcEndpointSpec \<Rightarrow> serviceName option \<times> securityGroup \<times> secretReference option \<times> vpc \<times> customDns \<Rightarrow> vpcEndpointSpec" where
  "value_VpcEndpointSpec r = (\<lambda>(serviceNameRef', securityGroup', awsCredentialOverrideRef', vpc', customDns').
      \<lparr>sp_ServiceName = rsp_ServiceName r, sp_ServiceNameRef = serviceNameRef',
       sp_SecurityGroup = securityGroup', sp_AssumeRoleArn = rsp_AssumeRoleArn r,
       sp_AWSCredentialOverrideRef = awsCredentialOverrideRef', sp_Region = rsp_Region r,
       sp_EnablePrivateDns = rsp_EnablePrivateDns r, sp_Vpc = vpc',
       sp_CustomDns = customDns'\<rparr>)"

definition read_VpcEndpointSpec :: "cell memory \<Rightarrow> raw_vpcEndpointSpec \<Rightarrow> vpcEndpointSpec option" where
  "read_VpcEndpointSpec m r = map_option (value_VpcEndpointSpec r)
     (both (read_pointer ServiceName_cells read_ServiceName m (rsp_ServiceNameRef r))
       (both (read_SecurityGroup m (rsp_SecurityGroup r))
       (both (read_pointer SecretReference_cells (\<lambda>m r. Some r) m (rsp_AWSCredentialOverrideRef r))
       (both (read_Vpc m (rsp_Vpc r))
       (read_CustomDns m (rsp_CustomDns r))))))"

definition foot_VpcEndpointSpec :: "cell memory \<Rightarrow> raw_vpcEndpointSpec \<Rightarrow> nat set" where
  "foot_VpcEndpointSpec m r =
     foot_pointer ServiceName_cells foot_ServiceName m (rsp_ServiceNameRef r) \<union>
     foot_SecurityGroup m (rsp_SecurityGroup r) \<union>
     foot_pointer SecretReference_cells (\<lambda>m r. {}) m (rsp_AWSCredentialOverrideRef r) \<union>
     foot_Vpc m (rsp_Vpc r) \<union>
     foot_CustomDns m (rsp_CustomDns r)"

definition DeepCopyInto_VpcEndpointSpec :: "raw_vpcEndpointSpec \<Rightarrow> (cell memory, error, raw_vpcEndpointSpec) prog" where
  "DeepCopyInto_VpcEndpointSpec r =
     bindE (copy_pointer ServiceName_cells DeepCopyInto_ServiceName (rsp_ServiceNameRef r)) (\<lambda>serviceNameRef.
     bindE (DeepCopyInto_SecurityGroup (rsp_SecurityGroup r)) (\<lambda>securityGroup.
     bindE (copy_pointer SecretReference_cells ret (rsp_AWSCredentialOverrideRef r)) (\<lambda>awsCredentialOverrideRef.
     bindE (DeepCopyInto_Vpc (rsp_Vpc r)) (\<lambda>vpc.
     bindE (DeepCopyInto_CustomDns (rsp_CustomDns r)) (\<lambda>customDns.
     ret (r\<lparr>rsp_ServiceNameRef := serviceNameRef, rsp_SecurityGroup := securityGroup,
       rsp_AWSCredentialOverrideRef := awsCredentialOverrideRef, rsp_Vpc := vpc, rsp_CustomDns := customDns\<rparr>))))))"

definition DeepCopy_VpcEndpointSpec :: "pointer \<Rightarrow> (cell memory, error, pointer) prog" where
  "DeepCopy_VpcEndpointSpec = copy_pointer VpcEndpointSpec_cells DeepCopyInto_VpcEndpointSpec"

lemma deep_copy_VpcEndpointSpec:
  "deep_copy read_VpcEndpointSpec foot_VpcEndpointSpec DeepCopyInto_VpcEndpointSpec"
  by (rule deep_copy_struct [OF deep_copy_pair [OF deep_copy_pointer [OF typed_ServiceName deep_copy_ServiceName]
      deep_copy_pair [OF deep_copy_SecurityGroup
      deep_copy_pair [OF deep_copy_pointer [OF typed_SecretReference deep_copy_flat]
      deep_copy_pair [OF deep_copy_Vpc
      deep_copy_CustomDns]]]],
      where build = value_VpcEndpointSpec and refs = "\<lambda>r. (rsp_ServiceNameRef r, rsp_SecurityGroup r, rsp_AWSCredentialOverrideRef r, rsp_Vpc r, rsp_CustomDns r)" and
        set_refs = "\<lambda>r x. r\<lparr>rsp_ServiceNameRef := fst x, rsp_SecurityGroup := fst (snd x), rsp_AWSCredentialOverrideRef := fst (snd (snd x)), rsp_Vpc := fst (snd (snd (snd x))), rsp_CustomDns := snd (snd (snd (snd x)))\<rparr>"])
    (simp_all add: copy_struct_simps value_VpcEndpointSpec_def read_VpcEndpointSpec_def foot_VpcEndpointSpec_def
      DeepCopyInto_VpcEndpointSpec_def)

definition value_VpcEndpointStatus ::
    "raw_vpcEndpointStatus \<Rightarrow> condition list \<Rightarrow> vpcEndpointStatus" where
  "value_VpcEndpointStatus r = (\<lambda>conditions'.
      \<lparr>st_Status = rst_Status r, st_SecurityGroupId = rst_SecurityGroupId r,
       st_VPCId = rst_VPCId r, st_VPCEndpointId = rst_VPCEndpointId r,
       st_VPCEndpointServiceName = rst_VPCEndpointServiceName r,
       st_HostedZoneId = rst_HostedZoneId r,
       st_ResourceRecordSet = rst_ResourceRecordSet r, st_InfraId = rst_InfraId r,
       st_Conditions = conditions'\<rparr>)"

definition read_VpcEndpointStatus :: "cell memory \<Rightarrow> raw_vpcEndpointStatus \<Rightarrow> vpcEndpointStatus option" where
  "read_VpcEndpointStatus m r = map_option (value_VpcEndpointStatus r)
     (read_slice Condition_cells (\<lambda>m r. Some r) m (rst_Conditions r))"

definition foot_VpcEndpointStatus :: "cell memory \<Rightarrow> raw_vpcEndpointStatus \<Rightarrow> nat set" where
  "foot_VpcEndpointStatus m r =
     foot_slice Condition_cells (\<lambda>m r. {}) m (rst_Conditions r)"

definition DeepCopyInto_VpcEndpointStatus :: "metav1 \<Rightarrow> raw_vpcEndpointStatus \<Rightarrow> (cell memory, error, raw_vpcEndpointStatus) prog" where
  "DeepCopyInto_VpcEndpointStatus L r =
     bindE (copy_slice Condition_cells (lib_Condition L) (rst_Conditions r)) (\<lambda>conditions.
     ret (r\<lparr>rst_Conditions := conditions\<rparr>))"

definition DeepCopy_VpcEndpointStatus :: "metav1 \<Rightarrow> pointer \<Rightarrow> (cell memory, error, pointer) prog" where
  "DeepCopy_VpcEndpointStatus L = copy_pointer VpcEndpointStatus_cells (DeepCopyInto_VpcEndpointStatus L)"

lemma deep_copy_VpcEndpointStatus:
  assumes "metav1_laws L"
  shows "deep_copy read_VpcEndpointStatus foot_VpcEndpointStatus (DeepCopyInto_VpcEndpointStatus L)"
  by (rule deep_copy_struct [OF deep_copy_slice [OF typed_Condition metav1_lawsD(4) [OF assms]],
      where build = value_VpcEndpointStatus and refs = "\<lambda>r. rst_Conditions r" and
        set_refs = "\<lambda>r x. r\<lparr>rst_Conditions := x\<rparr>"])
    (simp_all add: copy_struct_simps value_VpcEndpointStatus_def read_VpcEndpointStatus_def foot_VpcEndpointStatus_def
      DeepCopyInto_VpcEndpointStatus_def)

definition value_VpcEndpoint ::
    "raw_vpcEndpoint \<Rightarrow> objectMeta \<times> vpcEndpointSpec \<times> vpcEndpointStatus \<Rightarrow> typeMeta \<times> vpcEndpoint" where
  "value_VpcEndpoint r = (\<lambda>(meta', spec', status').
      (rve_TypeMeta r, \<lparr>ve_Meta = meta', ve_Spec = spec', ve_Status = status'\<rparr>))"

definition read_VpcEndpoint :: "cell memory \<Rightarrow> raw_vpcEndpoint \<Rightarrow> (typeMeta \<times> vpcEndpoint) option" where
  "read_VpcEndpoint m r = map_option (value_VpcEndpoint r)
     (both (read_ObjectMeta m (rve_Meta r))
       (both (read_VpcEndpointSpec m (rve_Spec r))
       (read_VpcEndpointStatus m (rve_Status r))))"

definition foot_VpcEndpoint :: "cell memory \<Rightarrow> raw_vpcEndpoint \<Rightarrow> nat set" where
  "foot_VpcEndpoint m r =
     foot_ObjectMeta m (rve_Meta r) \<union>
     foot_VpcEndpointSpec m (rve_Spec r) \<union>
     foot_VpcEndpointStatus m (rve_Status r)"

definition DeepCopyInto_VpcEndpoint :: "metav1 \<Rightarrow> raw_vpcEndpoint \<Rightarrow> (cell memory, error, raw_vpcEndpoint) prog" where
  "DeepCopyInto_VpcEndpoint L r =
     bindE (lib_ObjectMeta L (rve_Meta r)) (\<lambda>meta.
     bindE (DeepCopyInto_VpcEndpointSpec (rve_Spec r)) (\<lambda>spec.
     bindE (DeepCopyInto_VpcEndpointStatus L (rve_Status r)) (\<lambda>status.
     ret (r\<lparr>rve_Meta := meta, rve_Spec := spec, rve_Status := status\<rparr>))))"

definition DeepCopy_VpcEndpoint :: "metav1 \<Rightarrow> pointer \<Rightarrow> (cell memory, error, pointer) prog" where
  "DeepCopy_VpcEndpoint L = copy_pointer VpcEndpoint_cells (DeepCopyInto_VpcEndpoint L)"

lemma deep_copy_VpcEndpoint:
  assumes "metav1_laws L"
  shows "deep_copy read_VpcEndpoint foot_VpcEndpoint (DeepCopyInto_VpcEndpoint L)"
  by (rule deep_copy_struct [OF deep_copy_pair [OF metav1_lawsD(1) [OF assms]
      deep_copy_pair [OF deep_copy_VpcEndpointSpec
      deep_copy_VpcEndpointStatus [OF assms]]],
      where build = value_VpcEndpoint and refs = "\<lambda>r. (rve_Meta r, rve_Spec r, rve_Status r)" and
        set_refs = "\<lambda>r x. r\<lparr>rve_Meta := fst x, rve_Spec := fst (snd x), rve_Status := snd (snd x)\<rparr>"])
    (simp_all add: copy_struct_simps value_VpcEndpoint_def read_VpcEndpoint_def foot_VpcEndpoint_def
      DeepCopyInto_VpcEndpoint_def)

definition value_VpcEndpointList ::
    "raw_vpcEndpointList \<Rightarrow> listMeta \<times> (typeMeta \<times> vpcEndpoint) list \<Rightarrow> vpcEndpointList" where
  "value_VpcEndpointList r = (\<lambda>(listMeta', items').
      \<lparr>vel_TypeMeta = rvel_TypeMeta r, vel_ListMeta = listMeta', vel_Items = items'\<rparr>)"

definition read_VpcEndpointList :: "cell memory \<Rightarrow> raw_vpcEndpointList \<Rightarrow> vpcEndpointList option" where
  "read_VpcEndpointList m r = map_option (value_VpcEndpointList r)
     (both (read_ListMeta m (rvel_ListMeta r))
       (read_slice VpcEndpoint_cells read_VpcEndpoint m (rvel_Items r)))"

definition foot_VpcEndpointList :: "cell memory \<Rightarrow> raw_vpcEndpointList \<Rightarrow> nat set" where
  "foot_VpcEndpointList m r =
     foot_ListMeta m (rvel_ListMeta r) \<union>
     foot_slice VpcEndpoint_cells foot_VpcEndpoint m (rvel_Items r)"

definition DeepCopyInto_VpcEndpointList :: "metav1 \<Rightarrow> raw_vpcEndpointList \<Rightarrow> (cell memory, error, raw_vpcEndpointList) prog" where
  "DeepCopyInto_VpcEndpointList L r =
     bindE (lib_ListMeta L (rvel_ListMeta r)) (\<lambda>listMeta.
     bindE (copy_slice VpcEndpoint_cells (DeepCopyInto_VpcEndpoint L) (rvel_Items r)) (\<lambda>items.
     ret (r\<lparr>rvel_ListMeta := listMeta, rvel_Items := items\<rparr>)))"

definition DeepCopy_VpcEndpointList :: "metav1 \<Rightarrow> pointer \<Rightarrow> (cell memory, error, pointer) prog" where
  "DeepCopy_VpcEndpointList L = copy_pointer VpcEndpointList_cells (DeepCopyInto_VpcEndpointList L)"

lemma deep_copy_VpcEndpointList:
  assumes "metav1_laws L"
  shows "deep_copy read_VpcEndpointList foot_VpcEndpointList (DeepCopyInto_VpcEndpointList L)"
  by (rule deep_copy_struct [OF deep_copy_pair [OF metav1_lawsD(2) [OF assms]
      deep_copy_slice [OF typed_VpcEndpoint deep_copy_VpcEndpoint [OF assms]]],
      where build = value_VpcEndpointList and refs = "\<lambda>r. (rvel_ListMeta r, rvel_Items r)" and
        set_refs = "\<lambda>r x. r\<lparr>rvel_ListMeta := fst x, rvel_Items := snd x\<rparr>"])
    (simp_all add: copy_struct_simps value_VpcEndpointList_def read_VpcEndpointList_def foot_VpcEndpointList_def
      DeepCopyInto_VpcEndpointList_def)

definition value_VpceTemplateSpec ::
    "raw_vpceTemplateSpec \<Rightarrow> objectMeta \<times> vpcEndpointSpec \<Rightarrow> vpceTemplateSpec" where
  "value_VpceTemplateSpec r = (\<lambda>(meta', spec').
      \<lparr>vts_Meta = meta', vts_Spec = spec'\<rparr>)"

definition read_VpceTemplateSpec :: "cell memory \<Rightarrow> raw_vpceTemplateSpec \<Rightarrow> vpceTemplateSpec option" where
  "read_VpceTemplateSpec m r = map_option (value_VpceTemplateSpec r)
     (both (read_ObjectMeta m (rvts_Meta r))
       (read_VpcEndpointSpec m (rvts_Spec r)))"

definition foot_VpceTemplateSpec :: "cell memory \<Rightarrow> raw_vpceTemplateSpec \<Rightarrow> nat set" where
  "foot_VpceTemplateSpec m r =
     foot_ObjectMeta m (rvts_Meta r) \<union>
     foot_VpcEndpointSpec m (rvts_Spec r)"

definition DeepCopyInto_VpceTemplateSpec :: "metav1 \<Rightarrow> raw_vpceTemplateSpec \<Rightarrow> (cell memory, error, raw_vpceTemplateSpec) prog" where
  "DeepCopyInto_VpceTemplateSpec L r =
     bindE (lib_ObjectMeta L (rvts_Meta r)) (\<lambda>meta.
     bindE (DeepCopyInto_VpcEndpointSpec (rvts_Spec r)) (\<lambda>spec.
     ret (r\<lparr>rvts_Meta := meta, rvts_Spec := spec\<rparr>)))"

definition DeepCopy_VpceTemplateSpec :: "metav1 \<Rightarrow> pointer \<Rightarrow> (cell memory, error, pointer) prog" where
  "DeepCopy_VpceTemplateSpec L = copy_pointer VpceTemplateSpec_cells (DeepCopyInto_VpceTemplateSpec L)"

lemma deep_copy_VpceTemplateSpec:
  assumes "metav1_laws L"
  shows "deep_copy read_VpceTemplateSpec foot_VpceTemplateSpec (DeepCopyInto_VpceTemplateSpec L)"
  by (rule deep_copy_struct [OF deep_copy_pair [OF metav1_lawsD(1) [OF assms]
      deep_copy_VpcEndpointSpec],
      where build = value_VpceTemplateSpec and refs = "\<lambda>r. (rvts_Meta r, rvts_Spec r)" and
        set_refs = "\<lambda>r x. r\<lparr>rvts_Meta := fst x, rvts_Spec := snd x\<rparr>"])
    (simp_all add: copy_struct_simps value_VpceTemplateSpec_def read_VpceTemplateSpec_def foot_VpceTemplateSpec_def
      DeepCopyInto_VpceTemplateSpec_def)

definition value_VpcEndpointTemplateSpec ::
    "raw_vpcEndpointTemplateSpec \<Rightarrow> labelSelector \<times> vpceTemplateSpec \<Rightarrow> vpcEndpointTemplateSpec" where
  "value_VpcEndpointTemplateSpec r = (\<lambda>(selector', template').
      \<lparr>vt_Type = rvt_Type r, vt_Selector = selector', vt_Template = template'\<rparr>)"

definition read_VpcEndpointTemplateSpec :: "cell memory \<Rightarrow> raw_vpcEndpointTemplateSpec \<Rightarrow> vpcEndpointTemplateSpec option" where
  "read_VpcEndpointTemplateSpec m r = map_option (value_VpcEndpointTemplateSpec r)
     (both (read_LabelSelector m (rvt_Selector r))
       (read_VpceTemplateSpec m (rvt_Template r)))"

definition foot_VpcEndpointTemplateSpec :: "cell memory \<Rightarrow> raw_vpcEndpointTemplateSpec \<Rightarrow> nat set" where
  "foot_VpcEndpointTemplateSpec m r =
     foot_LabelSelector m (rvt_Selector r) \<union>
     foot_VpceTemplateSpec m (rvt_Template r)"

definition DeepCopyInto_VpcEndpointTemplateSpec :: "metav1 \<Rightarrow> raw_vpcEndpointTemplateSpec \<Rightarrow> (cell memory, error, raw_vpcEndpointTemplateSpec) prog" where
  "DeepCopyInto_VpcEndpointTemplateSpec L r =
     bindE (lib_LabelSelector L (rvt_Selector r)) (\<lambda>selector.
     bindE (DeepCopyInto_VpceTemplateSpec L (rvt_Template r)) (\<lambda>template.
     ret (r\<lparr>rvt_Selector := selector, rvt_Template := template\<rparr>)))"

definition DeepCopy_VpcEndpointTemplateSpec :: "metav1 \<Rightarrow> pointer \<Rightarrow> (cell memory, error, pointer) prog" where
  "DeepCopy_VpcEndpointTemplateSpec L = copy_pointer VpcEndpointTemplateSpec_cells (DeepCopyInto_VpcEndpointTemplateSpec L)"

lemma deep_copy_VpcEndpointTemplateSpec:
  assumes "metav1_laws L"
  shows "deep_copy read_VpcEndpointTemplateSpec foot_VpcEndpointTemplateSpec (DeepCopyInto_VpcEndpointTemplateSpec L)"
  by (rule deep_copy_struct [OF deep_copy_pair [OF metav1_lawsD(3) [OF assms]
      deep_copy_VpceTemplateSpec [OF assms]],
      where build = value_VpcEndpointTemplateSpec and refs = "\<lambda>r. (rvt_Selector r, rvt_Template r)" and
        set_refs = "\<lambda>r x. r\<lparr>rvt_Selector := fst x, rvt_Template := snd x\<rparr>"])
    (simp_all add: copy_struct_simps value_VpcEndpointTemplateSpec_def read_VpcEndpointTemplateSpec_def foot_VpcEndpointTemplateSpec_def
      DeepCopyInto_VpcEndpointTemplateSpec_def)

definition value_VpcEndpointTemplate ::
    "raw_vpcEndpointTemplate \<Rightarrow> objectMeta \<times> vpcEndpointTemplateSpec \<Rightarrow> typeMeta \<times> vpcEndpointTemplate" where
  "value_VpcEndpointTemplate r = (\<lambda>(meta', spec').
      (rvet_TypeMeta r, \<lparr>vet_Meta = meta', vet_Spec = spec'\<rparr>))"

definition read_VpcEndpointTemplate :: "cell memory \<Rightarrow> raw_vpcEndpointTemplate \<Rightarrow> (typeMeta \<times> vpcEndpointTemplate) option" where
  "read_VpcEndpointTemplate m r = map_option (value_VpcEndpointTemplate r)
     (both (read_ObjectMeta m (rvet_Meta r))
       (read_VpcEndpointTemplateSpec m (rvet_Spec r)))"

definition foot_VpcEndpointTemplate :: "cell memory \<Rightarrow> raw_vpcEndpointTemplate \<Rightarrow> nat set" where
  "foot_VpcEndpointTemplate m r =
     foot_ObjectMeta m (rvet_Meta r) \<union>
     foot_VpcEndpointTemplateSpec m (rvet_Spec r)"

definition DeepCopyInto_VpcEndpointTemplate :: "metav1 \<Rightarrow> raw_vpcEndpointTemplate \<Rightarrow> (cell memory, error, raw_vpcEndpointTemplate) prog" where
  "DeepCopyInto_VpcEndpointTemplate L r =
     bindE (lib_ObjectMeta L (rvet_Meta r)) (\<lambda>meta.
     bindE (DeepCopyInto_VpcEndpointTemplateSpec L (rvet_Spec r)) (\<lambda>spec.
     ret (r\<lparr>rvet_Meta := meta, rvet_Spec := spec\<rparr>)))"

definition DeepCopy_VpcEndpointTemplate :: "metav1 \<Rightarrow> pointer \<Rightarrow> (cell memory, error, pointer) prog" where
  "DeepCopy_VpcEndpointTemplate L = copy_pointer VpcEndpointTemplate_cells (DeepCopyInto_VpcEndpointTemplate L)"

lemma deep_copy_VpcEndpointTemplate:
  assumes "metav1_laws L"
  shows "deep_copy read_VpcEndpointTemplate foot_VpcEndpointTemplate (DeepCopyInto_VpcEndpointTemplate L)"
  by (rule deep_copy_struct [OF deep_copy_pair [OF metav1_lawsD(1) [OF assms]
      deep_copy_VpcEndpointTemplateSpec [OF assms]],
      where build = value_VpcEndpointTemplate and refs = "\<lambda>r. (rvet_Meta r, rvet_Spec r)" and
        set_refs = "\<lambda>r x. r\<lparr>rvet_Meta := fst x, rvet_Spec := snd x\<rparr>"])
    (simp_all add: copy_struct_simps value_VpcEndpointTemplate_def read_VpcEndpointTemplate_def foot_VpcEndpointTemplate_def
      DeepCopyInto_VpcEndpointTemplate_def)

definition value_VpcEndpointTemplateList ::
    "raw_vpcEndpointTemplateList \<Rightarrow> listMeta \<times> (typeMeta \<times> vpcEndpointTemplate) list \<Rightarrow> vpcEndpointTemplateList" where
  "value_VpcEndpointTemplateList r = (\<lambda>(listMeta', items').
      \<lparr>vetl_TypeMeta = rvetl_TypeMeta r, vetl_ListMeta = listMeta', vetl_Items = items'\<rparr>)"

definition read_VpcEndpointTemplateList :: "cell memory \<Rightarrow> raw_vpcEndpointTemplateList \<Rightarrow> vpcEndpointTemplateList option" where
  "read_VpcEndpointTemplateList m r = map_option (value_VpcEndpointTemplateList r)
     (both (read_ListMeta m (rvetl_ListMeta r))
       (read_slice VpcEndpointTemplate_cells read_VpcEndpointTemplate m (rvetl_Items r)))"

definition foot_VpcEndpointTemplateList :: "cell memory \<Rightarrow> raw_vpcEndpointTemplateList \<Rightarrow> nat set" where
  "foot_VpcEndpointTemplateList m r =
     foot_ListMeta m (rvetl_ListMeta r) \<union>
     foot_slice VpcEndpointTemplate_cells foot_VpcEndpointTemplate m (rvetl_Items r)"

definition DeepCopyInto_VpcEndpointTemplateList :: "metav1 \<Rightarrow> raw_vpcEndpointTemplateList \<Rightarrow> (cell memory, error, raw_vpcEndpointTemplateList) prog" where
  "DeepCopyInto_VpcEndpointTemplateList L r =
     bindE (lib_ListMeta L (rvetl_ListMeta r)) (\<lambda>listMeta.
     bindE (copy_slice VpcEndpointTemplate_cells (DeepCopyInto_VpcEndpointTemplate L) (rvetl_Items r)) (\<lambda>items.
     ret (r\<lparr>rvetl_ListMeta := listMeta, rvetl_Items := items\<rparr>)))"

definition DeepCopy_VpcEndpointTemplateList :: "metav1 \<Rightarrow> pointer \<Rightarrow> (cell memory, error, pointer) prog" where
  "DeepCopy_VpcEndpointTemplateList L = copy_pointer VpcEndpointTemplateList_cells (DeepCopyInto_VpcEndpointTemplateList L)"

lemma deep_copy_VpcEndpointTemplateList:
  assumes "metav1_laws L"
  shows "deep_copy read_VpcEndpointTemplateList foot_VpcEndpointTemplateList (DeepCopyInto_VpcEndpointTemplateList L)"
  by (rule deep_copy_struct [OF deep_copy_pair [OF metav1_lawsD(2) [OF assms]
      deep_copy_slice [OF typed_VpcEndpointTemplate deep_copy_VpcEndpointTemplate [OF assms]]],
      where build = value_VpcEndpointTemplateList and refs = "\<lambda>r. (rvetl_ListMeta r, rvetl_Items r)" and
        set_refs = "\<lambda>r x. r\<lparr>rvetl_ListMeta := fst x, rvetl_Items := snd x\<rparr>"])
    (simp_all add: copy_struct_simps value_VpcEndpointTemplateList_def read_VpcEndpointTemplateList_def foot_VpcEndpointTemplateList_def
      DeepCopyInto_VpcEndpointTemplateList_def)

section \<open>As objects\<close>

text \<open>An interface value: none if nil. A nil pointer in an interface would not be nil, so it is not put there.\<close>

datatype runtimeObject =
  VpcEndpointObject pointer
| VpcEndpointListObject pointer
| VpcEndpointTemplateObject pointer
| VpcEndpointTemplateListObject pointer
| AvoConfigObject pointer
| AvoConfigListObject pointer
| v1_VpcEndpointObject pointer
| v1_VpcEndpointListObject pointer
| VpcEndpointAcceptanceObject pointer
| VpcEndpointAcceptanceListObject pointer

definition DeepCopyObject_VpcEndpoint :: "metav1 \<Rightarrow> pointer \<Rightarrow> (cell memory, error, runtimeObject option) prog" where
  "DeepCopyObject_VpcEndpoint L p =
     bindE (DeepCopy_VpcEndpoint L p) (\<lambda>c.
     ret (if c \<noteq> NilPointer then Some (VpcEndpointObject c) else None))"

definition DeepCopyObject_VpcEndpointList :: "metav1 \<Rightarrow> pointer \<Rightarrow> (cell memory, error, runtimeObject option) prog" where
  "DeepCopyObject_VpcEndpointList L p =
     bindE (DeepCopy_VpcEndpointList L p) (\<lambda>c.
     ret (if c \<noteq> NilPointer then Some (VpcEndpointListObject c) else None))"

definition DeepCopyObject_VpcEndpointTemplate :: "metav1 \<Rightarrow> pointer \<Rightarrow> (cell memory, error, runtimeObject option) prog" where
  "DeepCopyObject_VpcEndpointTemplate L p =
     bindE (DeepCopy_VpcEndpointTemplate L p) (\<lambda>c.
     ret (if c \<noteq> NilPointer then Some (VpcEndpointTemplateObject c) else None))"

definition DeepCopyObject_VpcEndpointTemplateList :: "metav1 \<Rightarrow> pointer \<Rightarrow> (cell memory, error, runtimeObject option) prog" where
  "DeepCopyObject_VpcEndpointTemplateList L p =
     bindE (DeepCopy_VpcEndpointTemplateList L p) (\<lambda>c.
     ret (if c \<noteq> NilPointer then Some (VpcEndpointTemplateListObject c) else None))"

section \<open>Copies are independent\<close>

lemma deep_copy_DeepCopy:
  "deep_copy (read_pointer VpcEndpointSpec_cells read_VpcEndpointSpec)
     (foot_pointer VpcEndpointSpec_cells foot_VpcEndpointSpec) DeepCopy_VpcEndpointSpec"
  "metav1_laws L \<Longrightarrow> deep_copy (read_pointer VpcEndpointList_cells read_VpcEndpointList)
     (foot_pointer VpcEndpointList_cells foot_VpcEndpointList) (DeepCopy_VpcEndpointList L)"
  unfolding DeepCopy_VpcEndpointSpec_def DeepCopy_VpcEndpointList_def
  by (intro deep_copy_pointer typed_VpcEndpointSpec typed_VpcEndpointList deep_copy_VpcEndpointSpec
      deep_copy_VpcEndpointList; assumption)+

interpretation spec_copy: deep_copy read_VpcEndpointSpec foot_VpcEndpointSpec DeepCopyInto_VpcEndpointSpec
  by (rule deep_copy_VpcEndpointSpec)

interpretation spec_pointer: deep_copy "read_pointer VpcEndpointSpec_cells read_VpcEndpointSpec"
  "foot_pointer VpcEndpointSpec_cells foot_VpcEndpointSpec" DeepCopy_VpcEndpointSpec
  by (rule deep_copy_DeepCopy)

text \<open>
  C16: the copy of a spec is a deep one. It has the same value, and it shares no memory with the original:
  whatever is written into the memory the copy has taken, the original keeps its value, and whatever is written
  elsewhere, the copy keeps its own.
\<close>

theorem copied_spec_is_independent:
  assumes "well_formed m" "read_pointer VpcEndpointSpec_cells read_VpcEndpointSpec m p = Some v"
  shows "\<exists>q m'. DeepCopy_VpcEndpointSpec p m = (Ok q, m') \<and> (q = NilPointer) = (p = NilPointer) \<and>
    independent (read_pointer VpcEndpointSpec_cells read_VpcEndpointSpec) m p m' q v"
proof -
  obtain q m' where "DeepCopy_VpcEndpointSpec p m = (Ok q, m')"
    "independent (read_pointer VpcEndpointSpec_cells read_VpcEndpointSpec) m p m' q v"
    using spec_pointer.copy_independent [OF assms] by blast
  then show ?thesis using copy_pointer_nil unfolding DeepCopy_VpcEndpointSpec_def by blast
qed

text \<open>
  C17: a copied list of VpcEndpoints is an object of its own. \<open>DeepCopyObject\<close> gives no object for a nil pointer, never
  an object with a nil pointer in it, and otherwise one that is independent of the original, down to the tags, the
  rules and the labels of every endpoint in the list.
\<close>

theorem copied_list_is_independent:
  assumes "metav1_laws L" "well_formed m" "read_pointer VpcEndpointList_cells read_VpcEndpointList m p = Some v"
  shows "\<exists>ob m'. DeepCopyObject_VpcEndpointList L p m = (Ok ob, m') \<and>
    (case ob of None \<Rightarrow> p = NilPointer
     | Some (VpcEndpointListObject q) \<Rightarrow> p \<noteq> NilPointer \<and> q \<noteq> NilPointer \<and>
         independent (read_pointer VpcEndpointList_cells read_VpcEndpointList) m p m' q v
     | Some _ \<Rightarrow> False)"
proof -
  obtain q m' where c: "DeepCopy_VpcEndpointList L p m = (Ok q, m')"
    "independent (read_pointer VpcEndpointList_cells read_VpcEndpointList) m p m' q v"
    using deep_copy.copy_independent [OF deep_copy_DeepCopy(2) [OF assms(1)] assms(2,3)] by blast
  then have "q = NilPointer \<longleftrightarrow> p = NilPointer" using copy_pointer_nil unfolding DeepCopy_VpcEndpointList_def by blast
  with c show ?thesis by (auto simp: DeepCopyObject_VpcEndpointList_def run_simps)
qed

text \<open>A list of one endpoint whose subnets are found by a tag; the pointer in the other cell is to its spec.\<close>

definition sample_raw_spec :: raw_vpcEndpointSpec where
  "sample_raw_spec = \<lparr>rsp_ServiceName = ''com.amazonaws.vpce.svc'', rsp_ServiceNameRef = NilPointer,
     rsp_SecurityGroup = \<lparr>rsg_IngressRules = NilSlice, rsg_EgressRules = NilSlice, rsg_UseVpcCidr = False\<rparr>,
     rsp_AssumeRoleArn = '''', rsp_AWSCredentialOverrideRef = Pointer 3 0, rsp_Region = ''us-east-1'',
     rsp_EnablePrivateDns = False,
     rsp_Vpc = \<lparr>rvpc_AutoDiscoverSubnets = True, rvpc_SubnetIds = NilSlice, rvpc_Ids = NilSlice, rvpc_Tags = NilSlice,
       rvpc_SubnetTags = Slice 2 1 1\<rparr>,
     rsp_CustomDns = \<lparr>rdns_Route53PrivateHostedZone = \<lparr>rphz_AutoDiscover = False, rphz_AssociatedVpcs = NilSlice,
       rphz_DomainName = '''', rphz_DomainNameRef = NilPointer, rphz_Id = '''',
       rphz_Record = \<lparr>rec_Hostname = '''', rec_ExternalNameService = \<lparr>ens_Name = ''''\<rparr>\<rparr>\<rparr>\<rparr>\<rparr>"

definition sample_raw_endpoint :: raw_vpcEndpoint where
  "sample_raw_endpoint = \<lparr>rve_TypeMeta = \<lparr>tm_Kind = ''VpcEndpoint'', tm_APIVersion = ''avo.openshift.io/v1alpha2''\<rparr>,
     rve_Meta = \<lparr>rom_Name = ''example'', rom_Namespace = ''default'', rom_Labels = Pointer 4 0, rom_Finalizers = NilSlice,
       rom_DeletionTimestamp = NilPointer, rom_CreationTimestamp = 0\<rparr>,
     rve_Spec = sample_raw_spec,
     rve_Status = \<lparr>rst_Status = '''', rst_SecurityGroupId = '''', rst_VPCId = '''', rst_VPCEndpointId = '''',
       rst_VPCEndpointServiceName = '''', rst_HostedZoneId = '''', rst_ResourceRecordSet = '''', rst_InfraId = '''',
       rst_Conditions = NilSlice\<rparr>\<rparr>"

definition sample_memory :: "cell memory" where
  "sample_memory = \<lparr>mem_cells = [0 \<mapsto> ct_wrap VpcEndpointList_cells [\<lparr>rvel_TypeMeta = \<lparr>tm_Kind = '''', tm_APIVersion = ''''\<rparr>,
         rvel_ListMeta = \<lparr>rlm_ResourceVersion = ''7'', rlm_Continue = '''', rlm_RemainingItemCount = NilPointer\<rparr>,
         rvel_Items = Slice 1 0 1\<rparr>],
       1 \<mapsto> ct_wrap VpcEndpoint_cells [sample_raw_endpoint],
       2 \<mapsto> ct_wrap Tag_cells [\<lparr>tag_Key = ''a'', tag_Value = ''1''\<rparr>, \<lparr>tag_Key = ''b'', tag_Value = ''2''\<rparr>],
       3 \<mapsto> ct_wrap SecretReference_cells [\<lparr>sr_Name = ''aws'', sr_Namespace = ''default''\<rparr>],
       4 \<mapsto> ct_wrap LabelMap_cells [[(''app'', ''x'')]],
       5 \<mapsto> ct_wrap VpcEndpointSpec_cells [sample_raw_spec]], mem_next = 6\<rparr>"

lemma sample_well_formed: "well_formed sample_memory"
  by (simp add: well_formed_def sample_memory_def)

lemmas read_defs = read_pointer_def pointee_def array_at_def read_slice_def elements_def both_def read_list_def
  read_VpcEndpointList_def value_VpcEndpointList_def read_ListMeta_def value_ListMeta_def read_VpcEndpoint_def
  value_VpcEndpoint_def read_ObjectMeta_def value_ObjectMeta_def read_VpcEndpointStatus_def value_VpcEndpointStatus_def
  read_VpcEndpointSpec_def value_VpcEndpointSpec_def read_SecurityGroup_def value_SecurityGroup_def read_Vpc_def value_Vpc_def
  read_CustomDns_def value_CustomDns_def read_Route53PrivateHostedZone_def value_Route53PrivateHostedZone_def

lemmas sample_raw_defs = sample_memory_def sample_raw_endpoint_def sample_raw_spec_def

lemma sample_spec_read:
  "\<exists>v. read_pointer VpcEndpointSpec_cells read_VpcEndpointSpec sample_memory (Pointer 5 0) = Some (Some v) \<and>
     vpc_SubnetTags (sp_Vpc v) = [\<lparr>tag_Key = ''b'', tag_Value = ''2''\<rparr>]"
  by (simp add: read_defs sample_raw_defs cellType_defs)

theorem copied_spec_is_independent_witness:
  "\<exists>q m' v. DeepCopy_VpcEndpointSpec (Pointer 5 0) sample_memory = (Ok q, m') \<and> q \<noteq> NilPointer \<and>
     vpc_SubnetTags (sp_Vpc v) = [\<lparr>tag_Key = ''b'', tag_Value = ''2''\<rparr>] \<and>
     read_pointer VpcEndpointSpec_cells read_VpcEndpointSpec m' q = Some (Some v)"
proof -
  obtain v where v: "read_pointer VpcEndpointSpec_cells read_VpcEndpointSpec sample_memory (Pointer 5 0) = Some (Some v)"
    "vpc_SubnetTags (sp_Vpc v) = [\<lparr>tag_Key = ''b'', tag_Value = ''2''\<rparr>]" using sample_spec_read by blast
  from copied_spec_is_independent [OF sample_well_formed v(1)] v(2) show ?thesis
    by (auto simp: independent_def)
qed

lemma sample_list_read:
  "\<exists>v. read_pointer VpcEndpointList_cells read_VpcEndpointList sample_memory (Pointer 0 0) = Some (Some v) \<and> length (vel_Items v) = 1"
  by (simp add: read_defs sample_raw_defs cellType_defs)

theorem copied_list_is_independent_witness:
  "\<exists>q m' v. DeepCopyObject_VpcEndpointList ref_metav1 (Pointer 0 0) sample_memory = (Ok (Some (VpcEndpointListObject q)), m') \<and>
     length (vel_Items v) = 1 \<and> read_pointer VpcEndpointList_cells read_VpcEndpointList m' q = Some (Some v)"
proof -
  obtain v where v: "read_pointer VpcEndpointList_cells read_VpcEndpointList sample_memory (Pointer 0 0) = Some (Some v)"
    "length (vel_Items v) = 1" using sample_list_read by blast
  from copied_list_is_independent [OF ref_metav1_laws sample_well_formed v(1)] obtain ob m' where
    ob: "DeepCopyObject_VpcEndpointList ref_metav1 (Pointer 0 0) sample_memory = (Ok ob, m')"
    "case ob of None \<Rightarrow> False | Some (VpcEndpointListObject q) \<Rightarrow>
       read_pointer VpcEndpointList_cells read_VpcEndpointList m' q = Some (Some v) | Some _ \<Rightarrow> False"
    by (fastforce simp: independent_def split: option.splits runtimeObject.splits)
  with v(2) show ?thesis by (auto split: option.splits runtimeObject.splits)
qed

end
