(* ===== verification/TemplateMemory.thy ===== *)
theory TemplateMemory
  imports Template DeepCopyV2
begin

text \<open>
  The VpcEndpoint that the template controller builds, in memory (\<open>CreateVpcEndpoint\<close> and \<open>ReplaceVpcEndpointSpec\<close>).
  The theory Template builds it as a value; here it is shown that the value is right, and what memory the new
  endpoint shares with the template it is built from, which is built from again for the next hosted control plane.
\<close>

section \<open>Building an endpoint\<close>

text \<open>\<open>*spec.DeepCopy()\<close>: a new spec, filled by \<open>DeepCopyInto\<close>, and read.\<close>

definition derefDeepCopy :: "raw_vpcEndpointSpec \<Rightarrow> (cell memory, error, raw_vpcEndpointSpec) prog" where
  "derefDeepCopy spec =
     bindE (copy_array VpcEndpointSpec_cells DeepCopyInto_VpcEndpointSpec [spec]) (\<lambda>a.
     load VpcEndpointSpec_cells (Pointer a 0))"

definition templateSpec :: "raw_vpcEndpointTemplate \<Rightarrow> raw_vpceTemplateSpec" where
  "templateSpec r = rvt_Template (rvet_Spec r)"

definition buildVpcEndpoint :: "raw_vpcEndpointTemplate \<Rightarrow> string \<Rightarrow> (cell memory, error, raw_vpcEndpoint) prog" where
  "buildVpcEndpoint r namespace =
     bindE (derefDeepCopy (rvts_Spec (templateSpec r))) (\<lambda>spec.
     ret \<lparr>rve_TypeMeta = \<lparr>tm_Kind = '''', tm_APIVersion = ''''\<rparr>,
       rve_Meta = \<lparr>rom_Name = rom_Name (rvet_Meta r), rom_Namespace = namespace,
         rom_Labels = rom_Labels (rvts_Meta (templateSpec r)), rom_Finalizers = NilSlice,
         rom_DeletionTimestamp = NilPointer, rom_CreationTimestamp = 0\<rparr>,
       rve_Spec = spec,
       rve_Status = \<lparr>rst_Status = '''', rst_SecurityGroupId = '''', rst_VPCId = '''', rst_VPCEndpointId = '''',
         rst_VPCEndpointServiceName = '''', rst_HostedZoneId = '''', rst_ResourceRecordSet = '''', rst_InfraId = '''',
         rst_Conditions = NilSlice\<rparr>\<rparr>)"

definition replaceSpec :: "raw_vpcEndpoint \<Rightarrow> raw_vpcEndpointTemplate \<Rightarrow> (cell memory, error, raw_vpcEndpoint) prog" where
  "replaceSpec actual r =
     bindE (derefDeepCopy (rvts_Spec (templateSpec r))) (\<lambda>spec. ret (actual\<lparr>rve_Spec := spec\<rparr>))"

section \<open>What it is and what it shares\<close>

lemma derefDeepCopy_fresh:
  assumes "well_formed m" "read_VpcEndpointSpec m r = Some v"
  obtains r' m' where "derefDeepCopy r m = (Ok r', m')" "grows m m'" "read_VpcEndpointSpec m' r' = Some v"
    and "foot_VpcEndpointSpec m' r' \<subseteq> fresh m m'"
proof -
  have "read_list read_VpcEndpointSpec m [r] = Some [v]" using assms(2) by simp
  from copy_array_fresh [OF typed_VpcEndpointSpec deep_copy_VpcEndpointSpec assms(1) this] obtain a ys m' where
    c: "copy_array VpcEndpointSpec_cells DeepCopyInto_VpcEndpointSpec [r] m = (Ok a, m')" "grows m m'"
      "array_at VpcEndpointSpec_cells m' a = Some ys" "read_list read_VpcEndpointSpec m' ys = Some [v]"
      "foot_list foot_VpcEndpointSpec m' ys \<subseteq> fresh m m'" .
  moreover from read_list_length [OF c(4)] obtain z where "ys = [z]" by (cases ys) auto
  ultimately show thesis by (intro that [of z m']) (simp_all add: derefDeepCopy_def run_simps pointee_def)
qed

lemma template_parts:
  assumes "read_VpcEndpointTemplate m r = Some (tm, vpcet)"
  shows "read_ObjectMeta m (rvts_Meta (templateSpec r)) = Some (vts_Meta (vt_Template (vet_Spec vpcet)))"
    and "read_VpcEndpointSpec m (rvts_Spec (templateSpec r)) = Some (vts_Spec (vt_Template (vet_Spec vpcet)))"
    and "rom_Name (rvet_Meta r) = om_Name (vet_Meta vpcet)"
proof -
  from assms have t: "read_ObjectMeta m (rvet_Meta r) = Some (vet_Meta vpcet)"
    "read_VpcEndpointTemplateSpec m (rvet_Spec r) = Some (vet_Spec vpcet)"
    by (auto simp: read_VpcEndpointTemplate_def value_VpcEndpointTemplate_def both_Some)
  from t(2) have "read_VpceTemplateSpec m (templateSpec r) = Some (vt_Template (vet_Spec vpcet))"
    by (cases "vet_Spec vpcet") (auto simp: read_VpcEndpointTemplateSpec_def value_VpcEndpointTemplateSpec_def both_Some templateSpec_def)
  then show "read_ObjectMeta m (rvts_Meta (templateSpec r)) = Some (vts_Meta (vt_Template (vet_Spec vpcet)))"
    "read_VpcEndpointSpec m (rvts_Spec (templateSpec r)) = Some (vts_Spec (vt_Template (vet_Spec vpcet)))"
    by (cases "vt_Template (vet_Spec vpcet)", auto simp: read_VpceTemplateSpec_def value_VpceTemplateSpec_def both_Some)+
  from t(1) show "rom_Name (rvet_Meta r) = om_Name (vet_Meta vpcet)"
    by (cases "vet_Meta vpcet") (auto simp: read_ObjectMeta_def value_ObjectMeta_def)
qed

lemma template_copy: "deep_copy read_VpcEndpointTemplate foot_VpcEndpointTemplate (DeepCopyInto_VpcEndpointTemplate ref_metav1)"
  by (rule deep_copy_VpcEndpointTemplate [OF ref_metav1_laws])

interpretation template: deep_copy read_VpcEndpointTemplate foot_VpcEndpointTemplate
  "DeepCopyInto_VpcEndpointTemplate ref_metav1"
  by (rule template_copy)

lemma template_spec_part:
  "foot_VpcEndpointSpec m (rvts_Spec (templateSpec r)) \<subseteq> foot_VpcEndpointTemplate m r"
  "foot_ObjectMeta m (rvts_Meta (templateSpec r)) \<subseteq> foot_VpcEndpointTemplate m r"
  by (auto simp: foot_VpcEndpointTemplate_def foot_VpcEndpointTemplateSpec_def foot_VpceTemplateSpec_def templateSpec_def)

text \<open>The memory of the labels of a template.\<close>

definition label_memory :: "cell memory \<Rightarrow> raw_vpcEndpointTemplate \<Rightarrow> nat set" where
  "label_memory m r = foot_pointer LabelMap_cells (\<lambda>m r. {}) m (rom_Labels (rvts_Meta (templateSpec r)))"

lemma label_memory_part: "label_memory m r \<subseteq> foot_VpcEndpointTemplate m r"
  using template_spec_part(2) [of m r] by (auto simp: label_memory_def foot_ObjectMeta_def)

text \<open>
  C15: the endpoint that is built for a hosted control plane is the one that the model of the controller sends, and
  the template is what it was. The two share the memory of the labels, and none other: the spec is a deep copy,
  the labels are the template's own map.
\<close>

theorem built_endpoint_shares_labels_only:
  assumes "well_formed m" "read_VpcEndpointTemplate m r = Some (tm, vpcet)"
  shows "\<exists>e m'. buildVpcEndpoint r namespace m = (Ok e, m') \<and> grows m m' \<and>
    read_VpcEndpoint m' e = Some (\<lparr>tm_Kind = '''', tm_APIVersion = ''''\<rparr>, newVpcEndpoint vpcet namespace) \<and>
    read_VpcEndpointTemplate m' r = Some (tm, vpcet) \<and>
    foot_VpcEndpoint m' e \<inter> foot_VpcEndpointTemplate m' r = label_memory m r"
proof -
  note parts = template_parts [OF assms(2)]
  obtain spec m' where c: "derefDeepCopy (rvts_Spec (templateSpec r)) m = (Ok spec, m')" "grows m m'"
    "read_VpcEndpointSpec m' spec = Some (vts_Spec (vt_Template (vet_Spec vpcet)))" "foot_VpcEndpointSpec m' spec \<subseteq> fresh m m'"
    using derefDeepCopy_fresh [OF assms(1) parts(2)] by blast
  obtain e where e: "buildVpcEndpoint r namespace m = (Ok e, m')" "rve_Spec e = spec"
    "rve_TypeMeta e = \<lparr>tm_Kind = '''', tm_APIVersion = ''''\<rparr>"
    "rve_Meta e = \<lparr>rom_Name = rom_Name (rvet_Meta r), rom_Namespace = namespace,
       rom_Labels = rom_Labels (rvts_Meta (templateSpec r)), rom_Finalizers = NilSlice,
       rom_DeletionTimestamp = NilPointer, rom_CreationTimestamp = 0\<rparr>"
    "read_VpcEndpointStatus m' (rve_Status e) = Some (ve_Status (newVpcEndpoint vpcet namespace))"
    "foot_VpcEndpointStatus m' (rve_Status e) = {}"
    using c(1) by (simp add: buildVpcEndpoint_def run_simps newVpcEndpoint_def read_VpcEndpointStatus_def
        value_VpcEndpointStatus_def foot_VpcEndpointStatus_def read_slice_def elements_def foot_slice_def)
  note template = template.read_grows [OF assms(1,2) c(2)]
  have meta': "read_ObjectMeta m' (rvts_Meta (templateSpec r)) = Some (vts_Meta (vt_Template (vet_Spec vpcet)))"
    by (rule template_parts(1) [OF template(1)])
  then have "read_ObjectMeta m' (rve_Meta e) = Some (ve_Meta (newVpcEndpoint vpcet namespace))"
    unfolding e(4) newVpcEndpoint_def
    by (cases "vts_Meta (vt_Template (vet_Spec vpcet))")
      (auto simp: read_ObjectMeta_def value_ObjectMeta_def both_def read_slice_def elements_def read_pointer_def parts(3)
        split: Option.bind_splits)
  with c(3) e(2,3,5) have "read_VpcEndpoint m' e = Some (\<lparr>tm_Kind = '''', tm_APIVersion = ''''\<rparr>, newVpcEndpoint vpcet namespace)"
    by (simp add: read_VpcEndpoint_def value_VpcEndpoint_def both_def newVpcEndpoint_def)
  moreover have "foot_VpcEndpoint m' e \<inter> foot_VpcEndpointTemplate m' r = label_memory m r"
  proof -
    have "foot_VpcEndpoint m' e = label_memory m' r \<union> foot_VpcEndpointSpec m' spec"
      by (simp add: foot_VpcEndpoint_def e(2,4,6) foot_ObjectMeta_def label_memory_def foot_slice_def foot_pointer_def [of _ _ _ NilPointer])
    moreover have "foot_VpcEndpointSpec m' spec \<inter> foot_VpcEndpointTemplate m' r = {}"
      using c(4) template.foot_below [OF assms] template(2) by (fastforce simp: fresh_def)
    moreover have "label_memory m' r = label_memory m r"
      by (simp add: label_memory_def foot_pointer_def split: pointer.split option.split)
    ultimately show ?thesis using label_memory_part [of m' r] by blast
  qed
  ultimately show ?thesis using e(1) c(2) template(1) by blast
qed

text \<open>The same for a replaced spec: the value of the model, and no memory of the template in it.\<close>

lemma replaced_spec_is_separate:
  assumes "well_formed m" "read_VpcEndpointTemplate m r = Some (tm, vpcet)" "read_VpcEndpoint m actual = Some (ta, vpce)"
  shows "\<exists>e m'. replaceSpec actual r m = (Ok e, m') \<and> grows m m' \<and>
    read_VpcEndpointSpec m' (rve_Spec e) = Some (ve_Spec (replaced vpcet vpce)) \<and>
    read_VpcEndpointTemplate m' r = Some (tm, vpcet) \<and>
    foot_VpcEndpointSpec m' (rve_Spec e) \<inter> foot_VpcEndpointTemplate m' r = {}"
proof -
  obtain spec m' where c: "derefDeepCopy (rvts_Spec (templateSpec r)) m = (Ok spec, m')" "grows m m'"
    "read_VpcEndpointSpec m' spec = Some (vts_Spec (vt_Template (vet_Spec vpcet)))" "foot_VpcEndpointSpec m' spec \<subseteq> fresh m m'"
    using derefDeepCopy_fresh [OF assms(1) template_parts(2) [OF assms(2)]] by blast
  note template = template.read_grows [OF assms(1,2) c(2)]
  have "foot_VpcEndpointSpec m' spec \<inter> foot_VpcEndpointTemplate m' r = {}"
    using c(4) template.foot_below [OF assms(1,2)] template(2) by (fastforce simp: fresh_def)
  with c template(1) show ?thesis by (simp add: replaceSpec_def run_simps replaced_def)
qed

section \<open>An example\<close>

definition sample_raw_template :: raw_vpcEndpointTemplate where
  "sample_raw_template = \<lparr>rvet_TypeMeta = \<lparr>tm_Kind = '''', tm_APIVersion = ''''\<rparr>,
     rvet_Meta = \<lparr>rom_Name = ''example'', rom_Namespace = ''default'', rom_Labels = NilPointer, rom_Finalizers = NilSlice,
       rom_DeletionTimestamp = NilPointer, rom_CreationTimestamp = 0\<rparr>,
     rvet_Spec = \<lparr>rvt_Type = HCPVpcEndpointTemplateType,
       rvt_Selector = \<lparr>rls_MatchLabels = NilPointer, rls_MatchExpressions = NilSlice\<rparr>,
       rvt_Template = \<lparr>rvts_Meta = \<lparr>rom_Name = '''', rom_Namespace = '''', rom_Labels = Pointer 4 0,
           rom_Finalizers = NilSlice, rom_DeletionTimestamp = NilPointer, rom_CreationTimestamp = 0\<rparr>,
         rvts_Spec = sample_raw_spec\<rparr>\<rparr>,
     rvet_Status = ()\<rparr>"

lemmas template_read_defs = read_VpcEndpointTemplate_def value_VpcEndpointTemplate_def read_VpcEndpointTemplateSpec_def
  value_VpcEndpointTemplateSpec_def read_LabelSelector_def value_LabelSelector_def read_VpceTemplateSpec_def
  value_VpceTemplateSpec_def

lemma sample_template_read:
  "\<exists>tm vpcet. read_VpcEndpointTemplate sample_memory sample_raw_template = Some (tm, vpcet)"
  by (simp add: template_read_defs read_defs sample_raw_template_def sample_raw_defs cellType_defs)

lemma sample_label_memory: "label_memory sample_memory sample_raw_template = {4}"
  by (simp add: label_memory_def foot_pointer_def sample_raw_template_def templateSpec_def split: option.split)

theorem built_endpoint_shares_labels_only_witness:
  "\<exists>e m'. buildVpcEndpoint sample_raw_template ''hcp'' sample_memory = (Ok e, m') \<and>
     foot_VpcEndpoint m' e \<inter> foot_VpcEndpointTemplate m' sample_raw_template = {4}"
proof -
  obtain tm vpcet where "read_VpcEndpointTemplate sample_memory sample_raw_template = Some (tm, vpcet)"
    using sample_template_read by blast
  from built_endpoint_shares_labels_only [OF sample_well_formed this] show ?thesis
    unfolding sample_label_memory by blast
qed

text \<open>What is written into the labels of the new endpoint is there in the template for the next one.\<close>

lemma written_label_reaches_template:
  "read_ObjectMeta (set_array LabelMap_cells 4 [[(''app'', ''x''), (''injected'', ''y'')]] sample_memory)
     (rvts_Meta (templateSpec sample_raw_template)) =
   Some \<lparr>om_Name = '''', om_Namespace = '''', om_Labels = [(''app'', ''x''), (''injected'', ''y'')], om_Finalizers = [],
     om_DeletionTimestamp = None, om_CreationTimestamp = 0\<rparr>"
  by (simp add: templateSpec_def sample_raw_template_def read_defs cellType_defs sample_memory_def)

end
