(* ===== verification/DeepCopyV1.thy ===== *)
theory DeepCopyV1
  imports DeepCopyV2
begin

text \<open>The deep copies of \<open>api/v1alpha1\<close> (zz_generated.deepcopy.go), in the same way.\<close>

section \<open>Types without pointers\<close>

definition DeepCopyInto_AAOAccountAcceptanceCriteria :: "aaoAccountAcceptanceCriteria \<Rightarrow> (cell memory, error, aaoAccountAcceptanceCriteria) prog" where
  "DeepCopyInto_AAOAccountAcceptanceCriteria = ret"

definition DeepCopy_AAOAccountAcceptanceCriteria :: "pointer \<Rightarrow> (cell memory, error, pointer) prog" where
  "DeepCopy_AAOAccountAcceptanceCriteria = copy_pointer AAOAccountAcceptanceCriteria_cells DeepCopyInto_AAOAccountAcceptanceCriteria"

definition DeepCopyInto_v1_ExternalNameServiceSpec :: "v1_externalNameServiceSpec \<Rightarrow> (cell memory, error, v1_externalNameServiceSpec) prog" where
  "DeepCopyInto_v1_ExternalNameServiceSpec = ret"

definition DeepCopy_v1_ExternalNameServiceSpec :: "pointer \<Rightarrow> (cell memory, error, pointer) prog" where
  "DeepCopy_v1_ExternalNameServiceSpec = copy_pointer v1_ExternalNameServiceSpec_cells DeepCopyInto_v1_ExternalNameServiceSpec"

definition DeepCopyInto_v1_SecurityGroupRule :: "v1_securityGroupRule \<Rightarrow> (cell memory, error, v1_securityGroupRule) prog" where
  "DeepCopyInto_v1_SecurityGroupRule = ret"

definition DeepCopy_v1_SecurityGroupRule :: "pointer \<Rightarrow> (cell memory, error, pointer) prog" where
  "DeepCopy_v1_SecurityGroupRule = copy_pointer v1_SecurityGroupRule_cells DeepCopyInto_v1_SecurityGroupRule"

definition DeepCopyInto_VpcEndpointAcceptanceStatus :: "vpcEndpointAcceptanceStatus \<Rightarrow> (cell memory, error, vpcEndpointAcceptanceStatus) prog" where
  "DeepCopyInto_VpcEndpointAcceptanceStatus = ret"

definition DeepCopy_VpcEndpointAcceptanceStatus :: "pointer \<Rightarrow> (cell memory, error, pointer) prog" where
  "DeepCopy_VpcEndpointAcceptanceStatus = copy_pointer VpcEndpointAcceptanceStatus_cells DeepCopyInto_VpcEndpointAcceptanceStatus"

section \<open>Types with pointers\<close>

definition value_AcceptanceCriteria ::
    "raw_acceptanceCriteria \<Rightarrow> aaoAccountAcceptanceCriteria option \<Rightarrow> acceptanceCriteria" where
  "value_AcceptanceCriteria r = (\<lambda>awsAccountOperatorAccount'.
      \<lparr>ac_AwsAccountOperatorAccount = awsAccountOperatorAccount',
       ac_AlwaysAccept = rac_AlwaysAccept r\<rparr>)"

definition read_AcceptanceCriteria :: "cell memory \<Rightarrow> raw_acceptanceCriteria \<Rightarrow> acceptanceCriteria option" where
  "read_AcceptanceCriteria m r = map_option (value_AcceptanceCriteria r)
     (read_pointer AAOAccountAcceptanceCriteria_cells (\<lambda>m r. Some r) m (rac_AwsAccountOperatorAccount r))"

definition foot_AcceptanceCriteria :: "cell memory \<Rightarrow> raw_acceptanceCriteria \<Rightarrow> nat set" where
  "foot_AcceptanceCriteria m r =
     foot_pointer AAOAccountAcceptanceCriteria_cells (\<lambda>m r. {}) m (rac_AwsAccountOperatorAccount r)"

definition DeepCopyInto_AcceptanceCriteria :: "raw_acceptanceCriteria \<Rightarrow> (cell memory, error, raw_acceptanceCriteria) prog" where
  "DeepCopyInto_AcceptanceCriteria r =
     bindE (copy_pointer AAOAccountAcceptanceCriteria_cells ret (rac_AwsAccountOperatorAccount r)) (\<lambda>awsAccountOperatorAccount.
     ret (r\<lparr>rac_AwsAccountOperatorAccount := awsAccountOperatorAccount\<rparr>))"

definition DeepCopy_AcceptanceCriteria :: "pointer \<Rightarrow> (cell memory, error, pointer) prog" where
  "DeepCopy_AcceptanceCriteria = copy_pointer AcceptanceCriteria_cells DeepCopyInto_AcceptanceCriteria"

lemma deep_copy_AcceptanceCriteria:
  "deep_copy read_AcceptanceCriteria foot_AcceptanceCriteria DeepCopyInto_AcceptanceCriteria"
  by (rule deep_copy_struct [OF deep_copy_pointer [OF typed_AAOAccountAcceptanceCriteria deep_copy_flat],
      where build = value_AcceptanceCriteria and refs = "\<lambda>r. rac_AwsAccountOperatorAccount r" and
        set_refs = "\<lambda>r x. r\<lparr>rac_AwsAccountOperatorAccount := x\<rparr>"])
    (simp_all add: copy_struct_simps value_AcceptanceCriteria_def read_AcceptanceCriteria_def foot_AcceptanceCriteria_def
      DeepCopyInto_AcceptanceCriteria_def)

definition value_AvoConfig ::
    "raw_avoConfig \<Rightarrow> managerConfig \<times> bool option \<times> bool option \<times> bool option \<times> bool option \<Rightarrow> typeMeta \<times> managerConfig \<times> avoConfig" where
  "value_AvoConfig r = (\<lambda>(managerConfig', enableVpcEndpointController', enableVpcEndpointAcceptanceController', enableVpcEndpointTemplateController', enablePrivateDns').
      (rcfg_TypeMeta r, managerConfig', \<lparr>cfg_EnableVpcEndpointController = enableVpcEndpointController',
       cfg_EnableVpcEndpointAcceptanceController = enableVpcEndpointAcceptanceController',
       cfg_EnableVpcEndpointTemplateController = enableVpcEndpointTemplateController',
       cfg_EnablePrivateDns = enablePrivateDns'\<rparr>))"

definition read_AvoConfig :: "cell memory \<Rightarrow> raw_avoConfig \<Rightarrow> (typeMeta \<times> managerConfig \<times> avoConfig) option" where
  "read_AvoConfig m r = map_option (value_AvoConfig r)
     (both (read_ManagerConfig m (rcfg_ManagerConfig r))
       (both (read_pointer Bool_cells (\<lambda>m r. Some r) m (rcfg_EnableVpcEndpointController r))
       (both (read_pointer Bool_cells (\<lambda>m r. Some r) m (rcfg_EnableVpcEndpointAcceptanceController r))
       (both (read_pointer Bool_cells (\<lambda>m r. Some r) m (rcfg_EnableVpcEndpointTemplateController r))
       (read_pointer Bool_cells (\<lambda>m r. Some r) m (rcfg_EnablePrivateDns r))))))"

definition foot_AvoConfig :: "cell memory \<Rightarrow> raw_avoConfig \<Rightarrow> nat set" where
  "foot_AvoConfig m r =
     foot_ManagerConfig m (rcfg_ManagerConfig r) \<union>
     foot_pointer Bool_cells (\<lambda>m r. {}) m (rcfg_EnableVpcEndpointController r) \<union>
     foot_pointer Bool_cells (\<lambda>m r. {}) m (rcfg_EnableVpcEndpointAcceptanceController r) \<union>
     foot_pointer Bool_cells (\<lambda>m r. {}) m (rcfg_EnableVpcEndpointTemplateController r) \<union>
     foot_pointer Bool_cells (\<lambda>m r. {}) m (rcfg_EnablePrivateDns r)"

definition DeepCopyInto_AvoConfig :: "metav1 \<Rightarrow> raw_avoConfig \<Rightarrow> (cell memory, error, raw_avoConfig) prog" where
  "DeepCopyInto_AvoConfig L r =
     bindE (lib_ManagerConfig L (rcfg_ManagerConfig r)) (\<lambda>managerConfig.
     bindE (copy_pointer Bool_cells ret (rcfg_EnableVpcEndpointController r)) (\<lambda>enableVpcEndpointController.
     bindE (copy_pointer Bool_cells ret (rcfg_EnableVpcEndpointAcceptanceController r)) (\<lambda>enableVpcEndpointAcceptanceController.
     bindE (copy_pointer Bool_cells ret (rcfg_EnableVpcEndpointTemplateController r)) (\<lambda>enableVpcEndpointTemplateController.
     bindE (copy_pointer Bool_cells ret (rcfg_EnablePrivateDns r)) (\<lambda>enablePrivateDns.
     ret (r\<lparr>rcfg_ManagerConfig := managerConfig, rcfg_EnableVpcEndpointController := enableVpcEndpointController,
       rcfg_EnableVpcEndpointAcceptanceController := enableVpcEndpointAcceptanceController, rcfg_EnableVpcEndpointTemplateController := enableVpcEndpointTemplateController, rcfg_EnablePrivateDns := enablePrivateDns\<rparr>))))))"

definition DeepCopy_AvoConfig :: "metav1 \<Rightarrow> pointer \<Rightarrow> (cell memory, error, pointer) prog" where
  "DeepCopy_AvoConfig L = copy_pointer AvoConfig_cells (DeepCopyInto_AvoConfig L)"

lemma deep_copy_AvoConfig:
  assumes "metav1_laws L"
  shows "deep_copy read_AvoConfig foot_AvoConfig (DeepCopyInto_AvoConfig L)"
  by (rule deep_copy_struct [OF deep_copy_pair [OF metav1_lawsD(5) [OF assms]
      deep_copy_pair [OF deep_copy_pointer [OF typed_Bool deep_copy_flat]
      deep_copy_pair [OF deep_copy_pointer [OF typed_Bool deep_copy_flat]
      deep_copy_pair [OF deep_copy_pointer [OF typed_Bool deep_copy_flat]
      deep_copy_pointer [OF typed_Bool deep_copy_flat]]]]],
      where build = value_AvoConfig and refs = "\<lambda>r. (rcfg_ManagerConfig r, rcfg_EnableVpcEndpointController r, rcfg_EnableVpcEndpointAcceptanceController r, rcfg_EnableVpcEndpointTemplateController r, rcfg_EnablePrivateDns r)" and
        set_refs = "\<lambda>r x. r\<lparr>rcfg_ManagerConfig := fst x, rcfg_EnableVpcEndpointController := fst (snd x), rcfg_EnableVpcEndpointAcceptanceController := fst (snd (snd x)), rcfg_EnableVpcEndpointTemplateController := fst (snd (snd (snd x))), rcfg_EnablePrivateDns := snd (snd (snd (snd x)))\<rparr>"])
    (simp_all add: copy_struct_simps value_AvoConfig_def read_AvoConfig_def foot_AvoConfig_def
      DeepCopyInto_AvoConfig_def)

definition value_AvoConfigList ::
    "raw_avoConfigList \<Rightarrow> listMeta \<times> (typeMeta \<times> managerConfig \<times> avoConfig) list \<Rightarrow> avoConfigList" where
  "value_AvoConfigList r = (\<lambda>(listMeta', items').
      \<lparr>cfgl_TypeMeta = rcfgl_TypeMeta r, cfgl_ListMeta = listMeta', cfgl_Items = items'\<rparr>)"

definition read_AvoConfigList :: "cell memory \<Rightarrow> raw_avoConfigList \<Rightarrow> avoConfigList option" where
  "read_AvoConfigList m r = map_option (value_AvoConfigList r)
     (both (read_ListMeta m (rcfgl_ListMeta r))
       (read_slice AvoConfig_cells read_AvoConfig m (rcfgl_Items r)))"

definition foot_AvoConfigList :: "cell memory \<Rightarrow> raw_avoConfigList \<Rightarrow> nat set" where
  "foot_AvoConfigList m r =
     foot_ListMeta m (rcfgl_ListMeta r) \<union>
     foot_slice AvoConfig_cells foot_AvoConfig m (rcfgl_Items r)"

definition DeepCopyInto_AvoConfigList :: "metav1 \<Rightarrow> raw_avoConfigList \<Rightarrow> (cell memory, error, raw_avoConfigList) prog" where
  "DeepCopyInto_AvoConfigList L r =
     bindE (lib_ListMeta L (rcfgl_ListMeta r)) (\<lambda>listMeta.
     bindE (copy_slice AvoConfig_cells (DeepCopyInto_AvoConfig L) (rcfgl_Items r)) (\<lambda>items.
     ret (r\<lparr>rcfgl_ListMeta := listMeta, rcfgl_Items := items\<rparr>)))"

definition DeepCopy_AvoConfigList :: "metav1 \<Rightarrow> pointer \<Rightarrow> (cell memory, error, pointer) prog" where
  "DeepCopy_AvoConfigList L = copy_pointer AvoConfigList_cells (DeepCopyInto_AvoConfigList L)"

lemma deep_copy_AvoConfigList:
  assumes "metav1_laws L"
  shows "deep_copy read_AvoConfigList foot_AvoConfigList (DeepCopyInto_AvoConfigList L)"
  by (rule deep_copy_struct [OF deep_copy_pair [OF metav1_lawsD(2) [OF assms]
      deep_copy_slice [OF typed_AvoConfig deep_copy_AvoConfig [OF assms]]],
      where build = value_AvoConfigList and refs = "\<lambda>r. (rcfgl_ListMeta r, rcfgl_Items r)" and
        set_refs = "\<lambda>r x. r\<lparr>rcfgl_ListMeta := fst x, rcfgl_Items := snd x\<rparr>"])
    (simp_all add: copy_struct_simps value_AvoConfigList_def read_AvoConfigList_def foot_AvoConfigList_def
      DeepCopyInto_AvoConfigList_def)

definition value_v1_SecurityGroup ::
    "raw_v1_securityGroup \<Rightarrow> v1_securityGroupRule list \<times> v1_securityGroupRule list \<Rightarrow> v1_securityGroup" where
  "value_v1_SecurityGroup r = (\<lambda>(ingressRules', egressRules').
      \<lparr>sg1_IngressRules = ingressRules', sg1_EgressRules = egressRules'\<rparr>)"

definition read_v1_SecurityGroup :: "cell memory \<Rightarrow> raw_v1_securityGroup \<Rightarrow> v1_securityGroup option" where
  "read_v1_SecurityGroup m r = map_option (value_v1_SecurityGroup r)
     (both (read_slice v1_SecurityGroupRule_cells (\<lambda>m r. Some r) m (rsg1_IngressRules r))
       (read_slice v1_SecurityGroupRule_cells (\<lambda>m r. Some r) m (rsg1_EgressRules r)))"

definition foot_v1_SecurityGroup :: "cell memory \<Rightarrow> raw_v1_securityGroup \<Rightarrow> nat set" where
  "foot_v1_SecurityGroup m r =
     foot_slice v1_SecurityGroupRule_cells (\<lambda>m r. {}) m (rsg1_IngressRules r) \<union>
     foot_slice v1_SecurityGroupRule_cells (\<lambda>m r. {}) m (rsg1_EgressRules r)"

definition DeepCopyInto_v1_SecurityGroup :: "raw_v1_securityGroup \<Rightarrow> (cell memory, error, raw_v1_securityGroup) prog" where
  "DeepCopyInto_v1_SecurityGroup r =
     bindE (copy_slice v1_SecurityGroupRule_cells ret (rsg1_IngressRules r)) (\<lambda>ingressRules.
     bindE (copy_slice v1_SecurityGroupRule_cells ret (rsg1_EgressRules r)) (\<lambda>egressRules.
     ret (r\<lparr>rsg1_IngressRules := ingressRules, rsg1_EgressRules := egressRules\<rparr>)))"

definition DeepCopy_v1_SecurityGroup :: "pointer \<Rightarrow> (cell memory, error, pointer) prog" where
  "DeepCopy_v1_SecurityGroup = copy_pointer v1_SecurityGroup_cells DeepCopyInto_v1_SecurityGroup"

lemma deep_copy_v1_SecurityGroup:
  "deep_copy read_v1_SecurityGroup foot_v1_SecurityGroup DeepCopyInto_v1_SecurityGroup"
  by (rule deep_copy_struct [OF deep_copy_pair [OF deep_copy_slice [OF typed_v1_SecurityGroupRule deep_copy_flat]
      deep_copy_slice [OF typed_v1_SecurityGroupRule deep_copy_flat]],
      where build = value_v1_SecurityGroup and refs = "\<lambda>r. (rsg1_IngressRules r, rsg1_EgressRules r)" and
        set_refs = "\<lambda>r x. r\<lparr>rsg1_IngressRules := fst x, rsg1_EgressRules := snd x\<rparr>"])
    (simp_all add: copy_struct_simps value_v1_SecurityGroup_def read_v1_SecurityGroup_def foot_v1_SecurityGroup_def
      DeepCopyInto_v1_SecurityGroup_def)

definition value_v1_VpcEndpointSpec ::
    "raw_v1_vpcEndpointSpec \<Rightarrow> v1_securityGroup \<Rightarrow> v1_vpcEndpointSpec" where
  "value_v1_VpcEndpointSpec r = (\<lambda>securityGroup'.
      \<lparr>sp1_ServiceName = rsp1_ServiceName r, sp1_SecurityGroup = securityGroup',
       sp1_SubdomainName = rsp1_SubdomainName r,
       sp1_ExternalNameService = rsp1_ExternalNameService r,
       sp1_AddtlHostedZoneName = rsp1_AddtlHostedZoneName r\<rparr>)"

definition read_v1_VpcEndpointSpec :: "cell memory \<Rightarrow> raw_v1_vpcEndpointSpec \<Rightarrow> v1_vpcEndpointSpec option" where
  "read_v1_VpcEndpointSpec m r = map_option (value_v1_VpcEndpointSpec r)
     (read_v1_SecurityGroup m (rsp1_SecurityGroup r))"

definition foot_v1_VpcEndpointSpec :: "cell memory \<Rightarrow> raw_v1_vpcEndpointSpec \<Rightarrow> nat set" where
  "foot_v1_VpcEndpointSpec m r =
     foot_v1_SecurityGroup m (rsp1_SecurityGroup r)"

definition DeepCopyInto_v1_VpcEndpointSpec :: "raw_v1_vpcEndpointSpec \<Rightarrow> (cell memory, error, raw_v1_vpcEndpointSpec) prog" where
  "DeepCopyInto_v1_VpcEndpointSpec r =
     bindE (DeepCopyInto_v1_SecurityGroup (rsp1_SecurityGroup r)) (\<lambda>securityGroup.
     ret (r\<lparr>rsp1_SecurityGroup := securityGroup\<rparr>))"

definition DeepCopy_v1_VpcEndpointSpec :: "pointer \<Rightarrow> (cell memory, error, pointer) prog" where
  "DeepCopy_v1_VpcEndpointSpec = copy_pointer v1_VpcEndpointSpec_cells DeepCopyInto_v1_VpcEndpointSpec"

lemma deep_copy_v1_VpcEndpointSpec:
  "deep_copy read_v1_VpcEndpointSpec foot_v1_VpcEndpointSpec DeepCopyInto_v1_VpcEndpointSpec"
  by (rule deep_copy_struct [OF deep_copy_v1_SecurityGroup,
      where build = value_v1_VpcEndpointSpec and refs = "\<lambda>r. rsp1_SecurityGroup r" and
        set_refs = "\<lambda>r x. r\<lparr>rsp1_SecurityGroup := x\<rparr>"])
    (simp_all add: copy_struct_simps value_v1_VpcEndpointSpec_def read_v1_VpcEndpointSpec_def foot_v1_VpcEndpointSpec_def
      DeepCopyInto_v1_VpcEndpointSpec_def)

definition value_v1_VpcEndpointStatus ::
    "raw_v1_vpcEndpointStatus \<Rightarrow> condition list \<Rightarrow> v1_vpcEndpointStatus" where
  "value_v1_VpcEndpointStatus r = (\<lambda>conditions'.
      \<lparr>st1_Status = rst1_Status r, st1_SecurityGroupId = rst1_SecurityGroupId r,
       st1_VPCEndpointId = rst1_VPCEndpointId r, st1_Conditions = conditions'\<rparr>)"

definition read_v1_VpcEndpointStatus :: "cell memory \<Rightarrow> raw_v1_vpcEndpointStatus \<Rightarrow> v1_vpcEndpointStatus option" where
  "read_v1_VpcEndpointStatus m r = map_option (value_v1_VpcEndpointStatus r)
     (read_slice Condition_cells (\<lambda>m r. Some r) m (rst1_Conditions r))"

definition foot_v1_VpcEndpointStatus :: "cell memory \<Rightarrow> raw_v1_vpcEndpointStatus \<Rightarrow> nat set" where
  "foot_v1_VpcEndpointStatus m r =
     foot_slice Condition_cells (\<lambda>m r. {}) m (rst1_Conditions r)"

definition DeepCopyInto_v1_VpcEndpointStatus :: "metav1 \<Rightarrow> raw_v1_vpcEndpointStatus \<Rightarrow> (cell memory, error, raw_v1_vpcEndpointStatus) prog" where
  "DeepCopyInto_v1_VpcEndpointStatus L r =
     bindE (copy_slice Condition_cells (lib_Condition L) (rst1_Conditions r)) (\<lambda>conditions.
     ret (r\<lparr>rst1_Conditions := conditions\<rparr>))"

definition DeepCopy_v1_VpcEndpointStatus :: "metav1 \<Rightarrow> pointer \<Rightarrow> (cell memory, error, pointer) prog" where
  "DeepCopy_v1_VpcEndpointStatus L = copy_pointer v1_VpcEndpointStatus_cells (DeepCopyInto_v1_VpcEndpointStatus L)"

lemma deep_copy_v1_VpcEndpointStatus:
  assumes "metav1_laws L"
  shows "deep_copy read_v1_VpcEndpointStatus foot_v1_VpcEndpointStatus (DeepCopyInto_v1_VpcEndpointStatus L)"
  by (rule deep_copy_struct [OF deep_copy_slice [OF typed_Condition metav1_lawsD(4) [OF assms]],
      where build = value_v1_VpcEndpointStatus and refs = "\<lambda>r. rst1_Conditions r" and
        set_refs = "\<lambda>r x. r\<lparr>rst1_Conditions := x\<rparr>"])
    (simp_all add: copy_struct_simps value_v1_VpcEndpointStatus_def read_v1_VpcEndpointStatus_def foot_v1_VpcEndpointStatus_def
      DeepCopyInto_v1_VpcEndpointStatus_def)

definition value_v1_VpcEndpoint ::
    "raw_v1_vpcEndpoint \<Rightarrow> objectMeta \<times> v1_vpcEndpointSpec \<times> v1_vpcEndpointStatus \<Rightarrow> typeMeta \<times> v1_vpcEndpoint" where
  "value_v1_VpcEndpoint r = (\<lambda>(meta', spec', status').
      (rve1_TypeMeta r, \<lparr>ve1_Meta = meta', ve1_Spec = spec', ve1_Status = status'\<rparr>))"

definition read_v1_VpcEndpoint :: "cell memory \<Rightarrow> raw_v1_vpcEndpoint \<Rightarrow> (typeMeta \<times> v1_vpcEndpoint) option" where
  "read_v1_VpcEndpoint m r = map_option (value_v1_VpcEndpoint r)
     (both (read_ObjectMeta m (rve1_Meta r))
       (both (read_v1_VpcEndpointSpec m (rve1_Spec r))
       (read_v1_VpcEndpointStatus m (rve1_Status r))))"

definition foot_v1_VpcEndpoint :: "cell memory \<Rightarrow> raw_v1_vpcEndpoint \<Rightarrow> nat set" where
  "foot_v1_VpcEndpoint m r =
     foot_ObjectMeta m (rve1_Meta r) \<union>
     foot_v1_VpcEndpointSpec m (rve1_Spec r) \<union>
     foot_v1_VpcEndpointStatus m (rve1_Status r)"

definition DeepCopyInto_v1_VpcEndpoint :: "metav1 \<Rightarrow> raw_v1_vpcEndpoint \<Rightarrow> (cell memory, error, raw_v1_vpcEndpoint) prog" where
  "DeepCopyInto_v1_VpcEndpoint L r =
     bindE (lib_ObjectMeta L (rve1_Meta r)) (\<lambda>meta.
     bindE (DeepCopyInto_v1_VpcEndpointSpec (rve1_Spec r)) (\<lambda>spec.
     bindE (DeepCopyInto_v1_VpcEndpointStatus L (rve1_Status r)) (\<lambda>status.
     ret (r\<lparr>rve1_Meta := meta, rve1_Spec := spec, rve1_Status := status\<rparr>))))"

definition DeepCopy_v1_VpcEndpoint :: "metav1 \<Rightarrow> pointer \<Rightarrow> (cell memory, error, pointer) prog" where
  "DeepCopy_v1_VpcEndpoint L = copy_pointer v1_VpcEndpoint_cells (DeepCopyInto_v1_VpcEndpoint L)"

lemma deep_copy_v1_VpcEndpoint:
  assumes "metav1_laws L"
  shows "deep_copy read_v1_VpcEndpoint foot_v1_VpcEndpoint (DeepCopyInto_v1_VpcEndpoint L)"
  by (rule deep_copy_struct [OF deep_copy_pair [OF metav1_lawsD(1) [OF assms]
      deep_copy_pair [OF deep_copy_v1_VpcEndpointSpec
      deep_copy_v1_VpcEndpointStatus [OF assms]]],
      where build = value_v1_VpcEndpoint and refs = "\<lambda>r. (rve1_Meta r, rve1_Spec r, rve1_Status r)" and
        set_refs = "\<lambda>r x. r\<lparr>rve1_Meta := fst x, rve1_Spec := fst (snd x), rve1_Status := snd (snd x)\<rparr>"])
    (simp_all add: copy_struct_simps value_v1_VpcEndpoint_def read_v1_VpcEndpoint_def foot_v1_VpcEndpoint_def
      DeepCopyInto_v1_VpcEndpoint_def)

definition value_v1_VpcEndpointList ::
    "raw_v1_vpcEndpointList \<Rightarrow> listMeta \<times> (typeMeta \<times> v1_vpcEndpoint) list \<Rightarrow> v1_vpcEndpointList" where
  "value_v1_VpcEndpointList r = (\<lambda>(listMeta', items').
      \<lparr>vel1_TypeMeta = rvel1_TypeMeta r, vel1_ListMeta = listMeta', vel1_Items = items'\<rparr>)"

definition read_v1_VpcEndpointList :: "cell memory \<Rightarrow> raw_v1_vpcEndpointList \<Rightarrow> v1_vpcEndpointList option" where
  "read_v1_VpcEndpointList m r = map_option (value_v1_VpcEndpointList r)
     (both (read_ListMeta m (rvel1_ListMeta r))
       (read_slice v1_VpcEndpoint_cells read_v1_VpcEndpoint m (rvel1_Items r)))"

definition foot_v1_VpcEndpointList :: "cell memory \<Rightarrow> raw_v1_vpcEndpointList \<Rightarrow> nat set" where
  "foot_v1_VpcEndpointList m r =
     foot_ListMeta m (rvel1_ListMeta r) \<union>
     foot_slice v1_VpcEndpoint_cells foot_v1_VpcEndpoint m (rvel1_Items r)"

definition DeepCopyInto_v1_VpcEndpointList :: "metav1 \<Rightarrow> raw_v1_vpcEndpointList \<Rightarrow> (cell memory, error, raw_v1_vpcEndpointList) prog" where
  "DeepCopyInto_v1_VpcEndpointList L r =
     bindE (lib_ListMeta L (rvel1_ListMeta r)) (\<lambda>listMeta.
     bindE (copy_slice v1_VpcEndpoint_cells (DeepCopyInto_v1_VpcEndpoint L) (rvel1_Items r)) (\<lambda>items.
     ret (r\<lparr>rvel1_ListMeta := listMeta, rvel1_Items := items\<rparr>)))"

definition DeepCopy_v1_VpcEndpointList :: "metav1 \<Rightarrow> pointer \<Rightarrow> (cell memory, error, pointer) prog" where
  "DeepCopy_v1_VpcEndpointList L = copy_pointer v1_VpcEndpointList_cells (DeepCopyInto_v1_VpcEndpointList L)"

lemma deep_copy_v1_VpcEndpointList:
  assumes "metav1_laws L"
  shows "deep_copy read_v1_VpcEndpointList foot_v1_VpcEndpointList (DeepCopyInto_v1_VpcEndpointList L)"
  by (rule deep_copy_struct [OF deep_copy_pair [OF metav1_lawsD(2) [OF assms]
      deep_copy_slice [OF typed_v1_VpcEndpoint deep_copy_v1_VpcEndpoint [OF assms]]],
      where build = value_v1_VpcEndpointList and refs = "\<lambda>r. (rvel1_ListMeta r, rvel1_Items r)" and
        set_refs = "\<lambda>r x. r\<lparr>rvel1_ListMeta := fst x, rvel1_Items := snd x\<rparr>"])
    (simp_all add: copy_struct_simps value_v1_VpcEndpointList_def read_v1_VpcEndpointList_def foot_v1_VpcEndpointList_def
      DeepCopyInto_v1_VpcEndpointList_def)

definition value_VpcEndpointAcceptanceSpec ::
    "raw_vpcEndpointAcceptanceSpec \<Rightarrow> acceptanceCriteria \<Rightarrow> vpcEndpointAcceptanceSpec" where
  "value_VpcEndpointAcceptanceSpec r = (\<lambda>acceptanceCriteria'.
      \<lparr>vas_Id = rvas_Id r, vas_AssumeRoleArn = rvas_AssumeRoleArn r,
       vas_Region = rvas_Region r, vas_AcceptanceCriteria = acceptanceCriteria'\<rparr>)"

definition read_VpcEndpointAcceptanceSpec :: "cell memory \<Rightarrow> raw_vpcEndpointAcceptanceSpec \<Rightarrow> vpcEndpointAcceptanceSpec option" where
  "read_VpcEndpointAcceptanceSpec m r = map_option (value_VpcEndpointAcceptanceSpec r)
     (read_AcceptanceCriteria m (rvas_AcceptanceCriteria r))"

definition foot_VpcEndpointAcceptanceSpec :: "cell memory \<Rightarrow> raw_vpcEndpointAcceptanceSpec \<Rightarrow> nat set" where
  "foot_VpcEndpointAcceptanceSpec m r =
     foot_AcceptanceCriteria m (rvas_AcceptanceCriteria r)"

definition DeepCopyInto_VpcEndpointAcceptanceSpec :: "raw_vpcEndpointAcceptanceSpec \<Rightarrow> (cell memory, error, raw_vpcEndpointAcceptanceSpec) prog" where
  "DeepCopyInto_VpcEndpointAcceptanceSpec r =
     bindE (DeepCopyInto_AcceptanceCriteria (rvas_AcceptanceCriteria r)) (\<lambda>acceptanceCriteria.
     ret (r\<lparr>rvas_AcceptanceCriteria := acceptanceCriteria\<rparr>))"

definition DeepCopy_VpcEndpointAcceptanceSpec :: "pointer \<Rightarrow> (cell memory, error, pointer) prog" where
  "DeepCopy_VpcEndpointAcceptanceSpec = copy_pointer VpcEndpointAcceptanceSpec_cells DeepCopyInto_VpcEndpointAcceptanceSpec"

lemma deep_copy_VpcEndpointAcceptanceSpec:
  "deep_copy read_VpcEndpointAcceptanceSpec foot_VpcEndpointAcceptanceSpec DeepCopyInto_VpcEndpointAcceptanceSpec"
  by (rule deep_copy_struct [OF deep_copy_AcceptanceCriteria,
      where build = value_VpcEndpointAcceptanceSpec and refs = "\<lambda>r. rvas_AcceptanceCriteria r" and
        set_refs = "\<lambda>r x. r\<lparr>rvas_AcceptanceCriteria := x\<rparr>"])
    (simp_all add: copy_struct_simps value_VpcEndpointAcceptanceSpec_def read_VpcEndpointAcceptanceSpec_def foot_VpcEndpointAcceptanceSpec_def
      DeepCopyInto_VpcEndpointAcceptanceSpec_def)

definition value_VpcEndpointAcceptance ::
    "raw_vpcEndpointAcceptance \<Rightarrow> objectMeta \<times> vpcEndpointAcceptanceSpec \<Rightarrow> typeMeta \<times> vpcEndpointAcceptance" where
  "value_VpcEndpointAcceptance r = (\<lambda>(meta', spec').
      (rva_TypeMeta r, \<lparr>va_Meta = meta', va_Spec = spec'\<rparr>))"

definition read_VpcEndpointAcceptance :: "cell memory \<Rightarrow> raw_vpcEndpointAcceptance \<Rightarrow> (typeMeta \<times> vpcEndpointAcceptance) option" where
  "read_VpcEndpointAcceptance m r = map_option (value_VpcEndpointAcceptance r)
     (both (read_ObjectMeta m (rva_Meta r))
       (read_VpcEndpointAcceptanceSpec m (rva_Spec r)))"

definition foot_VpcEndpointAcceptance :: "cell memory \<Rightarrow> raw_vpcEndpointAcceptance \<Rightarrow> nat set" where
  "foot_VpcEndpointAcceptance m r =
     foot_ObjectMeta m (rva_Meta r) \<union>
     foot_VpcEndpointAcceptanceSpec m (rva_Spec r)"

definition DeepCopyInto_VpcEndpointAcceptance :: "metav1 \<Rightarrow> raw_vpcEndpointAcceptance \<Rightarrow> (cell memory, error, raw_vpcEndpointAcceptance) prog" where
  "DeepCopyInto_VpcEndpointAcceptance L r =
     bindE (lib_ObjectMeta L (rva_Meta r)) (\<lambda>meta.
     bindE (DeepCopyInto_VpcEndpointAcceptanceSpec (rva_Spec r)) (\<lambda>spec.
     ret (r\<lparr>rva_Meta := meta, rva_Spec := spec\<rparr>)))"

definition DeepCopy_VpcEndpointAcceptance :: "metav1 \<Rightarrow> pointer \<Rightarrow> (cell memory, error, pointer) prog" where
  "DeepCopy_VpcEndpointAcceptance L = copy_pointer VpcEndpointAcceptance_cells (DeepCopyInto_VpcEndpointAcceptance L)"

lemma deep_copy_VpcEndpointAcceptance:
  assumes "metav1_laws L"
  shows "deep_copy read_VpcEndpointAcceptance foot_VpcEndpointAcceptance (DeepCopyInto_VpcEndpointAcceptance L)"
  by (rule deep_copy_struct [OF deep_copy_pair [OF metav1_lawsD(1) [OF assms]
      deep_copy_VpcEndpointAcceptanceSpec],
      where build = value_VpcEndpointAcceptance and refs = "\<lambda>r. (rva_Meta r, rva_Spec r)" and
        set_refs = "\<lambda>r x. r\<lparr>rva_Meta := fst x, rva_Spec := snd x\<rparr>"])
    (simp_all add: copy_struct_simps value_VpcEndpointAcceptance_def read_VpcEndpointAcceptance_def foot_VpcEndpointAcceptance_def
      DeepCopyInto_VpcEndpointAcceptance_def)

definition value_VpcEndpointAcceptanceList ::
    "raw_vpcEndpointAcceptanceList \<Rightarrow> listMeta \<times> (typeMeta \<times> vpcEndpointAcceptance) list \<Rightarrow> vpcEndpointAcceptanceList" where
  "value_VpcEndpointAcceptanceList r = (\<lambda>(listMeta', items').
      \<lparr>val_TypeMeta = rval_TypeMeta r, val_ListMeta = listMeta', val_Items = items'\<rparr>)"

definition read_VpcEndpointAcceptanceList :: "cell memory \<Rightarrow> raw_vpcEndpointAcceptanceList \<Rightarrow> vpcEndpointAcceptanceList option" where
  "read_VpcEndpointAcceptanceList m r = map_option (value_VpcEndpointAcceptanceList r)
     (both (read_ListMeta m (rval_ListMeta r))
       (read_slice VpcEndpointAcceptance_cells read_VpcEndpointAcceptance m (rval_Items r)))"

definition foot_VpcEndpointAcceptanceList :: "cell memory \<Rightarrow> raw_vpcEndpointAcceptanceList \<Rightarrow> nat set" where
  "foot_VpcEndpointAcceptanceList m r =
     foot_ListMeta m (rval_ListMeta r) \<union>
     foot_slice VpcEndpointAcceptance_cells foot_VpcEndpointAcceptance m (rval_Items r)"

definition DeepCopyInto_VpcEndpointAcceptanceList :: "metav1 \<Rightarrow> raw_vpcEndpointAcceptanceList \<Rightarrow> (cell memory, error, raw_vpcEndpointAcceptanceList) prog" where
  "DeepCopyInto_VpcEndpointAcceptanceList L r =
     bindE (lib_ListMeta L (rval_ListMeta r)) (\<lambda>listMeta.
     bindE (copy_slice VpcEndpointAcceptance_cells (DeepCopyInto_VpcEndpointAcceptance L) (rval_Items r)) (\<lambda>items.
     ret (r\<lparr>rval_ListMeta := listMeta, rval_Items := items\<rparr>)))"

definition DeepCopy_VpcEndpointAcceptanceList :: "metav1 \<Rightarrow> pointer \<Rightarrow> (cell memory, error, pointer) prog" where
  "DeepCopy_VpcEndpointAcceptanceList L = copy_pointer VpcEndpointAcceptanceList_cells (DeepCopyInto_VpcEndpointAcceptanceList L)"

lemma deep_copy_VpcEndpointAcceptanceList:
  assumes "metav1_laws L"
  shows "deep_copy read_VpcEndpointAcceptanceList foot_VpcEndpointAcceptanceList (DeepCopyInto_VpcEndpointAcceptanceList L)"
  by (rule deep_copy_struct [OF deep_copy_pair [OF metav1_lawsD(2) [OF assms]
      deep_copy_slice [OF typed_VpcEndpointAcceptance deep_copy_VpcEndpointAcceptance [OF assms]]],
      where build = value_VpcEndpointAcceptanceList and refs = "\<lambda>r. (rval_ListMeta r, rval_Items r)" and
        set_refs = "\<lambda>r x. r\<lparr>rval_ListMeta := fst x, rval_Items := snd x\<rparr>"])
    (simp_all add: copy_struct_simps value_VpcEndpointAcceptanceList_def read_VpcEndpointAcceptanceList_def foot_VpcEndpointAcceptanceList_def
      DeepCopyInto_VpcEndpointAcceptanceList_def)

section \<open>As objects\<close>

definition DeepCopyObject_AvoConfig :: "metav1 \<Rightarrow> pointer \<Rightarrow> (cell memory, error, runtimeObject option) prog" where
  "DeepCopyObject_AvoConfig L p =
     bindE (DeepCopy_AvoConfig L p) (\<lambda>c.
     ret (if c \<noteq> NilPointer then Some (AvoConfigObject c) else None))"

definition DeepCopyObject_AvoConfigList :: "metav1 \<Rightarrow> pointer \<Rightarrow> (cell memory, error, runtimeObject option) prog" where
  "DeepCopyObject_AvoConfigList L p =
     bindE (DeepCopy_AvoConfigList L p) (\<lambda>c.
     ret (if c \<noteq> NilPointer then Some (AvoConfigListObject c) else None))"

definition DeepCopyObject_v1_VpcEndpoint :: "metav1 \<Rightarrow> pointer \<Rightarrow> (cell memory, error, runtimeObject option) prog" where
  "DeepCopyObject_v1_VpcEndpoint L p =
     bindE (DeepCopy_v1_VpcEndpoint L p) (\<lambda>c.
     ret (if c \<noteq> NilPointer then Some (v1_VpcEndpointObject c) else None))"

definition DeepCopyObject_v1_VpcEndpointList :: "metav1 \<Rightarrow> pointer \<Rightarrow> (cell memory, error, runtimeObject option) prog" where
  "DeepCopyObject_v1_VpcEndpointList L p =
     bindE (DeepCopy_v1_VpcEndpointList L p) (\<lambda>c.
     ret (if c \<noteq> NilPointer then Some (v1_VpcEndpointListObject c) else None))"

definition DeepCopyObject_VpcEndpointAcceptance :: "metav1 \<Rightarrow> pointer \<Rightarrow> (cell memory, error, runtimeObject option) prog" where
  "DeepCopyObject_VpcEndpointAcceptance L p =
     bindE (DeepCopy_VpcEndpointAcceptance L p) (\<lambda>c.
     ret (if c \<noteq> NilPointer then Some (VpcEndpointAcceptanceObject c) else None))"

definition DeepCopyObject_VpcEndpointAcceptanceList :: "metav1 \<Rightarrow> pointer \<Rightarrow> (cell memory, error, runtimeObject option) prog" where
  "DeepCopyObject_VpcEndpointAcceptanceList L p =
     bindE (DeepCopy_VpcEndpointAcceptanceList L p) (\<lambda>c.
     ret (if c \<noteq> NilPointer then Some (VpcEndpointAcceptanceListObject c) else None))"

end
