(* ===== verification/Startup.thy ===== *)
theory Startup
  imports Api
begin

text \<open>
  The start of the operator: \<open>main\<close> of main.go and the health check of controllers/util/util.go.
  What controller-runtime answers is a parameter, the record \<open>runtime\<close>; a program here runs on
  the list of the steps taken so far, and its error is the exit code. Command line flags and
  the logger are left out; the scheme is in Registration.
\<close>

section \<open>The steps of main\<close>

record options =
  opt_SecureServing :: bool
  opt_MetricsBindAddress :: string
  opt_HealthProbeBindAddress :: string
  opt_LeaderElection :: bool

datatype controller = VpcEndpointController bool | AcceptanceController | TemplateController

datatype startStep = NewManager options | SetupWithManager controller | AddHealthzCheck | AddReadyzCheck | StartManager

text \<open>
  What \<open>options.AndFrom\<close> returns, also in case of an error, with the configuration it decoded; and
  the error, if any, of each step. Creating the manager includes \<open>GetConfigOrDie\<close>, which exits with
  code 1 as well.
\<close>

record runtime =
  rt_AndFrom :: "string \<Rightarrow> options \<Rightarrow> options \<times> avoConfig \<times> error option"
  rt_fails :: "startStep \<Rightarrow> error option"

text \<open>A step whose error makes the process exit with code 1.\<close>

definition perform :: "runtime \<Rightarrow> startStep \<Rightarrow> (startStep list, nat, unit) prog" where
  "perform R step =
     bindE (modifyE (\<lambda>steps. steps @ [step])) (\<lambda>_.
     case rt_fails R step of None \<Rightarrow> ret () | Some _ \<Rightarrow> failE 1)"

definition default_options :: options where
  "default_options = \<lparr>opt_SecureServing = False, opt_MetricsBindAddress = '':8080'',
     opt_HealthProbeBindAddress = '':8081'', opt_LeaderElection = False\<rparr>"

definition empty_config :: avoConfig where
  "empty_config = \<lparr>cfg_EnableVpcEndpointController = None, cfg_EnableVpcEndpointAcceptanceController = None,
     cfg_EnableVpcEndpointTemplateController = None, cfg_EnablePrivateDns = None\<rparr>"

text \<open>A failure to load the file is logged only: what was returned with the error is used.\<close>

definition load_options :: "runtime \<Rightarrow> string \<Rightarrow> options \<times> avoConfig" where
  "load_options R configFile =
     (if configFile \<noteq> ''''
      then (case rt_AndFrom R configFile default_options of (options, ctrlConfig, err) \<Rightarrow> (options, ctrlConfig))
      else (default_options, empty_config))"

text \<open>A flag that is nil gets its default; then the pointer is read.\<close>

definition defaulted :: "bool option \<Rightarrow> bool \<Rightarrow> bool option" where
  "defaulted flag dflt = (case flag of None \<Rightarrow> Some dflt | Some b \<Rightarrow> Some b)"

definition startVpcEndpoint :: "runtime \<Rightarrow> avoConfig \<Rightarrow> (startStep list, nat, unit) prog" where
  "startVpcEndpoint R cfg =
     (let enabled = defaulted (cfg_EnableVpcEndpointController cfg) True;
          privateDns = defaulted (cfg_EnablePrivateDns cfg) False
      in bindE (deref enabled) (\<lambda>run. whenE run
           (bindE (deref privateDns) (\<lambda>dns. perform R (SetupWithManager (VpcEndpointController dns))))))"

definition startAcceptance :: "runtime \<Rightarrow> avoConfig \<Rightarrow> (startStep list, nat, unit) prog" where
  "startAcceptance R cfg =
     bindE (deref (defaulted (cfg_EnableVpcEndpointAcceptanceController cfg) False)) (\<lambda>run.
     whenE run (perform R (SetupWithManager AcceptanceController)))"

definition startTemplate :: "runtime \<Rightarrow> avoConfig \<Rightarrow> (startStep list, nat, unit) prog" where
  "startTemplate R cfg =
     bindE (deref (defaulted (cfg_EnableVpcEndpointTemplateController cfg) False)) (\<lambda>run.
     whenE run (perform R (SetupWithManager TemplateController)))"

definition main :: "runtime \<Rightarrow> string \<Rightarrow> (startStep list, nat, unit) prog" where
  "main R configFile =
     (let (options, ctrlConfig) = load_options R configFile in
      bindE (perform R (NewManager options)) (\<lambda>_.
      bindE (startVpcEndpoint R ctrlConfig) (\<lambda>_.
      bindE (startAcceptance R ctrlConfig) (\<lambda>_.
      bindE (startTemplate R ctrlConfig) (\<lambda>_.
      bindE (perform R AddHealthzCheck) (\<lambda>_.
      bindE (perform R AddReadyzCheck) (\<lambda>_.
      perform R StartManager)))))))"

section \<open>The health check\<close>

definition AWSEnvVarHealtzChecker :: "(string \<rightharpoonup> string) \<Rightarrow> error option" where
  "AWSEnvVarHealtzChecker env =
     (if env ''AWS_SECRET_ACCESS_KEY'' \<noteq> None \<and> env ''AWS_ACCESS_KEY_ID'' \<noteq> None then None
      else if env ''AWS_WEB_IDENTITY_TOKEN_FILE'' \<noteq> None \<and> env ''AWS_ROLE_ARN'' \<noteq> None then None
      else Some (Errorf ''missing sufficient environment variables to build an AWS client'' []))"

section \<open>Which controllers run\<close>

text \<open>
  The abstract start: a script of steps that depends on the flags only, taken in order up to the
  first one that fails.
\<close>

definition script :: "options \<Rightarrow> avoConfig \<Rightarrow> startStep list" where
  "script options cfg =
     NewManager options #
     (if cfg_EnableVpcEndpointController cfg = Some False then []
      else [SetupWithManager (VpcEndpointController (cfg_EnablePrivateDns cfg = Some True))]) @
     (if cfg_EnableVpcEndpointAcceptanceController cfg = Some True then [SetupWithManager AcceptanceController] else []) @
     (if cfg_EnableVpcEndpointTemplateController cfg = Some True then [SetupWithManager TemplateController] else []) @
     [AddHealthzCheck, AddReadyzCheck, StartManager]"

fun taken :: "('a \<Rightarrow> bool) \<Rightarrow> 'a list \<Rightarrow> 'a list" where
  "taken fails [] = []"
| "taken fails (x # xs) = x # (if fails x then [] else taken fails xs)"

lemma perform_run: "perform R step s = (if rt_fails R step = None then Ok () else Err 1, s @ [step])"
  by (simp add: perform_def run_simps split: option.split)

lemma perform_script:
  "forE (perform R) steps s =
     (if list_all (\<lambda>step. rt_fails R step = None) steps then Ok () else Err 1,
      s @ taken (\<lambda>step. rt_fails R step \<noteq> None) steps)"
  by (induction steps arbitrary: s) (simp_all add: run_simps perform_run)

lemma start_scripts:
  "startVpcEndpoint R cfg = forE (perform R) (if cfg_EnableVpcEndpointController cfg = Some False then []
     else [SetupWithManager (VpcEndpointController (cfg_EnablePrivateDns cfg = Some True))])"
  "startAcceptance R cfg = forE (perform R)
     (if cfg_EnableVpcEndpointAcceptanceController cfg = Some True then [SetupWithManager AcceptanceController] else [])"
  "startTemplate R cfg = forE (perform R)
     (if cfg_EnableVpcEndpointTemplateController cfg = Some True then [SetupWithManager TemplateController] else [])"
  by (auto simp: startVpcEndpoint_def startAcceptance_def startTemplate_def defaulted_def fun_eq_iff run_simps
      perform_run split: option.split)

text \<open>
  C34: the start follows the feature flags. Whatever fails, main takes the steps of the script in
  order up to and including the first one that fails: the endpoint controller is set up unless it
  is switched off, the other two only if they are switched on, private DNS is used only if it is
  switched on, and the manager starts only after everything else succeeded. The exit code is 1
  exactly if a step failed, and no nil flag is read.
\<close>

theorem started_controllers:
  "main R configFile [] =
     (let (options, cfg) = load_options R configFile; steps = script options cfg
      in (if list_all (\<lambda>step. rt_fails R step = None) steps then Ok () else Err 1,
          taken (\<lambda>step. rt_fails R step \<noteq> None) steps))"
proof -
  have "main R configFile = (case load_options R configFile of (options, cfg) \<Rightarrow> forE (perform R) (script options cfg))"
    unfolding main_def script_def start_scripts Let_def by (simp add: forE_append bindE_assoc bindE_ret_left bindE_ret_right split: prod.split)
  then show ?thesis by (simp add: perform_script Let_def split: prod.split)
qed

end
