(* ===== verification/Registration.thy ===== *)
theory Registration
  imports Startup
begin

text \<open>
  The scheme of the operator: the kinds of the API groups (groupversion_info.go and the \<open>init\<close> functions beside
  the types), their registration in \<open>init\<close> of main.go, and the kinds that the controllers ask the manager to watch
  (\<open>SetupWithManager\<close>). What the groups of others register is a parameter. The options types that each group
  version gets from the library are left out.
\<close>

record groupVersion =
  gv_Group :: string
  gv_Version :: string

type_synonym groupVersionKind = "groupVersion \<times> string"

section \<open>The groups of the operator\<close>

definition v1alpha1_GroupVersion :: groupVersion where
  "v1alpha1_GroupVersion = \<lparr>gv_Group = ''avo.openshift.io'', gv_Version = ''v1alpha1''\<rparr>"

definition v1alpha2_GroupVersion :: groupVersion where
  "v1alpha2_GroupVersion = \<lparr>gv_Group = ''avo.openshift.io'', gv_Version = ''v1alpha2''\<rparr>"

text \<open>\<open>SchemeBuilder.Register\<close> in the order of the files; a kind is the name of the Go type.\<close>

definition register_AvoConfig :: "string list" where
  "register_AvoConfig = [''AvoConfig'']"

definition register_v1_VpcEndpoint :: "string list" where
  "register_v1_VpcEndpoint = [''VpcEndpoint'', ''VpcEndpointList'']"

definition register_VpcEndpointAcceptance :: "string list" where
  "register_VpcEndpointAcceptance = [''VpcEndpointAcceptance'', ''VpcEndpointAcceptanceList'']"

definition register_VpcEndpoint :: "string list" where
  "register_VpcEndpoint = [''VpcEndpoint'', ''VpcEndpointList'']"

definition register_VpcEndpointTemplate :: "string list" where
  "register_VpcEndpointTemplate = [''VpcEndpointTemplate'', ''VpcEndpointTemplateList'']"

definition v1alpha1_kinds :: "groupVersionKind list" where
  "v1alpha1_kinds = List.map (Pair v1alpha1_GroupVersion)
     (register_AvoConfig @ register_v1_VpcEndpoint @ register_VpcEndpointAcceptance)"

definition v1alpha2_kinds :: "groupVersionKind list" where
  "v1alpha2_kinds = List.map (Pair v1alpha2_GroupVersion) (register_VpcEndpoint @ register_VpcEndpointTemplate)"

section \<open>The scheme\<close>

text \<open>The groups of others: their kinds, or the error of adding them.\<close>

record schemes =
  clientgo_AddToScheme :: "error + groupVersionKind list"
  configv1_Install :: "error + groupVersionKind list"
  hyperv1beta1_AddToScheme :: "error + groupVersionKind list"
  aaov1alpha1_AddToScheme :: "error + groupVersionKind list"

text \<open>\<open>utilruntime.Must\<close> panics on an error.\<close>

definition must_add :: "error + groupVersionKind list \<Rightarrow> (groupVersionKind list, error, unit) prog" where
  "must_add r = (case r of Inl _ \<Rightarrow> panicE | Inr kinds \<Rightarrow> modifyE (\<lambda>scheme. scheme @ kinds))"

definition init_scheme :: "schemes \<Rightarrow> (groupVersionKind list, error, unit) prog" where
  "init_scheme S =
     bindE (must_add (clientgo_AddToScheme S)) (\<lambda>_.
     bindE (must_add (configv1_Install S)) (\<lambda>_.
     bindE (must_add (hyperv1beta1_AddToScheme S)) (\<lambda>_.
     bindE (must_add (aaov1alpha1_AddToScheme S)) (\<lambda>_.
     bindE (must_add (hyperv1beta1_AddToScheme S)) (\<lambda>_.
     bindE (must_add (Inr v1alpha1_kinds)) (\<lambda>_.
     must_add (Inr v1alpha2_kinds)))))))"

section \<open>What the controllers watch\<close>

definition service_kind :: groupVersionKind where
  "service_kind = (\<lparr>gv_Group = '''', gv_Version = ''v1''\<rparr>, ''Service'')"

definition hostedControlPlane_kind :: groupVersionKind where
  "hostedControlPlane_kind = (\<lparr>gv_Group = ''hypershift.openshift.io'', gv_Version = ''v1beta1''\<rparr>, ''HostedControlPlane'')"

definition vpcEndpoint_watches :: "groupVersionKind list" where
  "vpcEndpoint_watches = [(v1alpha2_GroupVersion, ''VpcEndpoint''), service_kind]"

definition acceptance_watches :: "groupVersionKind list" where
  "acceptance_watches = [(v1alpha1_GroupVersion, ''VpcEndpointAcceptance'')]"

definition template_watches :: "groupVersionKind list" where
  "template_watches = [(v1alpha2_GroupVersion, ''VpcEndpointTemplate''), hostedControlPlane_kind]"

fun watches :: "controller \<Rightarrow> groupVersionKind list" where
  "watches (VpcEndpointController _) = vpcEndpoint_watches"
| "watches AcceptanceController = acceptance_watches"
| "watches TemplateController = template_watches"

lemmas kind_defs = v1alpha1_GroupVersion_def v1alpha2_GroupVersion_def register_AvoConfig_def register_v1_VpcEndpoint_def
  register_VpcEndpointAcceptance_def register_VpcEndpoint_def register_VpcEndpointTemplate_def v1alpha1_kinds_def
  v1alpha2_kinds_def

text \<open>The operator registers no kind twice, although both versions have a VpcEndpoint.\<close>

lemma own_kinds_distinct: "distinct (v1alpha1_kinds @ v1alpha2_kinds)"
  by (simp add: kind_defs)

lemma init_scheme_Ok:
  "init_scheme S [] = (Ok (), scheme) \<longleftrightarrow>
     (\<exists>core config hyper accounts. clientgo_AddToScheme S = Inr core \<and> configv1_Install S = Inr config \<and>
        hyperv1beta1_AddToScheme S = Inr hyper \<and> aaov1alpha1_AddToScheme S = Inr accounts \<and>
        scheme = core @ config @ hyper @ accounts @ hyper @ v1alpha1_kinds @ v1alpha2_kinds)"
  by (auto simp: init_scheme_def must_add_def run_Ok split: sum.splits)

lemma watched_own_kinds:
  "set (watches c) \<subseteq> set (v1alpha1_kinds @ v1alpha2_kinds) \<union> {service_kind, hostedControlPlane_kind}"
  by (cases c) (simp_all add: kind_defs vpcEndpoint_watches_def acceptance_watches_def template_watches_def)

text \<open>
  If the groups of others have the two kinds that are theirs, then every kind that any controller watches and
  the kind of the configuration itself are in the scheme before \<open>main\<close> runs.
\<close>

lemma watched_kinds_are_registered:
  assumes "init_scheme S [] = (Ok (), scheme)"
    and "clientgo_AddToScheme S = Inr core" "service_kind \<in> set core"
    and "hyperv1beta1_AddToScheme S = Inr hyper" "hostedControlPlane_kind \<in> set hyper"
  shows "set (watches c) \<subseteq> set scheme \<and> (v1alpha1_GroupVersion, ''AvoConfig'') \<in> set scheme"
  using assms watched_own_kinds [of c] by (auto simp: init_scheme_Ok kind_defs)

end
