(* ===== verification/Route53Client.thy ===== *)
theory Route53Client
  imports Naming
begin

text \<open>
  The Route 53 half of \<open>pkg/aws_client\<close>: hosted zones, record sets, zone tags and the
  association of zones with VPCs. Tags of Route 53 resources have the same two pointers as EC2
  tags and share their record.
\<close>

definition ListHostedZonesByVPC ::
    "env \<Rightarrow> awsConfig \<Rightarrow> string \<Rightarrow> string \<Rightarrow> ('x world_scheme, error, hostedZoneSummary list) prog" where
  "ListHostedZonesByVPC E c vpcId region =
     invoke (R53 c (DoListHostedZonesByVPC vpcId region)) (r53_ListHostedZonesByVPC (r53 E))"

definition GetDefaultPrivateHostedZoneId ::
    "env \<Rightarrow> awsConfig \<Rightarrow> string \<Rightarrow> string \<Rightarrow> string \<Rightarrow> ('x world_scheme, error, hostedZoneSummary) prog" where
  "GetDefaultPrivateHostedZoneId E c domain vpcId region =
     bindE (ListHostedZonesByVPC E c vpcId region) (\<lambda>resp.
     bindE (findE (\<lambda>hz. bindE (deref (hs_Name hz)) (\<lambda>n. ret (n = domain @ ''.''))) resp) (\<lambda>found.
     case found of
       Some hz \<Rightarrow> ret hz
     | None \<Rightarrow> failE (Errorf ''default private hosted zone: %s not found in vpc: %s'' [FS domain, FS vpcId])))"

definition GetHostedZone ::
    "env \<Rightarrow> awsConfig \<Rightarrow> string \<Rightarrow> ('x world_scheme, error, getHostedZoneOutput) prog" where
  "GetHostedZone E c zoneId =
     invoke (R53 c (DoGetHostedZone (''/hostedzone/'' @ zoneId))) (r53_GetHostedZone (r53 E))"

definition ListHostedZonesByName ::
    "env \<Rightarrow> awsConfig \<Rightarrow> string \<Rightarrow> ('x world_scheme, error, hostedZone list) prog" where
  "ListHostedZonesByName E c dnsName =
     invoke (R53 c (DoListHostedZonesByName dnsName)) (r53_ListHostedZonesByName (r53 E))"

definition ListResourceRecordSets ::
    "env \<Rightarrow> awsConfig \<Rightarrow> string \<Rightarrow> ('x world_scheme, error, resourceRecordSet list) prog" where
  "ListResourceRecordSets E c hostedZoneId =
     invoke (R53 c (DoListResourceRecordSets hostedZoneId)) (r53_ListResourceRecordSets (r53 E))"

definition UpsertResourceRecordSet ::
    "env \<Rightarrow> awsConfig \<Rightarrow> resourceRecordSet \<Rightarrow> string \<Rightarrow> ('x world_scheme, error, unit) prog" where
  "UpsertResourceRecordSet E c rrs hostedZoneId =
     invoke (R53 c (DoUpsertResourceRecordSet rrs hostedZoneId)) (r53_ChangeResourceRecordSets (r53 E))"

text \<open>The comment of the change batch reads \<open>*rrs.Name\<close>.\<close>

definition DeleteResourceRecordSet ::
    "env \<Rightarrow> awsConfig \<Rightarrow> resourceRecordSet \<Rightarrow> string \<Rightarrow> ('x world_scheme, error, unit) prog" where
  "DeleteResourceRecordSet E c rrs hostedZoneId =
     bindE (deref (rrs_Name rrs)) (\<lambda>_.
     invoke (R53 c (DoDeleteResourceRecordSet rrs hostedZoneId)) (r53_ChangeResourceRecordSets (r53 E)))"

definition CreateHostedZone ::
    "env \<Rightarrow> awsConfig \<Rightarrow> string \<Rightarrow> string \<Rightarrow> string \<Rightarrow> ('x world_scheme, error, hostedZone option) prog" where
  "CreateHostedZone E c domain vpcId region =
     invoke (R53 c (DoCreateHostedZone domain vpcId region)) (r53_CreateHostedZone (r53 E))"

definition DeleteHostedZone ::
    "env \<Rightarrow> awsConfig \<Rightarrow> string \<Rightarrow> ('x world_scheme, error, unit) prog" where
  "DeleteHostedZone E c zoneId =
     invoke (R53 c (DoDeleteHostedZone zoneId)) (r53_DeleteHostedZone (r53 E))"

record changeTagsInput =
  cti_ResourceId :: string
  cti_AddTags :: "ec2Tag list"

definition GenerateDefaultTagsForHostedZoneInput :: "string \<Rightarrow> string \<Rightarrow> error + changeTagsInput" where
  "GenerateDefaultTagsForHostedZoneInput zoneId clusterTagKey =
     (case GenerateR53Tags clusterTagKey of
        Inl err \<Rightarrow> Inl err
      | Inr tags \<Rightarrow> Inr \<lparr>cti_ResourceId = zoneId, cti_AddTags = tags\<rparr>)"

definition ChangeTagsForResource ::
    "env \<Rightarrow> awsConfig \<Rightarrow> changeTagsInput \<Rightarrow> ('x world_scheme, error, unit) prog" where
  "ChangeTagsForResource E c input =
     invoke (R53 c (DoChangeTagsForResource (cti_ResourceId input) (cti_AddTags input)))
       (r53_ChangeTagsForResource (r53 E))"

definition FetchPrivateZoneTags ::
    "env \<Rightarrow> awsConfig \<Rightarrow> string \<Rightarrow> ('x world_scheme, error, ec2Tag list option) prog" where
  "FetchPrivateZoneTags E c zoneId =
     invoke (R53 c (DoListTagsForResource zoneId)) (r53_ListTagsForResource (r53 E))"

definition CreateVPCAssociationAuthorization ::
    "env \<Rightarrow> awsConfig \<Rightarrow> string \<Rightarrow> string \<Rightarrow> string \<Rightarrow> ('x world_scheme, error, unit) prog" where
  "CreateVPCAssociationAuthorization E c hostedZoneId vpcId region =
     invoke (R53 c (DoCreateVPCAssociationAuthorization hostedZoneId vpcId region))
       (r53_CreateVPCAssociationAuthorization (r53 E))"

text \<open>The receiver is the association client, built with the credentials of the other account.\<close>

definition AssociateVPCWithHostedZone ::
    "env \<Rightarrow> awsConfig \<Rightarrow> string \<Rightarrow> string \<Rightarrow> string \<Rightarrow> ('x world_scheme, error, unit) prog" where
  "AssociateVPCWithHostedZone E a hostedZoneId vpcId region =
     invoke (R53 a (DoAssociateVPCWithHostedZone hostedZoneId vpcId region))
       (r53_AssociateVPCWithHostedZone (r53 E))"

section \<open>Which calls the methods make\<close>

named_theorems r53_calls \<open>which calls the Route 53 client methods make\<close>

lemma r53_readers [r53_calls]:
  assumes "\<And>e. aws_read e \<Longrightarrow> A e"
  shows "preserves (calls A) (ListHostedZonesByVPC E c vpcId region)"
    and "preserves (calls A) (GetDefaultPrivateHostedZoneId E c domain vpcId region)"
    and "preserves (calls A) (GetHostedZone E c zoneId)"
    and "preserves (calls A) (ListHostedZonesByName E c dnsName)"
    and "preserves (calls A) (ListResourceRecordSets E c zoneId)"
    and "preserves (calls A) (FetchPrivateZoneTags E c zoneId)"
  unfolding ListHostedZonesByVPC_def GetDefaultPrivateHostedZoneId_def GetHostedZone_def
    ListHostedZonesByName_def ListResourceRecordSets_def FetchPrivateZoneTags_def
  by (intro calls_intros; simp add: assms)+

lemma r53_writers [r53_calls]:
  shows "A (R53 c (DoUpsertResourceRecordSet rrs zoneId)) \<Longrightarrow>
      preserves (calls A) (UpsertResourceRecordSet E c rrs zoneId)"
    and "A (R53 c (DoDeleteResourceRecordSet rrs zoneId)) \<Longrightarrow>
      preserves (calls A) (DeleteResourceRecordSet E c rrs zoneId)"
    and "A (R53 c (DoCreateHostedZone domain vpcId region)) \<Longrightarrow>
      preserves (calls A) (CreateHostedZone E c domain vpcId region)"
    and "A (R53 c (DoDeleteHostedZone zoneId)) \<Longrightarrow>
      preserves (calls A) (DeleteHostedZone E c zoneId)"
    and "A (R53 c (DoChangeTagsForResource (cti_ResourceId input) (cti_AddTags input))) \<Longrightarrow>
      preserves (calls A) (ChangeTagsForResource E c input)"
    and "A (R53 c (DoCreateVPCAssociationAuthorization zoneId vpcId region)) \<Longrightarrow>
      preserves (calls A) (CreateVPCAssociationAuthorization E c zoneId vpcId region)"
    and "A (R53 c (DoAssociateVPCWithHostedZone zoneId vpcId region)) \<Longrightarrow>
      preserves (calls A) (AssociateVPCWithHostedZone E c zoneId vpcId region)"
  unfolding UpsertResourceRecordSet_def DeleteResourceRecordSet_def CreateHostedZone_def
    DeleteHostedZone_def ChangeTagsForResource_def CreateVPCAssociationAuthorization_def
    AssociateVPCWithHostedZone_def
  by (intro calls_intros; simp)+

end
