(* ===== verification/Lookups.thy ===== *)
theory Lookups
  imports World
begin

text \<open>
  The packages that read cluster objects: \<open>pkg/dnses\<close>, \<open>pkg/hostedcontrolplanes\<close>,
  \<open>pkg/infrastructures\<close> and \<open>pkg/secrets\<close>. A \<open>Get\<close> of a DNS object answers its
  \<open>.spec.baseDomain\<close>, one of a secret its data.
\<close>

section \<open>DNS\<close>

definition DefaultDnsesName :: string where
  "DefaultDnsesName = ''cluster''"

definition dnses_GetPrivateHostedZoneDomainName ::
    "env \<Rightarrow> string \<Rightarrow> ('x world_scheme, error, string) prog" where
  "dnses_GetPrivateHostedZoneDomainName E name =
     invoke (K8s (DoGetDNS name)) (k8s_GetDNS (k8s E))"

section \<open>Hosted control planes\<close>

definition GetInfraId :: "env \<Rightarrow> string \<Rightarrow> ('x world_scheme, error, string) prog" where
  "GetInfraId E namespace =
     bindE (invoke (K8s (DoListHostedControlPlanes namespace)) (k8s_ListHostedControlPlanes (k8s E))) (\<lambda>items.
     case items of
       [hcp] \<Rightarrow>
         if hc_InfraID hcp = ''''
         then failE (Errorf ''blank .spec.infraId for %s'' [FS (om_Name (hc_Meta hcp))])
         else ret (hc_InfraID hcp)
     | _ \<Rightarrow> failE (Errorf ''found %d hostedcontrolplanes in namespace: %s, expected 1''
                     [FN (length items), FS namespace]))"

text \<open>
  The loop over \<open>.spec.services\<close>: the first APIServer entry decides. \<open>svc.Route\<close> is a
  pointer, read only for an entry of type Route.
\<close>

primrec api_server_domain :: "servicePublishing list \<Rightarrow> ('x world_scheme, error, string) prog" where
  "api_server_domain [] = failE (Errorf ''unable to find APIServer url in hostedcontrolplane .spec.services'' [])"
| "api_server_domain (svc # svcs) =
     (if svp_Service svc = ''APIServer'' then
        (if svp_Type svc = ''Route'' then
           bindE (deref (svp_RouteHostname svc)) (\<lambda>hostname.
           if hostname \<noteq> '''' then liftS (sscanf hostname ''api.'')
           else failE (Errorf ''unable to find APIServer route hostname in hostedcontrolplane .spec.services'' []))
         else failE (Errorf ''unable to find APIServer route hostname in hostedcontrolplane .spec.services'' []))
      else api_server_domain svcs)"

definition hcp_GetPrivateHostedZoneDomainName ::
    "env \<Rightarrow> string \<Rightarrow> ('x world_scheme, error, string) prog" where
  "hcp_GetPrivateHostedZoneDomainName E namespace =
     bindE (invoke (K8s (DoListHostedControlPlanes namespace)) (k8s_ListHostedControlPlanes (k8s E))) (\<lambda>items.
     case items of
       [hcp] \<Rightarrow> api_server_domain (hc_Services hcp)
     | _ \<Rightarrow> failE (Errorf ''found %d hostedcontrolplanes in namespace: %s, expected 1''
                     [FN (length items), FS namespace]))"

section \<open>Infrastructure\<close>

definition defaultInfrastructuresName :: string where
  "defaultInfrastructuresName = ''cluster''"

definition GetAWSRegion :: "env \<Rightarrow> ('x world_scheme, error, string) prog" where
  "GetAWSRegion E =
     bindE (mapErr (Wrapf ''failed to get infrastructure %s: %w'' [FS defaultInfrastructuresName])
              (invoke (K8s (DoGetInfrastructure defaultInfrastructuresName)) (k8s_GetInfrastructure (k8s E)))) (\<lambda>inf.
     bindE (deref (inf_PlatformStatus inf)) (\<lambda>ps.
     if ps_Type ps \<noteq> ''AWS'' then failE (Errorf ''platform is not AWS'' [])
     else (case ps_AWSRegion ps of
             None \<Rightarrow> failE (Errorf ''platform is not AWS'' [])
           | Some region \<Rightarrow> ret region)))"

definition GetInfrastructureName :: "env \<Rightarrow> ('x world_scheme, error, string) prog" where
  "GetInfrastructureName E =
     bindE (mapErr (Wrapf ''failed to get infrastructure %s: %w'' [FS defaultInfrastructuresName])
              (invoke (K8s (DoGetInfrastructure defaultInfrastructuresName)) (k8s_GetInfrastructure (k8s E)))) (\<lambda>inf.
     ret (inf_InfrastructureName inf))"

section \<open>Credential overrides\<close>

definition defaultRoleArn :: string where
  "defaultRoleArn = ''role_arn''"

definition defaultAWSAccessKeyId :: string where
  "defaultAWSAccessKeyId = ''aws_access_key_id''"

definition defaultAWSSecretAccessKey :: string where
  "defaultAWSSecretAccessKey = ''aws_secret_access_key''"

definition load_config ::
    "env \<Rightarrow> string \<Rightarrow> awsCredentials \<Rightarrow> ('x world_scheme, error, awsConfig) prog" where
  "load_config E region creds =
     bindE (invoke (LoadDefaultConfig region) (lib_LoadDefaultConfig (lib E))) (\<lambda>_.
     ret \<lparr>aws_Region = region, aws_Credentials = creds\<rparr>)"

definition ParseAWSCredentialOverride ::
    "env \<Rightarrow> string \<Rightarrow> secretReference option \<Rightarrow> ('x world_scheme, error, awsConfig) prog" where
  "ParseAWSCredentialOverride E region ref =
     (case ref of
        None \<Rightarrow> failE (Errorf ''AWS Credential Override secret reference must not be nil'' [])
      | Some r \<Rightarrow>
          bindE (invoke (K8s (DoGetSecret (sr_Namespace r) (sr_Name r))) (k8s_GetSecret (k8s E))) (\<lambda>data.
          case data defaultRoleArn of
            Some roleArn \<Rightarrow>
              bindE (mapErr (Wrapf ''failed to build AWS client. Error: %w'' [])
                       (load_config E region DefaultCredentials)) (\<lambda>cfg.
              ret (cfg\<lparr>aws_Credentials := AssumedRole roleArn\<rparr>))
          | None \<Rightarrow>
              (case (data defaultAWSAccessKeyId, data defaultAWSSecretAccessKey) of
                 (Some accessKeyId, Some secretAccessKey) \<Rightarrow>
                   load_config E region (StaticKeys accessKeyId secretAccessKey)
               | _ \<Rightarrow> failE (Errorf ''could not parse credential override secret, requires data keys %s and %s''
                               [FS defaultAWSAccessKeyId, FS defaultAWSSecretAccessKey]))))"

section \<open>Which calls the lookups make\<close>

named_theorems k8s_calls \<open>which calls the lookups make\<close>

fun lookup_event :: "event \<Rightarrow> bool" where
  "lookup_event (LoadDefaultConfig _) = True"
| "lookup_event e = k8s_read e"

lemma api_server_domain_calls: "preserves (calls A) (api_server_domain svcs)"
  by (induction svcs) (auto intro!: calls_intros)

lemma lookups_calls [k8s_calls]:
  assumes "\<And>e. lookup_event e \<Longrightarrow> A e"
  shows "preserves (calls A) (dnses_GetPrivateHostedZoneDomainName E name)"
    and "preserves (calls A) (GetInfraId E namespace)"
    and "preserves (calls A) (hcp_GetPrivateHostedZoneDomainName E namespace)"
    and "preserves (calls A) (GetAWSRegion E)"
    and "preserves (calls A) (GetInfrastructureName E)"
    and "preserves (calls A) (load_config E region creds)"
    and "preserves (calls A) (ParseAWSCredentialOverride E region ref)"
  unfolding dnses_GetPrivateHostedZoneDomainName_def GetInfraId_def
    hcp_GetPrivateHostedZoneDomainName_def GetAWSRegion_def GetInfrastructureName_def
    load_config_def ParseAWSCredentialOverride_def
  by (intro calls_intros api_server_domain_calls; simp add: assms)+

end
