(* ===== verification/Reconciler.thy ===== *)
theory Reconciler
  imports Libraries Ec2Client Route53Client Lookups
begin

text \<open>
  The state of \<open>VpcEndpointReconciler\<close> (controllers/vpcendpoint/vpcendpoint_controller.go) and what
  its steps share: the custom resource under reconciliation, the AWS clients, the hosted zone
  cache, the status update and the metric of unauthorized calls. The pointer to the resource that Go passes from
  function to function is the field \<open>rc_resource\<close>: a change made before an error is returned is
  still there for the caller. The API server stores a status as it is sent, so a successful
  status update leaves the resource as it is.
\<close>

section \<open>State\<close>

record clusterInfo =
  ci_clusterTag :: string
  ci_region :: string

record hostedZoneCacheEntry =
  ce_response :: getHostedZoneOutput
  ce_fetchedAt :: int

record reconciler = world +
  rc_EnablePrivateDns :: bool
  rc_awsClient :: "awsConfig option"
  rc_awsAssociatedVpcClient :: "awsConfig option"
  rc_clusterInfo :: "clusterInfo option"
  rc_hostedZoneCache :: "(string \<rightharpoonup> hostedZoneCacheEntry) option"
  rc_resource :: vpcEndpoint

type_synonym 'a rprog = "(reconciler, error, 'a) prog"

abbreviation rc_status :: "reconciler \<Rightarrow> vpcEndpointStatus" where
  "rc_status s \<equiv> ve_Status (rc_resource s)"

abbreviation rc_spec :: "reconciler \<Rightarrow> vpcEndpointSpec" where
  "rc_spec s \<equiv> ve_Spec (rc_resource s)"

definition resource :: "vpcEndpoint rprog" where
  "resource = getsE rc_resource"

definition status :: "vpcEndpointStatus rprog" where
  "status = getsE rc_status"

text \<open>Calling a method through \<open>r.awsClient\<close>, reading through \<open>r.clusterInfo\<close>.\<close>

definition awsClient :: "awsConfig rprog" where
  "awsClient = bindE (getsE rc_awsClient) deref"

definition clusterTag :: "string rprog" where
  "clusterTag = bindE (getsE rc_clusterInfo) (\<lambda>ci. bindE (deref ci) (\<lambda>i. ret (ci_clusterTag i)))"

definition region :: "string rprog" where
  "region = bindE (getsE rc_clusterInfo) (\<lambda>ci. bindE (deref ci) (\<lambda>i. ret (ci_region i)))"

definition set_status :: "(vpcEndpointStatus \<Rightarrow> vpcEndpointStatus) \<Rightarrow> unit rprog" where
  "set_status f = modifyE (\<lambda>s. s\<lparr>rc_resource := (rc_resource s)\<lparr>ve_Status := f (rc_status s)\<rparr>\<rparr>)"

definition updateStatus :: "env \<Rightarrow> unit rprog" where
  "updateStatus E = bindE resource (\<lambda>v. invoke (K8s (DoUpdateStatus v)) (k8s_UpdateStatus (k8s E)))"

definition setCondition :: "env \<Rightarrow> string \<Rightarrow> condition_status \<Rightarrow> string \<Rightarrow> string \<Rightarrow> unit rprog" where
  "setCondition E ty st reason msg = set_status (\<lambda>v. v\<lparr>st_Conditions :=
     lib_SetStatusCondition (lib E) (st_Conditions v)
       \<lparr>cd_Type = ty, cd_Status = st, cd_Reason = reason, cd_Message = msg\<rparr>\<rparr>)"

definition isConditionTrue :: "env \<Rightarrow> string \<Rightarrow> bool rprog" where
  "isConditionTrue E ty = getsE (\<lambda>s. lib_IsStatusConditionTrue (lib E) (st_Conditions (rc_status s)) ty)"

text \<open>Events on the resource; the text of the message is left out.\<close>

definition record_normal :: "string \<Rightarrow> unit rprog" where
  "record_normal reason = emit (Recorded ''Normal'' reason)"

definition metric :: "metric \<Rightarrow> unit rprog" where
  "metric m = emit (Metric m)"

text \<open>\<open>time.Since(resource.CreationTimestamp.Time)\<close>, observed in a histogram or a gauge.\<close>

definition age :: "env \<Rightarrow> int rprog" where
  "age E = bindE (now E) (\<lambda>t. bindE resource (\<lambda>v. ret (t - om_CreationTimestamp (ve_Meta v))))"

section \<open>Running the shared steps\<close>

lemma resource_run [run_simps]: "resource s = (Ok (rc_resource s), s)"
  by (simp add: resource_def run_simps)

lemma status_run [run_simps]: "status s = (Ok (rc_status s), s)"
  by (simp add: status_def run_simps)

lemma resource_eq: "resource s = (r, u) \<longleftrightarrow> r = Ok (rc_resource s) \<and> u = s"
  by (auto simp: resource_run)

lemma status_eq: "status s = (r, u) \<longleftrightarrow> r = Ok (rc_status s) \<and> u = s"
  by (auto simp: status_run)

lemma awsClient_eq:
  "awsClient s = (r, u) \<longleftrightarrow>
     u = s \<and> r = (case rc_awsClient s of None \<Rightarrow> Panic | Some c \<Rightarrow> Ok c)"
  by (auto simp: awsClient_def run_simps deref_eq split: option.splits)

lemma awsClient_run [run_simps]:
  "awsClient s = (case rc_awsClient s of None \<Rightarrow> Panic | Some c \<Rightarrow> Ok c, s)"
  using awsClient_eq by blast

lemma clusterTag_run [run_simps]:
  "clusterTag s = (case rc_clusterInfo s of None \<Rightarrow> Panic | Some i \<Rightarrow> Ok (ci_clusterTag i), s)"
  by (simp add: clusterTag_def run_simps split: option.split)

lemma region_run [run_simps]:
  "region s = (case rc_clusterInfo s of None \<Rightarrow> Panic | Some i \<Rightarrow> Ok (ci_region i), s)"
  by (simp add: region_def run_simps split: option.split)

lemma clusterTag_eq:
  "clusterTag s = (r, u) \<longleftrightarrow>
     u = s \<and> r = (case rc_clusterInfo s of None \<Rightarrow> Panic | Some i \<Rightarrow> Ok (ci_clusterTag i))"
  by (auto simp: clusterTag_run)

lemma region_eq:
  "region s = (r, u) \<longleftrightarrow>
     u = s \<and> r = (case rc_clusterInfo s of None \<Rightarrow> Panic | Some i \<Rightarrow> Ok (ci_region i))"
  by (auto simp: region_run)

lemma set_status_run [run_simps]:
  "set_status f s = (Ok (), s\<lparr>rc_resource := (rc_resource s)\<lparr>ve_Status := f (rc_status s)\<rparr>\<rparr>)"
  by (simp add: set_status_def run_simps)

lemma set_status_eq:
  "set_status f s = (r, u) \<longleftrightarrow>
     r = Ok () \<and> u = s\<lparr>rc_resource := (rc_resource s)\<lparr>ve_Status := f (rc_status s)\<rparr>\<rparr>"
  by (auto simp: set_status_run)

lemma setCondition_eq:
  "setCondition E ty st reason msg s = (r, u) \<longleftrightarrow>
     r = Ok () \<and> u = s\<lparr>rc_resource := (rc_resource s)\<lparr>ve_Status := (rc_status s)\<lparr>st_Conditions :=
       lib_SetStatusCondition (lib E) (st_Conditions (rc_status s))
         \<lparr>cd_Type = ty, cd_Status = st, cd_Reason = reason, cd_Message = msg\<rparr>\<rparr>\<rparr>\<rparr>"
  by (auto simp: setCondition_def set_status_run)

lemma setCondition_run [run_simps]:
  "setCondition E ty st reason msg s =
     (Ok (), s\<lparr>rc_resource := (rc_resource s)\<lparr>ve_Status := (rc_status s)\<lparr>st_Conditions :=
       lib_SetStatusCondition (lib E) (st_Conditions (rc_status s))
         \<lparr>cd_Type = ty, cd_Status = st, cd_Reason = reason, cd_Message = msg\<rparr>\<rparr>\<rparr>\<rparr>)"
  using setCondition_eq by blast

lemma isConditionTrue_run [run_simps]:
  "isConditionTrue E ty s =
     (Ok (lib_IsStatusConditionTrue (lib E) (st_Conditions (rc_status s)) ty), s)"
  by (simp add: isConditionTrue_def run_simps)

lemma isConditionTrue_eq:
  "isConditionTrue E ty s = (r, u) \<longleftrightarrow>
     u = s \<and> r = Ok (lib_IsStatusConditionTrue (lib E) (st_Conditions (rc_status s)) ty)"
  by (auto simp: isConditionTrue_run)

lemma updateStatus_run [run_simps]:
  "updateStatus E s =
     invoke (K8s (DoUpdateStatus (rc_resource s))) (k8s_UpdateStatus (k8s E)) s"
  by (simp add: updateStatus_def bindE_run resource_run)

lemma updateStatus_eq:
  "updateStatus E s = (r, u) \<longleftrightarrow>
     u = s\<lparr>history := history s @ [K8s (DoUpdateStatus (rc_resource s))]\<rparr> \<and>
     r = (case k8s_UpdateStatus (k8s E) (history s @ [K8s (DoUpdateStatus (rc_resource s))]) of
            Inl e \<Rightarrow> raised e | Inr x \<Rightarrow> Ok x)"
  by (simp add: updateStatus_run invoke_eq)

lemma updateStatus_Ok:
  "updateStatus E s = (Ok x, u) \<longleftrightarrow>
     u = s\<lparr>history := history s @ [K8s (DoUpdateStatus (rc_resource s))]\<rparr> \<and>
     k8s_UpdateStatus (k8s E) (history s @ [K8s (DoUpdateStatus (rc_resource s))]) = Inr x"
  by (simp add: updateStatus_run invoke_Ok)

lemma updateStatus_Err:
  "updateStatus E s = (Err e, u) \<longleftrightarrow>
     u = s\<lparr>history := history s @ [K8s (DoUpdateStatus (rc_resource s))]\<rparr> \<and>
     k8s_UpdateStatus (k8s E) (history s @ [K8s (DoUpdateStatus (rc_resource s))]) = Inl e \<and> e \<noteq> CalleePanic"
  by (simp add: updateStatus_run invoke_Err)

lemma record_normal_eq:
  "record_normal reason s = (r, u) \<longleftrightarrow>
     r = Ok () \<and> u = s\<lparr>history := history s @ [Recorded ''Normal'' reason]\<rparr>"
  by (simp add: record_normal_def emit_eq)

lemma metric_eq:
  "metric m s = (r, u) \<longleftrightarrow> r = Ok () \<and> u = s\<lparr>history := history s @ [Metric m]\<rparr>"
  by (simp add: metric_def emit_eq)

lemma record_normal_run [run_simps]:
  "record_normal reason s = (Ok (), s\<lparr>history := history s @ [Recorded ''Normal'' reason]\<rparr>)"
  by (simp add: record_normal_def emit_run)

lemma metric_run [run_simps]: "metric m s = (Ok (), s\<lparr>history := history s @ [Metric m]\<rparr>)"
  by (simp add: metric_def emit_run)

lemma age_run [run_simps]:
  "age E s = (Ok (lib_Now (lib E) (history s) - om_CreationTimestamp (ve_Meta (rc_resource s))), s)"
  by (simp add: age_def run_simps)

lemma age_eq:
  "age E s = (r, u) \<longleftrightarrow> u = s \<and>
     r = Ok (lib_Now (lib E) (history s) - om_CreationTimestamp (ve_Meta (rc_resource s)))"
  by (auto simp: age_run)

lemma returns_shared:
  "returns resource" "returns status" "returns awsClient" "returns clusterTag" "returns region"
  "returns (set_status f)" "returns (setCondition E ty st reason msg)"
  "returns (isConditionTrue E ty)" "returns (record_normal reason)" "returns (metric m)"
  "returns (age E)" "returns (updateStatus E)"
  by (auto simp: returns_def run_simps split: option.split sum.split)

lemmas shared_eqs = resource_eq status_eq awsClient_eq clusterTag_eq region_eq set_status_eq
  setCondition_eq isConditionTrue_eq record_normal_eq metric_eq age_eq

lemmas rc_Ok = world_Ok shared_eqs updateStatus_Ok
lemmas rc_Err = world_Err shared_eqs updateStatus_Err

section \<open>Frames of the reconciler\<close>

text \<open>
  What no step of a reconciliation changes: the metadata other than finalizers, the spec and the
  feature flag. \<open>steady A\<close>: that, and the history grows by events that satisfy \<open>A\<close>.
\<close>

definition steady :: "(event \<Rightarrow> bool) \<Rightarrow> reconciler \<Rightarrow> reconciler \<Rightarrow> bool" where
  "steady A s s' \<longleftrightarrow> emits A s s' \<and>
     ve_Meta (rc_resource s') = ve_Meta (rc_resource s) \<and>
     rc_spec s' = rc_spec s \<and> rc_EnablePrivateDns s' = rc_EnablePrivateDns s"

interpretation sy: frame "steady A" for A
  by unfold_locales (auto simp: steady_def intro: emits_refl emits_trans)

lemma calls_steady: "calls A s t \<Longrightarrow> steady A s t"
  by (auto simp: steady_def calls_emits) (auto simp: calls_def)

lemma preserves_calls_steady: "preserves (calls A) m \<Longrightarrow> preserves (steady A) m"
  by (simp add: preserves_def calls_steady)

lemma preserves_steady_weaken:
  "preserves (steady A) m \<Longrightarrow> (\<And>e. A e \<Longrightarrow> B e) \<Longrightarrow> preserves (steady B) m"
  by (auto simp: preserves_def steady_def intro: emits_weaken)

lemma steady_event: "steady A s t \<Longrightarrow> e \<in> set (new_events s t) \<Longrightarrow> A e"
  by (auto simp: steady_def intro: new_events_emits)

lemma preserves_steady_emits: "preserves (steady A) m \<Longrightarrow> preserves (emits A) m"
  by (auto simp: preserves_def steady_def)

lemma steady_modify:
  assumes "\<And>s. history (f s) = history s" "\<And>s. ve_Meta (rc_resource (f s)) = ve_Meta (rc_resource s)"
    "\<And>s. rc_spec (f s) = rc_spec s" "\<And>s. rc_EnablePrivateDns (f s) = rc_EnablePrivateDns s"
  shows "preserves (steady A) (modifyE f)"
  using assms by (intro sy.modifyE) (simp add: steady_def emits_def)

lemma steady_set_status: "preserves (steady A) (set_status f)"
  unfolding set_status_def by (rule steady_modify) simp_all

lemma steady_setCondition: "preserves (steady A) (setCondition E ty st reason msg)"
  unfolding setCondition_def by (rule steady_set_status)

lemma steady_updateStatus:
  assumes "\<And>v. A (K8s (DoUpdateStatus v))"
  shows "preserves (steady A) (updateStatus E)"
  unfolding updateStatus_def resource_def
  by (intro sy.bindE sy.getsE preserves_calls_steady calls_invoke assms)

lemma steady_reads:
  "preserves (steady A) resource" "preserves (steady A) status" "preserves (steady A) awsClient"
  "preserves (steady A) clusterTag" "preserves (steady A) region"
  "preserves (steady A) (isConditionTrue E ty)" "preserves (steady A) (age E)"
  unfolding resource_def status_def awsClient_def clusterTag_def region_def isConditionTrue_def
    age_def now_def by (intro sy.intros)+

lemma steady_events:
  "A (Recorded ''Normal'' reason) \<Longrightarrow> preserves (steady A) (record_normal reason)"
  "A (Metric m) \<Longrightarrow> preserves (steady A) (metric m)"
  "A ev \<Longrightarrow> preserves (steady A) (emit ev)"
  "A ev \<Longrightarrow> preserves (steady A) (invoke ev respond)"
  "preserves (steady A) (now E)" "preserves (steady A) (range_order_now E)"
  unfolding record_normal_def metric_def
  by (intro preserves_calls_steady calls_intros; assumption)+

lemmas steady_basics = steady_set_status steady_setCondition steady_updateStatus steady_reads
  steady_events

lemmas steady_progs = sy.ret sy.failE sy.panicE sy.divergeE sy.getsE sy.deref sy.liftS sy.liftO sy.bindE sy.attempt
  sy.whenE sy.forE sy.foldE sy.mapE sy.findE sy.mapErr sy.if_prog sy.case_option_prog
  sy.case_sum_prog sy.case_list_prog sy.case_prod_prog

lemmas steady_calls = aws_calls [THEN preserves_calls_steady]
  r53_calls [THEN preserves_calls_steady] k8s_calls [THEN preserves_calls_steady]

named_theorems steady_ops \<open>the frames of the reconciler's operations\<close>

lemmas steady_intros = steady_progs steady_basics steady_calls

text \<open>A program that reads the status (or the resource) first can be framed for what it then holds.\<close>

lemma status_bindD:
  "bindE status f s = (r, t) \<Longrightarrow> preserves R (f (rc_status s)) \<Longrightarrow> R s t"
  by (simp add: bindE_run status_run preservesD)

lemma resource_bindD:
  "bindE resource f s = (r, t) \<Longrightarrow> preserves R (f (rc_resource s)) \<Longrightarrow> R s t"
  by (simp add: bindE_run resource_run preservesD)

text \<open>A program that only reads from AWS leaves the fields of the reconciler alone.\<close>

lemma reader_frame: "preserves (calls aws_read) m \<Longrightarrow> m s = (r, t) \<Longrightarrow> emits aws_read s t \<and>
   rc_resource t = rc_resource s \<and> rc_awsClient t = rc_awsClient s \<and> rc_clusterInfo t = rc_clusterInfo s"
  by (drule preservesD) (auto simp: calls_def emits_def)

section \<open>Fields of the status that a step keeps\<close>

text \<open>\<open>keeps f\<close>: the projection \<open>f\<close> of the status is the same afterwards.\<close>

definition keeps :: "(vpcEndpointStatus \<Rightarrow> 'b) \<Rightarrow> reconciler \<Rightarrow> reconciler \<Rightarrow> bool" where
  "keeps f s s' \<longleftrightarrow> f (rc_status s') = f (rc_status s)"

interpretation kp: frame "keeps f" for f
  by unfold_locales (simp_all add: keeps_def)

lemma keepsD: "preserves (keeps f) m \<Longrightarrow> m s = (r, t) \<Longrightarrow> f (rc_status t) = f (rc_status s)"
  by (drule preservesD) (simp_all add: keeps_def)

lemma preserves_calls_keeps: "preserves (calls A) m \<Longrightarrow> preserves (keeps f) m"
  unfolding preserves_def
proof
  fix s
  assume "\<forall>s. calls A s (snd (m s))"
  then obtain tr where "snd (m s) = s\<lparr>history := history s @ tr\<rparr>" by (auto simp: calls_def)
  then show "keeps f s (snd (m s))" by (simp add: keeps_def)
qed

lemma keeps_modify:
  "(\<And>s. ve_Status (rc_resource (g s)) = ve_Status (rc_resource s)) \<Longrightarrow> preserves (keeps f) (modifyE g)"
  by (rule kp.modifyE) (simp add: keeps_def)

lemma keeps_set_status: "(\<And>v. f (g v) = f v) \<Longrightarrow> preserves (keeps f) (set_status g)"
  by (simp add: preserves_def keeps_def set_status_run)

lemma keeps_setCondition:
  "(\<And>v c. f (v\<lparr>st_Conditions := c\<rparr>) = f v) \<Longrightarrow> preserves (keeps f) (setCondition E ty st reason msg)"
  unfolding setCondition_def by (rule keeps_set_status)

lemma keeps_steps:
  "preserves (keeps f) resource" "preserves (keeps f) status" "preserves (keeps f) awsClient"
  "preserves (keeps f) clusterTag" "preserves (keeps f) region"
  "preserves (keeps f) (isConditionTrue E ty)" "preserves (keeps f) (age E)"
  "preserves (keeps f) (updateStatus E)" "preserves (keeps f) (record_normal reason)"
  "preserves (keeps f) (metric m)" "preserves (keeps f) (emit ev)"
  "preserves (keeps f) (invoke ev respond)" "preserves (keeps f) (now E)"
  "preserves (keeps f) (range_order_now E)"
  by (auto simp: preserves_def keeps_def run_simps split: option.split sum.split)

lemmas keeps_calls = aws_calls [where A = "\<lambda>_. True", simplified, THEN preserves_calls_keeps]
  r53_calls [where A = "\<lambda>_. True", simplified, THEN preserves_calls_keeps]
  k8s_calls [where A = "\<lambda>_. True", simplified, THEN preserves_calls_keeps]

lemmas keeps_intros = kp.intros keeps_calls keeps_set_status keeps_setCondition keeps_steps

section \<open>A sample state\<close>

text \<open>A resource with a security group and an endpoint of the cluster; examples change its fields.\<close>

definition sample_zone :: route53PrivateHostedZone where
  "sample_zone = \<lparr>phz_AutoDiscover = False, phz_AssociatedVpcs = [], phz_DomainName = '''',
     phz_DomainNameRef = None, phz_Id = '''',
     phz_Record = \<lparr>rec_Hostname = '''', rec_ExternalNameService = \<lparr>ens_Name = ''''\<rparr>\<rparr>\<rparr>"

definition sample_spec :: vpcEndpointSpec where
  "sample_spec = \<lparr>sp_ServiceName = ''com.amazonaws.vpce.svc'', sp_ServiceNameRef = None,
     sp_SecurityGroup = \<lparr>sg_IngressRules = [], sg_EgressRules = [], sg_UseVpcCidr = False\<rparr>,
     sp_AssumeRoleArn = '''', sp_AWSCredentialOverrideRef = None, sp_Region = ''us-east-1'',
     sp_EnablePrivateDns = False,
     sp_Vpc = \<lparr>vpc_AutoDiscoverSubnets = False, vpc_SubnetIds = [''subnet-1''], vpc_Ids = [],
       vpc_Tags = [], vpc_SubnetTags = []\<rparr>,
     sp_CustomDns = \<lparr>dns_Route53PrivateHostedZone = sample_zone\<rparr>\<rparr>"

definition sample_status :: vpcEndpointStatus where
  "sample_status = \<lparr>st_Status = ''available'', st_SecurityGroupId = ''sg-1'', st_VPCId = ''vpc-1'',
     st_VPCEndpointId = ''vpce-1'', st_VPCEndpointServiceName = ''com.amazonaws.vpce.svc'',
     st_HostedZoneId = '''', st_ResourceRecordSet = '''', st_InfraId = ''infra'', st_Conditions = []\<rparr>"

definition sample_meta :: objectMeta where
  "sample_meta = \<lparr>om_Name = ''example'', om_Namespace = ''default'', om_Labels = [],
     om_Finalizers = [], om_DeletionTimestamp = None, om_CreationTimestamp = 0\<rparr>"

definition sample_endpoint :: vpcEndpoint where
  "sample_endpoint = \<lparr>ve_Meta = sample_meta, ve_Spec = sample_spec, ve_Status = sample_status\<rparr>"

definition sample_config :: awsConfig where
  "sample_config = \<lparr>aws_Region = ''us-east-1'', aws_Credentials = DefaultCredentials\<rparr>"

definition sample_state :: reconciler where
  "sample_state = \<lparr>history = [], rc_EnablePrivateDns = False, rc_awsClient = Some sample_config,
     rc_awsAssociatedVpcClient = None,
     rc_clusterInfo = Some \<lparr>ci_clusterTag = ''kubernetes.io/cluster/infra'', ci_region = ''us-east-1''\<rparr>,
     rc_hostedZoneCache = None, rc_resource = sample_endpoint\<rparr>"

lemmas sample_defs = sample_zone_def sample_spec_def sample_status_def sample_meta_def
  sample_endpoint_def sample_config_def sample_state_def

end
