(* ===== verification/ClusterInfo.thy ===== *)
theory ClusterInfo
  imports Reconciler
begin

text \<open>
  The first half of a reconciliation (helpers.go): \<open>parseClusterInfo\<close>, which fills in the
  infrastructure id, the cluster tag, the endpoint service name, the region, the AWS client and
  the VPC of the endpoint, with \<open>getVpcEndpointServiceName\<close>; and the metric handler for calls
  AWS refused. The theorems say what a successful run establishes for the later stages, and
  that the VPC selected is one with the fewest endpoints.
\<close>

section \<open>The metric of unauthorized operations\<close>

definition awsUnauthorizedOperationMetricHandler :: "error \<Rightarrow> unit rprog" where
  "awsUnauthorizedOperationMetricHandler err =
     (case as_api_error err of
        None \<Rightarrow> ret ()
      | Some ae \<Rightarrow>
          whenE (fst ae = ''UnauthorizedOperation'' \<or> fst ae = ''AccessDenied'')
            (case as_operation_error err of
               Some oe \<Rightarrow> metric (GaugeInc ''unauthorized_operation_total''
                           [to_lower (strip_spaces (fst oe)) @ '':'' @ snd oe])
             | None \<Rightarrow> metric (GaugeInc ''unauthorized_operation_total'' [''Unknown''])))"

section \<open>The name of the endpoint service\<close>

text \<open>\<open>None\<close> is the early return that keeps the name recorded in the status.\<close>

definition findServiceName :: "env \<Rightarrow> string option rprog" where
  "findServiceName E =
     bindE resource (\<lambda>vpce.
     if sp_ServiceName (ve_Spec vpce) \<noteq> '''' then ret (Some (sp_ServiceName (ve_Spec vpce)))
     else bindE (deref (sp_ServiceNameRef (ve_Spec vpce))) (\<lambda>ref.
       if sn_Name ref \<noteq> '''' then ret (Some (sn_Name ref))
       else bindE (deref (sn_ValueFrom ref)) (\<lambda>valueFrom.
         bindE (deref (sns_AwsEndpointServiceRef valueFrom)) (\<lambda>sel.
         if aes_Name sel \<noteq> '''' then
           bindE (attempt (invoke (K8s (DoGetAWSEndpointService (ve_Namespace vpce) (aes_Name sel)))
                             (k8s_GetAWSEndpointService (k8s E)))) (\<lambda>resp.
           case resp of
             Inl err \<Rightarrow>
               if st_VPCEndpointServiceName (ve_Status vpce) = '''' then failE err else ret None
           | Inr endpointServiceName \<Rightarrow> ret (Some endpointServiceName))
         else ret (Some '''')))))"

definition getVpcEndpointServiceName :: "env \<Rightarrow> unit rprog" where
  "getVpcEndpointServiceName E =
     bindE (findServiceName E) (\<lambda>found.
     case found of
       None \<Rightarrow> ret ()
     | Some vpceServiceName \<Rightarrow>
         if vpceServiceName = '''' then failE (Errorf ''empty VPC Endpoint Service name'' [])
         else bindE (set_status (\<lambda>v. v\<lparr>st_VPCEndpointServiceName := vpceServiceName\<rparr>)) (\<lambda>_.
              mapErr (Wrapf ''failed to update status: %w'' []) (updateStatus E)))"

section \<open>Cluster information\<close>

definition is_hcp :: "vpcEndpointSpec \<Rightarrow> bool" where
  "is_hcp spec =
     (case phz_DomainNameRef (dns_Route53PrivateHostedZone (sp_CustomDns spec)) of
        None \<Rightarrow> False
      | Some ref \<Rightarrow>
          (case dn_ValueFrom ref of
             None \<Rightarrow> False
           | Some src \<Rightarrow> dns_HostedControlPlaneRef src \<noteq> None))"

text \<open>The infra id: of the hosted control plane for HyperShift, else of the cluster.\<close>

definition parseInfraId :: "env \<Rightarrow> unit rprog" where
  "parseInfraId E =
     bindE resource (\<lambda>vpce.
     bindE (attempt (if is_hcp (ve_Spec vpce) then GetInfraId E (ve_Namespace vpce)
                     else GetInfrastructureName E)) (\<lambda>found.
     case found of
       Inl err \<Rightarrow> if st_InfraId (ve_Status vpce) = '''' then failE err else ret ()
     | Inr infraName \<Rightarrow>
         bindE (set_status (\<lambda>v. v\<lparr>st_InfraId := infraName\<rparr>)) (\<lambda>_.
         mapErr (Wrapf ''failed to update status: %w'' []) (updateStatus E))))"

definition set_clusterInfo :: "(clusterInfo \<Rightarrow> clusterInfo) \<Rightarrow> unit rprog" where
  "set_clusterInfo f = modifyE (\<lambda>s. s\<lparr>rc_clusterInfo := map_option f (rc_clusterInfo s)\<rparr>)"

definition parseRegion :: "env \<Rightarrow> unit rprog" where
  "parseRegion E =
     bindE resource (\<lambda>vpce.
     bindE (if sp_Region (ve_Spec vpce) \<noteq> '''' then ret (sp_Region (ve_Spec vpce))
            else GetAWSRegion E) (\<lambda>awsRegion.
     set_clusterInfo (\<lambda>ci. ci\<lparr>ci_region := awsRegion\<rparr>)))"

definition set_awsClient :: "awsConfig \<Rightarrow> unit rprog" where
  "set_awsClient cfg = modifyE (\<lambda>s. s\<lparr>rc_awsClient := Some cfg\<rparr>)"

definition establishAwsClient :: "env \<Rightarrow> bool \<Rightarrow> unit rprog" where
  "establishAwsClient E refreshAWSSession =
     bindE resource (\<lambda>vpce.
     bindE region (\<lambda>awsRegion.
     case sp_AWSCredentialOverrideRef (ve_Spec vpce) of
       Some ref \<Rightarrow> bindE (ParseAWSCredentialOverride E awsRegion (Some ref)) set_awsClient
     | None \<Rightarrow>
         whenE refreshAWSSession
           (bindE (load_config E awsRegion DefaultCredentials) set_awsClient)))"

text \<open>Where the endpoint goes when its status has no VPC yet: by VPC tags, VPC ids, discovered or given subnets.\<close>

definition selectVpcId :: "env \<Rightarrow> string rprog" where
  "selectVpcId E =
     bindE resource (\<lambda>vpce.
     let v = sp_Vpc (ve_Spec vpce) in
     bindE awsClient (\<lambda>c.
     if vpc_Tags v \<noteq> [] then
       mapErr (Wrapf ''failed to select a VPC to place a VPC Endpoint in: %w'' [])
         (bindE (FilterVpcIdsByTags E c (vpc_Tags v)) (SelectVPCForVPCEndpoint E c))
     else if vpc_Ids v \<noteq> [] then
       mapErr (Wrapf ''failed to select a VPC to place a VPC Endpoint in: %w'' [])
         (SelectVPCForVPCEndpoint E c (vpc_Ids v))
     else if vpc_AutoDiscoverSubnets v then
       bindE clusterTag (\<lambda>tag.
       bindE (mapErr (Wrapf ''unable to autodiscover subnets: %w'' [])
                (AutodiscoverPrivateSubnets E c tag (vpc_SubnetTags v))) (\<lambda>resp.
       bindE (mapE (\<lambda>subnet. deref (es_SubnetId subnet)) resp) (\<lambda>subnets.
       GetVPCId E c subnets)))
     else GetVPCId E c (vpc_SubnetIds v)))"

definition parseVpcId :: "env \<Rightarrow> unit rprog" where
  "parseVpcId E =
     bindE status (\<lambda>st.
     whenE (st_VPCId st = '''')
       (bindE (selectVpcId E) (\<lambda>vpcId.
        bindE (set_status (\<lambda>v. v\<lparr>st_VPCId := vpcId\<rparr>)) (\<lambda>_.
        mapErr (Wrapf ''failed to update status: %w'' []) (updateStatus E)))))"

definition parseClusterInfo :: "env \<Rightarrow> bool \<Rightarrow> unit rprog" where
  "parseClusterInfo E refreshAWSSession =
     bindE (modifyE (\<lambda>s. s\<lparr>rc_clusterInfo := Some \<lparr>ci_clusterTag = '''', ci_region = ''''\<rparr>\<rparr>)) (\<lambda>_.
     bindE (parseInfraId E) (\<lambda>_.
     bindE status (\<lambda>st.
     bindE (liftS (GetClusterLegacyTagKey (st_InfraId st))) (\<lambda>tag.
     bindE (set_clusterInfo (\<lambda>ci. ci\<lparr>ci_clusterTag := tag\<rparr>)) (\<lambda>_.
     bindE (getVpcEndpointServiceName E) (\<lambda>_.
     bindE (parseRegion E) (\<lambda>_.
     bindE (establishAwsClient E refreshAWSSession) (\<lambda>_.
     parseVpcId E))))))))"

section \<open>Frames\<close>

lemma awsUnauthorized_steady [steady_ops]:
  assumes "\<And>m. A (Metric m)"
  shows "preserves (steady A) (awsUnauthorizedOperationMetricHandler err)"
  unfolding awsUnauthorizedOperationMetricHandler_def by (intro steady_intros assms)

text \<open>The events of \<open>parseClusterInfo\<close>: reads of AWS and of the cluster, and status updates.\<close>

fun parse_event :: "event \<Rightarrow> bool" where
  "parse_event (K8s (DoUpdateStatus _)) = True"
| "parse_event e = (aws_read e \<or> lookup_event e)"

lemma parse_events:
  "aws_read e \<Longrightarrow> parse_event e" "lookup_event e \<Longrightarrow> parse_event e"
  "parse_event (K8s (DoUpdateStatus v))"
  by (cases e rule: parse_event.cases; simp)+

lemma set_clusterInfo_steady: "preserves (steady A) (set_clusterInfo f)"
  unfolding set_clusterInfo_def by (intro steady_modify; simp)

lemma set_awsClient_steady: "preserves (steady A) (set_awsClient cfg)"
  unfolding set_awsClient_def by (intro steady_modify; simp)

lemma getVpcEndpointServiceName_steady [steady_ops]:
  "preserves (steady parse_event) (getVpcEndpointServiceName E)"
  unfolding getVpcEndpointServiceName_def findServiceName_def
  by (intro steady_intros parse_events; simp)

lemma parse_steps_steady:
  "preserves (steady parse_event) (parseInfraId E)"
  "preserves (steady parse_event) (parseRegion E)"
  "preserves (steady parse_event) (establishAwsClient E refresh)"
  "preserves (steady parse_event) (selectVpcId E)"
  unfolding parseInfraId_def parseRegion_def establishAwsClient_def selectVpcId_def Let_def
  by (intro steady_intros set_clusterInfo_steady set_awsClient_steady parse_events; assumption)+

lemma parseVpcId_steady: "preserves (steady parse_event) (parseVpcId E)"
  unfolding parseVpcId_def by (intro steady_intros parse_steps_steady parse_events)

lemma parseClusterInfo_steady [steady_ops]:
  "preserves (steady parse_event) (parseClusterInfo E refresh)"
  unfolding parseClusterInfo_def
  by (intro steady_intros parse_steps_steady parseVpcId_steady set_clusterInfo_steady
      getVpcEndpointServiceName_steady steady_modify; simp)

section \<open>The VPC that is selected\<close>

text \<open>\<open>endpoint_count vpces x\<close>: how many of the endpoints are in the VPC \<open>x\<close>.\<close>

definition endpoint_count :: "ec2VpcEndpoint list \<Rightarrow> string \<Rightarrow> int" where
  "endpoint_count vpces x = int (length (filter (\<lambda>v. evp_VpcId v = Some x) vpces))"

definition count_of :: "(string \<times> int) list \<Rightarrow> string \<Rightarrow> int" where
  "count_of m x = (case map_of m x of None \<Rightarrow> 0 | Some n \<Rightarrow> n)"

lemma endpoint_count_simps [simp]:
  "endpoint_count [] x = 0"
  "endpoint_count (v # vs) x = (if evp_VpcId v = Some x then 1 else 0) + endpoint_count vs x"
  "endpoint_count (vs @ ws) x = endpoint_count vs x + endpoint_count ws x"
  by (simp_all add: endpoint_count_def)

text \<open>A page adds its endpoints to the counts of the map, and their VPCs to its keys.\<close>

lemma count_page_Ok:
  assumes "count_page m vpces s = (Ok m', t)"
  shows "t = s \<and> count_of m' x = count_of m x + endpoint_count vpces x \<and>
    fst ` set m' = fst ` set m \<union> {x. Some x \<in> evp_VpcId ` set vpces}"
  using assms
proof (induction vpces arbitrary: m)
  case Nil
  then show ?case by (simp add: count_page_def ret_eq)
next
  case (Cons v vpces)
  from Cons.prems obtain i where i: "evp_VpcId v = Some i"
    and rest: "count_page (AList.update i (count_of m i + 1) m) vpces s = (Ok m', t)"
    by (auto simp: count_page_def count_of_def bindE_Ok run_eqs split: option.splits)
  have "count_of (AList.update i n m) x = (if x = i then n else count_of m x)" for n
    by (simp add: count_of_def update_conv')
  moreover have "fst ` set (AList.update i n m) = insert i (fst ` set m)" for n
    by (simp add: dom_map_of_conv_image_fst [symmetric] update_conv')
  ultimately show ?case using Cons.IH [OF rest] i by auto
qed

definition paged :: "event \<Rightarrow> (string \<times> int) list \<Rightarrow> error + ec2VpcEndpoint list \<Rightarrow> ('x world_scheme, error, (string \<times> int) list) prog" where
  "paged input m page = bindE (invoke input (\<lambda>_. page)) (count_page m)"

lemma paged_Ok:
  "paged input m page s = (Ok m', t) \<longleftrightarrow>
     (\<exists>v. page = Inr v \<and> count_page m v (s\<lparr>history := history s @ [input]\<rparr>) = (Ok m', t))"
  by (auto simp: paged_def bindE_Ok invoke_Ok)

lemma pages_Ok:
  assumes "foldE (paged input) m pages s = (Ok m', t)"
  shows "\<exists>vs. pages = List.map Inr vs \<and> count_of m' x = count_of m x + endpoint_count (concat vs) x \<and>
    fst ` set m' = fst ` set m \<union> {x. Some x \<in> evp_VpcId ` set (concat vs)}"
  using assms
proof (induction pages arbitrary: m s)
  case Nil
  then show ?case by (auto simp: ret_eq)
next
  case (Cons page pages)
  from Cons.prems obtain v m1 u where p: "page = Inr v" and c: "count_page m v (s\<lparr>history := history s @ [input]\<rparr>) = (Ok m1, u)"
    and rest: "foldE (paged input) m1 pages u = (Ok m', t)"
    by (auto simp: bindE_Ok paged_Ok)
  from Cons.IH [OF rest] obtain vs where "pages = List.map Inr vs" "count_of m' x = count_of m1 x + endpoint_count (concat vs) x"
    "fst ` set m' = fst ` set m1 \<union> {x. Some x \<in> evp_VpcId ` set (concat vs)}" by blast
  with p count_page_Ok [OF c, of x] show ?case by (intro exI [of _ "v # vs"]) auto
qed

lemma least_used_min:
  "least_used m xs = (v, n) \<Longrightarrow> n \<le> MaxInt \<and> (\<forall>w\<in>set xs. n \<le> count_of m w) \<and>
    (v \<in> set xs \<and> n = count_of m v \<or> v = '''' \<and> n = MaxInt)"
proof (induction xs arbitrary: v n rule: rev_induct)
  case Nil
  then show ?case by (simp add: least_used_def)
next
  case (snoc x xs)
  obtain v' n' where prev: "least_used m xs = (v', n')" by fastforce
  with snoc.prems have "(v, n) = (if count_of m x < n' then (x, count_of m x) else (v', n'))"
    by (auto simp: least_used_def count_of_def Let_def split: if_splits)
  with snoc.IH [OF prev] show ?case by (fastforce split: if_splits)
qed

text \<open>
  C32: the least used VPC is selected. When the selection among the VPCs of the spec succeeds, AWS
  answered every page of the endpoints in these VPCs, and the VPC it returns is one of them (or
  one of an endpoint that AWS listed) with the fewest endpoints of all of these, in whatever
  order the map of counts is ranged over.
\<close>

theorem least_used_vpc_selected:
  assumes "SelectVPCForVPCEndpoint E c ids s = (Ok v, t)"
  shows "\<exists>pages. ec2_VpcEndpointPages (ec2 E) (history s @
      [Ec2 c (DoDescribeVpcEndpoints [\<lparr>flt_Name = ''vpc-id'', flt_Values = ids\<rparr>] [])]) = List.map Inr pages \<and>
    (let vpces = concat pages; candidates = set ids \<union> {x. Some x \<in> evp_VpcId ` set vpces}
     in v \<in> candidates \<and> endpoint_count vpces v = Min (endpoint_count vpces ` candidates))"
proof -
  let ?input = "Ec2 c (DoDescribeVpcEndpoints [\<lparr>flt_Name = ''vpc-id'', flt_Values = ids\<rparr>] [])"
  let ?pages = "ec2_VpcEndpointPages (ec2 E) (history s @ [?input])" and ?m0 = "gomap (List.map (\<lambda>id. (id, 0)) ids)"
  from assms obtain m u where f: "foldE (paged ?input) ?m0 ?pages s = (Ok m, u)"
    and v: "v = fst (least_used m (visit (lib_Range (lib E) (history u)) (List.map fst m)))" "v \<noteq> ''''"
    unfolding SelectVPCForVPCEndpoint_def paged_def [symmetric]
    by (auto simp: bindE_Ok getsE_eq range_order_now_eq failE_eq ret_eq Let_def split: if_splits)
  have count0: "count_of ?m0 x = 0" for x
    by (auto simp: count_of_def map_of_gomap rev_map map_of_map_keys split: option.splits dest: map_of_SomeD)
  have keys0: "fst ` set ?m0 = set ids" by (simp add: keys_gomap image_image)
  obtain pages where pages: "?pages = List.map Inr pages" and keys: "fst ` set m = set ids \<union> {x. Some x \<in> evp_VpcId ` set (concat pages)}"
    using pages_Ok [OF f, of "''''"] unfolding keys0 by blast
  have count: "count_of m x = endpoint_count (concat pages) x" for x
  proof -
    obtain vs where "?pages = List.map Inr vs" "count_of m x = endpoint_count (concat vs) x"
      using pages_Ok [OF f, of x] count0 by auto
    with pages show ?thesis by (simp add: inj_map_eq_map)
  qed
  let ?C = "set ids \<union> {x. Some x \<in> evp_VpcId ` set (concat pages)}"
  obtain n where "least_used m (visit (lib_Range (lib E) (history u)) (List.map fst m)) = (v, n)"
    using v(1) by (metis prod.collapse)
  from least_used_min [OF this] v(2) have "v \<in> fst ` set m" "\<forall>w\<in>fst ` set m. count_of m v \<le> count_of m w" by auto
  then have min: "v \<in> ?C" "\<forall>w\<in>?C. endpoint_count (concat pages) v \<le> endpoint_count (concat pages) w"
    unfolding keys count by blast+
  have "finite ?C" unfolding keys [symmetric] by simp
  then have "endpoint_count (concat pages) v = Min (endpoint_count (concat pages) ` ?C)"
    by (intro Min_eqI [symmetric]) (use min in blast)+
  with min(1) pages show ?thesis by (intro exI [of _ pages]) (simp only: Let_def)
qed

definition paged_env :: env where
  "paged_env = ref_env\<lparr>ec2 := ref_ec2\<lparr>ec2_VpcEndpointPages := (\<lambda>h.
     [Inr [\<lparr>evp_VpcEndpointId = None, evp_VpcId = Some ''vpc-a'', evp_State = ''available'', evp_PrivateDnsEnabled = None,
        evp_SubnetIds = [], evp_Groups = [], evp_DnsEntries = []\<rparr>], Inr []])\<rparr>\<rparr>"

theorem least_used_vpc_selected_witness:
  "let vpces = concat (List.map projr (ec2_VpcEndpointPages (ec2 paged_env) []))
   in endpoint_count vpces ''vpc-b'' = Min (endpoint_count vpces ` {''vpc-a'', ''vpc-b''})"
proof -
  have "SelectVPCForVPCEndpoint paged_env sample_config [''vpc-a'', ''vpc-b''] sample_state =
      (Ok ''vpc-b'', snd (SelectVPCForVPCEndpoint paged_env sample_config [''vpc-a'', ''vpc-b''] sample_state))"
    by (simp add: SelectVPCForVPCEndpoint_def count_page_def gomap_def least_used_def MaxInt_def paged_env_def run_simps
        ref_defs sample_defs Let_def)
  from least_used_vpc_selected [OF this] show ?thesis
    by (auto simp: paged_env_def Let_def map_eq_Cons_conv insert_commute)
qed

section \<open>What a successful parse establishes\<close>

text \<open>\<open>same g\<close>: the projection \<open>g\<close> of the reconciler is the same afterwards.\<close>

definition same :: "(reconciler \<Rightarrow> 'b) \<Rightarrow> reconciler \<Rightarrow> reconciler \<Rightarrow> bool" where
  "same g s t \<longleftrightarrow> g t = g s"

interpretation sm: frame "same g" for g
  by unfold_locales (simp_all add: same_def)

lemma preserves_calls_same:
  assumes "preserves (calls A) m" "\<And>s h. g (s\<lparr>history := h\<rparr>) = g s"
  shows "preserves (same g) m"
proof (rule preservesI)
  fix s r t
  assume "m s = (r, t)"
  with assms(1) have "calls A s t" by (rule preservesD)
  with assms(2) show "same g s t" by (auto simp: calls_def same_def)
qed

lemma same_set_status:
  "(\<And>s. g (s\<lparr>rc_resource := (rc_resource s)\<lparr>ve_Status := f (rc_status s)\<rparr>\<rparr>) = g s) \<Longrightarrow> preserves (same g) (set_status f)"
  by (auto simp: preserves_def same_def set_status_run)

lemma same_modify: "(\<And>s. g (f s) = g s) \<Longrightarrow> preserves (same g) (modifyE f)"
  by (rule sm.modifyE) (simp add: same_def)

lemma same_steps:
  "preserves (same g) resource" "preserves (same g) status" "preserves (same g) awsClient"
  "preserves (same g) clusterTag" "preserves (same g) region"
  "(\<And>s h. g (s\<lparr>history := h\<rparr>) = g s) \<Longrightarrow> preserves (same g) (updateStatus E)"
  "(\<And>s h. g (s\<lparr>history := h\<rparr>) = g s) \<Longrightarrow> preserves (same g) (invoke ev respond)"
  by (auto simp: preserves_def same_def run_simps split: option.split sum.split)

lemmas same_intros = sm.ret sm.failE sm.panicE sm.getsE sm.deref sm.liftS sm.bindE sm.attempt sm.whenE sm.mapE
  sm.mapErr sm.if_prog sm.case_option_prog sm.case_sum_prog same_steps same_set_status
  aws_calls [where A = "\<lambda>_. True", simplified, THEN preserves_calls_same]
  k8s_calls [where A = "\<lambda>_. True", simplified, THEN preserves_calls_same]

lemma parse_steps_same:
  "preserves (same (\<lambda>s. (rc_clusterInfo s, rc_spec s))) (parseInfraId E)"
  "preserves (same (\<lambda>s. (rc_clusterInfo s, rc_spec s, st_InfraId (rc_status s)))) (getVpcEndpointServiceName E)"
  "preserves (same (\<lambda>s. (rc_clusterInfo s, rc_awsClient s, rc_spec s, st_InfraId (rc_status s),
     st_VPCEndpointServiceName (rc_status s)))) (parseVpcId E)"
  unfolding parseInfraId_def getVpcEndpointServiceName_def findServiceName_def parseVpcId_def selectVpcId_def Let_def
  by (intro same_intros; simp)+

lemma sameD: "preserves (same g) m \<Longrightarrow> m s = (r, t) \<Longrightarrow> g t = g s"
  by (drule preservesD) (simp_all add: same_def)

lemma serviceName_Ok:
  assumes "getVpcEndpointServiceName E s = (Ok (), t)"
  shows "st_VPCEndpointServiceName (rc_status t) \<noteq> ''''"
proof -
  from assms obtain found u where f: "findServiceName E s = (Ok found, u)"
    and k: "(case found of None \<Rightarrow> ret () | Some n \<Rightarrow>
      if n = '''' then failE (Errorf ''empty VPC Endpoint Service name'' [])
      else bindE (set_status (\<lambda>v. v\<lparr>st_VPCEndpointServiceName := n\<rparr>)) (\<lambda>_.
           mapErr (Wrapf ''failed to update status: %w'' []) (updateStatus E))) u = (Ok (), t)"
    by (auto simp: getVpcEndpointServiceName_def bindE_Ok)
  show ?thesis
  proof (cases found)
    case None
    have "st_VPCEndpointServiceName (rc_status u) \<noteq> ''''"
      using f None
      by (auto simp: findServiceName_def bindE_Ok resource_eq run_eqs attempt_Ok invoke_eq split: if_splits option.splits sum.splits)
    with None k show ?thesis by (simp add: ret_eq)
  next
    case (Some n)
    with k show ?thesis by (auto simp: bindE_Ok failE_eq set_status_eq mapErr_Ok updateStatus_Ok split: if_splits)
  qed
qed

lemma config_region:
  "load_config E reg creds s = (Ok cfg, t) \<Longrightarrow> aws_Region cfg = reg"
  "ParseAWSCredentialOverride E reg ref s = (Ok cfg, t) \<Longrightarrow> aws_Region cfg = reg"
  by (auto simp: load_config_def ParseAWSCredentialOverride_def bindE_Ok mapErr_Ok run_eqs split: option.splits)

lemma parseRegion_Ok:
  assumes "parseRegion E s = (Ok (), t)"
  obtains reg where "rc_clusterInfo t = map_option (\<lambda>ci. ci\<lparr>ci_region := reg\<rparr>) (rc_clusterInfo s)"
    and "rc_resource t = rc_resource s" and "sp_Region (rc_spec s) = '''' \<or> reg = sp_Region (rc_spec s)"
proof -
  from assms obtain reg u where r: "(if sp_Region (rc_spec s) \<noteq> '''' then ret (sp_Region (rc_spec s)) else GetAWSRegion E) s = (Ok reg, u)"
    and t: "t = u\<lparr>rc_clusterInfo := map_option (\<lambda>ci. ci\<lparr>ci_region := reg\<rparr>) (rc_clusterInfo u)\<rparr>"
    by (auto simp: parseRegion_def set_clusterInfo_def bindE_Ok resource_eq modifyE_eq)
  have "preserves (calls (\<lambda>_. True)) (if sp_Region (rc_spec s) \<noteq> '''' then ret (sp_Region (rc_spec s)) else GetAWSRegion E)"
    by (intro calls_intros k8s_calls) simp
  from preservesD [OF this r] have "rc_clusterInfo u = rc_clusterInfo s" "rc_resource u = rc_resource s"
    by (auto simp: calls_def)
  with t r show thesis by (intro that [of reg]) (auto simp: ret_eq split: if_splits)
qed

lemma establishAwsClient_Ok:
  assumes "establishAwsClient E True s = (Ok (), t)"
  obtains cfg info where "rc_clusterInfo s = Some info" "rc_awsClient t = Some cfg" "aws_Region cfg = ci_region info"
    and "rc_clusterInfo t = rc_clusterInfo s" "rc_resource t = rc_resource s"
proof -
  let ?get = "\<lambda>reg. case sp_AWSCredentialOverrideRef (rc_spec s) of
      Some ref \<Rightarrow> ParseAWSCredentialOverride E reg (Some ref) | None \<Rightarrow> load_config E reg DefaultCredentials"
  from assms obtain info cfg u where i: "rc_clusterInfo s = Some info" and g: "?get (ci_region info) s = (Ok cfg, u)"
    and t: "t = u\<lparr>rc_awsClient := Some cfg\<rparr>"
    by (auto simp: establishAwsClient_def bindE_Ok resource_eq region_eq whenE_eq set_awsClient_def modifyE_eq
        split: option.splits)
  have "preserves (calls (\<lambda>_. True)) (?get (ci_region info))" by (intro calls_intros k8s_calls) simp_all
  from preservesD [OF this g] have "rc_clusterInfo u = rc_clusterInfo s" "rc_resource u = rc_resource s"
    by (auto simp: calls_def)
  moreover have "aws_Region cfg = ci_region info" using g config_region by (auto split: option.splits)
  ultimately show thesis using that i t by simp
qed

lemma parse_Ok:
  assumes "parseClusterInfo E True s = (Ok (), t)"
  shows "st_InfraId (rc_status t) \<noteq> '''' \<and> st_VPCEndpointServiceName (rc_status t) \<noteq> '''' \<and>
    (\<exists>reg cfg. rc_clusterInfo t = Some \<lparr>ci_clusterTag = LegacyClusterTagPrefix @ ''/'' @ st_InfraId (rc_status t),
        ci_region = reg\<rparr> \<and> rc_awsClient t = Some cfg \<and> aws_Region cfg = reg \<and>
      (sp_Region (rc_spec s) = '''' \<or> reg = sp_Region (rc_spec s)))"
proof -
  let ?s0 = "s\<lparr>rc_clusterInfo := Some \<lparr>ci_clusterTag = '''', ci_region = ''''\<rparr>\<rparr>"
  from assms obtain s1 tag s2 s3 s4 s5 where 1: "parseInfraId E ?s0 = (Ok (), s1)"
    and tag: "GetClusterLegacyTagKey (st_InfraId (rc_status s1)) = Inr tag"
    and 2: "s2 = s1\<lparr>rc_clusterInfo := map_option (\<lambda>ci. ci\<lparr>ci_clusterTag := tag\<rparr>) (rc_clusterInfo s1)\<rparr>"
    and 3: "getVpcEndpointServiceName E s2 = (Ok (), s3)" and 4: "parseRegion E s3 = (Ok (), s4)"
    and 5: "establishAwsClient E True s4 = (Ok (), s5)" and 6: "parseVpcId E s5 = (Ok (), t)"
    by (auto simp: parseClusterInfo_def bindE_Ok status_eq modifyE_eq liftS_Ok set_clusterInfo_def)
  have i: "st_InfraId (rc_status s1) \<noteq> ''''" "tag = LegacyClusterTagPrefix @ ''/'' @ st_InfraId (rc_status s1)"
    using tag by (auto simp: GetClusterLegacyTagKey_def split: if_splits)
  have "rc_clusterInfo s1 = Some \<lparr>ci_clusterTag = '''', ci_region = ''''\<rparr>" "rc_spec s1 = rc_spec s"
    using sameD [OF parse_steps_same(1) 1] by simp_all
  with 2 have "rc_clusterInfo s2 = Some \<lparr>ci_clusterTag = tag, ci_region = ''''\<rparr>" "rc_spec s2 = rc_spec s"
    "st_InfraId (rc_status s2) = st_InfraId (rc_status s1)" by simp_all
  with sameD [OF parse_steps_same(2) 3] have s3: "rc_clusterInfo s3 = Some \<lparr>ci_clusterTag = tag, ci_region = ''''\<rparr>"
    "rc_spec s3 = rc_spec s" "st_InfraId (rc_status s3) = st_InfraId (rc_status s1)" by simp_all
  obtain reg where r: "rc_clusterInfo s4 = Some \<lparr>ci_clusterTag = tag, ci_region = reg\<rparr>" "rc_resource s4 = rc_resource s3"
    "sp_Region (rc_spec s) = '''' \<or> reg = sp_Region (rc_spec s)"
    by (rule parseRegion_Ok [OF 4]) (use s3 in auto)
  obtain cfg where "rc_awsClient s5 = Some cfg" "aws_Region cfg = reg" "rc_clusterInfo s5 = rc_clusterInfo s4"
    "rc_resource s5 = rc_resource s4"
    by (rule establishAwsClient_Ok [OF 5]) (use r in auto)
  with serviceName_Ok [OF 3] sameD [OF parse_steps_same(3) 6] s3 r i show ?thesis by auto
qed

text \<open>
  C27: what a parse establishes. A successful parse of the cluster information leaves everything that
  the rest of the reconciliation dereferences: the status has an infra id and a service name, the
  cluster tag is the legacy prefix with that infra id, and there is an AWS client for the region
  of the cluster information, which is that of the spec if it has one.
\<close>

theorem parse_establishes:
  assumes "parseClusterInfo E True s = (Ok (), t)"
  shows "st_InfraId (rc_status t) \<noteq> '''' \<and> st_VPCEndpointServiceName (rc_status t) \<noteq> '''' \<and>
    (\<exists>reg cfg. rc_clusterInfo t = Some \<lparr>ci_clusterTag = LegacyClusterTagPrefix @ ''/'' @ st_InfraId (rc_status t),
        ci_region = reg\<rparr> \<and> rc_awsClient t = Some cfg \<and> aws_Region cfg = reg \<and>
      (sp_Region (rc_spec s) = '''' \<or> reg = sp_Region (rc_spec s)))"
  by (rule parse_Ok [OF assms])

definition parse_env :: env where
  "parse_env = ref_env\<lparr>k8s := ref_k8s\<lparr>k8s_GetInfrastructure := (\<lambda>h. Inr \<lparr>inf_PlatformStatus = Some \<lparr>ps_Type = ''AWS'',
     ps_AWSRegion = Some ''us-east-1''\<rparr>, inf_InfrastructureName = ''infra''\<rparr>)\<rparr>\<rparr>"

theorem parse_establishes_witness:
  "\<exists>reg cfg. rc_clusterInfo (snd (parseClusterInfo parse_env True sample_state)) =
     Some \<lparr>ci_clusterTag = LegacyClusterTagPrefix @ ''/'' @ st_InfraId (rc_status (snd (parseClusterInfo parse_env True sample_state))),
       ci_region = reg\<rparr> \<and> rc_awsClient (snd (parseClusterInfo parse_env True sample_state)) = Some cfg \<and> aws_Region cfg = reg"
proof -
  have "parseClusterInfo parse_env True sample_state = (Ok (), snd (parseClusterInfo parse_env True sample_state))"
    by (simp add: parseClusterInfo_def parseInfraId_def is_hcp_def GetInfrastructureName_def GetClusterLegacyTagKey_def
        set_clusterInfo_def getVpcEndpointServiceName_def findServiceName_def parseRegion_def establishAwsClient_def
        load_config_def set_awsClient_def parseVpcId_def parse_env_def run_simps ref_defs sample_defs)
  from parse_establishes [OF this] show ?thesis by blast
qed

end
