(* ===== verification/SecurityGroups.thy ===== *)
theory SecurityGroups
  imports Reconciler
begin

text \<open>
  The security group of an endpoint (helpers.go and \<open>validateSecurityGroup\<close> of validation.go):
  finding or creating the group, its tags, and the rules that are missing. The rules that AWS reports
  and the requests for rules both stand for a set of permissions (\<open>granted\<close>, \<open>requested\<close>), against
  which the loops over the rules are proved.
\<close>

section \<open>Finding or creating the group\<close>

definition foundSecurityGroup :: "env \<Rightarrow> ec2SecurityGroup \<Rightarrow> ec2SecurityGroup rprog" where
  "foundSecurityGroup E sg =
     bindE (deref (esg_GroupId sg)) (\<lambda>groupId.
     bindE (set_status (\<lambda>v. v\<lparr>st_SecurityGroupId := groupId\<rparr>)) (\<lambda>_.
     bindE (mapErr (\<lambda>_. Errorf ''failed to update status'' []) (updateStatus E)) (\<lambda>_.
     ret sg)))"

text \<open>
  A group that was just created is recorded in the status and the reconciliation ends with an
  error, to be configured by the next one.
\<close>

definition createMissingSecurityGroup :: "env \<Rightarrow> awsConfig \<Rightarrow> string \<Rightarrow> ec2SecurityGroup rprog" where
  "createMissingSecurityGroup E c sgName =
     bindE status (\<lambda>st.
     bindE clusterTag (\<lambda>tag.
     bindE (CreateSecurityGroup E c sgName (st_VPCId st) tag) (\<lambda>createResp.
     bindE (deref createResp) (\<lambda>groupId.
     bindE (record_normal ''Created'') (\<lambda>_.
     bindE (set_status (\<lambda>v. v\<lparr>st_SecurityGroupId := groupId\<rparr>)) (\<lambda>_.
     bindE (mapErr (\<lambda>_. Errorf ''failed to update status'' []) (updateStatus E)) (\<lambda>_.
     failE (Errorf ''initial security group creation, reconciling again to configure'' []))))))))"

definition findOrCreateSecurityGroup :: "env \<Rightarrow> ec2SecurityGroup rprog" where
  "findOrCreateSecurityGroup E =
     bindE resource (\<lambda>res.
     bindE awsClient (\<lambda>c.
     bindE (FilterSecurityGroupById E c (st_SecurityGroupId (ve_Status res))) (\<lambda>resp.
     case resp of
       Some (sg # _) \<Rightarrow> foundSecurityGroup E sg
     | _ \<Rightarrow>
         bindE (liftO (GenerateSecurityGroupName (st_InfraId (ve_Status res)) (ve_Name res))) (\<lambda>sgName.
         bindE (FilterSecurityGroupByDefaultTags E c (st_InfraId (ve_Status res)) sgName) (\<lambda>byTags.
         case byTags of
           [] \<Rightarrow> createMissingSecurityGroup E c sgName
         | sg # _ \<Rightarrow> foundSecurityGroup E sg)))))"

section \<open>Tags\<close>

text \<open>The inner loop of \<open>tagsContains\<close>; \<open>None\<close> is a nil key or value that the loop reads.\<close>

fun has_tag :: "ec2Tag list \<Rightarrow> string \<Rightarrow> string \<Rightarrow> bool option" where
  "has_tag [] k v = Some False"
| "has_tag (t # ts) k v =
     do {
       key \<leftarrow> et_Key t;
       if key \<noteq> k then has_tag ts k v
       else do {
         val \<leftarrow> et_Value t;
         if val = v then Some True else has_tag ts k v
       }
     }"

fun has_all_tags :: "ec2Tag list \<Rightarrow> (string \<times> string) list \<Rightarrow> string list \<Rightarrow> bool option" where
  "has_all_tags tags tagsToCheck [] = Some True"
| "has_all_tags tags tagsToCheck (k # ks) =
     do {
       found \<leftarrow> has_tag tags k (case map_of tagsToCheck k of None \<Rightarrow> '''' | Some v \<Rightarrow> v);
       if found then has_all_tags tags tagsToCheck ks else Some False
     }"

definition tagsContains :: "range_order \<Rightarrow> ec2Tag list \<Rightarrow> (string \<times> string) list \<Rightarrow> bool option" where
  "tagsContains ord tags tagsToCheck =
     has_all_tags tags tagsToCheck (visit ord (List.map fst tagsToCheck))"

definition createMissingSecurityGroupTags :: "env \<Rightarrow> ec2SecurityGroup \<Rightarrow> unit rprog" where
  "createMissingSecurityGroupTags E sg =
     bindE resource (\<lambda>res.
     bindE (mapErr (Wrapf ''failed to generate security group name: %w'' [])
              (liftO (GenerateSecurityGroupName (st_InfraId (ve_Status res)) (ve_Name res)))) (\<lambda>sgName.
     bindE clusterTag (\<lambda>tag.
     bindE (liftO (GenerateAwsTagsAsMap sgName tag)) (\<lambda>defaultTagsMap.
     bindE (range_order_now E) (\<lambda>ord.
     bindE (deref (tagsContains ord (esg_Tags sg) defaultTagsMap)) (\<lambda>present.
     whenE (\<not> present)
       (bindE (mapErr (Wrapf ''failed to generate expected tags: %w'' [])
                (liftS (GenerateAwsTags sgName tag))) (\<lambda>defaultTags.
        bindE awsClient (\<lambda>c.
        bindE (deref (esg_GroupId sg)) (\<lambda>groupId.
        bindE (mapErr (Wrapf ''failed to create tags: %w'' [])
                 (CreateTags E c [groupId] defaultTags)) (\<lambda>_.
        record_normal ''Updated'')))))))))))"

section \<open>Rules\<close>

text \<open>Go's \<open>||\<close> stops at the first difference, so later fields may be nil without a panic.\<close>

definition avoAndAwsSecurityGroupRuleCandidate ::
    "bool \<Rightarrow> securityGroupRule \<Rightarrow> ec2SecurityGroupRule \<Rightarrow> bool option" where
  "avoAndAwsSecurityGroupRuleCandidate isEgress avoRule awsRule =
     do {
       egress \<leftarrow> esr_IsEgress awsRule;
       if isEgress \<noteq> egress then Some False
       else do {
         protocol \<leftarrow> esr_IpProtocol awsRule;
         if protocol \<noteq> sgr_Protocol avoRule then Some False
         else do {
           fromPort \<leftarrow> esr_FromPort awsRule;
           if fromPort \<noteq> sgr_FromPort avoRule then Some False
           else do {
             toPort \<leftarrow> esr_ToPort awsRule;
             Some (toPort = sgr_ToPort avoRule)
           }
         }
       }
     }"

text \<open>Is there already a rule for this address range?\<close>

fun has_cidr_rule :: "bool \<Rightarrow> securityGroupRule \<Rightarrow> string \<Rightarrow> ec2SecurityGroupRule list \<Rightarrow> bool option" where
  "has_cidr_rule isEgress avoRule cidr [] = Some False"
| "has_cidr_rule isEgress avoRule cidr (rule # rules) =
     do {
       candidate \<leftarrow> avoAndAwsSecurityGroupRuleCandidate isEgress avoRule rule;
       if candidate \<and> esr_CidrIpv4 rule = Some cidr then Some True
       else has_cidr_rule isEgress avoRule cidr rules
     }"

text \<open>Is there already a rule for this source security group?\<close>

fun has_group_rule ::
    "bool \<Rightarrow> securityGroupRule \<Rightarrow> string option \<Rightarrow> ec2SecurityGroupRule list \<Rightarrow> bool option" where
  "has_group_rule isEgress avoRule sourceSgId [] = Some False"
| "has_group_rule isEgress avoRule sourceSgId (rule # rules) =
     do {
       candidate \<leftarrow> avoAndAwsSecurityGroupRuleCandidate isEgress avoRule rule;
       if candidate then
         (case esr_ReferencedGroupInfo rule of
            None \<Rightarrow> has_group_rule isEgress avoRule sourceSgId rules
          | Some groupId \<Rightarrow>
              do {
                g \<leftarrow> groupId;
                s \<leftarrow> sourceSgId;
                if g = s then Some True else has_group_rule isEgress avoRule sourceSgId rules
              })
       else has_group_rule isEgress avoRule sourceSgId rules
     }"

definition cidr_permission :: "securityGroupRule \<Rightarrow> string \<Rightarrow> ipPermission" where
  "cidr_permission avoRule cidr =
     \<lparr>ip_Protocol = sgr_Protocol avoRule, ip_FromPort = sgr_FromPort avoRule,
      ip_ToPort = sgr_ToPort avoRule, ip_Ranges = [cidr], ip_UserIdGroupPairs = []\<rparr>"

definition group_permission :: "securityGroupRule \<Rightarrow> string option \<Rightarrow> ipPermission" where
  "group_permission avoRule sourceSgId =
     \<lparr>ip_Protocol = sgr_Protocol avoRule, ip_FromPort = sgr_FromPort avoRule,
      ip_ToPort = sgr_ToPort avoRule, ip_Ranges = [], ip_UserIdGroupPairs = [sourceSgId]\<rparr>"

text \<open>One iteration of the loop over the rules of the spec: the permissions still to be authorized.\<close>

definition missing_for_rule ::
    "bool \<Rightarrow> bool \<Rightarrow> string \<Rightarrow> string option list \<Rightarrow> ec2SecurityGroupRule list \<Rightarrow>
     securityGroupRule \<Rightarrow> ipPermission list option" where
  "missing_for_rule isEgress useVpcCidr vpcCidr sourceSgIds rules avoRule =
     (if sgr_CidrIp avoRule \<noteq> '''' then
        do {
          found \<leftarrow> has_cidr_rule isEgress avoRule (sgr_CidrIp avoRule) rules;
          Some (if found then [] else [cidr_permission avoRule (sgr_CidrIp avoRule)])
        }
      else if useVpcCidr \<and> vpcCidr \<noteq> '''' then
        do {
          found \<leftarrow> has_cidr_rule isEgress avoRule vpcCidr rules;
          Some (if found then [] else [cidr_permission avoRule vpcCidr])
        }
      else
        collect (\<lambda>sourceSgId.
          do {
            found \<leftarrow> has_group_rule isEgress avoRule sourceSgId rules;
            Some (if found then [] else [group_permission avoRule sourceSgId])
          }) sourceSgIds)"

definition missingIngress ::
    "bool \<Rightarrow> string \<Rightarrow> string option list \<Rightarrow> ec2SecurityGroupRule list \<Rightarrow> securityGroupRule list \<Rightarrow>
     ipPermission list option" where
  "missingIngress useVpcCidr vpcCidr sourceSgIds rules avoRules =
     collect (missing_for_rule False useVpcCidr vpcCidr sourceSgIds rules) avoRules"

definition missingEgress ::
    "bool \<Rightarrow> string \<Rightarrow> string option list \<Rightarrow> ec2SecurityGroupRule list \<Rightarrow> securityGroupRule list \<Rightarrow>
     ipPermission list option" where
  "missingEgress useVpcCidr vpcCidr sourceSgIds rules avoRules =
     collect (missing_for_rule True useVpcCidr vpcCidr sourceSgIds rules) avoRules"

definition authorize_input :: "string option \<Rightarrow> ipPermission list \<Rightarrow> string \<Rightarrow> authorizeInput" where
  "authorize_input groupId permissions tagKey =
     \<lparr>au_GroupId = groupId, au_IpPermissions = permissions,
      au_Tags = [mk_tag tagKey '''', mk_tag OperatorTagKey OperatorTagValue,
                 mk_tag RedHatManagedTagKey RedHatManagedTagValue]\<rparr>"

text \<open>The address range of the VPC, looked up only when the spec asks for it.\<close>

definition lookupVpcCidr :: "env \<Rightarrow> string rprog" where
  "lookupVpcCidr E =
     bindE resource (\<lambda>res.
     if sg_UseVpcCidr (sp_SecurityGroup (ve_Spec res)) then
       (if st_VPCId (ve_Status res) = ''''
        then failE (Errorf ''cannot use VPC CIDR: VPC ID is not set in status'' [])
        else bindE awsClient (\<lambda>c.
             mapErr (Wrapf ''failed to get VPC CIDR block: %w'' [])
               (GetVpcCidrBlock E c (st_VPCId (ve_Status res)))))
     else ret '''')"

definition generateMissingSecurityGroupRules ::
    "env \<Rightarrow> ec2SecurityGroup \<Rightarrow> (authorizeInput \<times> authorizeInput) rprog" where
  "generateMissingSecurityGroupRules E sg =
     bindE awsClient (\<lambda>c.
     bindE (deref (esg_GroupId sg)) (\<lambda>groupId.
     bindE (DescribeSecurityGroupRules E c groupId) (\<lambda>rules.
     bindE resource (\<lambda>res.
     bindE (FilterClusterNodeSecurityGroupsByDefaultTags E c (st_InfraId (ve_Status res))) (\<lambda>sourceSgs.
     let sourceSgIds = List.map esg_GroupId sourceSgs; spec = sp_SecurityGroup (ve_Spec res) in
     bindE (lookupVpcCidr E) (\<lambda>vpcCidr.
     bindE (deref (missingIngress (sg_UseVpcCidr spec) vpcCidr sourceSgIds rules
              (sg_IngressRules spec))) (\<lambda>ingressRules.
     bindE (deref (missingEgress (sg_UseVpcCidr spec) vpcCidr sourceSgIds rules
              (sg_EgressRules spec))) (\<lambda>egressRules.
     bindE clusterTag (\<lambda>tag.
     ret (authorize_input (esg_GroupId sg) ingressRules tag,
          authorize_input (esg_GroupId sg) egressRules tag))))))))))"

section \<open>The validation\<close>

definition validateSecurityGroup :: "env \<Rightarrow> unit rprog" where
  "validateSecurityGroup E =
     bindE (findOrCreateSecurityGroup E) (\<lambda>sg.
     bindE (createMissingSecurityGroupTags E sg) (\<lambda>_.
     bindE (generateMissingSecurityGroupRules E sg) (\<lambda>inputs.
     bindE awsClient (\<lambda>c.
     bindE (AuthorizeSecurityGroupRules E c (fst inputs) (snd inputs)) (\<lambda>_.
     bindE (isConditionTrue E AWSSecurityGroupCondition) (\<lambda>ready.
     bindE (whenE (\<not> ready)
              (bindE (age E) (\<lambda>d. metric (Observe ''vpce_security_group_ready_duration_seconds'' d)))) (\<lambda>_.
     bindE (setCondition E AWSSecurityGroupCondition ConditionTrue ''Validated'' ''Validated'') (\<lambda>_.
     updateStatus E))))))))"

section \<open>Frames\<close>

fun sg_event :: "event \<Rightarrow> bool" where
  "sg_event (Ec2 _ (DoCreateSecurityGroup _ _ _ _)) = True"
| "sg_event (Ec2 _ (DoCreateTags _ _)) = True"
| "sg_event (Ec2 _ (DoAuthorizeSecurityGroupIngress _)) = True"
| "sg_event (Ec2 _ (DoAuthorizeSecurityGroupEgress _)) = True"
| "sg_event (K8s (DoUpdateStatus _)) = True"
| "sg_event (Metric _) = True"
| "sg_event (Recorded _ _) = True"
| "sg_event e = aws_read e"

lemma sg_event_read: "aws_read e \<Longrightarrow> sg_event e"
  by (cases e rule: sg_event.cases) simp_all

lemma sg_steps_steady [steady_ops]:
  "preserves (steady sg_event) (findOrCreateSecurityGroup E)"
  "preserves (steady sg_event) (createMissingSecurityGroupTags E sg)"
  "preserves (steady sg_event) (generateMissingSecurityGroupRules E sg)"
  unfolding findOrCreateSecurityGroup_def foundSecurityGroup_def createMissingSecurityGroup_def
    createMissingSecurityGroupTags_def generateMissingSecurityGroupRules_def lookupVpcCidr_def Let_def
  by (intro steady_intros; auto intro: sg_event_read)+

lemma validateSecurityGroup_steady [steady_ops]:
  "preserves (steady sg_event) (validateSecurityGroup E)"
  unfolding validateSecurityGroup_def
  by (intro steady_intros sg_steps_steady; simp)

section \<open>What the rules should be\<close>

text \<open>
  The abstract view of rules: a set of permissions, each for a direction, a protocol, a port range
  and one source or destination. The spec asks for some, AWS has some, a request adds some.
\<close>

datatype target = CidrTarget string | GroupTarget string

type_synonym permission = "bool \<times> string \<times> int32 \<times> int32 \<times> target"

definition permission :: "bool \<Rightarrow> securityGroupRule \<Rightarrow> target \<Rightarrow> permission" where
  "permission isEgress rule x = (isEgress, sgr_Protocol rule, sgr_FromPort rule, sgr_ToPort rule, x)"

fun targets :: "bool \<Rightarrow> string \<Rightarrow> string list \<Rightarrow> securityGroupRule \<Rightarrow> target list" where
  "targets useVpcCidr vpcCidr groups rule =
     (if sgr_CidrIp rule \<noteq> '''' then [CidrTarget (sgr_CidrIp rule)]
      else if useVpcCidr \<and> vpcCidr \<noteq> '''' then [CidrTarget vpcCidr]
      else List.map GroupTarget groups)"

definition desired :: "bool \<Rightarrow> bool \<Rightarrow> string \<Rightarrow> string list \<Rightarrow> securityGroupRule list \<Rightarrow> permission set" where
  "desired isEgress useVpcCidr vpcCidr groups rules =
     (\<Union>rule\<in>set rules. permission isEgress rule ` set (targets useVpcCidr vpcCidr groups rule))"

definition rule_targets :: "ec2SecurityGroupRule \<Rightarrow> target set" where
  "rule_targets r = {CidrTarget c |c. esr_CidrIpv4 r = Some c} \<union>
     {GroupTarget g |g. esr_ReferencedGroupInfo r = Some (Some g)}"

definition granted :: "ec2SecurityGroupRule list \<Rightarrow> permission set" where
  "granted rules = {(e, p, f, t, x). \<exists>r\<in>set rules. esr_IsEgress r = Some e \<and> esr_IpProtocol r = Some p \<and>
     esr_FromPort r = Some f \<and> esr_ToPort r = Some t \<and> x \<in> rule_targets r}"

definition requested :: "bool \<Rightarrow> ipPermission list \<Rightarrow> permission set" where
  "requested isEgress perms = {(e, p, f, t, x). e = isEgress \<and> (\<exists>q\<in>set perms. ip_Protocol q = p \<and>
     ip_FromPort q = f \<and> ip_ToPort q = t \<and> (x \<in> CidrTarget ` set (ip_Ranges q) \<or>
     (\<exists>g. x = GroupTarget g \<and> Some g \<in> set (ip_UserIdGroupPairs q))))}"

text \<open>A rule as AWS documents it: no field the code reads is nil.\<close>

definition complete :: "ec2SecurityGroupRule \<Rightarrow> bool" where
  "complete r \<longleftrightarrow> esr_IsEgress r \<noteq> None \<and> esr_IpProtocol r \<noteq> None \<and> esr_FromPort r \<noteq> None \<and>
     esr_ToPort r \<noteq> None \<and> esr_ReferencedGroupInfo r \<noteq> Some None"

lemma candidate_complete:
  "complete r \<Longrightarrow> avoAndAwsSecurityGroupRuleCandidate e a r =
     Some (esr_IsEgress r = Some e \<and> esr_IpProtocol r = Some (sgr_Protocol a) \<and>
       esr_FromPort r = Some (sgr_FromPort a) \<and> esr_ToPort r = Some (sgr_ToPort a))"
  by (auto simp: complete_def avoAndAwsSecurityGroupRuleCandidate_def)

lemma granted_Nil: "x \<notin> granted []"
  by (simp add: granted_def split_beta)

lemma permission_granted_Cons:
  "permission e a x \<in> granted (r # rs) \<longleftrightarrow>
     (esr_IsEgress r = Some e \<and> esr_IpProtocol r = Some (sgr_Protocol a) \<and>
       esr_FromPort r = Some (sgr_FromPort a) \<and> esr_ToPort r = Some (sgr_ToPort a) \<and>
       x \<in> rule_targets r) \<or> permission e a x \<in> granted rs"
  by (auto simp: granted_def permission_def)

lemma has_cidr_rule_complete:
  "\<forall>r\<in>set rules. complete r \<Longrightarrow>
   has_cidr_rule e a c rules = Some (permission e a (CidrTarget c) \<in> granted rules)"
  by (induction rules)
    (auto simp: candidate_complete permission_granted_Cons granted_Nil rule_targets_def)

lemma has_group_rule_complete:
  "\<forall>r\<in>set rules. complete r \<Longrightarrow>
   has_group_rule e a (Some g) rules = Some (permission e a (GroupTarget g) \<in> granted rules)"
  by (induction rules)
    (auto simp: candidate_complete permission_granted_Cons granted_Nil rule_targets_def complete_def
      split: option.split)

lemma requested_simps:
  "requested e [] = {}"
  "requested e (xs @ ys) = requested e xs \<union> requested e ys"
  "requested e (cidr_permission a c # xs) = insert (permission e a (CidrTarget c)) (requested e xs)"
  "requested e (group_permission a (Some g) # xs) = insert (permission e a (GroupTarget g)) (requested e xs)"
  by (auto simp: requested_def cidr_permission_def group_permission_def permission_def)

lemma missing_groups:
  assumes "\<forall>r\<in>set rules. complete r"
  shows "\<exists>perms. collect (\<lambda>g. do {
        found \<leftarrow> has_group_rule e a g rules;
        Some (if found then [] else [group_permission a g])
      }) (List.map Some gs) = Some perms \<and>
    requested e perms = permission e a ` GroupTarget ` set gs - granted rules"
proof (induction gs)
  case (Cons g gs)
  then show ?case
    by (auto simp: has_group_rule_complete [OF assms] requested_simps)
qed (simp add: requested_simps)

lemma missing_for_rule_exact:
  assumes "\<forall>r\<in>set rules. complete r"
  shows "\<exists>perms. missing_for_rule e useVpcCidr vpcCidr (List.map Some gs) rules a = Some perms \<and>
    requested e perms = permission e a ` set (targets useVpcCidr vpcCidr gs a) - granted rules"
  using missing_groups [OF assms, of e a gs]
  by (auto simp: missing_for_rule_def has_cidr_rule_complete [OF assms] requested_simps image_image)

lemma missing_exact:
  assumes "\<forall>r\<in>set rules. complete r"
  shows "\<exists>perms. collect (missing_for_rule e useVpcCidr vpcCidr (List.map Some gs) rules) avoRules = Some perms \<and>
    requested e perms = desired e useVpcCidr vpcCidr gs avoRules - granted rules"
proof (induction avoRules)
  case (Cons a as)
  then obtain perms where "collect (missing_for_rule e useVpcCidr vpcCidr (List.map Some gs) rules) as = Some perms"
    "requested e perms = desired e useVpcCidr vpcCidr gs as - granted rules" by blast
  moreover obtain new where "missing_for_rule e useVpcCidr vpcCidr (List.map Some gs) rules a = Some new"
    "requested e new = permission e a ` set (targets useVpcCidr vpcCidr gs a) - granted rules"
    using missing_for_rule_exact [OF assms] by blast
  ultimately show ?case by (auto simp: requested_simps desired_def)
qed (simp add: requested_simps desired_def)

lemma missing_requested:
  assumes "\<forall>r\<in>set rules. complete r"
    and "collect (missing_for_rule e useVpcCidr vpcCidr (List.map Some gs) rules) avoRules = Some perms"
  shows "requested e perms = desired e useVpcCidr vpcCidr gs avoRules - granted rules"
  using missing_exact [OF assms(1), of e useVpcCidr vpcCidr gs avoRules] assms(2) by auto

text \<open>
  The missing rules are exact. When no field of the rules AWS reports is nil, the permissions
  the operator asks for are those the spec wants and AWS does not have: nothing is forgotten and
  nothing is asked for twice over, for each direction. Ports are compared at their 32 bits.
\<close>

lemma missing_rules_exact:
  assumes "\<forall>r\<in>set rules. complete r"
  shows "(\<exists>perms. missingIngress useVpcCidr vpcCidr (List.map Some groups) rules avoRules = Some perms \<and>
      requested False perms = desired False useVpcCidr vpcCidr groups avoRules - granted rules) \<and>
    (\<exists>perms. missingEgress useVpcCidr vpcCidr (List.map Some groups) rules avoRules = Some perms \<and>
      requested True perms = desired True useVpcCidr vpcCidr groups avoRules - granted rules)"
  unfolding missingIngress_def missingEgress_def using missing_exact [OF assms] by blast

definition sample_rule :: securityGroupRule where
  "sample_rule = \<lparr>sgr_CidrIp = '''', sgr_FromPort = 443, sgr_ToPort = 443, sgr_Protocol = ''tcp''\<rparr>"

definition sample_aws_rule :: ec2SecurityGroupRule where
  "sample_aws_rule = \<lparr>esr_IsEgress = Some False, esr_IpProtocol = Some ''tcp'', esr_FromPort = Some 443,
     esr_ToPort = Some 443, esr_CidrIpv4 = None, esr_ReferencedGroupInfo = Some (Some ''sg-a'')\<rparr>"

lemma missing_rules_exact_example:
  "(\<exists>perms. missingIngress False '''' (List.map Some [''sg-a'', ''sg-b'']) [sample_aws_rule] [sample_rule] = Some perms \<and>
      requested False perms = desired False False '''' [''sg-a'', ''sg-b''] [sample_rule] - granted [sample_aws_rule]) \<and>
   (\<exists>perms. missingEgress False '''' (List.map Some [''sg-a'', ''sg-b'']) [sample_aws_rule] [sample_rule] = Some perms \<and>
      requested True perms = desired True False '''' [''sg-a'', ''sg-b''] [sample_rule] - granted [sample_aws_rule])"
  by (rule missing_rules_exact) (simp add: complete_def sample_aws_rule_def)

section \<open>What a validated group was asked for\<close>

fun asked_by :: "event \<Rightarrow> (string option \<times> permission) set" where
  "asked_by (Ec2 _ (DoAuthorizeSecurityGroupIngress i)) = Pair (au_GroupId i) ` requested False (au_IpPermissions i)"
| "asked_by (Ec2 _ (DoAuthorizeSecurityGroupEgress i)) = Pair (au_GroupId i) ` requested True (au_IpPermissions i)"
| "asked_by _ = {}"

definition asked :: "event list \<Rightarrow> (string option \<times> permission) set" where
  "asked tr = \<Union> (asked_by ` set tr)"

lemma asked_simps [simp]:
  "asked [] = {}" "asked (e # tr) = asked_by e \<union> asked tr" "asked (xs @ ys) = asked xs \<union> asked ys"
  by (auto simp: asked_def)

fun sg_setup_event :: "event \<Rightarrow> bool" where
  "sg_setup_event (Ec2 _ (DoAuthorizeSecurityGroupIngress _)) = False"
| "sg_setup_event (Ec2 _ (DoAuthorizeSecurityGroupEgress _)) = False"
| "sg_setup_event _ = True"

lemma sg_setup_event_asks: "sg_setup_event e \<Longrightarrow> asked_by e = {}"
  by (cases e rule: sg_setup_event.cases) simp_all

lemma sg_setup_event_read: "aws_read e \<Longrightarrow> sg_setup_event e"
  by (cases e rule: sg_setup_event.cases) simp_all

lemma emits_asked: "emits sg_setup_event s t \<Longrightarrow> asked (new_events s t) = {}"
  by (auto simp: emits_def asked_def sg_setup_event_asks)

lemma steady_asked:
  assumes "steady A s t" "\<And>e. A e \<Longrightarrow> sg_setup_event e"
  shows "\<exists>tr. history t = history s @ tr \<and> asked tr = {}"
  using assms by (auto simp: steady_def emits_def asked_def sg_setup_event_asks)

lemma sg_setup_steady:
  "preserves (steady sg_setup_event) (findOrCreateSecurityGroup E)"
  "preserves (steady sg_setup_event) (createMissingSecurityGroupTags E sg)"
  "preserves (steady aws_read) (generateMissingSecurityGroupRules E sg)"
  unfolding findOrCreateSecurityGroup_def foundSecurityGroup_def createMissingSecurityGroup_def
    createMissingSecurityGroupTags_def generateMissingSecurityGroupRules_def lookupVpcCidr_def Let_def
  by (intro steady_intros; auto intro: sg_setup_event_read)+

lemma sg_steps_keep:
  "preserves (keeps (\<lambda>v. (st_SecurityGroupId v, st_VPCId v, st_InfraId v))) (createMissingSecurityGroupTags E sg)"
  "preserves (keeps (\<lambda>v. (st_SecurityGroupId v, st_VPCId v, st_InfraId v))) (generateMissingSecurityGroupRules E sg)"
  unfolding createMissingSecurityGroupTags_def generateMissingSecurityGroupRules_def lookupVpcCidr_def Let_def
  by (intro keeps_intros; simp)+

lemma findOrCreateSecurityGroup_yields:
  "yields (findOrCreateSecurityGroup E) (\<lambda>sg t. esg_GroupId sg = Some (st_SecurityGroupId (rc_status t)))"
proof -
  have found: "yields (foundSecurityGroup E sg) (\<lambda>sg t. esg_GroupId sg = Some (st_SecurityGroupId (rc_status t)))" for sg
    by (rule yieldsI) (auto simp: foundSecurityGroup_def rc_Ok split: option.splits)
  have created: "yields (createMissingSecurityGroup E c n) Q" for c n Q
    unfolding createMissingSecurityGroup_def by (intro yields_intros)
  show ?thesis
    unfolding findOrCreateSecurityGroup_def by (intro yields_intros found created)
qed

text \<open>
  What the run from \<open>s\<close> to \<open>t\<close> was told: the node security groups of the cluster, the rules of
  the group \<open>g\<close> and, if the spec of \<open>v\<close> uses it, the address range of the VPC.
\<close>

definition node_filters :: "string \<Rightarrow> ec2Filter list" where
  "node_filters infra =
     [\<lparr>flt_Name = ''tag-key'', flt_Values = [LegacyClusterTagPrefix @ ''/'' @ infra,
         CapiClusterTagPrefix @ ''/'' @ infra]\<rparr>,
      \<lparr>flt_Name = ''tag:Name'', flt_Values = List.map (\<lambda>format. format infra) SupportedInfraIDSuffixes\<rparr>]"

definition node_groups :: "env \<Rightarrow> awsConfig \<Rightarrow> string \<Rightarrow> ec2SecurityGroup list \<Rightarrow> reconciler \<Rightarrow> reconciler \<Rightarrow> bool" where
  "node_groups E c infra sgs s t \<longleftrightarrow>
     reported (ec2_DescribeSecurityGroups (ec2 E)) (Ec2 c (DoDescribeSecurityGroups (node_filters infra) [])) sgs s t"

definition group_rules :: "env \<Rightarrow> awsConfig \<Rightarrow> string \<Rightarrow> ec2SecurityGroupRule list \<Rightarrow> reconciler \<Rightarrow> reconciler \<Rightarrow> bool" where
  "group_rules E c g rules s t \<longleftrightarrow>
     reported (ec2_DescribeSecurityGroupRules (ec2 E))
       (Ec2 c (DoDescribeSecurityGroupRules [\<lparr>flt_Name = ''group-id'', flt_Values = [g]\<rparr>])) rules s t"

definition vpc_cidr :: "env \<Rightarrow> awsConfig \<Rightarrow> vpcEndpoint \<Rightarrow> string \<Rightarrow> reconciler \<Rightarrow> reconciler \<Rightarrow> bool" where
  "vpc_cidr E c v cidr s t \<longleftrightarrow>
     (if sg_UseVpcCidr (sp_SecurityGroup (ve_Spec v))
      then \<exists>vpc rest. ev_CidrBlock vpc = Some cidr \<and>
        reported (ec2_DescribeVpcs (ec2 E)) (Ec2 c (DoDescribeVpcs [] [st_VPCId (ve_Status v)])) (vpc # rest) s t
      else cidr = '''')"

lemma reads_later:
  assumes "emits A t u"
  shows "node_groups E c infra sgs s t \<Longrightarrow> node_groups E c infra sgs s u"
    and "group_rules E c g rules s t \<Longrightarrow> group_rules E c g rules s u"
    and "vpc_cidr E c v cidr s t \<Longrightarrow> vpc_cidr E c v cidr s u"
  using assms by (fastforce simp: node_groups_def group_rules_def vpc_cidr_def intro: reported_later)+

lemma reads_sooner:
  assumes "emits A r s"
  shows "node_groups E c infra sgs s t \<Longrightarrow> node_groups E c infra sgs r t"
    and "group_rules E c g rules s t \<Longrightarrow> group_rules E c g rules r t"
    and "vpc_cidr E c v cidr s t \<Longrightarrow> vpc_cidr E c v cidr r t"
  using assms by (fastforce simp: node_groups_def group_rules_def vpc_cidr_def intro: reported_sooner)+

lemma nodeGroups_Ok:
  assumes "FilterClusterNodeSecurityGroupsByDefaultTags E c infra s = (Ok sgs, t)"
  shows "node_groups E c infra sgs s t"
  using assms
  by (auto simp: FilterClusterNodeSecurityGroupsByDefaultTags_def node_groups_def node_filters_def
      GetClusterLegacyTagKey_def GetClusterCapiTagKey_def Let_def bindE_Ok liftS_eq
      dest: invoke_reported split: if_splits)

lemma groupRules_Ok:
  assumes "DescribeSecurityGroupRules E c g s = (Ok rules, t)"
  shows "group_rules E c g rules s t"
  using assms by (auto simp: DescribeSecurityGroupRules_def group_rules_def dest: invoke_reported)

lemma GetVpcCidrBlock_Ok:
  assumes "GetVpcCidrBlock E c vpcId s = (Ok cidr, t)"
  shows "\<exists>vpc rest. ev_CidrBlock vpc = Some cidr \<and>
    reported (ec2_DescribeVpcs (ec2 E)) (Ec2 c (DoDescribeVpcs [] [vpcId])) (vpc # rest) s t"
proof -
  let ?ev = "Ec2 c (DoDescribeVpcs [] [vpcId])"
  obtain resp u where a: "attempt (invoke ?ev (ec2_DescribeVpcs (ec2 E))) s = (Ok resp, u)"
    and k: "(case resp of Inl err \<Rightarrow> failE (Wrapf ''failed to describe VPC %s: %w'' [FS vpcId] err)
        | Inr [] \<Rightarrow> failE (Errorf ''no VPC found with id: %s'' [FS vpcId])
        | Inr (v # _) \<Rightarrow> (case ev_CidrBlock v of
            None \<Rightarrow> failE (Errorf ''VPC %s has no CIDR block'' [FS vpcId]) | Some x \<Rightarrow> ret x)) u = (Ok cidr, t)"
    using assms by (auto simp: GetVpcCidrBlock_def bindE_Ok failE_eq split: if_splits)
  then obtain v rest where "resp = Inr (v # rest)" "ev_CidrBlock v = Some cidr" "u = t"
    by (auto simp: run_eqs split: sum.splits list.splits option.splits)
  with a show ?thesis by (auto simp: attempt_Ok dest: invoke_reported)
qed

lemma lookupVpcCidr_Ok:
  assumes "lookupVpcCidr E s = (Ok cidr, t)" "rc_awsClient s = Some c"
  shows "vpc_cidr E c (rc_resource s) cidr s t"
  using assms
  by (auto simp: lookupVpcCidr_def vpc_cidr_def rc_Ok split: if_splits) (metis GetVpcCidrBlock_Ok)

lemma lookupVpcCidr_steady: "preserves (steady aws_read) (lookupVpcCidr E)"
  unfolding lookupVpcCidr_def by (intro steady_intros; simp)

text \<open>The inputs of a request: what the rules, groups and range that AWS reported make of the spec.\<close>

lemma generateMissing_Ok:
  assumes "generateMissingSecurityGroupRules E sg s = (Ok inputs, t)" "esg_GroupId sg = Some g"
  obtains c rules sgs cidr ing egr where "rc_awsClient s = Some c"
    and "group_rules E c g rules s t"
    and "node_groups E c (st_InfraId (rc_status s)) sgs s t"
    and "vpc_cidr E c (rc_resource s) cidr s t"
    and "missingIngress (sg_UseVpcCidr (sp_SecurityGroup (rc_spec s))) cidr (List.map esg_GroupId sgs) rules
           (sg_IngressRules (sp_SecurityGroup (rc_spec s))) = Some ing"
    and "missingEgress (sg_UseVpcCidr (sp_SecurityGroup (rc_spec s))) cidr (List.map esg_GroupId sgs) rules
           (sg_EgressRules (sp_SecurityGroup (rc_spec s))) = Some egr"
    and "au_GroupId (fst inputs) = Some g" "au_IpPermissions (fst inputs) = ing"
    and "au_GroupId (snd inputs) = Some g" "au_IpPermissions (snd inputs) = egr"
proof -
  from assms obtain c rules s1 sgs s2 cidr tag ing egr where c: "rc_awsClient s = Some c"
    and 1: "DescribeSecurityGroupRules E c g s = (Ok rules, s1)"
    and 2: "FilterClusterNodeSecurityGroupsByDefaultTags E c (st_InfraId (rc_status s1)) s1 = (Ok sgs, s2)"
    and 3: "lookupVpcCidr E s2 = (Ok cidr, t)"
    and i: "missingIngress (sg_UseVpcCidr (sp_SecurityGroup (rc_spec s1))) cidr (List.map esg_GroupId sgs) rules
           (sg_IngressRules (sp_SecurityGroup (rc_spec s1))) = Some ing"
    and e: "missingEgress (sg_UseVpcCidr (sp_SecurityGroup (rc_spec s1))) cidr (List.map esg_GroupId sgs) rules
           (sg_EgressRules (sp_SecurityGroup (rc_spec s1))) = Some egr"
    and inputs: "inputs = (authorize_input (Some g) ing tag, authorize_input (Some g) egr tag)"
    by (auto simp: generateMissingSecurityGroupRules_def Let_def rc_Ok split: option.splits)
  have "calls aws_read s s1" "calls aws_read s1 s2"
    using 1 2 by (auto intro: preservesD [OF ec2_readers(4)] preservesD [OF ec2_readers(1)])
  then have s1: "s1 = s\<lparr>history := history s1\<rparr>" and s2: "s2 = s\<lparr>history := history s2\<rparr>"
    and s01: "emits aws_read s s1" and s12: "emits aws_read s1 s2"
    by (auto simp: calls_def emits_def)
  have s02: "emits aws_read s s2" using s01 s12 by (rule emits_trans)
  have s2t: "emits aws_read s2 t" using preservesD [OF lookupVpcCidr_steady 3] by (simp add: steady_def)
  have res: "rc_resource s1 = rc_resource s" "rc_resource s2 = rc_resource s" "rc_awsClient s2 = Some c"
    by (subst s1 s2; simp add: c)+
  show thesis
    using that [OF c _ _ _ i [unfolded res] e [unfolded res]]
      reads_later(2) [OF s2t reads_later(2) [OF s12 groupRules_Ok [OF 1]]]
      reads_sooner(1) [OF s01 reads_later(1) [OF s2t nodeGroups_Ok [OF 2]]]
      reads_sooner(3) [OF s02 lookupVpcCidr_Ok [OF 3 res(3)]]
    by (simp add: res inputs authorize_input_def)
qed

lemma authorize_Ok:
  assumes "AuthorizeSecurityGroupRules E c i e s = (Ok rs, t)"
  shows "\<exists>tr. t = s\<lparr>history := history s @ tr\<rparr> \<and> asked tr =
    Pair (au_GroupId i) ` requested False (au_IpPermissions i) \<union>
    Pair (au_GroupId e) ` requested True (au_IpPermissions e)"
  using assms
  by (auto simp: AuthorizeSecurityGroupRules_def bindE_Ok invoke_Ok ret_eq requested_simps split: if_splits
      intro: exI [of _ "[]"] exI [of _ "[_]"] exI [of _ "[_, _]"])

definition whenReady :: "env \<Rightarrow> unit rprog" where
  "whenReady E =
     bindE (isConditionTrue E AWSSecurityGroupCondition) (\<lambda>ready.
     bindE (whenE (\<not> ready)
              (bindE (age E) (\<lambda>d. metric (Observe ''vpce_security_group_ready_duration_seconds'' d)))) (\<lambda>_.
     bindE (setCondition E AWSSecurityGroupCondition ConditionTrue ''Validated'' ''Validated'') (\<lambda>_.
     updateStatus E)))"

lemma whenReady_frame:
  "preserves (steady sg_setup_event) (whenReady E)"
  "preserves (keeps (\<lambda>v. (st_SecurityGroupId v, st_VPCId v, st_InfraId v))) (whenReady E)"
  unfolding whenReady_def by (intro steady_intros; simp) (intro keeps_intros; simp)

text \<open>What the stages of a successful validation read and ask for, with the group of its final status.\<close>

lemma validateSecurityGroup_asks:
  assumes "validateSecurityGroup E s = (Ok (), t)"
  obtains c rules sgs cidr ing egr where "group_rules E c (st_SecurityGroupId (rc_status t)) rules s t"
    "node_groups E c (st_InfraId (rc_status t)) sgs s t" "vpc_cidr E c (rc_resource t) cidr s t"
    "missingIngress (sg_UseVpcCidr (sp_SecurityGroup (rc_spec s))) cidr (List.map esg_GroupId sgs) rules
       (sg_IngressRules (sp_SecurityGroup (rc_spec s))) = Some ing"
    "missingEgress (sg_UseVpcCidr (sp_SecurityGroup (rc_spec s))) cidr (List.map esg_GroupId sgs) rules
       (sg_EgressRules (sp_SecurityGroup (rc_spec s))) = Some egr"
    "asked (new_events s t) = Pair (Some (st_SecurityGroupId (rc_status t))) ` (requested False ing \<union> requested True egr)"
proof -
  from assms obtain sg s1 s2 inputs s3 c rs s4 where
    1: "findOrCreateSecurityGroup E s = (Ok sg, s1)"
    and 2: "createMissingSecurityGroupTags E sg s1 = (Ok (), s2)"
    and 3: "generateMissingSecurityGroupRules E sg s2 = (Ok inputs, s3)"
    and 4: "AuthorizeSecurityGroupRules E c (fst inputs) (snd inputs) s3 = (Ok rs, s4)"
    and 5: "whenReady E s4 = (Ok (), t)"
    unfolding validateSecurityGroup_def whenReady_def [symmetric] by (auto simp: bindE_Ok awsClient_eq)
  let ?g = "st_SecurityGroupId (rc_status t)" and ?spec = "sp_SecurityGroup (rc_spec s)"
  obtain tr where s4: "s4 = s3\<lparr>history := history s3 @ tr\<rparr>" and tr: "asked tr =
    Pair (au_GroupId (fst inputs)) ` requested False (au_IpPermissions (fst inputs)) \<union>
    Pair (au_GroupId (snd inputs)) ` requested True (au_IpPermissions (snd inputs))"
    using authorize_Ok [OF 4] by blast
  have sy: "steady sg_setup_event s s1" "steady sg_setup_event s1 s2" "steady aws_read s2 s3"
    "steady sg_setup_event s4 t"
    using preservesD [OF sg_setup_steady(1) 1] preservesD [OF sg_setup_steady(2) 2]
      preservesD [OF sg_setup_steady(3) 3] preservesD [OF whenReady_frame(1) 5] by simp_all
  have g: "esg_GroupId sg = Some ?g"
    using yieldsD [OF findOrCreateSecurityGroup_yields 1] keepsD [OF sg_steps_keep(1) 2]
      keepsD [OF sg_steps_keep(2) 3] keepsD [OF whenReady_frame(2) 5] by (simp add: s4)
  have same: "st_VPCId (rc_status t) = st_VPCId (rc_status s2)" "st_InfraId (rc_status s2) = st_InfraId (rc_status t)"
    using keepsD [OF sg_steps_keep(2) 3] keepsD [OF whenReady_frame(2) 5] by (simp_all add: s4)
  have spec: "rc_spec s2 = rc_spec s" "rc_spec t = rc_spec s" using sy s4 by (simp_all add: steady_def)
  obtain c' rules sgs cidr ing egr where r: "group_rules E c' ?g rules s2 s3"
    "node_groups E c' (st_InfraId (rc_status t)) sgs s2 s3"
    "vpc_cidr E c' (rc_resource s2) cidr s2 s3"
    and ing: "missingIngress (sg_UseVpcCidr ?spec) cidr (List.map esg_GroupId sgs) rules (sg_IngressRules ?spec) = Some ing"
    and egr: "missingEgress (sg_UseVpcCidr ?spec) cidr (List.map esg_GroupId sgs) rules (sg_EgressRules ?spec) = Some egr"
    and inputs: "au_GroupId (fst inputs) = Some ?g" "au_IpPermissions (fst inputs) = ing"
      "au_GroupId (snd inputs) = Some ?g" "au_IpPermissions (snd inputs) = egr"
    by (rule generateMissing_Ok [OF 3 g, unfolded spec same])
  obtain as bs cs ds where "history s1 = history s @ as" "history s2 = history s1 @ bs"
    "history s3 = history s2 @ cs" "history t = history s4 @ ds"
    "asked as = {}" "asked bs = {}" "asked cs = {}" "asked ds = {}"
    using steady_asked [OF sy(1)] steady_asked [OF sy(2)] steady_asked [OF sy(4)]
      steady_asked [OF sy(3) sg_setup_event_read] by auto
  then have asked: "asked (new_events s t) = asked tr" and "history t = history s3 @ tr @ ds"
    by (simp_all add: new_events_def s4)
  then have s3t: "emits (\<lambda>_. True) s3 t" by (simp add: emits_def)
  have ss2: "emits (\<lambda>_. True) s s2"
    using sy(1,2) by (auto simp: steady_def intro: emits_trans emits_weaken)
  note now = reads_later(1) [OF s3t reads_sooner(1) [OF ss2 r(2)]] reads_later(2) [OF s3t reads_sooner(2) [OF ss2 r(1)]]
    reads_later(3) [OF s3t reads_sooner(3) [OF ss2 r(3)]]
  from now(3) have "vpc_cidr E c' (rc_resource t) cidr s t" by (simp add: vpc_cidr_def spec same split: if_splits)
  from that [OF now(2,1) this ing egr] show thesis by (simp add: asked tr inputs image_Un)
qed

text \<open>
  C6: a validated security group is complete. When the validation succeeds, the permissions it
  asked AWS for are, for the group in the status, exactly those that the spec wants and that AWS
  did not report: for the node security groups of the cluster and the VPC range that AWS reported
  during this run. Any others it asks for no group.
\<close>

theorem validated_group_is_complete:
  assumes "validateSecurityGroup E s = (Ok (), t)"
    and "\<And>h rules. ec2_DescribeSecurityGroupRules (ec2 E) h = Inr rules \<Longrightarrow> list_all complete rules"
    and "\<And>h sgs. ec2_DescribeSecurityGroups (ec2 E) h = Inr sgs \<Longrightarrow> None \<notin> esg_GroupId ` set sgs"
  shows "\<exists>c rules sgs cidr. let g = st_SecurityGroupId (rc_status t);
        spec = sp_SecurityGroup (rc_spec s); ids = List.map (the \<circ> esg_GroupId) sgs
      in group_rules E c g rules s t \<and> node_groups E c (st_InfraId (rc_status t)) sgs s t \<and>
        vpc_cidr E c (rc_resource t) cidr s t \<and>
        asked (new_events s t) = Pair (Some g) `
          ((desired False (sg_UseVpcCidr spec) cidr ids (sg_IngressRules spec) \<union>
            desired True (sg_UseVpcCidr spec) cidr ids (sg_EgressRules spec)) - granted rules)"
proof -
  let ?g = "st_SecurityGroupId (rc_status t)" and ?spec = "sp_SecurityGroup (rc_spec s)"
  obtain c rules sgs cidr ing egr where reads: "group_rules E c ?g rules s t"
      "node_groups E c (st_InfraId (rc_status t)) sgs s t" "vpc_cidr E c (rc_resource t) cidr s t"
    and ing: "missingIngress (sg_UseVpcCidr ?spec) cidr (List.map esg_GroupId sgs) rules (sg_IngressRules ?spec) = Some ing"
    and egr: "missingEgress (sg_UseVpcCidr ?spec) cidr (List.map esg_GroupId sgs) rules (sg_EgressRules ?spec) = Some egr"
    and asked: "asked (new_events s t) = Pair (Some ?g) ` (requested False ing \<union> requested True egr)"
    by (rule validateSecurityGroup_asks [OF assms(1)])
  obtain h h' where "ec2_DescribeSecurityGroupRules (ec2 E) h = Inr rules"
      "ec2_DescribeSecurityGroups (ec2 E) h' = Inr sgs"
    using reads unfolding group_rules_def node_groups_def reported_def by blast
  then have "list_all complete rules" "None \<notin> esg_GroupId ` set sgs"
    using assms(2,3) by blast+
  then have cmp: "\<forall>r\<in>set rules. complete r"
    and ids: "List.map esg_GroupId sgs = List.map Some (List.map (the \<circ> esg_GroupId) sgs)"
    by (auto simp: list_all_iff image_iff)
  have "requested False ing = desired False (sg_UseVpcCidr ?spec) cidr (List.map (the \<circ> esg_GroupId) sgs)
        (sg_IngressRules ?spec) - granted rules"
    and "requested True egr = desired True (sg_UseVpcCidr ?spec) cidr (List.map (the \<circ> esg_GroupId) sgs)
        (sg_EgressRules ?spec) - granted rules"
    by (rule missing_requested [OF cmp ing [unfolded ids missingIngress_def]],
        rule missing_requested [OF cmp egr [unfolded ids missingEgress_def]])
  with reads asked show ?thesis
    unfolding Let_def by (intro exI [of _ c] exI [of _ rules] exI [of _ sgs] exI [of _ cidr]) (simp add: Un_Diff)
qed

text \<open>An account with a configured group, a rule for one of two node groups, and the state of it.\<close>

definition sample_group :: ec2SecurityGroup where
  "sample_group = \<lparr>esg_GroupId = Some ''sg-1'', esg_Tags = [mk_tag OperatorTagKey OperatorTagValue,
     mk_tag RedHatManagedTagKey RedHatManagedTagValue, mk_tag ''kubernetes.io/cluster/infra'' ''owned'',
     mk_tag ''Name'' ''infra-example-sg'']\<rparr>"

definition group_env :: env where
  "group_env = ref_env\<lparr>ec2 := ref_ec2\<lparr>ec2_DescribeSecurityGroups := (\<lambda>h. Inr [sample_group]),
     ec2_DescribeSecurityGroupRules := (\<lambda>h. Inr [sample_aws_rule])\<rparr>\<rparr>"

lemma sample_group_validated:
  "validateSecurityGroup group_env sample_state = (Ok (), snd (validateSecurityGroup group_env sample_state))"
  by (simp add: validateSecurityGroup_def findOrCreateSecurityGroup_def FilterSecurityGroupById_def
      foundSecurityGroup_def createMissingSecurityGroupTags_def sgn.short GenerateAwsTagsAsMap_Ok
      gomap_def tagsContains_def OperatorTagKey_def RedHatManagedTagKey_def
      generateMissingSecurityGroupRules_def DescribeSecurityGroupRules_def
      FilterClusterNodeSecurityGroupsByDefaultTags_def GetClusterLegacyTagKey_def GetClusterCapiTagKey_def
      lookupVpcCidr_def missingIngress_def missingEgress_def AuthorizeSecurityGroupRules_def authorize_input_def
      group_env_def sample_group_def run_simps ref_defs sample_defs Let_def)

theorem validated_group_is_complete_witness:
  "\<exists>c rules sgs cidr. let t = snd (validateSecurityGroup group_env sample_state);
        g = st_SecurityGroupId (rc_status t);
        spec = sp_SecurityGroup (rc_spec sample_state); ids = List.map (the \<circ> esg_GroupId) sgs
      in group_rules group_env c g rules sample_state t \<and>
        node_groups group_env c (st_InfraId (rc_status t)) sgs sample_state t \<and>
        vpc_cidr group_env c (rc_resource t) cidr sample_state t \<and>
        asked (new_events sample_state t) = Pair (Some g) `
          ((desired False (sg_UseVpcCidr spec) cidr ids (sg_IngressRules spec) \<union>
            desired True (sg_UseVpcCidr spec) cidr ids (sg_EgressRules spec)) - granted rules)"
  using validated_group_is_complete [OF sample_group_validated]
  by (simp add: group_env_def sample_group_def sample_aws_rule_def complete_def Let_def)

section \<open>Convergence\<close>

lemma granted_nothing_missing:
  assumes "\<forall>r\<in>set rules. complete r"
    and "desired e useVpcCidr vpcCidr gs avoRules \<subseteq> granted rules"
  shows "collect (missing_for_rule e useVpcCidr vpcCidr (List.map Some gs) rules) avoRules = Some []"
  unfolding collect_Nil
proof
  fix a
  assume "a \<in> set avoRules"
  with assms(2) have "\<And>x. x \<in> set (targets useVpcCidr vpcCidr gs a) \<Longrightarrow> permission e a x \<in> granted rules"
    unfolding desired_def by blast
  then show "missing_for_rule e useVpcCidr vpcCidr (List.map Some gs) rules a = Some []"
    by (auto simp: missing_for_rule_def has_cidr_rule_complete [OF assms(1)]
        has_group_rule_complete [OF assms(1)] collect_Nil split: if_splits)
qed

text \<open>
  The rules converge. Once AWS grants, besides what it granted before, what the operator asked
  for, the next reconciliation with the same spec, groups and range asks for nothing. Rules that
  others added meanwhile do not disturb it.
\<close>

lemma rules_converge:
  assumes "\<forall>r\<in>set rules. complete r" "\<forall>r\<in>set rules'. complete r"
    and "missingIngress useVpcCidr vpcCidr (List.map Some groups) rules ingress = Some ing"
    and "missingEgress useVpcCidr vpcCidr (List.map Some groups) rules egress = Some egr"
    and "granted rules \<union> requested False ing \<union> requested True egr \<subseteq> granted rules'"
  shows "missingIngress useVpcCidr vpcCidr (List.map Some groups) rules' ingress = Some [] \<and>
    missingEgress useVpcCidr vpcCidr (List.map Some groups) rules' egress = Some []"
  using missing_requested [OF assms(1) assms(3) [unfolded missingIngress_def]]
    missing_requested [OF assms(1) assms(4) [unfolded missingEgress_def]] assms(2,5)
  unfolding missingIngress_def missingEgress_def by (auto intro!: granted_nothing_missing)

lemma rules_converge_example:
  "missingIngress False '''' (List.map Some [''sg-a'']) [sample_aws_rule] [sample_rule] = Some [] \<and>
   missingEgress False '''' (List.map Some [''sg-a'']) [sample_aws_rule] [] = Some []"
proof (rule rules_converge)
  show "missingIngress False '''' (List.map Some [''sg-a'']) [] [sample_rule] =
      Some [group_permission sample_rule (Some ''sg-a'')]"
    by (simp add: missingIngress_def missing_for_rule_def sample_rule_def)
  show "missingEgress False '''' (List.map Some [''sg-a'']) [] [] = Some []"
    by (simp add: missingEgress_def)
  show "granted [] \<union> requested False [group_permission sample_rule (Some ''sg-a'')] \<union> requested True []
      \<subseteq> granted [sample_aws_rule]"
    by (auto simp: requested_simps granted_Nil permission_granted_Cons rule_targets_def sample_aws_rule_def sample_rule_def)
qed (simp_all add: complete_def sample_aws_rule_def)

section \<open>Creating the group\<close>

text \<open>The filters that find the group of this resource among those of the cluster.\<close>

definition own_filters :: "string \<Rightarrow> string \<Rightarrow> ec2Filter list" where
  "own_filters infra sgName =
     [\<lparr>flt_Name = ''tag:Name'', flt_Values = [sgName]\<rparr>,
      \<lparr>flt_Name = ''tag-key'', flt_Values = [LegacyClusterTagPrefix @ ''/'' @ infra]\<rparr>,
      \<lparr>flt_Name = ''tag:'' @ OperatorTagKey, flt_Values = [OperatorTagValue]\<rparr>]"

lemma ownGroups_Ok:
  assumes "FilterSecurityGroupByDefaultTags E c infra n s = (Ok sgs, t)"
  shows "reported (ec2_DescribeSecurityGroups (ec2 E)) (Ec2 c (DoDescribeSecurityGroups (own_filters infra n) []))
    sgs s t"
  using assms
  by (auto simp: FilterSecurityGroupByDefaultTags_def own_filters_def GetClusterLegacyTagKey_def
      bindE_Ok liftS_eq dest: invoke_reported split: if_splits)

fun creates_group :: "event \<Rightarrow> bool" where
  "creates_group (Ec2 _ (DoCreateSecurityGroup _ _ _ _)) = True"
| "creates_group _ = False"

lemma creates_group_read: "aws_read e \<Longrightarrow> \<not> creates_group e"
  by (cases e rule: creates_group.cases) simp_all

lemma CreateSecurityGroup_creates:
  "preserves (emits (\<lambda>e. creates_group e \<longrightarrow> (\<exists>tags. GenerateAwsTags n tag = Inr tags \<and>
     e = Ec2 c (DoCreateSecurityGroup n SecurityGroupDescription tags vpc)))) (CreateSecurityGroup E c n vpc tag)"
proof (cases "GenerateAwsTags n tag")
  case (Inl err)
  then show ?thesis
    by (intro preservesI) (auto simp: CreateSecurityGroup_def run_simps emits_refl)
next
  case (Inr tags)
  show ?thesis
    unfolding CreateSecurityGroup_def Inr liftS_def sum.case bindE_ret_left
    by (intro emits_intros) simp_all
qed

lemma createMissing_creates:
  assumes "createMissingSecurityGroup E c n s = (r, t)" "e \<in> set (new_events s t)" "creates_group e"
  shows "\<exists>info tags. rc_clusterInfo s = Some info \<and> GenerateAwsTags n (ci_clusterTag info) = Inr tags \<and>
    e = Ec2 c (DoCreateSecurityGroup n SecurityGroupDescription tags (st_VPCId (rc_status s)))"
proof (cases "rc_clusterInfo s")
  case None
  with assms show ?thesis by (simp add: createMissingSecurityGroup_def run_simps new_events_def)
next
  case (Some info)
  define rest :: "string option \<Rightarrow> ec2SecurityGroup rprog" where "rest createResp =
     bindE (deref createResp) (\<lambda>groupId.
     bindE (record_normal ''Created'') (\<lambda>_.
     bindE (set_status (\<lambda>v. v\<lparr>st_SecurityGroupId := groupId\<rparr>)) (\<lambda>_.
     bindE (mapErr (\<lambda>_. Errorf ''failed to update status'' []) (updateStatus E)) (\<lambda>_.
     failE (Errorf ''initial security group creation, reconciling again to configure'' [])))))" for createResp :: "string option"
  have run: "bindE (CreateSecurityGroup E c n (st_VPCId (rc_status s)) (ci_clusterTag info)) rest s = (r, t)"
    using assms(1) Some unfolding createMissingSecurityGroup_def rest_def
    by (simp add: bindE_run [of status] bindE_run [of clusterTag] run_simps(19-))
  have "preserves (steady (\<lambda>e. \<not> creates_group e)) (rest x)" for x :: "string option"
    unfolding rest_def by (intro steady_intros; simp)
  then have rest: "\<And>x. preserves (emits (\<lambda>e. \<not> creates_group e)) (rest x)"
    by (rule preserves_steady_emits)
  have "preserves (emits (\<lambda>_. True)) (CreateSecurityGroup E c n (st_VPCId (rc_status s)) (ci_clusterTag info))"
    by (intro preserves_calls_emits ec2_writers(1)) simp_all
  from event_earlier [OF run assms(2) this rest] assms(3) obtain q u where
    "CreateSecurityGroup E c n (st_VPCId (rc_status s)) (ci_clusterTag info) s = (q, u)" "e \<in> set (new_events s u)"
    by auto
  with preservesD [OF CreateSecurityGroup_creates this(1)] assms(3) Some show ?thesis
    by (auto dest: new_events_emits)
qed

lemma group_setup_frames:
  "preserves (emits (\<lambda>e. \<not> creates_group e)) (FilterSecurityGroupById E c i)"
  "preserves (emits (\<lambda>e. \<not> creates_group e)) (FilterSecurityGroupByDefaultTags E c infra n)"
  "preserves (steady (\<lambda>e. \<not> creates_group e)) (foundSecurityGroup E sg)"
  unfolding foundSecurityGroup_def
  by (intro preserves_calls_emits ec2_readers; simp add: creates_group_read)+
    (intro steady_intros; simp)

text \<open>
  Where the search by id finds nothing: AWS was not asked as the status has no group, it does not
  know the group, or it answered with an empty list.
\<close>

definition lookup_by_tags :: "env \<Rightarrow> awsConfig \<Rightarrow> string \<Rightarrow> string \<Rightarrow> ec2SecurityGroup rprog" where
  "lookup_by_tags E c infra n =
     bindE (FilterSecurityGroupByDefaultTags E c infra n) (\<lambda>byTags.
       case byTags of
         [] \<Rightarrow> createMissingSecurityGroup E c n
       | sg # _ \<Rightarrow> foundSecurityGroup E sg)"

lemma lookup_by_tags_creates:
  assumes "lookup_by_tags E c infra n s = (r, t)" "e \<in> set (new_events s t)" "creates_group e"
  shows "reported (ec2_DescribeSecurityGroups (ec2 E)) (Ec2 c (DoDescribeSecurityGroups (own_filters infra n) []))
      [] s t \<and>
    (\<exists>info tags. rc_clusterInfo s = Some info \<and> GenerateAwsTags n (ci_clusterTag info) = Inr tags \<and>
      e = Ec2 c (DoCreateSecurityGroup n SecurityGroupDescription tags (st_VPCId (rc_status s))))"
proof -
  let ?k = "\<lambda>byTags. case byTags of [] \<Rightarrow> createMissingSecurityGroup E c n | sg # _ \<Rightarrow> foundSecurityGroup E sg"
  have grow: "preserves (emits (\<lambda>_. True)) (?k x)" for x
    unfolding createMissingSecurityGroup_def foundSecurityGroup_def
    by (intro preserves_steady_emits steady_intros; simp)
  obtain x u where f: "FilterSecurityGroupByDefaultTags E c infra n s = (Ok x, u)" and k: "?k x u = (r, t)"
    and e: "e \<in> set (new_events u t)"
    by (rule event_later [OF assms(1) [unfolded lookup_by_tags_def] assms(2) group_setup_frames(2) grow])
      (use assms(3) in simp)
  have "calls (\<lambda>_. True) s u" using f by (rule preservesD [rotated]) (rule ec2_readers, simp)
  then have su: "rc_clusterInfo u = rc_clusterInfo s" "rc_status u = rc_status s" by (auto simp: calls_def)
  have "x = []"
  proof (cases x)
    case (Cons sg sgs)
    with k have "foundSecurityGroup E sg u = (r, t)" by simp
    with preservesD [OF group_setup_frames(3) this] e assms(3) show ?thesis by (auto dest: steady_event)
  qed simp
  with k createMissing_creates [of E c n u r t e] e assms(3) su
  have "\<exists>info tags. rc_clusterInfo s = Some info \<and> GenerateAwsTags n (ci_clusterTag info) = Inr tags \<and>
      e = Ec2 c (DoCreateSecurityGroup n SecurityGroupDescription tags (st_VPCId (rc_status s)))" by simp
  with reported_later [OF ownGroups_Ok [OF f] preservesD [OF grow k]] \<open>x = []\<close> show ?thesis by simp
qed

lemma findOrCreate_creates:
  assumes "findOrCreateSecurityGroup E s = (r, t)" "e \<in> set (new_events s t)" "creates_group e"
  shows "\<exists>c n info tags. GenerateSecurityGroupName (st_InfraId (rc_status s)) (ve_Name (rc_resource s)) = Ok n \<and>
    rc_awsClient s = Some c \<and>
    fst (FilterSecurityGroupById E c (st_SecurityGroupId (rc_status s)) s) \<in> {Ok None, Ok (Some [])} \<and>
    reported (ec2_DescribeSecurityGroups (ec2 E))
      (Ec2 c (DoDescribeSecurityGroups (own_filters (st_InfraId (rc_status s)) n) [])) [] s t \<and>
    rc_clusterInfo s = Some info \<and> GenerateAwsTags n (ci_clusterTag info) = Inr tags \<and>
    e = Ec2 c (DoCreateSecurityGroup n SecurityGroupDescription tags (st_VPCId (rc_status s)))"
proof (cases "rc_awsClient s")
  case None
  with assms show ?thesis by (simp add: findOrCreateSecurityGroup_def run_simps new_events_def)
next
  case (Some c)
  let ?st = "rc_status s"
  define k where "k resp = (case resp of
       Some (sg # _) \<Rightarrow> foundSecurityGroup E sg
     | _ \<Rightarrow> bindE (liftO (GenerateSecurityGroupName (st_InfraId ?st) (ve_Name (rc_resource s)))) (\<lambda>n.
         lookup_by_tags E c (st_InfraId ?st) n))" for resp :: "ec2SecurityGroup list option"
  have run: "bindE (FilterSecurityGroupById E c (st_SecurityGroupId ?st)) k s = (r, t)"
    using assms(1) Some
    unfolding findOrCreateSecurityGroup_def lookup_by_tags_def [symmetric] k_def
    by (simp add: bindE_run [of resource] bindE_run [of awsClient] resource_run awsClient_run)
  have grow: "preserves (emits (\<lambda>_. True)) (k x)" for x
    unfolding k_def lookup_by_tags_def createMissingSecurityGroup_def foundSecurityGroup_def
    by (intro preserves_steady_emits steady_intros; simp)
  obtain x u where f: "FilterSecurityGroupById E c (st_SecurityGroupId ?st) s = (Ok x, u)" and kx: "k x u = (r, t)"
    and e: "e \<in> set (new_events u t)"
    by (rule event_later [OF run assms(2) group_setup_frames(1) grow]) (use assms(3) in simp)
  have "calls (\<lambda>_. True) s u" using f by (rule preservesD [rotated]) (rule ec2_readers, simp)
  then have su: "rc_clusterInfo u = rc_clusterInfo s" "rc_status u = rc_status s" and em: "emits (\<lambda>_. True) s u"
    by (auto simp: calls_def emits_def)
  have x: "x \<in> {None, Some []}"
  proof (rule ccontr)
    assume "\<not> ?thesis"
    then obtain sg sgs where "x = Some (sg # sgs)" by (cases x; cases "the x") auto
    with kx have "foundSecurityGroup E sg u = (r, t)" by (simp add: k_def)
    with preservesD [OF group_setup_frames(3) this] e assms(3) show False by (auto dest: steady_event)
  qed
  with kx have "bindE (liftO (GenerateSecurityGroupName (st_InfraId ?st) (ve_Name (rc_resource s))))
      (lookup_by_tags E c (st_InfraId ?st)) u = (r, t)" by (auto simp: k_def)
  with e obtain n where n: "GenerateSecurityGroupName (st_InfraId ?st) (ve_Name (rc_resource s)) = Ok n"
    and l: "lookup_by_tags E c (st_InfraId ?st) n u = (r, t)"
    by (auto simp: bindE_run liftO_run new_events_def split: outcome.splits)
  from lookup_by_tags_creates [OF l e assms(3)] n x f Some su reported_sooner [OF em] show ?thesis by auto
qed

text \<open>
  A security group is created only if it is missing. When a validation asks AWS to create a
  group, the search for the id in the status had found none (or the status had none), and AWS had
  reported no group with the generated name and the tags of this cluster and operator. The new
  group gets exactly that name and the tags that the search looks for, so that the next
  reconciliation finds it, and lies in the VPC of the status.
\<close>

lemma group_created_only_if_missing:
  assumes "validateSecurityGroup E s = (r, t)"
    and "Ec2 c (DoCreateSecurityGroup n d tags vpc) \<in> set (new_events s t)"
  shows "GenerateSecurityGroupName (st_InfraId (rc_status s)) (ve_Name (rc_resource s)) = Ok n \<and>
    fst (FilterSecurityGroupById E c (st_SecurityGroupId (rc_status s)) s) \<in> {Ok None, Ok (Some [])} \<and>
    reported (ec2_DescribeSecurityGroups (ec2 E))
      (Ec2 c (DoDescribeSecurityGroups (own_filters (st_InfraId (rc_status s)) n) [])) [] s t \<and>
    (\<exists>info. rc_clusterInfo s = Some info \<and> GenerateAwsTags n (ci_clusterTag info) = Inr tags) \<and>
    vpc = st_VPCId (rc_status s)"
proof -
  let ?e = "Ec2 c (DoCreateSecurityGroup n d tags vpc)"
  define rest where "rest sg = bindE (createMissingSecurityGroupTags E sg) (\<lambda>_.
     bindE (generateMissingSecurityGroupRules E sg) (\<lambda>inputs.
     bindE awsClient (\<lambda>c.
     bindE (AuthorizeSecurityGroupRules E c (fst inputs) (snd inputs)) (\<lambda>_. whenReady E))))" for sg
  have run: "bindE (findOrCreateSecurityGroup E) rest s = (r, t)"
    using assms(1) by (simp add: validateSecurityGroup_def rest_def [abs_def] whenReady_def)
  have "preserves (steady (\<lambda>e. \<not> creates_group e)) (rest sg)" for sg
    unfolding rest_def createMissingSecurityGroupTags_def generateMissingSecurityGroupRules_def
      lookupVpcCidr_def whenReady_def Let_def
    by (intro steady_intros; simp add: creates_group_read)
  then have rest: "\<And>sg. preserves (emits (\<lambda>e. \<not> creates_group e)) (rest sg)" by (rule preserves_steady_emits)
  have grow: "preserves (emits (\<lambda>_. True)) (findOrCreateSecurityGroup E)"
    using sg_steps_steady(1) by (rule emits_True [OF preserves_steady_emits])
  obtain q u where f: "findOrCreateSecurityGroup E s = (q, u)" and e: "?e \<in> set (new_events s u)"
    by (rule event_earlier [OF run assms(2) grow rest]) simp
  have "emits (\<lambda>_. True) u t"
    using run f preservesD [OF rest [THEN emits_True]]
    by (cases q) (auto simp: bindE_run emits_refl)
  with findOrCreate_creates [OF f e] show ?thesis by (auto intro: reported_later)
qed

lemma group_created_only_if_missing_example:
  "let t = snd (validateSecurityGroup ref_env sample_state) in
   reported (ec2_DescribeSecurityGroups (ec2 ref_env))
     (Ec2 sample_config (DoDescribeSecurityGroups (own_filters ''infra'' ''infra-example-sg'') [])) [] sample_state t"
proof -
  obtain r t where run: "validateSecurityGroup ref_env sample_state = (r, t)" by fastforce
  have "\<exists>d tags vpc. Ec2 sample_config (DoCreateSecurityGroup ''infra-example-sg'' d tags vpc) \<in> set (new_events sample_state t)"
    using run
    by (auto simp: validateSecurityGroup_def findOrCreateSecurityGroup_def FilterSecurityGroupById_def
        FilterSecurityGroupByDefaultTags_def GetClusterLegacyTagKey_def sgn.short
        createMissingSecurityGroup_def CreateSecurityGroup_def GenerateAwsTags_def
        run_simps ref_defs sample_defs new_events_def)
  moreover have "st_InfraId (rc_status sample_state) = ''infra''" by (simp add: sample_defs)
  ultimately show ?thesis
    using group_created_only_if_missing [OF run] run by (auto simp del: append.simps)
qed

end
