(* ===== verification/SliceDiff.thy ===== *)
theory SliceDiff
  imports GoStd
begin

text \<open>
  \<open>pkg/util/helpers.go\<close>: the two-way difference of two slices of strings, computed through two
  maps. The interface \<open>two_way_diff\<close> is what the reconcilers rely on when they change the
  subnets and security groups of an endpoint from the current to the expected ones; the lemmas
  proved inside it hold for any implementation that keeps the contract.
\<close>

text \<open>The order in which each of the two maps is ranged over is a parameter.\<close>

definition StringSliceTwoWayDiff ::
    "range_order \<Rightarrow> range_order \<Rightarrow> string list \<Rightarrow> string list \<Rightarrow> string list \<times> string list" where
  "StringSliceTwoWayDiff ord1 ord2 current expected =
     (let toDelete = filter (\<lambda>k. k \<notin> set expected) (range_keys ord1 current);
          toCreate = filter (\<lambda>k. k \<notin> set current) (range_keys ord2 expected)
      in (toCreate, toDelete))"

locale two_way_diff =
  fixes diff :: "string list \<Rightarrow> string list \<Rightarrow> string list \<times> string list"
  assumes set_create: "set (fst (diff cur exp)) = set exp - set cur"
    and set_delete: "set (snd (diff cur exp)) = set cur - set exp"
    and distinct_create: "distinct (fst (diff cur exp))"
    and distinct_delete: "distinct (snd (diff cur exp))"
begin

lemma create_disjoint_delete: "set (fst (diff cur exp)) \<inter> set (snd (diff cur exp)) = {}"
  by (auto simp: set_create set_delete)

lemma remove_then_add:
  "(set cur - set (snd (diff cur exp))) \<union> set (fst (diff cur exp)) = set exp"
  by (auto simp: set_create set_delete)

lemma add_then_remove:
  "(set cur \<union> set (fst (diff cur exp))) - set (snd (diff cur exp)) = set exp"
  by (auto simp: set_create set_delete)

lemma create_Nil: "fst (diff cur exp) = [] \<longleftrightarrow> set exp \<subseteq> set cur"
  by (metis Diff_eq_empty_iff set_create set_empty)

lemma delete_Nil: "snd (diff cur exp) = [] \<longleftrightarrow> set cur \<subseteq> set exp"
  by (metis Diff_eq_empty_iff set_delete set_empty)

lemma nothing_to_do: "diff cur exp = ([], []) \<longleftrightarrow> set cur = set exp"
  using create_Nil [of cur exp] delete_Nil [of cur exp] by (cases "diff cur exp") auto

lemma singleton:
  assumes "set cur = {x}"
  shows "diff cur [x] = ([], [])"
  using assms by (simp add: nothing_to_do)

text \<open>A second difference, from what the first one led to, is empty.\<close>

lemma converges:
  assumes "set cur' = (set cur - set (snd (diff cur exp))) \<union> set (fst (diff cur exp))"
  shows "diff cur' exp = ([], [])"
  using assms by (simp only: nothing_to_do remove_then_add)

lemma length_create: "length (fst (diff cur exp)) = card (set exp - set cur)"
  using distinct_card [OF distinct_create] set_create by metis

lemma length_delete: "length (snd (diff cur exp)) = card (set cur - set exp)"
  using distinct_card [OF distinct_delete] set_delete by metis

end

interpretation sdiff: two_way_diff "StringSliceTwoWayDiff ord1 ord2" for ord1 ord2
  by unfold_locales (auto simp: StringSliceTwoWayDiff_def)

text \<open>
  The two-way difference is exact. Whatever order the maps are ranged over in,
  removing the second result from the current strings and adding the first one gives the
  expected strings, in either order of the two steps; the two results are disjoint and hold
  every string once.
\<close>

lemma two_way_diff_exact:
  "let (create, delete) = StringSliceTwoWayDiff ord1 ord2 current expected
   in (set current - set delete) \<union> set create = set expected
      \<and> (set current \<union> set create) - set delete = set expected
      \<and> set create \<inter> set delete = {} \<and> distinct create \<and> distinct delete"
  using sdiff.remove_then_add [of current ord1 ord2 expected]
    sdiff.add_then_remove [of current ord1 ord2 expected]
    sdiff.create_disjoint_delete [of ord1 ord2 current expected]
    sdiff.distinct_create [of ord1 ord2 current expected]
    sdiff.distinct_delete [of ord1 ord2 current expected]
  by (simp add: case_prod_beta Let_def)

end
