(* ===== verification/Endpoints.thy ===== *)
theory Endpoints
  imports Reconciler SliceDiff
begin

text \<open>
  The VPC endpoint (helpers.go and \<open>validateVPCEndpoint\<close> of validation.go): finding or creating
  it, its subnets and security groups, and what each state of it that AWS reports leads to. The abstract endpoint is its \<open>settings\<close>;
  \<open>after\<close> applies the requests of a run to them, and the theorems say that the result is what the spec
  asks for, what the conditions then are, and when an endpoint is created.
\<close>

section \<open>Finding or creating the endpoint\<close>

definition findOrCreateVpcEndpoint :: "env \<Rightarrow> ec2VpcEndpoint rprog" where
  "findOrCreateVpcEndpoint E =
     bindE resource (\<lambda>res.
     bindE awsClient (\<lambda>c.
     bindE (DescribeSingleVPCEndpointById E c (st_VPCEndpointId (ve_Status res))) (\<lambda>resp.
     bindE (case resp of
              Some (vpce # _) \<Rightarrow> ret vpce
            | _ \<Rightarrow>
                bindE (liftO (GenerateVPCEndpointName (st_InfraId (ve_Status res)) (ve_Name res))) (\<lambda>vpceName.
                bindE clusterTag (\<lambda>tag.
                bindE (FilterVPCEndpointByDefaultTags E c tag vpceName) (\<lambda>byTags.
                case byTags of
                  vpce # _ \<Rightarrow> ret vpce
                | [] \<Rightarrow>
                    bindE (mapErr (Wrapf ''failed to create vpc endpoint: %w'' [])
                             (CreateDefaultInterfaceVPCEndpoint E c vpceName (st_VPCId (ve_Status res))
                                (st_VPCEndpointServiceName (ve_Status res)) tag)) (\<lambda>created.
                    bindE (deref created) (\<lambda>vpce.
                    bindE (deref (evp_VpcEndpointId vpce)) (\<lambda>_.
                    bindE (record_normal ''Created'') (\<lambda>_.
                    ret vpce)))))))) (\<lambda>vpce.
     bindE (deref (evp_VpcEndpointId vpce)) (\<lambda>vpceId.
     bindE (set_status (\<lambda>v. v\<lparr>st_VPCEndpointId := vpceId, st_Status := evp_State vpce\<rparr>)) (\<lambda>_.
     bindE (mapErr (Wrapf ''failed to update status: %w'' []) (updateStatus E)) (\<lambda>_.
     ret vpce)))))))"

section \<open>Subnets\<close>

text \<open>
  The inner loop over the availability zones the service supports: a subnet in one of them is
  taken if it is in the VPC of the status, or if the status has none.
\<close>

fun pick_subnet :: "string \<Rightarrow> string list \<Rightarrow> ec2Subnet \<Rightarrow> string list option" where
  "pick_subnet vpcId [] subnet = Some []"
| "pick_subnet vpcId (az # azs) subnet =
     do {
       zone \<leftarrow> es_AvailabilityZone subnet;
       if zone = az then
         (if vpcId \<noteq> '''' then
            do {
              v \<leftarrow> es_VpcId subnet;
              if v = vpcId then do { i \<leftarrow> es_SubnetId subnet; Some [i] } else Some []
            }
          else do { i \<leftarrow> es_SubnetId subnet; Some [i] })
       else pick_subnet vpcId azs subnet
     }"

text \<open>The cluster tag is not expected on the subnets when VPCs are load balanced.\<close>

definition discoverSubnets :: "env \<Rightarrow> ec2Subnet list rprog" where
  "discoverSubnets E =
     bindE resource (\<lambda>res.
     let v = sp_Vpc (ve_Spec res) in
     bindE awsClient (\<lambda>c.
     if vpc_Ids v \<noteq> [] \<or> vpc_Tags v \<noteq> []
     then AutodiscoverPrivateSubnets E c '''' (vpc_SubnetTags v)
     else bindE (getsE rc_clusterInfo) (\<lambda>info.
          case info of
            None \<Rightarrow> failE (Errorf ''unable to parse cluster tag: %v'' [])
          | Some ci \<Rightarrow>
              if ci_clusterTag ci = '''' then failE (Errorf ''unable to parse cluster tag: %v'' [])
              else AutodiscoverPrivateSubnets E c (ci_clusterTag ci) (vpc_SubnetTags v))))"

definition expectedSubnetIds :: "env \<Rightarrow> string list rprog" where
  "expectedSubnetIds E =
     bindE resource (\<lambda>res.
     if vpc_AutoDiscoverSubnets (sp_Vpc (ve_Spec res)) then
       bindE (discoverSubnets E) (\<lambda>discoveredSubnets.
       bindE awsClient (\<lambda>c.
       bindE (GetVpcEndpointServiceAZs E c (st_VPCEndpointServiceName (ve_Status res))) (\<lambda>allowedAZs.
       deref (collect (pick_subnet (st_VPCId (ve_Status res)) allowedAZs) discoveredSubnets))))
     else ret (vpc_SubnetIds (sp_Vpc (ve_Spec res))))"

definition modify_input :: "string option \<Rightarrow> modifyVpcEndpointInput" where
  "modify_input vpceId =
     \<lparr>mv_VpcEndpointId = vpceId, mv_PrivateDnsEnabled = None, mv_AddSubnetIds = [],
      mv_RemoveSubnetIds = [], mv_AddSecurityGroupIds = [], mv_RemoveSecurityGroupIds = []\<rparr>"

definition ensureVpcEndpointSubnets :: "env \<Rightarrow> ec2VpcEndpoint \<Rightarrow> unit rprog" where
  "ensureVpcEndpointSubnets E vpce =
     bindE (expectedSubnetIds E) (\<lambda>expected.
     bindE (range_order_now E) (\<lambda>ord.
     let (subnetsToAdd, subnetsToRemove) = StringSliceTwoWayDiff ord ord (evp_SubnetIds vpce) expected in
     bindE (whenE (subnetsToRemove \<noteq> [])
              (bindE awsClient (\<lambda>c.
               mapErr (Wrapf ''failed to remove subnets: %v with error: %w'' [FL subnetsToRemove])
                 (ModifyVpcEndpoint E c ((modify_input (evp_VpcEndpointId vpce))
                    \<lparr>mv_RemoveSubnetIds := subnetsToRemove\<rparr>))))) (\<lambda>_.
     whenE (subnetsToAdd \<noteq> [])
       (bindE awsClient (\<lambda>c.
        mapErr (Wrapf ''failed to add subnets: %v with error: %w'' [FL subnetsToAdd])
          (ModifyVpcEndpoint E c ((modify_input (evp_VpcEndpointId vpce))
             \<lparr>mv_AddSubnetIds := subnetsToAdd\<rparr>)))))))"

section \<open>Security groups\<close>

definition diffVpcEndpointSecurityGroups ::
    "range_order \<Rightarrow> ec2VpcEndpoint \<Rightarrow> vpcEndpoint \<Rightarrow> (string list \<times> string list) option" where
  "diffVpcEndpointSecurityGroups ord vpce res =
     do {
       vpceSgIds \<leftarrow> collect (map_option (\<lambda>i. [i])) (evp_Groups vpce);
       Some (StringSliceTwoWayDiff ord ord vpceSgIds [st_SecurityGroupId (ve_Status res)])
     }"

definition ensureVpcEndpointSecurityGroups :: "env \<Rightarrow> ec2VpcEndpoint \<Rightarrow> unit rprog" where
  "ensureVpcEndpointSecurityGroups E vpce =
     bindE resource (\<lambda>res.
     bindE (range_order_now E) (\<lambda>ord.
     bindE (deref (diffVpcEndpointSecurityGroups ord vpce res)) (\<lambda>(sgToAdd, sgToRemove).
     bindE (whenE (sgToAdd \<noteq> [])
              (bindE awsClient (\<lambda>c.
               ModifyVpcEndpoint E c ((modify_input (evp_VpcEndpointId vpce))
                 \<lparr>mv_AddSecurityGroupIds := sgToAdd\<rparr>)))) (\<lambda>_.
     whenE (sgToRemove \<noteq> [])
       (bindE awsClient (\<lambda>c.
        ModifyVpcEndpoint E c ((modify_input (evp_VpcEndpointId vpce))
          \<lparr>mv_RemoveSecurityGroupIds := sgToRemove\<rparr>)))))))"

section \<open>The validation\<close>

definition invalidateRoute53RecordCondition :: "env \<Rightarrow> unit rprog" where
  "invalidateRoute53RecordCondition E =
     bindE (isConditionTrue E AWSRoute53RecordCondition) (\<lambda>record_ready.
     bindE (whenE record_ready
              (setCondition E AWSRoute53RecordCondition ConditionFalse ''VpcEndpointChanged''
                 ''VPC endpoint is no longer available, Route53 record will be re-created'')) (\<lambda>_.
     bindE (isConditionTrue E AWSRoute53TagsCondition) (\<lambda>tags_ready.
     whenE tags_ready
       (setCondition E AWSRoute53TagsCondition ConditionFalse ''VpcEndpointChanged''
          ''VPC endpoint is no longer available, tags will be re-verified''))))"

definition set_pending_metric :: "int \<Rightarrow> unit rprog" where
  "set_pending_metric n =
     bindE resource (\<lambda>res.
     metric (GaugeSet ''vpce_pendingAcceptance_total''
       [ve_Name res, ve_Namespace res, st_VPCEndpointId (ve_Status res)] n))"

text \<open>The endpoint is not usable: its condition turns false and the DNS conditions with it.\<close>

definition endpointNotReady :: "env \<Rightarrow> string \<Rightarrow> unit rprog" where
  "endpointNotReady E state =
     bindE (setCondition E AWSVpcEndpointCondition ConditionFalse state '''') (\<lambda>_.
     bindE (invalidateRoute53RecordCondition E) (\<lambda>_.
     updateStatus E))"

definition enablePrivateDns :: "env \<Rightarrow> ec2VpcEndpoint \<Rightarrow> unit rprog" where
  "enablePrivateDns E vpce =
     bindE (getsE rc_EnablePrivateDns) (\<lambda>flag.
     bindE resource (\<lambda>res.
     whenE (flag \<and> sp_EnablePrivateDns (ve_Spec res) \<and> evp_PrivateDnsEnabled vpce \<noteq> Some True)
       (bindE awsClient (\<lambda>c.
        bindE (mapErr (Wrapf ''failed to enable private DNS on VPC Endpoint: %w'' [])
                 (ModifyVpcEndpoint E c ((modify_input (evp_VpcEndpointId vpce))
                    \<lparr>mv_PrivateDnsEnabled := Some True\<rparr>))) (\<lambda>_.
        record_normal ''Updated'')))))"

text \<open>AWS rejected the endpoint: delete it, and fail so that it is created again.\<close>

definition endpointRejected :: "env \<Rightarrow> unit rprog" where
  "endpointRejected E =
     bindE (invalidateRoute53RecordCondition E) (\<lambda>_.
     bindE status (\<lambda>st.
     bindE awsClient (\<lambda>c.
     bindE (attempt (DeleteVPCEndpoint E c (st_VPCEndpointId st))) (\<lambda>deleted.
     bindE (case deleted of
              Inr _ \<Rightarrow> ret ()
            | Inl err \<Rightarrow>
                (case as_api_error err of
                   Some ae \<Rightarrow>
                     if fst ae = ''InvalidVpcEndpoint.NotFound''
                     then set_status (\<lambda>v. v\<lparr>st_VPCEndpointId := ''''\<rparr>)
                     else failE err
                 | None \<Rightarrow> failE err)) (\<lambda>_.
     failE (Errorf ''VPC Endpoint unexpectedly needed to be deleted'' []))))))"

text \<open>The endpoint is available: configure it and report it ready.\<close>

definition endpointAvailable :: "env \<Rightarrow> ec2VpcEndpoint \<Rightarrow> unit rprog" where
  "endpointAvailable E vpce =
     bindE (set_pending_metric 0) (\<lambda>_.
     bindE (enablePrivateDns E vpce) (\<lambda>_.
     bindE (mapErr (Wrapf ''failed to reconcile VPC Endpoint subnets: %w'' [])
              (ensureVpcEndpointSubnets E vpce)) (\<lambda>_.
     bindE (mapErr (Wrapf ''failed to reconcile VPC Endpoint security groups: %w'' [])
              (ensureVpcEndpointSecurityGroups E vpce)) (\<lambda>_.
     bindE (isConditionTrue E AWSVpcEndpointCondition) (\<lambda>ready.
     bindE (whenE (\<not> ready)
              (bindE (age E) (\<lambda>d. metric (Observe ''vpce_endpoint_ready_duration_seconds'' d)))) (\<lambda>_.
     bindE (setCondition E AWSVpcEndpointCondition ConditionTrue (evp_State vpce)
              (''VPC Endpoint status is: '' @ evp_State vpce)) (\<lambda>_.
     updateStatus E)))))))"

definition validateVPCEndpoint :: "env \<Rightarrow> unit rprog" where
  "validateVPCEndpoint E =
     bindE (findOrCreateVpcEndpoint E) (\<lambda>vpce.
     bindE (deref (evp_VpcEndpointId vpce)) (\<lambda>vpceId.
     bindE status (\<lambda>st.
     bindE (whenE (st_VPCEndpointId st \<noteq> vpceId)
              (bindE (invalidateRoute53RecordCondition E) (\<lambda>_.
               bindE (set_status (\<lambda>v. v\<lparr>st_VPCEndpointId := vpceId\<rparr>)) (\<lambda>_.
               updateStatus E)))) (\<lambda>_.
     if evp_State vpce = ''pendingAcceptance'' then
       bindE (set_pending_metric 1) (\<lambda>_. endpointNotReady E (evp_State vpce))
     else if evp_State vpce = ''deleting'' \<or> evp_State vpce = ''pending'' then
       bindE (set_pending_metric 0) (\<lambda>_. endpointNotReady E (evp_State vpce))
     else if evp_State vpce = ''available'' then endpointAvailable E vpce
     else if evp_State vpce = ''rejected'' then endpointRejected E
     else
       bindE (set_pending_metric 0) (\<lambda>_.
       bindE (endpointNotReady E (evp_State vpce)) (\<lambda>_.
       failE (Errorf ''vpc endpoint in a bad state: %s'' [FS (evp_State vpce)])))))))"

section \<open>Frames\<close>

fun vpce_event :: "event \<Rightarrow> bool" where
  "vpce_event (Ec2 _ (DoCreateVpcEndpoint _ _ _)) = True"
| "vpce_event (Ec2 _ (DoModifyVpcEndpoint _)) = True"
| "vpce_event (Ec2 _ (DoDeleteVpcEndpoints _)) = True"
| "vpce_event (K8s (DoUpdateStatus _)) = True"
| "vpce_event (Metric _) = True"
| "vpce_event (Recorded _ _) = True"
| "vpce_event e = aws_read e"

lemma vpce_event_read: "aws_read e \<Longrightarrow> vpce_event e"
  by (cases e rule: vpce_event.cases) simp_all

lemma invalidateRoute53_steady [steady_ops]:
  "preserves (steady A) (invalidateRoute53RecordCondition E)"
  unfolding invalidateRoute53RecordCondition_def by (intro steady_intros)

lemma vpce_steps_steady [steady_ops]:
  "preserves (steady vpce_event) (findOrCreateVpcEndpoint E)"
  "preserves (steady vpce_event) (ensureVpcEndpointSubnets E vpce)"
  "preserves (steady vpce_event) (ensureVpcEndpointSecurityGroups E vpce)"
  "preserves (steady vpce_event) (endpointNotReady E state)"
  "preserves (steady vpce_event) (set_pending_metric n)"
  "preserves (steady vpce_event) (enablePrivateDns E vpce)"
  "preserves (steady vpce_event) (endpointRejected E)"
  unfolding findOrCreateVpcEndpoint_def ensureVpcEndpointSubnets_def expectedSubnetIds_def
    discoverSubnets_def ensureVpcEndpointSecurityGroups_def endpointNotReady_def
    set_pending_metric_def enablePrivateDns_def endpointRejected_def Let_def
  by (intro steady_intros invalidateRoute53_steady; auto intro: vpce_event_read)+

lemma validateVPCEndpoint_steady [steady_ops]:
  "preserves (steady vpce_event) (validateVPCEndpoint E)"
  unfolding validateVPCEndpoint_def endpointAvailable_def
  by (intro steady_intros vpce_steps_steady invalidateRoute53_steady; simp)

section \<open>The settings of an endpoint\<close>

text \<open>
  An endpoint as its owner sees it: the subnets, the security groups and whether private DNS is
  on. \<open>after i tr c\<close> is what the requests of the run \<open>tr\<close> for the endpoint \<open>i\<close> make of the
  settings \<open>c\<close>.
\<close>

record settings =
  set_Subnets :: "string set"
  set_Groups :: "string set"
  set_PrivateDns :: bool

definition settings_of :: "ec2VpcEndpoint \<Rightarrow> settings" where
  "settings_of v = \<lparr>set_Subnets = set (evp_SubnetIds v), set_Groups = {g. Some g \<in> set (evp_Groups v)},
     set_PrivateDns = (evp_PrivateDnsEnabled v = Some True)\<rparr>"

fun changed :: "string option \<Rightarrow> event \<Rightarrow> settings \<Rightarrow> settings" where
  "changed i (Ec2 _ (DoModifyVpcEndpoint m)) c =
     (if mv_VpcEndpointId m = i then
        \<lparr>set_Subnets = (set_Subnets c - set (mv_RemoveSubnetIds m)) \<union> set (mv_AddSubnetIds m),
         set_Groups = (set_Groups c - set (mv_RemoveSecurityGroupIds m)) \<union> set (mv_AddSecurityGroupIds m),
         set_PrivateDns = (case mv_PrivateDnsEnabled m of None \<Rightarrow> set_PrivateDns c | Some b \<Rightarrow> b)\<rparr>
      else c)"
| "changed i _ c = c"

definition after :: "string option \<Rightarrow> event list \<Rightarrow> settings \<Rightarrow> settings" where
  "after i tr c = fold (changed i) tr c"

lemma after_simps [simp]:
  "after i [] c = c" "after i (e # tr) c = after i tr (changed i e c)"
  "after i (xs @ ys) c = after i ys (after i xs c)"
  by (simp_all add: after_def)

fun modifies :: "event \<Rightarrow> bool" where
  "modifies (Ec2 _ (DoModifyVpcEndpoint _)) = True"
| "modifies _ = False"

lemma modifies_read: "aws_read e \<Longrightarrow> \<not> modifies e"
  by (cases e rule: modifies.cases) simp_all

lemma changed_quiet: "\<not> modifies e \<Longrightarrow> changed i e c = c"
  by (cases e rule: modifies.cases) simp_all

lemma after_quiet: "emits (\<lambda>e. \<not> modifies e) s t \<Longrightarrow> after i (new_events s t) c = c"
proof -
  have "(\<forall>e\<in>set tr. \<not> modifies e) \<Longrightarrow> after i tr c = c" for tr
    by (induction tr) (simp_all add: changed_quiet)
  then show "emits (\<lambda>e. \<not> modifies e) s t \<Longrightarrow> after i (new_events s t) c = c"
    by (auto simp: emits_def)
qed

lemma after_trans:
  "emits A s t \<Longrightarrow> emits B t u \<Longrightarrow> after i (new_events s u) c = after i (new_events t u) (after i (new_events s t) c)"
  by (simp add: new_events_trans)

section \<open>The subnets that are wanted\<close>

text \<open>
  The subnets of the spec or, if they are to be discovered, those of the reported subnets that
  lie in an availability zone of the service and in the VPC of the status.
\<close>

definition in_zones :: "string \<Rightarrow> string list \<Rightarrow> ec2Subnet list \<Rightarrow> string set" where
  "in_zones vpcId azs subnets = {i. \<exists>sn\<in>set subnets. es_SubnetId sn = Some i \<and>
     (\<exists>az\<in>set azs. es_AvailabilityZone sn = Some az) \<and> (vpcId = '''' \<or> es_VpcId sn = Some vpcId)}"

lemma pick_subnet_Some:
  "pick_subnet vpcId azs sn = Some ids \<Longrightarrow> set ids = in_zones vpcId azs [sn]"
  by (induction azs)
    (auto simp: in_zones_def bind_eq_Some_conv Let_def split: if_splits option.splits)

lemma picked_subnets: "collect (pick_subnet vpcId azs) subnets = Some ids \<Longrightarrow> set ids = in_zones vpcId azs subnets"
proof (induction subnets arbitrary: ids)
  case (Cons sn subnets)
  then obtain xs ys where "pick_subnet vpcId azs sn = Some xs" "collect (pick_subnet vpcId azs) subnets = Some ys"
    "ids = xs @ ys" by (auto split: option.splits)
  then show ?case using Cons.IH pick_subnet_Some [of vpcId azs sn xs] by (auto simp: in_zones_def)
qed (simp add: in_zones_def)

definition subnet_tags :: "vpcEndpoint \<Rightarrow> clusterInfo option \<Rightarrow> tag list" where
  "subnet_tags v info = vpc_SubnetTags (sp_Vpc (ve_Spec v)) @
     [\<lparr>tag_Key = (if vpc_Ids (sp_Vpc (ve_Spec v)) \<noteq> [] \<or> vpc_Tags (sp_Vpc (ve_Spec v)) \<noteq> [] then ''''
                  else case info of None \<Rightarrow> '''' | Some i \<Rightarrow> ci_clusterTag i), tag_Value = ''''\<rparr>]"

definition described_subnets :: "env \<Rightarrow> awsConfig \<Rightarrow> tag list \<Rightarrow> ec2Subnet list \<Rightarrow> reconciler \<Rightarrow> reconciler \<Rightarrow> bool" where
  "described_subnets E c tags subnets s t \<longleftrightarrow>
     reported (ec2_DescribeSubnets (ec2 E)) (Ec2 c (DoDescribeSubnets (concat (List.map tag_filter tags)) [])) subnets s t"

text \<open>Private subnets are preferred; any subnets of the cluster will do if there is none.\<close>

definition found_subnets :: "env \<Rightarrow> awsConfig \<Rightarrow> tag list \<Rightarrow> ec2Subnet list \<Rightarrow> reconciler \<Rightarrow> reconciler \<Rightarrow> bool" where
  "found_subnets E c tags subnets s t \<longleftrightarrow> subnets \<noteq> [] \<and>
     (let private = tags @ [\<lparr>tag_Key = privateSubnetTagKey, tag_Value = ''''\<rparr>]
      in described_subnets E c private subnets s t \<or>
         described_subnets E c private [] s t \<and> described_subnets E c tags subnets s t)"

definition wanted_subnets :: "env \<Rightarrow> reconciler \<Rightarrow> reconciler \<Rightarrow> string set \<Rightarrow> bool" where
  "wanted_subnets E s t ids \<longleftrightarrow>
     (if vpc_AutoDiscoverSubnets (sp_Vpc (rc_spec s))
      then \<exists>c azs subnets. found_subnets E c (subnet_tags (rc_resource s) (rc_clusterInfo s)) subnets s t \<and>
        reported (ec2_DescribeVpcEndpointServices (ec2 E))
          (Ec2 c (DoDescribeVpcEndpointServices [st_VPCEndpointServiceName (rc_status s)])) [azs] s t \<and>
        ids = in_zones (st_VPCId (rc_status s)) azs subnets
      else ids = set (vpc_SubnetIds (sp_Vpc (rc_spec s))))"

lemma DescribeSubnetsByTags_Ok:
  assumes "DescribeSubnetsByTags E c tags s = (Ok subnets, t)"
  shows "described_subnets E c tags subnets s t"
  using assms by (auto simp: DescribeSubnetsByTags_def described_subnets_def dest: invoke_reported)

lemma described_later: "described_subnets E c tags subnets s t \<Longrightarrow> emits A t u \<Longrightarrow> described_subnets E c tags subnets s u"
  unfolding described_subnets_def by (rule reported_later)

lemma described_sooner: "emits A r s \<Longrightarrow> described_subnets E c tags subnets s t \<Longrightarrow> described_subnets E c tags subnets r t"
  unfolding described_subnets_def by (rule reported_sooner)

lemma AutodiscoverPrivateSubnets_Ok:
  assumes "AutodiscoverPrivateSubnets E c tagKey tags s = (Ok subnets, t)"
  shows "found_subnets E c (tags @ [\<lparr>tag_Key = tagKey, tag_Value = ''''\<rparr>]) subnets s t"
proof -
  let ?tags = "tags @ [\<lparr>tag_Key = tagKey, tag_Value = ''''\<rparr>]"
  let ?private = "?tags @ [\<lparr>tag_Key = privateSubnetTagKey, tag_Value = ''''\<rparr>]"
  have calls: "preserves (calls aws_read) (DescribeSubnetsByTags E c x)" for x
    by (rule ec2_readers)
  from assms obtain found u where 1: "DescribeSubnetsByTags E c ?private s = (Ok found, u)"
    and 2: "found \<noteq> [] \<and> found = subnets \<and> t = u \<or>
      found = [] \<and> subnets \<noteq> [] \<and> DescribeSubnetsByTags E c ?tags u = (Ok subnets, t)"
    by (auto simp: AutodiscoverPrivateSubnets_def rc_Ok split: if_splits)
  from 2 show ?thesis
  proof (elim disjE conjE)
    assume "found = []" and s: "subnets \<noteq> []" and b: "DescribeSubnetsByTags E c ?tags u = (Ok subnets, t)"
    with DescribeSubnetsByTags_Ok [OF 1] have "described_subnets E c ?private [] s t"
      using reader_frame [OF calls b] described_later by auto
    moreover have "described_subnets E c ?tags subnets s t"
      using DescribeSubnetsByTags_Ok [OF b] reader_frame [OF calls 1] described_sooner by auto
    ultimately show ?thesis using s by (simp add: found_subnets_def Let_def)
  qed (use DescribeSubnetsByTags_Ok [OF 1] in \<open>simp add: found_subnets_def Let_def\<close>)
qed

lemma discoverSubnets_Ok:
  assumes "discoverSubnets E s = (Ok subnets, t)"
  shows "\<exists>c. rc_awsClient s = Some c \<and> found_subnets E c (subnet_tags (rc_resource s) (rc_clusterInfo s)) subnets s t"
proof -
  from assms obtain c where "rc_awsClient s = Some c"
    by (auto simp: discoverSubnets_def rc_Ok Let_def split: option.splits)
  moreover from this assms have "found_subnets E c (subnet_tags (rc_resource s) (rc_clusterInfo s)) subnets s t"
    by (auto simp: discoverSubnets_def subnet_tags_def rc_Ok Let_def split: if_splits option.splits
        dest!: AutodiscoverPrivateSubnets_Ok)
  ultimately show ?thesis by blast
qed

lemma discoverSubnets_calls: "preserves (calls aws_read) (discoverSubnets E)"
  unfolding discoverSubnets_def resource_def awsClient_def Let_def
  by (intro calls_intros AutodiscoverPrivateSubnets_calls)

lemma expectedSubnetIds_calls: "preserves (calls aws_read) (expectedSubnetIds E)"
  unfolding expectedSubnetIds_def resource_def awsClient_def
  by (intro calls_intros discoverSubnets_calls ec2_readers)

lemma GetVpcEndpointServiceAZs_Ok:
  assumes "GetVpcEndpointServiceAZs E c n s = (Ok azs, t)"
  shows "reported (ec2_DescribeVpcEndpointServices (ec2 E)) (Ec2 c (DoDescribeVpcEndpointServices [n])) [azs] s t"
proof -
  from assms obtain x u where i: "invoke (Ec2 c (DoDescribeVpcEndpointServices [n]))
      (ec2_DescribeVpcEndpointServices (ec2 E)) s = (Ok x, u)"
    and "(case x of [a] \<Rightarrow> ret a | _ \<Rightarrow> failE (Errorf ''expected one VPC Endpoint Service with name %s, got %d''
      [FS n, FN (length x)])) u = (Ok azs, t)"
    by (auto simp: GetVpcEndpointServiceAZs_def bindE_Ok failE_eq split: if_splits)
  then have "x = [azs] \<and> u = t" by (cases x; cases "tl x") (auto simp: run_eqs)
  with i show ?thesis by (auto dest: invoke_reported)
qed

lemma found_sooner: "emits A r s \<Longrightarrow> found_subnets E c tags subnets s t \<Longrightarrow> found_subnets E c tags subnets r t"
  by (auto simp: found_subnets_def Let_def intro: described_sooner)

lemma found_later: "found_subnets E c tags subnets s t \<Longrightarrow> emits A t u \<Longrightarrow> found_subnets E c tags subnets s u"
  by (auto simp: found_subnets_def Let_def intro: described_later)

lemma expectedSubnetIds_Ok:
  assumes "expectedSubnetIds E s = (Ok ids, t)"
  shows "wanted_subnets E s t (set ids)"
proof (cases "vpc_AutoDiscoverSubnets (sp_Vpc (rc_spec s))")
  case False
  with assms show ?thesis by (auto simp: expectedSubnetIds_def wanted_subnets_def rc_Ok)
next
  case True
  with assms obtain subnets u c azs where 1: "discoverSubnets E s = (Ok subnets, u)"
    and 2: "GetVpcEndpointServiceAZs E c (st_VPCEndpointServiceName (rc_status s)) u = (Ok azs, t)"
    and ids: "collect (pick_subnet (st_VPCId (rc_status s)) azs) subnets = Some ids"
    and c: "rc_awsClient u = Some c"
    by (auto simp: expectedSubnetIds_def rc_Ok split: option.splits)
  note su = reader_frame [OF discoverSubnets_calls 1]
  have ut: "emits aws_read u t" by (rule reader_frame [THEN conjunct1, OF ec2_readers(9) 2]) simp
  with su c discoverSubnets_Ok [OF 1]
  have "found_subnets E c (subnet_tags (rc_resource s) (rc_clusterInfo s)) subnets s u" by auto
  with ut have "found_subnets E c (subnet_tags (rc_resource s) (rc_clusterInfo s)) subnets s t" by (rule found_later [rotated])
  moreover have "reported (ec2_DescribeVpcEndpointServices (ec2 E))
      (Ec2 c (DoDescribeVpcEndpointServices [st_VPCEndpointServiceName (rc_status s)])) [azs] s t"
    by (rule reported_sooner [OF su [THEN conjunct1] GetVpcEndpointServiceAZs_Ok [OF 2]])
  ultimately show ?thesis
    using True picked_subnets [OF ids] unfolding wanted_subnets_def by auto
qed

section \<open>Applying the settings\<close>

lemma wanted_later:
  assumes "wanted_subnets E s t ids" "emits A t u"
  shows "wanted_subnets E s u ids"
proof (cases "vpc_AutoDiscoverSubnets (sp_Vpc (rc_spec s))")
  case True
  with assms(1) obtain c azs subnets
    where f: "found_subnets E c (subnet_tags (rc_resource s) (rc_clusterInfo s)) subnets s t"
      and r: "reported (ec2_DescribeVpcEndpointServices (ec2 E))
        (Ec2 c (DoDescribeVpcEndpointServices [st_VPCEndpointServiceName (rc_status s)])) [azs] s t"
      and "ids = in_zones (st_VPCId (rc_status s)) azs subnets"
    by (auto simp: wanted_subnets_def)
  with True found_later [OF f assms(2)] reported_later [OF r assms(2)] show ?thesis
    unfolding wanted_subnets_def by auto
qed (use assms(1) in \<open>simp add: wanted_subnets_def\<close>)

lemma wanted_sooner:
  assumes "wanted_subnets E s t ids" "emits A r s" "rc_spec s = rc_spec r" "rc_clusterInfo s = rc_clusterInfo r"
    and "st_VPCId (rc_status s) = st_VPCId (rc_status r)"
    and "st_VPCEndpointServiceName (rc_status s) = st_VPCEndpointServiceName (rc_status r)"
  shows "wanted_subnets E r t ids"
proof (cases "vpc_AutoDiscoverSubnets (sp_Vpc (rc_spec s))")
  case True
  with assms(1) obtain c azs subnets
    where f: "found_subnets E c (subnet_tags (rc_resource s) (rc_clusterInfo s)) subnets s t"
      and r: "reported (ec2_DescribeVpcEndpointServices (ec2 E))
        (Ec2 c (DoDescribeVpcEndpointServices [st_VPCEndpointServiceName (rc_status s)])) [azs] s t"
      and "ids = in_zones (st_VPCId (rc_status s)) azs subnets"
    by (auto simp: wanted_subnets_def)
  moreover have "subnet_tags (rc_resource s) (rc_clusterInfo s) = subnet_tags (rc_resource r) (rc_clusterInfo r)"
    by (simp add: subnet_tags_def assms(3,4))
  ultimately show ?thesis
    using True found_sooner [OF assms(2) f] reported_sooner [OF assms(2) r]
    unfolding wanted_subnets_def assms(3,5,6) by auto
qed (use assms(1,3) in \<open>simp add: wanted_subnets_def\<close>)

text \<open>A request that is sent only if there is something in it.\<close>

lemma modify_when:
  assumes "whenE b (bindE awsClient (\<lambda>c. mapErr f (ModifyVpcEndpoint E c m))) s = (Ok (), t)"
  shows "emits modifies s t \<and> rc_resource t = rc_resource s \<and> rc_EnablePrivateDns t = rc_EnablePrivateDns s \<and>
    after i (new_events s t) c = (if b then changed i (Ec2 sample_config (DoModifyVpcEndpoint m)) c else c)"
proof (cases b)
  case True
  with assms obtain cl where "t = s\<lparr>history := history s @ [Ec2 cl (DoModifyVpcEndpoint m)]\<rparr>"
    by (auto simp: whenE_def ModifyVpcEndpoint_def rc_Ok split: option.splits)
  with True show ?thesis by (simp add: emits_def new_events_def)
qed (use assms in \<open>simp add: whenE_eq emits_refl new_events_def\<close>)

lemma modify_when_plain:
  assumes "whenE b (bindE awsClient (\<lambda>c. ModifyVpcEndpoint E c m)) s = (Ok (), t)"
  shows "emits modifies s t \<and> rc_resource t = rc_resource s \<and> rc_EnablePrivateDns t = rc_EnablePrivateDns s \<and>
    after i (new_events s t) c = (if b then changed i (Ec2 sample_config (DoModifyVpcEndpoint m)) c else c)"
proof -
  have "mapErr (\<lambda>e. e) m' = m'" for m' :: "unit rprog"
    by (rule ext) (simp add: mapErr_run split: prod.split outcome.split)
  with modify_when [of b "\<lambda>e. e"] assms show ?thesis by simp
qed

lemma changed_parts:
  "(if rem \<noteq> [] then changed i (Ec2 cl (DoModifyVpcEndpoint ((modify_input i)\<lparr>mv_RemoveSubnetIds := rem\<rparr>))) c else c) =
     c\<lparr>set_Subnets := set_Subnets c - set rem\<rparr>"
  "(if add \<noteq> [] then changed i (Ec2 cl (DoModifyVpcEndpoint ((modify_input i)\<lparr>mv_AddSubnetIds := add\<rparr>))) c else c) =
     c\<lparr>set_Subnets := set_Subnets c \<union> set add\<rparr>"
  "(if add \<noteq> [] then changed i (Ec2 cl (DoModifyVpcEndpoint ((modify_input i)\<lparr>mv_AddSecurityGroupIds := add\<rparr>))) c else c) =
     c\<lparr>set_Groups := set_Groups c \<union> set add\<rparr>"
  "(if rem \<noteq> [] then changed i (Ec2 cl (DoModifyVpcEndpoint ((modify_input i)\<lparr>mv_RemoveSecurityGroupIds := rem\<rparr>))) c else c) =
     c\<lparr>set_Groups := set_Groups c - set rem\<rparr>"
  "(if b then changed i (Ec2 cl (DoModifyVpcEndpoint ((modify_input i)\<lparr>mv_PrivateDnsEnabled := Some True\<rparr>))) c else c) =
     c\<lparr>set_PrivateDns := set_PrivateDns c \<or> b\<rparr>"
  by (cases c; simp add: modify_input_def)+

lemma ensureSubnets_Ok:
  assumes "ensureVpcEndpointSubnets E vpce s = (Ok (), t)" "set_Subnets c = set (evp_SubnetIds vpce)"
  shows "\<exists>ids. wanted_subnets E s t ids \<and> emits (\<lambda>_. True) s t \<and> rc_resource t = rc_resource s \<and>
    after (evp_VpcEndpointId vpce) (new_events s t) c = c\<lparr>set_Subnets := ids\<rparr>"
proof -
  let ?d = "\<lambda>ord ids. StringSliceTwoWayDiff ord ord (evp_SubnetIds vpce) ids"
  let ?i = "evp_VpcEndpointId vpce"
  from assms(1) obtain ids s1 ord s2 where 1: "expectedSubnetIds E s = (Ok ids, s1)"
    and 2: "whenE (snd (?d ord ids) \<noteq> []) (bindE awsClient (\<lambda>c.
       mapErr (Wrapf ''failed to remove subnets: %v with error: %w'' [FL (snd (?d ord ids))])
         (ModifyVpcEndpoint E c ((modify_input ?i)\<lparr>mv_RemoveSubnetIds := snd (?d ord ids)\<rparr>)))) s1 = (Ok (), s2)"
    and 3: "whenE (fst (?d ord ids) \<noteq> []) (bindE awsClient (\<lambda>c.
       mapErr (Wrapf ''failed to add subnets: %v with error: %w'' [FL (fst (?d ord ids))])
         (ModifyVpcEndpoint E c ((modify_input ?i)\<lparr>mv_AddSubnetIds := fst (?d ord ids)\<rparr>)))) s2 = (Ok (), t)"
    by (auto simp: ensureVpcEndpointSubnets_def bindE_Ok range_order_now_eq case_prod_beta)
  note r = reader_frame [OF expectedSubnetIds_calls 1]
  have q: "emits (\<lambda>e. \<not> modifies e) s s1" using r modifies_read by (blast intro: emits_weaken)
  let ?c' = "c\<lparr>set_Subnets := set_Subnets c - set (snd (?d ord ids))\<rparr>"
  note a = modify_when [OF 2, of ?i c, unfolded changed_parts]
  note b = modify_when [OF 3, of ?i ?c', unfolded changed_parts]
  have st: "emits modifies s1 t" using a b by (blast intro: emits_trans)
  have "after ?i (new_events s t) c = after ?i (new_events s2 t) (after ?i (new_events s1 s2) c)"
    using after_trans [OF q st] after_trans [of modifies s1 s2 modifies t] a b by (simp add: after_quiet [OF q])
  also have "\<dots> = ?c'\<lparr>set_Subnets := set_Subnets ?c' \<union> set (fst (?d ord ids))\<rparr>"
    using a b by (simp only:)
  also have "\<dots> = c\<lparr>set_Subnets := set ids\<rparr>"
    using sdiff.remove_then_add [of "evp_SubnetIds vpce" ord ord ids] by (simp add: assms(2))
  finally have "after ?i (new_events s t) c = c\<lparr>set_Subnets := set ids\<rparr>" .
  moreover have "wanted_subnets E s t (set ids)"
    using expectedSubnetIds_Ok [OF 1] st by (rule wanted_later)
  moreover have "emits (\<lambda>_. True) s t"
    by (rule emits_trans [OF emits_weaken [OF q] emits_weaken [OF st]]) simp_all
  moreover have "rc_resource t = rc_resource s" using a b r by simp
  ultimately show ?thesis by blast
qed

lemma collect_ids: "collect (map_option (\<lambda>i. [i])) xs = Some ids \<longleftrightarrow> xs = List.map Some ids"
proof
  show "collect (map_option (\<lambda>i. [i])) xs = Some ids \<Longrightarrow> xs = List.map Some ids"
    by (induction xs arbitrary: ids) (auto split: option.splits)
  have "collect (map_option (\<lambda>i. [i])) (List.map Some ids) = Some ids"
    by (induction ids) auto
  then show "xs = List.map Some ids \<Longrightarrow> collect (map_option (\<lambda>i. [i])) xs = Some ids" by simp
qed

lemma ensureGroups_Ok:
  assumes "ensureVpcEndpointSecurityGroups E vpce s = (Ok (), t)"
    and "set_Groups c = {g. Some g \<in> set (evp_Groups vpce)}"
  shows "emits modifies s t \<and> rc_resource t = rc_resource s \<and>
    after (evp_VpcEndpointId vpce) (new_events s t) c = c\<lparr>set_Groups := {st_SecurityGroupId (rc_status s)}\<rparr>"
proof -
  let ?own = "[st_SecurityGroupId (rc_status s)]" and ?i = "evp_VpcEndpointId vpce"
  from assms(1) obtain ids ord add rem s1 where ids: "evp_Groups vpce = List.map Some ids"
    and d: "StringSliceTwoWayDiff ord ord ids ?own = (add, rem)"
    and 1: "whenE (add \<noteq> []) (bindE awsClient (\<lambda>c.
       ModifyVpcEndpoint E c ((modify_input ?i)\<lparr>mv_AddSecurityGroupIds := add\<rparr>))) s = (Ok (), s1)"
    and 2: "whenE (rem \<noteq> []) (bindE awsClient (\<lambda>c.
       ModifyVpcEndpoint E c ((modify_input ?i)\<lparr>mv_RemoveSecurityGroupIds := rem\<rparr>))) s1 = (Ok (), t)"
    by (auto simp: ensureVpcEndpointSecurityGroups_def diffVpcEndpointSecurityGroups_def bindE_Ok resource_eq
        range_order_now_eq deref_eq collect_ids bind_eq_Some_conv split: option.splits prod.splits)
  let ?c' = "c\<lparr>set_Groups := set_Groups c \<union> set add\<rparr>"
  note a = modify_when_plain [OF 1, of ?i c, unfolded changed_parts]
  note b = modify_when_plain [OF 2, of ?i ?c', unfolded changed_parts]
  have "after ?i (new_events s t) c = after ?i (new_events s1 t) (after ?i (new_events s s1) c)"
    using after_trans [of modifies s s1 modifies t] a b by blast
  also have "\<dots> = ?c'\<lparr>set_Groups := set_Groups ?c' - set rem\<rparr>"
    using a b by (simp only:)
  also have "\<dots> = c\<lparr>set_Groups := {st_SecurityGroupId (rc_status s)}\<rparr>"
    using sdiff.add_then_remove [of ids ord ord ?own] by (simp add: assms(2) ids d image_iff)
  finally show ?thesis using a b by (auto intro: emits_trans)
qed

lemma enablePrivateDns_Ok:
  assumes "enablePrivateDns E vpce s = (Ok (), t)" "set_PrivateDns c = (evp_PrivateDnsEnabled vpce = Some True)"
  shows "emits (\<lambda>_. True) s t \<and> rc_resource t = rc_resource s \<and> rc_clusterInfo t = rc_clusterInfo s \<and>
    after (evp_VpcEndpointId vpce) (new_events s t) c =
      c\<lparr>set_PrivateDns := evp_PrivateDnsEnabled vpce = Some True \<or> rc_EnablePrivateDns s \<and> sp_EnablePrivateDns (rc_spec s)\<rparr>"
proof (cases "rc_EnablePrivateDns s \<and> sp_EnablePrivateDns (rc_spec s) \<and> evp_PrivateDnsEnabled vpce \<noteq> Some True")
  case True
  with assms(1) obtain cl where "t = s\<lparr>history := history s @ [Ec2 cl (DoModifyVpcEndpoint
      ((modify_input (evp_VpcEndpointId vpce))\<lparr>mv_PrivateDnsEnabled := Some True\<rparr>)), Recorded ''Normal'' ''Updated'']\<rparr>"
    by (auto simp: enablePrivateDns_def rc_Ok ModifyVpcEndpoint_def split: option.splits)
  with True show ?thesis
    by (cases c) (simp add: emits_def new_events_def modify_input_def)
next
  case False
  with assms show ?thesis
    by (cases c) (auto simp: enablePrivateDns_def rc_Ok emits_refl new_events_def)
qed

text \<open>What an available endpoint is made into, from what AWS reported of it.\<close>

definition configured :: "reconciler \<Rightarrow> ec2VpcEndpoint \<Rightarrow> string set \<Rightarrow> settings" where
  "configured s vpce ids =
     \<lparr>set_Subnets = ids, set_Groups = {st_SecurityGroupId (rc_status s)},
      set_PrivateDns = (evp_PrivateDnsEnabled vpce = Some True \<or>
        rc_EnablePrivateDns s \<and> sp_EnablePrivateDns (rc_spec s))\<rparr>"

lemma set_pending_metric_eq:
  "set_pending_metric n s = (r, t) \<longleftrightarrow> r = Ok () \<and> t = s\<lparr>history := history s @
     [Metric (GaugeSet ''vpce_pendingAcceptance_total''
        [ve_Name (rc_resource s), ve_Namespace (rc_resource s), st_VPCEndpointId (rc_status s)] n)]\<rparr>"
  by (auto simp: set_pending_metric_def bindE_run resource_run metric_run)

lemma endpointAvailable_Ok:
  assumes "endpointAvailable E vpce s = (Ok (), t)"
  shows "\<exists>ids. wanted_subnets E s t ids \<and>
    after (evp_VpcEndpointId vpce) (new_events s t) (settings_of vpce) = configured s vpce ids"
proof -
  let ?i = "evp_VpcEndpointId vpce"
  define rest where "rest = bindE (isConditionTrue E AWSVpcEndpointCondition) (\<lambda>ready.
     bindE (whenE (\<not> ready)
              (bindE (age E) (\<lambda>d. metric (Observe ''vpce_endpoint_ready_duration_seconds'' d)))) (\<lambda>_.
     bindE (setCondition E AWSVpcEndpointCondition ConditionTrue (evp_State vpce)
              (''VPC Endpoint status is: '' @ evp_State vpce)) (\<lambda>_.
     updateStatus E)))"
  from assms obtain s1 s2 s3 s4 where 1: "set_pending_metric 0 s = (Ok (), s1)"
    and 2: "enablePrivateDns E vpce s1 = (Ok (), s2)"
    and 3: "ensureVpcEndpointSubnets E vpce s2 = (Ok (), s3)"
    and 4: "ensureVpcEndpointSecurityGroups E vpce s3 = (Ok (), s4)"
    and 5: "rest s4 = (Ok (), t)"
    unfolding endpointAvailable_def rest_def by (auto simp: bindE_Ok mapErr_Ok)
  have q1: "emits (\<lambda>e. \<not> modifies e) s s1" "rc_resource s1 = rc_resource s"
    "rc_EnablePrivateDns s1 = rc_EnablePrivateDns s" "rc_clusterInfo s1 = rc_clusterInfo s"
    using 1 by (auto simp: set_pending_metric_eq emits_def)
  have q5: "emits (\<lambda>e. \<not> modifies e) s4 t"
    using 5 by (auto simp: rest_def rc_Ok emits_def split: if_splits)
  let ?c = "settings_of vpce"
  define c2 where "c2 = ?c\<lparr>set_PrivateDns := evp_PrivateDnsEnabled vpce = Some True \<or> rc_EnablePrivateDns s \<and> sp_EnablePrivateDns (rc_spec s)\<rparr>"
  have a: "emits (\<lambda>_. True) s1 s2" "rc_resource s2 = rc_resource s" "rc_clusterInfo s2 = rc_clusterInfo s"
    "after ?i (new_events s1 s2) ?c = c2"
    using enablePrivateDns_Ok [OF 2, of ?c] q1 by (auto simp: settings_of_def c2_def)
  obtain ids where b: "wanted_subnets E s2 s3 ids" "emits (\<lambda>_. True) s2 s3" "rc_resource s3 = rc_resource s"
    "after ?i (new_events s2 s3) c2 = c2\<lparr>set_Subnets := ids\<rparr>"
    using ensureSubnets_Ok [OF 3, of c2] a(2) by (auto simp: c2_def settings_of_def)
  have c: "emits modifies s3 s4" "after ?i (new_events s3 s4) (c2\<lparr>set_Subnets := ids\<rparr>) = configured s vpce ids"
    using ensureGroups_Ok [OF 4, of "c2\<lparr>set_Subnets := ids\<rparr>"] b(3)
    by (auto simp: c2_def settings_of_def configured_def)
  have e: "emits (\<lambda>_. True) s3 t" "emits (\<lambda>_. True) s2 t" "emits (\<lambda>_. True) s1 t" "emits (\<lambda>_. True) s s2"
    using emits_any [OF q1(1)] a(1) b(2) emits_any [OF c(1)] emits_any [OF q5] by (blast intro: emits_trans)+
  have "after ?i (new_events s t) ?c = configured s vpce ids"
    using after_trans [OF q1(1) e(3)] after_trans [OF a(1) e(2)] after_trans [OF b(2) e(1)] after_trans [OF c(1) q5]
    by (simp add: after_quiet [OF q1(1)] after_quiet [OF q5] a(4) b(4) c(2))
  moreover have "wanted_subnets E s t ids"
    by (rule wanted_sooner [OF wanted_later [OF b(1) e(1)] e(4)]) (simp_all add: a(2,3))
  ultimately show ?thesis by blast
qed

section \<open>Where the endpoint comes from\<close>

definition vpce_filters :: "string \<Rightarrow> string \<Rightarrow> ec2Filter list" where
  "vpce_filters tag n =
     [\<lparr>flt_Name = ''tag:Name'', flt_Values = [n]\<rparr>, \<lparr>flt_Name = ''tag-key'', flt_Values = [tag]\<rparr>,
      \<lparr>flt_Name = ''tag:'' @ OperatorTagKey, flt_Values = [OperatorTagValue]\<rparr>]"

definition create_endpoint :: "env \<Rightarrow> awsConfig \<Rightarrow> string \<Rightarrow> string \<Rightarrow> vpcEndpointStatus \<Rightarrow> ec2VpcEndpoint rprog" where
  "create_endpoint E c tag n st =
     bindE (mapErr (Wrapf ''failed to create vpc endpoint: %w'' [])
              (CreateDefaultInterfaceVPCEndpoint E c n (st_VPCId st) (st_VPCEndpointServiceName st) tag)) (\<lambda>created.
     bindE (deref created) (\<lambda>vpce.
     bindE (deref (evp_VpcEndpointId vpce)) (\<lambda>_.
     bindE (record_normal ''Created'') (\<lambda>_.
     ret vpce))))"

definition endpoint_by_tags :: "env \<Rightarrow> awsConfig \<Rightarrow> string \<Rightarrow> string \<Rightarrow> vpcEndpointStatus \<Rightarrow> ec2VpcEndpoint rprog" where
  "endpoint_by_tags E c tag n st =
     bindE (FilterVPCEndpointByDefaultTags E c tag n) (\<lambda>byTags.
     case byTags of vpce # _ \<Rightarrow> ret vpce | [] \<Rightarrow> create_endpoint E c tag n st)"

definition named_endpoint :: "env \<Rightarrow> awsConfig \<Rightarrow> string \<Rightarrow> vpcEndpointStatus \<Rightarrow> ec2VpcEndpoint rprog" where
  "named_endpoint E c name st =
     bindE (liftO (GenerateVPCEndpointName (st_InfraId st) name)) (\<lambda>n.
     bindE clusterTag (\<lambda>tag. endpoint_by_tags E c tag n st))"

definition obtain_endpoint :: "env \<Rightarrow> awsConfig \<Rightarrow> vpcEndpoint \<Rightarrow> ec2VpcEndpoint rprog" where
  "obtain_endpoint E c res =
     bindE (DescribeSingleVPCEndpointById E c (st_VPCEndpointId (ve_Status res))) (\<lambda>resp.
     case resp of
       Some (vpce # _) \<Rightarrow> ret vpce
     | _ \<Rightarrow> named_endpoint E c (ve_Name res) (ve_Status res))"

definition adopt_endpoint :: "env \<Rightarrow> ec2VpcEndpoint \<Rightarrow> ec2VpcEndpoint rprog" where
  "adopt_endpoint E vpce =
     bindE (deref (evp_VpcEndpointId vpce)) (\<lambda>vpceId.
     bindE (set_status (\<lambda>v. v\<lparr>st_VPCEndpointId := vpceId, st_Status := evp_State vpce\<rparr>)) (\<lambda>_.
     bindE (mapErr (Wrapf ''failed to update status: %w'' []) (updateStatus E)) (\<lambda>_.
     ret vpce)))"

lemma findOrCreate_stages:
  "findOrCreateVpcEndpoint E =
     bindE resource (\<lambda>res. bindE awsClient (\<lambda>c. bindE (obtain_endpoint E c res) (adopt_endpoint E)))"
  unfolding findOrCreateVpcEndpoint_def obtain_endpoint_def named_endpoint_def endpoint_by_tags_def
    create_endpoint_def adopt_endpoint_def bindE_assoc ..

text \<open>\<open>seen E s t v\<close>: the run from \<open>s\<close> to \<open>t\<close> got \<open>v\<close> from AWS as the endpoint of the resource.\<close>

definition seen :: "env \<Rightarrow> reconciler \<Rightarrow> reconciler \<Rightarrow> ec2VpcEndpoint \<Rightarrow> bool" where
  "seen E s t v \<longleftrightarrow> (\<exists>c.
     reported (ec2_DescribeVpcEndpoints (ec2 E))
       (Ec2 c (DoDescribeVpcEndpoints [] [st_VPCEndpointId (rc_status s)])) [v] s t \<or>
     (\<exists>n info. GenerateVPCEndpointName (st_InfraId (rc_status s)) (ve_Name (rc_resource s)) = Ok n \<and>
        rc_clusterInfo s = Some info \<and>
        ((\<exists>rest. reported (ec2_DescribeVpcEndpoints (ec2 E))
            (Ec2 c (DoDescribeVpcEndpoints (vpce_filters (ci_clusterTag info) n) [])) (v # rest) s t) \<or>
         (\<exists>tags. GenerateAwsTags n (ci_clusterTag info) = Inr tags \<and>
            reported (ec2_CreateVpcEndpoint (ec2 E))
              (Ec2 c (DoCreateVpcEndpoint (st_VPCId (rc_status s)) (st_VPCEndpointServiceName (rc_status s)) tags))
              (Some v) s t))))"

lemma seen_later: "seen E s t v \<Longrightarrow> emits A t u \<Longrightarrow> seen E s u v"
  unfolding seen_def by (blast intro: reported_later)

lemma create_endpoint_Ok:
  assumes "create_endpoint E c tag n st s = (Ok v, t)"
  shows "\<exists>tags. GenerateAwsTags n tag = Inr tags \<and> reported (ec2_CreateVpcEndpoint (ec2 E))
    (Ec2 c (DoCreateVpcEndpoint (st_VPCId st) (st_VPCEndpointServiceName st) tags)) (Some v) s t"
proof -
  from assms obtain tags u where "GenerateAwsTags n tag = Inr tags"
    and i: "invoke (Ec2 c (DoCreateVpcEndpoint (st_VPCId st) (st_VPCEndpointServiceName st) tags))
      (ec2_CreateVpcEndpoint (ec2 E)) s = (Ok (Some v), u)"
    and t: "record_normal ''Created'' u = (Ok (), t)"
    by (auto simp: create_endpoint_def CreateDefaultInterfaceVPCEndpoint_def bindE_Ok mapErr_Ok liftS_eq
        deref_eq ret_eq split: sum.splits option.splits)
  moreover have "emits (\<lambda>_. True) u t" using t by (auto simp: record_normal_eq emits_def)
  ultimately show ?thesis using reported_later [OF invoke_reported [OF i]] by blast
qed

lemma endpoint_by_tags_Ok:
  assumes "endpoint_by_tags E c tag n st s = (Ok v, t)"
  shows "(\<exists>rest. reported (ec2_DescribeVpcEndpoints (ec2 E))
      (Ec2 c (DoDescribeVpcEndpoints (vpce_filters tag n) [])) (v # rest) s t) \<or>
    (\<exists>tags. GenerateAwsTags n tag = Inr tags \<and> reported (ec2_CreateVpcEndpoint (ec2 E))
      (Ec2 c (DoCreateVpcEndpoint (st_VPCId st) (st_VPCEndpointServiceName st) tags)) (Some v) s t)"
proof -
  from assms obtain found u where f: "FilterVPCEndpointByDefaultTags E c tag n s = (Ok found, u)"
    and k: "(case found of vpce # _ \<Rightarrow> ret vpce | [] \<Rightarrow> create_endpoint E c tag n st) u = (Ok v, t)"
    by (auto simp: endpoint_by_tags_def bindE_Ok)
  have i: "reported (ec2_DescribeVpcEndpoints (ec2 E)) (Ec2 c (DoDescribeVpcEndpoints (vpce_filters tag n) [])) found s u"
    if "tag \<noteq> ''''"
    using f that by (auto simp: FilterVPCEndpointByDefaultTags_def vpce_filters_def dest: invoke_reported)
  have su: "emits aws_read s u" by (rule reader_frame [THEN conjunct1, OF ec2_readers(7) f]) simp
  show ?thesis
  proof (cases found)
    case Nil
    with k have "create_endpoint E c tag n st u = (Ok v, t)" by simp
    then show ?thesis by (auto dest!: create_endpoint_Ok intro: reported_sooner [OF su])
  next
    case (Cons w rest)
    with f have "tag \<noteq> ''''" by (auto simp: FilterVPCEndpointByDefaultTags_def ret_eq)
    with Cons k i show ?thesis by (auto simp: ret_eq)
  qed
qed

lemma obtain_endpoint_calls: "preserves (calls (\<lambda>e. \<not> modifies e)) (obtain_endpoint E c res)"
  unfolding obtain_endpoint_def named_endpoint_def endpoint_by_tags_def create_endpoint_def record_normal_def
    clusterTag_def
  by (intro calls_intros aws_calls; simp add: modifies_read)

lemma findOrCreate_Ok:
  assumes "findOrCreateVpcEndpoint E s = (Ok v, t)"
  shows "seen E s t v"
    and "emits (\<lambda>e. \<not> modifies e) s t"
    and "evp_VpcEndpointId v = Some (st_VPCEndpointId (rc_status t))"
    and "rc_clusterInfo t = rc_clusterInfo s" and "rc_EnablePrivateDns t = rc_EnablePrivateDns s"
    and "rc_resource t = (rc_resource s)\<lparr>ve_Status := (rc_status s)
      \<lparr>st_VPCEndpointId := st_VPCEndpointId (rc_status t), st_Status := evp_State v\<rparr>\<rparr>"
proof -
  from assms obtain c u where o: "obtain_endpoint E c (rc_resource s) s = (Ok v, u)"
    and a: "adopt_endpoint E v u = (Ok v, t)"
    by (auto simp: findOrCreate_stages adopt_endpoint_def bindE_Ok resource_eq awsClient_eq ret_eq)
  have su: "calls (\<lambda>e. \<not> modifies e) s u" using obtain_endpoint_calls o by (rule preservesD)
  from a obtain i where i: "evp_VpcEndpointId v = Some i" and t: "t = u\<lparr>rc_resource := (rc_resource u)\<lparr>ve_Status := (rc_status u)
      \<lparr>st_VPCEndpointId := i, st_Status := evp_State v\<rparr>\<rparr>, history := history t\<rparr>"
    and h: "\<exists>x. history t = history u @ [K8s (DoUpdateStatus x)]"
    by (auto simp: adopt_endpoint_def rc_Ok split: option.splits)
  have ut: "emits (\<lambda>e. \<not> modifies e) u t" using h by (auto simp: emits_def)
  show "emits (\<lambda>e. \<not> modifies e) s t" using su ut by (blast intro: emits_trans calls_emits)
  have eqs: "rc_resource u = rc_resource s" "rc_clusterInfo u = rc_clusterInfo s" "rc_EnablePrivateDns u = rc_EnablePrivateDns s"
    using su by (auto simp: calls_def)
  show "rc_clusterInfo t = rc_clusterInfo s" "rc_EnablePrivateDns t = rc_EnablePrivateDns s"
    by (subst t, simp add: eqs)+
  have ti: "st_VPCEndpointId (rc_status t) = i" by (subst t) simp
  then show "evp_VpcEndpointId v = Some (st_VPCEndpointId (rc_status t))" using i by simp
  show "rc_resource t = (rc_resource s)\<lparr>ve_Status := (rc_status s)
      \<lparr>st_VPCEndpointId := st_VPCEndpointId (rc_status t), st_Status := evp_State v\<rparr>\<rparr>"
    unfolding ti by (subst t) (simp add: eqs)
  have "seen E s u v"
  proof -
    from o obtain resp w where d: "DescribeSingleVPCEndpointById E c (st_VPCEndpointId (rc_status s)) s = (Ok resp, w)"
      and k: "(case resp of Some (vpce # _) \<Rightarrow> ret vpce
        | _ \<Rightarrow> named_endpoint E c (ve_Name (rc_resource s)) (rc_status s)) w = (Ok v, u)"
      by (auto simp: obtain_endpoint_def bindE_Ok)
    have sw: "emits aws_read s w \<and> rc_clusterInfo w = rc_clusterInfo s"
      using reader_frame [OF ec2_readers(6) d] by blast
    show ?thesis
    proof (cases "\<exists>x rest. resp = Some (x # rest)")
      case True
      then obtain x rest where x: "resp = Some (x # rest)" by blast
      with k have "x = v" "u = w" by (auto simp: ret_eq)
      with DescribeSingle_Ok d x show ?thesis unfolding seen_def by blast
    next
      case False
      with k have "named_endpoint E c (ve_Name (rc_resource s)) (rc_status s) w = (Ok v, u)"
        by (auto split: option.splits list.splits)
      then obtain n info where n: "Ok n = GenerateVPCEndpointName (st_InfraId (rc_status s)) (ve_Name (rc_resource s))"
        and info: "rc_clusterInfo s = Some info" and e: "endpoint_by_tags E c (ci_clusterTag info) n (rc_status s) w = (Ok v, u)"
        using sw by (auto simp: named_endpoint_def bindE_Ok liftO_eq clusterTag_eq split: option.splits)
      show ?thesis
        using endpoint_by_tags_Ok [OF e] n [symmetric] info unfolding seen_def
        by (blast intro: reported_sooner [OF sw [THEN conjunct1]])
    qed
  qed
  then show "seen E s t v" using ut by (rule seen_later)
qed

section \<open>What a validation of the endpoint achieves\<close>

definition by_state :: "env \<Rightarrow> ec2VpcEndpoint \<Rightarrow> unit rprog" where
  "by_state E vpce =
     (if evp_State vpce = ''pendingAcceptance'' then
        bindE (set_pending_metric 1) (\<lambda>_. endpointNotReady E (evp_State vpce))
      else if evp_State vpce = ''deleting'' \<or> evp_State vpce = ''pending'' then
        bindE (set_pending_metric 0) (\<lambda>_. endpointNotReady E (evp_State vpce))
      else if evp_State vpce = ''available'' then endpointAvailable E vpce
      else if evp_State vpce = ''rejected'' then endpointRejected E
      else
        bindE (set_pending_metric 0) (\<lambda>_.
        bindE (endpointNotReady E (evp_State vpce)) (\<lambda>_.
        failE (Errorf ''vpc endpoint in a bad state: %s'' [FS (evp_State vpce)]))))"

text \<open>
  The status already has the id of the endpoint that was found, so the check that would
  invalidate the record of another endpoint never fires.
\<close>

lemma validateVPCEndpoint_stages:
  assumes "findOrCreateVpcEndpoint E s = (Ok v, u)"
  shows "validateVPCEndpoint E s = by_state E v u"
  using findOrCreate_Ok(3) [OF assms] assms
  unfolding validateVPCEndpoint_def by_state_def [symmetric]
  by (simp add: bindE_run [of "findOrCreateVpcEndpoint E"] bindE_run [of "deref _"] bindE_run [of status]
      bindE_run [of "whenE _ _"] deref_run status_run whenE_run)

lemma validateVPCEndpoint_Ok:
  assumes "validateVPCEndpoint E s = (Ok x, t)"
  obtains v u where "findOrCreateVpcEndpoint E s = (Ok v, u)" "by_state E v u = (Ok x, t)"
proof -
  from assms obtain v u where f: "findOrCreateVpcEndpoint E s = (Ok v, u)"
    by (auto simp: validateVPCEndpoint_def bindE_Ok)
  with assms validateVPCEndpoint_stages [OF f] show thesis by (auto intro: that)
qed

lemma notReady_quiet: "preserves (emits (\<lambda>e. \<not> modifies e)) (endpointNotReady E state)"
  unfolding endpointNotReady_def invalidateRoute53RecordCondition_def
  by (intro preserves_steady_emits steady_intros) simp_all

lemma notReady_keeps: "preserves (keeps st_VPCEndpointId) (endpointNotReady E state)"
  "preserves (keeps st_Status) (endpointNotReady E state)"
  unfolding endpointNotReady_def invalidateRoute53RecordCondition_def by (intro keeps_intros; simp)+

lemma available_keeps:
  "preserves (keeps st_VPCEndpointId) (endpointAvailable E v)"
  "preserves (keeps st_Status) (endpointAvailable E v)"
  unfolding endpointAvailable_def set_pending_metric_def enablePrivateDns_def ensureVpcEndpointSubnets_def
    expectedSubnetIds_def discoverSubnets_def ensureVpcEndpointSecurityGroups_def Let_def
  by (intro keeps_intros; simp)+

lemma endpointAvailable_grows: "preserves (emits (\<lambda>_. True)) (endpointAvailable E v)"
  unfolding endpointAvailable_def
  by (intro emits_any_prog [where A = vpce_event] preserves_steady_emits steady_intros vpce_steps_steady; simp)

definition usable_states :: "string list" where
  "usable_states = [''pendingAcceptance'', ''deleting'', ''pending'', ''available'']"

lemma by_state_Ok:
  assumes "by_state E v u = (Ok x, t)"
  obtains (available) "evp_State v = ''available''" "endpointAvailable E v u = (Ok x, t)"
  | (notReady) w where "evp_State v \<in> set usable_states" "evp_State v \<noteq> ''available''"
      "emits (\<lambda>e. \<not> modifies e) u w" "rc_resource w = rc_resource u" "endpointNotReady E (evp_State v) w = (Ok x, t)"
proof (cases "evp_State v = ''available''")
  case True
  with assms available show thesis by (simp add: by_state_def)
next
  case False
  with assms have "evp_State v \<in> set usable_states \<and>
      (\<exists>n w. set_pending_metric n u = (Ok (), w) \<and> endpointNotReady E (evp_State v) w = (Ok x, t))"
    by (auto simp: by_state_def usable_states_def endpointRejected_def bindE_Ok failE_eq split: if_splits)
  then obtain n w where w: "set_pending_metric n u = (Ok (), w)" "endpointNotReady E (evp_State v) w = (Ok x, t)"
    and us: "evp_State v \<in> set usable_states" by auto
  from w(1) have "emits (\<lambda>e. \<not> modifies e) u w" "rc_resource w = rc_resource u"
    by (auto simp: set_pending_metric_eq emits_def)
  from notReady [OF us False this w(2)] show thesis .
qed

text \<open>
  C5: a validated endpoint is configured. A successful validation got one endpoint from AWS (by the
  id in the status, by the tags, or by creating it), put its id and state into the status, and
  found it in one of four states. If it is available, the requests of the run turn the subnets,
  the security groups and the private DNS that AWS reported into those that are wanted: the
  subnets of the spec, or the discovered ones in a zone of the service and the VPC, the one
  security group of the resource, and private DNS if the spec asks for it. If not, nothing of
  the endpoint is changed.
\<close>

theorem validated_endpoint_is_configured:
  assumes "validateVPCEndpoint E s = (Ok (), t)"
  shows "\<exists>v. seen E s t v \<and> evp_VpcEndpointId v = Some (st_VPCEndpointId (rc_status t)) \<and>
    st_Status (rc_status t) = evp_State v \<and> evp_State v \<in> set usable_states \<and>
    (if evp_State v = ''available''
     then \<exists>ids. wanted_subnets E s t ids \<and>
       after (evp_VpcEndpointId v) (new_events s t) (settings_of v) = configured s v ids
     else list_all (\<lambda>e. \<not> modifies e) (new_events s t))"
proof -
  from assms obtain v u where f: "findOrCreateVpcEndpoint E s = (Ok v, u)" and b: "by_state E v u = (Ok (), t)"
    by (rule validateVPCEndpoint_Ok)
  note o = findOrCreate_Ok [OF f]
  have su: "rc_spec u = rc_spec s" "st_VPCId (rc_status u) = st_VPCId (rc_status s)"
    "st_VPCEndpointServiceName (rc_status u) = st_VPCEndpointServiceName (rc_status s)"
    "st_SecurityGroupId (rc_status u) = st_SecurityGroupId (rc_status s)" "st_Status (rc_status u) = evp_State v"
    by (subst o(6), simp)+
  from b show ?thesis
  proof (cases rule: by_state_Ok)
    case available
    obtain ids where w: "wanted_subnets E u t ids"
      and a: "after (evp_VpcEndpointId v) (new_events u t) (settings_of v) = configured u v ids"
      using endpointAvailable_Ok [OF available(2)] by blast
    have ut: "emits (\<lambda>_. True) u t" using endpointAvailable_grows available(2) by (rule preservesD)
    have "wanted_subnets E s t ids"
      by (rule wanted_sooner [OF w o(2)]) (simp_all add: su o(4))
    moreover have "after (evp_VpcEndpointId v) (new_events s t) (settings_of v) = configured s v ids"
      unfolding after_trans [OF o(2) ut] after_quiet [OF o(2)] a by (simp add: configured_def su o(5))
    moreover have "st_VPCEndpointId (rc_status t) = st_VPCEndpointId (rc_status u)" "st_Status (rc_status t) = evp_State v"
      using keepsD [OF available_keeps(1) available(2)] keepsD [OF available_keeps(2) available(2)] su by simp_all
    ultimately show ?thesis
      using o(3) available(1) seen_later [OF o(1) ut]
      by (intro exI [of _ v]) (auto simp: usable_states_def)
  next
    case (notReady w)
    have ut: "emits (\<lambda>e. \<not> modifies e) u t"
      using notReady(3) preservesD [OF notReady_quiet notReady(5)] by (rule emits_trans)
    have "emits (\<lambda>e. \<not> modifies e) s t" using o(2) ut by (rule emits_trans)
    then have "list_all (\<lambda>e. \<not> modifies e) (new_events s t)" by (auto simp: list_all_iff dest: new_events_emits)
    moreover have "st_VPCEndpointId (rc_status t) = st_VPCEndpointId (rc_status u)" "st_Status (rc_status t) = evp_State v"
      using keepsD [OF notReady_keeps(1) notReady(5)] keepsD [OF notReady_keeps(2) notReady(5)] notReady(4) su by simp_all
    ultimately show ?thesis
      using o(3) notReady(1,2) seen_later [OF o(1) ut] by (intro exI [of _ v]) auto
  qed
qed

section \<open>The conditions follow the state\<close>

lemma condition_names:
  "AWSVpcEndpointCondition \<noteq> AWSRoute53RecordCondition" "AWSVpcEndpointCondition \<noteq> AWSRoute53TagsCondition"
  "AWSRoute53RecordCondition \<noteq> AWSRoute53TagsCondition"
  by (simp_all add: AWSVpcEndpointCondition_def AWSRoute53RecordCondition_def AWSRoute53TagsCondition_def)

lemma invalidated_conditions:
  assumes "condition_laws E" "invalidateRoute53RecordCondition E s = (r, t)"
  shows "\<not> lib_IsStatusConditionTrue (lib E) (st_Conditions (rc_status t)) AWSRoute53RecordCondition"
    and "\<not> lib_IsStatusConditionTrue (lib E) (st_Conditions (rc_status t)) AWSRoute53TagsCondition"
    and "lib_IsStatusConditionTrue (lib E) (st_Conditions (rc_status t)) AWSVpcEndpointCondition =
      lib_IsStatusConditionTrue (lib E) (st_Conditions (rc_status s)) AWSVpcEndpointCondition"
  using assms(2) condition_names condition_names [symmetric]
  by (auto simp: invalidateRoute53RecordCondition_def run_simps
      condition_set_same [OF assms(1)] condition_set_other [OF assms(1)] split: if_splits)

lemma notReady_conditions:
  assumes "condition_laws E" "endpointNotReady E state s = (Ok x, t)"
    and "ty \<in> {AWSVpcEndpointCondition, AWSRoute53RecordCondition, AWSRoute53TagsCondition}"
  shows "\<not> lib_IsStatusConditionTrue (lib E) (st_Conditions (rc_status t)) ty"
proof -
  from assms(2) obtain u w where "setCondition E AWSVpcEndpointCondition ConditionFalse state '''' s = (Ok (), u)"
    and i: "invalidateRoute53RecordCondition E u = (Ok (), w)" and w: "updateStatus E w = (Ok x, t)"
    by (auto simp: endpointNotReady_def bindE_Ok)
  then have "\<not> lib_IsStatusConditionTrue (lib E) (st_Conditions (rc_status u)) AWSVpcEndpointCondition"
    by (auto simp: setCondition_eq condition_set_same [OF assms(1)])
  with invalidated_conditions [OF assms(1) i] w assms(3) show ?thesis by (auto simp: updateStatus_Ok)
qed

lemma available_conditions:
  assumes "condition_laws E" "endpointAvailable E v s = (Ok x, t)"
  shows "lib_IsStatusConditionTrue (lib E) (st_Conditions (rc_status t)) AWSVpcEndpointCondition"
  using assms(2)
  by (auto simp: endpointAvailable_def bindE_Ok setCondition_eq updateStatus_Ok condition_set_same [OF assms(1)])

text \<open>
  C26: the conditions follow the state of the endpoint. After a successful validation the endpoint
  condition is true if and only if the status says that the endpoint is available; if it is not,
  the conditions of the record and of the zone tags are not true either, so that both are done
  again once the endpoint is back.
\<close>

theorem endpoint_conditions:
  assumes "condition_laws E" "validateVPCEndpoint E s = (Ok (), t)"
  shows "let holds = lib_IsStatusConditionTrue (lib E) (st_Conditions (rc_status t));
             available = (st_Status (rc_status t) = ''available'')
    in (holds AWSVpcEndpointCondition \<longleftrightarrow> available) \<and>
       (available \<or> \<not> holds AWSRoute53RecordCondition \<and> \<not> holds AWSRoute53TagsCondition)"
proof -
  from assms(2) obtain v u where f: "findOrCreateVpcEndpoint E s = (Ok v, u)" and b: "by_state E v u = (Ok (), t)"
    by (rule validateVPCEndpoint_Ok)
  have st: "st_Status (rc_status u) = evp_State v" by (subst findOrCreate_Ok(6) [OF f]) simp
  from b show ?thesis
  proof (cases rule: by_state_Ok)
    case available
    with st keepsD [OF available_keeps(2) available(2)] available_conditions [OF assms(1) available(2)]
    show ?thesis by (simp add: Let_def)
  next
    case (notReady w)
    with st keepsD [OF notReady_keeps(2) notReady(5)] notReady_conditions [OF assms(1) notReady(5)]
    show ?thesis by (simp add: Let_def)
  qed
qed

section \<open>Creating an endpoint\<close>

fun creates_endpoint :: "event \<Rightarrow> bool" where
  "creates_endpoint (Ec2 _ (DoCreateVpcEndpoint _ _ _)) = True"
| "creates_endpoint _ = False"

lemma creates_endpoint_read: "aws_read e \<Longrightarrow> \<not> creates_endpoint e"
  by (cases e rule: creates_endpoint.cases) simp_all

lemma create_endpoint_creates:
  "preserves (emits (\<lambda>e. creates_endpoint e \<longrightarrow> (\<exists>tags. GenerateAwsTags n tag = Inr tags \<and>
     e = Ec2 c (DoCreateVpcEndpoint (st_VPCId st) (st_VPCEndpointServiceName st) tags)))) (create_endpoint E c tag n st)"
proof (cases "GenerateAwsTags n tag")
  case (Inl err)
  then show ?thesis
    by (intro preservesI)
      (auto simp: create_endpoint_def CreateDefaultInterfaceVPCEndpoint_def run_simps emits_refl)
next
  case (Inr tags)
  show ?thesis
    unfolding create_endpoint_def CreateDefaultInterfaceVPCEndpoint_def Inr liftS_def sum.case bindE_ret_left
      record_normal_def
    by (intro emits_intros) simp_all
qed

lemma endpoint_by_tags_creates:
  assumes "endpoint_by_tags E c tag n st s = (r, t)" "e \<in> set (new_events s t)" "creates_endpoint e"
  shows "reported (ec2_DescribeVpcEndpoints (ec2 E)) (Ec2 c (DoDescribeVpcEndpoints (vpce_filters tag n) [])) [] s t \<and>
    (\<exists>tags. GenerateAwsTags n tag = Inr tags \<and>
      e = Ec2 c (DoCreateVpcEndpoint (st_VPCId st) (st_VPCEndpointServiceName st) tags))"
proof -
  let ?k = "\<lambda>byTags. case byTags of vpce # _ \<Rightarrow> ret vpce | [] \<Rightarrow> create_endpoint E c tag n st"
  let ?made = "\<lambda>e. creates_endpoint e \<longrightarrow> (\<exists>tags. GenerateAwsTags n tag = Inr tags \<and>
    e = Ec2 c (DoCreateVpcEndpoint (st_VPCId st) (st_VPCEndpointServiceName st) tags))"
  have made: "preserves (emits ?made) (?k x)" for x
    by (intro emits_intros create_endpoint_creates)
  obtain x u where f: "FilterVPCEndpointByDefaultTags E c tag n s = (Ok x, u)" and k: "?k x u = (r, t)"
    and e: "e \<in> set (new_events u t)"
    by (rule event_later [OF assms(1) [unfolded endpoint_by_tags_def] assms(2)
        preserves_calls_emits [OF ec2_readers(7) [of "\<lambda>e. \<not> creates_endpoint e"]] made])
      (use assms(3) in \<open>auto simp: creates_endpoint_read\<close>)
  have ut: "emits ?made u t" using made k by (rule preservesD)
  with e assms(3) have made_e: "\<exists>tags. GenerateAwsTags n tag = Inr tags \<and>
      e = Ec2 c (DoCreateVpcEndpoint (st_VPCId st) (st_VPCEndpointServiceName st) tags)"
    by (blast dest: new_events_emits)
  then have "tag \<noteq> ''''" by (auto simp: GenerateAwsTags_def split: if_splits)
  moreover have "x = []"
    using k e by (cases x) (auto simp: ret_eq new_events_def)
  ultimately have "reported (ec2_DescribeVpcEndpoints (ec2 E)) (Ec2 c (DoDescribeVpcEndpoints (vpce_filters tag n) [])) [] s u"
    using f by (auto simp: FilterVPCEndpointByDefaultTags_def vpce_filters_def dest: invoke_reported)
  with made_e ut show ?thesis by (auto intro: reported_later)
qed

lemma obtain_endpoint_creates:
  assumes "obtain_endpoint E c (rc_resource s) s = (r, t)" "e \<in> set (new_events s t)" "creates_endpoint e"
  shows "\<exists>n info tags. GenerateVPCEndpointName (st_InfraId (rc_status s)) (ve_Name (rc_resource s)) = Ok n \<and>
    rc_clusterInfo s = Some info \<and> GenerateAwsTags n (ci_clusterTag info) = Inr tags \<and>
    e = Ec2 c (DoCreateVpcEndpoint (st_VPCId (rc_status s)) (st_VPCEndpointServiceName (rc_status s)) tags) \<and>
    fst (DescribeSingleVPCEndpointById E c (st_VPCEndpointId (rc_status s)) s) \<in> {Ok None, Ok (Some [])} \<and>
    reported (ec2_DescribeVpcEndpoints (ec2 E))
      (Ec2 c (DoDescribeVpcEndpoints (vpce_filters (ci_clusterTag info) n) [])) [] s t"
proof -
  let ?st = "rc_status s" and ?name = "ve_Name (rc_resource s)"
  let ?k = "\<lambda>resp. case resp of Some (vpce # _) \<Rightarrow> ret vpce | _ \<Rightarrow> named_endpoint E c ?name ?st"
  have named: "preserves (emits (\<lambda>_. True)) (named_endpoint E c ?name ?st)"
    unfolding named_endpoint_def endpoint_by_tags_def create_endpoint_def record_normal_def clusterTag_def
    by (intro preserves_calls_emits calls_intros aws_calls) simp_all
  have grow: "preserves (emits (\<lambda>_. True)) (?k x)" for x
    by (intro emits_intros named)
  obtain x u where f: "DescribeSingleVPCEndpointById E c (st_VPCEndpointId ?st) s = (Ok x, u)" and k: "?k x u = (r, t)"
    and e: "e \<in> set (new_events u t)"
    by (rule event_later [OF assms(1) [unfolded obtain_endpoint_def] assms(2)
        preserves_calls_emits [OF ec2_readers(6) [of "\<lambda>e. \<not> creates_endpoint e"]] grow])
      (use assms(3) in \<open>auto simp: creates_endpoint_read\<close>)
  have su: "emits aws_read s u \<and> rc_clusterInfo u = rc_clusterInfo s" using reader_frame [OF ec2_readers(6) f] by blast
  have x: "x \<in> {None, Some []}" and "named_endpoint E c ?name ?st u = (r, t)"
    using k e by (auto simp: ret_eq new_events_def split: option.splits list.splits)
  with e obtain n info where n: "Ok n = GenerateVPCEndpointName (st_InfraId ?st) ?name"
    and info: "rc_clusterInfo s = Some info" and b: "endpoint_by_tags E c (ci_clusterTag info) n ?st u = (r, t)"
    using su by (auto simp: named_endpoint_def bindE_run liftO_run clusterTag_run new_events_def
        split: outcome.splits option.splits)
  note m = endpoint_by_tags_creates [OF b e assms(3)]
  then obtain tags where "GenerateAwsTags n (ci_clusterTag info) = Inr tags"
    "e = Ec2 c (DoCreateVpcEndpoint (st_VPCId ?st) (st_VPCEndpointServiceName ?st) tags)" by blast
  moreover have "reported (ec2_DescribeVpcEndpoints (ec2 E))
      (Ec2 c (DoDescribeVpcEndpoints (vpce_filters (ci_clusterTag info) n) [])) [] s t"
    by (rule reported_sooner [OF su [THEN conjunct1] m [THEN conjunct1]])
  ultimately show ?thesis using n [symmetric] info x f by auto
qed

lemma findOrCreateEndpoint_creates:
  assumes "findOrCreateVpcEndpoint E s = (r, t)" "e \<in> set (new_events s t)" "creates_endpoint e"
  shows "\<exists>c q u. rc_awsClient s = Some c \<and> obtain_endpoint E c (rc_resource s) s = (q, u) \<and>
    e \<in> set (new_events s u) \<and> emits (\<lambda>_. True) u t"
proof (cases "rc_awsClient s")
  case None
  with assms show ?thesis by (simp add: findOrCreateVpcEndpoint_def run_simps new_events_def)
next
  case (Some c)
  have run: "bindE (obtain_endpoint E c (rc_resource s)) (adopt_endpoint E) s = (r, t)"
    using assms(1) Some unfolding findOrCreate_stages
    by (simp add: bindE_run [of resource] bindE_run [of awsClient] resource_run awsClient_run)
  have adopt: "preserves (emits (\<lambda>e. \<not> creates_endpoint e)) (adopt_endpoint E v)" for v
    unfolding adopt_endpoint_def by (intro preserves_steady_emits steady_intros) simp_all
  obtain q u where o: "obtain_endpoint E c (rc_resource s) s = (q, u)" and e: "e \<in> set (new_events s u)"
    by (rule event_earlier [OF run assms(2) preserves_calls_emits [OF obtain_endpoint_calls] adopt])
      (use assms(3) in simp)
  have "emits (\<lambda>_. True) u t"
    using run o preservesD [OF adopt [THEN emits_any_prog]] by (cases q) (auto simp: bindE_run emits_refl)
  with Some o e show ?thesis by blast
qed

text \<open>
  A VPC endpoint is created only if it is missing. When a validation asks AWS to create an
  endpoint, the search for the id in the status had found none (or the status had none), and AWS
  had reported, in the same run, no endpoint with the generated name and the tags of this cluster
  and operator. The new endpoint gets the tags that this search looks for, and the VPC and
  service of the status.
\<close>

lemma endpoint_created_only_if_missing:
  assumes "validateVPCEndpoint E s = (r, t)"
    and "Ec2 c (DoCreateVpcEndpoint vpc svc tags) \<in> set (new_events s t)"
  shows "\<exists>n info. GenerateVPCEndpointName (st_InfraId (rc_status s)) (ve_Name (rc_resource s)) = Ok n \<and>
    rc_clusterInfo s = Some info \<and> GenerateAwsTags n (ci_clusterTag info) = Inr tags \<and>
    vpc = st_VPCId (rc_status s) \<and> svc = st_VPCEndpointServiceName (rc_status s) \<and>
    fst (DescribeSingleVPCEndpointById E c (st_VPCEndpointId (rc_status s)) s) \<in> {Ok None, Ok (Some [])} \<and>
    reported (ec2_DescribeVpcEndpoints (ec2 E))
      (Ec2 c (DoDescribeVpcEndpoints (vpce_filters (ci_clusterTag info) n) [])) [] s t"
proof -
  let ?e = "Ec2 c (DoCreateVpcEndpoint vpc svc tags)"
  obtain q u where f: "findOrCreateVpcEndpoint E s = (q, u)" by fastforce
  have "?e \<in> set (new_events s u) \<and> emits (\<lambda>_. True) u t"
  proof (cases "\<exists>v. q = Ok v")
    case True
    then obtain v where v: "findOrCreateVpcEndpoint E s = (Ok v, u)" using f by blast
    have b: "by_state E v u = (r, t)" using validateVPCEndpoint_stages [OF v] assms(1) by simp
    have "preserves (emits (\<lambda>e. \<not> creates_endpoint e)) (by_state E v)"
      unfolding by_state_def endpointAvailable_def set_pending_metric_def enablePrivateDns_def endpointNotReady_def
        ensureVpcEndpointSubnets_def expectedSubnetIds_def discoverSubnets_def ensureVpcEndpointSecurityGroups_def
        endpointRejected_def invalidateRoute53RecordCondition_def Let_def
      by (intro preserves_steady_emits steady_intros; simp add: creates_endpoint_read)
    then have ut: "emits (\<lambda>e. \<not> creates_endpoint e) u t" using b by (rule preservesD)
    with assms(2) have "?e \<in> set (new_events s u)"
      using new_events_trans [OF emits_any [OF findOrCreate_Ok(2) [OF v]] ut] new_events_emits [OF ut, of ?e] by auto
    with ut show ?thesis by (blast intro: emits_any)
  next
    case False
    with f assms show ?thesis by (cases q) (auto simp: validateVPCEndpoint_def bindE_run emits_refl)
  qed
  then have su: "?e \<in> set (new_events s u)" and ut: "emits (\<lambda>_. True) u t" by simp_all
  obtain c' p w where o: "obtain_endpoint E c' (rc_resource s) s = (p, w)" "?e \<in> set (new_events s w)"
    and wu: "emits (\<lambda>_. True) w u"
    using findOrCreateEndpoint_creates [OF f su] by auto
  with obtain_endpoint_creates [OF o] show ?thesis
    by (auto intro: reported_later [OF _ emits_trans [OF wu ut]])
qed

section \<open>Examples\<close>

text \<open>An account with an available endpoint that has other subnets and groups, and one without any.\<close>

definition sample_vpce :: ec2VpcEndpoint where
  "sample_vpce = \<lparr>evp_VpcEndpointId = Some ''vpce-1'', evp_VpcId = Some ''vpc-1'', evp_State = ''available'',
     evp_PrivateDnsEnabled = None, evp_SubnetIds = [''subnet-2''], evp_Groups = [Some ''sg-default''],
     evp_DnsEntries = [Some ''vpce-1.example.com'']\<rparr>"

definition endpoint_env :: env where
  "endpoint_env = ref_env\<lparr>ec2 := ref_ec2\<lparr>ec2_DescribeVpcEndpoints := (\<lambda>h. Inr [sample_vpce])\<rparr>\<rparr>"

definition create_env :: env where
  "create_env = ref_env\<lparr>ec2 := ref_ec2\<lparr>ec2_CreateVpcEndpoint :=
     (\<lambda>h. Inr (Some (sample_vpce\<lparr>evp_State := ''pending''\<rparr>)))\<rparr>\<rparr>"

definition new_state :: reconciler where
  "new_state = sample_state\<lparr>rc_resource := sample_endpoint\<lparr>ve_Status := sample_status\<lparr>st_VPCEndpointId := ''''\<rparr>\<rparr>\<rparr>"

lemma sample_endpoint_validated:
  "validateVPCEndpoint endpoint_env sample_state = (Ok (), snd (validateVPCEndpoint endpoint_env sample_state))"
  by (simp add: validateVPCEndpoint_def findOrCreateVpcEndpoint_def DescribeSingleVPCEndpointById_def
      endpointAvailable_def set_pending_metric_def enablePrivateDns_def ensureVpcEndpointSubnets_def
      expectedSubnetIds_def ensureVpcEndpointSecurityGroups_def diffVpcEndpointSecurityGroups_def
      StringSliceTwoWayDiff_def range_keys_def
      ModifyVpcEndpoint_def Let_def case_prod_beta endpoint_env_def sample_vpce_def run_simps ref_defs sample_defs)

theorem validated_endpoint_is_configured_witness:
  "let t = snd (validateVPCEndpoint endpoint_env sample_state) in \<exists>v.
    seen endpoint_env sample_state t v \<and> evp_VpcEndpointId v = Some (st_VPCEndpointId (rc_status t)) \<and>
    st_Status (rc_status t) = evp_State v \<and> evp_State v \<in> set usable_states \<and>
    (if evp_State v = ''available''
     then \<exists>ids. wanted_subnets endpoint_env sample_state t ids \<and>
       after (evp_VpcEndpointId v) (new_events sample_state t) (settings_of v) = configured sample_state v ids
     else list_all (\<lambda>e. \<not> modifies e) (new_events sample_state t))"
  unfolding Let_def by (rule validated_endpoint_is_configured [OF sample_endpoint_validated])

theorem endpoint_conditions_witness:
  "let c = st_Conditions (rc_status (snd (validateVPCEndpoint endpoint_env sample_state)))
   in condition_true c AWSVpcEndpointCondition \<longleftrightarrow>
     st_Status (rc_status (snd (validateVPCEndpoint endpoint_env sample_state))) = ''available''"
proof -
  have "lib endpoint_env = ref_lib" by (simp add: endpoint_env_def)
  with endpoint_conditions [OF ref_laws(1) sample_endpoint_validated] show ?thesis
    by (simp add: Let_def ref_lib_def)
qed

lemma new_endpoint_created:
  "Ec2 sample_config (DoCreateVpcEndpoint ''vpc-1'' ''com.amazonaws.vpce.svc''
     [mk_tag OperatorTagKey OperatorTagValue, mk_tag RedHatManagedTagKey RedHatManagedTagValue,
      mk_tag ''kubernetes.io/cluster/infra'' ''owned'', mk_tag ''Name'' ''infra-example-vpce''])
   \<in> set (new_events new_state (snd (validateVPCEndpoint create_env new_state)))"
  by (simp add: validateVPCEndpoint_def findOrCreateVpcEndpoint_def DescribeSingleVPCEndpointById_def vpn.short
      FilterVPCEndpointByDefaultTags_def CreateDefaultInterfaceVPCEndpoint_def GenerateAwsTags_def
      endpointNotReady_def set_pending_metric_def invalidateRoute53RecordCondition_def new_events_def
      Let_def create_env_def sample_vpce_def new_state_def run_simps ref_defs sample_defs)

lemma endpoint_created_only_if_missing_example:
  "reported (ec2_DescribeVpcEndpoints (ec2 create_env))
     (Ec2 sample_config (DoDescribeVpcEndpoints (vpce_filters ''kubernetes.io/cluster/infra'' ''infra-example-vpce'') []))
     [] new_state (snd (validateVPCEndpoint create_env new_state))"
proof -
  obtain n info where
    "GenerateVPCEndpointName (st_InfraId (rc_status new_state)) (ve_Name (rc_resource new_state)) = Ok n"
    "rc_clusterInfo new_state = Some info"
    and r: "reported (ec2_DescribeVpcEndpoints (ec2 create_env)) (Ec2 sample_config
      (DoDescribeVpcEndpoints (vpce_filters (ci_clusterTag info) n) [])) [] new_state (snd (validateVPCEndpoint create_env new_state))"
    using endpoint_created_only_if_missing [OF prod.collapse [symmetric] new_endpoint_created] by blast
  then have "n = ''infra-example-vpce''" "ci_clusterTag info = ''kubernetes.io/cluster/infra''"
    by (auto simp: new_state_def sample_defs vpn.short)
  with r show ?thesis by (simp only:)
qed

end
