(* ===== verification/ZoneCache.thy ===== *)
theory ZoneCache
  imports Reconciler
begin

text \<open>
  The cache of \<open>GetHostedZone\<close> responses (helpers.go, \<open>getHostedZoneCached\<close> and
  \<open>invalidateHostedZoneCache\<close>). The Go map is nil until the first use; reading a nil map finds
  nothing. The mutex around both functions makes them atomic, as a step of the model is. The
  interface \<open>zone_cache\<close> is the map behind the cache; the lemmas about stored and dropped
  entries are proved from its laws. \<open>cache_genuine\<close> is the invariant of the cache: every entry is an
  answer that AWS gave; from it follows how old an answer can be (\<open>recent\<close>).
\<close>

definition hostedZoneCacheTTL :: int where
  "hostedZoneCacheTTL = 2 * 60 * 1000000000"

type_synonym zoneCache = "(string \<rightharpoonup> hostedZoneCacheEntry) option"

definition cache_make :: "zoneCache \<Rightarrow> zoneCache" where
  "cache_make c = (case c of None \<Rightarrow> Some Map.empty | Some m \<Rightarrow> Some m)"

definition cache_lookup :: "zoneCache \<Rightarrow> string \<Rightarrow> hostedZoneCacheEntry option" where
  "cache_lookup c i = (case c of None \<Rightarrow> None | Some m \<Rightarrow> m i)"

definition cache_store :: "string \<Rightarrow> hostedZoneCacheEntry \<Rightarrow> zoneCache \<Rightarrow> zoneCache" where
  "cache_store i e c = (case cache_make c of None \<Rightarrow> None | Some m \<Rightarrow> Some (m(i \<mapsto> e)))"

definition cache_drop :: "string \<Rightarrow> zoneCache \<Rightarrow> zoneCache" where
  "cache_drop i c = (case c of None \<Rightarrow> None | Some m \<Rightarrow> Some (m(i := None)))"

locale zone_cache =
  fixes lookup :: "'c \<Rightarrow> 'i \<Rightarrow> 'e option"
    and store :: "'i \<Rightarrow> 'e \<Rightarrow> 'c \<Rightarrow> 'c"
    and drop_entry :: "'i \<Rightarrow> 'c \<Rightarrow> 'c"
  assumes lookup_store: "lookup (store i e c) j = (if j = i then Some e else lookup c j)"
    and lookup_drop: "lookup (drop_entry i c) j = (if j = i then None else lookup c j)"
begin

definition sound :: "('i \<Rightarrow> 'e \<Rightarrow> bool) \<Rightarrow> 'c \<Rightarrow> bool" where
  "sound P c \<longleftrightarrow> (\<forall>i e. lookup c i = Some e \<longrightarrow> P i e)"

lemma soundD: "sound P c \<Longrightarrow> lookup c i = Some e \<Longrightarrow> P i e"
  by (auto simp: sound_def)

lemma sound_store: "sound P c \<Longrightarrow> P i e \<Longrightarrow> sound P (store i e c)"
  by (auto simp: sound_def lookup_store)

lemma sound_drop: "sound P c \<Longrightarrow> sound P (drop_entry i c)"
  by (auto simp: sound_def lookup_drop)

lemma sound_mono: "sound P c \<Longrightarrow> (\<And>i e. P i e \<Longrightarrow> Q i e) \<Longrightarrow> sound Q c"
  by (auto simp: sound_def)

lemma lookup_drop_same: "lookup (drop_entry i c) i = None"
  by (simp add: lookup_drop)

lemma lookup_store_same: "lookup (store i e c) i = Some e"
  by (simp add: lookup_store)

end

interpretation zc: zone_cache cache_lookup cache_store cache_drop
  by unfold_locales
    (auto simp: cache_lookup_def cache_store_def cache_drop_def cache_make_def split: option.splits)

lemma cache_lookup_make [simp]: "cache_lookup (cache_make c) i = cache_lookup c i"
  by (simp add: cache_lookup_def cache_make_def split: option.split)

lemma cache_lookup_None [simp]: "cache_lookup None i = None"
  by (simp add: cache_lookup_def)

section \<open>The operations\<close>

definition with_cache :: "(zoneCache \<Rightarrow> zoneCache) \<Rightarrow> unit rprog" where
  "with_cache f = modifyE (\<lambda>s. s\<lparr>rc_hostedZoneCache := f (rc_hostedZoneCache s)\<rparr>)"

text \<open>The miss: ask AWS, remember the answer together with the time it came.\<close>

definition fetchHostedZone :: "env \<Rightarrow> string \<Rightarrow> getHostedZoneOutput rprog" where
  "fetchHostedZone E zoneId =
     bindE awsClient (\<lambda>c.
     bindE (GetHostedZone E c zoneId) (\<lambda>resp.
     bindE (now E) (\<lambda>t.
     bindE (with_cache (cache_store zoneId \<lparr>ce_response = resp, ce_fetchedAt = t\<rparr>)) (\<lambda>_.
     ret resp))))"

definition getHostedZoneCached :: "env \<Rightarrow> string \<Rightarrow> getHostedZoneOutput rprog" where
  "getHostedZoneCached E zoneId =
     bindE (with_cache cache_make) (\<lambda>_.
     bindE (getsE (\<lambda>s. cache_lookup (rc_hostedZoneCache s) zoneId)) (\<lambda>entry.
     case entry of
       Some e \<Rightarrow>
         bindE (now E) (\<lambda>t.
         if t - ce_fetchedAt e < hostedZoneCacheTTL then ret (ce_response e)
         else bindE (with_cache (cache_drop zoneId)) (\<lambda>_. fetchHostedZone E zoneId))
     | None \<Rightarrow> fetchHostedZone E zoneId))"

definition invalidateHostedZoneCache :: "string \<Rightarrow> unit rprog" where
  "invalidateHostedZoneCache zoneId = with_cache (cache_drop zoneId)"

lemma with_cache_eq:
  "with_cache f s = (r, u) \<longleftrightarrow>
     r = Ok () \<and> u = s\<lparr>rc_hostedZoneCache := f (rc_hostedZoneCache s)\<rparr>"
  by (auto simp: with_cache_def modifyE_run)

lemma with_cache_run [run_simps]:
  "with_cache f s = (Ok (), s\<lparr>rc_hostedZoneCache := f (rc_hostedZoneCache s)\<rparr>)"
  by (simp add: with_cache_eq)

section \<open>What a cached response is worth\<close>

text \<open>
  \<open>answered E h i resp\<close>: the history \<open>h\<close> ends with a \<open>GetHostedZone\<close> for the zone, and AWS
  answered it with \<open>resp\<close>. An entry of the cache is genuine if it holds such an answer and the
  time of it.
\<close>

definition answered :: "env \<Rightarrow> event list \<Rightarrow> string \<Rightarrow> getHostedZoneOutput \<Rightarrow> bool" where
  "answered E h zoneId resp \<longleftrightarrow>
     (\<exists>h' c. h = h' @ [R53 c (DoGetHostedZone (''/hostedzone/'' @ zoneId))]) \<and>
     r53_GetHostedZone (r53 E) h = Inr resp"

definition genuine :: "env \<Rightarrow> event list \<Rightarrow> string \<Rightarrow> hostedZoneCacheEntry \<Rightarrow> bool" where
  "genuine E hist zoneId e \<longleftrightarrow>
     (\<exists>h rest. hist = h @ rest \<and> answered E h zoneId (ce_response e) \<and>
        ce_fetchedAt e = lib_Now (lib E) h)"

definition cache_genuine :: "env \<Rightarrow> reconciler \<Rightarrow> bool" where
  "cache_genuine E s \<longleftrightarrow> zc.sound (genuine E (history s)) (rc_hostedZoneCache s)"

lemma genuine_grows: "genuine E hist i e \<Longrightarrow> genuine E (hist @ tr) i e"
  by (fastforce simp: genuine_def)

lemma cache_genuine_frame:
  assumes "cache_genuine E s" "emits A s t" "rc_hostedZoneCache t = rc_hostedZoneCache s"
  shows "cache_genuine E t"
  using assms unfolding cache_genuine_def emits_def
  by (auto elim!: zc.sound_mono intro: genuine_grows)

lemma GetHostedZone_Ok:
  "GetHostedZone E c i s = (Ok resp, t) \<longleftrightarrow>
     t = s\<lparr>history := history s @ [R53 c (DoGetHostedZone (''/hostedzone/'' @ i))]\<rparr> \<and>
     r53_GetHostedZone (r53 E) (history t) = Inr resp"
  by (auto simp: GetHostedZone_def invoke_Ok)

lemma GetHostedZone_frame:
  assumes "GetHostedZone E c i s = (r, t)"
  shows "t = s\<lparr>history := history s @ [R53 c (DoGetHostedZone (''/hostedzone/'' @ i))]\<rparr>"
  using assms by (simp add: GetHostedZone_def invoke_eq)

lemma fetchHostedZone_Ok:
  assumes "fetchHostedZone E i s = (Ok resp, t)"
  obtains c where "rc_awsClient s = Some c"
    and "history t = history s @ [R53 c (DoGetHostedZone (''/hostedzone/'' @ i))]"
    and "answered E (history t) i resp"
    and "t = s\<lparr>history := history t, rc_hostedZoneCache := cache_store i
           \<lparr>ce_response = resp, ce_fetchedAt = lib_Now (lib E) (history t)\<rparr> (rc_hostedZoneCache s)\<rparr>"
proof -
  from assms obtain c where c: "rc_awsClient s = Some c"
    and g: "GetHostedZone E c i s =
        (Ok resp, s\<lparr>history := history s @ [R53 c (DoGetHostedZone (''/hostedzone/'' @ i))]\<rparr>)"
    and t: "t = s\<lparr>history := history s @ [R53 c (DoGetHostedZone (''/hostedzone/'' @ i))],
        rc_hostedZoneCache := cache_store i \<lparr>ce_response = resp, ce_fetchedAt =
          lib_Now (lib E) (history s @ [R53 c (DoGetHostedZone (''/hostedzone/'' @ i))])\<rparr>
          (rc_hostedZoneCache s)\<rparr>"
    by (auto simp: fetchHostedZone_def rc_Ok with_cache_eq GetHostedZone_Ok split: option.splits)
  show thesis
    by (rule that [OF c]) (use g t in \<open>auto simp: GetHostedZone_Ok answered_def\<close>)
qed

lemma fetchHostedZone_frame:
  assumes "fetchHostedZone E i s = (r, t)" "\<forall>x. r \<noteq> Ok x"
  shows "\<exists>tr. t = s\<lparr>history := history s @ tr\<rparr>"
proof (cases "rc_awsClient s")
  case None
  with assms show ?thesis
    by (auto simp: fetchHostedZone_def run_simps intro: exI [of _ "[]"])
next
  case (Some c)
  with assms show ?thesis
    by (auto simp: fetchHostedZone_def run_simps GetHostedZone_def split: sum.splits if_splits)
qed

lemma fetchHostedZone_genuine:
  assumes "fetchHostedZone E i s = (r, t)" "cache_genuine E s"
  shows "cache_genuine E t"
proof (cases "\<exists>x. r = Ok x")
  case True
  then obtain resp where "fetchHostedZone E i s = (Ok resp, t)" using assms(1) by auto
  then obtain c where h: "history t = history s @ [R53 c (DoGetHostedZone (''/hostedzone/'' @ i))]"
    and a: "answered E (history t) i resp"
    and t: "t = s\<lparr>history := history t, rc_hostedZoneCache := cache_store i
           \<lparr>ce_response = resp, ce_fetchedAt = lib_Now (lib E) (history t)\<rparr> (rc_hostedZoneCache s)\<rparr>"
    by (rule fetchHostedZone_Ok)
  have "rc_hostedZoneCache t = cache_store i
      \<lparr>ce_response = resp, ce_fetchedAt = lib_Now (lib E) (history t)\<rparr> (rc_hostedZoneCache s)"
    by (subst t) simp
  moreover have "zc.sound (genuine E (history t)) (rc_hostedZoneCache s)"
    using assms(2) unfolding cache_genuine_def h by (rule zc.sound_mono) (rule genuine_grows)
  moreover have "genuine E (history t) i \<lparr>ce_response = resp, ce_fetchedAt = lib_Now (lib E) (history t)\<rparr>"
    using a unfolding genuine_def by force
  ultimately show ?thesis
    unfolding cache_genuine_def by (simp add: zc.sound_store)
next
  case False
  with fetchHostedZone_frame [OF assms(1)] obtain tr where t: "t = s\<lparr>history := history s @ tr\<rparr>"
    by auto
  show ?thesis
    using assms(2) unfolding cache_genuine_def t by (auto elim!: zc.sound_mono intro: genuine_grows)
qed

lemma getHostedZoneCached_cases:
  assumes "getHostedZoneCached E i s = (r, t)"
  obtains (hit) e where "cache_lookup (rc_hostedZoneCache s) i = Some e"
      and "lib_Now (lib E) (history s) - ce_fetchedAt e < hostedZoneCacheTTL"
      and "r = Ok (ce_response e)"
      and "t = s\<lparr>rc_hostedZoneCache := cache_make (rc_hostedZoneCache s)\<rparr>"
  | (stale) e where "cache_lookup (rc_hostedZoneCache s) i = Some e"
      and "hostedZoneCacheTTL \<le> lib_Now (lib E) (history s) - ce_fetchedAt e"
      and "fetchHostedZone E i
        (s\<lparr>rc_hostedZoneCache := cache_drop i (cache_make (rc_hostedZoneCache s))\<rparr>) = (r, t)"
  | (miss) "cache_lookup (rc_hostedZoneCache s) i = None"
      and "fetchHostedZone E i (s\<lparr>rc_hostedZoneCache := cache_make (rc_hostedZoneCache s)\<rparr>) = (r, t)"
  using assms
  by (cases "cache_lookup (rc_hostedZoneCache s) i")
    (auto simp: getHostedZoneCached_def run_simps split: if_splits)

lemma cache_genuine_local:
  assumes "cache_genuine E s"
  shows "cache_genuine E (s\<lparr>rc_hostedZoneCache := cache_make (rc_hostedZoneCache s)\<rparr>)"
    and "cache_genuine E (s\<lparr>rc_hostedZoneCache := cache_drop i (cache_make (rc_hostedZoneCache s))\<rparr>)"
    and "cache_genuine E (s\<lparr>rc_hostedZoneCache := cache_drop i (rc_hostedZoneCache s)\<rparr>)"
  using assms
  by (auto simp: cache_genuine_def zc.sound_def zc.lookup_drop split: if_splits)

lemma getHostedZoneCached_genuine:
  assumes "getHostedZoneCached E i s = (r, t)" "cache_genuine E s"
  shows "cache_genuine E t"
  using assms(1)
proof (cases rule: getHostedZoneCached_cases)
  case hit
  with assms(2) show ?thesis by (simp add: cache_genuine_local)
next
  case stale
  then show ?thesis using cache_genuine_local(2) [OF assms(2)] by (blast intro: fetchHostedZone_genuine)
next
  case miss
  then show ?thesis using cache_genuine_local(1) [OF assms(2)] by (blast intro: fetchHostedZone_genuine)
qed

lemma getHostedZoneCached_steady [steady_ops]:
  assumes "\<And>e. aws_read e \<Longrightarrow> A e"
  shows "preserves (steady A) (getHostedZoneCached E i)"
  unfolding getHostedZoneCached_def fetchHostedZone_def with_cache_def
  by (intro steady_intros steady_modify assms; simp)

lemma invalidateHostedZoneCache_steady [steady_ops]:
  "preserves (steady A) (invalidateHostedZoneCache i)"
  unfolding invalidateHostedZoneCache_def with_cache_def by (intro steady_modify; simp)

section \<open>The cache across a reconciliation\<close>

text \<open>\<open>cached E\<close>: the history grows, and if the cache was genuine before, it is afterwards.\<close>

definition cached :: "env \<Rightarrow> reconciler \<Rightarrow> reconciler \<Rightarrow> bool" where
  "cached E s t \<longleftrightarrow> emits (\<lambda>_. True) s t \<and> (cache_genuine E s \<longrightarrow> cache_genuine E t)"

interpretation ch: frame "cached E" for E
  by unfold_locales (auto simp: cached_def intro: emits_refl emits_trans)

lemma cached_same: "emits A s t \<Longrightarrow> rc_hostedZoneCache t = rc_hostedZoneCache s \<Longrightarrow> cached E s t"
  by (auto simp: cached_def intro: cache_genuine_frame emits_weaken)

lemma preserves_calls_cached: "preserves (calls A) m \<Longrightarrow> preserves (cached E) m"
  unfolding preserves_def
proof
  fix s
  assume "\<forall>s. calls A s (snd (m s))"
  then have "calls A s (snd (m s))" by blast
  then show "cached E s (snd (m s))" by (intro cached_same [OF calls_emits]) (auto simp: calls_def)
qed

lemma cached_modify:
  "(\<And>s. history (f s) = history s) \<Longrightarrow> (\<And>s. rc_hostedZoneCache (f s) = rc_hostedZoneCache s) \<Longrightarrow>
   preserves (cached E) (modifyE f)"
  by (rule ch.modifyE) (auto intro!: cached_same [of "\<lambda>_. True"] simp: emits_def)

lemma cached_set_status: "preserves (cached E) (set_status f)"
  unfolding set_status_def by (rule cached_modify) simp_all

lemma cached_steps:
  "preserves (cached E) resource" "preserves (cached E) status" "preserves (cached E) awsClient"
  "preserves (cached E) clusterTag" "preserves (cached E) region"
  "preserves (cached E) (isConditionTrue E' ty)" "preserves (cached E) (age E')"
  "preserves (cached E) (updateStatus E')" "preserves (cached E) (record_normal reason)"
  "preserves (cached E) (metric m)" "preserves (cached E) (emit ev)"
  "preserves (cached E) (invoke ev respond)" "preserves (cached E) (now E')"
  "preserves (cached E) (range_order_now E')"
  unfolding resource_def status_def awsClient_def clusterTag_def region_def isConditionTrue_def age_def
    updateStatus_def record_normal_def metric_def
  by (intro ch.intros preserves_calls_cached [where A = "\<lambda>_. True"] calls_intros; simp)+

lemma cached_setCondition: "preserves (cached E) (setCondition E' ty st reason msg)"
  unfolding setCondition_def by (rule cached_set_status)

lemmas cached_progs = ch.ret ch.failE ch.panicE ch.divergeE ch.getsE ch.deref ch.liftS ch.liftO ch.bindE
  ch.attempt ch.whenE ch.forE ch.foldE ch.mapE ch.findE ch.mapErr ch.if_prog ch.case_option_prog
  ch.case_sum_prog ch.case_list_prog ch.case_prod_prog

lemmas cached_calls = aws_calls [where A = "\<lambda>_. True", simplified, THEN preserves_calls_cached]
  r53_calls [where A = "\<lambda>_. True", simplified, THEN preserves_calls_cached]
  k8s_calls [where A = "\<lambda>_. True", simplified, THEN preserves_calls_cached]

lemmas cached_intros = cached_progs cached_calls cached_set_status cached_setCondition cached_steps

lemma getHostedZoneCached_grows: "preserves (emits (\<lambda>_. True)) (getHostedZoneCached E i)"
  by (rule preserves_steady_emits, rule getHostedZoneCached_steady) simp

lemma getHostedZoneCached_cached: "preserves (cached E) (getHostedZoneCached E i)"
  unfolding cached_def
  by (rule preservesI) (blast intro: getHostedZoneCached_genuine preservesD [OF getHostedZoneCached_grows])

lemma invalidateHostedZoneCache_cached: "preserves (cached E) (invalidateHostedZoneCache i)"
  unfolding cached_def invalidateHostedZoneCache_def
  by (rule preservesI) (auto simp: with_cache_eq emits_def intro: cache_genuine_local)

section \<open>Freshness\<close>

text \<open>
  \<open>recent E i resp hist\<close>: AWS answered a request for the zone with \<open>resp\<close>, less than two minutes (in
  nanoseconds) before the end of the history.
\<close>

definition recent :: "env \<Rightarrow> string \<Rightarrow> getHostedZoneOutput \<Rightarrow> event list \<Rightarrow> bool" where
  "recent E zoneId resp hist \<longleftrightarrow> (\<exists>h rest. hist = h @ rest \<and> answered E h zoneId resp \<and>
     lib_Now (lib E) hist - lib_Now (lib E) h < 120 * 1000000000)"

lemma invalidated_lookup_asks:
  assumes "bindE (invalidateHostedZoneCache i) (\<lambda>_. getHostedZoneCached E i) s = (Ok resp, t)"
  shows "answered E (history t) i resp \<and> length (history t) = length (history s) + 1"
proof -
  let ?u = "s\<lparr>rc_hostedZoneCache := cache_drop i (rc_hostedZoneCache s)\<rparr>"
  have "getHostedZoneCached E i ?u = (Ok resp, t)"
    using assms by (simp add: invalidateHostedZoneCache_def bindE_run with_cache_run)
  then show ?thesis
    by (cases rule: getHostedZoneCached_cases) (auto simp: zc.lookup_drop_same elim!: fetchHostedZone_Ok)
qed

lemma getHostedZoneCached_recent:
  assumes "cache_genuine E s" "getHostedZoneCached E i s = (Ok resp, t)"
  shows "recent E i resp (history t)"
proof -
  have fresh: "recent E i resp (history t)" if "fetchHostedZone E i u = (Ok resp, t)" for u
    using that
  proof (rule fetchHostedZone_Ok)
    assume "answered E (history t) i resp"
    then show ?thesis unfolding recent_def by (intro exI [of _ "history t"] exI [of _ "[]"]) simp
  qed
  from assms(2) show ?thesis
  proof (cases rule: getHostedZoneCached_cases)
    case (hit e)
    then have "genuine E (history s) i e" using assms(1) unfolding cache_genuine_def by (blast dest: zc.soundD)
    with hit show ?thesis unfolding genuine_def recent_def by (fastforce simp: hostedZoneCacheTTL_def)
  qed (auto intro: fresh)
qed


end
