(* ===== verification/CustomDns.thy ===== *)
theory CustomDns
  imports ZoneCache
begin

text \<open>
  Custom DNS for an endpoint (helpers.go and validation.go): the Route 53 private hosted zone and
  its tags, the record that points at the endpoint, the additional VPCs associated with the zone,
  and the ExternalName service in the cluster.
\<close>

section \<open>Running validations\<close>

definition validateResources :: "unit rprog list \<Rightarrow> unit rprog" where
  "validateResources validations = forE (\<lambda>validation. validation) validations"

text \<open>
  The contract of a list of validations: each one keeps the frame for the events \<open>A\<close>. The list
  as a whole then does, stops at the first error, and succeeds only if every one of them does.
\<close>

locale validation_pipeline =
  fixes A :: "event \<Rightarrow> bool"
    and stages :: "unit rprog list"
  assumes stage_steady: "m \<in> set stages \<Longrightarrow> preserves (steady A) m"
begin

lemma pipeline_steady: "preserves (steady A) (validateResources stages)"
  unfolding validateResources_def by (intro sy.forE stage_steady)

end

lemma validateResources_Nil [simp]: "validateResources [] = ret ()"
  by (simp add: validateResources_def)

lemma validateResources_Cons [simp]:
  "validateResources (m # ms) = bindE m (\<lambda>_. validateResources ms)"
  by (simp add: validateResources_def)

section \<open>The private hosted zone\<close>

text \<open>The zone id without the prefix \<open>/hostedzone/\<close>, or as given if it does not parse.\<close>

definition parse_zone_id :: "string \<Rightarrow> string" where
  "parse_zone_id s = (case sscanf s ''/hostedzone/'' of Inr w \<Rightarrow> w | Inl _ \<Rightarrow> s)"

definition resolveDomainName :: "env \<Rightarrow> string rprog" where
  "resolveDomainName E =
     bindE resource (\<lambda>res.
     let zone = ve_Zone res in
     if phz_DomainName zone \<noteq> '''' then ret (phz_DomainName zone)
     else (case phz_DomainNameRef zone of
             None \<Rightarrow> ret ''''
           | Some ref \<Rightarrow>
               if dn_Name ref \<noteq> '''' then ret (dn_Name ref)
               else (case dn_ValueFrom ref of
                       None \<Rightarrow> ret ''''
                     | Some src \<Rightarrow>
                         (case dns_DnsRef src of
                            Some dns \<Rightarrow> dnses_GetPrivateHostedZoneDomainName E (dns_Name dns)
                          | None \<Rightarrow>
                              (case dns_HostedControlPlaneRef src of
                                 None \<Rightarrow> ret ''''
                               | Some hcp \<Rightarrow>
                                   bindE (deref (hcp_NamespaceFieldRef hcp)) (\<lambda>fieldRef.
                                   if ofs_FieldPath fieldRef = ''.metadata.namespace''
                                   then hcp_GetPrivateHostedZoneDomainName E (ve_Namespace res)
                                   else failE (Errorf ''unsupported fieldPath: %s''
                                                 [FS (ofs_FieldPath fieldRef)])))))))"

definition zone_in_vpc :: "string \<Rightarrow> hostedZoneSummary \<Rightarrow> bool rprog" where
  "zone_in_vpc domain hz =
     bindE (deref (hs_Name hz)) (\<lambda>n. ret (trim_right n (CHR ''.'') = domain))"

definition private_zone_named :: "string \<Rightarrow> hostedZone \<Rightarrow> bool rprog" where
  "private_zone_named domain hz =
     bindE (deref (hz_Name hz)) (\<lambda>n.
     ret (trim_right n (CHR ''.'') = domain \<and> hz_PrivateZone hz = Some True))"

definition useHostedZone :: "env \<Rightarrow> string \<Rightarrow> unit rprog" where
  "useHostedZone E zoneId =
     bindE (set_status (\<lambda>v. v\<lparr>st_HostedZoneId := parse_zone_id zoneId\<rparr>)) (\<lambda>_.
     mapErr (Wrapf ''failed to update status: %w'' []) (updateStatus E))"

definition createPrivateHostedZone :: "env \<Rightarrow> awsConfig \<Rightarrow> string \<Rightarrow> unit rprog" where
  "createPrivateHostedZone E c domain =
     bindE status (\<lambda>st.
     bindE region (\<lambda>awsRegion.
     bindE (mapErr (Wrapf ''failed to create hosted zone: %w'' [])
              (CreateHostedZone E c domain (st_VPCId st) awsRegion)) (\<lambda>created.
     bindE (deref created) (\<lambda>hz.
     bindE (deref (hz_Id hz)) (\<lambda>zoneId.
     bindE (set_status (\<lambda>v. v\<lparr>st_HostedZoneId := parse_zone_id zoneId\<rparr>)) (\<lambda>_.
     bindE (record_normal ''Created'') (\<lambda>_.
     mapErr (Wrapf ''failed to update status: %w'' []) (updateStatus E))))))))"

text \<open>The zone of a domain: the one of the VPC, else any private one of that name, else a new one.\<close>

definition zoneForDomain :: "env \<Rightarrow> string \<Rightarrow> unit rprog" where
  "zoneForDomain E domain =
     bindE status (\<lambda>st.
     bindE region (\<lambda>awsRegion.
     bindE awsClient (\<lambda>c.
     bindE (ListHostedZonesByVPC E c (st_VPCId st) awsRegion) (\<lambda>summaries.
     bindE (findE (zone_in_vpc domain) summaries) (\<lambda>inVpc.
     case inVpc of
       Some hz \<Rightarrow>
         bindE (deref (hs_HostedZoneId hz)) (\<lambda>zoneId.
         whenE (st_HostedZoneId st \<noteq> zoneId)
           (bindE (set_status (\<lambda>v. v\<lparr>st_HostedZoneId := zoneId\<rparr>)) (\<lambda>_. updateStatus E)))
     | None \<Rightarrow>
         bindE (mapErr (Wrapf ''failed to check for existing hosted zones by name: %w'' [])
                  (ListHostedZonesByName E c domain)) (\<lambda>zones.
         bindE (findE (private_zone_named domain) zones) (\<lambda>byName.
         case byName of
           Some hz \<Rightarrow> bindE (deref (hz_Id hz)) (useHostedZone E)
         | None \<Rightarrow> createPrivateHostedZone E c domain)))))))"

definition findOrCreatePrivateHostedZone :: "env \<Rightarrow> unit rprog" where
  "findOrCreatePrivateHostedZone E =
     bindE status (\<lambda>st.
     if st_HostedZoneId st \<noteq> '''' then
       bindE (getHostedZoneCached E (st_HostedZoneId st)) (\<lambda>resp.
       bindE (deref (gh_HostedZone resp)) (\<lambda>hz.
       bindE (deref (hz_Id hz)) (\<lambda>zoneId.
       if zoneId = ''/hostedzone/'' @ st_HostedZoneId st then ret ()
       else failE (Errorf ''could not find hosted zone %s'' [FS (st_HostedZoneId st)]))))
     else
       bindE (resolveDomainName E) (\<lambda>domain.
       whenE (domain \<noteq> '''') (zoneForDomain E domain)))"

text \<open>
  The loop over the default tags asks AWS to set all of them once for every tag that is missing
  or differs.
\<close>

definition createMissingPrivateZoneTags :: "env \<Rightarrow> unit rprog" where
  "createMissingPrivateZoneTags E =
     bindE status (\<lambda>st.
     bindE awsClient (\<lambda>c.
     bindE (mapErr (Wrapf (''failed to list zone'' @ [CHR 0x27] @ ''s tags %w'') [])
              (FetchPrivateZoneTags E c (st_HostedZoneId st))) (\<lambda>listTagsOut.
     bindE clusterTag (\<lambda>tag.
     bindE (mapErr (Wrapf (''failed to generate hosted zone'' @ [CHR 0x27] @ ''s default tags %w'') [])
              (liftS (GenerateDefaultTagsForHostedZoneInput (st_HostedZoneId st) tag))) (\<lambda>input.
     bindE (deref listTagsOut) (\<lambda>tags.
     bindE (deref (tag_pairs tags)) (\<lambda>actualTags.
     bindE (forE (\<lambda>t.
              bindE (deref (et_Key t)) (\<lambda>k.
              bindE (case map_of (gomap actualTags) k of
                       None \<Rightarrow> ret True
                     | Some v \<Rightarrow> bindE (deref (et_Value t)) (\<lambda>expected. ret (v \<noteq> expected))) (\<lambda>missing.
              whenE missing
                (mapErr (Wrapf ''failed tag hosted zone with default tags %w'' [])
                   (ChangeTagsForResource E c input))))) (cti_AddTags input)) (\<lambda>_.
     bindE (setCondition E AWSRoute53TagsCondition ConditionTrue ''TagsVerified''
              ''Route53 hosted zone tags are correct'') (\<lambda>_.
     updateStatus E)))))))))"

definition adoptZone :: "env \<Rightarrow> string \<Rightarrow> unit rprog" where
  "adoptZone E zoneId =
     bindE status (\<lambda>st.
     whenE (st_HostedZoneId st \<noteq> zoneId)
       (bindE (set_status (\<lambda>v. v\<lparr>st_HostedZoneId := zoneId\<rparr>)) (\<lambda>_. updateStatus E)))"

definition validateR53PrivateHostedZone :: "env \<Rightarrow> unit rprog" where
  "validateR53PrivateHostedZone E =
     bindE resource (\<lambda>res.
     if phz_AutoDiscover (ve_Zone res) then
       bindE (dnses_GetPrivateHostedZoneDomainName E DefaultDnsesName) (\<lambda>domain.
       bindE awsClient (\<lambda>c.
       bindE region (\<lambda>awsRegion.
       bindE (GetDefaultPrivateHostedZoneId E c domain (st_VPCId (ve_Status res)) awsRegion) (\<lambda>hz.
       bindE (deref (hs_HostedZoneId hz)) (adoptZone E)))))
     else if phz_Id (ve_Zone res) \<noteq> '''' then
       bindE (getHostedZoneCached E (phz_Id (ve_Zone res))) (\<lambda>resp.
       bindE (deref (gh_HostedZone resp)) (\<lambda>hz.
       bindE (deref (hz_Id hz)) (adoptZone E)))
     else if phz_DomainName (ve_Zone res) \<noteq> '''' \<or> phz_DomainNameRef (ve_Zone res) \<noteq> None then
       bindE (findOrCreatePrivateHostedZone E) (\<lambda>_.
       bindE (isConditionTrue E AWSRoute53TagsCondition) (\<lambda>tagged.
       whenE (\<not> tagged) (createMissingPrivateZoneTags E)))
     else ret ())"

section \<open>The record\<close>

text \<open>
  The value of the record: the first DNS entry of the endpoint. The outer \<open>None\<close> is the nil
  record of an endpoint that is gone, or that has no DNS entries while it is being deleted.
\<close>

definition generateRoute53Record :: "env \<Rightarrow> string option option rprog" where
  "generateRoute53Record E =
     bindE resource (\<lambda>res.
     if st_VPCEndpointId (ve_Status res) = ''''
     then failE (Errorf ''VPCEndpointID status is missing'' [])
     else
       bindE awsClient (\<lambda>c.
       bindE (DescribeSingleVPCEndpointById E c (st_VPCEndpointId (ve_Status res))) (\<lambda>vpceResp.
       case vpceResp of
         Some (vpce # _) \<Rightarrow>
           if evp_State vpce \<noteq> ''available''
           then failE (Errorf ''VPCEndpoint is not in the available state'' [])
           else (case evp_DnsEntries vpce of
                   [] \<Rightarrow>
                     if om_DeletionTimestamp (ve_Meta res) \<noteq> None then ret None
                     else failE (Errorf ''VPCEndpoint has no DNS entries'' [])
                 | entry # _ \<Rightarrow> ret (Some entry))
       | _ \<Rightarrow> ret None)))"

definition cname_record :: "string \<Rightarrow> string option \<Rightarrow> resourceRecordSet" where
  "cname_record name value =
     \<lparr>rrs_Name = Some name, rrs_Type = ''CNAME'', rrs_TTL = Some 300, rrs_Values = [value]\<rparr>"

definition upsertRecord :: "env \<Rightarrow> getHostedZoneOutput \<Rightarrow> string option \<Rightarrow> unit rprog" where
  "upsertRecord E resp value =
     bindE resource (\<lambda>res.
     bindE (deref (gh_HostedZone resp)) (\<lambda>hz.
     bindE (deref (hz_Name hz)) (\<lambda>zoneName.
     let name = rec_Hostname (phz_Record (ve_Zone res)) @ ''.'' @ trim_right zoneName (CHR ''.'') in
     bindE awsClient (\<lambda>c.
     bindE (deref (hz_Id hz)) (\<lambda>zoneId.
     bindE (UpsertResourceRecordSet E c (cname_record name value) zoneId) (\<lambda>_.
     bindE (isConditionTrue E AWSRoute53RecordCondition) (\<lambda>ready.
     bindE (whenE (\<not> ready)
              (bindE (age E) (\<lambda>d. metric (Observe ''vpce_route53_ready_duration_seconds'' d)))) (\<lambda>_.
     bindE (set_status (\<lambda>v. v\<lparr>st_ResourceRecordSet := name\<rparr>)) (\<lambda>_.
     bindE (setCondition E AWSRoute53RecordCondition ConditionTrue ''Created'' (''Created: '' @ name)) (\<lambda>_.
     updateStatus E))))))))))"

definition validateR53HostedZoneRecord :: "env \<Rightarrow> unit rprog" where
  "validateR53HostedZoneRecord E =
     bindE (isConditionTrue E AWSRoute53RecordCondition) (\<lambda>recorded.
     bindE (isConditionTrue E AWSVpcEndpointCondition) (\<lambda>available.
     if recorded \<and> available then ret ()
     else
       bindE status (\<lambda>st.
       bindE (getHostedZoneCached E (st_HostedZoneId st)) (\<lambda>resp.
       bindE (attempt (generateRoute53Record E)) (\<lambda>generated.
       case generated of
         Inr (Some value) \<Rightarrow> upsertRecord E resp value
       | _ \<Rightarrow> ret ())))))"

section \<open>Associated VPCs\<close>

definition associateVpc :: "env \<Rightarrow> string list \<Rightarrow> associatedVpc \<Rightarrow> unit rprog" where
  "associateVpc E associatedVpcs v =
     whenE (av_VpcId v \<notin> set associatedVpcs)
       (bindE status (\<lambda>st.
        bindE awsClient (\<lambda>c.
        bindE (CreateVPCAssociationAuthorization E c (st_HostedZoneId st) (av_VpcId v) (av_Region v)) (\<lambda>_.
        bindE (ParseAWSCredentialOverride E (av_Region v) (av_CredentialsSecretRef v)) (\<lambda>cfg.
        bindE (modifyE (\<lambda>s. s\<lparr>rc_awsAssociatedVpcClient := Some cfg\<rparr>)) (\<lambda>_.
        bindE (AssociateVPCWithHostedZone E cfg (st_HostedZoneId st) (av_VpcId v) (av_Region v)) (\<lambda>_.
        invalidateHostedZoneCache (st_HostedZoneId st))))))))"

definition validateR53HostedZoneAuthorization :: "env \<Rightarrow> unit rprog" where
  "validateR53HostedZoneAuthorization E =
     bindE resource (\<lambda>res.
     if phz_AssociatedVpcs (ve_Zone res) = [] then ret ()
     else if st_HostedZoneId (ve_Status res) = ''''
     then failE (Errorf ''cannot validate hosted zone authorizations with an empty resource.status.hostedZoneId'' [])
     else
       bindE (getHostedZoneCached E (st_HostedZoneId (ve_Status res))) (\<lambda>resp.
       bindE (mapE deref (gh_VPCs resp)) (\<lambda>associatedVpcs.
       forE (associateVpc E associatedVpcs) (phz_AssociatedVpcs (ve_Zone res)))))"

section \<open>The ExternalName service\<close>

definition generateExternalNameService :: "env \<Rightarrow> service rprog" where
  "generateExternalNameService E =
     bindE resource (\<lambda>res.
     if st_ResourceRecordSet (ve_Status res) = ''''
     then failE (Errorf ''cannot generate ExternalName service for %s/%s: .status.resourceRecordSet is empty''
                   [FS (ve_Namespace res), FS (ve_Name res)])
     else liftS (lib_SetControllerReference (lib E) res
       \<lparr>svc_Name = ens_Name (rec_ExternalNameService (phz_Record (ve_Zone res))),
        svc_Namespace = ve_Namespace res, svc_Type = ''ExternalName'',
        svc_ExternalName = st_ResourceRecordSet (ve_Status res), svc_Owners = []\<rparr>))"

text \<open>An error of the API server: the condition turns false, and the error is returned.\<close>

definition serviceFailed :: "env \<Rightarrow> error \<Rightarrow> unit rprog" where
  "serviceFailed E err =
     bindE (setCondition E ExternalNameServiceCondition ConditionFalse ''UnknownError''
              (''Unknown error: '' @ lib_ErrorText (lib E) err)) (\<lambda>_.
     bindE (updateStatus E) (\<lambda>_.
     failE err))"

definition createService :: "env \<Rightarrow> service \<Rightarrow> unit rprog" where
  "createService E expected =
     bindE (invoke (K8s (DoCreateService expected)) (k8s_CreateService (k8s E))) (\<lambda>_.
     bindE (setCondition E ExternalNameServiceCondition ConditionTrue ''Created'' '''') (\<lambda>_.
     bindE (updateStatus E) (\<lambda>_.
     failE (Errorf ''requeue to validate service'' []))))"

definition fixService :: "env \<Rightarrow> service \<Rightarrow> service \<Rightarrow> unit rprog" where
  "fixService E expected found =
     whenE (svc_ExternalName found \<noteq> svc_ExternalName expected)
       (let fixed = found\<lparr>svc_ExternalName := svc_ExternalName expected\<rparr> in
        bindE (attempt (invoke (K8s (DoUpdateService fixed)) (k8s_UpdateService (k8s E)))) (\<lambda>updated.
        case updated of
          Inl err \<Rightarrow> serviceFailed E err
        | Inr _ \<Rightarrow>
            bindE (setCondition E ExternalNameServiceCondition ConditionTrue ''Reconciled'' '''') (\<lambda>_.
            updateStatus E)))"

definition validateExternalNameService :: "env \<Rightarrow> unit rprog" where
  "validateExternalNameService E =
     bindE resource (\<lambda>res.
     let rec = phz_Record (ve_Zone res) in
     if rec_Hostname rec = '''' \<or> ens_Name (rec_ExternalNameService rec) = '''' then ret ()
     else
       bindE (generateExternalNameService E) (\<lambda>expected.
       bindE (attempt (invoke (K8s (DoGetService (ve_Namespace res) (ens_Name (rec_ExternalNameService rec))))
                         (k8s_GetService (k8s E)))) (\<lambda>got.
       case got of
         Inl err \<Rightarrow>
           if lib_IsNotFound (lib E) err then createService E expected else serviceFailed E err
       | Inr found \<Rightarrow> fixService E expected found)))"

section \<open>All of it\<close>

definition validateCustomDns :: "env \<Rightarrow> unit rprog" where
  "validateCustomDns E =
     bindE (getsE rc_EnablePrivateDns) (\<lambda>flag.
     bindE resource (\<lambda>res.
     if flag \<and> sp_EnablePrivateDns (ve_Spec res) then ret ()
     else validateResources
       [validateR53PrivateHostedZone E,
        validateR53HostedZoneRecord E,
        validateR53HostedZoneAuthorization E,
        validateExternalNameService E]))"

section \<open>Frames\<close>

fun dns_event :: "event \<Rightarrow> bool" where
  "dns_event (R53 _ (DoUpsertResourceRecordSet _ _)) = True"
| "dns_event (R53 _ (DoCreateHostedZone _ _ _)) = True"
| "dns_event (R53 _ (DoChangeTagsForResource _ _)) = True"
| "dns_event (R53 _ (DoCreateVPCAssociationAuthorization _ _ _)) = True"
| "dns_event (R53 _ (DoAssociateVPCWithHostedZone _ _ _)) = True"
| "dns_event (K8s (DoUpdateStatus _)) = True"
| "dns_event (K8s (DoCreateService _)) = True"
| "dns_event (K8s (DoUpdateService _)) = True"
| "dns_event (Metric _) = True"
| "dns_event (Recorded _ _) = True"
| "dns_event e = (aws_read e \<or> lookup_event e)"

lemma dns_event_read: "aws_read e \<Longrightarrow> dns_event e" "lookup_event e \<Longrightarrow> dns_event e"
  by (cases e rule: dns_event.cases; simp)+

lemma getHostedZoneCached_dns: "preserves (steady dns_event) (getHostedZoneCached E i)"
  by (rule getHostedZoneCached_steady) (rule dns_event_read)

lemma zone_steps_steady:
  "preserves (steady dns_event) (createMissingPrivateZoneTags E)"
  "preserves (steady dns_event) (adoptZone E zoneId)"
  "preserves (steady dns_event) (findOrCreatePrivateHostedZone E)"
  unfolding createMissingPrivateZoneTags_def adoptZone_def findOrCreatePrivateHostedZone_def
    resolveDomainName_def zoneForDomain_def zone_in_vpc_def private_zone_named_def useHostedZone_def
    createPrivateHostedZone_def Let_def
  by (intro steady_intros getHostedZoneCached_dns; auto intro: dns_event_read)+

lemma validateR53PrivateHostedZone_steady [steady_ops]:
  "preserves (steady dns_event) (validateR53PrivateHostedZone E)"
  unfolding validateR53PrivateHostedZone_def
  by (intro steady_intros zone_steps_steady getHostedZoneCached_dns; auto intro: dns_event_read)

lemma validateR53HostedZoneRecord_steady [steady_ops]:
  "preserves (steady dns_event) (validateR53HostedZoneRecord E)"
  unfolding validateR53HostedZoneRecord_def generateRoute53Record_def upsertRecord_def Let_def
  by (intro steady_intros getHostedZoneCached_dns; auto intro: dns_event_read)

lemma validateR53HostedZoneAuthorization_steady [steady_ops]:
  "preserves (steady dns_event) (validateR53HostedZoneAuthorization E)"
  unfolding validateR53HostedZoneAuthorization_def associateVpc_def
  by (intro steady_intros steady_modify getHostedZoneCached_dns invalidateHostedZoneCache_steady;
      auto intro: dns_event_read)

lemma validateExternalNameService_steady [steady_ops]:
  "preserves (steady dns_event) (validateExternalNameService E)"
  unfolding validateExternalNameService_def generateExternalNameService_def createService_def
    fixService_def serviceFailed_def Let_def
  by (intro steady_intros; auto intro: dns_event_read)

interpretation dns: validation_pipeline dns_event
  "[validateR53PrivateHostedZone E, validateR53HostedZoneRecord E,
    validateR53HostedZoneAuthorization E, validateExternalNameService E]" for E
  by unfold_locales (auto intro: validateR53PrivateHostedZone_steady validateR53HostedZoneRecord_steady
      validateR53HostedZoneAuthorization_steady validateExternalNameService_steady)

lemma validateCustomDns_steady [steady_ops]: "preserves (steady dns_event) (validateCustomDns E)"
  unfolding validateCustomDns_def by (intro steady_intros dns.pipeline_steady)

section \<open>What the zone step keeps, and that it returns\<close>

text \<open>Of the status, the zone step changes the zone id and the conditions only.\<close>

lemma validateR53PrivateHostedZone_keeps:
  assumes "\<And>v i. f (v\<lparr>st_HostedZoneId := i\<rparr>) = f v" "\<And>v c. f (v\<lparr>st_Conditions := c\<rparr>) = f v"
  shows "preserves (keeps f) (validateR53PrivateHostedZone E)"
  unfolding validateR53PrivateHostedZone_def createMissingPrivateZoneTags_def adoptZone_def
    findOrCreatePrivateHostedZone_def resolveDomainName_def zoneForDomain_def zone_in_vpc_def
    private_zone_named_def useHostedZone_def createPrivateHostedZone_def getHostedZoneCached_def
    fetchHostedZone_def with_cache_def Let_def
  by (intro keeps_intros keeps_modify; simp add: assms)

lemma api_server_domain_returns: "returns (api_server_domain svcs)"
  by (induction svcs) (auto intro!: returns_intros)

lemmas r53_method_defs = ListHostedZonesByVPC_def GetDefaultPrivateHostedZoneId_def
  GetHostedZone_def ListHostedZonesByName_def ListResourceRecordSets_def FetchPrivateZoneTags_def
  UpsertResourceRecordSet_def DeleteResourceRecordSet_def CreateHostedZone_def DeleteHostedZone_def
  ChangeTagsForResource_def

lemma validateR53PrivateHostedZone_returns: "returns (validateR53PrivateHostedZone E)"
  unfolding validateR53PrivateHostedZone_def createMissingPrivateZoneTags_def adoptZone_def
    findOrCreatePrivateHostedZone_def resolveDomainName_def zoneForDomain_def zone_in_vpc_def
    private_zone_named_def useHostedZone_def createPrivateHostedZone_def getHostedZoneCached_def
    fetchHostedZone_def with_cache_def Let_def r53_method_defs
    dnses_GetPrivateHostedZoneDomainName_def hcp_GetPrivateHostedZoneDomainName_def
  by (intro returns_intros returns_shared returns_events api_server_domain_returns)

end
