(* ===== verification/Cleanup.thy ===== *)
theory Cleanup
  imports CustomDns ClusterInfo
begin

text \<open>
  Deletion of the AWS resources of an endpoint (controllers/vpcendpoint/cleanup.go), one
  definition per stage of \<open>cleanupAwsResources\<close>: the record, the hosted zone, the endpoint with
  the loop that waits until it is gone, the security group. The wait loop asks the clock, so it
  is run with a number of rounds as fuel, an argument of everything that calls it; with a clock
  that advances while the loop sleeps, \<open>poll_rounds\<close> rounds are enough.
\<close>

section \<open>The record\<close>

definition deleteNamedRecord ::
    "env \<Rightarrow> awsConfig \<Rightarrow> hostedZone \<Rightarrow> string \<Rightarrow> resourceRecordSet \<Rightarrow> unit rprog" where
  "deleteNamedRecord E c hz name rr =
     bindE (deref (rrs_Name rr)) (\<lambda>n.
     whenE (n = name @ ''.'')
       (bindE (deref (hz_Id hz)) (\<lambda>zoneId.
        DeleteResourceRecordSet E c rr zoneId)))"

definition deleteRecord :: "env \<Rightarrow> vpcEndpointStatus \<Rightarrow> unit rprog" where
  "deleteRecord E st =
     bindE awsClient (\<lambda>c.
     bindE (GetHostedZone E c (st_HostedZoneId st)) (\<lambda>resp.
     bindE (case gh_HostedZone resp of
              None \<Rightarrow> ret ()
            | Some hz \<Rightarrow>
                bindE (ListResourceRecordSets E c (st_HostedZoneId st)) (\<lambda>rrsets.
                forE (deleteNamedRecord E c hz (st_ResourceRecordSet st)) rrsets)) (\<lambda>_.
     bindE (set_status (\<lambda>v. v\<lparr>st_ResourceRecordSet := ''''\<rparr>)) (\<lambda>_.
     bindE (setCondition E AWSRoute53RecordCondition ConditionFalse ''Deleted''
              ''Deleted Route53 Hosted Zone Record'') (\<lambda>_.
     bindE (updateStatus E) (\<lambda>_.
     record_normal ''Deleted''))))))"

definition cleanupRecord :: "env \<Rightarrow> unit rprog" where
  "cleanupRecord E =
     bindE (isConditionTrue E AWSRoute53RecordCondition) (\<lambda>recorded.
     whenE recorded
       (bindE status (\<lambda>st.
        bindE (whenE (st_HostedZoneId st = '''') (validateR53PrivateHostedZone E)) (\<lambda>_.
        bindE status (\<lambda>st.
        whenE (st_HostedZoneId st \<noteq> '''' \<and> st_ResourceRecordSet st \<noteq> '''') (deleteRecord E st))))))"

section \<open>The hosted zone\<close>

text \<open>May the zone go? Not if its domain name is the base domain of the cluster.\<close>

definition ownsZone :: "env \<Rightarrow> bool rprog" where
  "ownsZone E =
     bindE resource (\<lambda>res.
     if phz_DomainName (ve_Zone res) = '''' \<and> phz_DomainNameRef (ve_Zone res) = None then ret False
     else
       bindE (attempt (invoke (K8s (DoGetDNS DefaultDnsesName)) (k8s_GetDNS (k8s E)))) (\<lambda>dns.
       case dns of
         Inl err \<Rightarrow> if is_hcp (ve_Spec res) then ret True else failE err
       | Inr baseDomain \<Rightarrow> ret (phz_DomainName (ve_Zone res) \<noteq> baseDomain)))"

definition forgetZone :: "env \<Rightarrow> unit rprog" where
  "forgetZone E =
     bindE (record_normal ''Deleted'') (\<lambda>_.
     bindE (set_status (\<lambda>v. v\<lparr>st_HostedZoneId := ''''\<rparr>)) (\<lambda>_.
     updateStatus E))"

definition deleteOtherRecord :: "env \<Rightarrow> awsConfig \<Rightarrow> string \<Rightarrow> resourceRecordSet \<Rightarrow> unit rprog" where
  "deleteOtherRecord E c zoneId rr =
     (if rrs_Type rr = ''NS'' then ret ()
      else if rrs_Type rr = ''SOA'' then ret ()
      else bindE (deref (rrs_Name rr)) (\<lambda>_. DeleteResourceRecordSet E c rr zoneId))"

definition clearZone :: "env \<Rightarrow> awsConfig \<Rightarrow> string \<Rightarrow> unit rprog" where
  "clearZone E c zoneId =
     bindE (ListResourceRecordSets E c zoneId) (\<lambda>rrsets.
     bindE (forE (deleteOtherRecord E c zoneId) rrsets) (\<lambda>_.
     bindE (mapErr (Wrapf ''failed to delete hosted zone %s after clearing records: %w'' [FS zoneId])
              (DeleteHostedZone E c zoneId)) (\<lambda>_.
     forgetZone E)))"

definition zoneDeleted :: "env \<Rightarrow> awsConfig \<Rightarrow> string \<Rightarrow> error + unit \<Rightarrow> unit rprog" where
  "zoneDeleted E c zoneId deleted =
     (case deleted of
        Inr _ \<Rightarrow> record_normal ''Deleted''
      | Inl err \<Rightarrow>
          (case as_api_error err of
             None \<Rightarrow> failE (Wrapf ''unexpected error while deleting hosted zone: %w'' [] err)
           | Some ae \<Rightarrow>
               if fst ae = ''NoSuchHostedZone'' then forgetZone E
               else if fst ae = ''HostedZoneNotEmpty'' then clearZone E c zoneId
               else failE err))"

definition deleteZone :: "env \<Rightarrow> string \<Rightarrow> unit rprog" where
  "deleteZone E zoneId =
     bindE awsClient (\<lambda>c.
     bindE (attempt (DeleteHostedZone E c zoneId)) (zoneDeleted E c zoneId))"

definition cleanupZone :: "env \<Rightarrow> unit rprog" where
  "cleanupZone E =
     bindE status (\<lambda>st.
     whenE (st_HostedZoneId st \<noteq> '''')
       (bindE (ownsZone E) (\<lambda>owned.
        whenE owned (deleteZone E (st_HostedZoneId st)))))"

section \<open>The endpoint\<close>

definition cleanupMetrics :: "unit rprog" where
  "cleanupMetrics =
     bindE resource (\<lambda>res.
     whenE (st_VPCEndpointId (ve_Status res) \<noteq> '''')
       (metric (DeleteLabelValues ''vpce_pendingAcceptance_total''
          [ve_Name res, ve_Namespace res, st_VPCEndpointId (ve_Status res)])))"

definition pollInterval :: int where
  "pollInterval = 5 * 1000000000"

definition pollTimeout :: int where
  "pollTimeout = 3 * 60 * 1000000000"

definition forgetEndpoint :: "unit rprog" where
  "forgetEndpoint = set_status (\<lambda>v. v\<lparr>st_VPCEndpointId := ''''\<rparr>)"

text \<open>The \<open>select\<close>: whether the context was cancelled before the timer fired.\<close>

definition waitInterval :: "env \<Rightarrow> unit rprog" where
  "waitInterval E =
     bindE (getsE (\<lambda>s. lib_ContextErr (lib E) (history s))) (\<lambda>cancelled.
     case cancelled of
       Some err \<Rightarrow> failE (Wrapf ''context cancelled while waiting for VPC endpoint deletion: %w'' [] err)
     | None \<Rightarrow> emit (Slept pollInterval))"

text \<open>
  The loop. Each round asks the clock once and AWS once; it ends with the endpoint forgotten, at
  the deadline, or with an error.
\<close>

primrec pollDeletion :: "nat \<Rightarrow> env \<Rightarrow> awsConfig \<Rightarrow> string \<Rightarrow> int \<Rightarrow> unit rprog" where
  "pollDeletion 0 E c vpceId deadline = divergeE"
| "pollDeletion (Suc n) E c vpceId deadline =
     bindE (now E) (\<lambda>t.
     if \<not> t < deadline then ret ()
     else
       bindE (mapErr (Wrapf ''error polling VPC endpoint deletion status: %w'' [])
                (DescribeSingleVPCEndpointById E c vpceId)) (\<lambda>resp.
       case resp of
         None \<Rightarrow> forgetEndpoint
       | Some [] \<Rightarrow> forgetEndpoint
       | Some (vpce # _) \<Rightarrow>
           if evp_State vpce = ''deleted'' then forgetEndpoint
           else if evp_State vpce \<noteq> ''deleting'' then
             failE (Errorf ''VPC endpoint %s in unexpected state %q during deletion''
                      [FS vpceId, FS (evp_State vpce)])
           else bindE (waitInterval E) (\<lambda>_. pollDeletion n E c vpceId deadline)))"

definition awaitDeletion :: "nat \<Rightarrow> env \<Rightarrow> awsConfig \<Rightarrow> string \<Rightarrow> unit rprog" where
  "awaitDeletion rounds E c vpceId =
     bindE (record_normal ''Deleted'') (\<lambda>_.
     bindE (now E) (\<lambda>start.
     bindE (pollDeletion rounds E c vpceId (start + pollTimeout)) (\<lambda>_.
     bindE status (\<lambda>st.
     if st_VPCEndpointId st \<noteq> ''''
     then failE (Errorf ''timed out waiting for VPC endpoint %s to delete'' [FS vpceId])
     else ret ()))))"

text \<open>What AWS answered to the deletion of the endpoint.\<close>

definition endpointDeleted :: "nat \<Rightarrow> env \<Rightarrow> awsConfig \<Rightarrow> string \<Rightarrow> error + unit \<Rightarrow> unit rprog" where
  "endpointDeleted rounds E c vpceId deleted =
     (case deleted of
        Inr _ \<Rightarrow> awaitDeletion rounds E c vpceId
      | Inl err \<Rightarrow>
          (case as_api_error err of
             None \<Rightarrow> failE (Wrapf ''unexpected error while deleting VPC Endpoint: %w'' [] err)
           | Some ae \<Rightarrow>
               if fst ae = ''InvalidVpcEndpoint.NotFound''
               then bindE (record_normal ''Deleted'') (\<lambda>_. forgetEndpoint)
               else failE err))"

definition deleteEndpoint :: "nat \<Rightarrow> env \<Rightarrow> string \<Rightarrow> unit rprog" where
  "deleteEndpoint rounds E vpceId =
     bindE awsClient (\<lambda>c.
     bindE (attempt (DeleteVPCEndpoint E c vpceId)) (endpointDeleted rounds E c vpceId))"

definition cleanupEndpoint :: "nat \<Rightarrow> env \<Rightarrow> unit rprog" where
  "cleanupEndpoint rounds E =
     bindE status (\<lambda>st.
     whenE (st_VPCEndpointId st \<noteq> '''')
       (bindE cleanupMetrics (\<lambda>_.
        bindE (deleteEndpoint rounds E (st_VPCEndpointId st)) (\<lambda>_.
        bindE (set_status (\<lambda>v. v\<lparr>st_Status := ''deleting''\<rparr>)) (\<lambda>_.
        updateStatus E)))))"

section \<open>The security group\<close>

definition groupDeleted :: "env \<Rightarrow> error + unit \<Rightarrow> unit rprog" where
  "groupDeleted E deleted =
     (case deleted of
        Inr _ \<Rightarrow> record_normal ''Deleted''
      | Inl err \<Rightarrow>
          (case as_api_error err of
             None \<Rightarrow> failE (Wrapf ''unexpected error while deleting security group: %w'' [] err)
           | Some ae \<Rightarrow>
               if fst ae = ''InvalidGroup.NotFound'' then
                 bindE (record_normal ''Deleted'') (\<lambda>_.
                 bindE (set_status (\<lambda>v. v\<lparr>st_SecurityGroupId := ''''\<rparr>)) (\<lambda>_.
                 updateStatus E))
               else failE err))"

definition deleteGroup :: "env \<Rightarrow> string \<Rightarrow> unit rprog" where
  "deleteGroup E sgId =
     bindE awsClient (\<lambda>c.
     bindE (attempt (DeleteSecurityGroup E c sgId)) (groupDeleted E))"

definition cleanupGroup :: "env \<Rightarrow> unit rprog" where
  "cleanupGroup E =
     bindE status (\<lambda>st.
     whenE (st_SecurityGroupId st \<noteq> '''') (deleteGroup E (st_SecurityGroupId st)))"

section \<open>All of it\<close>

definition cleanupAwsResources :: "nat \<Rightarrow> env \<Rightarrow> unit rprog" where
  "cleanupAwsResources rounds E =
     bindE (record_normal ''CleanupStarted'') (\<lambda>_.
     bindE (cleanupRecord E) (\<lambda>_.
     bindE (cleanupZone E) (\<lambda>_.
     bindE (cleanupEndpoint rounds E) (\<lambda>_.
     bindE (cleanupGroup E) (\<lambda>_.
     record_normal ''CleanupComplete'')))))"

section \<open>Phases\<close>

text \<open>
  The order in which things may be deleted: DNS before the endpoint it points at, the endpoint
  before the security group it uses. \<open>span p q\<close>: the deletions among the new events come in that
  order and lie between the phases \<open>p\<close> and \<open>q\<close>.
\<close>

datatype phase = DnsPhase | EndpointPhase | GroupPhase

instantiation phase :: linorder
begin

primrec phase_rank :: "phase \<Rightarrow> nat" where
  "phase_rank DnsPhase = 0"
| "phase_rank EndpointPhase = 1"
| "phase_rank GroupPhase = 2"

definition less_eq_phase :: "phase \<Rightarrow> phase \<Rightarrow> bool" where
  "less_eq_phase p q \<longleftrightarrow> phase_rank p \<le> phase_rank q"

definition less_phase :: "phase \<Rightarrow> phase \<Rightarrow> bool" where
  "less_phase p q \<longleftrightarrow> phase_rank p < phase_rank q"

instance
proof
  fix p q :: phase
  show "p \<le> q \<Longrightarrow> q \<le> p \<Longrightarrow> p = q"
    by (cases p; cases q; simp add: less_eq_phase_def)
qed (auto simp: less_eq_phase_def less_phase_def)

end

fun deletion_phase :: "event \<Rightarrow> phase option" where
  "deletion_phase (R53 _ (DoDeleteResourceRecordSet _ _)) = Some DnsPhase"
| "deletion_phase (R53 _ (DoDeleteHostedZone _)) = Some DnsPhase"
| "deletion_phase (Ec2 _ (DoDeleteVpcEndpoints _)) = Some EndpointPhase"
| "deletion_phase (Ec2 _ (DoDeleteSecurityGroup _)) = Some GroupPhase"
| "deletion_phase _ = None"

definition deletions :: "event list \<Rightarrow> phase list" where
  "deletions = List.map_filter deletion_phase"

lemma deletions_simps [simp]:
  "deletions [] = []"
  "deletions (e # es) = (case deletion_phase e of None \<Rightarrow> deletions es | Some p \<Rightarrow> p # deletions es)"
  by (simp_all add: deletions_def map_filter_simps split: option.split)

lemma deletions_append [simp]: "deletions (xs @ ys) = deletions xs @ deletions ys"
  by (induction xs) (auto split: option.split)

lemma set_deletions: "p \<in> set (deletions tr) \<longleftrightarrow> (\<exists>e\<in>set tr. deletion_phase e = Some p)"
  by (induction tr) (auto split: option.split)

definition span :: "phase \<Rightarrow> phase \<Rightarrow> 'x world_scheme \<Rightarrow> 'x world_scheme \<Rightarrow> bool" where
  "span p q s t \<longleftrightarrow> (\<exists>tr. history t = history s @ tr \<and> sorted (deletions tr) \<and>
     (\<forall>x\<in>set (deletions tr). p \<le> x \<and> x \<le> q))"

lemma span_refl: "span p q s s"
  by (simp add: span_def)

lemma span_mono: "span p q s t \<Longrightarrow> p' \<le> p \<Longrightarrow> q \<le> q' \<Longrightarrow> span p' q' s t"
  by (fastforce simp: span_def)

lemma span_trans:
  assumes "span p q s t" "span q' r t u" "p \<le> q'" "q \<le> q'" "q \<le> r"
  shows "span p r s u"
proof -
  obtain tr where tr: "history t = history s @ tr" "sorted (deletions tr)"
    "\<forall>x\<in>set (deletions tr). p \<le> x \<and> x \<le> q" using assms(1) by (auto simp: span_def)
  obtain tr' where tr': "history u = history t @ tr'" "sorted (deletions tr')"
    "\<forall>x\<in>set (deletions tr'). q' \<le> x \<and> x \<le> r" using assms(2) by (auto simp: span_def)
  have "sorted (deletions (tr @ tr'))"
    using tr tr' assms(4) by (fastforce simp: sorted_append)
  moreover have "\<forall>x\<in>set (deletions (tr @ tr')). p \<le> x \<and> x \<le> r"
    using tr tr' assms(3,5) by fastforce
  ultimately show ?thesis
    using tr(1) tr'(1) unfolding span_def by (intro exI [of _ "tr @ tr'"]) simp
qed

lemma span_bindE:
  assumes "preserves (span p q) m" "\<And>x. preserves (span q' r) (f x)" "p \<le> q'" "q \<le> q'" "q \<le> r"
  shows "preserves (span p r) (bindE m f)"
proof (rule preservesI)
  fix s v u
  assume run: "bindE m f s = (v, u)"
  obtain o1 t where m: "m s = (o1, t)" by fastforce
  with assms(1) have st: "span p q s t" by (rule preservesD)
  show "span p r s u"
  proof (cases o1)
    case (Ok x)
    with run m have "f x t = (v, u)" by (simp add: run_simps)
    with assms(2) have "span q' r t u" by (rule preservesD)
    with st show ?thesis using assms(3-5) by (rule span_trans)
  qed (use run m st assms(5) in \<open>auto simp: run_simps intro: span_mono\<close>)
qed

lemma sorted_const: "\<forall>x\<in>set xs. x = p \<Longrightarrow> sorted xs"
  by (induction xs) auto

text \<open>A stage whose deletions are all of one phase spans that phase only.\<close>

lemma span_stage:
  assumes "preserves (emits A) m" "\<And>e q. A e \<Longrightarrow> deletion_phase e = Some q \<Longrightarrow> q = p"
  shows "preserves (span p p) m"
proof (rule preservesI)
  fix s r t
  assume "m s = (r, t)"
  with assms(1) have "emits A s t" by (rule preservesD)
  then obtain tr where tr: "history t = history s @ tr" "\<forall>e\<in>set tr. A e" by (auto simp: emits_def)
  then have "\<forall>x\<in>set (deletions tr). x = p" using assms(2) by (metis set_deletions)
  with tr(1) show "span p p s t" unfolding span_def by (auto intro: sorted_const)
qed

section \<open>What each stage does\<close>

text \<open>The events of a stage: quiet ones, and the deletions of what the stage is about.\<close>

fun quiet_event :: "event \<Rightarrow> bool" where
  "quiet_event (K8s (DoUpdateStatus _)) = True"
| "quiet_event (Metric _) = True"
| "quiet_event (Recorded _ _) = True"
| "quiet_event e = (aws_read e \<or> lookup_event e)"

definition names_record :: "string \<Rightarrow> event \<Rightarrow> bool" where
  "names_record name e \<longleftrightarrow>
     (\<exists>c rr z. e = R53 c (DoDeleteResourceRecordSet rr z) \<and> rrs_Name rr = Some (name @ ''.''))"

definition empties_zone :: "string \<Rightarrow> event \<Rightarrow> bool" where
  "empties_zone zoneId e \<longleftrightarrow>
     (\<exists>c. e = R53 c (DoDeleteHostedZone zoneId)) \<or>
     (\<exists>c rr. e = R53 c (DoDeleteResourceRecordSet rr zoneId) \<and> rrs_Type rr \<notin> {''NS'', ''SOA''})"

definition deletes_endpoint :: "string \<Rightarrow> event \<Rightarrow> bool" where
  "deletes_endpoint vpceId e \<longleftrightarrow> (\<exists>c. e = Ec2 c (DoDeleteVpcEndpoints [vpceId]))"

definition deletes_group :: "string \<Rightarrow> event \<Rightarrow> bool" where
  "deletes_group sgId e \<longleftrightarrow> (\<exists>c. e = Ec2 c (DoDeleteSecurityGroup sgId))"

lemma quiet_event_read: "aws_read e \<Longrightarrow> quiet_event e" "lookup_event e \<Longrightarrow> quiet_event e"
  by (cases e rule: quiet_event.cases; simp)+

lemma quiet_phase: "quiet_event e \<Longrightarrow> deletion_phase e = None"
  by (cases e rule: deletion_phase.cases) simp_all

lemma dns_event_phase: "dns_event e \<Longrightarrow> deletion_phase e = None"
  by (cases e rule: deletion_phase.cases) simp_all

lemma quiet_dns: "quiet_event e \<Longrightarrow> dns_event e"
  by (cases e rule: quiet_event.cases) (auto intro: dns_event_read)

lemma event_phases:
  "names_record name e \<Longrightarrow> deletion_phase e = Some DnsPhase"
  "empties_zone z e \<Longrightarrow> deletion_phase e = Some DnsPhase"
  "deletes_endpoint v e \<Longrightarrow> deletion_phase e = Some EndpointPhase"
  "deletes_group g e \<Longrightarrow> deletion_phase e = Some GroupPhase"
  by (auto simp: names_record_def empties_zone_def deletes_endpoint_def deletes_group_def)

lemma deleteNamedRecord_steady:
  assumes "\<And>e. names_record name e \<Longrightarrow> A e"
  shows "preserves (steady A) (deleteNamedRecord E c hz name rr)"
proof (cases "rrs_Name rr")
  case None
  then show ?thesis unfolding deleteNamedRecord_def by (simp add: preserves_def run_simps sy.R_refl)
next
  case (Some n)
  then have "deleteNamedRecord E c hz name rr = whenE (n = name @ ''.'')
      (bindE (deref (hz_Id hz)) (\<lambda>zoneId. DeleteResourceRecordSet E c rr zoneId))"
    by (simp add: deleteNamedRecord_def deref_def bindE_ret_left)
  moreover have "preserves (steady A) (whenE (n = name @ ''.'')
      (bindE (deref (hz_Id hz)) (\<lambda>zoneId. DeleteResourceRecordSet E c rr zoneId)))"
    using Some by (intro steady_intros assms) (auto simp: names_record_def)
  ultimately show ?thesis by simp
qed

lemma deleteRecord_steady:
  "preserves (steady (\<lambda>e. quiet_event e \<or> names_record (st_ResourceRecordSet st) e)) (deleteRecord E st)"
  unfolding deleteRecord_def
  by (intro steady_intros deleteNamedRecord_steady; auto intro: quiet_event_read)

text \<open>
  The record stage may look for the zone, and create it, when the status has none; what it
  deletes are records that carry the name in the status.
\<close>

lemma cleanupRecord_steady:
  "preserves (steady (\<lambda>e. dns_event e \<or> (\<exists>name. names_record name e))) (cleanupRecord E)"
  unfolding cleanupRecord_def
  by (intro steady_intros validateR53PrivateHostedZone_steady [THEN preserves_steady_weaken]
      deleteRecord_steady [THEN preserves_steady_weaken]) (auto dest: quiet_dns)

lemma zoneDeleted_steady:
  "preserves (steady (\<lambda>e. quiet_event e \<or> empties_zone zoneId e)) (zoneDeleted E c zoneId deleted)"
  unfolding zoneDeleted_def clearZone_def deleteOtherRecord_def forgetZone_def
  by (intro steady_intros; auto simp: empties_zone_def intro: quiet_event_read)

lemma deleteZone_steady:
  "preserves (steady (\<lambda>e. quiet_event e \<or> empties_zone zoneId e)) (deleteZone E zoneId)"
  unfolding deleteZone_def
  by (intro steady_intros zoneDeleted_steady; simp add: empties_zone_def)

lemma ownsZone_steady: "preserves (steady quiet_event) (ownsZone E)"
  unfolding ownsZone_def by (intro steady_intros) simp

lemma cleanupZone_emits:
  assumes "cleanupZone E s = (r, t)"
  shows "steady (\<lambda>e. quiet_event e \<or> st_HostedZoneId (rc_status s) \<noteq> [] \<and>
      empties_zone (st_HostedZoneId (rc_status s)) e) s t"
  by (rule status_bindD [OF assms [unfolded cleanupZone_def]])
    (intro steady_intros deleteZone_steady [THEN preserves_steady_weaken]
      ownsZone_steady [THEN preserves_steady_weaken]; auto)

text \<open>The wait for the deletion of an endpoint reads and sleeps.\<close>

fun wait_event :: "event \<Rightarrow> bool" where
  "wait_event (Slept _) = True"
| "wait_event e = quiet_event e"

lemma wait_event_quiet: "quiet_event e \<Longrightarrow> wait_event e"
  by (cases e rule: wait_event.cases) simp_all

lemma wait_event_read: "aws_read e \<Longrightarrow> wait_event e"
  by (rule wait_event_quiet) (rule quiet_event_read)

lemma wait_phase: "wait_event e \<Longrightarrow> deletion_phase e = None"
  by (cases e rule: wait_event.cases) (simp_all add: quiet_phase)

lemma pollDeletion_steady: "preserves (steady wait_event) (pollDeletion n E c vpceId deadline)"
proof (induction n)
  case 0
  then show ?case by (simp add: steady_intros)
next
  case (Suc n)
  then show ?case
    unfolding pollDeletion.simps forgetEndpoint_def waitInterval_def
    by (intro steady_intros; (auto intro: wait_event_read)?)
qed

lemma deleteEndpoint_steady:
  "preserves (steady (\<lambda>e. wait_event e \<or> deletes_endpoint vpceId e)) (deleteEndpoint n E vpceId)"
  unfolding deleteEndpoint_def endpointDeleted_def awaitDeletion_def forgetEndpoint_def
  by (intro steady_intros pollDeletion_steady [THEN preserves_steady_weaken];
      auto simp: deletes_endpoint_def intro: quiet_event_read)

lemma cleanupEndpoint_emits:
  assumes "cleanupEndpoint n E s = (r, t)"
  shows "steady (\<lambda>e. wait_event e \<or> st_VPCEndpointId (rc_status s) \<noteq> [] \<and>
      deletes_endpoint (st_VPCEndpointId (rc_status s)) e) s t"
  by (rule status_bindD [OF assms [unfolded cleanupEndpoint_def]], unfold cleanupMetrics_def)
    (intro steady_intros deleteEndpoint_steady [THEN preserves_steady_weaken]; auto)

lemma deleteGroup_steady:
  "preserves (steady (\<lambda>e. quiet_event e \<or> deletes_group sgId e)) (deleteGroup E sgId)"
  unfolding deleteGroup_def groupDeleted_def by (intro steady_intros; auto simp: deletes_group_def)

lemma cleanupGroup_emits:
  assumes "cleanupGroup E s = (r, t)"
  shows "steady (\<lambda>e. quiet_event e \<or> st_SecurityGroupId (rc_status s) \<noteq> [] \<and>
      deletes_group (st_SecurityGroupId (rc_status s)) e) s t"
  by (rule status_bindD [OF assms [unfolded cleanupGroup_def]])
    (intro steady_intros deleteGroup_steady [THEN preserves_steady_weaken]; auto)

text \<open>Each stage spans its phase, and the stages are run in the order of the phases.\<close>

lemma stages_steady:
  "preserves (steady (\<lambda>e. quiet_event e \<or> (\<exists>z. empties_zone z e))) (cleanupZone E)"
  "preserves (steady (\<lambda>e. wait_event e \<or> (\<exists>v. deletes_endpoint v e))) (cleanupEndpoint n E)"
  "preserves (steady (\<lambda>e. quiet_event e \<or> (\<exists>g. deletes_group g e))) (cleanupGroup E)"
  by (rule preservesI, drule cleanupZone_emits cleanupEndpoint_emits cleanupGroup_emits,
      fastforce simp: steady_def intro: emits_weaken)+

lemma stages_span:
  "preserves (span DnsPhase DnsPhase) (cleanupRecord E)"
  "preserves (span DnsPhase DnsPhase) (cleanupZone E)"
  "preserves (span EndpointPhase EndpointPhase) (cleanupEndpoint n E)"
  "preserves (span GroupPhase GroupPhase) (cleanupGroup E)"
  by (rule span_stage [OF cleanupRecord_steady [THEN preserves_steady_emits]]
      span_stage [OF stages_steady(1) [THEN preserves_steady_emits]]
      span_stage [OF stages_steady(2) [THEN preserves_steady_emits]]
      span_stage [OF stages_steady(3) [THEN preserves_steady_emits]];
      auto dest: quiet_phase wait_phase dns_event_phase event_phases)+

section \<open>The wait ends\<close>

definition poll_rounds :: nat where
  "poll_rounds = 37"

lemma waitInterval_Ok:
  assumes "clock_laws E" "waitInterval E s = (Ok u, t)"
  shows "lib_Now (lib E) (history s) + pollInterval \<le> lib_Now (lib E) (history t)"
  using assms by (auto simp: waitInterval_def world_Ok clock_laws_def split: option.splits)

lemma waitInterval_returns: "returns (waitInterval E)"
  unfolding waitInterval_def by (intro returns_intros returns_events)

lemma DescribeSingle_returns: "returns (DescribeSingleVPCEndpointById E c vpceId)"
  unfolding DescribeSingleVPCEndpointById_def by (intro returns_intros returns_events)

lemma pollDeletion_returns:
  assumes "clock_laws E" "deadline \<le> lib_Now (lib E) (history s) + int k * pollInterval" "k < n"
  shows "pollDeletion n E c vpceId deadline s \<noteq> (Diverged, t)"
  using assms(2,3)
proof (induction n arbitrary: k s)
  case (Suc n)
  show ?case
  proof
    assume run: "pollDeletion (Suc n) E c vpceId deadline s = (Diverged, t)"
    have early: "lib_Now (lib E) (history s) < deadline"
      using run by (auto simp: run_simps split: if_splits)
    then obtain k' where k: "k = Suc k'" using Suc.prems(1) by (cases k) auto
    let ?m = "mapErr (Wrapf ''error polling VPC endpoint deletion status: %w'' [])
      (DescribeSingleVPCEndpointById E c vpceId)"
    obtain q s1 where d: "?m s = (q, s1)" by fastforce
    have "preserves (calls aws_read) ?m" by (intro calls_intros aws_calls)
    then have "calls aws_read s s1" using d by (rule preservesD)
    then have s1: "lib_Now (lib E) (history s) \<le> lib_Now (lib E) (history s1)"
      by (auto simp: calls_def intro: clock_mono [OF assms(1)])
    have "returns ?m" by (intro returns_intros DescribeSingle_returns)
    note nd = returnsD [OF this] returnsD [OF waitInterval_returns]
    from d run early obtain vpce rest s2 where q: "q = Ok (Some (vpce # rest))"
      and w: "waitInterval E s1 = (Ok (), s2)" and rec: "pollDeletion n E c vpceId deadline s2 = (Diverged, t)"
      by (auto simp: bindE_run now_run forgetEndpoint_def set_status_run failE_run ret_run nd
          split: outcome.splits option.splits list.splits if_splits prod.splits)
    have "deadline \<le> lib_Now (lib E) (history s2) + int k' * pollInterval"
      using Suc.prems(1) s1 waitInterval_Ok [OF assms(1) w] by (simp add: k algebra_simps)
    with Suc.IH [of s2 k'] Suc.prems(2) rec show False by (simp add: k)
  qed
qed simp

section \<open>The whole cleanup\<close>

lemma DeleteVPCEndpoint_returns: "returns (DeleteVPCEndpoint E c vpceId)"
  unfolding DeleteVPCEndpoint_def by (intro returns_events)

lemma awaitDeletion_returns:
  assumes "clock_laws E" "poll_rounds \<le> rounds"
  shows "returns (awaitDeletion rounds E c vpceId)"
  unfolding returns_def
proof
  fix s :: reconciler
  let ?s1 = "s\<lparr>history := history s @ [Recorded ''Normal'' ''Deleted'']\<rparr>"
  have "pollDeletion rounds E c vpceId (lib_Now (lib E) (history ?s1) + pollTimeout) ?s1 \<noteq> (Diverged, t)" for t
    by (rule pollDeletion_returns [where k = 36])
      (use assms in \<open>simp_all add: pollTimeout_def pollInterval_def poll_rounds_def\<close>)
  then show "fst (awaitDeletion rounds E c vpceId s) \<noteq> Diverged"
    by (auto simp: awaitDeletion_def run_simps split: outcome.split prod.split)
qed

lemma cleanup_stages_return:
  "returns (cleanupRecord E)" "returns (cleanupZone E)" "returns (cleanupGroup E)"
  unfolding cleanupRecord_def deleteRecord_def deleteNamedRecord_def cleanupZone_def ownsZone_def
    deleteZone_def zoneDeleted_def clearZone_def deleteOtherRecord_def forgetZone_def cleanupGroup_def
    deleteGroup_def groupDeleted_def r53_method_defs DeleteSecurityGroup_def
  by (intro returns_intros returns_shared returns_events validateR53PrivateHostedZone_returns)+

lemma cleanupEndpoint_returns:
  assumes "clock_laws E" "poll_rounds \<le> rounds"
  shows "returns (cleanupEndpoint rounds E)"
  unfolding cleanupEndpoint_def cleanupMetrics_def deleteEndpoint_def endpointDeleted_def forgetEndpoint_def
  by (intro returns_intros returns_shared awaitDeletion_returns assms DeleteVPCEndpoint_returns)

lemma cleanupAwsResources_returns:
  assumes "clock_laws E" "poll_rounds \<le> rounds"
  shows "returns (cleanupAwsResources rounds E)"
  unfolding cleanupAwsResources_def
  by (intro returns_intros returns_shared cleanup_stages_return cleanupEndpoint_returns assms)

text \<open>After a successful endpoint stage the status has no endpoint, and later stages leave it so.\<close>

lemma awaitDeletion_Ok:
  assumes "awaitDeletion rounds E c vpceId s = (Ok x, t)"
  shows "st_VPCEndpointId (rc_status t) = ''''"
  using assms by (auto simp: awaitDeletion_def rc_Ok split: if_splits)

lemma endpointDeleted_Ok:
  assumes "endpointDeleted rounds E c vpceId v s = (Ok x, t)"
  shows "st_VPCEndpointId (rc_status t) = ''''"
  using assms
  by (cases v)
    (auto simp: endpointDeleted_def forgetEndpoint_def rc_Ok awaitDeletion_Ok
      split: option.splits if_splits)

lemma deleteEndpoint_Ok:
  "deleteEndpoint rounds E vpceId s = (Ok x, t) \<Longrightarrow> st_VPCEndpointId (rc_status t) = ''''"
  by (auto simp: deleteEndpoint_def bindE_Ok dest: endpointDeleted_Ok)

lemma cleanupEndpoint_Ok:
  assumes "cleanupEndpoint rounds E s = (Ok x, t)"
  shows "st_VPCEndpointId (rc_status t) = ''''"
  using assms
  by (auto simp: cleanupEndpoint_def cleanupMetrics_def rc_Ok dest: deleteEndpoint_Ok split: if_splits)

lemma deleteGroup_keeps:
  "(\<And>v i. f (v\<lparr>st_SecurityGroupId := i\<rparr>) = f v) \<Longrightarrow> preserves (keeps f) (deleteGroup E g)"
  unfolding deleteGroup_def groupDeleted_def by (intro keeps_intros; simp)

lemma cleanupGroup_keeps: "preserves (keeps st_VPCEndpointId) (cleanupGroup E)"
  unfolding cleanupGroup_def by (intro keeps_intros deleteGroup_keeps) simp

lemma cleanupRecord_keeps:
  "preserves (keeps (\<lambda>v. (st_SecurityGroupId v, st_VPCEndpointId v))) (cleanupRecord E)"
  unfolding cleanupRecord_def deleteRecord_def deleteNamedRecord_def
  by (intro keeps_intros validateR53PrivateHostedZone_keeps; simp)

lemma cleanupZone_keeps:
  "preserves (keeps (\<lambda>v. (st_SecurityGroupId v, st_VPCEndpointId v))) (cleanupZone E)"
  unfolding cleanupZone_def ownsZone_def deleteZone_def zoneDeleted_def clearZone_def deleteOtherRecord_def
    forgetZone_def
  by (intro keeps_intros; simp)

lemma pollDeletion_keeps:
  "(\<And>v i. f (v\<lparr>st_VPCEndpointId := i\<rparr>) = f v) \<Longrightarrow> preserves (keeps f) (pollDeletion n E c v d)"
proof (induction n)
  case (Suc n)
  then show ?case
    unfolding pollDeletion.simps forgetEndpoint_def waitInterval_def by (intro keeps_intros; simp)
qed (simp add: kp.divergeE)

lemma cleanupEndpoint_keeps: "preserves (keeps st_SecurityGroupId) (cleanupEndpoint rounds E)"
  unfolding cleanupEndpoint_def cleanupMetrics_def deleteEndpoint_def endpointDeleted_def
    awaitDeletion_def forgetEndpoint_def
  by (intro keeps_intros pollDeletion_keeps; simp)

lemma cleanup_span: "preserves (span DnsPhase GroupPhase) (cleanupAwsResources rounds E)"
proof -
  have rec: "preserves (span p p) (record_normal reason)" for p and reason
    by (rule span_stage [where A = "\<lambda>e. deletion_phase e = None"])
      (auto intro: preserves_steady_emits [OF steady_events(1)])
  note le = less_eq_phase_def
  have group: "preserves (span GroupPhase GroupPhase)
      (bindE (cleanupGroup E) (\<lambda>_. record_normal ''CleanupComplete''))"
    by (rule span_bindE [OF stages_span(4) rec]) simp_all
  have ep: "preserves (span EndpointPhase GroupPhase) (bindE (cleanupEndpoint rounds E) (\<lambda>_.
      bindE (cleanupGroup E) (\<lambda>_. record_normal ''CleanupComplete'')))"
    by (rule span_bindE [OF stages_span(3) group]) (simp_all add: le)
  have zone: "preserves (span DnsPhase GroupPhase) (bindE (cleanupZone E) (\<lambda>_.
      bindE (cleanupEndpoint rounds E) (\<lambda>_.
      bindE (cleanupGroup E) (\<lambda>_. record_normal ''CleanupComplete''))))"
    by (rule span_bindE [OF stages_span(2) ep]) (simp_all add: le)
  have "preserves (span DnsPhase GroupPhase) (bindE (cleanupRecord E) (\<lambda>_. bindE (cleanupZone E) (\<lambda>_.
      bindE (cleanupEndpoint rounds E) (\<lambda>_.
      bindE (cleanupGroup E) (\<lambda>_. record_normal ''CleanupComplete'')))))"
    by (rule span_bindE [OF stages_span(1) zone]) (simp_all add: le)
  then show ?thesis
    unfolding cleanupAwsResources_def by (rule span_bindE [OF rec]) (simp_all add: le)
qed

text \<open>
  C8: deletion order. In every run of the cleanup, also one that fails or has not returned, the
  deletion requests sent to AWS come in the order records and hosted zones, then the VPC
  endpoint, then the security group, so that nothing is deleted while something else depends on it.
\<close>

theorem cleanup_in_order:
  "\<exists>tr. history (snd (cleanupAwsResources rounds E s)) = history s @ tr \<and> sorted (deletions tr)"
  using cleanup_span [of rounds E] by (auto simp: preserves_def span_def)

text \<open>The events of the cleanup, and what the stages after the record keep.\<close>

definition guarded :: "(reconciler \<Rightarrow> bool) \<Rightarrow> (event \<Rightarrow> bool) \<Rightarrow> reconciler \<Rightarrow> reconciler \<Rightarrow> bool" where
  "guarded I A s t \<longleftrightarrow> (I s \<longrightarrow> emits A s t \<and> I t)"

interpretation gd: frame "guarded I A" for I A
  by unfold_locales (auto simp: guarded_def intro: emits_refl emits_trans)

definition points_at :: "vpcEndpointStatus \<Rightarrow> reconciler \<Rightarrow> bool" where
  "points_at st s \<longleftrightarrow>
     st_SecurityGroupId (rc_status s) \<in> {st_SecurityGroupId st, ''''} \<and>
     st_VPCEndpointId (rc_status s) \<in> {st_VPCEndpointId st, ''''}"

definition own_event :: "vpcEndpointStatus \<Rightarrow> event \<Rightarrow> bool" where
  "own_event st e \<longleftrightarrow> dns_event e \<or> wait_event e \<or> (\<exists>n. names_record n e) \<or> (\<exists>z. empties_zone z e) \<or>
     st_VPCEndpointId st \<noteq> '''' \<and> deletes_endpoint (st_VPCEndpointId st) e \<or>
     st_SecurityGroupId st \<noteq> '''' \<and> deletes_group (st_SecurityGroupId st) e"

lemma own_stage:
  assumes "\<And>s r t. points_at st s \<Longrightarrow> m s = (r, t) \<Longrightarrow> emits (own_event st) s t \<and> points_at st t"
  shows "preserves (guarded (points_at st) (own_event st)) m"
  by (rule preservesI) (use assms in \<open>auto simp: guarded_def\<close>)

lemma cleanupRecord_own: "preserves (guarded (points_at st) (own_event st)) (cleanupRecord E)"
proof (rule own_stage)
  fix s r t
  assume p: "points_at st s" and run: "cleanupRecord E s = (r, t)"
  have "emits (own_event st) s t"
    using preservesD [OF cleanupRecord_steady run]
    by (auto simp: steady_def own_event_def elim!: emits_weaken)
  then show "emits (own_event st) s t \<and> points_at st t"
    using p keepsD [OF cleanupRecord_keeps run] by (simp add: points_at_def)
qed

lemma cleanupZone_own: "preserves (guarded (points_at st) (own_event st)) (cleanupZone E)"
proof (rule own_stage)
  fix s r t
  assume p: "points_at st s" and run: "cleanupZone E s = (r, t)"
  have "emits (own_event st) s t"
    using cleanupZone_emits [OF run]
    by (auto simp: steady_def own_event_def dest: quiet_dns elim!: emits_weaken)
  then show "emits (own_event st) s t \<and> points_at st t"
    using p keepsD [OF cleanupZone_keeps run] by (simp add: points_at_def)
qed

text \<open>\<open>clears f\<close>: the projection \<open>f\<close> of the status is the same afterwards, or empty.\<close>

definition clears :: "(vpcEndpointStatus \<Rightarrow> string) \<Rightarrow> reconciler \<Rightarrow> reconciler \<Rightarrow> bool" where
  "clears f s t \<longleftrightarrow> f (rc_status t) = f (rc_status s) \<or> f (rc_status t) = ''''"

interpretation ck: frame "clears f" for f
  by unfold_locales (auto simp: clears_def)

lemma keeps_clears: "preserves (keeps f) m \<Longrightarrow> preserves (clears f) m"
  by (simp add: preserves_def keeps_def clears_def)

lemma clears_set_status:
  "(\<And>v. f (g v) = f v \<or> f (g v) = '''') \<Longrightarrow> preserves (clears f) (set_status g)"
  by (simp add: preserves_def clears_def set_status_run)

lemmas clears_intros = ck.intros keeps_steps [THEN keeps_clears] keeps_calls [THEN keeps_clears]
  clears_set_status

lemma pollDeletion_clears: "preserves (clears st_VPCEndpointId) (pollDeletion n E c v d)"
proof (induction n)
  case (Suc n)
  then show ?case
    unfolding pollDeletion.simps waitInterval_def forgetEndpoint_def by (intro clears_intros; simp)
qed (simp add: ck.divergeE)

lemma cleanupEndpoint_clears: "preserves (clears st_VPCEndpointId) (cleanupEndpoint rounds E)"
  unfolding cleanupEndpoint_def cleanupMetrics_def deleteEndpoint_def endpointDeleted_def
    awaitDeletion_def forgetEndpoint_def
  by (intro clears_intros pollDeletion_clears; simp)

lemma cleanupGroup_clears: "preserves (clears st_SecurityGroupId) (cleanupGroup E)"
  unfolding cleanupGroup_def deleteGroup_def groupDeleted_def by (intro clears_intros; simp)

lemma cleanupEndpoint_own: "preserves (guarded (points_at st) (own_event st)) (cleanupEndpoint rounds E)"
proof (rule own_stage)
  fix s r t
  assume p: "points_at st s" and run: "cleanupEndpoint rounds E s = (r, t)"
  have "emits (own_event st) s t"
    using cleanupEndpoint_emits [OF run] p
    by (auto simp: steady_def own_event_def points_at_def elim!: emits_weaken)
  then show "emits (own_event st) s t \<and> points_at st t"
    using p keepsD [OF cleanupEndpoint_keeps run] preservesD [OF cleanupEndpoint_clears run]
    by (auto simp: points_at_def clears_def)
qed

lemma cleanupGroup_own: "preserves (guarded (points_at st) (own_event st)) (cleanupGroup E)"
proof (rule own_stage)
  fix s r t
  assume p: "points_at st s" and run: "cleanupGroup E s = (r, t)"
  have "emits (own_event st) s t"
    using cleanupGroup_emits [OF run] p
    by (auto simp: steady_def own_event_def points_at_def dest: quiet_dns elim!: emits_weaken)
  then show "emits (own_event st) s t \<and> points_at st t"
    using p keepsD [OF cleanupGroup_keeps run] preservesD [OF cleanupGroup_clears run]
    by (auto simp: points_at_def clears_def)
qed

lemma cleanup_own: "preserves (guarded (points_at st) (own_event st)) (cleanupAwsResources rounds E)"
proof -
  have "preserves (guarded (points_at st) (own_event st)) (record_normal reason)" for reason
    by (rule own_stage) (auto simp: record_normal_eq own_event_def points_at_def emits_def)
  then show ?thesis
    unfolding cleanupAwsResources_def
    by (intro gd.intros cleanupRecord_own cleanupZone_own cleanupEndpoint_own cleanupGroup_own)
qed

lemma cleanup_events:
  assumes "cleanupAwsResources rounds E s = (r, t)"
  shows "emits (own_event (rc_status s)) s t"
  using preservesD [OF cleanup_own assms] by (simp add: guarded_def points_at_def)

text \<open>
  What the cleanup may ask AWS to delete, for a given status: the endpoint and the security group
  in it, records that are not NS or SOA records of the zone or that carry the operator's name.
  No other EC2 call of it writes.
\<close>

fun may_delete :: "vpcEndpointStatus \<Rightarrow> event \<Rightarrow> bool" where
  "may_delete st (Ec2 _ (DoDeleteVpcEndpoints ids)) =
     (ids = [st_VPCEndpointId st] \<and> st_VPCEndpointId st \<noteq> '''')"
| "may_delete st (Ec2 _ (DoDeleteSecurityGroup g)) =
     (g = st_SecurityGroupId st \<and> st_SecurityGroupId st \<noteq> '''')"
| "may_delete st (Ec2 _ c) = (\<not> ec2_writes c)"
| "may_delete st (R53 _ (DoDeleteResourceRecordSet rr z)) =
     (rrs_Type rr \<notin> {''NS'', ''SOA''} \<or> (\<exists>n. rrs_Name rr = Some (n @ ''.'')))"
| "may_delete st _ = True"

lemma may_delete_read: "\<not> aws_write e \<Longrightarrow> may_delete st e"
  by (cases "(st, e)" rule: may_delete.cases) auto

lemma may_delete_cong:
  "st_VPCEndpointId a = st_VPCEndpointId b \<Longrightarrow> st_SecurityGroupId a = st_SecurityGroupId b \<Longrightarrow>
   may_delete a e = may_delete b e"
  by (cases "(a, e)" rule: may_delete.cases) auto

lemma own_event_may_delete: "own_event st e \<Longrightarrow> may_delete st e"
  by (cases "(st, e)" rule: may_delete.cases)
    (auto simp: own_event_def names_record_def empties_zone_def deletes_endpoint_def deletes_group_def)

text \<open>
  C9: the cleanup deletes only what the status names. Every event of a run is one the status of
  the resource at the start allows: an endpoint deletion for the endpoint id and a security group
  deletion for the group id in it (and neither when the id is empty), and no other EC2 call that
  changes anything.
\<close>

theorem cleanup_own_resources:
  "list_all (may_delete (rc_status s)) (new_events s (snd (cleanupAwsResources rounds E s)))"
proof -
  obtain r t where run: "cleanupAwsResources rounds E s = (r, t)" by fastforce
  with cleanup_events [OF this] show ?thesis
    by (auto simp: list_all_iff intro: own_event_may_delete dest: new_events_emits)
qed

text \<open>The run up to the security group, and from there on.\<close>

definition untilGroup :: "nat \<Rightarrow> env \<Rightarrow> unit rprog" where
  "untilGroup rounds E =
     bindE (record_normal ''CleanupStarted'') (\<lambda>_. bindE (cleanupRecord E) (\<lambda>_.
     bindE (cleanupZone E) (\<lambda>_. cleanupEndpoint rounds E)))"

definition fromGroup :: "env \<Rightarrow> unit rprog" where
  "fromGroup E = bindE (cleanupGroup E) (\<lambda>_. record_normal ''CleanupComplete'')"

lemma cleanup_split: "cleanupAwsResources rounds E = bindE (untilGroup rounds E) (\<lambda>_. fromGroup E)"
  by (simp add: cleanupAwsResources_def untilGroup_def fromGroup_def bindE_assoc)

lemma untilGroup_emits:
  "preserves (emits (\<lambda>e. deletion_phase e \<noteq> Some GroupPhase)) (untilGroup rounds E)"
  unfolding untilGroup_def
  by (intro preserves_steady_emits sy.bindE steady_events
      cleanupRecord_steady [THEN preserves_steady_weaken]
      stages_steady [THEN preserves_steady_weaken])
    (auto dest: dns_event_phase quiet_phase wait_phase event_phases)

lemma fromGroup_emits: "preserves (emits (\<lambda>e. quiet_event e \<or> (\<exists>g. deletes_group g e))) (fromGroup E)"
  unfolding fromGroup_def
  by (intro preserves_steady_emits sy.bindE steady_events stages_steady) simp

lemma untilGroup_Ok: "untilGroup rounds E s = (Ok x, t) \<Longrightarrow> st_VPCEndpointId (rc_status t) = ''''"
  by (auto simp: untilGroup_def bindE_Ok dest: cleanupEndpoint_Ok)

lemma fromGroup_keeps: "preserves (keeps st_VPCEndpointId) (fromGroup E)"
  unfolding fromGroup_def by (intro keeps_intros cleanupGroup_keeps)

definition gone_ec2 :: ec2Api where
  "gone_ec2 = ref_ec2\<lparr>ec2_DescribeVpcEndpoints :=
     (\<lambda>h. Inl (ApiError ''InvalidVpcEndpointId.NotFound'' ''does not exist''))\<rparr>"

definition gone_env :: env where
  "gone_env = ref_env\<lparr>ec2 := gone_ec2\<rparr>"

lemma cleanup_sample_events:
  "new_events sample_state (snd (cleanupAwsResources 1 gone_env sample_state)) =
     [Recorded ''Normal'' ''CleanupStarted'',
      Metric (DeleteLabelValues ''vpce_pendingAcceptance_total'' [''example'', ''default'', ''vpce-1'']),
      Ec2 sample_config (DoDeleteVpcEndpoints [''vpce-1'']),
      Recorded ''Normal'' ''Deleted'',
      Ec2 sample_config (DoDescribeVpcEndpoints [] [''vpce-1'']),
      K8s (DoUpdateStatus (sample_endpoint\<lparr>ve_Status := sample_status\<lparr>st_VPCEndpointId := '''',
        st_Status := ''deleting''\<rparr>\<rparr>)),
      Ec2 sample_config (DoDeleteSecurityGroup ''sg-1''),
      Recorded ''Normal'' ''Deleted'',
      Recorded ''Normal'' ''CleanupComplete'']"
  by (simp add: cleanupAwsResources_def cleanupRecord_def cleanupZone_def cleanupEndpoint_def
      cleanupMetrics_def deleteEndpoint_def endpointDeleted_def DeleteVPCEndpoint_def awaitDeletion_def
      DescribeSingleVPCEndpointById_def forgetEndpoint_def cleanupGroup_def deleteGroup_def groupDeleted_def
      DeleteSecurityGroup_def run_simps gone_env_def gone_ec2_def ref_defs sample_defs pollTimeout_def
      new_events_def)

text \<open>What a successful cleanup has asked for.\<close>

lemma deleteEndpoint_asks:
  assumes "deleteEndpoint rounds E v s = (r, t)" "rc_awsClient s = Some c"
  shows "Ec2 c (DoDeleteVpcEndpoints [v]) \<in> set (new_events s t)"
proof (rule attempted_event)
  show "preserves (emits wait_event) (endpointDeleted rounds E c v x)" for x
    unfolding endpointDeleted_def awaitDeletion_def forgetEndpoint_def
    by (intro preserves_steady_emits steady_intros pollDeletion_steady; simp)
  show "bindE (attempt (invoke (Ec2 c (DoDeleteVpcEndpoints [v])) (ec2_DeleteVpcEndpoints (ec2 E))))
      (endpointDeleted rounds E c v) s = (r, t)"
    using assms by (simp add: deleteEndpoint_def DeleteVPCEndpoint_def bindE_run [of awsClient] awsClient_run)
qed

lemma deleteGroup_asks:
  assumes "deleteGroup E g s = (r, t)" "rc_awsClient s = Some c"
  shows "Ec2 c (DoDeleteSecurityGroup g) \<in> set (new_events s t)"
proof -
  let ?ev = "Ec2 c (DoDeleteSecurityGroup g)"
  let ?s1 = "s\<lparr>history := history s @ [?ev]\<rparr>"
  consider "t = ?s1" | v where "groupDeleted E v ?s1 = (r, t)"
    using assms by (auto simp: deleteGroup_def DeleteSecurityGroup_def run_simps split: sum.splits option.splits if_splits)
  then show ?thesis
  proof cases
    case (2 v)
    have "preserves (emits quiet_event) (groupDeleted E v)"
      unfolding groupDeleted_def by (intro preserves_steady_emits steady_intros; simp)
    then have "emits quiet_event ?s1 t" using 2 by (rule preservesD)
    then show ?thesis by (auto simp: emits_def)
  qed (simp add: new_events_def)
qed

lemma cleanup_run:
  assumes "cleanupAwsResources rounds E s = (Ok x, t)"
  obtains s1 s2 s3 s4 s5 where "record_normal ''CleanupStarted'' s = (Ok (), s1)"
    "cleanupRecord E s1 = (Ok (), s2)" "cleanupZone E s2 = (Ok (), s3)"
    "cleanupEndpoint rounds E s3 = (Ok (), s4)" "cleanupGroup E s4 = (Ok (), s5)"
    "record_normal ''CleanupComplete'' s5 = (Ok (), t)"
  using assms by (auto simp: cleanupAwsResources_def bindE_Ok)

lemma stages_emit:
  "preserves (emits (\<lambda>_. True)) (record_normal reason)"
  "preserves (emits (\<lambda>_. True)) (cleanupRecord E)"
  "preserves (emits (\<lambda>_. True)) (cleanupZone E)"
  "preserves (emits (\<lambda>_. True)) (cleanupEndpoint rounds E)"
  "preserves (emits (\<lambda>_. True)) (cleanupGroup E)"
  by (rule preserves_steady_emits [OF steady_events(1)]
      emits_True [OF preserves_steady_emits [OF cleanupRecord_steady]]
      emits_True [OF preserves_steady_emits [OF stages_steady(1)]]
      emits_True [OF preserves_steady_emits [OF stages_steady(2)]]
      emits_True [OF preserves_steady_emits [OF stages_steady(3)]]; simp)+

lemma cleanupEndpoint_asks:
  assumes "cleanupEndpoint rounds E s = (Ok x, t)" "st_VPCEndpointId (rc_status s) \<noteq> ''''"
  shows "\<exists>c. Ec2 c (DoDeleteVpcEndpoints [st_VPCEndpointId (rc_status s)]) \<in> set (new_events s t)"
proof -
  let ?v = "st_VPCEndpointId (rc_status s)"
  from assms obtain s1 s2 where m: "cleanupMetrics s = (Ok (), s1)"
    and d: "deleteEndpoint rounds E ?v s1 = (Ok (), s2)"
    and rest: "bindE (set_status (\<lambda>v. v\<lparr>st_Status := ''deleting''\<rparr>)) (\<lambda>_. updateStatus E) s2 = (Ok (), t)"
    by (auto simp: cleanupEndpoint_def rc_Ok)
  obtain c where c: "rc_awsClient s1 = Some c"
    using d by (auto simp: deleteEndpoint_def bindE_Ok awsClient_eq split: option.splits)
  have "preserves (emits (\<lambda>_. True)) cleanupMetrics"
    "preserves (emits (\<lambda>_. True))
       (bindE (set_status (\<lambda>v. v\<lparr>st_Status := ''deleting''\<rparr>)) (\<lambda>_. updateStatus E))"
    unfolding cleanupMetrics_def by (intro preserves_steady_emits steady_intros; simp)+
  moreover have "preserves (emits (\<lambda>_. True)) (deleteEndpoint rounds E ?v)"
    by (rule emits_True [OF preserves_steady_emits [OF deleteEndpoint_steady]])
  ultimately have "emits (\<lambda>_. True) s s1" "emits (\<lambda>_. True) s1 s2" "emits (\<lambda>_. True) s2 t"
    using m d rest by (auto dest: preservesD)
  then have "set (new_events s1 s2) \<subseteq> set (new_events s t)"
    by (auto simp: emits_def)
  with deleteEndpoint_asks [OF d c] show ?thesis by blast
qed

lemma cleanupGroup_asks:
  assumes "cleanupGroup E s = (Ok x, t)" "st_SecurityGroupId (rc_status s) \<noteq> ''''"
  shows "\<exists>c. Ec2 c (DoDeleteSecurityGroup (st_SecurityGroupId (rc_status s))) \<in> set (new_events s t)"
proof -
  from assms have d: "deleteGroup E (st_SecurityGroupId (rc_status s)) s = (Ok (), t)"
    by (auto simp: cleanupGroup_def rc_Ok)
  then obtain c where "rc_awsClient s = Some c"
    by (auto simp: deleteGroup_def bindE_Ok awsClient_eq split: option.splits)
  with deleteGroup_asks [OF d] show ?thesis by blast
qed

lemma cleanup_asks_and_forgets:
  assumes "cleanupAwsResources rounds E s = (Ok (), t)"
  shows "st_VPCEndpointId (rc_status t) = '''' \<and>
    (st_VPCEndpointId (rc_status s) = '''' \<or>
     (\<exists>c. Ec2 c (DoDeleteVpcEndpoints [st_VPCEndpointId (rc_status s)]) \<in> set (new_events s t))) \<and>
    (st_SecurityGroupId (rc_status s) = '''' \<or>
     (\<exists>c. Ec2 c (DoDeleteSecurityGroup (st_SecurityGroupId (rc_status s))) \<in> set (new_events s t)))"
proof -
  from assms obtain s1 s2 s3 s4 s5 where r: "record_normal ''CleanupStarted'' s = (Ok (), s1)"
    "cleanupRecord E s1 = (Ok (), s2)" "cleanupZone E s2 = (Ok (), s3)"
    "cleanupEndpoint rounds E s3 = (Ok (), s4)" "cleanupGroup E s4 = (Ok (), s5)"
    "record_normal ''CleanupComplete'' s5 = (Ok (), t)" by (rule cleanup_run)
  have "rc_status s1 = rc_status s" "rc_status t = rc_status s5"
    using r(1,6) by (simp_all add: record_normal_eq)
  then have ids: "st_VPCEndpointId (rc_status s3) = st_VPCEndpointId (rc_status s)"
      "st_SecurityGroupId (rc_status s4) = st_SecurityGroupId (rc_status s)"
      "st_VPCEndpointId (rc_status t) = st_VPCEndpointId (rc_status s4)"
    using keepsD [OF cleanupRecord_keeps r(2)] keepsD [OF cleanupZone_keeps r(3)]
      keepsD [OF cleanupEndpoint_keeps r(4)] keepsD [OF cleanupGroup_keeps r(5)] by simp_all
  have "emits (\<lambda>_. True) s s1" "emits (\<lambda>_. True) s1 s2" "emits (\<lambda>_. True) s2 s3"
      "emits (\<lambda>_. True) s3 s4" "emits (\<lambda>_. True) s4 s5" "emits (\<lambda>_. True) s5 t"
    using preservesD [OF stages_emit(1) r(1)] preservesD [OF stages_emit(2) r(2)]
      preservesD [OF stages_emit(3) r(3)] preservesD [OF stages_emit(4) r(4)]
      preservesD [OF stages_emit(5) r(5)] preservesD [OF stages_emit(1) r(6)] by blast+
  then have "set (new_events s3 s4) \<union> set (new_events s4 s5) \<subseteq> set (new_events s t)"
    by (auto simp: emits_def)
  then have sub: "e \<in> set (new_events s t)" if "e \<in> set (new_events s3 s4) \<or> e \<in> set (new_events s4 s5)" for e
    using that by blast
  show ?thesis
    using cleanupEndpoint_asks [OF r(4)] cleanupGroup_asks [OF r(5)] cleanupEndpoint_Ok [OF r(4)]
    unfolding ids by (metis sub)
qed

text \<open>
  A cleanup that succeeds has cleaned up. It asked AWS to delete the endpoint and the security
  group named in the status, whenever they are named there, and the status has no endpoint left.
\<close>

lemma cleanup_complete:
  assumes "cleanupAwsResources rounds E s = (Ok (), t)"
  shows "st_VPCEndpointId (rc_status t) = '''' \<and>
    (st_VPCEndpointId (rc_status s) = '''' \<or>
     (\<exists>c. Ec2 c (DoDeleteVpcEndpoints [st_VPCEndpointId (rc_status s)]) \<in> set (new_events s t))) \<and>
    (st_SecurityGroupId (rc_status s) = '''' \<or>
     (\<exists>c. Ec2 c (DoDeleteSecurityGroup (st_SecurityGroupId (rc_status s))) \<in> set (new_events s t)))"
  using assms by (rule cleanup_asks_and_forgets)

lemma cleanup_sample_result:
  "cleanupAwsResources 1 gone_env sample_state =
     (Ok (), snd (cleanupAwsResources 1 gone_env sample_state))"
  by (simp add: cleanupAwsResources_def cleanupRecord_def cleanupZone_def cleanupEndpoint_def
      cleanupMetrics_def deleteEndpoint_def endpointDeleted_def DeleteVPCEndpoint_def awaitDeletion_def
      DescribeSingleVPCEndpointById_def forgetEndpoint_def cleanupGroup_def deleteGroup_def
      groupDeleted_def DeleteSecurityGroup_def run_simps gone_env_def gone_ec2_def ref_defs
      sample_defs pollTimeout_def)

lemma cleanup_complete_example:
  "\<exists>t. cleanupAwsResources 1 gone_env sample_state = (Ok (), t) \<and> st_VPCEndpointId (rc_status t) = ''''"
  using cleanup_complete [OF cleanup_sample_result] cleanup_sample_result by blast

text \<open>
  C22: the wait for the endpoint ends. With a clock that never goes back and that advances by the
  time slept, 37 rounds of the poll loop are enough (an interval of 5 seconds, a timeout of 3
  minutes): the cleanup returns, with success, an error or a panic, whatever AWS and the cluster
  answer.
\<close>

theorem cleanup_returns:
  assumes "clock_laws E" "37 \<le> rounds"
  shows "fst (cleanupAwsResources rounds E s) \<noteq> Diverged"
  using cleanupAwsResources_returns [OF assms(1), of rounds] assms(2)
  by (simp add: returns_def poll_rounds_def)

theorem cleanup_returns_witness:
  "fst (cleanupAwsResources 37 gone_env sample_state) \<noteq> Diverged"
  by (rule cleanup_returns) (simp_all add: ref_laws gone_env_def)

text \<open>What \<open>ownsZone\<close> found out when it said yes.\<close>

definition zone_may_go :: "env \<Rightarrow> vpcEndpointSpec \<Rightarrow> bool" where
  "zone_may_go E spec \<longleftrightarrow>
     (let zone = dns_Route53PrivateHostedZone (sp_CustomDns spec) in
      (phz_DomainName zone \<noteq> '''' \<or> phz_DomainNameRef zone \<noteq> None) \<and>
      (\<exists>h. case k8s_GetDNS (k8s E) (h @ [K8s (DoGetDNS DefaultDnsesName)]) of
             Inr baseDomain \<Rightarrow> phz_DomainName zone \<noteq> baseDomain
           | Inl _ \<Rightarrow> is_hcp spec))"

lemma ownsZone_True: "ownsZone E s = (Ok True, t) \<Longrightarrow> zone_may_go E (rc_spec s)"
  by (auto simp: ownsZone_def zone_may_go_def Let_def run_simps
      intro!: exI [of _ "history s"] split: sum.splits if_splits)

lemma cleanupZone_deletes:
  assumes run: "cleanupZone E s = (r, t)" and e: "R53 c (DoDeleteHostedZone z) \<in> set (new_events s t)"
  shows "zone_may_go E (rc_spec s) \<and> z \<noteq> '''' \<and> z = st_HostedZoneId (rc_status s)"
proof -
  let ?z = "st_HostedZoneId (rc_status s)"
  have z: "?z \<noteq> ''''" "z = ?z"
    using steady_event [OF cleanupZone_emits [OF run] e] by (auto simp: empties_zone_def)
  with run have "bindE (ownsZone E) (\<lambda>owned. whenE owned (deleteZone E ?z)) s = (r, t)"
    by (simp add: cleanupZone_def bindE_run [of status] status_run whenE_def)
  then obtain owned u where o: "ownsZone E s = (Ok owned, u)" "whenE owned (deleteZone E ?z) u = (r, t)"
    and eu: "R53 c (DoDeleteHostedZone z) \<in> set (new_events u t)"
  proof (rule event_later [OF _ e ownsZone_steady [THEN preserves_steady_emits]])
    show "preserves (emits (\<lambda>e. quiet_event e \<or> empties_zone ?z e)) (whenE owned (deleteZone E ?z))" for owned
      by (intro em.whenE deleteZone_steady [THEN preserves_steady_emits])
  qed simp_all
  have "owned"
    using o(2) eu by (auto simp: whenE_run new_events_def split: if_splits)
  with o(1) z show ?thesis by (simp add: ownsZone_True)
qed

lemma cleanupRecord_zone:
  assumes "cleanupRecord E s = (r, t)" "st_HostedZoneId (rc_status s) \<noteq> ''''"
  shows "st_HostedZoneId (rc_status t) = st_HostedZoneId (rc_status s)"
proof -
  have "preserves (keeps st_HostedZoneId) (deleteRecord E st)" for st
    unfolding deleteRecord_def deleteNamedRecord_def by (intro keeps_intros; simp)
  then have "deleteRecord E st u = (q, v) \<Longrightarrow> st_HostedZoneId (rc_status v) = st_HostedZoneId (rc_status u)"
    for st u q v by (rule keepsD)
  with assms show ?thesis
    by (auto simp: cleanupRecord_def run_simps split: if_splits)
qed

definition untilZone :: "env \<Rightarrow> unit rprog" where
  "untilZone E = bindE (record_normal ''CleanupStarted'') (\<lambda>_. cleanupRecord E)"

definition afterZone :: "nat \<Rightarrow> env \<Rightarrow> unit rprog" where
  "afterZone rounds E = bindE (cleanupEndpoint rounds E) (\<lambda>_. fromGroup E)"

lemma cleanup_zone_split:
  "cleanupAwsResources rounds E =
     bindE (untilZone E) (\<lambda>_. bindE (cleanupZone E) (\<lambda>_. afterZone rounds E))"
  by (simp add: cleanupAwsResources_def untilZone_def afterZone_def fromGroup_def bindE_assoc)

lemma zone_split_steady:
  "preserves (steady (\<lambda>e. dns_event e \<or> (\<exists>n. names_record n e))) (untilZone E)"
  "preserves (emits (\<lambda>e. deletion_phase e \<noteq> Some DnsPhase)) (afterZone rounds E)"
proof -
  show "preserves (steady (\<lambda>e. dns_event e \<or> (\<exists>n. names_record n e))) (untilZone E)"
    unfolding untilZone_def by (intro sy.bindE steady_events cleanupRecord_steady) simp
  show "preserves (emits (\<lambda>e. deletion_phase e \<noteq> Some DnsPhase)) (afterZone rounds E)"
    unfolding afterZone_def
    by (intro em.bindE fromGroup_emits [THEN preserves_emits_weaken]
        stages_steady(2) [THEN preserves_steady_emits, THEN preserves_emits_weaken])
      (auto dest: quiet_phase wait_phase event_phases)
qed

lemma untilZone_zone:
  assumes "untilZone E s = (r, t)" "st_HostedZoneId (rc_status s) \<noteq> ''''"
  shows "st_HostedZoneId (rc_status t) = st_HostedZoneId (rc_status s)"
  using assms cleanupRecord_zone by (fastforce simp: untilZone_def bindE_run record_normal_run)

text \<open>
  C11: when a hosted zone is deleted. If a run of the cleanup asks AWS to delete a hosted zone, the
  resource names a domain (directly or by reference), so that the operator may have created the
  zone; the lookup of the cluster's base domain answered something else than the domain name of
  the spec, or it failed and the domain comes from a hosted control plane; and if the status had
  a zone to begin with, the deleted zone is that one.
\<close>

theorem cleanup_zone_deletion:
  assumes "R53 c (DoDeleteHostedZone z) \<in> set (new_events s (snd (cleanupAwsResources rounds E s)))"
  shows "zone_may_go E (rc_spec s) \<and> z \<noteq> '''' \<and>
    (st_HostedZoneId (rc_status s) = '''' \<or> z = st_HostedZoneId (rc_status s))"
proof -
  obtain r t where run: "bindE (untilZone E) (\<lambda>_. bindE (cleanupZone E) (\<lambda>_. afterZone rounds E)) s = (r, t)"
    by fastforce
  with assms have e: "R53 c (DoDeleteHostedZone z) \<in> set (new_events s t)"
    by (simp add: cleanup_zone_split)
  note zone_emits = stages_steady(1) [THEN preserves_steady_emits]
  obtain x u where u: "untilZone E s = (Ok x, u)"
    and rest: "bindE (cleanupZone E) (\<lambda>_. afterZone rounds E) u = (r, t)"
    and e': "R53 c (DoDeleteHostedZone z) \<in> set (new_events u t)"
    by (rule event_later [OF run e zone_split_steady(1) [THEN preserves_steady_emits]
          em.bindE [OF emits_True [OF zone_emits] emits_True [OF zone_split_steady(2)]]])
      (simp_all add: names_record_def)
  obtain q v where v: "cleanupZone E u = (q, v)" "R53 c (DoDeleteHostedZone z) \<in> set (new_events u v)"
    by (rule event_earlier [OF rest e' zone_emits zone_split_steady(2)]) simp_all
  have "rc_spec u = rc_spec s"
    using preservesD [OF zone_split_steady(1) u] by (simp add: steady_def)
  with cleanupZone_deletes [OF v] untilZone_zone [OF u] show ?thesis by auto
qed

definition sample_with_zone :: "route53PrivateHostedZone \<Rightarrow> reconciler" where
  "sample_with_zone zone = sample_state\<lparr>rc_resource := sample_endpoint\<lparr>
     ve_Spec := sample_spec\<lparr>sp_CustomDns := \<lparr>dns_Route53PrivateHostedZone = zone\<rparr>\<rparr>,
     ve_Status := sample_status\<lparr>st_VPCEndpointId := '''', st_SecurityGroupId := '''',
       st_HostedZoneId := ''Z1''\<rparr>\<rparr>\<rparr>"

lemmas cleanup_zone_run = cleanupAwsResources_def cleanupRecord_def cleanupZone_def ownsZone_def
  deleteZone_def zoneDeleted_def DeleteHostedZone_def cleanupEndpoint_def cleanupGroup_def run_simps ref_defs
  sample_defs sample_with_zone_def new_events_def

theorem cleanup_zone_deletion_witness:
  "zone_may_go ref_env (rc_spec (sample_with_zone (sample_zone\<lparr>phz_DomainName := ''svc.example.com''\<rparr>)))"
  using cleanup_zone_deletion [of sample_config "''Z1''"
      "sample_with_zone (sample_zone\<lparr>phz_DomainName := ''svc.example.com''\<rparr>)" 1 ref_env]
  by (simp add: cleanup_zone_run)

text \<open>
  C36: the safeguard compares the wrong name. It compares the cluster's base domain with the domain
  name written in the spec only. A resource that refers to the cluster's DNS object instead uses
  exactly the base domain, as \<open>resolveDomainName\<close> says, and so the cluster's own private zone;
  but the safeguard lets the zone go and the cleanup asks AWS to delete it.
\<close>

theorem zone_safeguard_misses_dns_reference:
  assumes "phz_DomainName (ve_Zone (rc_resource s)) = ''''"
    and "phz_DomainNameRef (ve_Zone (rc_resource s)) = Some ref" "dn_Name ref = ''''"
    and "dn_ValueFrom ref = Some src" "dns_DnsRef src = Some dns" "dns_Name dns = DefaultDnsesName"
    and "\<And>h. k8s_GetDNS (k8s E) h = Inr baseDomain" "baseDomain \<noteq> ''''"
    and "rc_awsClient s = Some c" "st_HostedZoneId (rc_status s) \<noteq> ''''"
  shows "fst (resolveDomainName E s) = Ok baseDomain \<and>
    R53 c (DoDeleteHostedZone (st_HostedZoneId (rc_status s))) \<in>
      set (new_events s (snd (cleanupZone E s)))"
proof
  show "fst (resolveDomainName E s) = Ok baseDomain"
    using assms by (simp add: resolveDomainName_def dnses_GetPrivateHostedZoneDomainName_def run_simps Let_def)
  let ?z = "st_HostedZoneId (rc_status s)"
  let ?u = "s\<lparr>history := history s @ [K8s (DoGetDNS DefaultDnsesName)]\<rparr>"
  have zone: "cleanupZone E s = deleteZone E ?z ?u"
    using assms by (simp add: cleanupZone_def ownsZone_def run_simps)
  obtain r t where t: "deleteZone E ?z ?u = (r, t)" by fastforce
  have "R53 c (DoDeleteHostedZone ?z) \<in> set (new_events ?u t)"
  proof (rule attempted_event)
    show "bindE (attempt (invoke (R53 c (DoDeleteHostedZone ?z)) (r53_DeleteHostedZone (r53 E))))
        (zoneDeleted E c ?z) ?u = (r, t)"
      using t assms by (simp add: deleteZone_def DeleteHostedZone_def bindE_run [of awsClient] awsClient_run)
    show "preserves (emits (\<lambda>e. quiet_event e \<or> empties_zone ?z e)) (zoneDeleted E c ?z x)" for x
      by (rule zoneDeleted_steady [THEN preserves_steady_emits])
  qed
  then show "R53 c (DoDeleteHostedZone ?z) \<in> set (new_events s (snd (cleanupZone E s)))"
    using preservesD [OF deleteZone_steady t] by (auto simp: zone t steady_def emits_def new_events_def)
qed

theorem zone_safeguard_misses_dns_reference_witness:
  "let s = sample_with_zone (sample_zone\<lparr>phz_DomainNameRef := Some \<lparr>dn_Name = '''',
       dn_ValueFrom = Some \<lparr>dns_DnsRef = Some \<lparr>dns_Name = ''cluster''\<rparr>,
         dns_HostedControlPlaneRef = None\<rparr>\<rparr>\<rparr>)
   in R53 sample_config (DoDeleteHostedZone ''Z1'') \<in> set (new_events s (snd (cleanupZone ref_env s)))"
  using zone_safeguard_misses_dns_reference
    [of "sample_with_zone (sample_zone\<lparr>phz_DomainNameRef := Some \<lparr>dn_Name = '''',
       dn_ValueFrom = Some \<lparr>dns_DnsRef = Some \<lparr>dns_Name = ''cluster''\<rparr>,
         dns_HostedControlPlaneRef = None\<rparr>\<rparr>\<rparr>)" _ _ _ ref_env "''cluster.example.com''" sample_config]
  by (simp add: sample_with_zone_def sample_defs ref_env_def ref_k8s_def DefaultDnsesName_def Let_def)

end
