(* ===== verification/Cleaned.thy ===== *)
theory Cleaned
  imports Cleanup
begin

text \<open>
  What a cleanup that succeeds has seen to, as a specification over the calls of the run and what they were
  answered (\<open>cleaned\<close>): the record, the hosted zone, the endpoint and the security group that the resource
  named are gone, because AWS accepted their deletion, or did not know them any more. An endpoint is gone only
  when AWS says so after the deletion was accepted.
\<close>

section \<open>Answers\<close>

text \<open>\<open>replied respond P ev h tr\<close>: among the events \<open>tr\<close> after the history \<open>h\<close>, the call \<open>ev\<close> got an answer with \<open>P\<close>.\<close>

definition replied :: "'a responder \<Rightarrow> (error + 'a \<Rightarrow> bool) \<Rightarrow> event \<Rightarrow> event list \<Rightarrow> event list \<Rightarrow> bool" where
  "replied respond P ev h tr \<longleftrightarrow> (\<exists>a b. tr = a @ ev # b \<and> P (respond (h @ a @ [ev])))"

definition has_code :: "string \<Rightarrow> error + 'a \<Rightarrow> bool" where
  "has_code code r = (case r of
     Inr _ \<Rightarrow> False
   | Inl err \<Rightarrow> (case as_api_error err of None \<Rightarrow> False | Some ae \<Rightarrow> fst ae = code))"

lemma has_code_simps [simp]:
  "\<not> has_code code (Inr x)" "has_code code (Inl err) \<longleftrightarrow> (\<exists>m. as_api_error err = Some (code, m))"
  by (auto simp: has_code_def split: option.splits)

lemma replied_append: "replied respond P ev h tr \<Longrightarrow> replied respond P ev h (tr @ rest)"
  unfolding replied_def by (metis append.assoc append_Cons)

lemma replied_prepend: "replied respond P ev (h @ p) tr \<Longrightarrow> replied respond P ev h (p @ tr)"
  unfolding replied_def by (metis append.assoc)

lemma replied_within:
  assumes "replied respond P ev (history a) (new_events a b)" "emits A s a" "emits B a b" "emits C b t"
  shows "replied respond P ev (history s) (new_events s t)"
proof -
  have "new_events s t = new_events s a @ new_events a b @ new_events b t" "history a = history s @ new_events s a"
    using assms(2-4) by (auto simp: emits_def)
  with assms(1) show ?thesis by (metis replied_append replied_prepend)
qed

lemma replied_invoke: "history t = history s @ [ev] \<Longrightarrow> P (respond (history t)) \<Longrightarrow> replied respond P ev (history s) (new_events s t)"
  unfolding replied_def by (rule exI [of _ "[]"]) simp

lemma before_event:
  assumes "xs @ ys = pre @ e # post" "e \<notin> set xs"
  obtains zs where "pre = xs @ zs"
  using assms by (auto simp: append_eq_append_conv2 Cons_eq_append_conv append_eq_Cons_conv)

section \<open>The specification\<close>

definition reports_gone :: "error + ec2VpcEndpoint list \<Rightarrow> bool" where
  "reports_gone r = (case r of
     Inl _ \<Rightarrow> has_code ''InvalidVpcEndpointId.NotFound'' r
   | Inr vpces \<Rightarrow> (case vpces of [vpce] \<Rightarrow> evp_State vpce = ''deleted'' | _ \<Rightarrow> False))"

definition endpoint_gone :: "env \<Rightarrow> string \<Rightarrow> event list \<Rightarrow> event list \<Rightarrow> bool" where
  "endpoint_gone E vpceId h tr \<longleftrightarrow>
     (\<exists>c. replied (ec2_DeleteVpcEndpoints (ec2 E)) (has_code ''InvalidVpcEndpoint.NotFound'')
            (Ec2 c (DoDeleteVpcEndpoints [vpceId])) h tr) \<or>
     (\<exists>c a b. tr = a @ b \<and>
        replied (ec2_DeleteVpcEndpoints (ec2 E)) (\<lambda>r. r = Inr ()) (Ec2 c (DoDeleteVpcEndpoints [vpceId])) h a \<and>
        replied (ec2_DescribeVpcEndpoints (ec2 E)) reports_gone (Ec2 c (DoDescribeVpcEndpoints [] [vpceId])) (h @ a) b)"

definition group_gone :: "env \<Rightarrow> string \<Rightarrow> event list \<Rightarrow> event list \<Rightarrow> bool" where
  "group_gone E groupId h tr \<longleftrightarrow>
     (\<exists>c. replied (ec2_DeleteSecurityGroup (ec2 E)) (\<lambda>r. r = Inr () \<or> has_code ''InvalidGroup.NotFound'' r)
            (Ec2 c (DoDeleteSecurityGroup groupId)) h tr)"

definition zone_gone :: "env \<Rightarrow> string \<Rightarrow> event list \<Rightarrow> event list \<Rightarrow> bool" where
  "zone_gone E zoneId h tr \<longleftrightarrow>
     (\<exists>c. replied (r53_DeleteHostedZone (r53 E)) (\<lambda>r. r = Inr () \<or> has_code ''NoSuchHostedZone'' r)
            (R53 c (DoDeleteHostedZone zoneId)) h tr)"

text \<open>A zone is kept if the spec does not name its domain, or if the domain is the base domain of the cluster.\<close>

definition zone_kept :: "env \<Rightarrow> vpcEndpointSpec \<Rightarrow> event list \<Rightarrow> event list \<Rightarrow> bool" where
  "zone_kept E spec h tr \<longleftrightarrow>
     (let zone = dns_Route53PrivateHostedZone (sp_CustomDns spec) in
      phz_DomainName zone = '''' \<and> phz_DomainNameRef zone = None \<or>
      replied (k8s_GetDNS (k8s E)) (\<lambda>r. r = Inr (phz_DomainName zone)) (K8s (DoGetDNS DefaultDnsesName)) h tr)"

text \<open>The records of the zone that have the name in the status, if there is such a zone.\<close>

definition records_gone :: "env \<Rightarrow> string \<Rightarrow> string \<Rightarrow> event list \<Rightarrow> event list \<Rightarrow> bool" where
  "records_gone E zoneId name h tr \<longleftrightarrow>
     (\<exists>c resp. replied (r53_GetHostedZone (r53 E)) (\<lambda>r. r = Inr resp) (R53 c (DoGetHostedZone (''/hostedzone/'' @ zoneId))) h tr \<and>
        (case gh_HostedZone resp of
           None \<Rightarrow> True
         | Some hz \<Rightarrow> \<exists>rrsets.
             replied (r53_ListResourceRecordSets (r53 E)) (\<lambda>r. r = Inr rrsets) (R53 c (DoListResourceRecordSets zoneId)) h tr \<and>
             (\<forall>rr\<in>set rrsets. rrs_Name rr = Some (name @ ''.'') \<longrightarrow> (\<exists>z. hz_Id hz = Some z \<and>
                replied (r53_ChangeResourceRecordSets (r53 E)) (\<lambda>r. r = Inr ()) (R53 c (DoDeleteResourceRecordSet rr z)) h tr))))"

definition cleaned :: "env \<Rightarrow> vpcEndpoint \<Rightarrow> event list \<Rightarrow> event list \<Rightarrow> bool" where
  "cleaned E res h tr \<longleftrightarrow> (let st = ve_Status res in
     (st_VPCEndpointId st \<noteq> '''' \<longrightarrow> endpoint_gone E (st_VPCEndpointId st) h tr) \<and>
     (st_SecurityGroupId st \<noteq> '''' \<longrightarrow> group_gone E (st_SecurityGroupId st) h tr) \<and>
     (st_HostedZoneId st \<noteq> '''' \<longrightarrow> zone_kept E (ve_Spec res) h tr \<or> zone_gone E (st_HostedZoneId st) h tr) \<and>
     (st_HostedZoneId st \<noteq> '''' \<and> st_ResourceRecordSet st \<noteq> '''' \<and>
        lib_IsStatusConditionTrue (lib E) (st_Conditions st) AWSRoute53RecordCondition \<longrightarrow>
        records_gone E (st_HostedZoneId st) (st_ResourceRecordSet st) h tr))"

text \<open>Each of these is seen in a part of the events.\<close>

lemma endpoint_gone_append: "endpoint_gone E i h tr \<Longrightarrow> endpoint_gone E i h (tr @ rest)"
  unfolding endpoint_gone_def by (metis append.assoc replied_append)

lemma endpoint_gone_prepend:
  assumes "endpoint_gone E i (h @ p) tr"
  shows "endpoint_gone E i h (p @ tr)"
  using assms unfolding endpoint_gone_def
proof (elim disjE exE conjE)
  fix c a b
  assume tr: "tr = a @ b"
    and d: "replied (ec2_DeleteVpcEndpoints (ec2 E)) (\<lambda>r. r = Inr ()) (Ec2 c (DoDeleteVpcEndpoints [i])) (h @ p) a"
    and g: "replied (ec2_DescribeVpcEndpoints (ec2 E)) reports_gone (Ec2 c (DoDescribeVpcEndpoints [] [i])) ((h @ p) @ a) b"
  from replied_prepend [OF d] g tr
  show "(\<exists>c. replied (ec2_DeleteVpcEndpoints (ec2 E)) (has_code ''InvalidVpcEndpoint.NotFound'')
            (Ec2 c (DoDeleteVpcEndpoints [i])) h (p @ tr)) \<or>
     (\<exists>c a b. p @ tr = a @ b \<and>
        replied (ec2_DeleteVpcEndpoints (ec2 E)) (\<lambda>r. r = Inr ()) (Ec2 c (DoDeleteVpcEndpoints [i])) h a \<and>
        replied (ec2_DescribeVpcEndpoints (ec2 E)) reports_gone (Ec2 c (DoDescribeVpcEndpoints [] [i])) (h @ a) b)"
    by (intro disjI2 exI [of _ c] exI [of _ "p @ a"] exI [of _ b]) simp
qed (blast intro: replied_prepend)

lemma parts_append:
  "group_gone E g h tr \<Longrightarrow> group_gone E g h (tr @ rest)"
  "zone_gone E z h tr \<Longrightarrow> zone_gone E z h (tr @ rest)"
  "zone_kept E spec h tr \<Longrightarrow> zone_kept E spec h (tr @ rest)"
  "records_gone E z n h tr \<Longrightarrow> records_gone E z n h (tr @ rest)"
  unfolding group_gone_def zone_gone_def zone_kept_def records_gone_def Let_def
  by (fastforce intro: replied_append split: option.splits)+

lemma parts_prepend:
  "group_gone E g (h @ p) tr \<Longrightarrow> group_gone E g h (p @ tr)"
  "zone_gone E z (h @ p) tr \<Longrightarrow> zone_gone E z h (p @ tr)"
  "zone_kept E spec (h @ p) tr \<Longrightarrow> zone_kept E spec h (p @ tr)"
  "records_gone E z n (h @ p) tr \<Longrightarrow> records_gone E z n h (p @ tr)"
  unfolding group_gone_def zone_gone_def zone_kept_def records_gone_def Let_def
  by (fastforce intro: replied_prepend split: option.splits)+

lemma cleaned_append: "cleaned E res h tr \<Longrightarrow> cleaned E res h (tr @ rest)"
  unfolding cleaned_def Let_def by (blast intro: endpoint_gone_append parts_append)

lemma cleaned_prepend: "cleaned E res (h @ p) tr \<Longrightarrow> cleaned E res h (p @ tr)"
  unfolding cleaned_def Let_def by (blast intro: endpoint_gone_prepend parts_prepend)

lemma part_within:
  assumes "X (history a) (new_events a b)" "emits A s a" "emits B a b" "emits C b t"
    and "\<And>h tr rest. X h tr \<Longrightarrow> X h (tr @ rest)" "\<And>h p tr. X (h @ p) tr \<Longrightarrow> X h (p @ tr)"
  shows "X (history s) (new_events s t)"
proof -
  have "new_events s t = new_events s a @ new_events a b @ new_events b t" "history a = history s @ new_events s a"
    using assms(2-4) by (auto simp: emits_def)
  with assms(1,5,6) show ?thesis by metis
qed

lemmas endpoint_gone_within = part_within [where X = "endpoint_gone E i" for E i, OF _ _ _ _ endpoint_gone_append endpoint_gone_prepend]
lemmas group_gone_within = part_within [where X = "group_gone E g" for E g, OF _ _ _ _ parts_append(1) parts_prepend(1)]
lemmas zone_gone_within = part_within [where X = "zone_gone E z" for E z, OF _ _ _ _ parts_append(2) parts_prepend(2)]
lemmas zone_kept_within = part_within [where X = "zone_kept E sp" for E sp, OF _ _ _ _ parts_append(3) parts_prepend(3)]
lemmas records_gone_within = part_within [where X = "records_gone E z n" for E z n, OF _ _ _ _ parts_append(4) parts_prepend(4)]

section \<open>The endpoint\<close>

lemma DescribeSingle_answer:
  assumes "DescribeSingleVPCEndpointById E c i s = (Ok resp, t)" "i \<noteq> ''''"
  shows "t = s\<lparr>history := history s @ [Ec2 c (DoDescribeVpcEndpoints [] [i])]\<rparr> \<and>
    (case resp of
       None \<Rightarrow> has_code ''InvalidVpcEndpointId.NotFound'' (ec2_DescribeVpcEndpoints (ec2 E) (history t))
     | Some vpces \<Rightarrow> length vpces = 1 \<and> ec2_DescribeVpcEndpoints (ec2 E) (history t) = Inr vpces)"
proof (cases "ec2_DescribeVpcEndpoints (ec2 E) (history s @ [Ec2 c (DoDescribeVpcEndpoints [] [i])])")
  case (Inl err)
  with assms show ?thesis
    by (cases "as_api_error err") (auto simp: DescribeSingleVPCEndpointById_def run_simps split: if_splits)
next
  case (Inr vpces)
  with assms show ?thesis
    by (auto simp: DescribeSingleVPCEndpointById_def run_simps split: if_splits)
qed

lemma forgetEndpoint_Ok: "forgetEndpoint s = (Ok x, t) \<Longrightarrow> history t = history s"
  by (auto simp: forgetEndpoint_def set_status_eq)

lemma waitInterval_Ok_state: "waitInterval E s = (Ok x, t) \<Longrightarrow> t = s\<lparr>history := history s @ [Slept pollInterval]\<rparr>"
  by (auto simp: waitInterval_def world_Ok split: option.splits)

text \<open>A poll loop that returns has seen the endpoint gone, or leaves the status as it is.\<close>

lemma pollDeletion_gone:
  assumes "pollDeletion n E c i d s = (Ok x, t)" "i \<noteq> ''''"
  shows "st_VPCEndpointId (rc_status t) = st_VPCEndpointId (rc_status s) \<or>
    replied (ec2_DescribeVpcEndpoints (ec2 E)) reports_gone (Ec2 c (DoDescribeVpcEndpoints [] [i])) (history s) (new_events s t)"
  using assms(1)
proof (induction n arbitrary: s)
  case 0
  then show ?case by (simp add: divergeE_eq)
next
  case (Suc n)
  let ?ask = "Ec2 c (DoDescribeVpcEndpoints [] [i])"
  let ?u = "s\<lparr>history := history s @ [?ask]\<rparr>"
  show ?case
  proof (cases "lib_Now (lib E) (history s) < d")
    case False
    with Suc.prems show ?thesis by (simp add: bindE_run now_run ret_run)
  next
    case True
    with Suc.prems obtain resp u where ask: "DescribeSingleVPCEndpointById E c i s = (Ok resp, u)"
      and rest: "(case resp of None \<Rightarrow> forgetEndpoint | Some [] \<Rightarrow> forgetEndpoint
        | Some (vpce # _) \<Rightarrow>
           if evp_State vpce = ''deleted'' then forgetEndpoint
           else if evp_State vpce \<noteq> ''deleting'' then
             failE (Errorf ''VPC endpoint %s in unexpected state %q during deletion'' [FS i, FS (evp_State vpce)])
           else bindE (waitInterval E) (\<lambda>_. pollDeletion n E c i d)) u = (Ok x, t)"
      by (auto simp: bindE_Ok now_eq mapErr_Ok)
    note answer = DescribeSingle_answer [OF ask assms(2)]
    have gone: ?thesis if "reports_gone (ec2_DescribeVpcEndpoints (ec2 E) (history u))" "history t = history u"
      using that answer by (intro disjI2 replied_invoke) simp_all
    show ?thesis
    proof (cases resp)
      case None
      with rest answer show ?thesis by (intro gone) (auto simp: reports_gone_def forgetEndpoint_Ok split: sum.split)
    next
      case (Some vpces)
      with answer obtain v where v: "vpces = [v]" by (auto simp: length_Suc_conv)
      show ?thesis
      proof (cases "evp_State v = ''deleted''")
        case True
        with rest answer Some v show ?thesis by (intro gone) (auto simp: reports_gone_def forgetEndpoint_Ok)
      next
        case False
        with rest Some v obtain w where w: "waitInterval E u = (Ok (), w)" "pollDeletion n E c i d w = (Ok x, t)"
          by (auto simp: bindE_Ok failE_eq split: if_splits)
        then have "emits (\<lambda>_. True) s w" "rc_status w = rc_status s"
          using answer waitInterval_Ok_state [OF w(1)] by (auto simp: emits_def)
        with Suc.IH [OF w(2)] replied_within [OF _ this(1) preservesD [OF pollDeletion_steady [THEN preserves_steady_emits] w(2)] emits_refl]
        show ?thesis by auto
      qed
    qed
  qed
qed

lemma awaitDeletion_gone:
  assumes "awaitDeletion rounds E c i s = (Ok x, t)" "i \<noteq> ''''" "st_VPCEndpointId (rc_status s) \<noteq> ''''"
  shows "replied (ec2_DescribeVpcEndpoints (ec2 E)) reports_gone (Ec2 c (DoDescribeVpcEndpoints [] [i])) (history s) (new_events s t)"
proof -
  let ?u = "s\<lparr>history := history s @ [Recorded ''Normal'' ''Deleted'']\<rparr>"
  from assms(1) obtain d where p: "pollDeletion rounds E c i d ?u = (Ok (), t)" and "st_VPCEndpointId (rc_status t) = ''''"
    by (auto simp: awaitDeletion_def rc_Ok split: if_splits)
  with pollDeletion_gone [OF p assms(2)] assms(3)
  have "replied (ec2_DescribeVpcEndpoints (ec2 E)) reports_gone (Ec2 c (DoDescribeVpcEndpoints [] [i])) (history ?u) (new_events ?u t)"
    by auto
  moreover have "emits (\<lambda>_. True) s ?u" by (simp add: emits_def)
  ultimately show ?thesis
    by (rule replied_within [OF _ _ preservesD [OF pollDeletion_steady [THEN preserves_steady_emits] p] emits_refl])
qed

lemma deleteEndpoint_gone:
  assumes "deleteEndpoint rounds E i s = (Ok x, t)" "i \<noteq> ''''" "st_VPCEndpointId (rc_status s) \<noteq> ''''"
  shows "endpoint_gone E i (history s) (new_events s t)"
proof -
  obtain c where c: "rc_awsClient s = Some c"
    using assms(1) by (auto simp: deleteEndpoint_def bindE_Ok awsClient_eq split: option.splits)
  let ?del = "Ec2 c (DoDeleteVpcEndpoints [i])"
  let ?u = "s\<lparr>history := history s @ [?del]\<rparr>"
  show ?thesis
  proof (cases "ec2_DeleteVpcEndpoints (ec2 E) (history ?u)")
    case (Inl err)
    with assms(1) c have code: "has_code ''InvalidVpcEndpoint.NotFound'' (ec2_DeleteVpcEndpoints (ec2 E) (history ?u))"
      and "\<exists>tr. history t = history s @ ?del # tr"
      by (auto simp: deleteEndpoint_def DeleteVPCEndpoint_def endpointDeleted_def forgetEndpoint_def run_simps
          split: if_splits option.splits)
    then obtain tr where "new_events s t = [] @ ?del # tr" by auto
    with code show ?thesis unfolding endpoint_gone_def replied_def
      by (intro disjI1 exI [of _ c] exI [of _ "[]"] exI [of _ tr]) simp
  next
    case (Inr u)
    with assms(1) c have a: "awaitDeletion rounds E c i ?u = (Ok x, t)"
      by (simp add: deleteEndpoint_def DeleteVPCEndpoint_def endpointDeleted_def run_simps)
    have "preserves (emits wait_event) (awaitDeletion rounds E c i)"
      unfolding awaitDeletion_def by (intro preserves_steady_emits steady_intros pollDeletion_steady; simp)
    from preservesD [OF this a] have split: "new_events s t = [?del] @ new_events ?u t"
      by (auto simp: emits_def)
    have "replied (ec2_DeleteVpcEndpoints (ec2 E)) (\<lambda>r. r = Inr ()) ?del (history s) [?del]"
      using Inr unfolding replied_def by (intro exI [of _ "[]"]) simp
    moreover have "replied (ec2_DescribeVpcEndpoints (ec2 E)) reports_gone (Ec2 c (DoDescribeVpcEndpoints [] [i]))
        (history s @ [?del]) (new_events ?u t)"
      using awaitDeletion_gone [OF a assms(2)] assms(3) by simp
    ultimately show ?thesis unfolding endpoint_gone_def split by blast
  qed
qed

lemma cleanupEndpoint_gone:
  assumes "cleanupEndpoint rounds E s = (Ok x, t)" "st_VPCEndpointId (rc_status s) \<noteq> ''''"
  shows "endpoint_gone E (st_VPCEndpointId (rc_status s)) (history s) (new_events s t)"
proof -
  let ?i = "st_VPCEndpointId (rc_status s)"
  from assms obtain s1 s2 where m: "cleanupMetrics s = (Ok (), s1)"
    and d: "deleteEndpoint rounds E ?i s1 = (Ok (), s2)"
    and rest: "bindE (set_status (\<lambda>v. v\<lparr>st_Status := ''deleting''\<rparr>)) (\<lambda>_. updateStatus E) s2 = (Ok (), t)"
    by (auto simp: cleanupEndpoint_def rc_Ok)
  have s1: "emits (\<lambda>_. True) s s1" "rc_status s1 = rc_status s"
    using m by (auto simp: cleanupMetrics_def rc_Ok emits_def split: if_splits)
  have t: "emits (\<lambda>_. True) s2 t" using rest by (auto simp: rc_Ok emits_def)
  have "endpoint_gone E ?i (history s1) (new_events s1 s2)"
    by (rule deleteEndpoint_gone [OF d assms(2)]) (simp add: s1(2) assms(2))
  then show ?thesis
    by (rule endpoint_gone_within [OF _ s1(1) preservesD [OF deleteEndpoint_steady [THEN preserves_steady_emits] d] t])
qed

section \<open>The other stages\<close>

lemma cleanupGroup_gone:
  assumes "cleanupGroup E s = (Ok x, t)" "st_SecurityGroupId (rc_status s) \<noteq> ''''"
  shows "group_gone E (st_SecurityGroupId (rc_status s)) (history s) (new_events s t)"
proof -
  let ?g = "st_SecurityGroupId (rc_status s)"
  from assms have d: "deleteGroup E ?g s = (Ok x, t)" by (simp add: cleanupGroup_def bindE_run status_run whenE_run)
  obtain c where c: "rc_awsClient s = Some c"
    using d by (auto simp: deleteGroup_def bindE_Ok awsClient_eq split: option.splits)
  let ?del = "Ec2 c (DoDeleteSecurityGroup ?g)"
  let ?u = "s\<lparr>history := history s @ [?del]\<rparr>"
  let ?P = "\<lambda>r. r = Inr () \<or> has_code ''InvalidGroup.NotFound'' r"
  have "?P (ec2_DeleteSecurityGroup (ec2 E) (history ?u)) \<and> (\<exists>tr. history t = history s @ ?del # tr)"
    using d c by (auto simp: deleteGroup_def DeleteSecurityGroup_def groupDeleted_def run_simps
        split: sum.splits option.splits if_splits)
  then obtain tr where "?P (ec2_DeleteSecurityGroup (ec2 E) (history ?u))" "new_events s t = [] @ ?del # tr" by auto
  then show ?thesis
    unfolding group_gone_def replied_def by (intro exI [of _ c] exI [of _ "[]"] exI [of _ tr]) simp
qed

lemma DeleteHostedZone_replied:
  assumes "DeleteHostedZone E c z s = (r, t)" "P (r53_DeleteHostedZone (r53 E) (history t))"
  shows "replied (r53_DeleteHostedZone (r53 E)) P (R53 c (DoDeleteHostedZone z)) (history s) (new_events s t)"
  using assms by (intro replied_invoke) (auto simp: DeleteHostedZone_def invoke_eq)

lemma clearZone_gone:
  assumes "clearZone E c z s = (Ok x, t)"
  shows "zone_gone E z (history s) (new_events s t)"
proof -
  from assms obtain rrsets s1 s2 s3 where l: "ListResourceRecordSets E c z s = (Ok rrsets, s1)"
    and f: "forE (deleteOtherRecord E c z) rrsets s1 = (Ok (), s2)" and d: "DeleteHostedZone E c z s2 = (Ok (), s3)"
    and t: "forgetZone E s3 = (Ok (), t)"
    by (auto simp: clearZone_def bindE_Ok mapErr_Ok)
  have "preserves (steady (\<lambda>_. True)) (ListResourceRecordSets E c z)"
    "preserves (steady (\<lambda>_. True)) (forE (deleteOtherRecord E c z) rrsets)"
    "preserves (steady (\<lambda>_. True)) (DeleteHostedZone E c z)" "preserves (steady (\<lambda>_. True)) (forgetZone E)"
    unfolding deleteOtherRecord_def forgetZone_def by (intro steady_intros; simp)+
  note grow = this [THEN preserves_steady_emits]
  have "replied (r53_DeleteHostedZone (r53 E)) (\<lambda>r. r = Inr () \<or> has_code ''NoSuchHostedZone'' r)
      (R53 c (DoDeleteHostedZone z)) (history s2) (new_events s2 s3)"
    by (rule DeleteHostedZone_replied [OF d]) (use d in \<open>simp add: DeleteHostedZone_def invoke_Ok\<close>)
  then show ?thesis
    unfolding zone_gone_def
    using replied_within [OF _ emits_trans [OF preservesD [OF grow(1) l] preservesD [OF grow(2) f]]
        preservesD [OF grow(3) d] preservesD [OF grow(4) t]] by blast
qed

lemma deleteZone_gone:
  assumes "deleteZone E z s = (Ok x, t)"
  shows "zone_gone E z (history s) (new_events s t)"
proof -
  from assms obtain c deleted u where c: "rc_awsClient s = Some c"
    and d: "attempt (DeleteHostedZone E c z) s = (Ok deleted, u)" and rest: "zoneDeleted E c z deleted u = (Ok x, t)"
    by (auto simp: deleteZone_def bindE_Ok awsClient_eq split: option.splits)
  let ?P = "\<lambda>r. r = Inr () \<or> has_code ''NoSuchHostedZone'' r"
  let ?del = "R53 c (DoDeleteHostedZone z)"
  have u: "history u = history s @ [?del]" "deleted = r53_DeleteHostedZone (r53 E) (history u)"
    using d by (auto simp: attempt_Ok DeleteHostedZone_def invoke_eq split: sum.splits if_splits)
  then have su: "emits (\<lambda>_. True) s u" by (simp add: emits_def)
  have ut: "emits (\<lambda>e. quiet_event e \<or> empties_zone z e) u t"
    by (rule preservesD [OF zoneDeleted_steady [THEN preserves_steady_emits] rest])
  have now: ?thesis if "?P deleted"
  proof -
    have "replied (r53_DeleteHostedZone (r53 E)) ?P ?del (history s) (new_events s u)"
      by (rule replied_invoke [where P = ?P, OF u(1)]) (use that u(2) in simp)
    from replied_within [OF this emits_refl su ut] show ?thesis unfolding zone_gone_def by blast
  qed
  show ?thesis
  proof (cases deleted)
    case (Inr y)
    then show ?thesis by (intro now) simp
  next
    case (Inl err)
    with rest obtain code m where ae: "as_api_error err = Some (code, m)"
      and k: "code = ''NoSuchHostedZone'' \<or> clearZone E c z u = (Ok x, t)"
      by (auto simp: zoneDeleted_def failE_eq split: option.splits if_splits)
    from k show ?thesis
    proof
      assume "code = ''NoSuchHostedZone''"
      with Inl ae show ?thesis by (intro now) simp
    next
      assume clear: "clearZone E c z u = (Ok x, t)"
      show ?thesis by (rule zone_gone_within [OF clearZone_gone [OF clear] su ut emits_refl])
    qed
  qed
qed

lemma cleanupZone_gone:
  assumes "cleanupZone E s = (Ok x, t)" "st_HostedZoneId (rc_status s) \<noteq> ''''"
  shows "zone_kept E (rc_spec s) (history s) (new_events s t) \<or>
    zone_gone E (st_HostedZoneId (rc_status s)) (history s) (new_events s t)"
proof -
  let ?z = "st_HostedZoneId (rc_status s)"
  from assms obtain owned u where o: "ownsZone E s = (Ok owned, u)" and d: "whenE owned (deleteZone E ?z) u = (Ok x, t)"
    by (auto simp: cleanupZone_def bindE_Ok status_eq whenE_run)
  have su: "emits quiet_event s u" by (rule preservesD [OF ownsZone_steady [THEN preserves_steady_emits] o])
  show ?thesis
  proof (cases owned)
    case True
    with d have d: "deleteZone E ?z u = (Ok x, t)" by (simp add: whenE_run)
    from zone_gone_within [OF deleteZone_gone [OF d] su preservesD [OF deleteZone_steady [THEN preserves_steady_emits] d] emits_refl]
    show ?thesis by simp
  next
    case False
    with d have t: "t = u" by (simp add: whenE_run ret_run)
    let ?zone = "ve_Zone (rc_resource s)"
    show ?thesis
    proof (cases "phz_DomainName ?zone = '''' \<and> phz_DomainNameRef ?zone = None")
      case True
      then show ?thesis by (auto simp: zone_kept_def Let_def)
    next
      case named: False
      with o False have "history u = history s @ [K8s (DoGetDNS DefaultDnsesName)]"
        "k8s_GetDNS (k8s E) (history u) = Inr (phz_DomainName ?zone)"
        by (cases "k8s_GetDNS (k8s E) (history s @ [K8s (DoGetDNS DefaultDnsesName)])";
            auto simp: ownsZone_def run_simps split: if_splits)+
      then show ?thesis unfolding t zone_kept_def Let_def by (blast intro: replied_invoke)
    qed
  qed
qed

lemma deleteNamedRecord_gone:
  assumes "deleteNamedRecord E c hz n rr s = (Ok x, t)" "rrs_Name rr = Some (n @ ''.'')"
  shows "\<exists>z. hz_Id hz = Some z \<and>
    replied (r53_ChangeResourceRecordSets (r53 E)) (\<lambda>r. r = Inr ()) (R53 c (DoDeleteResourceRecordSet rr z)) (history s) (new_events s t)"
proof -
  from assms obtain z where z: "hz_Id hz = Some z" and d: "DeleteResourceRecordSet E c rr z s = (Ok x, t)"
    by (auto simp: deleteNamedRecord_def bindE_Ok deref_eq whenE_run split: option.splits)
  with assms(2) show ?thesis
    by (intro exI [of _ z] conjI replied_invoke) (auto simp: DeleteResourceRecordSet_def rc_Ok)
qed

lemma deleteNamedRecord_grows: "preserves (emits (\<lambda>_. True)) (deleteNamedRecord E c hz n rr)"
  by (intro preserves_steady_emits deleteNamedRecord_steady) simp

lemma namedRecords_gone:
  assumes "forE (deleteNamedRecord E c hz n) rrsets s = (Ok (), t)" "rr \<in> set rrsets" "rrs_Name rr = Some (n @ ''.'')"
  shows "\<exists>z. hz_Id hz = Some z \<and>
    replied (r53_ChangeResourceRecordSets (r53 E)) (\<lambda>r. r = Inr ()) (R53 c (DoDeleteResourceRecordSet rr z)) (history s) (new_events s t)"
  using assms(1,2)
proof (induction rrsets arbitrary: s)
  case (Cons y ys)
  then obtain u where u: "deleteNamedRecord E c hz n y s = (Ok (), u)" and r: "forE (deleteNamedRecord E c hz n) ys u = (Ok (), t)"
    by (auto simp: bindE_Ok)
  have su: "emits (\<lambda>_. True) s u" by (rule preservesD [OF deleteNamedRecord_grows u])
  have ut: "emits (\<lambda>_. True) u t" by (rule preservesD [OF em.forE [OF deleteNamedRecord_grows] r])
  show ?case
  proof (cases "rr = y")
    case True
    with deleteNamedRecord_gone [OF u] assms(3) show ?thesis
      by (blast intro: replied_within [OF _ emits_refl su ut])
  next
    case False
    with Cons.IH [OF r] Cons.prems(2) show ?thesis
      by (auto intro: replied_within [OF _ su ut emits_refl])
  qed
qed simp

lemma deleteRecord_gone:
  assumes "deleteRecord E st s = (Ok x, t)"
  shows "records_gone E (st_HostedZoneId st) (st_ResourceRecordSet st) (history s) (new_events s t)"
proof -
  let ?z = "st_HostedZoneId st" and ?n = "st_ResourceRecordSet st"
  from assms obtain c where after: "bindE (GetHostedZone E c ?z) (\<lambda>resp.
     bindE (case gh_HostedZone resp of None \<Rightarrow> ret ()
      | Some hz \<Rightarrow> bindE (ListResourceRecordSets E c ?z) (\<lambda>rrsets. forE (deleteNamedRecord E c hz ?n) rrsets)) (\<lambda>_.
     bindE (set_status (\<lambda>v. v\<lparr>st_ResourceRecordSet := ''''\<rparr>)) (\<lambda>_.
     bindE (setCondition E AWSRoute53RecordCondition ConditionFalse ''Deleted'' ''Deleted Route53 Hosted Zone Record'') (\<lambda>_.
     bindE (updateStatus E) (\<lambda>_. record_normal ''Deleted''))))) s = (Ok x, t)"
    unfolding deleteRecord_def bindE_Ok [of awsClient] awsClient_eq by (auto split: option.splits)
  then obtain resp s1 y s2 where g: "GetHostedZone E c ?z s = (Ok resp, s1)"
    and m: "(case gh_HostedZone resp of None \<Rightarrow> ret ()
      | Some hz \<Rightarrow> bindE (ListResourceRecordSets E c ?z) (\<lambda>rrsets. forE (deleteNamedRecord E c hz ?n) rrsets)) s1 = (Ok y, s2)"
    and rest: "bindE (set_status (\<lambda>v. v\<lparr>st_ResourceRecordSet := ''''\<rparr>)) (\<lambda>_.
     bindE (setCondition E AWSRoute53RecordCondition ConditionFalse ''Deleted'' ''Deleted Route53 Hosted Zone Record'') (\<lambda>_.
     bindE (updateStatus E) (\<lambda>_. record_normal ''Deleted''))) s2 = (Ok x, t)"
    unfolding bindE_Ok [of "GetHostedZone E c ?z"] bindE_Ok [of "case_option _ _ _"] by blast
  have h1: "history s1 = history s @ [R53 c (DoGetHostedZone (''/hostedzone/'' @ ?z))]"
    "r53_GetHostedZone (r53 E) (history s1) = Inr resp"
    using g by (auto simp: GetHostedZone_def invoke_Ok)
  then have ss1: "emits (\<lambda>_. True) s s1" by (simp add: emits_def)
  have "preserves (emits (\<lambda>_. True)) (case gh_HostedZone resp of None \<Rightarrow> ret ()
      | Some hz \<Rightarrow> bindE (ListResourceRecordSets E c ?z) (\<lambda>rrsets. forE (deleteNamedRecord E c hz ?n) rrsets))"
    by (intro emits_intros deleteNamedRecord_grows r53_readers(5) [THEN preserves_calls_emits]) simp
  then have s12: "emits (\<lambda>_. True) s1 s2" using m by (rule preservesD)
  have s2t: "emits (\<lambda>_. True) s2 t" using rest by (auto simp: rc_Ok emits_def)
  have got: "replied (r53_GetHostedZone (r53 E)) (\<lambda>r. r = Inr resp) (R53 c (DoGetHostedZone (''/hostedzone/'' @ ?z)))
      (history s) (new_events s t)"
    by (rule replied_within [OF replied_invoke emits_refl ss1 emits_trans [OF s12 s2t]]) (use h1 in simp_all)
  show ?thesis
  proof (cases "gh_HostedZone resp")
    case None
    with got show ?thesis unfolding records_gone_def by (intro exI [of _ c] exI [of _ resp]) simp
  next
    case (Some hz)
    with m obtain rrsets u where l: "ListResourceRecordSets E c ?z s1 = (Ok rrsets, u)"
      and f: "forE (deleteNamedRecord E c hz ?n) rrsets u = (Ok (), s2)" by (auto simp: bindE_Ok)
    have u: "history u = history s1 @ [R53 c (DoListResourceRecordSets ?z)]"
      "r53_ListResourceRecordSets (r53 E) (history u) = Inr rrsets"
      using l by (auto simp: ListResourceRecordSets_def invoke_Ok)
    then have s1u: "emits (\<lambda>_. True) s1 u" by (simp add: emits_def)
    have us2: "emits (\<lambda>_. True) u s2" by (rule preservesD [OF em.forE [OF deleteNamedRecord_grows] f])
    have listed: "replied (r53_ListResourceRecordSets (r53 E)) (\<lambda>r. r = Inr rrsets) (R53 c (DoListResourceRecordSets ?z))
        (history s) (new_events s t)"
      by (rule replied_within [OF replied_invoke ss1 s1u emits_trans [OF us2 s2t]]) (use u in simp_all)
    have "\<forall>rr\<in>set rrsets. rrs_Name rr = Some (?n @ ''.'') \<longrightarrow> (\<exists>z. hz_Id hz = Some z \<and>
        replied (r53_ChangeResourceRecordSets (r53 E)) (\<lambda>r. r = Inr ()) (R53 c (DoDeleteResourceRecordSet rr z)) (history s) (new_events s t))"
      using namedRecords_gone [OF f] by (blast intro: replied_within [OF _ emits_trans [OF ss1 s1u] us2 s2t])
    with got listed Some show ?thesis
      unfolding records_gone_def by (intro exI [of _ c] exI [of _ resp]) auto
  qed
qed

lemma cleanupRecord_gone:
  assumes "cleanupRecord E s = (Ok x, t)" "st_HostedZoneId (rc_status s) \<noteq> ''''" "st_ResourceRecordSet (rc_status s) \<noteq> ''''"
    and "lib_IsStatusConditionTrue (lib E) (st_Conditions (rc_status s)) AWSRoute53RecordCondition"
  shows "records_gone E (st_HostedZoneId (rc_status s)) (st_ResourceRecordSet (rc_status s)) (history s) (new_events s t)"
  by (rule deleteRecord_gone [of _ _ _ x]) (use assms in \<open>simp add: cleanupRecord_def run_simps\<close>)

section \<open>A cleanup that succeeds\<close>

text \<open>The run up to the security group: the endpoint, the zone and the record are gone, and no group was asked for.\<close>

lemma untilGroup_run:
  assumes "untilGroup rounds E s = (Ok x, t)"
  obtains s1 s2 s3 where "s1 = s\<lparr>history := history s @ [Recorded ''Normal'' ''CleanupStarted'']\<rparr>"
    "cleanupRecord E s1 = (Ok (), s2)" "cleanupZone E s2 = (Ok (), s3)" "cleanupEndpoint rounds E s3 = (Ok (), t)"
    "emits (\<lambda>_. True) s s1" "emits (\<lambda>_. True) s1 s2" "emits (\<lambda>_. True) s2 s3" "emits (\<lambda>_. True) s3 t"
proof -
  from assms obtain s1 s2 s3 where r: "record_normal ''CleanupStarted'' s = (Ok (), s1)" "cleanupRecord E s1 = (Ok (), s2)"
    "cleanupZone E s2 = (Ok (), s3)" "cleanupEndpoint rounds E s3 = (Ok (), t)"
    by (auto simp: untilGroup_def bindE_Ok)
  from r(1) have "s1 = s\<lparr>history := history s @ [Recorded ''Normal'' ''CleanupStarted'']\<rparr>" by (simp add: record_normal_eq)
  with r that preservesD [OF stages_emit(1) r(1)] preservesD [OF stages_emit(2) r(2)] preservesD [OF stages_emit(3) r(3)]
    preservesD [OF stages_emit(4) r(4)] show thesis by blast
qed

lemma untilGroup_endpoint:
  assumes "untilGroup rounds E s = (Ok x, t)" "st_VPCEndpointId (rc_status s) \<noteq> ''''"
  shows "endpoint_gone E (st_VPCEndpointId (rc_status s)) (history s) (new_events s t)"
  using assms(1)
proof (rule untilGroup_run)
  fix s1 s2 s3
  assume s1: "s1 = s\<lparr>history := history s @ [Recorded ''Normal'' ''CleanupStarted'']\<rparr>"
    and r: "cleanupRecord E s1 = (Ok (), s2)" "cleanupZone E s2 = (Ok (), s3)" "cleanupEndpoint rounds E s3 = (Ok (), t)"
    and e: "emits (\<lambda>_. True) s s1" "emits (\<lambda>_. True) s1 s2" "emits (\<lambda>_. True) s2 s3" "emits (\<lambda>_. True) s3 t"
  have id: "st_VPCEndpointId (rc_status s3) = st_VPCEndpointId (rc_status s)"
    using keepsD [OF cleanupRecord_keeps r(1)] keepsD [OF cleanupZone_keeps r(2)] s1 by simp
  have "endpoint_gone E (st_VPCEndpointId (rc_status s)) (history s3) (new_events s3 t)"
    using cleanupEndpoint_gone [OF r(3)] assms(2) by (simp add: id)
  then show ?thesis
    by (rule endpoint_gone_within [OF _ emits_trans [OF e(1) emits_trans [OF e(2,3)]] e(4) emits_refl])
qed

lemma cleanup_cleans:
  assumes "cleanupAwsResources rounds E s = (Ok x, t)"
  shows "cleaned E (rc_resource s) (history s) (new_events s t)"
proof -
  from assms obtain u where u: "untilGroup rounds E s = (Ok (), u)" and f: "fromGroup E u = (Ok x, t)"
    by (auto simp: cleanup_split bindE_Ok)
  from f obtain v where g: "cleanupGroup E u = (Ok (), v)" and v: "record_normal ''CleanupComplete'' v = (Ok x, t)"
    by (auto simp: fromGroup_def bindE_Ok)
  have uv: "emits (\<lambda>_. True) u v" and vt: "emits (\<lambda>_. True) v t"
    by (rule preservesD [OF stages_emit(5) g], rule preservesD [OF stages_emit(1) v])
  note ut = emits_trans [OF uv vt]
  show ?thesis
    using u
  proof (rule untilGroup_run)
    fix s1 s2 s3
    assume s1: "s1 = s\<lparr>history := history s @ [Recorded ''Normal'' ''CleanupStarted'']\<rparr>"
      and r: "cleanupRecord E s1 = (Ok (), s2)" "cleanupZone E s2 = (Ok (), s3)" "cleanupEndpoint rounds E s3 = (Ok (), u)"
      and e: "emits (\<lambda>_. True) s s1" "emits (\<lambda>_. True) s1 s2" "emits (\<lambda>_. True) s2 s3" "emits (\<lambda>_. True) s3 u"
    let ?st = "rc_status s"
    have kept: "st_SecurityGroupId (rc_status u) = st_SecurityGroupId ?st" "rc_spec s2 = rc_spec s"
      using keepsD [OF cleanupRecord_keeps r(1)] keepsD [OF cleanupZone_keeps r(2)] keepsD [OF cleanupEndpoint_keeps r(3)] s1
        preservesD [OF cleanupRecord_steady r(1)] by (simp_all add: steady_def)
    have zone: "st_HostedZoneId (rc_status s2) = st_HostedZoneId ?st" if "st_HostedZoneId ?st \<noteq> ''''"
      using cleanupRecord_zone [OF r(1)] that s1 by simp
    have su: "emits (\<lambda>_. True) s u" by (rule emits_trans [OF e(1) emits_trans [OF e(2) emits_trans [OF e(3,4)]]])
    have "st_VPCEndpointId ?st \<noteq> '''' \<longrightarrow> endpoint_gone E (st_VPCEndpointId ?st) (history s) (new_events s t)"
      using untilGroup_endpoint [OF u] by (blast intro: endpoint_gone_within [OF _ emits_refl su ut])
    moreover have "st_SecurityGroupId ?st \<noteq> '''' \<longrightarrow> group_gone E (st_SecurityGroupId ?st) (history s) (new_events s t)"
      using cleanupGroup_gone [OF g] kept(1) by (auto intro: group_gone_within [OF _ su uv vt])
    moreover have "st_HostedZoneId ?st \<noteq> '''' \<longrightarrow> zone_kept E (rc_spec s) (history s) (new_events s t) \<or>
        zone_gone E (st_HostedZoneId ?st) (history s) (new_events s t)"
      using cleanupZone_gone [OF r(2)] zone kept(2)
      by (auto intro: zone_kept_within [OF _ emits_trans [OF e(1,2)] e(3) emits_trans [OF e(4) ut]]
          zone_gone_within [OF _ emits_trans [OF e(1,2)] e(3) emits_trans [OF e(4) ut]])
    moreover have "st_HostedZoneId ?st \<noteq> '''' \<and> st_ResourceRecordSet ?st \<noteq> '''' \<and>
        lib_IsStatusConditionTrue (lib E) (st_Conditions ?st) AWSRoute53RecordCondition \<longrightarrow>
        records_gone E (st_HostedZoneId ?st) (st_ResourceRecordSet ?st) (history s) (new_events s t)"
      using cleanupRecord_gone [OF r(1)] s1
      by (auto intro: records_gone_within [OF _ e(1,2) emits_trans [OF e(3) emits_trans [OF e(4) ut]]])
    ultimately show ?thesis by (simp add: cleaned_def)
  qed
qed

text \<open>
  C10: the security group is the last to go. Whenever a run of the cleanup asks AWS to delete a security
  group, the endpoint that the status named is gone by then: earlier in the same run AWS answered that it
  does not know the endpoint, or it accepted the deletion of the endpoint and after that reported the
  endpoint \<open>deleted\<close>, or as not found. The status has forgotten the endpoint when the run ends.
\<close>

theorem cleanup_group_after_endpoint:
  assumes "new_events s (snd (cleanupAwsResources rounds E s)) = pre @ Ec2 c (DoDeleteSecurityGroup g) # post"
  shows "(st_VPCEndpointId (rc_status s) = '''' \<or>
      endpoint_gone E (st_VPCEndpointId (rc_status s)) (history s) pre) \<and>
    st_VPCEndpointId (rc_status (snd (cleanupAwsResources rounds E s))) = ''''"
proof -
  let ?e = "Ec2 c (DoDeleteSecurityGroup g)"
  obtain r t where run: "bindE (untilGroup rounds E) (\<lambda>_. fromGroup E) s = (r, t)" by fastforce
  with assms have ev: "new_events s t = pre @ ?e # post" by (simp add: cleanup_split)
  then have e: "?e \<in> set (new_events s t)" by simp
  obtain x u where u: "untilGroup rounds E s = (Ok x, u)" and f: "fromGroup E u = (r, t)"
    by (rule event_later [OF run e untilGroup_emits fromGroup_emits]) simp_all
  have su: "emits (\<lambda>e. deletion_phase e \<noteq> Some GroupPhase) s u" by (rule preservesD [OF untilGroup_emits u])
  have "new_events s u @ new_events u t = pre @ ?e # post"
    using new_events_trans [OF su preservesD [OF fromGroup_emits f]] ev by simp
  moreover have "?e \<notin> set (new_events s u)" using new_events_emits [OF su, of ?e] by auto
  ultimately obtain zs where "pre = new_events s u @ zs" by (rule before_event)
  moreover have "st_VPCEndpointId (rc_status (snd (cleanupAwsResources rounds E s))) = ''''"
    using run keepsD [OF fromGroup_keeps f] untilGroup_Ok [OF u] by (simp add: cleanup_split)
  ultimately show ?thesis
    using untilGroup_endpoint [OF u] by (auto intro: endpoint_gone_append)
qed

theorem cleanup_group_after_endpoint_witness:
  "endpoint_gone gone_env ''vpce-1'' [] (take 6 (new_events sample_state (snd (cleanupAwsResources 1 gone_env sample_state))))"
proof -
  let ?tr = "new_events sample_state (snd (cleanupAwsResources 1 gone_env sample_state))"
  have run: "?tr = take 6 ?tr @ Ec2 sample_config (DoDeleteSecurityGroup ''sg-1'') # drop 7 ?tr"
    unfolding cleanup_sample_events by simp
  have "st_VPCEndpointId (rc_status sample_state) = ''vpce-1''" "history sample_state = []"
    by (simp_all add: sample_defs)
  with cleanup_group_after_endpoint [OF run] show ?thesis by simp
qed

end
