(* ===== verification/OwnWrites.thy ===== *)
theory OwnWrites
  imports Cleanup
begin

text \<open>
  What the cleanup of a resource writes, as a specification over the events of a run (\<open>own_write\<close>): deletions
  of what the resource names, and updates of that resource itself. Only the search for a hosted zone that the
  status does not name may create one and tag it.
\<close>

section \<open>Writing back the same resource\<close>

text \<open>A run that starts with the metadata and the spec of \<open>v\<close> keeps them, and its events satisfy \<open>A\<close>.\<close>

definition same_object :: "vpcEndpoint \<Rightarrow> vpcEndpoint \<Rightarrow> bool" where
  "same_object v w \<longleftrightarrow> ve_Meta w = ve_Meta v \<and> ve_Spec w = ve_Spec v"

definition holds_object :: "vpcEndpoint \<Rightarrow> reconciler \<Rightarrow> bool" where
  "holds_object v s \<longleftrightarrow> same_object v (rc_resource s)"

lemma holds_steady: "preserves (steady A) m \<Longrightarrow> preserves (guarded (holds_object v) A) m"
  by (auto simp: preserves_def steady_def guarded_def holds_object_def same_object_def)

lemma preserves_guarded_weaken:
  assumes "preserves (guarded I A) m" "\<And>e. A e \<Longrightarrow> B e"
  shows "preserves (guarded I B) m"
proof (rule preservesI)
  fix s r t
  assume "m s = (r, t)"
  with assms(1) have "guarded I A s t" by (rule preservesD)
  moreover have "emits A s t \<Longrightarrow> emits B s t" by (erule emits_weaken) (rule assms(2))
  ultimately show "guarded I B s t" by (simp add: guarded_def)
qed

lemma holds_updateStatus:
  assumes "\<And>w. same_object v w \<Longrightarrow> A (K8s (DoUpdateStatus w))"
  shows "preserves (guarded (holds_object v) A) (updateStatus E)"
  using assms
  by (auto simp: preserves_def guarded_def emits_def holds_object_def updateStatus_def run_simps split: sum.splits)

lemmas holds_intros = gd.ret gd.failE gd.panicE gd.divergeE gd.getsE gd.deref gd.liftS gd.liftO gd.bindE gd.attempt
  gd.whenE gd.forE gd.foldE gd.mapE gd.findE gd.mapErr gd.if_prog gd.case_option_prog
  gd.case_sum_prog gd.case_list_prog gd.case_prod_prog
  steady_set_status [THEN holds_steady] steady_setCondition [THEN holds_steady] steady_reads [THEN holds_steady]
  steady_events [THEN holds_steady] steady_calls [THEN holds_steady] holds_updateStatus

text \<open>Events that write nothing but the status of \<open>v\<close>.\<close>

fun upkeep :: "vpcEndpoint \<Rightarrow> event \<Rightarrow> bool" where
  "upkeep v (K8s (DoUpdateStatus w)) = same_object v w"
| "upkeep v (Metric _) = True"
| "upkeep v (Recorded _ _) = True"
| "upkeep v (Slept _) = True"
| "upkeep v e = (aws_read e \<or> lookup_event e)"

lemma upkeep_read: "aws_read e \<Longrightarrow> upkeep v e" "lookup_event e \<Longrightarrow> upkeep v e"
  by (cases "(v, e)" rule: upkeep.cases; simp)+

fun founds_zone :: "event \<Rightarrow> bool" where
  "founds_zone (R53 _ (DoCreateHostedZone _ _ _)) = True"
| "founds_zone (R53 _ (DoChangeTagsForResource _ _)) = True"
| "founds_zone _ = False"

section \<open>The stages\<close>

lemma getHostedZoneCached_upkeep:
  "preserves (guarded (holds_object v) (\<lambda>e. upkeep v e \<or> founds_zone e)) (getHostedZoneCached E i)"
  unfolding getHostedZoneCached_def fetchHostedZone_def with_cache_def Let_def
  by (intro holds_intros steady_modify [THEN holds_steady]; auto intro: upkeep_read)

lemma validateR53PrivateHostedZone_upkeep:
  "preserves (guarded (holds_object v) (\<lambda>e. upkeep v e \<or> founds_zone e)) (validateR53PrivateHostedZone E)"
  unfolding validateR53PrivateHostedZone_def createMissingPrivateZoneTags_def adoptZone_def
    findOrCreatePrivateHostedZone_def resolveDomainName_def zoneForDomain_def zone_in_vpc_def private_zone_named_def
    useHostedZone_def createPrivateHostedZone_def Let_def
  by (intro holds_intros getHostedZoneCached_upkeep; auto intro: upkeep_read)

lemma deleteNamedRecord_upkeep:
  "preserves (guarded (holds_object v) (\<lambda>e. upkeep v e \<or> names_record n e)) (deleteNamedRecord E c hz n rr)"
  by (intro holds_steady deleteNamedRecord_steady) simp

lemma deleteRecord_upkeep:
  "preserves (guarded (holds_object v) (\<lambda>e. upkeep v e \<or> names_record (st_ResourceRecordSet st) e)) (deleteRecord E st)"
  unfolding deleteRecord_def by (intro holds_intros deleteNamedRecord_upkeep; auto intro: upkeep_read)

lemma deleteZone_upkeep:
  "preserves (guarded (holds_object v) (\<lambda>e. upkeep v e \<or> empties_zone z e)) (deleteZone E z)"
  unfolding deleteZone_def zoneDeleted_def clearZone_def deleteOtherRecord_def forgetZone_def
  by (intro holds_intros; auto simp: empties_zone_def intro: upkeep_read)

lemma ownsZone_upkeep: "preserves (guarded (holds_object v) (upkeep v)) (ownsZone E)"
  unfolding ownsZone_def by (intro holds_intros; simp)

lemma deleteEndpoint_upkeep:
  "preserves (guarded (holds_object v) (\<lambda>e. upkeep v e \<or> deletes_endpoint i e)) (deleteEndpoint rounds E i)"
proof -
  have "preserves (guarded (holds_object v) (upkeep v)) (pollDeletion n E c i d)" for n c d
  proof (induction n)
    case (Suc n)
    then show ?case
      unfolding pollDeletion.simps forgetEndpoint_def waitInterval_def by (intro holds_intros; (auto intro: upkeep_read)?)
  qed (simp add: gd.divergeE)
  then have "preserves (guarded (holds_object v) (\<lambda>e. upkeep v e \<or> deletes_endpoint i e)) (pollDeletion n E c i d)" for n c d
    by (rule preserves_guarded_weaken) simp
  then show ?thesis
    unfolding deleteEndpoint_def endpointDeleted_def awaitDeletion_def forgetEndpoint_def
    by (intro holds_intros; (auto simp: deletes_endpoint_def intro: upkeep_read)?)
qed

lemma deleteGroup_upkeep:
  "preserves (guarded (holds_object v) (\<lambda>e. upkeep v e \<or> deletes_group g e)) (deleteGroup E g)"
  unfolding deleteGroup_def groupDeleted_def by (intro holds_intros; auto simp: deletes_group_def)

section \<open>The hosted zone that the record stage finds\<close>

text \<open>\<open>announces\<close>: a zone id that a run puts into the status is in a status update of the run.\<close>

definition updates_zone :: "string \<Rightarrow> event list \<Rightarrow> bool" where
  "updates_zone z tr \<longleftrightarrow> (\<exists>w. K8s (DoUpdateStatus w) \<in> set tr \<and> st_HostedZoneId (ve_Status w) = z)"

definition announces :: "reconciler \<Rightarrow> reconciler \<Rightarrow> bool" where
  "announces s t \<longleftrightarrow> emits (\<lambda>_. True) s t \<and>
     (st_HostedZoneId (rc_status t) = st_HostedZoneId (rc_status s) \<or>
      updates_zone (st_HostedZoneId (rc_status t)) (new_events s t))"

lemma announces_trans:
  assumes "announces s t" "announces t u"
  shows "announces s u"
proof -
  from assms have e: "emits (\<lambda>_. True) s t" "emits (\<lambda>_. True) t u" by (simp_all add: announces_def)
  from emits_trans [OF e] new_events_trans [OF e] assms show ?thesis
    by (auto simp: announces_def updates_zone_def)
qed

interpretation an: frame announces
proof unfold_locales
  show "announces s s" for s by (simp add: announces_def emits_refl)
qed (rule announces_trans)

lemma keeps_announces:
  "preserves (keeps st_HostedZoneId) m \<Longrightarrow> preserves (steady A) m \<Longrightarrow> preserves announces m"
  by (auto simp: preserves_def announces_def keeps_def steady_def intro: emits_any)

lemma set_zone_announces:
  "preserves announces (bindE (set_status (\<lambda>v. v\<lparr>st_HostedZoneId := z\<rparr>)) (\<lambda>_. updateStatus E))"
  "preserves announces (bindE (set_status (\<lambda>v. v\<lparr>st_HostedZoneId := z\<rparr>)) (\<lambda>_. mapErr f (updateStatus E)))"
  "preserves announces (bindE (set_status (\<lambda>v. v\<lparr>st_HostedZoneId := z\<rparr>)) (\<lambda>_. bindE (record_normal reason) (\<lambda>_.
     mapErr f (updateStatus E))))"
  by (auto simp: preserves_def announces_def updates_zone_def emits_def updateStatus_def run_simps split: sum.splits)

lemma announces_calls: "preserves (calls A) m \<Longrightarrow> preserves announces m"
  by (intro keeps_announces preserves_calls_keeps preserves_calls_steady)

lemma announces_reads:
  "preserves announces resource" "preserves announces status" "preserves announces awsClient"
  "preserves announces clusterTag" "preserves announces region" "preserves announces (isConditionTrue E ty)"
  by (rule keeps_announces [OF keeps_steps(1) steady_reads(1)] keeps_announces [OF keeps_steps(2) steady_reads(2)]
      keeps_announces [OF keeps_steps(3) steady_reads(3)] keeps_announces [OF keeps_steps(4) steady_reads(4)]
      keeps_announces [OF keeps_steps(5) steady_reads(5)] keeps_announces [OF keeps_steps(6) steady_reads(6)])+

lemmas announces_true = aws_calls [where A = "\<lambda>_. True", simplified, THEN announces_calls]
  r53_calls [where A = "\<lambda>_. True", simplified, THEN announces_calls]
  k8s_calls [where A = "\<lambda>_. True", simplified, THEN announces_calls]

lemma validateR53PrivateHostedZone_announces: "preserves announces (validateR53PrivateHostedZone E)"
proof -
  have cached: "preserves announces (getHostedZoneCached E i)" for i
    by (rule keeps_announces [OF _ getHostedZoneCached_dns])
      (unfold getHostedZoneCached_def fetchHostedZone_def with_cache_def, intro keeps_intros keeps_modify; simp)
  have tags: "preserves announces (createMissingPrivateZoneTags E)"
    by (rule keeps_announces [OF _ zone_steps_steady(1)])
      (unfold createMissingPrivateZoneTags_def, intro keeps_intros; simp)
  show ?thesis
    unfolding validateR53PrivateHostedZone_def adoptZone_def findOrCreatePrivateHostedZone_def resolveDomainName_def
      zoneForDomain_def zone_in_vpc_def private_zone_named_def useHostedZone_def createPrivateHostedZone_def Let_def
    by (intro set_zone_announces an.intros announces_reads announces_true cached tags)
qed

section \<open>The writes of a cleanup\<close>

text \<open>The record stage looks for the zone, and may create one, only if the status has a record and no zone.\<close>

definition adopts_zone :: "env \<Rightarrow> vpcEndpoint \<Rightarrow> bool" where
  "adopts_zone E v \<longleftrightarrow> st_HostedZoneId (ve_Status v) = '''' \<and>
     lib_IsStatusConditionTrue (lib E) (st_Conditions (ve_Status v)) AWSRoute53RecordCondition"

text \<open>The zone of the resource: the one its status names, or the one that the run \<open>tr\<close> has put there.\<close>

definition own_zone :: "env \<Rightarrow> vpcEndpoint \<Rightarrow> event list \<Rightarrow> string \<Rightarrow> bool" where
  "own_zone E v tr z \<longleftrightarrow> z \<noteq> '''' \<and>
     (if adopts_zone E v then updates_zone z tr else z = st_HostedZoneId (ve_Status v))"

fun own_write :: "env \<Rightarrow> vpcEndpoint \<Rightarrow> event list \<Rightarrow> event \<Rightarrow> bool" where
  "own_write E v tr (Ec2 _ (DoDeleteVpcEndpoints ids)) =
     (ids = [st_VPCEndpointId (ve_Status v)] \<and> st_VPCEndpointId (ve_Status v) \<noteq> '''')"
| "own_write E v tr (Ec2 _ (DoDeleteSecurityGroup g)) =
     (g = st_SecurityGroupId (ve_Status v) \<and> st_SecurityGroupId (ve_Status v) \<noteq> '''')"
| "own_write E v tr (Ec2 _ c) = (\<not> ec2_writes c)"
| "own_write E v tr (R53 _ (DoDeleteResourceRecordSet rr z)) =
     (st_ResourceRecordSet (ve_Status v) \<noteq> '''' \<and> rrs_Name rr = Some (st_ResourceRecordSet (ve_Status v) @ ''.'') \<or>
      own_zone E v tr z \<and> rrs_Type rr \<notin> {''NS'', ''SOA''})"
| "own_write E v tr (R53 _ (DoDeleteHostedZone z)) = own_zone E v tr z"
| "own_write E v tr (R53 _ (DoCreateHostedZone _ _ _)) = adopts_zone E v"
| "own_write E v tr (R53 _ (DoChangeTagsForResource _ _)) = adopts_zone E v"
| "own_write E v tr (R53 _ c) = (\<not> r53_writes c)"
| "own_write E v tr (K8s (DoUpdateStatus w)) = same_object v w"
| "own_write E v tr (K8s (DoUpdateVpcEndpoint w)) =
     (ve_Spec w = ve_Spec v \<and> (\<exists>fs. ve_Meta w = (ve_Meta v)\<lparr>om_Finalizers := fs\<rparr>))"
| "own_write E v tr (K8s c) = (\<not> k8s_writes c)"
| "own_write E v tr _ = True"

lemma own_zone_mono: "own_zone E v tr z \<Longrightarrow> set tr \<subseteq> set tr' \<Longrightarrow> own_zone E v tr' z"
  by (fastforce simp: own_zone_def updates_zone_def split: if_splits)

lemma own_write_mono: "own_write E v tr e \<Longrightarrow> set tr \<subseteq> set tr' \<Longrightarrow> own_write E v tr' e"
  by (cases "(E, v, tr, e)" rule: own_write.cases) (auto intro: own_zone_mono)

lemma upkeep_own: "upkeep v e \<Longrightarrow> own_write E v tr e"
  by (cases "(E, v, tr, e)" rule: own_write.cases) auto

lemma deletions_own:
  "names_record (st_ResourceRecordSet (ve_Status v)) e \<Longrightarrow> st_ResourceRecordSet (ve_Status v) \<noteq> '''' \<Longrightarrow> own_write E v tr e"
  "empties_zone z e \<Longrightarrow> own_zone E v tr z \<Longrightarrow> own_write E v tr e"
  "deletes_endpoint (st_VPCEndpointId (ve_Status v)) e \<Longrightarrow> st_VPCEndpointId (ve_Status v) \<noteq> '''' \<Longrightarrow> own_write E v tr e"
  "deletes_group (st_SecurityGroupId (ve_Status v)) e \<Longrightarrow> st_SecurityGroupId (ve_Status v) \<noteq> '''' \<Longrightarrow> own_write E v tr e"
  by (auto simp: names_record_def empties_zone_def deletes_endpoint_def deletes_group_def)

lemma founds_own: "founds_zone e \<Longrightarrow> adopts_zone E v \<Longrightarrow> own_write E v tr e"
  by (cases e rule: founds_zone.cases) simp_all

lemma guardedD: "preserves (guarded I A) m \<Longrightarrow> m s = (r, t) \<Longrightarrow> I s \<Longrightarrow> emits A s t \<and> I t"
  by (drule (1) preservesD) (simp add: guarded_def)

lemma guardedI: "(\<And>s r t. I s \<Longrightarrow> m s = (r, t) \<Longrightarrow> emits A s t \<and> I t) \<Longrightarrow> preserves (guarded I A) m"
  by (rule preservesI) (simp add: guarded_def)

lemma cleanupRecord_own_writes:
  assumes "cleanupRecord E s = (r, t)"
  shows "emits (own_write E (rc_resource s) tr) s t \<and> holds_object (rc_resource s) t"
proof -
  let ?v = "rc_resource s" and ?st = "rc_status s"
  have here: "holds_object ?v s" by (simp add: holds_object_def same_object_def)
  consider (out) "t = s" | (named) "st_HostedZoneId ?st \<noteq> ''''" "st_ResourceRecordSet ?st \<noteq> ''''" "deleteRecord E ?st s = (r, t)"
    | (adopt) "adopts_zone E ?v" "bindE (validateR53PrivateHostedZone E) (\<lambda>_. bindE status (\<lambda>st.
         whenE (st_HostedZoneId st \<noteq> '''' \<and> st_ResourceRecordSet st \<noteq> '''') (deleteRecord E st))) s = (r, t)"
    using assms by (auto simp: cleanupRecord_def adopts_zone_def run_simps split: if_splits)
  then show ?thesis
  proof cases
    case out
    with here show ?thesis by (simp add: emits_refl)
  next
    case named
    with guardedD [OF deleteRecord_upkeep named(3) here] show ?thesis
      by (auto elim!: emits_weaken intro: upkeep_own deletions_own)
  next
    case adopt
    have found: "emits (own_write E ?v tr) s u \<and> holds_object ?v u" if "validateR53PrivateHostedZone E s = (q, u)" for q u
      using guardedD [OF validateR53PrivateHostedZone_upkeep that here] adopt(1)
      by (auto elim!: emits_weaken intro: upkeep_own founds_own)
    show ?thesis
      using adopt(2)
    proof (cases rule: bindE_cases)
      case (go x u)
      let ?n = "st_ResourceRecordSet (rc_status u)"
      have n: "?n = st_ResourceRecordSet ?st"
        by (rule keepsD [OF validateR53PrivateHostedZone_keeps go(1)]) simp_all
      have "guarded (holds_object ?v) (\<lambda>e. upkeep ?v e \<or> ?n \<noteq> '''' \<and> names_record ?n e) u t"
        by (rule status_bindD [OF go(2)], intro gd.whenE deleteRecord_upkeep [THEN preserves_guarded_weaken]) auto
      with found [OF go(1)] show ?thesis
        by (auto simp: guarded_def n elim!: emits_weaken emits_trans intro: upkeep_own deletions_own)
    qed (use found in auto)
  qed
qed

lemma deleteRecord_announces: "preserves announces (deleteRecord E st)"
  by (rule keeps_announces [OF _ deleteRecord_steady])
    (unfold deleteRecord_def deleteNamedRecord_def, intro keeps_intros; simp)

lemma cleanupRecord_own_zone:
  assumes "cleanupRecord E s = (Ok x, t)" "st_HostedZoneId (rc_status t) \<noteq> ''''"
  shows "own_zone E (rc_resource s) (new_events s t) (st_HostedZoneId (rc_status t))"
proof (cases "adopts_zone E (rc_resource s)")
  case True
  have "preserves announces (cleanupRecord E)"
    unfolding cleanupRecord_def
    by (intro an.bindE an.whenE announces_reads validateR53PrivateHostedZone_announces deleteRecord_announces)
  then have "announces s t" using assms(1) by (rule preservesD)
  with True assms(2) show ?thesis by (auto simp: own_zone_def announces_def adopts_zone_def)
next
  case False
  have "st_HostedZoneId (rc_status t) = st_HostedZoneId (rc_status s)"
  proof (cases "st_HostedZoneId (rc_status s) = ''''")
    case True
    with False assms(1) show ?thesis by (simp add: cleanupRecord_def adopts_zone_def run_simps)
  next
    case False
    then show ?thesis by (rule cleanupRecord_zone [OF assms(1)])
  qed
  with False assms(2) show ?thesis by (simp add: own_zone_def)
qed

lemma cleanupZone_own_writes:
  assumes "cleanupZone E s = (r, t)" "holds_object v s"
    and "st_HostedZoneId (rc_status s) \<noteq> '''' \<Longrightarrow> own_zone E v tr (st_HostedZoneId (rc_status s))"
  shows "emits (own_write E v tr) s t \<and> holds_object v t"
proof -
  let ?z = "st_HostedZoneId (rc_status s)"
  have "guarded (holds_object v) (\<lambda>e. upkeep v e \<or> ?z \<noteq> '''' \<and> empties_zone ?z e) s t"
    by (rule status_bindD [OF assms(1) [unfolded cleanupZone_def]],
        intro gd.intros deleteZone_upkeep [THEN preserves_guarded_weaken] ownsZone_upkeep [THEN preserves_guarded_weaken]) auto
  with assms(2,3) show ?thesis
    by (auto simp: guarded_def elim!: emits_weaken intro: upkeep_own deletions_own)
qed

text \<open>The endpoint and the group: what the status names, or has named.\<close>

definition holds_resource :: "vpcEndpoint \<Rightarrow> reconciler \<Rightarrow> bool" where
  "holds_resource v s \<longleftrightarrow> holds_object v s \<and> points_at (ve_Status v) s"

lemma cleanupEndpoint_own_writes: "preserves (guarded (holds_resource v) (own_write E v tr)) (cleanupEndpoint rounds E)"
proof (rule guardedI)
  fix s r t
  assume h: "holds_resource v s" and run: "cleanupEndpoint rounds E s = (r, t)"
  let ?i = "st_VPCEndpointId (rc_status s)"
  have "guarded (holds_object v) (\<lambda>e. upkeep v e \<or> ?i \<noteq> '''' \<and> deletes_endpoint ?i e) s t"
    by (rule status_bindD [OF run [unfolded cleanupEndpoint_def]], unfold cleanupMetrics_def,
        intro holds_intros deleteEndpoint_upkeep [THEN preserves_guarded_weaken]) auto
  then have "emits (own_write E v tr) s t \<and> holds_object v t"
    using h by (auto simp: guarded_def holds_resource_def points_at_def elim!: emits_weaken intro: upkeep_own deletions_own)
  then show "emits (own_write E v tr) s t \<and> holds_resource v t"
    using h keepsD [OF cleanupEndpoint_keeps run] preservesD [OF cleanupEndpoint_clears run]
    by (auto simp: holds_resource_def points_at_def clears_def)
qed

lemma cleanupGroup_own_writes: "preserves (guarded (holds_resource v) (own_write E v tr)) (cleanupGroup E)"
proof (rule guardedI)
  fix s r t
  assume h: "holds_resource v s" and run: "cleanupGroup E s = (r, t)"
  let ?g = "st_SecurityGroupId (rc_status s)"
  have "guarded (holds_object v) (\<lambda>e. upkeep v e \<or> ?g \<noteq> '''' \<and> deletes_group ?g e) s t"
    by (rule status_bindD [OF run [unfolded cleanupGroup_def]],
        intro gd.whenE deleteGroup_upkeep [THEN preserves_guarded_weaken]) auto
  then have "emits (own_write E v tr) s t \<and> holds_object v t"
    using h by (auto simp: guarded_def holds_resource_def points_at_def elim!: emits_weaken intro: upkeep_own deletions_own)
  then show "emits (own_write E v tr) s t \<and> holds_resource v t"
    using h keepsD [OF cleanupGroup_keeps run] preservesD [OF cleanupGroup_clears run]
    by (auto simp: holds_resource_def points_at_def clears_def)
qed

lemma afterZone_own_writes: "preserves (guarded (holds_resource v) (own_write E v tr)) (afterZone rounds E)"
proof -
  have "preserves (guarded (holds_resource v) (own_write E v tr)) (record_normal reason)" for reason
    by (rule guardedI) (auto simp: record_normal_eq holds_resource_def holds_object_def points_at_def emits_def)
  then show ?thesis
    unfolding afterZone_def fromGroup_def
    by (intro gd.intros cleanupEndpoint_own_writes cleanupGroup_own_writes)
qed

text \<open>All stages. The events of the record stage decide which zone is the resource's.\<close>

lemma untilZone_own_writes:
  assumes "untilZone E s = (r, t)"
  shows "emits (own_write E (rc_resource s) tr) s t \<and> holds_resource (rc_resource s) t"
    and "r = Ok () \<Longrightarrow> st_HostedZoneId (rc_status t) \<noteq> '''' \<Longrightarrow>
      own_zone E (rc_resource s) (new_events s t) (st_HostedZoneId (rc_status t))"
proof -
  let ?s1 = "s\<lparr>history := history s @ [Recorded ''Normal'' ''CleanupStarted'']\<rparr>"
  have run: "cleanupRecord E ?s1 = (r, t)" using assms by (simp add: untilZone_def run_simps)
  have first: "emits (own_write E (rc_resource s) tr) s ?s1" by (simp add: emits_def)
  have rec: "emits (own_write E (rc_resource s) tr) ?s1 t" and h: "holds_object (rc_resource s) t"
    using cleanupRecord_own_writes [OF run] by simp_all
  then show "emits (own_write E (rc_resource s) tr) s t \<and> holds_resource (rc_resource s) t"
    using emits_trans [OF first rec] keepsD [OF cleanupRecord_keeps run] by (simp add: holds_resource_def points_at_def)
  have "set (new_events ?s1 t) \<subseteq> set (new_events s t)"
    using new_events_trans [OF first rec] by auto
  then show "r = Ok () \<Longrightarrow> st_HostedZoneId (rc_status t) \<noteq> '''' \<Longrightarrow>
      own_zone E (rc_resource s) (new_events s t) (st_HostedZoneId (rc_status t))"
    using cleanupRecord_own_zone [of E ?s1 "()" t] run own_zone_mono by simp
qed

lemma cleanup_own_writes:
  assumes "cleanupAwsResources rounds E s = (r, t)"
  shows "emits (own_write E (rc_resource s) (new_events s t)) s t \<and> holds_resource (rc_resource s) t"
proof -
  let ?v = "rc_resource s"
  have run: "bindE (untilZone E) (\<lambda>_. bindE (cleanupZone E) (\<lambda>_. afterZone rounds E)) s = (r, t)"
    using assms by (simp add: cleanup_zone_split)
  have zone: "emits (own_write E ?v (new_events s u)) u w \<and> holds_resource ?v w"
    if u: "untilZone E s = (Ok (), u)" and w: "cleanupZone E u = (q, w)" for u q w
  proof -
    have h: "holds_resource ?v u" using untilZone_own_writes(1) [OF u] by blast
    have "emits (own_write E ?v (new_events s u)) u w \<and> holds_object ?v w"
      using h untilZone_own_writes(2) [OF u] by (intro cleanupZone_own_writes [OF w]) (auto simp: holds_resource_def)
    with h keepsD [OF cleanupZone_keeps w] show ?thesis by (simp add: holds_resource_def points_at_def)
  qed
  show ?thesis
    using run
  proof (cases rule: bindE_cases)
    case (go x u)
    then have u: "untilZone E s = (Ok (), u)" by simp
    have su: "emits (own_write E ?v tr) s u" for tr using untilZone_own_writes(1) [OF u] by blast
    have "emits (own_write E ?v (new_events s u)) u t \<and> holds_resource ?v t"
      using go(2)
    proof (cases rule: bindE_cases)
      case (go y w)
      with zone [OF u go(1)] guardedD [OF afterZone_own_writes go(2)] show ?thesis by (blast intro: emits_trans)
    qed (use zone [OF u] in auto)
    then have ut: "emits (own_write E ?v (new_events s u)) u t" and h: "holds_resource ?v t" by blast+
    have "set (new_events s u) \<subseteq> set (new_events s t)" using new_events_trans [OF su ut] by simp
    then have "emits (own_write E ?v (new_events s t)) u t" using ut by (blast intro: emits_weaken own_write_mono)
    with su h show ?thesis by (blast intro: emits_trans)
  qed (use untilZone_own_writes(1) in auto)
qed

end
