(* ===== verification/VpcEndpointController.thy ===== *)
theory VpcEndpointController
  imports ClusterInfo SecurityGroups Endpoints CustomDns Cleaned OwnWrites
begin

text \<open>
  The reconciliation of a VpcEndpoint (controllers/vpcendpoint/vpcendpoint_controller.go): fetch
  the resource, parse the cluster information, then either clean up a resource that is being
  deleted, or register the finalizer and validate the security group, the endpoint and the DNS.
  Durations are in nanoseconds; a result of 0 asks for no requeue.
\<close>

definition avoFinalizer :: string where
  "avoFinalizer = ''vpcendpoint.avo.openshift.io/finalizer''"

record result =
  res_RequeueAfter :: int

definition no_requeue :: result where
  "no_requeue = \<lparr>res_RequeueAfter = 0\<rparr>"

definition seconds :: "int \<Rightarrow> int" where
  "seconds n = n * 1000000000"

definition requeue_after :: "int \<Rightarrow> result" where
  "requeue_after d = \<lparr>res_RequeueAfter = d\<rparr>"

fun all_true :: "condition list \<Rightarrow> bool" where
  "all_true [] = True"
| "all_true (c # cs) = (if cd_Status c \<noteq> ConditionTrue then False else all_true cs)"

definition isVpcEndpointReady :: "vpcEndpoint \<Rightarrow> bool" where
  "isVpcEndpointReady res =
     (if length (st_Conditions (ve_Status res)) = 0 then False
      else all_true (st_Conditions (ve_Status res)))"

section \<open>A resource that is being deleted\<close>

definition cleanupFailure :: "string \<Rightarrow> unit rprog" where
  "cleanupFailure kind = metric (CounterInc ''vpce_cleanup_failure_total'' [kind])"

text \<open>\<open>parseClusterInfo\<close> failed during deletion: find an AWS client to clean up with, or give up.\<close>

definition degradedClient :: "env \<Rightarrow> error \<Rightarrow> unit rprog" where
  "degradedClient E err =
     bindE (cleanupFailure ''ParseClusterInfoDegraded'') (\<lambda>_.
     bindE resource (\<lambda>vpce.
     case sp_AWSCredentialOverrideRef (ve_Spec vpce) of
       Some ref \<Rightarrow>
         if sp_Region (ve_Spec vpce) = '''' then
           bindE (cleanupFailure ''AWSClientNotEstablished'') (\<lambda>_.
           failE (Errorf ''cannot establish AWS client for cleanup: region unavailable (Infrastructure CR gone and .spec.region not set)'' []))
         else
           bindE (attempt (ParseAWSCredentialOverride E (sp_Region (ve_Spec vpce)) (Some ref))) (\<lambda>parsed.
           case parsed of
             Inl credErr \<Rightarrow> bindE (cleanupFailure ''AWSClientNotEstablished'') (\<lambda>_. failE credErr)
           | Inr cfg \<Rightarrow> set_awsClient cfg)
     | None \<Rightarrow>
         bindE (getsE rc_awsClient) (\<lambda>c.
         whenE (c = None)
           (bindE (cleanupFailure ''AWSClientNotEstablished'') (\<lambda>_. failE err)))))"

definition set_finalizers :: "(string list \<Rightarrow> string list) \<Rightarrow> unit rprog" where
  "set_finalizers f = modifyE (\<lambda>s. s\<lparr>rc_resource := (rc_resource s)
     \<lparr>ve_Meta := (ve_Meta (rc_resource s))\<lparr>om_Finalizers := f (om_Finalizers (ve_Meta (rc_resource s)))\<rparr>\<rparr>\<rparr>)"

definition updateVpcEndpoint :: "env \<Rightarrow> unit rprog" where
  "updateVpcEndpoint E =
     bindE resource (\<lambda>v. invoke (K8s (DoUpdateVpcEndpoint v)) (k8s_UpdateVpcEndpoint (k8s E)))"

definition has_finalizer :: "env \<Rightarrow> bool rprog" where
  "has_finalizer E =
     getsE (\<lambda>s. lib_ContainsFinalizer (lib E) (om_Finalizers (ve_Meta (rc_resource s))) avoFinalizer)"

text \<open>The error of a cleanup: a dependency violation is tried again in 30 seconds.\<close>

definition cleanupError :: "env \<Rightarrow> error \<Rightarrow> result rprog" where
  "cleanupError E err =
     (let failed =
        bindE (emit (Recorded ''Warning'' ''CleanupFailed'')) (\<lambda>_.
        bindE (cleanupFailure ''Error'') (\<lambda>_.
        failE err))
      in case as_api_error err of
           Some ae \<Rightarrow>
             if fst ae = ''DependencyViolation'' then
               bindE (emit (Recorded ''Warning'' ''CleanupBlocked'')) (\<lambda>_.
               bindE (cleanupFailure ''DependencyViolation'') (\<lambda>_.
               ret (requeue_after (seconds 30))))
             else bindE (awsUnauthorizedOperationMetricHandler err) (\<lambda>_. failed)
         | None \<Rightarrow> failed)"

definition deleteNotReady :: "unit rprog" where
  "deleteNotReady =
     bindE resource (\<lambda>v. metric (DeleteLabelValues ''vpce_not_ready_seconds'' [ve_Name v, ve_Namespace v]))"

definition removeFinalizer :: "env \<Rightarrow> unit rprog" where
  "removeFinalizer E =
     bindE (set_finalizers (\<lambda>fs. lib_RemoveFinalizer (lib E) fs avoFinalizer)) (\<lambda>_. updateVpcEndpoint E)"

definition reconcileDeletion :: "nat \<Rightarrow> env \<Rightarrow> result rprog" where
  "reconcileDeletion rounds E =
     bindE (has_finalizer E) (\<lambda>present.
     if present then
       bindE (attempt (cleanupAwsResources rounds E)) (\<lambda>cleaned.
       case cleaned of
         Inl err \<Rightarrow> cleanupError E err
       | Inr _ \<Rightarrow>
           bindE (removeFinalizer E) (\<lambda>_.
           bindE deleteNotReady (\<lambda>_. ret no_requeue)))
     else bindE deleteNotReady (\<lambda>_. ret no_requeue))"

section \<open>A live resource\<close>

definition registerFinalizer :: "env \<Rightarrow> unit rprog" where
  "registerFinalizer E =
     bindE (has_finalizer E) (\<lambda>present.
     whenE (\<not> present)
       (bindE (set_finalizers (\<lambda>fs. lib_AddFinalizer (lib E) fs avoFinalizer)) (\<lambda>_.
        updateVpcEndpoint E)))"

definition setNotReady :: "env \<Rightarrow> unit rprog" where
  "setNotReady E =
     bindE (age E) (\<lambda>d.
     bindE resource (\<lambda>v. metric (GaugeSet ''vpce_not_ready_seconds'' [ve_Name v, ve_Namespace v] d)))"

text \<open>The error of a validation: retried in a minute if the endpoint is up and has no record yet.\<close>

definition validationError :: "env \<Rightarrow> error \<Rightarrow> result rprog" where
  "validationError E err =
     bindE (awsUnauthorizedOperationMetricHandler err) (\<lambda>_.
     bindE (setNotReady E) (\<lambda>_.
     bindE (isConditionTrue E AWSVpcEndpointCondition) (\<lambda>available.
     bindE (isConditionTrue E AWSRoute53RecordCondition) (\<lambda>recorded.
     if available \<and> \<not> recorded then ret (requeue_after (seconds 60)) else failE err))))"

definition validations :: "env \<Rightarrow> unit rprog list" where
  "validations E = [validateSecurityGroup E, validateVPCEndpoint E, validateCustomDns E]"

definition reconcileLive :: "env \<Rightarrow> result rprog" where
  "reconcileLive E =
     bindE (registerFinalizer E) (\<lambda>_.
     bindE (attempt (validateResources (validations E))) (\<lambda>validated.
     case validated of
       Inl err \<Rightarrow> validationError E err
     | Inr _ \<Rightarrow>
         bindE resource (\<lambda>v.
         bindE (if isVpcEndpointReady v then deleteNotReady else setNotReady E) (\<lambda>_.
         ret (requeue_after (seconds (15 * 60)))))))"

section \<open>Reconcile\<close>

definition reconcileFetched :: "nat \<Rightarrow> env \<Rightarrow> result rprog" where
  "reconcileFetched rounds E =
     bindE resource (\<lambda>vpce.
     let isDeleting = om_DeletionTimestamp (ve_Meta vpce) \<noteq> None in
     bindE (attempt (parseClusterInfo E True)) (\<lambda>parsed.
     bindE (case parsed of
              Inr _ \<Rightarrow> ret ()
            | Inl err \<Rightarrow>
                if isDeleting then degradedClient E err
                else bindE (awsUnauthorizedOperationMetricHandler err) (\<lambda>_. failE err)) (\<lambda>_.
     if isDeleting then reconcileDeletion rounds E else reconcileLive E)))"

definition Reconcile :: "nat \<Rightarrow> env \<Rightarrow> string \<Rightarrow> string \<Rightarrow> result rprog" where
  "Reconcile rounds E namespace name =
     bindE (modifyE (\<lambda>s. s\<lparr>rc_awsClient := None\<rparr>)) (\<lambda>_.
     bindE (attempt (invoke (K8s (DoGetVpcEndpoint namespace name)) (k8s_GetVpcEndpoint (k8s E)))) (\<lambda>got.
     case got of
       Inl err \<Rightarrow>
         (case lib_IgnoreNotFound (lib E) err of None \<Rightarrow> ret no_requeue | Some e \<Rightarrow> failE e)
     | Inr vpce \<Rightarrow>
         bindE (modifyE (\<lambda>s. s\<lparr>rc_resource := vpce\<rparr>)) (\<lambda>_.
         reconcileFetched rounds E)))"

section \<open>What a reconciliation emits\<close>

text \<open>\<open>fetches E ns n s v\<close>: the API server answers the first call of a reconciliation with \<open>v\<close>.\<close>

definition fetches :: "env \<Rightarrow> string \<Rightarrow> string \<Rightarrow> 'x world_scheme \<Rightarrow> vpcEndpoint \<Rightarrow> bool" where
  "fetches E namespace name s v \<longleftrightarrow>
     k8s_GetVpcEndpoint (k8s E) (history s @ [K8s (DoGetVpcEndpoint namespace name)]) = Inr v"

definition fetched_state :: "string \<Rightarrow> string \<Rightarrow> vpcEndpoint \<Rightarrow> reconciler \<Rightarrow> reconciler" where
  "fetched_state namespace name v s = s\<lparr>rc_awsClient := None,
     history := history s @ [K8s (DoGetVpcEndpoint namespace name)], rc_resource := v\<rparr>"

lemma fetched_state_simps [simp]:
  "history (fetched_state ns n v s) = history s @ [K8s (DoGetVpcEndpoint ns n)]"
  "rc_resource (fetched_state ns n v s) = v"
  "rc_awsClient (fetched_state ns n v s) = None"
  "rc_EnablePrivateDns (fetched_state ns n v s) = rc_EnablePrivateDns s"
  by (simp_all add: fetched_state_def)

lemma Reconcile_fetched:
  "fetches E ns n s v \<Longrightarrow>
   Reconcile rounds E ns n s = reconcileFetched rounds E (fetched_state ns n v s)"
  by (simp add: Reconcile_def fetches_def run_simps fetched_state_def)

text \<open>The parse, with the search for a client after it failed, reads and updates the status.\<close>

definition parsePhase :: "env \<Rightarrow> bool \<Rightarrow> unit rprog" where
  "parsePhase E isDeleting =
     bindE (attempt (parseClusterInfo E True)) (\<lambda>parsed.
     case parsed of
       Inr _ \<Rightarrow> ret ()
     | Inl err \<Rightarrow>
         if isDeleting then degradedClient E err
         else bindE (awsUnauthorizedOperationMetricHandler err) (\<lambda>_. failE err))"

fun setup_event :: "event \<Rightarrow> bool" where
  "setup_event (Metric _) = True"
| "setup_event e = parse_event e"

lemma setup_events:
  "parse_event e \<Longrightarrow> setup_event e" "lookup_event e \<Longrightarrow> setup_event e"
  by (cases e rule: setup_event.cases; simp add: parse_events)+

lemma setup_event_reads:
  "setup_event e \<Longrightarrow> \<not> aws_write e \<and> deletion_phase e = None \<and> (\<forall>v. e \<noteq> K8s (DoUpdateVpcEndpoint v))"
  by (cases e rule: setup_event.cases; cases e rule: deletion_phase.cases) auto

lemma degradedClient_steady: "preserves (steady setup_event) (degradedClient E err)"
  unfolding degradedClient_def cleanupFailure_def
  by (intro steady_intros set_awsClient_steady; auto intro: setup_events)

lemma parsePhase_steady: "preserves (steady setup_event) (parsePhase E d)"
  unfolding parsePhase_def
  by (intro steady_intros degradedClient_steady awsUnauthorized_steady
      parseClusterInfo_steady [THEN preserves_steady_weaken]) (auto intro: setup_events)

lemma parsePhase_keeps:
  "preserves (keeps (\<lambda>v. (st_SecurityGroupId v, st_VPCEndpointId v, st_HostedZoneId v, st_ResourceRecordSet v,
     st_Conditions v))) (parsePhase E d)"
  unfolding parsePhase_def parseClusterInfo_def parseInfraId_def set_clusterInfo_def
    getVpcEndpointServiceName_def findServiceName_def parseRegion_def establishAwsClient_def
    set_awsClient_def parseVpcId_def selectVpcId_def degradedClient_def cleanupFailure_def
    awsUnauthorizedOperationMetricHandler_def Let_def
  by (intro keeps_intros keeps_modify; simp)

lemma parsePhase_upkeep: "preserves (guarded (holds_object v) (upkeep v)) (parsePhase E d)"
  unfolding parsePhase_def parseClusterInfo_def parseInfraId_def set_clusterInfo_def
    getVpcEndpointServiceName_def findServiceName_def parseRegion_def establishAwsClient_def
    set_awsClient_def parseVpcId_def selectVpcId_def degradedClient_def cleanupFailure_def
    awsUnauthorizedOperationMetricHandler_def Let_def
  by (intro holds_intros steady_modify [THEN holds_steady]; (auto intro: upkeep_read)?)

lemma reconcileFetched_run:
  "reconcileFetched rounds E s =
     (let d = om_DeletionTimestamp (ve_Meta (rc_resource s)) \<noteq> None in
      bindE (parsePhase E d) (\<lambda>_. if d then reconcileDeletion rounds E else reconcileLive E) s)"
  by (simp add: reconcileFetched_def parsePhase_def bindE_run [of resource] resource_run bindE_assoc Let_def)

fun live_event :: "event \<Rightarrow> bool" where
  "live_event (K8s (DoUpdateVpcEndpoint _)) = False"
| "live_event e = (sg_event e \<or> vpce_event e \<or> dns_event e)"

lemma live_events:
  "sg_event e \<Longrightarrow> live_event e" "vpce_event e \<Longrightarrow> live_event e" "dns_event e \<Longrightarrow> live_event e"
  by (cases e rule: live_event.cases; simp)+

lemma live_event_deletes:
  "live_event e \<Longrightarrow> deletion_phase e = None \<or> deletion_phase e = Some EndpointPhase"
  by (cases e rule: live_event.cases; cases e rule: deletion_phase.cases) auto

interpretation vals: validation_pipeline live_event "validations E" for E
  by unfold_locales
    (auto simp: validations_def
      intro: preserves_steady_weaken [OF validateSecurityGroup_steady live_events(1)]
        preserves_steady_weaken [OF validateVPCEndpoint_steady live_events(2)]
        preserves_steady_weaken [OF validateCustomDns_steady live_events(3)])

text \<open>What follows the registration of the finalizer.\<close>

definition validatePhase :: "env \<Rightarrow> result rprog" where
  "validatePhase E =
     bindE (attempt (validateResources (validations E))) (\<lambda>validated.
     case validated of
       Inl err \<Rightarrow> validationError E err
     | Inr _ \<Rightarrow>
         bindE resource (\<lambda>v.
         bindE (if isVpcEndpointReady v then deleteNotReady else setNotReady E) (\<lambda>_.
         ret (requeue_after (seconds (15 * 60))))))"

lemma reconcileLive_split: "reconcileLive E = bindE (registerFinalizer E) (\<lambda>_. validatePhase E)"
  by (simp add: reconcileLive_def validatePhase_def)

lemma live_event_metric: "live_event (Metric m)"
  by simp

lemma validationError_steady: "preserves (steady live_event) (validationError E err)"
  unfolding validationError_def setNotReady_def
  by (intro steady_intros awsUnauthorized_steady live_event_metric)

lemma validatePhase_steady: "preserves (steady live_event) (validatePhase E)"
  unfolding validatePhase_def deleteNotReady_def setNotReady_def
  by (intro steady_intros vals.pipeline_steady validationError_steady live_event_metric)

lemma updateVpcEndpoint_eq:
  "updateVpcEndpoint E s = (r, u) \<longleftrightarrow>
     u = s\<lparr>history := history s @ [K8s (DoUpdateVpcEndpoint (rc_resource s))]\<rparr> \<and>
     r = (case k8s_UpdateVpcEndpoint (k8s E) (history s @ [K8s (DoUpdateVpcEndpoint (rc_resource s))]) of
            Inl e \<Rightarrow> raised e | Inr x \<Rightarrow> Ok x)"
  by (simp add: updateVpcEndpoint_def bindE_run resource_run invoke_eq)

text \<open>The registration leaves a resource that has the finalizer as it is, and adds it otherwise.\<close>

lemma registerFinalizer_cases:
  assumes "registerFinalizer E s = (r, t)" "finalizer_laws E"
  obtains (present) "avoFinalizer \<in> set (om_Finalizers (ve_Meta (rc_resource s)))" "r = Ok ()" "t = s"
  | (added) "avoFinalizer \<notin> set (om_Finalizers (ve_Meta (rc_resource s)))"
      and "avoFinalizer \<in> set (om_Finalizers (ve_Meta (rc_resource t)))"
      and "history t = history s @ [K8s (DoUpdateVpcEndpoint (rc_resource t))]"
      and "r = (case k8s_UpdateVpcEndpoint (k8s E) (history t) of Inl e \<Rightarrow> raised e | Inr x \<Rightarrow> Ok x)"
  using assms
  by (cases "avoFinalizer \<in> set (om_Finalizers (ve_Meta (rc_resource s)))")
    (auto simp: registerFinalizer_def has_finalizer_def set_finalizers_def run_simps
      updateVpcEndpoint_eq finalizer_laws_def)

lemma registerFinalizer_emits:
  "preserves (emits (\<lambda>e. \<exists>v. e = K8s (DoUpdateVpcEndpoint v))) (registerFinalizer E)"
  unfolding registerFinalizer_def has_finalizer_def set_finalizers_def updateVpcEndpoint_def
    resource_def
  by (intro em.bindE em.getsE em.whenE emits_modify calls_invoke [THEN preserves_calls_emits]; simp)

lemma reconcileLive_emits:
  "preserves (emits (\<lambda>e. live_event e \<or> (\<exists>v. e = K8s (DoUpdateVpcEndpoint v)))) (reconcileLive E)"
  unfolding reconcileLive_split
  by (intro em.bindE registerFinalizer_emits [THEN preserves_emits_weaken]
      validatePhase_steady [THEN preserves_steady_emits, THEN preserves_emits_weaken]) auto

text \<open>
  A live resource loses nothing but its endpoint. The reconciliation of a resource that is not
  being deleted never asks AWS to delete a record, a hosted zone or a security group; the only
  thing it may delete is the VPC endpoint (one that AWS rejected).
\<close>

lemma live_reconcile_deletes_endpoints_only:
  assumes "fetches E ns n s v" "om_DeletionTimestamp (ve_Meta v) = None"
  shows "list_all (\<lambda>e. deletion_phase e \<in> {None, Some EndpointPhase})
    (new_events s (snd (Reconcile rounds E ns n s)))"
proof -
  let ?A = "\<lambda>e. deletion_phase e = None \<or> deletion_phase e = Some EndpointPhase"
  let ?s = "fetched_state ns n v s"
  have "preserves (emits ?A) (bindE (parsePhase E False) (\<lambda>_. reconcileLive E))"
    by (intro em.bindE parsePhase_steady [THEN preserves_steady_emits, THEN preserves_emits_weaken]
        reconcileLive_emits [THEN preserves_emits_weaken])
      (auto dest: setup_event_reads live_event_deletes)
  moreover obtain r t where t: "bindE (parsePhase E False) (\<lambda>_. reconcileLive E) ?s = (r, t)" by fastforce
  ultimately have "emits ?A ?s t" by (rule preservesD)
  moreover have "Reconcile rounds E ns n s = (r, t)"
    using assms t by (simp add: Reconcile_fetched reconcileFetched_run)
  ultimately show ?thesis by (auto simp: list_all_iff emits_def new_events_def)
qed

lemma live_reconcile_deletes_endpoints_only_example:
  "let E = ref_env\<lparr>k8s := ref_k8s\<lparr>k8s_GetVpcEndpoint := (\<lambda>h. Inr sample_endpoint)\<rparr>\<rparr> in
   list_all (\<lambda>e. deletion_phase e \<in> {None, Some EndpointPhase})
     (new_events sample_state (snd (Reconcile 1 E ''default'' ''example'' sample_state)))"
  unfolding Let_def
  by (rule live_reconcile_deletes_endpoints_only [where v = sample_endpoint])
    (simp_all add: fetches_def sample_endpoint_def sample_meta_def)

text \<open>\<open>registered E h fs pre post\<close>: the events \<open>pre\<close> after the history \<open>h\<close> change nothing in AWS, and \<open>post\<close> has the finalizer.\<close>

definition registered :: "env \<Rightarrow> event list \<Rightarrow> string list \<Rightarrow> event list \<Rightarrow> event list \<Rightarrow> bool" where
  "registered E h fs pre post \<longleftrightarrow> (\<forall>e\<in>set pre. \<not> aws_write e) \<and>
     (post = [] \<or> avoFinalizer \<in> set fs \<or>
      (\<exists>w. pre \<noteq> [] \<and> last pre = K8s (DoUpdateVpcEndpoint w) \<and>
        avoFinalizer \<in> set (om_Finalizers (ve_Meta w)) \<and>
        k8s_UpdateVpcEndpoint (k8s E) (h @ pre) = Inr ()))"

lemma registered_shift:
  "registered E (h @ rd) fs pre post \<Longrightarrow> \<forall>e\<in>set rd. \<not> aws_write e \<Longrightarrow> registered E h fs (rd @ pre) post"
  by (auto simp: registered_def)

lemma validatePhase_grows:
  "bindE m (\<lambda>_. validatePhase E) s = (r, t) \<Longrightarrow> m s = (q, w) \<Longrightarrow>
   \<exists>post. history t = history w @ post \<and> ((\<exists>x. q = Ok x) \<or> post = [])"
  by (erule bindE_cases)
    (auto dest!: preservesD [OF validatePhase_steady [THEN preserves_steady_emits]] simp: emits_def)

lemma reconcileLive_registers:
  assumes "reconcileLive E s = (r, t)" "finalizer_laws E"
  shows "\<exists>pre post. history t = history s @ pre @ post \<and>
    registered E (history s) (om_Finalizers (ve_Meta (rc_resource s))) pre post"
proof -
  obtain q w where reg: "registerFinalizer E s = (q, w)" by fastforce
  then obtain post where post: "history t = history w @ post" "(\<exists>x. q = Ok x) \<or> post = []"
    using validatePhase_grows [OF assms(1)[unfolded reconcileLive_split]] by blast
  from reg assms(2) show ?thesis
  proof (cases rule: registerFinalizer_cases)
    case present
    with post show ?thesis by (intro exI [of _ "[]"] exI [of _ post]) (simp add: registered_def)
  next
    case added
    then have "post = [] \<or> k8s_UpdateVpcEndpoint (k8s E) (history w) = Inr ()"
      using post(2) by (auto split: sum.splits if_splits)
    with added post(1) show ?thesis
      by (intro exI [of _ "[K8s (DoUpdateVpcEndpoint (rc_resource w))]"] exI [of _ post])
        (auto simp: registered_def)
  qed
qed

lemma parsePhase_reads:
  assumes "parsePhase E d s = (r, t)"
  shows "\<exists>rd. history t = history s @ rd \<and> (\<forall>e\<in>set rd. \<not> aws_write e) \<and>
    ve_Meta (rc_resource t) = ve_Meta (rc_resource s)"
  using preservesD [OF parsePhase_steady assms] setup_event_reads by (auto simp: steady_def emits_def)

text \<open>
  C1: the finalizer comes first. Before the reconciliation of a live resource changes anything in
  AWS, the resource carries the operator's finalizer: either it was fetched with it, or the last
  thing that happened before was an update of the resource that adds it and that the API server
  accepted. So no AWS resource can be left behind by a deletion the operator does not see.
\<close>

theorem finalizer_before_aws_changes:
  assumes "finalizer_laws E" "fetches E ns n s v" "om_DeletionTimestamp (ve_Meta v) = None"
  shows "\<exists>pre post. new_events s (snd (Reconcile rounds E ns n s)) = pre @ post \<and>
    registered E (history s) (om_Finalizers (ve_Meta v)) pre post"
proof -
  let ?s = "fetched_state ns n v s" and ?get = "K8s (DoGetVpcEndpoint ns n)"
  obtain r t where run: "bindE (parsePhase E False) (\<lambda>_. reconcileLive E) ?s = (r, t)" by fastforce
  with assms have rec: "snd (Reconcile rounds E ns n s) = t"
    by (simp add: Reconcile_fetched reconcileFetched_run)
  have "\<exists>pre post. history t = history s @ pre @ post \<and>
      registered E (history s) (om_Finalizers (ve_Meta v)) pre post"
    using run
  proof (cases rule: bindE_cases)
    case (stop q)
    with parsePhase_reads obtain rd where rd: "history t = history s @ ?get # rd" "\<forall>e\<in>set rd. \<not> aws_write e"
      by fastforce
    then show ?thesis
      by (intro exI [of _ "?get # rd"] exI [of _ "[]"]) (auto simp: registered_def)
  next
    case (go x u)
    from parsePhase_reads [OF go(1)] obtain rd
      where rd: "history u = history s @ (?get # rd)" "\<forall>e\<in>set rd. \<not> aws_write e"
      and u: "ve_Meta (rc_resource u) = ve_Meta v" by auto
    from reconcileLive_registers [OF go(2) assms(1)] obtain pre post
      where t: "history t = history u @ pre @ post"
      and p: "registered E (history s @ (?get # rd)) (om_Finalizers (ve_Meta v)) pre post"
      unfolding rd(1) u by blast
    from p have "registered E (history s) (om_Finalizers (ve_Meta v)) ((?get # rd) @ pre) post"
      by (rule registered_shift) (use rd(2) in simp)
    with t rd(1) show ?thesis
      by (intro exI [of _ "(?get # rd) @ pre"] exI [of _ post]) simp
  qed
  then show ?thesis unfolding rec using new_events_append by blast
qed

theorem finalizer_before_aws_changes_witness:
  "let E = ref_env\<lparr>k8s := ref_k8s\<lparr>k8s_GetVpcEndpoint := (\<lambda>h. Inr sample_endpoint)\<rparr>\<rparr> in
   \<exists>pre post. new_events sample_state (snd (Reconcile 1 E ''default'' ''example'' sample_state)) =
     pre @ post \<and> registered E [] [] pre post"
  unfolding Let_def
  using finalizer_before_aws_changes
    [of "ref_env\<lparr>k8s := ref_k8s\<lparr>k8s_GetVpcEndpoint := (\<lambda>h. Inr sample_endpoint)\<rparr>\<rparr>" "''default''"
      "''example''" sample_state sample_endpoint 1]
  by (simp add: ref_laws fetches_def sample_defs)

section \<open>Deletion\<close>

text \<open>The ends of a deletion: reporting an error, and removing the finalizer.\<close>

fun report_event :: "event \<Rightarrow> bool" where
  "report_event (Recorded _ _) = True"
| "report_event (Metric _) = True"
| "report_event _ = False"

lemma report_may_delete: "report_event e \<Longrightarrow> may_delete st e"
  by (cases e rule: report_event.cases) simp_all

lemma cleanupError_steady: "preserves (steady report_event) (cleanupError E err)"
  unfolding cleanupError_def cleanupFailure_def Let_def
  by (intro steady_intros awsUnauthorized_steady; simp)

lemma deleteNotReady_steady: "preserves (steady report_event) deleteNotReady"
  unfolding deleteNotReady_def by (intro steady_intros; simp)

definition deletionDone :: "env \<Rightarrow> result rprog" where
  "deletionDone E = bindE (removeFinalizer E) (\<lambda>_. bindE deleteNotReady (\<lambda>_. ret no_requeue))"

text \<open>What the update that ends a deletion writes.\<close>

definition released :: "env \<Rightarrow> vpcEndpoint \<Rightarrow> vpcEndpoint" where
  "released E v = v\<lparr>ve_Meta := (ve_Meta v)\<lparr>om_Finalizers :=
     lib_RemoveFinalizer (lib E) (om_Finalizers (ve_Meta v)) avoFinalizer\<rparr>\<rparr>"

lemma deletionDone_history:
  assumes "deletionDone E s = (r, t)"
  shows "\<exists>tr. history t = history s @ K8s (DoUpdateVpcEndpoint (released E (rc_resource s))) # tr \<and>
    (\<forall>e\<in>set tr. report_event e)"
  using assms
  by (auto simp: deletionDone_def removeFinalizer_def set_finalizers_def updateVpcEndpoint_def
      deleteNotReady_def run_simps released_def split: sum.splits if_splits)

lemma reconcileDeletion_cases:
  assumes "reconcileDeletion rounds E s = (r, t)"
  obtains (absent) "steady report_event s t"
  | (failed) err u where "cleanupAwsResources rounds E s = (Err err, u)" "steady report_event u t"
      "cleanupError E err u = (r, t)"
  | (cleaned) u where "cleanupAwsResources rounds E s = (Ok (), u)" "deletionDone E u = (r, t)"
  | (stuck) q where "cleanupAwsResources rounds E s = (q, t)" "r = Panic \<or> r = Diverged"
proof -
  have err: "cleanupError E e u = (r, t) \<Longrightarrow> steady report_event u t" for e u
    by (rule preservesD [OF cleanupError_steady])
  have rest: "preserves (steady report_event) (bindE deleteNotReady (\<lambda>_. ret no_requeue))"
    by (intro steady_intros deleteNotReady_steady)
  show thesis
  proof (cases "lib_ContainsFinalizer (lib E) (om_Finalizers (ve_Meta (rc_resource s))) avoFinalizer")
    case False
    with assms have "bindE deleteNotReady (\<lambda>_. ret no_requeue) s = (r, t)"
      by (simp add: reconcileDeletion_def has_finalizer_def bindE_run getsE_run)
    with rest show thesis by (intro absent) (rule preservesD)
  next
    case True
    then have "(case cleanupAwsResources rounds E s of
        (Ok x, u) \<Rightarrow> deletionDone E u | (Err e, u) \<Rightarrow> cleanupError E e u
      | (Panic, u) \<Rightarrow> (Panic, u) | (Diverged, u) \<Rightarrow> (Diverged, u)) = (r, t)"
      using assms
      by (auto simp: reconcileDeletion_def has_finalizer_def deletionDone_def bindE_run getsE_run
          attempt_run split: prod.splits outcome.splits)
    then show thesis
      using err failed cleaned stuck by (auto split: prod.splits outcome.splits)
  qed
qed

lemma reconcileDeletion_emits:
  assumes "reconcileDeletion rounds E s = (r, t)"
  shows "emits (may_delete (rc_status s)) s t"
proof -
  have clean: "cleanupAwsResources rounds E s = (q, u) \<Longrightarrow> emits (may_delete (rc_status s)) s u" for q u
    by (drule cleanup_events) (erule emits_weaken, rule own_event_may_delete)
  have report: "steady report_event a b \<Longrightarrow> emits (may_delete (rc_status s)) a b" for a b
    by (auto simp: steady_def intro: emits_weaken report_may_delete)
  show ?thesis
    using assms
  proof (cases rule: reconcileDeletion_cases)
    case (failed err u)
    with clean report show ?thesis by (blast intro: emits_trans)
  next
    case (cleaned u)
    from deletionDone_history [OF cleaned(2)] have "emits (may_delete (rc_status s)) u t"
      by (auto simp: emits_def report_may_delete)
    with clean [OF cleaned(1)] show ?thesis by (rule emits_trans)
  qed (use clean report in blast)+
qed

lemma reconcileDeletion_grows: "preserves (emits (\<lambda>_. True)) (reconcileDeletion rounds E)"
  by (rule preservesI) (auto dest: reconcileDeletion_emits intro: emits_weaken)

text \<open>The update of a deletion comes right after a cleanup that has succeeded.\<close>

lemma reconcileDeletion_update:
  assumes "reconcileDeletion rounds E s = (r, t)" "new_events s t = pre @ K8s (DoUpdateVpcEndpoint w) # post"
  shows "\<exists>u. cleanupAwsResources rounds E s = (Ok (), u) \<and> w = released E (rc_resource u) \<and> pre = new_events s u"
proof -
  let ?e = "K8s (DoUpdateVpcEndpoint w)"
  have no: "\<not> own_event st ?e" "\<not> report_event ?e" for st
    by (auto simp: own_event_def names_record_def empties_zone_def deletes_endpoint_def deletes_group_def)
  have e: "?e \<in> set (new_events s t)" using assms(2) by simp
  have clean: "emits (own_event (rc_status s)) s u" if "cleanupAwsResources rounds E s = (q, u)" for q u
    by (rule cleanup_events [OF that])
  show ?thesis
    using assms(1)
  proof (cases rule: reconcileDeletion_cases)
    case absent
    with no steady_event [OF absent e] show ?thesis by simp
  next
    case (failed err u)
    let ?A = "\<lambda>e. own_event (rc_status s) e \<or> report_event e"
    have "emits ?A s u" using clean [OF failed(1)] by (rule emits_weaken) simp
    moreover have "emits ?A u t" using failed(2) by (auto simp: steady_def elim!: emits_weaken)
    ultimately have "emits ?A s t" by (rule emits_trans)
    with no e new_events_emits show ?thesis by blast
  next
    case (cleaned u)
    obtain tr where h: "history t = history u @ K8s (DoUpdateVpcEndpoint (released E (rc_resource u))) # tr"
        "\<forall>e\<in>set tr. report_event e"
      using deletionDone_history [OF cleaned(2)] by blast
    have "history t = history s @ new_events s u @ K8s (DoUpdateVpcEndpoint (released E (rc_resource u))) # tr"
      by (subst h(1), subst emits_history [OF clean [OF cleaned(1)]]) simp
    then have split: "new_events s u @ K8s (DoUpdateVpcEndpoint (released E (rc_resource u))) # tr = pre @ ?e # post"
      using assms(2) by simp
    moreover have "?e \<notin> set (new_events s u)" using no new_events_emits [OF clean [OF cleaned(1)]] by blast
    ultimately obtain zs where pre: "pre = new_events s u @ zs" by (rule before_event)
    with split no(2) h(2) have "zs = []" "w = released E (rc_resource u)" by (auto simp: Cons_eq_append_conv)
    with cleaned(1) pre show ?thesis by simp
  next
    case (stuck q)
    with no new_events_emits [OF clean [OF stuck(1)] e] show ?thesis by simp
  qed
qed

text \<open>The events of a deletion: the writes of the cleanup, reports, and the update that releases the resource.\<close>

lemma reconcileDeletion_own_writes:
  assumes "reconcileDeletion rounds E s = (r, t)"
  shows "emits (own_write E (rc_resource s) (new_events s t)) s t"
proof -
  let ?v = "rc_resource s"
  have report: "report_event e \<Longrightarrow> own_write E ?v tr e" for e tr
    by (cases e rule: report_event.cases) simp_all
  have reports: "steady report_event a b \<Longrightarrow> emits (own_write E ?v tr) a b" for a b tr
    unfolding steady_def by (blast intro: emits_weaken report)
  have more: "emits (own_write E ?v (new_events s t)) s u"
    if run: "cleanupAwsResources rounds E s = (q, u)" and ut: "emits (\<lambda>_. True) u t" for q u
  proof -
    have su: "emits (own_write E ?v (new_events s u)) s u" using cleanup_own_writes [OF run] by blast
    have "set (new_events s u) \<subseteq> set (new_events s t)" using new_events_trans [OF su ut] by simp
    with su show ?thesis by (blast intro: emits_weaken own_write_mono)
  qed
  show ?thesis
    using assms
  proof (cases rule: reconcileDeletion_cases)
    case (failed err u)
    show ?thesis
      by (rule emits_trans [OF more [OF failed(1)] reports [OF failed(2)]])
        (rule emits_any [OF reports [OF failed(2)]])
  next
    case (cleaned u)
    from deletionDone_history [OF cleaned(2)] obtain tr
      where h: "history t = history u @ K8s (DoUpdateVpcEndpoint (released E (rc_resource u))) # tr"
        "\<forall>e\<in>set tr. report_event e" by blast
    have "holds_resource ?v u" using cleanup_own_writes [OF cleaned(1)] by blast
    then have "ve_Spec (released E (rc_resource u)) = ve_Spec ?v \<and>
        (\<exists>fs. ve_Meta (released E (rc_resource u)) = (ve_Meta ?v)\<lparr>om_Finalizers := fs\<rparr>)"
      by (auto simp: released_def holds_resource_def holds_object_def same_object_def)
    with h report have "emits (own_write E ?v (new_events s t)) u t" by (auto simp: emits_def)
    moreover from this have "emits (own_write E ?v (new_events s t)) s u" by (intro more [OF cleaned(1)] emits_any)
    ultimately show ?thesis by (blast intro: emits_trans)
  next
    case (stuck q)
    then show ?thesis by (intro more [OF stuck(1)] emits_refl)
  qed (rule reports)
qed

lemma own_write_cong:
  assumes "same_object v u" "st_SecurityGroupId (ve_Status u) = st_SecurityGroupId (ve_Status v)"
    "st_VPCEndpointId (ve_Status u) = st_VPCEndpointId (ve_Status v)"
    "st_HostedZoneId (ve_Status u) = st_HostedZoneId (ve_Status v)"
    "st_ResourceRecordSet (ve_Status u) = st_ResourceRecordSet (ve_Status v)"
    "st_Conditions (ve_Status u) = st_Conditions (ve_Status v)"
  shows "own_write E u tr e = own_write E v tr e"
  by (cases "(E, v, tr, e)" rule: own_write.cases)
    (use assms in \<open>simp_all add: own_zone_def adopts_zone_def same_object_def\<close>)

text \<open>
  C23: a deletion only cleans up, and only what is the resource's own. Every call of the reconciliation of a
  resource under deletion that writes anything is one of these: the deletion of the endpoint or of the security
  group that the fetched status names; the deletion of a record that has the name in the status; the deletion of
  the resource's hosted zone, or of a record of that zone that is not an NS or SOA record; or an update of the same
  resource, with its spec and, finalizers apart, its metadata. The resource's zone is the one that the fetched
  status names. Only if the status names none although its record is ready, the zone is one that the run itself has
  put into the status; then, and only then, the run may also create and tag a zone.
\<close>

theorem deleting_reconcile_cleans_only:
  assumes "fetches E ns n s v" "om_DeletionTimestamp (ve_Meta v) \<noteq> None"
  shows "let tr = new_events s (snd (Reconcile rounds E ns n s)) in list_all (own_write E v tr) tr"
proof -
  let ?s = "fetched_state ns n v s" and ?get = "K8s (DoGetVpcEndpoint ns n)"
  obtain r t where run: "bindE (parsePhase E True) (\<lambda>_. reconcileDeletion rounds E) ?s = (r, t)" by fastforce
  with assms have rec: "snd (Reconcile rounds E ns n s) = t"
    by (simp add: Reconcile_fetched reconcileFetched_run)
  have first: "emits (own_write E v tr) s ?s" for tr by (simp add: emits_def)
  have parse: "emits (own_write E v tr) ?s u \<and> holds_object v u" if "parsePhase E True ?s = (q, u)" for q u tr
  proof -
    have "holds_object v ?s" by (simp add: holds_object_def same_object_def)
    with guardedD [OF parsePhase_upkeep that] show ?thesis by (blast intro: emits_weaken upkeep_own)
  qed
  have "emits (own_write E v (new_events s t)) ?s t"
    using run
  proof (cases rule: bindE_cases)
    case (go x u)
    have "own_write E (rc_resource u) tr = own_write E v tr" for tr
      using keepsD [OF parsePhase_keeps go(1)] parse [OF go(1)]
      by (intro ext own_write_cong) (simp_all add: holds_object_def)
    with reconcileDeletion_own_writes [OF go(2)] have ut: "emits (own_write E v (new_events u t)) u t" by simp
    have su: "emits (own_write E v tr) s u" for tr using emits_trans [OF first] parse [OF go(1)] by blast
    have "set (new_events u t) \<subseteq> set (new_events s t)" using new_events_trans [OF su ut] by simp
    with ut have "emits (own_write E v (new_events s t)) u t" by (blast intro: emits_weaken own_write_mono)
    with parse [OF go(1)] show ?thesis by (blast intro: emits_trans)
  qed (use parse in blast)
  from emits_trans [OF first this] show ?thesis by (auto simp: rec list_all_iff Let_def emits_def new_events_def)
qed

definition sample_deleting :: vpcEndpoint where
  "sample_deleting = sample_endpoint\<lparr>ve_Meta := sample_meta\<lparr>om_Finalizers := [avoFinalizer],
     om_DeletionTimestamp := Some 1\<rparr>\<rparr>"

definition deleting_env :: env where
  "deleting_env = gone_env\<lparr>k8s := ref_k8s\<lparr>k8s_GetVpcEndpoint := (\<lambda>h. Inr sample_deleting),
     k8s_GetInfrastructure := (\<lambda>h. Inr \<lparr>inf_PlatformStatus = Some \<lparr>ps_Type = ''AWS'',
       ps_AWSRegion = Some ''us-east-1''\<rparr>, inf_InfrastructureName = ''infra''\<rparr>)\<rparr>\<rparr>"

theorem deleting_reconcile_cleans_only_witness:
  "let tr = new_events sample_state (snd (Reconcile 1 deleting_env ''default'' ''example'' sample_state))
   in list_all (own_write deleting_env sample_deleting tr) tr"
  by (rule deleting_reconcile_cleans_only) (simp_all add: fetches_def deleting_env_def sample_deleting_def)


lemmas reconcile_run = Reconcile_def reconcileFetched_def parseClusterInfo_def parseInfraId_def
  GetInfrastructureName_def is_hcp_def GetClusterLegacyTagKey_def set_clusterInfo_def
  getVpcEndpointServiceName_def findServiceName_def parseRegion_def establishAwsClient_def
  load_config_def set_awsClient_def parseVpcId_def reconcileDeletion_def has_finalizer_def
  removeFinalizer_def set_finalizers_def updateVpcEndpoint_def deleteNotReady_def

lemmas cleanup_run_defs = cleanupAwsResources_def cleanupRecord_def cleanupZone_def cleanupEndpoint_def
  cleanupMetrics_def deleteEndpoint_def endpointDeleted_def DeleteVPCEndpoint_def awaitDeletion_def
  DescribeSingleVPCEndpointById_def forgetEndpoint_def cleanupGroup_def deleteGroup_def
  groupDeleted_def DeleteSecurityGroup_def pollTimeout_def

definition sample_released :: vpcEndpoint where
  "sample_released = released deleting_env (sample_deleting\<lparr>ve_Status :=
     sample_status\<lparr>st_VPCEndpointId := '''', st_Status := ''deleting''\<rparr>\<rparr>)"

lemma sample_deletion_updates:
  "K8s (DoUpdateVpcEndpoint sample_released)
     \<in> set (new_events sample_state (snd (Reconcile 1 deleting_env ''default'' ''example'' sample_state)))"
  by (simp add: reconcile_run cleanup_run_defs run_simps deleting_env_def sample_deleting_def
      gone_env_def gone_ec2_def ref_defs sample_defs new_events_def sample_released_def released_def
      Let_def)


section \<open>Requeues\<close>

definition conditionNow :: "env \<Rightarrow> reconciler \<Rightarrow> string \<Rightarrow> bool" where
  "conditionNow E s ty = lib_IsStatusConditionTrue (lib E) (st_Conditions (rc_status s)) ty"

lemma unauthorized_Ok:
  obtains w where "awsUnauthorizedOperationMetricHandler err u = (Ok (), w)" "rc_resource w = rc_resource u"
  by (cases "awsUnauthorizedOperationMetricHandler err u")
    (auto simp: awsUnauthorizedOperationMetricHandler_def run_simps split: option.splits if_splits)

definition blocked :: "error \<Rightarrow> bool" where
  "blocked err \<longleftrightarrow> (case as_api_error err of None \<Rightarrow> False | Some ae \<Rightarrow> fst ae = ''DependencyViolation'')"

lemma cleanupError_result:
  "fst (cleanupError E err u) = (if blocked err then Ok (requeue_after (seconds 30)) else Err err)"
proof -
  obtain w where "awsUnauthorizedOperationMetricHandler err u = (Ok (), w)" by (rule unauthorized_Ok)
  then show ?thesis
    by (auto simp: cleanupError_def cleanupFailure_def blocked_def Let_def run_simps split: option.splits)
qed

lemma deletionDone_result:
  "fst (deletionDone E u) = Ok res \<longleftrightarrow> res = no_requeue \<and>
     k8s_UpdateVpcEndpoint (k8s E) (history u @ [K8s (DoUpdateVpcEndpoint (released E (rc_resource u)))]) = Inr ()"
  by (auto simp: deletionDone_def removeFinalizer_def set_finalizers_def updateVpcEndpoint_def
      deleteNotReady_def run_simps released_def split: sum.splits if_splits)

text \<open>Under deletion, from the state \<open>u\<close> in which the cluster information is known.\<close>

definition deletion_requeue :: "nat \<Rightarrow> env \<Rightarrow> reconciler \<Rightarrow> result \<Rightarrow> bool" where
  "deletion_requeue rounds E u res \<longleftrightarrow>
     (if lib_ContainsFinalizer (lib E) (om_Finalizers (ve_Meta (rc_resource u))) avoFinalizer then
        (case cleanupAwsResources rounds E u of
           (Ok _, y) \<Rightarrow> res = no_requeue \<and>
             k8s_UpdateVpcEndpoint (k8s E) (history y @ [K8s (DoUpdateVpcEndpoint (released E (rc_resource y)))]) = Inr ()
         | (Err err, _) \<Rightarrow> res = requeue_after (seconds 30) \<and> blocked err
         | _ \<Rightarrow> False)
      else res = no_requeue)"

lemma reconcileDeletion_requeue: "fst (reconcileDeletion rounds E u) = Ok res \<longleftrightarrow> deletion_requeue rounds E u res"
proof (cases "lib_ContainsFinalizer (lib E) (om_Finalizers (ve_Meta (rc_resource u))) avoFinalizer")
  case False
  then show ?thesis
    by (auto simp: reconcileDeletion_def has_finalizer_def deletion_requeue_def deleteNotReady_def run_simps)
next
  case True
  then have "reconcileDeletion rounds E u = (case cleanupAwsResources rounds E u of
      (Ok x, y) \<Rightarrow> deletionDone E y | (Err e, y) \<Rightarrow> cleanupError E e y
    | (Panic, y) \<Rightarrow> (Panic, y) | (Diverged, y) \<Rightarrow> (Diverged, y))"
    by (auto simp: reconcileDeletion_def has_finalizer_def deletionDone_def bindE_run getsE_run
        attempt_run split: prod.splits outcome.splits)
  with True show ?thesis
    by (auto simp: deletion_requeue_def deletionDone_result cleanupError_result split: prod.splits outcome.splits)
qed

text \<open>A live resource, from the same state; \<open>t\<close> is the state in the end.\<close>

definition live_requeue :: "env \<Rightarrow> reconciler \<Rightarrow> result \<Rightarrow> reconciler \<Rightarrow> bool" where
  "live_requeue E u res t \<longleftrightarrow> (\<exists>w. registerFinalizer E u = (Ok (), w) \<and>
     (case validateResources (validations E) w of
        (Ok _, y) \<Rightarrow> res = requeue_after (seconds (15 * 60)) \<and> rc_resource t = rc_resource y
      | (Err _, y) \<Rightarrow> res = requeue_after (seconds 60) \<and>
          conditionNow E y AWSVpcEndpointCondition \<and> \<not> conditionNow E y AWSRoute53RecordCondition
      | _ \<Rightarrow> False))"

lemma validationError_result:
  "fst (validationError E err u) =
     (if conditionNow E u AWSVpcEndpointCondition \<and> \<not> conditionNow E u AWSRoute53RecordCondition
      then Ok (requeue_after (seconds 60)) else Err err)"
proof -
  obtain w where "awsUnauthorizedOperationMetricHandler err u = (Ok (), w)" "rc_resource w = rc_resource u"
    by (rule unauthorized_Ok)
  then show ?thesis by (simp add: validationError_def setNotReady_def run_simps conditionNow_def)
qed

lemma validatePhase_requeue:
  "fst (validatePhase E w) = Ok res \<longleftrightarrow>
     (case validateResources (validations E) w of
        (Ok _, y) \<Rightarrow> res = requeue_after (seconds (15 * 60)) \<and> rc_resource (snd (validatePhase E w)) = rc_resource y
      | (Err _, y) \<Rightarrow> res = requeue_after (seconds 60) \<and>
          conditionNow E y AWSVpcEndpointCondition \<and> \<not> conditionNow E y AWSRoute53RecordCondition
      | _ \<Rightarrow> False)"
proof -
  obtain r y where v: "validateResources (validations E) w = (r, y)" by fastforce
  show ?thesis
  proof (cases r)
    case (Err err)
    with v have "validatePhase E w = validationError E err y" by (simp add: validatePhase_def run_simps)
    with v Err show ?thesis by (auto simp: validationError_result)
  qed (use v in \<open>auto simp: validatePhase_def run_simps deleteNotReady_def setNotReady_def\<close>)
qed

text \<open>
  C24: when a reconciliation is repeated. A reconciliation of a fetched resource ends without an error exactly in
  these cases, and with these requeues. The cluster information was found, or under deletion at least a client;
  call \<open>u\<close> the state then. Under deletion there is no requeue, and then the resource does not have the
  finalizer, or the cleanup from \<open>u\<close> succeeded and the API server accepted the update without the finalizer; or
  the cleanup from \<open>u\<close> failed with AWS's \<open>DependencyViolation\<close> and the requeue is after 30 seconds. Otherwise the
  finalizer is registered, and then all validations succeed, the resource is left as they leave it and the requeue
  is after 15 minutes; or one fails and leaves the conditions of an endpoint that is ready and a record that is not,
  and the requeue is after one minute. Every other failure is returned as an error.
\<close>

theorem requeue_table:
  assumes "fetches E ns n s v"
  shows "fst (Reconcile rounds E ns n s) = Ok res \<longleftrightarrow>
    (\<exists>u. parsePhase E (om_DeletionTimestamp (ve_Meta v) \<noteq> None) (fetched_state ns n v s) = (Ok (), u) \<and>
       (if om_DeletionTimestamp (ve_Meta v) \<noteq> None then deletion_requeue rounds E u res
        else live_requeue E u res (snd (Reconcile rounds E ns n s))))"
proof -
  let ?d = "om_DeletionTimestamp (ve_Meta v) \<noteq> None" and ?s = "fetched_state ns n v s"
  have run: "Reconcile rounds E ns n s =
      bindE (parsePhase E ?d) (\<lambda>_. if ?d then reconcileDeletion rounds E else reconcileLive E) ?s"
    using assms by (simp add: Reconcile_fetched reconcileFetched_run Let_def)
  obtain r u where p: "parsePhase E ?d ?s = (r, u)" by fastforce
  show ?thesis
  proof (cases "r = Ok ()")
    case False
    with p show ?thesis unfolding run by (cases r) (auto simp: run_simps)
  next
    case True
    have live: "fst (reconcileLive E u) = Ok res \<longleftrightarrow> live_requeue E u res (snd (reconcileLive E u))"
    proof -
      obtain q w where w: "registerFinalizer E u = (q, w)" by fastforce
      then show ?thesis
        by (cases q) (auto simp: reconcileLive_split live_requeue_def bindE_run validatePhase_requeue)
    qed
    from p True have "Reconcile rounds E ns n s = (if ?d then reconcileDeletion rounds E else reconcileLive E) u"
      unfolding run by (simp add: run_simps)
    with p True live show ?thesis by (cases ?d) (simp_all add: reconcileDeletion_requeue)
  qed
qed

lemma sample_deletion_result:
  "Reconcile 1 deleting_env ''default'' ''example'' sample_state =
     (Ok no_requeue, snd (Reconcile 1 deleting_env ''default'' ''example'' sample_state))"
  by (simp add: reconcile_run cleanup_run_defs run_simps deleting_env_def sample_deleting_def
      gone_env_def gone_ec2_def ref_defs sample_defs Let_def)

theorem requeue_table_witness:
  "\<exists>u. parsePhase deleting_env True (fetched_state ''default'' ''example'' sample_deleting sample_state) = (Ok (), u) \<and>
     deletion_requeue 1 deleting_env u no_requeue"
proof -
  have "fetches deleting_env ''default'' ''example'' sample_state sample_deleting"
    by (simp add: fetches_def deleting_env_def)
  moreover have "fst (Reconcile 1 deleting_env ''default'' ''example'' sample_state) = Ok no_requeue"
    by (subst sample_deletion_result) simp
  moreover have "om_DeletionTimestamp (ve_Meta sample_deleting) \<noteq> None" by (simp add: sample_deleting_def)
  ultimately show ?thesis
    using requeue_table [of deleting_env "''default''" "''example''" sample_state sample_deleting 1 no_requeue] by simp
qed

text \<open>
  C37: any error of a validation is hidden while the endpoint is ready and its record is not. The
  comment in the source says that the fixed one-minute retry applies to failures of the DNS stage
  only; but the two conditions are those of earlier reconciliations, so also a failure to find or
  create the security group ends without an error and without the exponential backoff.
\<close>

theorem security_group_failure_is_hidden:
  assumes "finalizer_laws E" "avoFinalizer \<in> set (om_Finalizers (ve_Meta (rc_resource s)))"
    and "validateSecurityGroup E s = (Err err, u)"
    and "conditionNow E u AWSVpcEndpointCondition" "\<not> conditionNow E u AWSRoute53RecordCondition"
  shows "fst (reconcileLive E s) = Ok (requeue_after (seconds 60))"
proof -
  have live: "reconcileLive E s = validationError E err u"
    using assms(1-3)
    by (simp add: reconcileLive_def registerFinalizer_def has_finalizer_def run_simps
        finalizer_laws_def validations_def)
  obtain w where "awsUnauthorizedOperationMetricHandler err u = (Ok (), w)" "rc_resource w = rc_resource u"
    by (rule unauthorized_Ok)
  then show ?thesis
    using assms(4,5) unfolding live
    by (simp add: validationError_def setNotReady_def run_simps conditionNow_def)
qed

definition sample_available :: reconciler where
  "sample_available = sample_state\<lparr>rc_resource := sample_endpoint\<lparr>
     ve_Meta := sample_meta\<lparr>om_Finalizers := [avoFinalizer]\<rparr>,
     ve_Status := sample_status\<lparr>st_Conditions := [\<lparr>cd_Type = AWSVpcEndpointCondition,
       cd_Status = ConditionTrue, cd_Reason = ''available'', cd_Message = ''''\<rparr>]\<rparr>\<rparr>\<rparr>"

definition throttled_env :: env where
  "throttled_env = ref_env\<lparr>ec2 := ref_ec2\<lparr>ec2_DescribeSecurityGroups :=
     (\<lambda>h. Inl (ApiError ''RequestLimitExceeded'' ''slow down''))\<rparr>\<rparr>"

theorem security_group_failure_is_hidden_witness:
  "fst (reconcileLive throttled_env sample_available) = Ok (requeue_after (seconds 60))"
proof (rule security_group_failure_is_hidden)
  show "validateSecurityGroup throttled_env sample_available =
      (Err (ApiError ''RequestLimitExceeded'' ''slow down''),
       snd (validateSecurityGroup throttled_env sample_available))"
    by (simp add: validateSecurityGroup_def findOrCreateSecurityGroup_def FilterSecurityGroupById_def
        run_simps throttled_env_def sample_available_def ref_defs sample_defs)
qed (simp_all add: validateSecurityGroup_def findOrCreateSecurityGroup_def FilterSecurityGroupById_def
    run_simps throttled_env_def sample_available_def ref_defs sample_defs conditionNow_def ref_laws)

end
