(* ===== verification/Metrics.thy ===== *)
theory Metrics
  imports VpcEndpointController Acceptance
begin

text \<open>
  The Prometheus collectors of the two controllers (controllers/vpcendpoint/metrics.go and
  controllers/vpcendpointacceptance/metrics.go) and the calls that update them. The client library
  panics when a collector is registered twice, when the buckets of a histogram do not increase, and
  when \<open>WithLabelValues\<close> is given another number of values than the collector has labels; the
  theorems say that none of this happens.
\<close>

section \<open>The collectors\<close>

datatype collectorKind = GaugeVec | CounterVec | Histogram "int list"

record collector =
  co_Kind :: collectorKind
  co_Namespace :: string
  co_Name :: string
  co_Labels :: "string list"

definition vpcePendingAcceptance :: collector where
  "vpcePendingAcceptance = \<lparr>co_Kind = GaugeVec, co_Namespace = ''aws_vpce_operator'',
     co_Name = ''vpce_pendingAcceptance_total'', co_Labels = [''name'', ''namespace'', ''vpce_id'']\<rparr>"

definition awsUnauthorizedOperation :: collector where
  "awsUnauthorizedOperation = \<lparr>co_Kind = GaugeVec, co_Namespace = ''aws_vpce_operator'',
     co_Name = ''unauthorized_operation_total'', co_Labels = [''action'']\<rparr>"

definition vpceCleanupFailure :: collector where
  "vpceCleanupFailure = \<lparr>co_Kind = CounterVec, co_Namespace = ''aws_vpce_operator'',
     co_Name = ''vpce_cleanup_failure_total'', co_Labels = [''error_type'']\<rparr>"

definition vpceSecurityGroupReadyDuration :: collector where
  "vpceSecurityGroupReadyDuration = \<lparr>co_Kind = Histogram [5, 10, 30, 60, 120, 300, 600, 900, 1800, 3600],
     co_Namespace = ''aws_vpce_operator'', co_Name = ''vpce_security_group_ready_duration_seconds'', co_Labels = []\<rparr>"

definition vpceEndpointReadyDuration :: collector where
  "vpceEndpointReadyDuration = \<lparr>co_Kind = Histogram [30, 60, 120, 300, 600, 900, 1800, 3600, 5400, 7200],
     co_Namespace = ''aws_vpce_operator'', co_Name = ''vpce_endpoint_ready_duration_seconds'', co_Labels = []\<rparr>"

definition vpceRoute53ReadyDuration :: collector where
  "vpceRoute53ReadyDuration = \<lparr>co_Kind = Histogram [30, 60, 120, 300, 600, 900, 1800, 3600, 5400, 7200],
     co_Namespace = ''aws_vpce_operator'', co_Name = ''vpce_route53_ready_duration_seconds'', co_Labels = []\<rparr>"

definition vpceNotReadySeconds :: collector where
  "vpceNotReadySeconds = \<lparr>co_Kind = GaugeVec, co_Namespace = ''aws_vpce_operator'',
     co_Name = ''vpce_not_ready_seconds'', co_Labels = [''name'', ''namespace'']\<rparr>"

definition vpcEndpointAcceptanceQueue :: collector where
  "vpcEndpointAcceptanceQueue = \<lparr>co_Kind = GaugeVec, co_Namespace = '''',
     co_Name = ''aws_vpce_operator_vpcendpointacceptance_queue'', co_Labels = [''name'', ''namespace'']\<rparr>"

text \<open>What the two \<open>init\<close> functions register.\<close>

definition registered_collectors :: "collector list" where
  "registered_collectors = [vpcePendingAcceptance, awsUnauthorizedOperation, vpceCleanupFailure,
     vpceSecurityGroupReadyDuration, vpceEndpointReadyDuration, vpceRoute53ReadyDuration, vpceNotReadySeconds]"

definition acceptance_collectors :: "collector list" where
  "acceptance_collectors = [vpcEndpointAcceptanceQueue]"

lemmas collector_defs = registered_collectors_def acceptance_collectors_def vpcePendingAcceptance_def
  awsUnauthorizedOperation_def vpceCleanupFailure_def vpceSecurityGroupReadyDuration_def
  vpceEndpointReadyDuration_def vpceRoute53ReadyDuration_def vpceNotReadySeconds_def
  vpcEndpointAcceptanceQueue_def

section \<open>What the library accepts\<close>

text \<open>The name of a collector in the registry, as the library builds it from namespace and name.\<close>

definition fq_name :: "collector \<Rightarrow> string" where
  "fq_name c = (if co_Namespace c = '''' then co_Name c else co_Namespace c @ ''_'' @ co_Name c)"

definition registrable :: "collector list \<Rightarrow> bool" where
  "registrable cs \<longleftrightarrow> distinct (List.map fq_name cs) \<and>
     list_all (\<lambda>c. case co_Kind c of Histogram buckets \<Rightarrow> sorted_wrt (<) buckets | _ \<Rightarrow> True) cs"

definition has_collector :: "collector list \<Rightarrow> string \<Rightarrow> (collectorKind \<Rightarrow> bool) \<Rightarrow> nat \<Rightarrow> bool" where
  "has_collector cs name kind labels \<longleftrightarrow>
     list_ex (\<lambda>c. co_Name c = name \<and> kind (co_Kind c) \<and> length (co_Labels c) = labels) cs"

fun fits :: "collector list \<Rightarrow> metric \<Rightarrow> bool" where
  "fits cs (GaugeSet name values x) = has_collector cs name (\<lambda>k. k = GaugeVec) (length values)"
| "fits cs (GaugeInc name values) = has_collector cs name (\<lambda>k. k = GaugeVec) (length values)"
| "fits cs (DeleteLabelValues name values) = has_collector cs name (\<lambda>k. k = GaugeVec) (length values)"
| "fits cs (CounterInc name values) = has_collector cs name (\<lambda>k. k = CounterVec) (length values)"
| "fits cs (Observe name x) = has_collector cs name (\<lambda>k. \<exists>buckets. k = Histogram buckets) 0"

fun measured :: "collector list \<Rightarrow> event \<Rightarrow> bool" where
  "measured cs (Metric m) = fits cs m"
| "measured cs _ = True"

lemma measured_read: "aws_read e \<Longrightarrow> measured cs e" "lookup_event e \<Longrightarrow> measured cs e" "k8s_read e \<Longrightarrow> measured cs e"
  by (cases e; simp)+

lemma updates_fit:
  "measured registered_collectors (Metric (GaugeSet ''vpce_pendingAcceptance_total'' [a, b, c] x))"
  "measured registered_collectors (Metric (DeleteLabelValues ''vpce_pendingAcceptance_total'' [a, b, c]))"
  "measured registered_collectors (Metric (GaugeInc ''unauthorized_operation_total'' [a]))"
  "measured registered_collectors (Metric (CounterInc ''vpce_cleanup_failure_total'' [a]))"
  "measured registered_collectors (Metric (Observe ''vpce_security_group_ready_duration_seconds'' x))"
  "measured registered_collectors (Metric (Observe ''vpce_endpoint_ready_duration_seconds'' x))"
  "measured registered_collectors (Metric (Observe ''vpce_route53_ready_duration_seconds'' x))"
  "measured registered_collectors (Metric (GaugeSet ''vpce_not_ready_seconds'' [a, b] x))"
  "measured registered_collectors (Metric (DeleteLabelValues ''vpce_not_ready_seconds'' [a, b]))"
  by (simp_all add: collector_defs has_collector_def)

lemmas updates_fit_simps [simp] = updates_fit [simplified]

section \<open>Every update fits\<close>

abbreviation well_measured :: "event \<Rightarrow> bool" where
  "well_measured \<equiv> measured registered_collectors"

lemma parse_measured:
  "preserves (steady well_measured) (awsUnauthorizedOperationMetricHandler err)"
  "preserves (steady well_measured) (parseClusterInfo E refresh)"
  "preserves (steady well_measured) (degradedClient E err)"
  unfolding parseClusterInfo_def parseInfraId_def set_clusterInfo_def getVpcEndpointServiceName_def
    findServiceName_def parseRegion_def establishAwsClient_def set_awsClient_def parseVpcId_def selectVpcId_def
    degradedClient_def cleanupFailure_def awsUnauthorizedOperationMetricHandler_def Let_def
  by (intro steady_intros steady_modify; auto intro: measured_read)+

lemma group_measured: "preserves (steady well_measured) (validateSecurityGroup E)"
  unfolding validateSecurityGroup_def findOrCreateSecurityGroup_def foundSecurityGroup_def createMissingSecurityGroup_def
    createMissingSecurityGroupTags_def generateMissingSecurityGroupRules_def lookupVpcCidr_def Let_def
  by (intro steady_intros; auto intro: measured_read)

lemma endpoint_measured: "preserves (steady well_measured) (validateVPCEndpoint E)"
  unfolding validateVPCEndpoint_def findOrCreateVpcEndpoint_def endpointAvailable_def set_pending_metric_def enablePrivateDns_def
    ensureVpcEndpointSubnets_def expectedSubnetIds_def discoverSubnets_def ensureVpcEndpointSecurityGroups_def
    endpointNotReady_def endpointRejected_def invalidateRoute53RecordCondition_def Let_def
  by (intro steady_intros; auto intro: measured_read)

lemma cached_measured:
  "preserves (steady well_measured) (getHostedZoneCached E i)"
  "preserves (steady well_measured) (invalidateHostedZoneCache i)"
  by (rule getHostedZoneCached_steady, simp add: measured_read) (rule invalidateHostedZoneCache_steady)

lemma zone_measured: "preserves (steady well_measured) (validateR53PrivateHostedZone E)"
  unfolding validateR53PrivateHostedZone_def createMissingPrivateZoneTags_def adoptZone_def
    findOrCreatePrivateHostedZone_def resolveDomainName_def zoneForDomain_def zone_in_vpc_def
    private_zone_named_def useHostedZone_def createPrivateHostedZone_def Let_def
  by (intro steady_intros cached_measured; auto intro: measured_read)

lemma record_measured: "preserves (steady well_measured) (validateR53HostedZoneRecord E)"
  unfolding validateR53HostedZoneRecord_def generateRoute53Record_def upsertRecord_def Let_def
  by (intro steady_intros cached_measured; auto intro: measured_read)

lemma authorization_measured: "preserves (steady well_measured) (validateR53HostedZoneAuthorization E)"
  unfolding validateR53HostedZoneAuthorization_def associateVpc_def
  by (intro steady_intros cached_measured steady_modify; auto intro: measured_read)

lemma service_measured: "preserves (steady well_measured) (validateExternalNameService E)"
  unfolding validateExternalNameService_def generateExternalNameService_def createService_def
    fixService_def serviceFailed_def Let_def
  by (intro steady_intros; auto intro: measured_read)

lemma dns_measured: "preserves (steady well_measured) (validateCustomDns E)"
  unfolding validateCustomDns_def validateResources_Cons validateResources_Nil
  by (intro steady_intros zone_measured record_measured authorization_measured service_measured)

lemma poll_measured: "preserves (steady well_measured) (pollDeletion rounds E c i d)"
  by (induction rounds)
    (simp_all, (intro steady_intros | simp add: waitInterval_def forgetEndpoint_def measured_read)+)

lemma cleanup_measured: "preserves (steady well_measured) (cleanupAwsResources rounds E)"
  unfolding cleanupAwsResources_def cleanupRecord_def deleteRecord_def deleteNamedRecord_def cleanupZone_def
    ownsZone_def forgetZone_def deleteOtherRecord_def clearZone_def zoneDeleted_def deleteZone_def cleanupMetrics_def
    cleanupEndpoint_def deleteEndpoint_def endpointDeleted_def awaitDeletion_def forgetEndpoint_def
    cleanupGroup_def groupDeleted_def deleteGroup_def Let_def
  by (intro steady_intros poll_measured cached_measured zone_measured; auto intro: measured_read)

lemma validations_measured:
  "preserves (steady well_measured) (validatePhase E)"
  "preserves (steady well_measured) (cleanupError E err)"
  "preserves (steady well_measured) deleteNotReady"
  unfolding validatePhase_def validations_def validateResources_Cons validateResources_Nil validationError_def
    setNotReady_def deleteNotReady_def cleanupError_def cleanupFailure_def Let_def
  by (intro steady_intros parse_measured group_measured endpoint_measured dns_measured; auto intro: measured_read)+

lemma Reconcile_measured: "preserves (emits well_measured) (Reconcile rounds E ns n)"
  unfolding Reconcile_def reconcileFetched_def
  unfolding reconcileDeletion_def reconcileLive_split
    registerFinalizer_def has_finalizer_def set_finalizers_def updateVpcEndpoint_def removeFinalizer_def resource_def Let_def
  by (intro emits_intros emits_modify validations_measured [THEN preserves_steady_emits]
      parse_measured [THEN preserves_steady_emits] cleanup_measured [THEN preserves_steady_emits]; simp)

lemma reconcileAcceptance_measured:
  "preserves (emits (measured acceptance_collectors)) (reconcileAcceptance E ns n)"
proof -
  have "preserves (emits (measured acceptance_collectors)) (AcceptVpcEndpointConnections E c i ids)"
      "preserves (emits (measured acceptance_collectors)) (GetVpcEndpointConnectionsPendingAcceptance E c i)"
      "preserves (emits (measured acceptance_collectors)) (connectionsToAccept E criteria conns)" for c i ids criteria conns
    unfolding AcceptVpcEndpointConnections_def GetVpcEndpointConnectionsPendingAcceptance_def
      connectionsToAccept_def acceptConnection_def
    by (intro emits_intros; simp)+
  then show ?thesis
    unfolding reconcileAcceptance_def acceptFetched_def pollPending_def acceptanceConfig_def
    by (intro emits_intros emits_modify; simp add: collector_defs has_collector_def)
qed

lemma new_events_all:
  assumes "preserves (emits P) m"
  shows "list_all P (new_events x (snd (m x)))"
proof -
  from assms have "emits P x (snd (m x))" by (simp add: preserves_def)
  then show ?thesis by (auto simp: list_all_iff intro: new_events_emits)
qed

text \<open>
  C33: the metrics never panic. The collectors of both controllers can be registered together, in one
  registry: their full names differ and the buckets of the histograms increase. Every update that a
  reconciliation makes, whatever it comes to, names a registered collector of the right kind and
  gives it as many values as it has labels.
\<close>

theorem metrics_never_panic:
  "registrable (registered_collectors @ acceptance_collectors) \<and>
   list_all (measured registered_collectors) (new_events s (snd (Reconcile rounds E ns n s))) \<and>
   list_all (measured acceptance_collectors) (new_events u (snd (reconcileAcceptance E' ns' n' u)))"
proof -
  have "list_all (measured registered_collectors) (new_events s (snd (Reconcile rounds E ns n s)))"
      "list_all (measured acceptance_collectors) (new_events u (snd (reconcileAcceptance E' ns' n' u)))"
    by (rule new_events_all [OF Reconcile_measured], rule new_events_all [OF reconcileAcceptance_measured])
  moreover have "registrable (registered_collectors @ acceptance_collectors)"
    by (simp add: registrable_def fq_name_def collector_defs)
  ultimately show ?thesis by blast
qed

end
