(* ===== verification/DnsResults.thy ===== *)
theory DnsResults
  imports CustomDns
begin

text \<open>
  What the validations of the custom DNS achieve: when a hosted zone is created, which record is
  written, in which order a VPC of another account is authorized and associated, and what the
  ExternalName service ends up pointing at.
\<close>

section \<open>Creating a zone\<close>

fun creates_zone :: "event \<Rightarrow> bool" where
  "creates_zone (R53 _ (DoCreateHostedZone _ _ _)) = True"
| "creates_zone _ = False"

lemma creates_zone_quiet: "aws_read e \<Longrightarrow> \<not> creates_zone e" "lookup_event e \<Longrightarrow> \<not> creates_zone e"
  by (cases e rule: creates_zone.cases; simp)+

text \<open>The searches in the lists of zones: what it means that they find nothing.\<close>

lemma no_zone_in_vpc:
  "findE (zone_in_vpc domain) zones s = (Ok None, t) \<Longrightarrow>
   t = s \<and> list_all (\<lambda>z. \<exists>n. hs_Name z = Some n \<and> trim_right n (CHR ''.'') \<noteq> domain) zones"
  by (induction zones)
    (auto simp: zone_in_vpc_def bindE_assoc bindE_ret_left bindE_Ok run_eqs split: if_splits option.splits)

lemma no_private_zone:
  "findE (private_zone_named domain) zones s = (Ok None, t) \<Longrightarrow>
   t = s \<and> list_all (\<lambda>z. \<exists>n. hz_Name z = Some n \<and>
     \<not> (trim_right n (CHR ''.'') = domain \<and> hz_PrivateZone z = Some True)) zones"
  by (induction zones)
    (auto simp: private_zone_named_def bindE_assoc bindE_ret_left bindE_Ok run_eqs split: if_splits option.splits)

lemma find_calls:
  "preserves (calls A) (findE (zone_in_vpc domain) summaries)"
  "preserves (calls A) (findE (private_zone_named domain) zones)"
  unfolding zone_in_vpc_def private_zone_named_def by (intro calls_intros)+

definition by_name :: "env \<Rightarrow> awsConfig \<Rightarrow> string \<Rightarrow> unit rprog" where
  "by_name E c domain =
     bindE (mapErr (Wrapf ''failed to check for existing hosted zones by name: %w'' [])
              (ListHostedZonesByName E c domain)) (\<lambda>zones.
     bindE (findE (private_zone_named domain) zones) (\<lambda>byName.
     case byName of
       Some hz \<Rightarrow> bindE (deref (hz_Id hz)) (useHostedZone E)
     | None \<Rightarrow> createPrivateHostedZone E c domain))"

definition in_vpc_or_by_name :: "env \<Rightarrow> awsConfig \<Rightarrow> string \<Rightarrow> vpcEndpointStatus \<Rightarrow> string \<Rightarrow> unit rprog" where
  "in_vpc_or_by_name E c domain st awsRegion =
     bindE (ListHostedZonesByVPC E c (st_VPCId st) awsRegion) (\<lambda>summaries.
     bindE (findE (zone_in_vpc domain) summaries) (\<lambda>inVpc.
     case inVpc of
       Some hz \<Rightarrow>
         bindE (deref (hs_HostedZoneId hz)) (\<lambda>zoneId.
         whenE (st_HostedZoneId st \<noteq> zoneId)
           (bindE (set_status (\<lambda>v. v\<lparr>st_HostedZoneId := zoneId\<rparr>)) (\<lambda>_. updateStatus E)))
     | None \<Rightarrow> by_name E c domain))"

lemma zoneForDomain_stages:
  "zoneForDomain E domain =
     bindE status (\<lambda>st. bindE region (\<lambda>r. bindE awsClient (\<lambda>c. in_vpc_or_by_name E c domain st r)))"
  unfolding zoneForDomain_def in_vpc_or_by_name_def by_name_def ..

lemma zone_update_quiet:
  "preserves (steady (\<lambda>e. \<not> creates_zone e)) (useHostedZone E zoneId)"
  "preserves (steady (\<lambda>e. \<not> creates_zone e))
     (whenE b (bindE (set_status f) (\<lambda>_. updateStatus E)))"
  unfolding useHostedZone_def by (intro steady_intros; simp)+

lemma createPrivateHostedZone_creates:
  assumes "createPrivateHostedZone E c domain s = (r, t)" "e \<in> set (new_events s t)" "creates_zone e"
  shows "\<exists>info. rc_clusterInfo s = Some info \<and>
    e = R53 c (DoCreateHostedZone domain (st_VPCId (rc_status s)) (ci_region info))"
proof (cases "rc_clusterInfo s")
  case None
  with assms show ?thesis by (simp add: createPrivateHostedZone_def run_simps new_events_def)
next
  case (Some info)
  define k :: "hostedZone option \<Rightarrow> unit rprog" where "k created = bindE (deref created) (\<lambda>hz. bindE (deref (hz_Id hz)) (\<lambda>zoneId.
     bindE (set_status (\<lambda>v. v\<lparr>st_HostedZoneId := parse_zone_id zoneId\<rparr>)) (\<lambda>_.
     bindE (record_normal ''Created'') (\<lambda>_.
     mapErr (Wrapf ''failed to update status: %w'' []) (updateStatus E)))))" for created
  let ?ev = "R53 c (DoCreateHostedZone domain (st_VPCId (rc_status s)) (ci_region info))"
  have run: "bindE (mapErr (Wrapf ''failed to create hosted zone: %w'' []) (CreateHostedZone E c domain
      (st_VPCId (rc_status s)) (ci_region info))) k s = (r, t)"
    using assms(1) Some unfolding createPrivateHostedZone_def k_def
    by (simp add: bindE_run [of status] bindE_run [of region] status_run region_run)
  have k: "preserves (emits (\<lambda>e. \<not> creates_zone e)) (k x)" for x
    unfolding k_def by (intro preserves_steady_emits steady_intros) simp_all
  have c: "preserves (emits (\<lambda>e. e = ?ev)) (mapErr f (CreateHostedZone E c domain (st_VPCId (rc_status s)) (ci_region info)))" for f
    unfolding CreateHostedZone_def by (intro emits_intros) simp
  obtain q u where "mapErr (Wrapf ''failed to create hosted zone: %w'' []) (CreateHostedZone E c domain
      (st_VPCId (rc_status s)) (ci_region info)) s = (q, u)" "e \<in> set (new_events s u)"
    by (rule event_earlier [OF run assms(2) c k]) (use assms(3) in simp)
  with preservesD [OF c] Some show ?thesis by (blast dest: new_events_emits)
qed

lemma by_name_creates:
  assumes "by_name E c domain s = (r, t)" "e \<in> set (new_events s t)" "creates_zone e"
  shows "\<exists>info zones. rc_clusterInfo s = Some info \<and>
    e = R53 c (DoCreateHostedZone domain (st_VPCId (rc_status s)) (ci_region info)) \<and>
    reported (r53_ListHostedZonesByName (r53 E)) (R53 c (DoListHostedZonesByName domain)) zones s t \<and>
    list_all (\<lambda>z. \<exists>n. hz_Name z = Some n \<and>
      \<not> (trim_right n (CHR ''.'') = domain \<and> hz_PrivateZone z = Some True)) zones"
proof -
  let ?k2 = "\<lambda>byName. case byName of Some hz \<Rightarrow> bindE (deref (hz_Id hz)) (useHostedZone E)
    | None \<Rightarrow> createPrivateHostedZone E c domain"
  let ?k = "\<lambda>zones. bindE (findE (private_zone_named domain) zones) ?k2"
  have grow2: "preserves (emits (\<lambda>_. True)) (?k2 x)" for x
    unfolding useHostedZone_def createPrivateHostedZone_def by (intro preserves_steady_emits steady_intros; simp)
  have grow: "preserves (emits (\<lambda>_. True)) (?k x)" for x
    by (intro em.bindE preserves_calls_emits [OF find_calls(2)] grow2)
  have list: "preserves (calls (\<lambda>e. \<not> creates_zone e)) (mapErr f (ListHostedZonesByName E c domain))" for f
    by (intro calls_intros r53_readers) (simp add: creates_zone_quiet)
  obtain zones u where l: "mapErr (Wrapf ''failed to check for existing hosted zones by name: %w'' [])
      (ListHostedZonesByName E c domain) s = (Ok zones, u)" and k: "?k zones u = (r, t)"
    and e: "e \<in> set (new_events u t)"
    by (rule event_later [OF assms(1) [unfolded by_name_def] assms(2) preserves_calls_emits [OF list] grow])
      (use assms(3) in simp)
  obtain x w where f: "findE (private_zone_named domain) zones u = (Ok x, w)" and k2: "?k2 x w = (r, t)"
    and e2: "e \<in> set (new_events w t)"
    by (rule event_later [OF k e preserves_calls_emits [OF find_calls(2) [of "\<lambda>_. False"]] grow2]) simp
  have su: "rc_status u = rc_status s" "rc_clusterInfo u = rc_clusterInfo s"
    using preservesD [OF list l] by (auto simp: calls_def)
  have x: "x = None"
  proof (rule ccontr)
    assume "x \<noteq> None"
    then obtain hz where "x = Some hz" by auto
    moreover have "preserves (steady (\<lambda>e. \<not> creates_zone e)) (bindE (deref (hz_Id hz)) (useHostedZone E))"
      by (intro sy.bindE sy.deref zone_update_quiet)
    ultimately show False using k2 e2 assms(3) by (auto dest!: preservesD dest: steady_event)
  qed
  with f no_private_zone have w: "w = u" and none: "list_all (\<lambda>z. \<exists>n. hz_Name z = Some n \<and>
      \<not> (trim_right n (CHR ''.'') = domain \<and> hz_PrivateZone z = Some True)) zones" by auto
  have "reported (r53_ListHostedZonesByName (r53 E)) (R53 c (DoListHostedZonesByName domain)) zones s u"
    using l by (auto simp: ListHostedZonesByName_def mapErr_Ok dest: invoke_reported)
  then have "reported (r53_ListHostedZonesByName (r53 E)) (R53 c (DoListHostedZonesByName domain)) zones s t"
    by (rule reported_later [OF _ preservesD [OF grow k]])
  with createPrivateHostedZone_creates [of E c domain w r t e] x k2 e2 assms(3) none w su show ?thesis by auto
qed

lemma in_vpc_or_by_name_creates:
  assumes "in_vpc_or_by_name E c domain st awsRegion s = (r, t)" "e \<in> set (new_events s t)" "creates_zone e"
  shows "\<exists>info summaries zones. rc_clusterInfo s = Some info \<and>
    e = R53 c (DoCreateHostedZone domain (st_VPCId (rc_status s)) (ci_region info)) \<and>
    reported (r53_ListHostedZonesByVPC (r53 E)) (R53 c (DoListHostedZonesByVPC (st_VPCId st) awsRegion)) summaries s t \<and>
    list_all (\<lambda>z. \<exists>n. hs_Name z = Some n \<and> trim_right n (CHR ''.'') \<noteq> domain) summaries \<and>
    reported (r53_ListHostedZonesByName (r53 E)) (R53 c (DoListHostedZonesByName domain)) zones s t \<and>
    list_all (\<lambda>z. \<exists>n. hz_Name z = Some n \<and>
      \<not> (trim_right n (CHR ''.'') = domain \<and> hz_PrivateZone z = Some True)) zones"
proof -
  let ?k2 = "\<lambda>inVpc. case inVpc of Some hz \<Rightarrow> bindE (deref (hs_HostedZoneId hz)) (\<lambda>zoneId.
         whenE (st_HostedZoneId st \<noteq> zoneId)
           (bindE (set_status (\<lambda>v. v\<lparr>st_HostedZoneId := zoneId\<rparr>)) (\<lambda>_. updateStatus E)))
    | None \<Rightarrow> by_name E c domain"
  let ?k = "\<lambda>summaries. bindE (findE (zone_in_vpc domain) summaries) ?k2"
  have grow2: "preserves (emits (\<lambda>_. True)) (?k2 x)" for x
    unfolding by_name_def useHostedZone_def createPrivateHostedZone_def private_zone_named_def
    by (intro preserves_steady_emits steady_intros; simp)
  have grow: "preserves (emits (\<lambda>_. True)) (?k x)" for x
    by (intro em.bindE preserves_calls_emits [OF find_calls(1)] grow2)
  have list: "preserves (calls (\<lambda>e. \<not> creates_zone e)) (ListHostedZonesByVPC E c (st_VPCId st) awsRegion)"
    by (rule r53_readers) (simp add: creates_zone_quiet)
  obtain summaries u where l: "ListHostedZonesByVPC E c (st_VPCId st) awsRegion s = (Ok summaries, u)"
    and k: "?k summaries u = (r, t)" and e: "e \<in> set (new_events u t)"
    by (rule event_later [OF assms(1) [unfolded in_vpc_or_by_name_def] assms(2) preserves_calls_emits [OF list] grow])
      (use assms(3) in simp)
  obtain x w where f: "findE (zone_in_vpc domain) summaries u = (Ok x, w)" and k2: "?k2 x w = (r, t)"
    and e2: "e \<in> set (new_events w t)"
    by (rule event_later [OF k e preserves_calls_emits [OF find_calls(1) [of "\<lambda>_. False"]] grow2]) simp
  have su: "rc_status u = rc_status s" "rc_clusterInfo u = rc_clusterInfo s" "emits (\<lambda>_. True) s u"
    using preservesD [OF list l] by (auto simp: calls_def emits_def)
  have x: "x = None"
  proof (rule ccontr)
    assume "x \<noteq> None"
    then obtain hz where "x = Some hz" by auto
    moreover have "preserves (steady (\<lambda>e. \<not> creates_zone e)) (?k2 (Some hz))"
      unfolding option.case by (intro sy.bindE sy.deref zone_update_quiet)
    ultimately show False using k2 e2 assms(3) by (auto dest!: preservesD dest: steady_event)
  qed
  with f no_zone_in_vpc have w: "w = u" and none: "list_all (\<lambda>z. \<exists>n. hs_Name z = Some n \<and>
      trim_right n (CHR ''.'') \<noteq> domain) summaries" by auto
  have "reported (r53_ListHostedZonesByVPC (r53 E)) (R53 c (DoListHostedZonesByVPC (st_VPCId st) awsRegion)) summaries s u"
    using l by (auto simp: ListHostedZonesByVPC_def dest: invoke_reported)
  then have "reported (r53_ListHostedZonesByVPC (r53 E)) (R53 c (DoListHostedZonesByVPC (st_VPCId st) awsRegion)) summaries s t"
    by (rule reported_later [OF _ preservesD [OF grow k]])
  moreover have "by_name E c domain u = (r, t)" "e \<in> set (new_events u t)" using x k2 e2 w by simp_all
  note by_name_creates [OF this assms(3)]
  ultimately show ?thesis using none su by (auto intro: reported_sooner)
qed

lemma resolveDomainName_calls: "preserves (calls (\<lambda>e. \<not> creates_zone e)) (resolveDomainName E)"
  unfolding resolveDomainName_def resource_def Let_def
  by (intro calls_intros k8s_calls; simp add: creates_zone_quiet)

lemma zoneForDomain_creates:
  assumes "zoneForDomain E domain s = (r, t)" "e \<in> set (new_events s t)" "creates_zone e"
  shows "\<exists>c info summaries zones. rc_awsClient s = Some c \<and> rc_clusterInfo s = Some info \<and>
    e = R53 c (DoCreateHostedZone domain (st_VPCId (rc_status s)) (ci_region info)) \<and>
    reported (r53_ListHostedZonesByVPC (r53 E))
      (R53 c (DoListHostedZonesByVPC (st_VPCId (rc_status s)) (ci_region info))) summaries s t \<and>
    list_all (\<lambda>z. \<exists>n. hs_Name z = Some n \<and> trim_right n (CHR ''.'') \<noteq> domain) summaries \<and>
    reported (r53_ListHostedZonesByName (r53 E)) (R53 c (DoListHostedZonesByName domain)) zones s t \<and>
    list_all (\<lambda>z. \<exists>n. hz_Name z = Some n \<and>
      \<not> (trim_right n (CHR ''.'') = domain \<and> hz_PrivateZone z = Some True)) zones"
proof (cases "rc_clusterInfo s")
  case None
  with assms show ?thesis by (simp add: zoneForDomain_stages run_simps new_events_def)
next
  case (Some info)
  show ?thesis
  proof (cases "rc_awsClient s")
    case None
    with assms Some show ?thesis by (simp add: zoneForDomain_stages run_simps new_events_def)
  next
    case (Some c)
    with assms(1) \<open>rc_clusterInfo s = Some info\<close>
    have "in_vpc_or_by_name E c domain (rc_status s) (ci_region info) s = (r, t)"
      by (simp add: zoneForDomain_stages bindE_run [of status] bindE_run [of region] bindE_run [of awsClient]
          status_run region_run awsClient_run)
    from in_vpc_or_by_name_creates [OF this assms(2,3)] Some \<open>rc_clusterInfo s = Some info\<close> show ?thesis by auto
  qed
qed

lemma findOrCreateZone_creates:
  assumes "findOrCreatePrivateHostedZone E s = (r, t)" "e \<in> set (new_events s t)" "creates_zone e"
  shows "st_HostedZoneId (rc_status s) = '''' \<and> (\<exists>domain u. resolveDomainName E s = (Ok domain, u) \<and>
    domain \<noteq> '''' \<and> zoneForDomain E domain u = (r, t) \<and> e \<in> set (new_events u t))"
proof (cases "st_HostedZoneId (rc_status s) = ''''")
  case True
  then have run: "bindE (resolveDomainName E) (\<lambda>domain. whenE (domain \<noteq> '''') (zoneForDomain E domain)) s = (r, t)"
    using assms(1) by (simp add: findOrCreatePrivateHostedZone_def bindE_run [of status] status_run)
  have grow: "preserves (emits (\<lambda>_. True)) (whenE (domain \<noteq> '''') (zoneForDomain E domain))" for domain
    unfolding zoneForDomain_stages in_vpc_or_by_name_def by_name_def useHostedZone_def createPrivateHostedZone_def
      private_zone_named_def zone_in_vpc_def
    by (intro preserves_steady_emits steady_intros; simp)
  obtain domain u where "resolveDomainName E s = (Ok domain, u)"
    "whenE (domain \<noteq> '''') (zoneForDomain E domain) u = (r, t)" "e \<in> set (new_events u t)"
    by (rule event_later [OF run assms(2) preserves_calls_emits [OF resolveDomainName_calls] grow]) (use assms(3) in simp)
  with True show ?thesis by (auto simp: whenE_eq new_events_def split: if_splits)
next
  case False
  then have "bindE (getHostedZoneCached E (st_HostedZoneId (rc_status s))) (\<lambda>resp.
       bindE (deref (gh_HostedZone resp)) (\<lambda>hz.
       bindE (deref (hz_Id hz)) (\<lambda>zoneId.
       if zoneId = ''/hostedzone/'' @ st_HostedZoneId (rc_status s) then ret ()
       else failE (Errorf ''could not find hosted zone %s'' [FS (st_HostedZoneId (rc_status s))])))) s = (r, t)"
    using assms(1) by (simp add: findOrCreatePrivateHostedZone_def bindE_run [of status] status_run)
  moreover have "preserves (steady aws_read) (bindE (getHostedZoneCached E (st_HostedZoneId (rc_status s))) (\<lambda>resp.
       bindE (deref (gh_HostedZone resp)) (\<lambda>hz.
       bindE (deref (hz_Id hz)) (\<lambda>zoneId.
       if zoneId = ''/hostedzone/'' @ st_HostedZoneId (rc_status s) then ret ()
       else failE (Errorf ''could not find hosted zone %s'' [FS (st_HostedZoneId (rc_status s))])))))"
    by (intro steady_intros getHostedZoneCached_steady) simp
  ultimately show ?thesis
    using assms(2,3) creates_zone_quiet(1) by (auto dest!: preservesD dest: steady_event)
qed

definition discovered_zone :: "env \<Rightarrow> vpcEndpointStatus \<Rightarrow> unit rprog" where
  "discovered_zone E st =
     bindE (dnses_GetPrivateHostedZoneDomainName E DefaultDnsesName) (\<lambda>domain.
     bindE awsClient (\<lambda>c.
     bindE region (\<lambda>awsRegion.
     bindE (GetDefaultPrivateHostedZoneId E c domain (st_VPCId st) awsRegion) (\<lambda>hz.
     bindE (deref (hs_HostedZoneId hz)) (adoptZone E)))))"

definition zone_by_id :: "env \<Rightarrow> string \<Rightarrow> unit rprog" where
  "zone_by_id E i =
     bindE (getHostedZoneCached E i) (\<lambda>resp.
     bindE (deref (gh_HostedZone resp)) (\<lambda>hz.
     bindE (deref (hz_Id hz)) (adoptZone E)))"

definition tags_if_needed :: "env \<Rightarrow> unit rprog" where
  "tags_if_needed E =
     bindE (isConditionTrue E AWSRoute53TagsCondition) (\<lambda>tagged.
     whenE (\<not> tagged) (createMissingPrivateZoneTags E))"

lemma validateR53PrivateHostedZone_run:
  "validateR53PrivateHostedZone E s =
     (let z = ve_Zone (rc_resource s) in
      if phz_AutoDiscover z then discovered_zone E (rc_status s) s
      else if phz_Id z \<noteq> [] then zone_by_id E (phz_Id z) s
      else if phz_DomainName z \<noteq> [] \<or> phz_DomainNameRef z \<noteq> None
      then bindE (findOrCreatePrivateHostedZone E) (\<lambda>_. tags_if_needed E) s
      else (Ok (), s))"
  by (simp add: validateR53PrivateHostedZone_def discovered_zone_def zone_by_id_def tags_if_needed_def
      bindE_run [of resource] resource_run ret_run Let_def)

lemma zone_given_quiet:
  "preserves (steady (\<lambda>e. \<not> creates_zone e)) (discovered_zone E st)"
  "preserves (steady (\<lambda>e. \<not> creates_zone e)) (zone_by_id E i)"
  "preserves (steady (\<lambda>e. \<not> creates_zone e)) (tags_if_needed E)"
  unfolding discovered_zone_def zone_by_id_def adoptZone_def tags_if_needed_def createMissingPrivateZoneTags_def
  by (intro steady_intros getHostedZoneCached_steady; simp add: creates_zone_quiet)+

lemma validateZone_creates:
  assumes "validateR53PrivateHostedZone E s = (r, t)" "e \<in> set (new_events s t)" "creates_zone e"
  shows "\<not> phz_AutoDiscover (ve_Zone (rc_resource s)) \<and> phz_Id (ve_Zone (rc_resource s)) = [] \<and>
    (\<exists>q u. findOrCreatePrivateHostedZone E s = (q, u) \<and> e \<in> set (new_events s u) \<and> emits (\<lambda>_. True) u t)"
proof -
  have quiet: False if "preserves (steady (\<lambda>e. \<not> creates_zone e)) m" "m s = (r, t)" for m :: "unit rprog"
    using preservesD [OF that] assms(2,3) by (auto dest: steady_event)
  let ?z = "ve_Zone (rc_resource s)"
  have given: "\<not> phz_AutoDiscover ?z" "phz_Id ?z = []"
    and run: "bindE (findOrCreatePrivateHostedZone E) (\<lambda>_. tags_if_needed E) s = (r, t)"
    using assms(1,2) quiet [OF zone_given_quiet(1)] quiet [OF zone_given_quiet(2)]
    by (auto simp: validateR53PrivateHostedZone_run Let_def new_events_def split: if_splits)
  have tags: "preserves (emits (\<lambda>e. \<not> creates_zone e)) (tags_if_needed E)"
    by (rule preserves_steady_emits) (rule zone_given_quiet)
  have grow: "preserves (emits (\<lambda>_. True)) (findOrCreatePrivateHostedZone E)"
    by (rule emits_any_prog [OF preserves_steady_emits [OF zone_steps_steady(3)]])
  obtain q u where f: "findOrCreatePrivateHostedZone E s = (q, u)" and e: "e \<in> set (new_events s u)"
    by (rule event_earlier [OF run assms(2) grow tags]) (use assms(3) in simp)
  have "emits (\<lambda>_. True) u t"
    using run f preservesD [OF emits_any_prog [OF tags]] by (cases q) (auto simp: bindE_run emits_refl)
  with given f e show ?thesis by blast
qed

text \<open>
  A hosted zone is created only if there is none. When the validation of the zone asks AWS to
  create one, the status named none, the spec gives a domain name and not the id of a zone, and
  AWS had reported, in the same run, no zone of that name associated with the VPC and no private
  zone of that name in the account. The new zone has the domain name of the spec, and is
  associated with the VPC of the status in the region of the cluster.
\<close>

lemma zone_created_only_if_missing:
  assumes "validateR53PrivateHostedZone E s = (r, t)"
    and "R53 c (DoCreateHostedZone domain vpc reg) \<in> set (new_events s t)"
  shows "st_HostedZoneId (rc_status s) = '''' \<and> domain \<noteq> '''' \<and>
    fst (resolveDomainName E s) = Ok domain \<and> vpc = st_VPCId (rc_status s) \<and>
    \<not> phz_AutoDiscover (ve_Zone (rc_resource s)) \<and> phz_Id (ve_Zone (rc_resource s)) = '''' \<and>
    (\<exists>info summaries zones. rc_clusterInfo s = Some info \<and> reg = ci_region info \<and>
      reported (r53_ListHostedZonesByVPC (r53 E)) (R53 c (DoListHostedZonesByVPC vpc reg)) summaries s t \<and>
      list_all (\<lambda>z. \<exists>n. hs_Name z = Some n \<and> trim_right n (CHR ''.'') \<noteq> domain) summaries \<and>
      reported (r53_ListHostedZonesByName (r53 E)) (R53 c (DoListHostedZonesByName domain)) zones s t \<and>
      list_all (\<lambda>z. \<exists>n. hz_Name z = Some n \<and>
        \<not> (trim_right n (CHR ''.'') = domain \<and> hz_PrivateZone z = Some True)) zones)"
proof -
  let ?e = "R53 c (DoCreateHostedZone domain vpc reg)"
  have z: "creates_zone ?e" by simp
  obtain q u where given: "\<not> phz_AutoDiscover (ve_Zone (rc_resource s))" "phz_Id (ve_Zone (rc_resource s)) = []"
    and f: "findOrCreatePrivateHostedZone E s = (q, u)" "?e \<in> set (new_events s u)" and ut: "emits (\<lambda>_. True) u t"
    using validateZone_creates [OF assms z] by blast
  obtain d w where st: "st_HostedZoneId (rc_status s) = []" and d: "resolveDomainName E s = (Ok d, w)" "d \<noteq> []"
    and w: "zoneForDomain E d w = (q, u)" "?e \<in> set (new_events w u)"
    using findOrCreateZone_creates [OF f z] by blast
  have sw: "rc_status w = rc_status s" "rc_clusterInfo w = rc_clusterInfo s" "emits (\<lambda>_. True) s w"
    using preservesD [OF resolveDomainName_calls d(1)] by (auto simp: calls_def emits_def)
  obtain c' info summaries zones where i: "rc_clusterInfo s = Some info"
    and e: "?e = R53 c' (DoCreateHostedZone d (st_VPCId (rc_status s)) (ci_region info))"
    and v: "reported (r53_ListHostedZonesByVPC (r53 E))
      (R53 c' (DoListHostedZonesByVPC (st_VPCId (rc_status s)) (ci_region info))) summaries w u"
    and n: "reported (r53_ListHostedZonesByName (r53 E)) (R53 c' (DoListHostedZonesByName d)) zones w u"
    and none: "list_all (\<lambda>z. \<exists>n. hs_Name z = Some n \<and> trim_right n (CHR ''.'') \<noteq> d) summaries"
      "list_all (\<lambda>z. \<exists>n. hz_Name z = Some n \<and> \<not> (trim_right n (CHR ''.'') = d \<and> hz_PrivateZone z = Some True)) zones"
    using zoneForDomain_creates [OF w z] unfolding sw by blast
  note reports = reported_sooner [OF sw(3) reported_later [OF v ut]] reported_sooner [OF sw(3) reported_later [OF n ut]]
  from e have "c' = c" "d = domain" "vpc = st_VPCId (rc_status s)" "reg = ci_region info" by simp_all
  with given st d i none reports show ?thesis by auto
qed

definition named_zone_state :: reconciler where
  "named_zone_state = sample_state\<lparr>rc_resource := sample_endpoint\<lparr>ve_Spec := sample_spec\<lparr>
     sp_CustomDns := \<lparr>dns_Route53PrivateHostedZone = sample_zone\<lparr>phz_DomainName := ''svc.example.com''\<rparr>\<rparr>\<rparr>\<rparr>\<rparr>"

lemma zone_created_only_if_missing_example:
  "\<exists>summaries. reported (r53_ListHostedZonesByVPC (r53 ref_env))
     (R53 sample_config (DoListHostedZonesByVPC ''vpc-1'' ''us-east-1'')) summaries
     named_zone_state (snd (validateR53PrivateHostedZone ref_env named_zone_state))"
proof -
  have "R53 sample_config (DoCreateHostedZone ''svc.example.com'' ''vpc-1'' ''us-east-1'')
      \<in> set (new_events named_zone_state (snd (validateR53PrivateHostedZone ref_env named_zone_state)))"
    by (simp add: validateR53PrivateHostedZone_def findOrCreatePrivateHostedZone_def resolveDomainName_def
        zoneForDomain_def createPrivateHostedZone_def ListHostedZonesByVPC_def ListHostedZonesByName_def
        CreateHostedZone_def named_zone_state_def run_simps ref_defs sample_defs new_events_def Let_def)
  from zone_created_only_if_missing [OF prod.collapse [symmetric] this] show ?thesis by blast
qed

section \<open>The record\<close>

lemma getHostedZoneCached_keeps:
  assumes "getHostedZoneCached E i s = (r, t)"
  shows "rc_resource t = rc_resource s \<and> rc_awsClient t = rc_awsClient s \<and> rc_clusterInfo t = rc_clusterInfo s"
proof -
  have fetch: "rc_resource t = rc_resource u \<and> rc_awsClient t = rc_awsClient u \<and> rc_clusterInfo t = rc_clusterInfo u"
    if "fetchHostedZone E i u = (r, t)" for u
    using that
    by (cases "rc_awsClient u") (auto simp: fetchHostedZone_def GetHostedZone_def run_simps split: sum.splits if_splits)
  from assms show ?thesis
    by (cases rule: getHostedZoneCached_cases) (auto dest: fetch)
qed

lemma generateRoute53Record_calls: "preserves (calls aws_read) (generateRoute53Record E)"
  unfolding generateRoute53Record_def resource_def awsClient_def by (intro calls_intros aws_calls; simp)

lemma generateRoute53Record_Ok:
  assumes "generateRoute53Record E s = (Ok (Some val), t)"
  shows "\<exists>c vpce rest. rc_awsClient s = Some c \<and> reported (ec2_DescribeVpcEndpoints (ec2 E))
    (Ec2 c (DoDescribeVpcEndpoints [] [st_VPCEndpointId (rc_status s)])) [vpce] s t \<and>
    evp_State vpce = ''available'' \<and> evp_DnsEntries vpce = val # rest"
proof -
  from assms obtain c resp u where c: "rc_awsClient s = Some c"
    and d: "DescribeSingleVPCEndpointById E c (st_VPCEndpointId (rc_status s)) s = (Ok resp, u)"
    and k: "(case resp of
         Some (vpce # _) \<Rightarrow>
           if evp_State vpce \<noteq> ''available''
           then failE (Errorf ''VPCEndpoint is not in the available state'' [])
           else (case evp_DnsEntries vpce of
                   [] \<Rightarrow>
                     if om_DeletionTimestamp (ve_Meta (rc_resource s)) \<noteq> None then ret None
                     else failE (Errorf ''VPCEndpoint has no DNS entries'' [])
                 | entry # _ \<Rightarrow> ret (Some entry))
       | _ \<Rightarrow> ret None) u = (Ok (Some val), t)"
    by (auto simp: generateRoute53Record_def bindE_Ok resource_eq awsClient_eq failE_eq split: if_splits option.splits)
  then obtain vpce others rest where "resp = Some (vpce # others)" "evp_State vpce = ''available''"
    "evp_DnsEntries vpce = val # rest" "t = u"
    by (auto simp: run_eqs split: option.splits list.splits if_splits)
  with c DescribeSingle_Ok d show ?thesis by blast
qed

fun upserts :: "event \<Rightarrow> bool" where
  "upserts (R53 _ (DoUpsertResourceRecordSet _ _)) = True"
| "upserts _ = False"

lemma upserts_read: "aws_read e \<Longrightarrow> \<not> upserts e"
  by (cases e rule: upserts.cases) simp_all

definition after_upsert :: "env \<Rightarrow> string \<Rightarrow> unit rprog" where
  "after_upsert E name =
     bindE (isConditionTrue E AWSRoute53RecordCondition) (\<lambda>ready.
     bindE (whenE (\<not> ready)
              (bindE (age E) (\<lambda>d. metric (Observe ''vpce_route53_ready_duration_seconds'' d)))) (\<lambda>_.
     bindE (set_status (\<lambda>v. v\<lparr>st_ResourceRecordSet := name\<rparr>)) (\<lambda>_.
     bindE (setCondition E AWSRoute53RecordCondition ConditionTrue ''Created'' (''Created: '' @ name)) (\<lambda>_.
     updateStatus E))))"

lemma after_upsert_frame:
  "preserves (emits (\<lambda>e. \<not> upserts e)) (after_upsert E name)"
  "yields (after_upsert E name) (\<lambda>_ t. st_ResourceRecordSet (rc_status t) = name)"
  unfolding after_upsert_def
  by (intro preserves_steady_emits steady_intros; simp)
    (rule yieldsI, auto simp: bindE_Ok set_status_eq setCondition_eq updateStatus_Ok)

lemma upsertRecord_upserts:
  assumes "upsertRecord E resp val s = (r, t)" "e \<in> set (new_events s t)" "upserts e"
  shows "\<exists>c hz i zn. rc_awsClient s = Some c \<and> gh_HostedZone resp = Some hz \<and> hz_Id hz = Some i \<and> hz_Name hz = Some zn \<and>
    (let name = rec_Hostname (phz_Record (ve_Zone (rc_resource s))) @ ''.'' @ trim_right zn (CHR ''.'')
     in e = R53 c (DoUpsertResourceRecordSet (cname_record name val) i) \<and>
        (r = Ok () \<longrightarrow> st_ResourceRecordSet (rc_status t) = name))"
proof (cases "\<exists>hz i zn c. gh_HostedZone resp = Some hz \<and> hz_Id hz = Some i \<and> hz_Name hz = Some zn \<and> rc_awsClient s = Some c")
  case True
  then obtain hz i zn c where z: "gh_HostedZone resp = Some hz" "hz_Id hz = Some i" "hz_Name hz = Some zn" "rc_awsClient s = Some c"
    by blast
  let ?name = "rec_Hostname (phz_Record (ve_Zone (rc_resource s))) @ ''.'' @ trim_right zn (CHR ''.'')"
  let ?ev = "R53 c (DoUpsertResourceRecordSet (cname_record ?name val) i)"
  have run: "bindE (UpsertResourceRecordSet E c (cname_record ?name val) i) (\<lambda>_. after_upsert E ?name) s = (r, t)"
    using assms(1) z unfolding upsertRecord_def after_upsert_def
    by (simp add: bindE_run [of resource] bindE_run [of "deref _"] bindE_run [of awsClient] resource_run awsClient_run
        deref_run Let_def)
  have u: "preserves (emits (\<lambda>e. e = ?ev)) (UpsertResourceRecordSet E c (cname_record ?name val) i)"
    unfolding UpsertResourceRecordSet_def by (intro emits_intros) simp
  obtain q w where "UpsertResourceRecordSet E c (cname_record ?name val) i s = (q, w)" "e \<in> set (new_events s w)"
    by (rule event_earlier [OF run assms(2) u after_upsert_frame(1)]) (use assms(3) in simp)
  with preservesD [OF u] have "e = ?ev" by (blast dest: new_events_emits)
  moreover have "r = Ok () \<longrightarrow> st_ResourceRecordSet (rc_status t) = ?name"
    using run by (auto simp: bindE_Ok dest: yieldsD [OF after_upsert_frame(2)])
  ultimately show ?thesis using z by auto
next
  case False
  then consider "gh_HostedZone resp = None"
    | hz where "gh_HostedZone resp = Some hz" "hz_Name hz = None"
    | hz zn where "gh_HostedZone resp = Some hz" "hz_Name hz = Some zn" "rc_awsClient s = None"
    | hz zn c where "gh_HostedZone resp = Some hz" "hz_Name hz = Some zn" "rc_awsClient s = Some c" "hz_Id hz = None"
    by (cases "gh_HostedZone resp"; cases "rc_awsClient s"; cases "hz_Name (the (gh_HostedZone resp))";
        cases "hz_Id (the (gh_HostedZone resp))") auto
  then show ?thesis
    using assms(1,2) by cases (simp_all add: upsertRecord_def run_simps new_events_def Let_def)
qed

lemma record_upsert:
  assumes "validateR53HostedZoneRecord E s = (r, t)"
    and "R53 c (DoUpsertResourceRecordSet rrs zoneId) \<in> set (new_events s t)"
  shows "\<exists>resp hz zn vpce val rest.
    fst (getHostedZoneCached E (st_HostedZoneId (rc_status s)) s) = Ok resp \<and>
    gh_HostedZone resp = Some hz \<and> hz_Id hz = Some zoneId \<and> hz_Name hz = Some zn \<and>
    reported (ec2_DescribeVpcEndpoints (ec2 E))
      (Ec2 c (DoDescribeVpcEndpoints [] [st_VPCEndpointId (rc_status s)])) [vpce] s t \<and>
    evp_State vpce = ''available'' \<and> evp_DnsEntries vpce = val # rest \<and>
    (let name = rec_Hostname (phz_Record (ve_Zone (rc_resource s))) @ ''.'' @ trim_right zn (CHR ''.'')
     in rrs = cname_record name val \<and> (r = Ok () \<longrightarrow> st_ResourceRecordSet (rc_status t) = name))"
proof -
  let ?e = "R53 c (DoUpsertResourceRecordSet rrs zoneId)" and ?z = "st_HostedZoneId (rc_status s)"
  have e: "upserts ?e" by simp
  let ?k2 = "\<lambda>resp generated. case generated of Inr (Some val) \<Rightarrow> upsertRecord E resp val | _ \<Rightarrow> ret ()"
  let ?k = "\<lambda>resp. bindE (attempt (generateRoute53Record E)) (?k2 resp)"
  have run: "bindE (getHostedZoneCached E ?z) ?k s = (r, t)"
    using assms
    by (auto simp: validateR53HostedZoneRecord_def bindE_run [of "isConditionTrue _ _"] isConditionTrue_run
        bindE_run [of status] status_run ret_eq new_events_def split: if_splits)
  have grow2: "preserves (emits (\<lambda>_. True)) (?k2 resp x)" for resp x
    unfolding upsertRecord_def Let_def by (intro preserves_steady_emits steady_intros; simp)
  have gen: "preserves (calls aws_read) (attempt (generateRoute53Record E))"
    by (intro cl.attempt generateRoute53Record_calls)
  have quiet: "preserves (steady (\<lambda>e. \<not> upserts e)) (getHostedZoneCached E ?z)"
    by (rule getHostedZoneCached_steady) (rule upserts_read)
  have grow: "preserves (emits (\<lambda>_. True)) (?k x)" for x
    by (intro em.bindE grow2 emits_any_prog [OF preserves_calls_emits [OF gen]])
  obtain resp u where g: "getHostedZoneCached E ?z s = (Ok resp, u)" and k: "?k resp u = (r, t)"
    and eu: "?e \<in> set (new_events u t)"
    by (rule event_later [OF run assms(2) preserves_steady_emits [OF quiet] grow]) simp
  obtain x w where a: "attempt (generateRoute53Record E) u = (Ok x, w)" and k2: "?k2 resp x w = (r, t)"
    and ew: "?e \<in> set (new_events w t)"
    by (rule event_later [OF k eu preserves_calls_emits [OF gen] grow2]) simp
  obtain val where x: "x = Inr (Some val)" and up: "upsertRecord E resp val w = (r, t)"
    using k2 ew by (cases x) (auto simp: ret_eq new_events_def split: option.splits)
  have su: "rc_resource u = rc_resource s" "rc_awsClient u = rc_awsClient s" "emits (\<lambda>_. True) s u"
    using getHostedZoneCached_keeps [OF g] preservesD [OF getHostedZoneCached_grows g] by simp_all
  note uw = reader_frame [OF gen a]
  have "generateRoute53Record E u = (Ok (Some val), w)" using a x by (simp add: attempt_Ok)
  from generateRoute53Record_Ok [OF this] obtain c' vpce rest where cl: "rc_awsClient s = Some c'"
    and d: "reported (ec2_DescribeVpcEndpoints (ec2 E)) (Ec2 c' (DoDescribeVpcEndpoints [] [st_VPCEndpointId (rc_status s)])) [vpce] u w"
    and v: "evp_State vpce = ''available''" "evp_DnsEntries vpce = val # rest"
    unfolding su by blast
  have "reported (ec2_DescribeVpcEndpoints (ec2 E)) (Ec2 c' (DoDescribeVpcEndpoints [] [st_VPCEndpointId (rc_status s)])) [vpce] s t"
    by (rule reported_sooner [OF su(3) reported_later [OF d preservesD [OF grow2 k2]]])
  moreover obtain hz i zn where "gh_HostedZone resp = Some hz" "hz_Id hz = Some i" "hz_Name hz = Some zn"
    and "let name = rec_Hostname (phz_Record (ve_Zone (rc_resource s))) @ ''.'' @ trim_right zn (CHR ''.'')
     in ?e = R53 c' (DoUpsertResourceRecordSet (cname_record name val) i) \<and>
        (r = Ok () \<longrightarrow> st_ResourceRecordSet (rc_status t) = name)"
    using upsertRecord_upserts [OF up ew e] cl uw su by auto
  ultimately show ?thesis using v g by (auto simp: Let_def)
qed

text \<open>
  C19: the record points at the endpoint. When a validation of the record writes one, the endpoint in
  the status is available as AWS reported in the same run, the record is a CNAME for the host
  name of the spec in the zone of the status, whose value is the first DNS name of that
  endpoint, and it is written into that zone. A validation that then succeeds leaves the name of
  the record in the status.
\<close>

theorem record_points_at_endpoint:
  assumes "validateR53HostedZoneRecord E s = (r, t)"
    and "R53 c (DoUpsertResourceRecordSet rrs zoneId) \<in> set (new_events s t)"
  shows "\<exists>resp hz zn vpce val rest.
    fst (getHostedZoneCached E (st_HostedZoneId (rc_status s)) s) = Ok resp \<and>
    gh_HostedZone resp = Some hz \<and> hz_Id hz = Some zoneId \<and> hz_Name hz = Some zn \<and>
    reported (ec2_DescribeVpcEndpoints (ec2 E))
      (Ec2 c (DoDescribeVpcEndpoints [] [st_VPCEndpointId (rc_status s)])) [vpce] s t \<and>
    evp_State vpce = ''available'' \<and> evp_DnsEntries vpce = val # rest \<and>
    (let name = rec_Hostname (phz_Record (ve_Zone (rc_resource s))) @ ''.'' @ trim_right zn (CHR ''.'')
     in rrs = cname_record name val \<and> (r = Ok () \<longrightarrow> st_ResourceRecordSet (rc_status t) = name))"
  using assms by (rule record_upsert)

text \<open>A resource whose zone is known and whose endpoint is available, and the answers for it.\<close>

definition record_state :: reconciler where
  "record_state = sample_state\<lparr>rc_resource := sample_endpoint\<lparr>
     ve_Spec := sample_spec\<lparr>sp_CustomDns := \<lparr>dns_Route53PrivateHostedZone = sample_zone\<lparr>
       phz_Record := \<lparr>rec_Hostname = ''api'', rec_ExternalNameService = \<lparr>ens_Name = ''api''\<rparr>\<rparr>\<rparr>\<rparr>\<rparr>,
     ve_Status := sample_status\<lparr>st_HostedZoneId := ''Z1''\<rparr>\<rparr>\<rparr>"

definition record_env :: env where
  "record_env = ref_env\<lparr>
     ec2 := ref_ec2\<lparr>ec2_DescribeVpcEndpoints := (\<lambda>h. Inr [\<lparr>evp_VpcEndpointId = Some ''vpce-1'',
       evp_VpcId = Some ''vpc-1'', evp_State = ''available'', evp_PrivateDnsEnabled = None, evp_SubnetIds = [],
       evp_Groups = [], evp_DnsEntries = [Some ''vpce-1.example.com'', Some ''vpce-2.example.com'']\<rparr>])\<rparr>,
     r53 := ref_r53\<lparr>r53_GetHostedZone := (\<lambda>h. Inr \<lparr>gh_HostedZone = Some \<lparr>hz_Id = Some ''Z1'',
       hz_Name = Some ''svc.example.com.'', hz_PrivateZone = Some True\<rparr>, gh_VPCs = []\<rparr>)\<rparr>\<rparr>"

lemma record_written:
  "R53 sample_config (DoUpsertResourceRecordSet (cname_record ''api.svc.example.com'' (Some ''vpce-1.example.com'')) ''Z1'')
     \<in> set (new_events record_state (snd (validateR53HostedZoneRecord record_env record_state)))"
  by (simp add: validateR53HostedZoneRecord_def getHostedZoneCached_def fetchHostedZone_def GetHostedZone_def
      generateRoute53Record_def DescribeSingleVPCEndpointById_def upsertRecord_def UpsertResourceRecordSet_def
      record_env_def record_state_def run_simps ref_defs sample_defs new_events_def trim_right_def Let_def)

theorem record_points_at_endpoint_witness:
  "\<exists>vpce rest. evp_State vpce = ''available'' \<and> evp_DnsEntries vpce = Some ''vpce-1.example.com'' # rest \<and>
     reported (ec2_DescribeVpcEndpoints (ec2 record_env)) (Ec2 sample_config (DoDescribeVpcEndpoints [] [''vpce-1'']))
       [vpce] record_state (snd (validateR53HostedZoneRecord record_env record_state))"
proof -
  have "st_VPCEndpointId (rc_status record_state) = ''vpce-1''" by (simp add: record_state_def sample_defs)
  with record_points_at_endpoint [OF prod.collapse [symmetric] record_written] show ?thesis
    by (auto simp: cname_record_def Let_def simp del: append.simps)
qed

section \<open>The ExternalName service\<close>

lemma generated_service:
  assumes "reference_laws E" "generateExternalNameService E s = (Ok expected, t)"
  shows "t = s \<and> st_ResourceRecordSet (rc_status s) \<noteq> '''' \<and>
    svc_ExternalName expected = st_ResourceRecordSet (rc_status s)"
proof -
  let ?svc = "\<lparr>svc_Name = ens_Name (rec_ExternalNameService (phz_Record (ve_Zone (rc_resource s)))),
    svc_Namespace = ve_Namespace (rc_resource s), svc_Type = ''ExternalName'',
    svc_ExternalName = st_ResourceRecordSet (rc_status s), svc_Owners = []\<rparr>"
  from assms(2) have "st_ResourceRecordSet (rc_status s) \<noteq> ''''" "t = s"
    and "lib_SetControllerReference (lib E) (rc_resource s) ?svc = Inr expected"
    by (auto simp: generateExternalNameService_def bindE_Ok resource_eq liftS_eq failE_eq split: if_splits sum.splits)
  moreover from this(3) assms(1) have "expected\<lparr>svc_Owners := svc_Owners ?svc\<rparr> = ?svc"
    unfolding reference_laws_def by blast
  then have "svc_ExternalName (expected\<lparr>svc_Owners := svc_Owners ?svc\<rparr>) = svc_ExternalName ?svc" by (simp only:)
  ultimately show ?thesis by simp
qed

text \<open>
  C20: the service points at the record. When the validation of the ExternalName service succeeds for
  a resource that wants one, the status names a record, and either the API server reported the
  service with exactly that name as its target, or it accepted the update that changes the
  target, and nothing else, of the service it reported. A service that had to be created makes
  the validation fail once, so that the next one looks at it.
\<close>

theorem service_points_at_record:
  assumes "reference_laws E" "validateExternalNameService E s = (Ok (), t)"
    and "rec_Hostname (phz_Record (ve_Zone (rc_resource s))) \<noteq> ''''"
    and "ens_Name (rec_ExternalNameService (phz_Record (ve_Zone (rc_resource s)))) \<noteq> ''''"
  shows "let target = st_ResourceRecordSet (rc_status s);
             i = DoGetService (ve_Namespace (rc_resource s)) (ens_Name (rec_ExternalNameService (phz_Record (ve_Zone (rc_resource s)))))
    in target \<noteq> '''' \<and> (\<exists>found. reported (k8s_GetService (k8s E)) (K8s i) found s t \<and>
      (svc_ExternalName found = target \<or>
       reported (k8s_UpdateService (k8s E)) (K8s (DoUpdateService (found\<lparr>svc_ExternalName := target\<rparr>))) () s t))"
proof -
  let ?target = "st_ResourceRecordSet (rc_status s)" and ?rec = "phz_Record (ve_Zone (rc_resource s))"
  let ?get = "K8s (DoGetService (ve_Namespace (rc_resource s)) (ens_Name (rec_ExternalNameService ?rec)))"
  from assms(2-4) obtain expected w got u where "generateExternalNameService E s = (Ok expected, w)"
    and a': "attempt (invoke ?get (k8s_GetService (k8s E))) w = (Ok got, u)"
    and k: "(case got of Inl err \<Rightarrow> if lib_IsNotFound (lib E) err then createService E expected else serviceFailed E err
       | Inr found \<Rightarrow> fixService E expected found) u = (Ok (), t)"
    unfolding validateExternalNameService_def Let_def by (auto simp: bindE_Ok resource_eq simp del: if_split_asm)
  with generated_service [OF assms(1)] have target: "?target \<noteq> ''''"
    and expected: "svc_ExternalName expected = ?target" and "w = s" by blast+
  with a' have a: "attempt (invoke ?get (k8s_GetService (k8s E))) s = (Ok got, u)" by simp
  from k obtain found where got: "got = Inr found" and f: "fixService E expected found u = (Ok (), t)"
    by (cases got) (auto simp: createService_def serviceFailed_def bindE_Ok failE_eq split: if_splits)
  have i: "reported (k8s_GetService (k8s E)) ?get found s u" using a got by (auto simp: attempt_Ok dest: invoke_reported)
  show ?thesis
  proof (cases "svc_ExternalName found = ?target")
    case True
    with f expected have "t = u" by (simp add: fixService_def whenE_eq)
    with i True target show ?thesis by (auto simp: Let_def)
  next
    case False
    let ?put = "K8s (DoUpdateService (found\<lparr>svc_ExternalName := ?target\<rparr>))"
    let ?done = "bindE (setCondition E ExternalNameServiceCondition ConditionTrue ''Reconciled'' '''') (\<lambda>_. updateStatus E)"
    from f False expected obtain upd w where p': "attempt (invoke ?put (k8s_UpdateService (k8s E))) u = (Ok upd, w)"
      and w': "(case upd of Inl err \<Rightarrow> serviceFailed E err | Inr _ \<Rightarrow> ?done) w = (Ok (), t)"
      by (auto simp: fixService_def whenE_eq Let_def bindE_Ok [of "attempt _"])
    then have p: "invoke ?put (k8s_UpdateService (k8s E)) u = (Ok (), w)" and w: "?done w = (Ok (), t)"
      by (cases upd; simp add: serviceFailed_def bindE_Ok failE_eq attempt_Ok)+
    have wt: "emits (\<lambda>_. True) w t" using w by (auto simp: bindE_Ok setCondition_eq updateStatus_Ok emits_def)
    have su: "emits (\<lambda>_. True) s u" and uw: "emits (\<lambda>_. True) u w"
      using a p by (auto simp: attempt_Ok got invoke_Ok emits_def)
    have "reported (k8s_UpdateService (k8s E)) ?put () s t"
      by (rule reported_sooner [OF su reported_later [OF invoke_reported [OF p] wt]])
    moreover have "reported (k8s_GetService (k8s E)) ?get found s t"
      by (rule reported_later [OF i emits_trans [OF uw wt]])
    ultimately show ?thesis using target by (auto simp: Let_def)
  qed
qed

definition served_env :: env where
  "served_env = ref_env\<lparr>k8s := ref_k8s\<lparr>k8s_GetService := (\<lambda>h. Inr \<lparr>svc_Name = ''api'', svc_Namespace = ''default'',
     svc_Type = ''ExternalName'', svc_ExternalName = ''old.example.com'', svc_Owners = []\<rparr>)\<rparr>\<rparr>"

definition served_state :: reconciler where
  "served_state = record_state\<lparr>rc_resource := (rc_resource record_state)\<lparr>ve_Status :=
     sample_status\<lparr>st_ResourceRecordSet := ''api.svc.example.com''\<rparr>\<rparr>\<rparr>"

lemma service_validated:
  "validateExternalNameService served_env served_state = (Ok (), snd (validateExternalNameService served_env served_state))"
  by (simp add: validateExternalNameService_def generateExternalNameService_def fixService_def served_env_def
      served_state_def record_state_def run_simps ref_defs sample_defs Let_def)

theorem service_points_at_record_witness:
  "\<exists>found. reported (k8s_GetService (k8s served_env)) (K8s (DoGetService ''default'' ''api'')) found
     served_state (snd (validateExternalNameService served_env served_state))"
proof -
  have "reference_laws served_env" by (rule ref_laws) (simp add: served_env_def)
  from service_points_at_record [OF this service_validated]
  have "let i = DoGetService (ve_Namespace (rc_resource served_state))
      (ens_Name (rec_ExternalNameService (phz_Record (ve_Zone (rc_resource served_state)))))
    in \<exists>found. reported (k8s_GetService (k8s served_env)) (K8s i) found served_state
      (snd (validateExternalNameService served_env served_state))"
    by (auto simp: served_state_def record_state_def Let_def)
  then show ?thesis by (simp add: served_state_def record_state_def sample_defs Let_def)
qed

section \<open>Associating VPCs of other accounts\<close>

text \<open>
  \<open>authorized tr\<close>: every association of the run with a zone comes after an authorization of the same
  VPC for the same zone, in the same region.
\<close>

fun preceded :: "event \<Rightarrow> event list \<Rightarrow> bool" where
  "preceded (R53 _ (DoAssociateVPCWithHostedZone z v reg)) before =
     (\<exists>c. R53 c (DoCreateVPCAssociationAuthorization z v reg) \<in> set before)"
| "preceded _ before = True"

definition authorized :: "event list \<Rightarrow> bool" where
  "authorized tr \<longleftrightarrow> (\<forall>n<length tr. preceded (tr ! n) (take n tr))"

lemma preceded_mono: "preceded e xs \<Longrightarrow> set xs \<subseteq> set ys \<Longrightarrow> preceded e ys"
  by (cases "(e, xs)" rule: preceded.cases) auto

lemma authorized_append:
  assumes "authorized xs" "authorized ys"
  shows "authorized (xs @ ys)"
  unfolding authorized_def
proof (intro allI impI)
  fix n
  assume n: "n < length (xs @ ys)"
  show "preceded ((xs @ ys) ! n) (take n (xs @ ys))"
  proof (cases "n < length xs")
    case True
    with assms(1) show ?thesis by (simp add: authorized_def nth_append)
  next
    case False
    with assms(2) n have "preceded (ys ! (n - length xs)) (take (n - length xs) ys)"
      by (simp add: authorized_def)
    with False show ?thesis by (auto simp: nth_append elim: preceded_mono)
  qed
qed

lemma authorized_quiet: "\<forall>e\<in>set tr. preceded e [] \<Longrightarrow> authorized tr"
proof (unfold authorized_def, intro allI impI)
  fix n
  assume "\<forall>e\<in>set tr. preceded e []" "n < length tr"
  then have "preceded (tr ! n) []" by simp
  then show "preceded (tr ! n) (take n tr)" by (rule preceded_mono) simp
qed

lemma authorized_first:
  assumes "preceded ev []" "\<forall>e\<in>set tr. preceded e [ev]"
  shows "authorized (ev # tr)"
  unfolding authorized_def
proof (intro allI impI)
  fix n
  assume n: "n < length (ev # tr)"
  show "preceded ((ev # tr) ! n) (take n (ev # tr))"
  proof (cases n)
    case (Suc m)
    with n assms(2) have "preceded (tr ! m) [ev]" by simp
    with Suc show ?thesis by (auto elim: preceded_mono)
  qed (use assms(1) in simp)
qed

text \<open>\<open>orders\<close>: the history grows by authorized events.\<close>

definition orders :: "reconciler \<Rightarrow> reconciler \<Rightarrow> bool" where
  "orders s t \<longleftrightarrow> emits (\<lambda>_. True) s t \<and> authorized (new_events s t)"

lemma orders_refl: "orders s s"
  by (simp add: orders_def emits_refl new_events_def authorized_def)

lemma orders_trans: "orders s t \<Longrightarrow> orders t u \<Longrightarrow> orders s u"
  unfolding orders_def by (metis authorized_append emits_trans new_events_trans)

interpretation od: frame orders
  by unfold_locales (rule orders_refl, rule orders_trans)

lemma quiet_orders:
  assumes "emits A s t" "\<And>e. A e \<Longrightarrow> preceded e []"
  shows "orders s t"
  using assms unfolding orders_def by (auto intro: emits_any authorized_quiet dest: new_events_emits)

lemma preserves_quiet_orders:
  "preserves (emits A) m \<Longrightarrow> (\<And>e. A e \<Longrightarrow> preceded e []) \<Longrightarrow> preserves orders m"
  by (rule preservesI) (blast dest: preservesD intro: quiet_orders)

lemma preceded_reads: "aws_read e \<Longrightarrow> preceded e xs" "lookup_event e \<Longrightarrow> preceded e xs"
  by (cases "(e, xs)" rule: preceded.cases; simp)+

definition associate_with :: "env \<Rightarrow> string \<Rightarrow> associatedVpc \<Rightarrow> unit rprog" where
  "associate_with E zoneId v =
     bindE (ParseAWSCredentialOverride E (av_Region v) (av_CredentialsSecretRef v)) (\<lambda>cfg.
     bindE (modifyE (\<lambda>s. s\<lparr>rc_awsAssociatedVpcClient := Some cfg\<rparr>)) (\<lambda>_.
     bindE (AssociateVPCWithHostedZone E cfg zoneId (av_VpcId v) (av_Region v)) (\<lambda>_.
     invalidateHostedZoneCache zoneId)))"

lemma associateVpc_run:
  "associateVpc E ids v s = (if av_VpcId v \<in> set ids then (Ok (), s)
     else case rc_awsClient s of None \<Rightarrow> (Panic, s)
       | Some c \<Rightarrow> bindE (CreateVPCAssociationAuthorization E c (st_HostedZoneId (rc_status s)) (av_VpcId v) (av_Region v))
           (\<lambda>_. associate_with E (st_HostedZoneId (rc_status s)) v) s)"
  by (simp add: associateVpc_def associate_with_def whenE_run bindE_run [of status] bindE_run [of awsClient] status_run
      awsClient_run split: option.split)

lemma associateVpc_orders: "preserves orders (associateVpc E ids v)"
proof (rule preservesI)
  fix s r t
  assume run: "associateVpc E ids v s = (r, t)"
  show "orders s t"
  proof (cases "av_VpcId v \<in> set ids \<or> rc_awsClient s = None")
    case True
    with run have "t = s" by (auto simp: associateVpc_run split: if_splits)
    then show ?thesis by (simp add: orders_refl)
  next
    case False
    then obtain c where c: "rc_awsClient s = Some c" by auto
    let ?ev = "R53 c (DoCreateVPCAssociationAuthorization (st_HostedZoneId (rc_status s)) (av_VpcId v) (av_Region v))"
    let ?u = "s\<lparr>history := history s @ [?ev]\<rparr>"
    have k: "preserves (emits (\<lambda>e. preceded e [?ev])) (associate_with E (st_HostedZoneId (rc_status s)) v)"
      unfolding associate_with_def
      by (intro preserves_steady_emits steady_intros steady_modify invalidateHostedZoneCache_steady;
          simp add: preceded_reads)
    have "emits (\<lambda>e. preceded e [?ev]) ?u t"
      using run False c preservesD [OF k]
      by (auto simp: associateVpc_run CreateVPCAssociationAuthorization_def bindE_run invoke_run emits_refl
          split: sum.splits if_splits)
    then obtain tr where "history t = history ?u @ tr" "\<forall>e\<in>set tr. preceded e [?ev]" by (auto simp: emits_def)
    then show ?thesis unfolding orders_def by (auto simp: emits_def intro!: authorized_first)
  qed
qed

lemma mapE_deref: "mapE deref xs s = (Ok ys, t) \<Longrightarrow> t = s \<and> xs = List.map Some ys"
  by (induction xs arbitrary: ys) (auto simp: bindE_Ok run_eqs split: option.splits)

text \<open>What a successful step leaves: the VPC was associated before, or AWS accepted its association.\<close>

definition accepted :: "env \<Rightarrow> string \<Rightarrow> string list \<Rightarrow> reconciler \<Rightarrow> reconciler \<Rightarrow> associatedVpc \<Rightarrow> bool" where
  "accepted E zoneId ids s t v \<longleftrightarrow> av_VpcId v \<in> set ids \<or>
     (\<exists>cfg (u :: reconciler). fst (ParseAWSCredentialOverride E (av_Region v) (av_CredentialsSecretRef v) u) = Ok cfg \<and>
        reported (r53_AssociateVPCWithHostedZone (r53 E))
          (R53 cfg (DoAssociateVPCWithHostedZone zoneId (av_VpcId v) (av_Region v))) () s t)"

lemma accepted_later: "accepted E z ids s t v \<Longrightarrow> emits A t u \<Longrightarrow> accepted E z ids s u v"
  unfolding accepted_def by (blast intro: reported_later)

lemma accepted_sooner: "emits A r s \<Longrightarrow> accepted E z ids s t v \<Longrightarrow> accepted E z ids r t v"
  unfolding accepted_def by (blast intro: reported_sooner)

lemma associate_with_Ok:
  assumes "associate_with E z v s = (Ok (), t)"
  shows "accepted E z ids s t v \<and> rc_resource t = rc_resource s"
proof -
  from assms obtain cfg u w x where p: "ParseAWSCredentialOverride E (av_Region v) (av_CredentialsSecretRef v) s = (Ok cfg, u)"
    and m: "w = u\<lparr>rc_awsAssociatedVpcClient := Some cfg\<rparr>"
    and a: "AssociateVPCWithHostedZone E cfg z (av_VpcId v) (av_Region v) w = (Ok (), x)"
    and t: "t = x\<lparr>rc_hostedZoneCache := cache_drop z (rc_hostedZoneCache x)\<rparr>"
    by (auto simp: associate_with_def bindE_Ok modifyE_eq invalidateHostedZoneCache_def with_cache_eq)
  have su: "calls (\<lambda>_. True) s u" using p by (rule preservesD [rotated]) (rule k8s_calls, simp)
  have sw: "emits (\<lambda>_. True) s w" using su m by (auto simp: calls_def emits_def)
  have "reported (r53_AssociateVPCWithHostedZone (r53 E))
      (R53 cfg (DoAssociateVPCWithHostedZone z (av_VpcId v) (av_Region v))) () w x"
    using a by (auto simp: AssociateVPCWithHostedZone_def dest: invoke_reported)
  then have "reported (r53_AssociateVPCWithHostedZone (r53 E))
      (R53 cfg (DoAssociateVPCWithHostedZone z (av_VpcId v) (av_Region v))) () s t"
    by (intro reported_later [OF reported_sooner [OF sw], of _ _ _ _ "\<lambda>_. True"]) (auto simp: t emits_def)
  moreover have "rc_resource t = rc_resource s"
    using su m a by (auto simp: t AssociateVPCWithHostedZone_def invoke_Ok calls_def)
  ultimately show ?thesis using p unfolding accepted_def by (metis fst_conv)
qed

lemma associateVpc_Ok:
  assumes "associateVpc E ids v s = (Ok (), t)"
  shows "accepted E (st_HostedZoneId (rc_status s)) ids s t v \<and> rc_resource t = rc_resource s"
proof (cases "av_VpcId v \<in> set ids")
  case True
  with assms show ?thesis by (simp add: associateVpc_run accepted_def)
next
  case False
  with assms obtain c u where a: "CreateVPCAssociationAuthorization E c (st_HostedZoneId (rc_status s)) (av_VpcId v) (av_Region v) s = (Ok (), u)"
    and w: "associate_with E (st_HostedZoneId (rc_status s)) v u = (Ok (), t)"
    by (auto simp: associateVpc_run bindE_Ok split: option.splits)
  from a have "emits (\<lambda>_. True) s u" "rc_resource u = rc_resource s"
    by (auto simp: CreateVPCAssociationAuthorization_def invoke_Ok emits_def)
  with associate_with_Ok [OF w] show ?thesis by (auto intro: accepted_sooner)
qed

lemma associateVpcs_Ok:
  assumes "forE (associateVpc E ids) vs s = (Ok (), t)"
  shows "list_all (accepted E (st_HostedZoneId (rc_status s)) ids s t) vs"
  using assms
proof (induction vs arbitrary: s)
  case (Cons v vs)
  then obtain u where v: "associateVpc E ids v s = (Ok (), u)" and vs: "forE (associateVpc E ids) vs u = (Ok (), t)"
    by (auto simp: bindE_Ok)
  have su: "emits (\<lambda>_. True) s u" and ut: "emits (\<lambda>_. True) u t"
    using preservesD [OF associateVpc_orders v] preservesD [OF od.forE [OF associateVpc_orders] vs]
    by (simp_all add: orders_def)
  from Cons.IH [OF vs] associateVpc_Ok [OF v] show ?case
    by (auto simp: list_all_iff intro: accepted_later [OF _ ut] accepted_sooner [OF su])
qed simp

text \<open>
  C21: VPCs are authorized, then associated. Whatever a run of this validation comes to, it asks for
  the association of a VPC only after the authorization of the same VPC, for the same zone and
  region. If it succeeds for a spec with VPCs to associate, each of them was in the zone already
  according to the zone it looked at, or AWS accepted its association, asked for with the
  credentials of its own secret.
\<close>

theorem vpcs_authorized_and_associated:
  "case validateR53HostedZoneAuthorization E s of (r, t) \<Rightarrow> authorized (new_events s t) \<and>
    (let vpcs = phz_AssociatedVpcs (ve_Zone (rc_resource s)) in
     if r = Ok () \<and> vpcs \<noteq> []
     then \<exists>resp ids. fst (getHostedZoneCached E (st_HostedZoneId (rc_status s)) s) = Ok resp \<and>
       gh_VPCs resp = List.map Some ids \<and> list_all (accepted E (st_HostedZoneId (rc_status s)) ids s t) vpcs
     else True)"
proof -
  obtain r t where run: "validateR53HostedZoneAuthorization E s = (r, t)" by fastforce
  have "preserves (emits aws_read) (getHostedZoneCached E i)" for i
    by (rule preserves_steady_emits, rule getHostedZoneCached_steady) simp
  then have cached: "preserves orders (getHostedZoneCached E i)" for i
    by (rule preserves_quiet_orders) (simp add: preceded_reads)
  have "preserves orders (validateR53HostedZoneAuthorization E)"
    unfolding validateR53HostedZoneAuthorization_def resource_def
    by (intro od.intros cached associateVpc_orders)
  from preservesD [OF this run] have "authorized (new_events s t)" by (simp add: orders_def)
  moreover have "\<exists>resp ids. fst (getHostedZoneCached E (st_HostedZoneId (rc_status s)) s) = Ok resp \<and>
      gh_VPCs resp = List.map Some ids \<and>
      list_all (accepted E (st_HostedZoneId (rc_status s)) ids s t) (phz_AssociatedVpcs (ve_Zone (rc_resource s)))"
    if "r = Ok ()" "phz_AssociatedVpcs (ve_Zone (rc_resource s)) \<noteq> []"
  proof -
    from run that obtain resp u ids w where g: "getHostedZoneCached E (st_HostedZoneId (rc_status s)) s = (Ok resp, u)"
      and i: "mapE deref (gh_VPCs resp) u = (Ok ids :: (error, string list) outcome, w)"
      and f: "forE (associateVpc E ids) (phz_AssociatedVpcs (ve_Zone (rc_resource s))) w = (Ok (), t)"
      by (auto simp: validateR53HostedZoneAuthorization_def bindE_Ok resource_eq failE_eq split: if_splits)
    have w: "w = u" "gh_VPCs resp = List.map Some ids" using mapE_deref [OF i] by simp_all
    have su: "rc_resource u = rc_resource s" "emits (\<lambda>_. True) s u"
      using getHostedZoneCached_keeps [OF g] preservesD [OF getHostedZoneCached_grows g] by simp_all
    from associateVpcs_Ok [OF f] w su show ?thesis
      unfolding g by (auto simp: list_all_iff intro: accepted_sooner [OF su(2)])
  qed
  ultimately show ?thesis unfolding run by (simp add: Let_def)
qed

end
