(* ===== verification/Runs.thy ===== *)
theory Runs
  imports VpcEndpointController DnsResults
begin

text \<open>
  Properties of the VpcEndpoint controller that span components or reconciliations: what one
  stage leaves for the next, and what holds after any number of reconciliations.
\<close>

section \<open>The record of an endpoint that was replaced\<close>

lemma available_keeps_conditions:
  assumes "condition_laws E" "endpointAvailable E v s = (Ok x, t)" "AWSVpcEndpointCondition \<noteq> ty"
  shows "lib_IsStatusConditionTrue (lib E) (st_Conditions (rc_status t)) ty =
    lib_IsStatusConditionTrue (lib E) (st_Conditions (rc_status s)) ty"
proof -
  define before where "before = bindE (set_pending_metric 0) (\<lambda>_. bindE (enablePrivateDns E v) (\<lambda>_.
     bindE (mapErr (Wrapf ''failed to reconcile VPC Endpoint subnets: %w'' []) (ensureVpcEndpointSubnets E v)) (\<lambda>_.
     bindE (mapErr (Wrapf ''failed to reconcile VPC Endpoint security groups: %w'' [])
       (ensureVpcEndpointSecurityGroups E v)) (\<lambda>_.
     bindE (isConditionTrue E AWSVpcEndpointCondition) (\<lambda>ready.
     whenE (\<not> ready)
       (bindE (age E) (\<lambda>d. metric (Observe ''vpce_endpoint_ready_duration_seconds'' d))))))))"
  have "preserves (keeps st_Conditions) before"
    unfolding before_def set_pending_metric_def enablePrivateDns_def ensureVpcEndpointSubnets_def
      expectedSubnetIds_def discoverSubnets_def ensureVpcEndpointSecurityGroups_def Let_def
    by (intro keeps_intros)
  moreover obtain u where "before s = (Ok (), u)" "bindE (setCondition E AWSVpcEndpointCondition ConditionTrue (evp_State v)
      (''VPC Endpoint status is: '' @ evp_State v)) (\<lambda>_. updateStatus E) u = (Ok x, t)"
    using assms(2) unfolding endpointAvailable_def before_def by (auto simp: bindE_Ok)
  ultimately show ?thesis
    using assms(3)
    by (auto simp: rc_Ok condition_set_other [OF assms(1)] dest: keepsD)
qed

text \<open>
  C35: the record of a replaced endpoint stays. When a validation of the endpoint succeeds with an
  available endpoint, the validation of the record that follows does nothing at all if the
  record condition was true before, whichever endpoint the status named then: the comparison
  that should invalidate the record comes after the id in the status was overwritten. The record
  goes on pointing at the DNS name of the old endpoint.
\<close>

theorem replaced_endpoint_keeps_record:
  assumes "condition_laws E"
    and "lib_IsStatusConditionTrue (lib E) (st_Conditions (rc_status s)) AWSRoute53RecordCondition"
    and "validateVPCEndpoint E s = (Ok (), t)" "st_Status (rc_status t) = ''available''"
  shows "validateR53HostedZoneRecord E t = (Ok (), t)"
proof -
  from assms(3) obtain v u where f: "findOrCreateVpcEndpoint E s = (Ok v, u)" and b: "by_state E v u = (Ok (), t)"
    by (rule validateVPCEndpoint_Ok)
  have u: "st_Status (rc_status u) = evp_State v" "st_Conditions (rc_status u) = st_Conditions (rc_status s)"
    by (subst findOrCreate_Ok(6) [OF f], simp)+
  from b show ?thesis
  proof (cases rule: by_state_Ok)
    case available
    from available_conditions [OF assms(1) available(2)] available_keeps_conditions [OF assms(1) available(2) condition_names(1)] u assms(2)
    show ?thesis by (simp add: validateR53HostedZoneRecord_def run_simps)
  next
    case (notReady w)
    with keepsD [OF notReady_keeps(2) notReady(5)] u assms(4) show ?thesis by simp
  qed
qed

text \<open>The endpoint in the status is unknown to AWS, another one has the tags of the resource.\<close>

definition replaced_env :: env where
  "replaced_env = ref_env\<lparr>ec2 := ref_ec2\<lparr>ec2_DescribeVpcEndpoints := (\<lambda>h. case last h of
     Ec2 _ (DoDescribeVpcEndpoints [] _) \<Rightarrow> Inl (ApiError ''InvalidVpcEndpointId.NotFound'' '''')
   | _ \<Rightarrow> Inr [sample_vpce])\<rparr>\<rparr>"

definition replaced_state :: reconciler where
  "replaced_state = sample_state\<lparr>rc_resource := sample_endpoint\<lparr>ve_Status := sample_status
     \<lparr>st_VPCEndpointId := ''vpce-0'', st_Conditions :=
       [\<lparr>cd_Type = AWSRoute53RecordCondition, cd_Status = ConditionTrue, cd_Reason = '''', cd_Message = ''''\<rparr>]\<rparr>\<rparr>\<rparr>"

lemma replaced_validated:
  "\<exists>t. validateVPCEndpoint replaced_env replaced_state = (Ok (), t) \<and>
     st_Status (rc_status t) = ''available'' \<and> st_VPCEndpointId (rc_status t) = ''vpce-1''"
  by (simp add: validateVPCEndpoint_def findOrCreateVpcEndpoint_def DescribeSingleVPCEndpointById_def vpn.short
      FilterVPCEndpointByDefaultTags_def
      endpointAvailable_def set_pending_metric_def enablePrivateDns_def ensureVpcEndpointSubnets_def
      expectedSubnetIds_def ensureVpcEndpointSecurityGroups_def diffVpcEndpointSecurityGroups_def
      StringSliceTwoWayDiff_def range_keys_def
      ModifyVpcEndpoint_def Let_def case_prod_beta replaced_env_def replaced_state_def sample_vpce_def run_simps
      ref_defs sample_defs)

theorem replaced_endpoint_keeps_record_witness:
  "st_VPCEndpointId (rc_status replaced_state) = ''vpce-0'' \<and>
   (\<exists>t. validateVPCEndpoint replaced_env replaced_state = (Ok (), t) \<and> st_VPCEndpointId (rc_status t) = ''vpce-1'' \<and>
     validateR53HostedZoneRecord replaced_env t = (Ok (), t))"
proof -
  obtain t where t: "validateVPCEndpoint replaced_env replaced_state = (Ok (), t)"
    "st_Status (rc_status t) = ''available''" "st_VPCEndpointId (rc_status t) = ''vpce-1''"
    using replaced_validated by blast
  have lib: "lib replaced_env = ref_lib" by (simp add: replaced_env_def)
  have "validateR53HostedZoneRecord replaced_env t = (Ok (), t)"
    by (rule replaced_endpoint_keeps_record [OF ref_laws(1) [OF lib] _ t(1,2)])
      (simp add: lib ref_lib_def replaced_state_def sample_defs)
  moreover have "st_VPCEndpointId (rc_status replaced_state) = ''vpce-0''" by (simp add: replaced_state_def)
  ultimately show ?thesis using t by blast
qed

section \<open>Every operation keeps the zone cache genuine\<close>

lemma cluster_info_cached:
  "preserves (cached E) (parseClusterInfo E' refresh)"
  "preserves (cached E) (degradedClient E' err)"
  "preserves (cached E) (awsUnauthorizedOperationMetricHandler err)"
  unfolding parseClusterInfo_def parseInfraId_def set_clusterInfo_def
    getVpcEndpointServiceName_def findServiceName_def parseRegion_def establishAwsClient_def
    set_awsClient_def parseVpcId_def selectVpcId_def degradedClient_def cleanupFailure_def
    awsUnauthorizedOperationMetricHandler_def Let_def
  by (intro cached_intros cached_modify; simp)+

lemma security_group_cached: "preserves (cached E) (validateSecurityGroup E')"
  unfolding validateSecurityGroup_def findOrCreateSecurityGroup_def foundSecurityGroup_def createMissingSecurityGroup_def
    createMissingSecurityGroupTags_def generateMissingSecurityGroupRules_def lookupVpcCidr_def Let_def
  by (intro cached_intros)

lemma endpoint_cached: "preserves (cached E) (validateVPCEndpoint E')"
  unfolding validateVPCEndpoint_def findOrCreateVpcEndpoint_def endpointAvailable_def set_pending_metric_def enablePrivateDns_def
    ensureVpcEndpointSubnets_def expectedSubnetIds_def discoverSubnets_def ensureVpcEndpointSecurityGroups_def
    endpointNotReady_def endpointRejected_def invalidateRoute53RecordCondition_def Let_def
  by (intro cached_intros)

lemma zone_cached: "preserves (cached E) (validateR53PrivateHostedZone E)"
  unfolding validateR53PrivateHostedZone_def createMissingPrivateZoneTags_def adoptZone_def
    findOrCreatePrivateHostedZone_def resolveDomainName_def zoneForDomain_def zone_in_vpc_def
    private_zone_named_def useHostedZone_def createPrivateHostedZone_def Let_def
  by (intro cached_intros getHostedZoneCached_cached)

lemma record_cached: "preserves (cached E) (validateR53HostedZoneRecord E)"
  unfolding validateR53HostedZoneRecord_def generateRoute53Record_def upsertRecord_def Let_def
  by (intro cached_intros getHostedZoneCached_cached)

lemma authorization_cached: "preserves (cached E) (validateR53HostedZoneAuthorization E)"
  unfolding validateR53HostedZoneAuthorization_def associateVpc_def
  by (intro cached_intros cached_modify getHostedZoneCached_cached invalidateHostedZoneCache_cached; simp)

lemma service_cached: "preserves (cached E) (validateExternalNameService E')"
  unfolding validateExternalNameService_def generateExternalNameService_def createService_def
    fixService_def serviceFailed_def Let_def
  by (intro cached_intros)

lemma custom_dns_cached: "preserves (cached E) (validateCustomDns E)"
  unfolding validateCustomDns_def validateResources_Cons validateResources_Nil
  by (intro cached_intros zone_cached record_cached authorization_cached service_cached)

lemma poll_cached: "preserves (cached E) (pollDeletion rounds E' c i d)"
  by (induction rounds) (simp_all, (intro cached_intros | simp add: waitInterval_def forgetEndpoint_def)+)

lemma cleanup_cached: "preserves (cached E) (cleanupAwsResources rounds E)"
  unfolding cleanupAwsResources_def cleanupRecord_def deleteRecord_def deleteNamedRecord_def cleanupZone_def
    ownsZone_def forgetZone_def deleteOtherRecord_def clearZone_def zoneDeleted_def deleteZone_def cleanupMetrics_def
    cleanupEndpoint_def deleteEndpoint_def endpointDeleted_def awaitDeletion_def forgetEndpoint_def
    cleanupGroup_def groupDeleted_def deleteGroup_def Let_def
  by (intro cached_intros poll_cached zone_cached getHostedZoneCached_cached invalidateHostedZoneCache_cached)

lemma Reconcile_cached: "preserves (cached E) (Reconcile rounds E ns n)"
  unfolding Reconcile_def reconcileFetched_def reconcileDeletion_def reconcileLive_def registerFinalizer_def
    has_finalizer_def set_finalizers_def updateVpcEndpoint_def deleteNotReady_def setNotReady_def removeFinalizer_def
    cleanupError_def cleanupFailure_def validationError_def validations_def validateResources_Cons validateResources_Nil Let_def
  by (intro cached_intros cached_modify cluster_info_cached security_group_cached endpoint_cached custom_dns_cached
      cleanup_cached; simp)

section \<open>Any number of reconciliations\<close>

text \<open>
  The life of a reconciler: it starts without a zone cache, runs one reconciliation after the
  other for any resources and with whatever outcome, and between two of them others act (the
  other controllers of the process, users, time), which adds to the history only.
\<close>

inductive reachable :: "nat \<Rightarrow> env \<Rightarrow> reconciler \<Rightarrow> bool" for rounds :: nat and E :: env where
  start: "rc_hostedZoneCache s = None \<Longrightarrow> reachable rounds E s"
| reconcile: "reachable rounds E s \<Longrightarrow> Reconcile rounds E ns n s = (r, t) \<Longrightarrow> reachable rounds E t"
| others: "reachable rounds E s \<Longrightarrow> t = s\<lparr>history := history s @ tr\<rparr> \<Longrightarrow> reachable rounds E t"

lemma reachable_step:
  "reachable rounds E s \<Longrightarrow> reachable rounds E (snd (Reconcile rounds E ns n s))"
  by (rule reachable.reconcile [OF _ prod.collapse [symmetric]])

lemma reachable_cache_genuine: "reachable rounds E s \<Longrightarrow> cache_genuine E s"
proof (induction rule: reachable.induct)
  case (start s)
  then show ?case by (simp add: cache_genuine_def zc.sound_def)
next
  case (reconcile s ns n r t)
  with Reconcile_cached have "cached E s t" by (blast dest: preservesD)
  with reconcile.IH show ?case by (simp add: cached_def)
next
  case (others s t tr)
  show ?case
    unfolding others.hyps(2) by (rule cache_genuine_frame [OF others.IH, of "\<lambda>_. True"]) (simp_all add: emits_def)
qed

text \<open>
  The zone cache holds answers of AWS. Whatever reconciliations were run before, an entry of
  the cache for a zone is an answer that AWS gave to a request for that very zone, together with
  the time at which it gave it.
\<close>

lemma cached_zones_are_answers:
  assumes "reachable rounds E s" "cache_lookup (rc_hostedZoneCache s) zoneId = Some entry"
  shows "\<exists>h rest. history s = h @ rest \<and> answered E h zoneId (ce_response entry) \<and>
    ce_fetchedAt entry = lib_Now (lib E) h"
  using reachable_cache_genuine [OF assms(1)] assms(2) unfolding cache_genuine_def
  by (auto dest: zc.soundD simp: genuine_def)

text \<open>A resource that is being deleted, whose record exists and whose zone is given by its id.\<close>

definition zone_answer :: getHostedZoneOutput where
  "zone_answer = \<lparr>gh_HostedZone = Some \<lparr>hz_Id = Some ''Z1'', hz_Name = Some ''svc.example.com.'',
     hz_PrivateZone = Some True\<rparr>, gh_VPCs = []\<rparr>"

definition zoned_env :: env where
  "zoned_env = ref_env\<lparr>r53 := ref_r53\<lparr>r53_GetHostedZone := (\<lambda>h. Inr zone_answer)\<rparr>,
     k8s := ref_k8s\<lparr>k8s_GetInfrastructure := k8s_GetInfrastructure (k8s deleting_env),
       k8s_GetVpcEndpoint := (\<lambda>h. Inr (sample_deleting\<lparr>
         ve_Spec := sample_spec\<lparr>sp_CustomDns := \<lparr>dns_Route53PrivateHostedZone = sample_zone\<lparr>phz_Id := ''Z1''\<rparr>\<rparr>\<rparr>,
         ve_Status := sample_status\<lparr>st_VPCEndpointId := '''', st_SecurityGroupId := '''',
           st_Conditions := [\<lparr>cd_Type = AWSRoute53RecordCondition, cd_Status = ConditionTrue,
             cd_Reason = '''', cd_Message = ''''\<rparr>]\<rparr>\<rparr>))\<rparr>\<rparr>"

definition zoned_state :: reconciler where
  "zoned_state = snd (Reconcile 1 zoned_env ''default'' ''example'' sample_state)"

lemma zoned_lookup: "map_option ce_response (cache_lookup (rc_hostedZoneCache zoned_state) ''Z1'') = Some zone_answer"
  by (simp add: zoned_state_def reconcile_run cleanup_run_defs run_simps deleting_env_def sample_deleting_def
      validateR53PrivateHostedZone_def getHostedZoneCached_def fetchHostedZone_def GetHostedZone_def adoptZone_def
      cache_store_def cache_make_def cache_lookup_def ownsZone_def deleteRecord_def ListResourceRecordSets_def
      zoned_env_def zone_answer_def ref_defs sample_defs Let_def)

lemma cached_zones_are_answers_example:
  "\<exists>h rest. history zoned_state = h @ rest \<and> answered zoned_env h ''Z1'' zone_answer"
proof -
  have "reachable 1 zoned_env sample_state" by (rule reachable.start) (simp add: sample_state_def)
  then have "reachable 1 zoned_env zoned_state" unfolding zoned_state_def by (rule reachable_step)
  with cached_zones_are_answers zoned_lookup show ?thesis by fastforce
qed

text \<open>
  C25: a cached zone is fresh. After any reconciliations, a lookup that succeeds returns what AWS
  answered for that zone less than two minutes before, by the clock; and right after an
  invalidation it returns what AWS answers to the request that this very lookup makes.
\<close>

theorem cached_zone_is_fresh:
  assumes "reachable rounds E s"
  shows "(case getHostedZoneCached E zoneId s of (Ok resp, t) \<Rightarrow> recent E zoneId resp (history t) | _ \<Rightarrow> True) \<and>
    (case bindE (invalidateHostedZoneCache zoneId) (\<lambda>_. getHostedZoneCached E zoneId) s of
       (Ok resp, t) \<Rightarrow> answered E (history t) zoneId resp \<and> length (history t) = length (history s) + 1
     | _ \<Rightarrow> True)"
  using getHostedZoneCached_recent [OF reachable_cache_genuine [OF assms]] invalidated_lookup_asks
  by (auto split: prod.split outcome.split)

theorem cached_zone_is_fresh_witness:
  "recent zoned_env ''Z1'' zone_answer (history (snd (getHostedZoneCached zoned_env ''Z1'' sample_state)))"
proof -
  have "reachable 1 zoned_env sample_state" by (rule reachable.start) (simp add: sample_state_def)
  note cached_zone_is_fresh [OF this, of "''Z1''"]
  moreover have "fst (getHostedZoneCached zoned_env ''Z1'' sample_state) = Ok zone_answer"
    by (simp add: getHostedZoneCached_def fetchHostedZone_def GetHostedZone_def run_simps zoned_env_def ref_defs sample_defs)
  ultimately show ?thesis by (auto split: prod.splits)
qed

section \<open>What is created is found again\<close>

text \<open>How AWS filters by tags: \<open>tag:<key>\<close> asks for one of the values, \<open>tag-key\<close> for one of the keys.\<close>

definition matches_tags :: "ec2Tag list \<Rightarrow> ec2Filter \<Rightarrow> bool" where
  "matches_tags tags f \<longleftrightarrow>
     list_ex (\<lambda>t. if flt_Name f = ''tag-key'' then et_Key t \<in> Some ` set (flt_Values f)
       else take 4 (flt_Name f) = ''tag:'' \<and> et_Key t = Some (drop 4 (flt_Name f)) \<and> et_Value t \<in> Some ` set (flt_Values f)) tags"

definition sent :: "(reconciler, error, 'a) prog \<Rightarrow> reconciler \<Rightarrow> event list" where
  "sent m s = new_events s (snd (m s))"

definition created_tags :: "event list \<Rightarrow> ec2Tag list list" where
  "created_tags es = concat (List.map (\<lambda>e. case e of
     Ec2 _ (DoCreateSecurityGroup _ _ tags _) \<Rightarrow> [tags] | Ec2 _ (DoCreateVpcEndpoint _ _ tags) \<Rightarrow> [tags] | _ \<Rightarrow> []) es)"

definition searched_filters :: "event list \<Rightarrow> ec2Filter list list" where
  "searched_filters es = concat (List.map (\<lambda>e. case e of
     Ec2 _ (DoDescribeSecurityGroups fs []) \<Rightarrow> [fs] | Ec2 _ (DoDescribeVpcEndpoints fs []) \<Rightarrow> [fs] | _ \<Rightarrow> []) es)"

definition default_tags :: "string \<Rightarrow> string \<Rightarrow> ec2Tag list" where
  "default_tags n tag = [mk_tag OperatorTagKey OperatorTagValue, mk_tag RedHatManagedTagKey RedHatManagedTagValue,
     mk_tag tag ''owned'', mk_tag ''Name'' n]"

lemma GenerateAwsTags_default: "n \<noteq> [] \<Longrightarrow> tag \<noteq> [] \<Longrightarrow> GenerateAwsTags n tag = Inr (default_tags n tag)"
  by (simp add: GenerateAwsTags_def default_tags_def)

lemma default_tags_match:
  "list_all (matches_tags (default_tags n tag)) (vpce_filters tag n)"
  "list_all (matches_tags (default_tags n (LegacyClusterTagPrefix @ ''/'' @ infra))) (own_filters infra n)"
  by (simp_all add: default_tags_def matches_tags_def vpce_filters_def own_filters_def mk_tag_def)

text \<open>What the four calls send.\<close>

lemma creations_send:
  assumes "n \<noteq> []" "tag \<noteq> []"
  shows "created_tags (sent (CreateSecurityGroup E c n vpc tag) s) = [default_tags n tag]"
    and "created_tags (sent (CreateDefaultInterfaceVPCEndpoint E c n vpc svc tag) s) = [default_tags n tag]"
  using GenerateAwsTags_default [OF assms]
  by (auto simp: sent_def new_events_def created_tags_def CreateSecurityGroup_def CreateDefaultInterfaceVPCEndpoint_def
      run_simps deref_def split: sum.split option.split)

lemma searches_send:
  "infra \<noteq> [] \<Longrightarrow> searched_filters (sent (FilterSecurityGroupByDefaultTags E c infra n) s) = [own_filters infra n]"
  "tag \<noteq> [] \<Longrightarrow> searched_filters (sent (FilterVPCEndpointByDefaultTags E c tag n) s) = [vpce_filters tag n]"
  by (auto simp: sent_def new_events_def searched_filters_def FilterSecurityGroupByDefaultTags_def
      FilterVPCEndpointByDefaultTags_def GetClusterLegacyTagKey_def own_filters_def vpce_filters_def run_simps split: sum.split)

text \<open>
  C28: a resource created by the operator is found by the operator. A creation of a security group
  (VPC endpoint) sends one creation request, and the search for the group (endpoint) of the same
  resource and cluster, whenever and with whatever client it is made, sends one request with filters
  that the tags of the creation match, all of them.
\<close>

theorem created_resources_are_found:
  assumes "n \<noteq> ''''" "infra \<noteq> ''''" "tag \<noteq> ''''"
  shows "(\<exists>tags filters.
      created_tags (sent (CreateSecurityGroup E c n vpc (LegacyClusterTagPrefix @ ''/'' @ infra)) s) = [tags] \<and>
      searched_filters (sent (FilterSecurityGroupByDefaultTags E' c' infra n) t) = [filters] \<and>
      list_all (matches_tags tags) filters) \<and>
    (\<exists>tags filters.
      created_tags (sent (CreateDefaultInterfaceVPCEndpoint E c n vpc svc tag) s) = [tags] \<and>
      searched_filters (sent (FilterVPCEndpointByDefaultTags E' c' tag n) t) = [filters] \<and>
      list_all (matches_tags tags) filters)"
  using assms default_tags_match by (simp add: creations_send searches_send LegacyClusterTagPrefix_def)

theorem created_resources_are_found_witness:
  "\<exists>tags filters.
     created_tags (sent (CreateSecurityGroup ref_env sample_config ''infra-example-sg'' ''vpc-1''
        (LegacyClusterTagPrefix @ ''/'' @ ''infra'')) sample_state) = [tags] \<and>
     searched_filters (sent (FilterSecurityGroupByDefaultTags ref_env sample_config ''infra'' ''infra-example-sg'') sample_state)
       = [filters] \<and> list_all (matches_tags tags) filters"
  using created_resources_are_found [of "''infra-example-sg''" "''infra''" "''t''" ref_env sample_config "''vpc-1''"
      sample_state ref_env sample_config sample_state "''svc''"] by simp

end
