(* ===== verification/Needed.thy ===== *)
theory Needed
  imports VpcEndpointController DnsResults
begin

text \<open>
  Every change is needed: whatever a live reconciliation comes to, each request of it that changes
  something in AWS answers to a difference between what AWS reported earlier in the same run and
  what the resource asks for. One section per stage, from the requests a stage can make to the
  reports they rest on.
\<close>

section \<open>Locating an event in a sequence\<close>

lemma event_split:
  assumes run: "bindE m f s = (r, u)" and e: "e \<in> set (new_events s u)"
    and m: "preserves (emits A) m" and f: "\<And>x. preserves (emits B) (f x)"
  obtains (first) q t where "m s = (q, t)" "e \<in> set (new_events s t)" "emits (\<lambda>_. True) t u"
  | (second) x t where "m s = (Ok x, t)" "f x t = (r, u)" "e \<in> set (new_events t u)" "emits (\<lambda>_. True) s t"
proof -
  obtain q t where mt: "m s = (q, t)" by fastforce
  have st: "emits (\<lambda>_. True) s t" using preservesD [OF m mt] by (rule emits_any)
  show thesis
  proof (cases "\<exists>x. q = Ok x")
    case True
    then obtain x where q: "q = Ok x" by blast
    with run mt have ft: "f x t = (r, u)" by (simp add: run_simps)
    have tu: "emits (\<lambda>_. True) t u" using preservesD [OF f ft] by (rule emits_any)
    from e new_events_trans [OF st tu] have "e \<in> set (new_events s t) \<or> e \<in> set (new_events t u)" by auto
    with mt q ft st tu first second show thesis by blast
  next
    case False
    with run mt have "t = u" by (cases q) (auto simp: run_simps)
    with mt e first show thesis by (auto intro: emits_refl)
  qed
qed

lemma aws_read_not_write: "aws_read e \<Longrightarrow> \<not> aws_write e"
  by (cases e) simp_all

section \<open>The tags of the security group\<close>

lemma mk_tag_iff: "t = mk_tag k v \<longleftrightarrow> et_Key t = Some k \<and> et_Value t = Some v"
  by (cases t) (auto simp: mk_tag_def)

lemma has_tag_False: "has_tag ts k v = Some False \<Longrightarrow> mk_tag k v \<notin> set ts"
  by (induction ts) (auto simp: mk_tag_iff [symmetric] bind_eq_Some_conv split: if_splits)

lemma has_all_tags_False:
  "has_all_tags tags m ks = Some False \<Longrightarrow>
   \<exists>k\<in>set ks. mk_tag k (case map_of m k of None \<Rightarrow> '''' | Some v \<Rightarrow> v) \<notin> set tags"
  by (induction ks) (auto simp: bind_eq_Some_conv split: if_splits dest: has_tag_False)

lemma set_gomap: "set (gomap kvs) \<subseteq> set kvs"
proof
  fix x
  assume x: "x \<in> set (gomap kvs)"
  obtain k v where kv: "x = (k, v)" by fastforce
  have "map_of (gomap kvs) k = Some v" using x kv map_of_is_SomeI [OF distinct_gomap] by simp
  then show "x \<in> set kvs" using kv by (auto simp: map_of_gomap dest: map_of_SomeD)
qed

lemma tagsContains_False:
  assumes "tagsContains ord tags (gomap kvs) = Some False"
  shows "\<exists>(k, v)\<in>set kvs. mk_tag k v \<notin> set tags"
proof -
  from assms obtain k where k: "k \<in> fst ` set (gomap kvs)"
    and n: "mk_tag k (case map_of (gomap kvs) k of None \<Rightarrow> '''' | Some v \<Rightarrow> v) \<notin> set tags"
    by (auto simp: tagsContains_def set_visit dest!: has_all_tags_False)
  then obtain v where v: "map_of (gomap kvs) k = Some v" by (auto simp: map_of_eq_None_iff dest!: weak_map_of_SomeI)
  then have "(k, v) \<in> set kvs" using set_gomap by (auto dest: map_of_SomeD)
  with n v show ?thesis by force
qed

lemma expected_tags:
  assumes "GenerateAwsTagsAsMap n tag = Ok m" "tagsContains ord tags m = Some False"
  shows "\<exists>expected. GenerateAwsTags n tag = Inr expected \<and> \<not> set expected \<subseteq> set tags"
proof -
  let ?kvs = "[(OperatorTagKey, OperatorTagValue), (RedHatManagedTagKey, RedHatManagedTagValue), (tag, ''owned''), (''Name'', n)]"
  from assms(1) have n: "n \<noteq> []" "tag \<noteq> []"
    by (auto simp: GenerateAwsTagsAsMap_def GenerateAwsTags_def split: if_splits)
  with assms have "tagsContains ord tags (gomap ?kvs) = Some False" by (simp add: GenerateAwsTagsAsMap_Ok)
  from tagsContains_False [OF this] n show ?thesis by (auto simp: GenerateAwsTags_def)
qed

section \<open>The security group\<close>

definition reported_group :: "env \<Rightarrow> reconciler \<Rightarrow> reconciler \<Rightarrow> ec2SecurityGroup \<Rightarrow> bool" where
  "reported_group E s t sg \<longleftrightarrow> (\<exists>c rest.
     reported (ec2_DescribeSecurityGroups (ec2 E))
       (Ec2 c (DoDescribeSecurityGroups [] [st_SecurityGroupId (rc_status s)])) (sg # rest) s t \<or>
     (\<exists>n. GenerateSecurityGroupName (st_InfraId (rc_status s)) (ve_Name (rc_resource s)) = Ok n \<and>
       reported (ec2_DescribeSecurityGroups (ec2 E))
         (Ec2 c (DoDescribeSecurityGroups (own_filters (st_InfraId (rc_status s)) n) [])) (sg # rest) s t))"

lemma reported_group_later: "reported_group E s t sg \<Longrightarrow> emits A t u \<Longrightarrow> reported_group E s u sg"
  unfolding reported_group_def by (blast intro: reported_later)

lemma FilterSecurityGroupById_Ok:
  assumes "FilterSecurityGroupById E c i s = (Ok (Some (sg # rest)), t)"
  shows "reported (ec2_DescribeSecurityGroups (ec2 E)) (Ec2 c (DoDescribeSecurityGroups [] [i])) (sg # rest) s t"
proof -
  from assms obtain x u where a: "attempt (invoke (Ec2 c (DoDescribeSecurityGroups [] [i])) (ec2_DescribeSecurityGroups (ec2 E))) s =
      (Ok x, u)"
    and k: "(case x of
          Inl err \<Rightarrow> (case as_api_error err of
             Some ae \<Rightarrow> if fst ae = ''InvalidGroup.NotFound'' then ret None else failE err
           | None \<Rightarrow> failE err)
        | Inr sgs \<Rightarrow> ret (Some sgs)) u = (Ok (Some (sg # rest)), t)"
    by (auto simp: FilterSecurityGroupById_def bindE_Ok ret_eq split: if_splits)
  then have "x = Inr (sg # rest)" "t = u"
    by (auto simp: ret_eq failE_eq split: if_splits sum.splits option.splits)
  with a show ?thesis by (auto simp: attempt_Ok dest: invoke_reported)
qed

lemma foundSecurityGroup_Ok:
  "foundSecurityGroup E sg s = (Ok sg', t) \<Longrightarrow> sg' = sg \<and> emits (\<lambda>_. True) s t"
  by (auto simp: foundSecurityGroup_def rc_Ok emits_def split: option.splits)

lemma createMissing_not_Ok: "createMissingSecurityGroup E c n s \<noteq> (Ok sg, t)"
proof
  assume "createMissingSecurityGroup E c n s = (Ok sg, t)"
  moreover have "yields (createMissingSecurityGroup E c n) (\<lambda>_ _. False)"
    unfolding createMissingSecurityGroup_def by (intro yields_intros)
  ultimately show False by (rule yieldsD [rotated])
qed

lemma findOrCreateSecurityGroup_Ok:
  assumes "findOrCreateSecurityGroup E s = (Ok sg, t)"
  shows "reported_group E s t sg"
proof -
  let ?st = "rc_status s"
  from assms obtain c resp u where f: "FilterSecurityGroupById E c (st_SecurityGroupId ?st) s = (Ok resp, u)"
    and k: "(case resp of
       Some (sg # _) \<Rightarrow> foundSecurityGroup E sg
     | _ \<Rightarrow> bindE (liftO (GenerateSecurityGroupName (st_InfraId ?st) (ve_Name (rc_resource s))))
         (lookup_by_tags E c (st_InfraId ?st))) u = (Ok sg, t)"
    unfolding findOrCreateSecurityGroup_def lookup_by_tags_def [symmetric]
    by (auto simp: bindE_Ok resource_eq awsClient_eq)
  have su: "emits (\<lambda>_. True) s u"
    by (rule preservesD [OF emits_True [OF group_setup_frames(1)] f])
  show ?thesis
  proof (cases "\<exists>x rest. resp = Some (x # rest)")
    case True
    then obtain x rest where x: "resp = Some (x # rest)" by blast
    with k have "foundSecurityGroup E x u = (Ok sg, t)" by simp
    note o = foundSecurityGroup_Ok [OF this]
    from reported_later [OF FilterSecurityGroupById_Ok [OF f [unfolded x]] o [THEN conjunct2]] o
    show ?thesis unfolding reported_group_def by blast
  next
    case False
    with k have "bindE (liftO (GenerateSecurityGroupName (st_InfraId ?st) (ve_Name (rc_resource s))))
        (lookup_by_tags E c (st_InfraId ?st)) u = (Ok sg, t)"
      by (cases resp; cases "the resp") auto
    then obtain n where n: "GenerateSecurityGroupName (st_InfraId ?st) (ve_Name (rc_resource s)) = Ok n"
      and "lookup_by_tags E c (st_InfraId ?st) n u = (Ok sg, t)"
      by (auto simp: bindE_Ok liftO_eq dest: sym)
    then obtain byTags w where b: "FilterSecurityGroupByDefaultTags E c (st_InfraId ?st) n u = (Ok byTags, w)"
      and k': "(case byTags of [] \<Rightarrow> createMissingSecurityGroup E c n | sg # _ \<Rightarrow> foundSecurityGroup E sg) w = (Ok sg, t)"
      by (auto simp: lookup_by_tags_def bindE_Ok)
    then obtain rest where r: "byTags = sg # rest" and wt: "emits (\<lambda>_. True) w t"
      by (cases byTags) (auto simp: createMissing_not_Ok dest: foundSecurityGroup_Ok)
    from n reported_sooner [OF su reported_later [OF ownGroups_Ok [OF b [unfolded r]] wt]] show ?thesis
      unfolding reported_group_def by blast
  qed
qed

text \<open>Writes of the first two stages.\<close>

lemma findOrCreate_writes:
  "preserves (emits (\<lambda>e. aws_write e \<longrightarrow> creates_group e)) (findOrCreateSecurityGroup E)"
  unfolding findOrCreateSecurityGroup_def foundSecurityGroup_def createMissingSecurityGroup_def
  by (intro preserves_steady_emits steady_intros; simp add: aws_read_not_write)

lemma createTags_needed:
  assumes "createMissingSecurityGroupTags E sg s = (r, t)" "e \<in> set (new_events s t)" "aws_write e"
  shows "\<exists>c g n info tags. e = Ec2 c (DoCreateTags [g] tags) \<and> esg_GroupId sg = Some g \<and>
    GenerateSecurityGroupName (st_InfraId (rc_status s)) (ve_Name (rc_resource s)) = Ok n \<and>
    rc_clusterInfo s = Some info \<and> GenerateAwsTags n (ci_clusterTag info) = Inr tags \<and> \<not> set tags \<subseteq> set (esg_Tags sg)"
  using assms
  by (auto simp: createMissingSecurityGroupTags_def CreateTags_def run_simps deref_def new_events_def
      split: outcome.splits option.splits sum.splits if_splits prod.splits dest!: expected_tags)

text \<open>A request that is sent asks for something.\<close>

lemma collectE:
  assumes "collect f xs = Some zs" "z \<in> set zs"
  obtains x ys where "x \<in> set xs" "f x = Some ys" "z \<in> set ys"
  using collect_Some [OF assms(1)] assms(2) by (auto split: option.splits dest: sym)

lemma missing_shape:
  assumes "collect (missing_for_rule e useVpcCidr vpcCidr (List.map Some gs) rules) avoRules = Some perms" "q \<in> set perms"
  shows "(\<exists>a x. q = cidr_permission a x) \<or> (\<exists>a x. q = group_permission a (Some x))"
proof -
  from assms obtain a new where "missing_for_rule e useVpcCidr vpcCidr (List.map Some gs) rules a = Some new" "q \<in> set new"
    by (rule collectE)
  then show ?thesis
    by (auto simp: missing_for_rule_def bind_eq_Some_conv split: if_splits elim!: collectE; blast)
qed

lemma missing_nonempty:
  assumes "collect (missing_for_rule e useVpcCidr vpcCidr (List.map Some gs) rules) avoRules = Some perms" "perms \<noteq> []"
  shows "requested e perms \<noteq> {}"
proof -
  from assms(2) obtain q ps where perms: "perms = q # ps" by (cases perms) auto
  with missing_shape [OF assms(1), of q] obtain a x where "q = cidr_permission a x \<or> q = group_permission a (Some x)" by fastforce
  with perms show ?thesis by (auto simp: requested_simps)
qed

lemma authorize_events:
  "AuthorizeSecurityGroupRules E c i e s = (r, t) \<Longrightarrow> ev \<in> set (new_events s t) \<Longrightarrow>
   ev = Ec2 c (DoAuthorizeSecurityGroupIngress i) \<and> au_IpPermissions i \<noteq> [] \<or>
   ev = Ec2 c (DoAuthorizeSecurityGroupEgress e) \<and> au_IpPermissions e \<noteq> []"
  by (auto simp: AuthorizeSecurityGroupRules_def run_simps new_events_def split: if_splits sum.splits)

text \<open>
  \<open>rule_need E s t egress i\<close>: the input \<open>i\<close> asks, for the group that AWS reported, for the
  permissions of one direction that the spec wants and that AWS did not report, and there are some.
\<close>

definition rule_need :: "env \<Rightarrow> reconciler \<Rightarrow> reconciler \<Rightarrow> bool \<Rightarrow> authorizeInput \<Rightarrow> bool" where
  "rule_need E s t egress i \<longleftrightarrow> (\<exists>c sg g rules sgs cidr. reported_group E s t sg \<and> esg_GroupId sg = Some g \<and>
     au_GroupId i = Some g \<and> group_rules E c g rules s t \<and>
     node_groups E c (st_InfraId (rc_status s)) sgs s t \<and> vpc_cidr E c (rc_resource s) cidr s t \<and>
     (let spec = sp_SecurityGroup (rc_spec s);
          wanted = (if egress then sg_EgressRules spec else sg_IngressRules spec)
      in requested egress (au_IpPermissions i) =
           desired egress (sg_UseVpcCidr spec) cidr (List.map (the \<circ> esg_GroupId) sgs) wanted - granted rules \<and>
         requested egress (au_IpPermissions i) \<noteq> {}))"

definition group_need :: "env \<Rightarrow> reconciler \<Rightarrow> reconciler \<Rightarrow> event \<Rightarrow> bool" where
  "group_need E s t e = (case e of
     Ec2 c (DoCreateSecurityGroup n d tags vpc) \<Rightarrow>
       GenerateSecurityGroupName (st_InfraId (rc_status s)) (ve_Name (rc_resource s)) = Ok n \<and>
       fst (FilterSecurityGroupById E c (st_SecurityGroupId (rc_status s)) s) \<in> {Ok None, Ok (Some [])} \<and>
       reported (ec2_DescribeSecurityGroups (ec2 E))
         (Ec2 c (DoDescribeSecurityGroups (own_filters (st_InfraId (rc_status s)) n) [])) [] s t \<and>
       (\<exists>info. rc_clusterInfo s = Some info \<and> GenerateAwsTags n (ci_clusterTag info) = Inr tags) \<and>
       vpc = st_VPCId (rc_status s)
   | Ec2 c (DoCreateTags ids tags) \<Rightarrow>
       (\<exists>sg g n info. reported_group E s t sg \<and> esg_GroupId sg = Some g \<and> ids = [g] \<and>
          GenerateSecurityGroupName (st_InfraId (rc_status s)) (ve_Name (rc_resource s)) = Ok n \<and>
          rc_clusterInfo s = Some info \<and> GenerateAwsTags n (ci_clusterTag info) = Inr tags \<and>
          \<not> set tags \<subseteq> set (esg_Tags sg))
   | Ec2 c (DoAuthorizeSecurityGroupIngress i) \<Rightarrow> rule_need E s t False i
   | Ec2 c (DoAuthorizeSecurityGroupEgress i) \<Rightarrow> rule_need E s t True i
   | _ \<Rightarrow> False)"

lemma generated_rule_need:
  assumes "generateMissingSecurityGroupRules E sg s2 = (Ok inputs, s3)" "reported_group E s s2 sg"
    and "\<And>h rules. ec2_DescribeSecurityGroupRules (ec2 E) h = Inr rules \<Longrightarrow> list_all complete rules"
    and "\<And>h sgs. ec2_DescribeSecurityGroups (ec2 E) h = Inr sgs \<Longrightarrow> None \<notin> esg_GroupId ` set sgs"
    and same: "rc_spec s2 = rc_spec s" "st_VPCId (rc_status s2) = st_VPCId (rc_status s)"
      "st_InfraId (rc_status s2) = st_InfraId (rc_status s)"
    and ss2: "emits (\<lambda>_. True) s s2"
  shows "au_IpPermissions (fst inputs) \<noteq> [] \<Longrightarrow> rule_need E s s3 False (fst inputs)"
    and "au_IpPermissions (snd inputs) \<noteq> [] \<Longrightarrow> rule_need E s s3 True (snd inputs)"
proof -
  from assms(2) obtain c rest h where "ec2_DescribeSecurityGroups (ec2 E) h = Inr (sg # rest)"
    unfolding reported_group_def reported_def by blast
  with assms(4) have "None \<notin> esg_GroupId ` set (sg # rest)" by blast
  then obtain g where g: "esg_GroupId sg = Some g" by (cases "esg_GroupId sg") auto
  let ?spec = "sp_SecurityGroup (rc_spec s)"
  obtain c' rules sgs cidr ing egr where r: "group_rules E c' g rules s2 s3"
    "node_groups E c' (st_InfraId (rc_status s)) sgs s2 s3"
    "vpc_cidr E c' (rc_resource s2) cidr s2 s3"
    and ing: "missingIngress (sg_UseVpcCidr ?spec) cidr (List.map esg_GroupId sgs) rules (sg_IngressRules ?spec) = Some ing"
    and egr: "missingEgress (sg_UseVpcCidr ?spec) cidr (List.map esg_GroupId sgs) rules (sg_EgressRules ?spec) = Some egr"
    and inputs: "au_GroupId (fst inputs) = Some g" "au_IpPermissions (fst inputs) = ing"
      "au_GroupId (snd inputs) = Some g" "au_IpPermissions (snd inputs) = egr"
    by (rule generateMissing_Ok [OF assms(1) g, unfolded same])
  obtain h h' where "ec2_DescribeSecurityGroupRules (ec2 E) h = Inr rules" "ec2_DescribeSecurityGroups (ec2 E) h' = Inr sgs"
    using r unfolding group_rules_def node_groups_def reported_def by blast
  then have "list_all complete rules" "None \<notin> esg_GroupId ` set sgs" using assms(3,4) by blast+
  then have cmp: "\<forall>r\<in>set rules. complete r"
    and ids: "List.map esg_GroupId sgs = List.map Some (List.map (the \<circ> esg_GroupId) sgs)"
    by (auto simp: list_all_iff image_iff)
  have s23: "emits (\<lambda>_. True) s2 s3"
    using preservesD [OF sg_setup_steady(3) assms(1)] by (auto simp: steady_def intro: emits_any)
  have "vpc_cidr E c' (rc_resource s) cidr s2 s3" using r(3) by (simp add: vpc_cidr_def same split: if_splits)
  note reads = reported_group_later [OF assms(2) s23] reads_sooner(2) [OF ss2 r(1)] reads_sooner(1) [OF ss2 r(2)]
    reads_sooner(3) [OF ss2 this]
  note i = ing [unfolded ids missingIngress_def] and e = egr [unfolded ids missingEgress_def]
  show "au_IpPermissions (fst inputs) \<noteq> [] \<Longrightarrow> rule_need E s s3 False (fst inputs)"
    unfolding rule_need_def Let_def inputs if_False
    using reads g missing_requested [OF cmp i] missing_nonempty [OF i] by blast
  show "au_IpPermissions (snd inputs) \<noteq> [] \<Longrightarrow> rule_need E s s3 True (snd inputs)"
    unfolding rule_need_def Let_def inputs if_True
    using reads g missing_requested [OF cmp e] missing_nonempty [OF e] by blast
qed

lemma rule_need_later:
  assumes "rule_need E s t egress i" "emits A t u"
  shows "rule_need E s u egress i"
proof -
  from assms(1) obtain c sg g rules sgs cidr
    where r: "reported_group E s t sg" "group_rules E c g rules s t"
      "node_groups E c (st_InfraId (rc_status s)) sgs s t" "vpc_cidr E c (rc_resource s) cidr s t"
    and rest: "esg_GroupId sg = Some g" "au_GroupId i = Some g"
      "let spec = sp_SecurityGroup (rc_spec s);
           wanted = (if egress then sg_EgressRules spec else sg_IngressRules spec)
       in requested egress (au_IpPermissions i) =
            desired egress (sg_UseVpcCidr spec) cidr (List.map (the \<circ> esg_GroupId) sgs) wanted - granted rules \<and>
          requested egress (au_IpPermissions i) \<noteq> {}"
    unfolding rule_need_def by blast
  show ?thesis
    unfolding rule_need_def
    by (intro exI conjI) (fact reported_group_later [OF r(1) assms(2)] rest
        reads_later(2) [OF assms(2) r(2)] reads_later(1) [OF assms(2) r(3)] reads_later(3) [OF assms(2) r(4)])+
qed

lemma group_need_later: "group_need E s t e \<Longrightarrow> emits A t u \<Longrightarrow> group_need E s u e"
  unfolding group_need_def
  by (auto split: event.splits ec2Call.splits intro: rule_need_later reported_later) (blast intro: reported_group_later)+

definition configure_group :: "env \<Rightarrow> ec2SecurityGroup \<Rightarrow> unit rprog" where
  "configure_group E sg =
     bindE (generateMissingSecurityGroupRules E sg) (\<lambda>inputs.
     bindE awsClient (\<lambda>c.
     bindE (AuthorizeSecurityGroupRules E c (fst inputs) (snd inputs)) (\<lambda>_. whenReady E)))"

lemma validateSecurityGroup_stages:
  "validateSecurityGroup E =
     bindE (findOrCreateSecurityGroup E) (\<lambda>sg. bindE (createMissingSecurityGroupTags E sg) (\<lambda>_. configure_group E sg))"
  by (simp add: validateSecurityGroup_def configure_group_def whenReady_def)

lemma group_stages_grow:
  "preserves (emits sg_event) (createMissingSecurityGroupTags E sg)"
  "preserves (emits aws_read) (generateMissingSecurityGroupRules E sg)"
  "preserves (emits (\<lambda>e. \<not> aws_write e)) (whenReady E)"
  "preserves (emits sg_event) (configure_group E sg)"
  unfolding configure_group_def whenReady_def
  by (intro preserves_steady_emits steady_intros sg_steps_steady sg_setup_steady; simp add: sg_event_read)+

lemma configure_group_writes:
  assumes "configure_group E sg s = (r, t)" "e \<in> set (new_events s t)" "aws_write e"
  obtains inputs u c where "generateMissingSecurityGroupRules E sg s = (Ok inputs, u)" "emits (\<lambda>_. True) u t"
    and "e = Ec2 c (DoAuthorizeSecurityGroupIngress (fst inputs)) \<and> au_IpPermissions (fst inputs) \<noteq> [] \<or>
      e = Ec2 c (DoAuthorizeSecurityGroupEgress (snd inputs)) \<and> au_IpPermissions (snd inputs) \<noteq> []"
proof -
  let ?k = "\<lambda>inputs. bindE awsClient (\<lambda>c. bindE (AuthorizeSecurityGroupRules E c (fst inputs) (snd inputs)) (\<lambda>_. whenReady E))"
  have k: "preserves (emits sg_event) (?k x)" for x
    unfolding whenReady_def by (intro preserves_steady_emits steady_intros; simp)
  obtain inputs u where g: "generateMissingSecurityGroupRules E sg s = (Ok inputs, u)" and ku: "?k inputs u = (r, t)"
    and e: "e \<in> set (new_events u t)"
    by (rule event_later [OF assms(1) [unfolded configure_group_def] assms(2) group_stages_grow(2) k])
      (use assms(3) in \<open>auto dest: aws_read_not_write\<close>)
  from ku e obtain c where a: "bindE (AuthorizeSecurityGroupRules E c (fst inputs) (snd inputs)) (\<lambda>_. whenReady E) u = (r, t)"
    by (auto simp: bindE_run [of awsClient] awsClient_run new_events_def split: option.splits)
  have "preserves (emits sg_event) (AuthorizeSecurityGroupRules E c (fst inputs) (snd inputs))"
    by (intro preserves_calls_emits ec2_writers(3)) simp_all
  from event_earlier [OF a e this group_stages_grow(3)] assms(3)
  obtain q v where "AuthorizeSecurityGroupRules E c (fst inputs) (snd inputs) u = (q, v)" "e \<in> set (new_events u v)" by blast
  note ev = authorize_events [OF this]
  have "emits (\<lambda>_. True) u t" using preservesD [OF k ku] by (rule emits_any)
  from that [OF g this ev] show thesis .
qed

text \<open>What the stages leave alone.\<close>

definition group_context :: "reconciler \<Rightarrow> _" where
  "group_context s = (rc_spec s, ve_Meta (rc_resource s), rc_clusterInfo s, st_VPCId (rc_status s), st_InfraId (rc_status s))"

lemma same_events:
  assumes "\<And>s h. g (s\<lparr>history := h\<rparr>) = g s"
  shows "preserves (same g) (record_normal reason)" "preserves (same g) (range_order_now E)" "preserves (same g) (now E)"
    "preserves (same g) (metric m)"
  unfolding record_normal_def metric_def
  by (intro preserves_calls_same [where A = "\<lambda>_. True"] calls_intros assms TrueI)+

lemma group_stages_same:
  "preserves (same group_context) (findOrCreateSecurityGroup E)"
  "preserves (same group_context) (createMissingSecurityGroupTags E sg)"
  unfolding findOrCreateSecurityGroup_def foundSecurityGroup_def createMissingSecurityGroup_def
    createMissingSecurityGroupTags_def Let_def
  by (intro same_intros sm.liftO sm.case_list_prog same_events; simp add: group_context_def)+

lemma group_needed:
  assumes "validateSecurityGroup E s = (r, t)" "e \<in> set (new_events s t)" "aws_write e"
    and "\<And>h rules. ec2_DescribeSecurityGroupRules (ec2 E) h = Inr rules \<Longrightarrow> list_all complete rules"
    and "\<And>h sgs. ec2_DescribeSecurityGroups (ec2 E) h = Inr sgs \<Longrightarrow> None \<notin> esg_GroupId ` set sgs"
  shows "group_need E s t e"
proof -
  have grow: "preserves (emits sg_event) (bindE (createMissingSecurityGroupTags E sg) (\<lambda>_. configure_group E sg))" for sg
    by (intro em.bindE group_stages_grow)
  show ?thesis
    using assms(1) [unfolded validateSecurityGroup_stages] assms(2) preserves_steady_emits [OF sg_steps_steady(1)] grow
  proof (cases rule: event_split)
    case (first q u)
    have "creates_group e"
      using new_events_emits [OF preservesD [OF findOrCreate_writes first(1)] first(2)] assms(3) by simp
    from findOrCreate_creates [OF first(1,2) this] have "group_need E s u e" by (auto simp: group_need_def)
    then show ?thesis using first(3) by (rule group_need_later)
  next
    case (second sg u)
    note rg = findOrCreateSecurityGroup_Ok [OF second(1)]
    have su: "group_context u = group_context s" by (rule sameD [OF group_stages_same(1) second(1)])
    show ?thesis
      using second(2,3) emits_any_prog [OF group_stages_grow(1)] group_stages_grow(4)
    proof (cases rule: event_split)
      case (first q v)
      have "reported_group E s v sg" using rg emits_any preservesD [OF group_stages_grow(1) first(1)]
        by (blast intro: reported_group_later)
      with createTags_needed [OF first(1,2) assms(3)] su have "group_need E s v e"
        by (force simp: group_need_def group_context_def)
      then show ?thesis using first(3) by (rule group_need_later)
    next
      case (second x v)
      have sv: "group_context v = group_context s" "reported_group E s v sg" "emits (\<lambda>_. True) s v"
        using su sameD [OF group_stages_same(2) second(1)] reported_group_later [OF rg second(4)]
          emits_trans [OF \<open>emits (\<lambda>_. True) s u\<close> second(4)] by simp_all
      obtain inputs w c where g: "generateMissingSecurityGroupRules E sg v = (Ok inputs, w)" and wt: "emits (\<lambda>_. True) w t"
        and e: "e = Ec2 c (DoAuthorizeSecurityGroupIngress (fst inputs)) \<and> au_IpPermissions (fst inputs) \<noteq> [] \<or>
          e = Ec2 c (DoAuthorizeSecurityGroupEgress (snd inputs)) \<and> au_IpPermissions (snd inputs) \<noteq> []"
        by (rule configure_group_writes [OF second(2,3) assms(3)])
      have "rc_spec v = rc_spec s" "st_VPCId (rc_status v) = st_VPCId (rc_status s)"
        "st_InfraId (rc_status v) = st_InfraId (rc_status s)"
        using sv(1) by (simp_all add: group_context_def)
      from e generated_rule_need [OF g sv(2) assms(4,5) this sv(3)] have "group_need E s w e"
        by (auto simp: group_need_def)
      then show ?thesis using wt by (rule group_need_later)
    qed
  qed
qed

text \<open>
  C12: changes of the security group are needed. Whatever a validation of the group comes to, the only
  requests of it that change AWS are these, each after AWS reported in the same run what makes it
  necessary: a creation, when no group has the id of the status and none has the name and tags; the
  tags, for a group that lacks one of them; and, for each direction, the permissions that the spec
  wants and that the group does not have, if there are any.
\<close>

theorem group_changes_are_needed:
  assumes "validateSecurityGroup E s = (r, t)" "e \<in> set (new_events s t)" "aws_write e"
    and "\<And>h rules. ec2_DescribeSecurityGroupRules (ec2 E) h = Inr rules \<Longrightarrow> list_all complete rules"
    and "\<And>h sgs. ec2_DescribeSecurityGroups (ec2 E) h = Inr sgs \<Longrightarrow> None \<notin> esg_GroupId ` set sgs"
  shows "group_need E s t e"
  by (rule group_needed [OF assms])

text \<open>A resource that wants an ingress rule that the sample group does not have.\<close>

definition ruled_state :: reconciler where
  "ruled_state = sample_state\<lparr>rc_resource := (rc_resource sample_state)\<lparr>ve_Spec := sample_spec\<lparr>sp_SecurityGroup :=
     \<lparr>sg_IngressRules = [sample_rule], sg_EgressRules = [], sg_UseVpcCidr = False\<rparr>\<rparr>\<rparr>\<rparr>"

theorem group_changes_are_needed_witness:
  "list_ex (\<lambda>e. aws_write e \<and> group_need group_env ruled_state (snd (validateSecurityGroup group_env ruled_state)) e)
     (new_events ruled_state (snd (validateSecurityGroup group_env ruled_state)))"
proof -
  let ?t = "snd (validateSecurityGroup group_env ruled_state)"
  have "\<exists>c i. Ec2 c (DoAuthorizeSecurityGroupIngress i) \<in> set (new_events ruled_state ?t)"
    by (simp add: validateSecurityGroup_def findOrCreateSecurityGroup_def FilterSecurityGroupById_def
        foundSecurityGroup_def createMissingSecurityGroupTags_def sgn.short GenerateAwsTagsAsMap_Ok
        gomap_def tagsContains_def OperatorTagKey_def RedHatManagedTagKey_def
        generateMissingSecurityGroupRules_def DescribeSecurityGroupRules_def
        FilterClusterNodeSecurityGroupsByDefaultTags_def GetClusterLegacyTagKey_def GetClusterCapiTagKey_def
        lookupVpcCidr_def missingIngress_def missingEgress_def AuthorizeSecurityGroupRules_def authorize_input_def
        group_env_def sample_group_def ruled_state_def sample_rule_def sample_aws_rule_def missing_for_rule_def
        avoAndAwsSecurityGroupRuleCandidate_def
        run_simps ref_defs sample_defs Let_def new_events_def)
  then obtain c i where e: "Ec2 c (DoAuthorizeSecurityGroupIngress i) \<in> set (new_events ruled_state ?t)" by blast
  have "group_need group_env ruled_state ?t (Ec2 c (DoAuthorizeSecurityGroupIngress i))"
    by (rule group_changes_are_needed [OF prod.collapse [symmetric] e])
      (simp_all add: group_env_def sample_group_def sample_aws_rule_def complete_def)
  with e show ?thesis unfolding list_ex_iff by (intro bexI conjI) simp_all
qed

end
