(* ===== verification/NeededEndpoint.thy ===== *)
theory NeededEndpoint
  imports Needed
begin

text \<open>
  The changes that a validation of the VPC endpoint makes in AWS, each with the report that makes it
  necessary: a creation for an endpoint that is missing, a modification for settings that differ from
  the wanted ones, a deletion for an endpoint that was rejected.
\<close>

section \<open>What makes a change of the endpoint necessary\<close>

text \<open>
  The modification \<open>m\<close> of the reported endpoint \<open>v\<close> turns private DNS on where it is wanted and off,
  adds subnets that are wanted and not there or removes some that are there and not wanted, or does the
  same with the security groups. There is something in every request.
\<close>

definition group_difference :: "ec2VpcEndpoint \<Rightarrow> string \<Rightarrow> modifyVpcEndpointInput \<Rightarrow> bool" where
  "group_difference v own m \<longleftrightarrow> (\<exists>xs. xs \<noteq> [] \<and>
     (let i = modify_input (evp_VpcEndpointId v); there = {g. Some g \<in> set (evp_Groups v)}
      in m = i\<lparr>mv_AddSecurityGroupIds := xs\<rparr> \<and> set xs = {own} - there \<or>
         m = i\<lparr>mv_RemoveSecurityGroupIds := xs\<rparr> \<and> set xs = there - {own}))"

definition subnet_difference :: "ec2VpcEndpoint \<Rightarrow> string set \<Rightarrow> modifyVpcEndpointInput \<Rightarrow> bool" where
  "subnet_difference v wanted m \<longleftrightarrow> (\<exists>xs. xs \<noteq> [] \<and>
     (let i = modify_input (evp_VpcEndpointId v); there = set (evp_SubnetIds v)
      in m = i\<lparr>mv_AddSubnetIds := xs\<rparr> \<and> set xs = wanted - there \<or>
         m = i\<lparr>mv_RemoveSubnetIds := xs\<rparr> \<and> set xs = there - wanted))"

definition modify_need :: "env \<Rightarrow> ec2VpcEndpoint \<Rightarrow> reconciler \<Rightarrow> reconciler \<Rightarrow> modifyVpcEndpointInput \<Rightarrow> bool" where
  "modify_need E v s t m \<longleftrightarrow>
     m = (modify_input (evp_VpcEndpointId v))\<lparr>mv_PrivateDnsEnabled := Some True\<rparr> \<and>
       rc_EnablePrivateDns s \<and> sp_EnablePrivateDns (rc_spec s) \<and> evp_PrivateDnsEnabled v \<noteq> Some True \<or>
     (\<exists>wanted. wanted_subnets E s t wanted \<and> subnet_difference v wanted m) \<or>
     group_difference v (st_SecurityGroupId (rc_status s)) m"

definition endpoint_need :: "env \<Rightarrow> reconciler \<Rightarrow> reconciler \<Rightarrow> event \<Rightarrow> bool" where
  "endpoint_need E s t e = (case e of
     Ec2 c (DoCreateVpcEndpoint vpc svc tags) \<Rightarrow>
       (\<exists>n info. GenerateVPCEndpointName (st_InfraId (rc_status s)) (ve_Name (rc_resource s)) = Ok n \<and>
          rc_clusterInfo s = Some info \<and> GenerateAwsTags n (ci_clusterTag info) = Inr tags \<and>
          vpc = st_VPCId (rc_status s) \<and> svc = st_VPCEndpointServiceName (rc_status s) \<and>
          fst (DescribeSingleVPCEndpointById E c (st_VPCEndpointId (rc_status s)) s) \<in> {Ok None, Ok (Some [])} \<and>
          reported (ec2_DescribeVpcEndpoints (ec2 E))
            (Ec2 c (DoDescribeVpcEndpoints (vpce_filters (ci_clusterTag info) n) [])) [] s t)
   | Ec2 c (DoModifyVpcEndpoint m) \<Rightarrow>
       (\<exists>v. seen E s t v \<and> evp_State v = ''available'' \<and> modify_need E v s t m)
   | Ec2 c (DoDeleteVpcEndpoints ids) \<Rightarrow>
       (\<exists>v i. seen E s t v \<and> evp_State v = ''rejected'' \<and> evp_VpcEndpointId v = Some i \<and> ids = [i])
   | _ \<Rightarrow> False)"

lemma modify_need_later: "modify_need E v s t m \<Longrightarrow> emits A t u \<Longrightarrow> modify_need E v s u m"
  unfolding modify_need_def by (blast intro: wanted_later)

section \<open>The stages of an available endpoint\<close>

lemma mapErr_state: "mapErr f m s = (q, t) \<Longrightarrow> \<exists>p. m s = (p, t)"
  by (auto simp: mapErr_run split: prod.splits outcome.splits)

lemma enablePrivateDns_needed:
  assumes "enablePrivateDns E v s = (r, t)" "e \<in> set (new_events s t)" "aws_write e"
  shows "\<exists>c m. e = Ec2 c (DoModifyVpcEndpoint m) \<and> modify_need E v s u m"
  using assms
  by (auto simp: enablePrivateDns_def ModifyVpcEndpoint_def run_simps new_events_def modify_need_def
      split: outcome.splits option.splits sum.splits if_splits prod.splits)

text \<open>A request that is sent only if there is something in it.\<close>

lemma modify_when_event:
  "whenE b (bindE awsClient (\<lambda>c. mapErr f (ModifyVpcEndpoint E c m))) s = (r, t) \<Longrightarrow> e \<in> set (new_events s t) \<Longrightarrow>
   b \<and> (\<exists>c. e = Ec2 c (DoModifyVpcEndpoint m))"
  "whenE b (bindE awsClient (\<lambda>c. ModifyVpcEndpoint E c m)) s = (r, t) \<Longrightarrow> e \<in> set (new_events s t) \<Longrightarrow>
   b \<and> (\<exists>c. e = Ec2 c (DoModifyVpcEndpoint m))"
  by (auto simp: ModifyVpcEndpoint_def run_simps new_events_def
      split: outcome.splits option.splits sum.splits if_splits prod.splits)

lemma modify_when_grows:
  "preserves (emits modifies) (whenE b (bindE awsClient (\<lambda>c. mapErr f (ModifyVpcEndpoint E c m))))"
  "preserves (emits modifies) (whenE b (bindE awsClient (\<lambda>c. ModifyVpcEndpoint E c m)))"
  by (intro preserves_steady_emits steady_intros; simp)+

lemma ensureSubnets_needed:
  assumes "ensureVpcEndpointSubnets E v s = (r, t)" "e \<in> set (new_events s t)" "aws_write e"
  shows "\<exists>c m. e = Ec2 c (DoModifyVpcEndpoint m) \<and> modify_need E v s t m"
proof -
  let ?i = "modify_input (evp_VpcEndpointId v)"
  let ?d = "\<lambda>ord ids. StringSliceTwoWayDiff ord ord (evp_SubnetIds v) ids"
  let ?rem = "\<lambda>xs. whenE (xs \<noteq> []) (bindE awsClient (\<lambda>c.
       mapErr (Wrapf ''failed to remove subnets: %v with error: %w'' [FL xs])
         (ModifyVpcEndpoint E c (?i\<lparr>mv_RemoveSubnetIds := xs\<rparr>))))"
  let ?add = "\<lambda>xs. whenE (xs \<noteq> []) (bindE awsClient (\<lambda>c.
       mapErr (Wrapf ''failed to add subnets: %v with error: %w'' [FL xs])
         (ModifyVpcEndpoint E c (?i\<lparr>mv_AddSubnetIds := xs\<rparr>))))"
  let ?k = "\<lambda>ids. bindE (range_order_now E) (\<lambda>ord. bindE (?rem (snd (?d ord ids))) (\<lambda>_. ?add (fst (?d ord ids))))"
  have run: "bindE (expectedSubnetIds E) ?k s = (r, t)"
    using assms(1) by (simp add: ensureVpcEndpointSubnets_def case_prod_beta)
  have grow: "preserves (emits modifies) (?k x)" for x
    by (intro em.bindE modify_when_grows calls_range [THEN preserves_calls_emits])
  obtain ids u where 1: "expectedSubnetIds E s = (Ok ids, u)" and k: "?k ids u = (r, t)" and e: "e \<in> set (new_events u t)"
    by (rule event_later [OF run assms(2) preserves_calls_emits [OF expectedSubnetIds_calls] grow])
      (use assms(3) in \<open>auto dest: aws_read_not_write\<close>)
  from k obtain ord where k: "bindE (?rem (snd (?d ord ids))) (\<lambda>_. ?add (fst (?d ord ids))) u = (r, t)"
    by (auto simp: bindE_run [of "range_order_now E"] range_order_now_run)
  have ut: "emits modifies u t" by (rule preservesD [OF em.bindE k]) (rule modify_when_grows)+
  have w: "wanted_subnets E s t (set ids)" using expectedSubnetIds_Ok [OF 1] ut by (rule wanted_later)
  from k e modify_when_grows(1) modify_when_grows(1)
  have "\<exists>c. snd (?d ord ids) \<noteq> [] \<and> e = Ec2 c (DoModifyVpcEndpoint (?i\<lparr>mv_RemoveSubnetIds := snd (?d ord ids)\<rparr>)) \<or>
      fst (?d ord ids) \<noteq> [] \<and> e = Ec2 c (DoModifyVpcEndpoint (?i\<lparr>mv_AddSubnetIds := fst (?d ord ids)\<rparr>))"
    by (cases rule: event_split) (blast dest: modify_when_event)+
  then obtain c m where "e = Ec2 c (DoModifyVpcEndpoint m)" "subnet_difference v (set ids) m"
    unfolding subnet_difference_def Let_def by (metis sdiff.set_create sdiff.set_delete)
  with w show ?thesis unfolding modify_need_def by blast
qed

lemma ensureGroups_needed:
  assumes "ensureVpcEndpointSecurityGroups E v s = (r, t)" "e \<in> set (new_events s t)" "aws_write e"
  shows "\<exists>c m. e = Ec2 c (DoModifyVpcEndpoint m) \<and> modify_need E v s u m"
proof -
  let ?own = "[st_SecurityGroupId (rc_status s)]" and ?i = "modify_input (evp_VpcEndpointId v)"
  let ?d = "\<lambda>ord ids. StringSliceTwoWayDiff ord ord ids ?own"
  let ?add = "\<lambda>xs. whenE (xs \<noteq> []) (bindE awsClient (\<lambda>c. ModifyVpcEndpoint E c (?i\<lparr>mv_AddSecurityGroupIds := xs\<rparr>)))"
  let ?rem = "\<lambda>xs. whenE (xs \<noteq> []) (bindE awsClient (\<lambda>c. ModifyVpcEndpoint E c (?i\<lparr>mv_RemoveSecurityGroupIds := xs\<rparr>)))"
  let ?all = "collect (map_option (\<lambda>i. [i])) (evp_Groups v)"
  obtain ids ord where ids: "evp_Groups v = List.map Some ids"
    and k: "bindE (?add (fst (?d ord ids))) (\<lambda>_. ?rem (snd (?d ord ids))) s = (r, t)"
  proof (cases ?all)
    case None
    with assms(1,2) have False
      by (auto simp: ensureVpcEndpointSecurityGroups_def diffVpcEndpointSecurityGroups_def
          bindE_run resource_run range_order_now_run deref_run new_events_def)
    then show thesis ..
  next
    case (Some ids)
    with assms(1) have "bindE (?add (fst (?d (lib_Range (lib E) (history s)) ids)))
        (\<lambda>_. ?rem (snd (?d (lib_Range (lib E) (history s)) ids))) s = (r, t)"
      by (simp add: ensureVpcEndpointSecurityGroups_def diffVpcEndpointSecurityGroups_def
          bindE_run [of resource] bindE_run [of "range_order_now E"] bindE_run [of "deref _"] resource_run
          range_order_now_run deref_run case_prod_beta)
    with Some show thesis using that by (simp add: collect_ids)
  qed
  have there: "{g. Some g \<in> set (evp_Groups v)} = set ids" by (auto simp: ids)
  from k assms(2) modify_when_grows(2) modify_when_grows(2)
  have "\<exists>c. fst (?d ord ids) \<noteq> [] \<and> e = Ec2 c (DoModifyVpcEndpoint (?i\<lparr>mv_AddSecurityGroupIds := fst (?d ord ids)\<rparr>)) \<or>
      snd (?d ord ids) \<noteq> [] \<and> e = Ec2 c (DoModifyVpcEndpoint (?i\<lparr>mv_RemoveSecurityGroupIds := snd (?d ord ids)\<rparr>))"
    by (cases rule: event_split) (blast dest: modify_when_event)+
  moreover have "set (fst (?d ord ids)) = {st_SecurityGroupId (rc_status s)} - set ids"
      "set (snd (?d ord ids)) = set ids - {st_SecurityGroupId (rc_status s)}"
    by (simp_all add: sdiff.set_create sdiff.set_delete)
  ultimately obtain c m where "e = Ec2 c (DoModifyVpcEndpoint m)" "group_difference v (st_SecurityGroupId (rc_status s)) m"
    unfolding group_difference_def Let_def there by metis
  then show ?thesis unfolding modify_need_def by blast
qed

section \<open>Every state of the endpoint\<close>

text \<open>What the stages of the configuration leave alone.\<close>

definition endpoint_context :: "reconciler \<Rightarrow> _" where
  "endpoint_context s = (rc_resource s, rc_clusterInfo s, rc_EnablePrivateDns s)"

lemma endpoint_stages_same:
  "preserves (same endpoint_context) (set_pending_metric n)"
  "preserves (same endpoint_context) (enablePrivateDns E v)"
  "preserves (same endpoint_context) (mapErr f (ensureVpcEndpointSubnets E v))"
  unfolding set_pending_metric_def enablePrivateDns_def ensureVpcEndpointSubnets_def expectedSubnetIds_def
    discoverSubnets_def case_prod_beta Let_def
  by (intro same_intros same_events; simp add: endpoint_context_def)+

lemma modify_need_sooner:
  assumes "modify_need E v s t m" "emits A r s" "endpoint_context s = endpoint_context r"
  shows "modify_need E v r t m"
  using assms(1,3) wanted_sooner [OF _ assms(2)] unfolding modify_need_def endpoint_context_def by auto

definition report_available :: "env \<Rightarrow> ec2VpcEndpoint \<Rightarrow> unit rprog" where
  "report_available E v =
     bindE (isConditionTrue E AWSVpcEndpointCondition) (\<lambda>ready.
     bindE (whenE (\<not> ready)
              (bindE (age E) (\<lambda>d. metric (Observe ''vpce_endpoint_ready_duration_seconds'' d)))) (\<lambda>_.
     bindE (setCondition E AWSVpcEndpointCondition ConditionTrue (evp_State v)
              (''VPC Endpoint status is: '' @ evp_State v)) (\<lambda>_.
     updateStatus E)))"

lemma available_stages_grow:
  "preserves (emits vpce_event) (mapErr f (ensureVpcEndpointSubnets E v))"
  "preserves (emits vpce_event) (mapErr f (ensureVpcEndpointSecurityGroups E v))"
  "preserves (emits vpce_event) (enablePrivateDns E v)"
  "preserves (emits (\<lambda>e. \<not> aws_write e)) (set_pending_metric n)"
  "preserves (emits (\<lambda>e. \<not> aws_write e)) (endpointNotReady E state)"
  "preserves (emits (\<lambda>e. \<not> aws_write e)) (report_available E v)"
  "preserves (emits (\<lambda>e. \<not> aws_write e)) (invalidateRoute53RecordCondition E)"
  unfolding set_pending_metric_def endpointNotReady_def report_available_def invalidateRoute53RecordCondition_def
  by (intro preserves_steady_emits steady_intros vpce_steps_steady; simp)+

lemma available_needed:
  assumes "endpointAvailable E v s = (r, t)" "e \<in> set (new_events s t)" "aws_write e"
  shows "\<exists>c m. e = Ec2 c (DoModifyVpcEndpoint m) \<and> modify_need E v s t m"
proof -
  define groups where "groups = bindE (mapErr (Wrapf ''failed to reconcile VPC Endpoint security groups: %w'' [])
              (ensureVpcEndpointSecurityGroups E v)) (\<lambda>_. report_available E v)"
  define subnets where "subnets = bindE (mapErr (Wrapf ''failed to reconcile VPC Endpoint subnets: %w'' [])
              (ensureVpcEndpointSubnets E v)) (\<lambda>_. groups)"
  have grow: "preserves (emits (\<lambda>_. True)) groups" "preserves (emits (\<lambda>_. True)) subnets"
    "preserves (emits (\<lambda>_. True)) (bindE (enablePrivateDns E v) (\<lambda>_. subnets))"
    unfolding groups_def subnets_def by (intro em.bindE available_stages_grow [THEN emits_any_prog])+
  have run: "bindE (set_pending_metric 0) (\<lambda>_. bindE (enablePrivateDns E v) (\<lambda>_. subnets)) s = (r, t)"
    using assms(1) by (simp add: endpointAvailable_def groups_def subnets_def report_available_def)
  obtain x s1 where s1: "set_pending_metric 0 s = (Ok x, s1)" "bindE (enablePrivateDns E v) (\<lambda>_. subnets) s1 = (r, t)"
    and e1: "e \<in> set (new_events s1 t)" and em1: "emits (\<lambda>_. True) s s1"
    by (rule event_later [OF run assms(2) available_stages_grow(4) grow(3)]) (use assms(3) in \<open>auto intro: emits_any\<close>)
  have c1: "endpoint_context s1 = endpoint_context s" by (rule sameD [OF endpoint_stages_same(1) s1(1)])
  from s1(2) e1 available_stages_grow(3) grow(2)
  have "\<exists>c m. e = Ec2 c (DoModifyVpcEndpoint m) \<and> modify_need E v s1 t m"
  proof (cases rule: event_split)
    case (first q u)
    with enablePrivateDns_needed [OF first(1,2) assms(3)] show ?thesis by blast
  next
    case (second y s2)
    have c2: "endpoint_context s2 = endpoint_context s1" by (rule sameD [OF endpoint_stages_same(2) second(1)])
    from second(2) [unfolded subnets_def] second(3) available_stages_grow(1) grow(1)
    have "\<exists>c m. e = Ec2 c (DoModifyVpcEndpoint m) \<and> modify_need E v s2 t m"
    proof (cases rule: event_split)
      case (first q u)
      from mapErr_state [OF first(1)] obtain p where "ensureVpcEndpointSubnets E v s2 = (p, u)" ..
      from ensureSubnets_needed [OF this first(2) assms(3)] show ?thesis
        using modify_need_later [OF _ first(3)] by blast
    next
      case (second z s3)
      have c3: "endpoint_context s3 = endpoint_context s2" by (rule sameD [OF endpoint_stages_same(3) second(1)])
      obtain q u where g: "mapErr (Wrapf ''failed to reconcile VPC Endpoint security groups: %w'' [])
          (ensureVpcEndpointSecurityGroups E v) s3 = (q, u)" and e: "e \<in> set (new_events s3 u)"
        by (rule event_earlier [OF second(2) [unfolded groups_def] second(3) available_stages_grow(2,6)])
          (use assms(3) in simp)
      from mapErr_state [OF g] obtain p where "ensureVpcEndpointSecurityGroups E v s3 = (p, u)" ..
      from ensureGroups_needed [OF this e assms(3), of t] show ?thesis
        using modify_need_sooner [OF _ second(4) c3] by blast
    qed
    then show ?thesis using modify_need_sooner [OF _ second(4) c2] by blast
  qed
  then show ?thesis using modify_need_sooner [OF _ em1 c1] by blast
qed

lemma rejected_deletes:
  assumes "endpointRejected E s = (r, t)" "e \<in> set (new_events s t)" "aws_write e"
  shows "\<exists>c. e = Ec2 c (DoDeleteVpcEndpoints [st_VPCEndpointId (rc_status s)])"
proof -
  let ?k = "bindE status (\<lambda>st. bindE awsClient (\<lambda>c.
     bindE (attempt (DeleteVPCEndpoint E c (st_VPCEndpointId st))) (\<lambda>deleted.
     bindE (case deleted of
              Inr _ \<Rightarrow> ret ()
            | Inl err \<Rightarrow>
                (case as_api_error err of
                   Some ae \<Rightarrow>
                     if fst ae = ''InvalidVpcEndpoint.NotFound''
                     then set_status (\<lambda>v. v\<lparr>st_VPCEndpointId := ''''\<rparr>)
                     else failE err
                 | None \<Rightarrow> failE err)) (\<lambda>_.
     failE (Errorf ''VPC Endpoint unexpectedly needed to be deleted'' [])))))"
  have grow: "preserves (emits vpce_event) ?k"
    by (intro preserves_steady_emits steady_intros; simp)
  obtain x u where i: "invalidateRoute53RecordCondition E s = (Ok x, u)" and k: "?k u = (r, t)"
    and e: "e \<in> set (new_events u t)"
    by (rule event_later [OF assms(1) [unfolded endpointRejected_def] assms(2) available_stages_grow(7) grow])
      (use assms(3) in simp)
  have "preserves (keeps st_VPCEndpointId) (invalidateRoute53RecordCondition E)"
    unfolding invalidateRoute53RecordCondition_def by (intro keeps_intros; simp)
  then have id: "st_VPCEndpointId (rc_status u) = st_VPCEndpointId (rc_status s)" using i by (rule keepsD)
  show ?thesis
  proof (cases "rc_awsClient u")
    case None
    with k e show ?thesis by (simp add: run_simps new_events_def)
  next
    case (Some c)
    obtain q w where d: "attempt (DeleteVPCEndpoint E c (st_VPCEndpointId (rc_status u))) u = (q, w)" by fastforce
    then have w: "history w = history u @ [Ec2 c (DoDeleteVpcEndpoints [st_VPCEndpointId (rc_status u)])]"
      by (auto simp: DeleteVPCEndpoint_def run_simps split: sum.splits if_splits)
    have "history t = history w"
      using k Some d by (auto simp: bindE_run status_run awsClient_run run_simps
          split: outcome.splits sum.splits option.splits if_splits)
    with w e id show ?thesis by (auto simp: new_events_def)
  qed
qed

lemma by_state_needed:
  assumes "by_state E v s = (r, t)" "e \<in> set (new_events s t)" "aws_write e"
  shows "evp_State v = ''available'' \<and> (\<exists>c m. e = Ec2 c (DoModifyVpcEndpoint m) \<and> modify_need E v s t m) \<or>
    evp_State v = ''rejected'' \<and> (\<exists>c. e = Ec2 c (DoDeleteVpcEndpoints [st_VPCEndpointId (rc_status s)]))"
proof -
  have "preserves (emits (\<lambda>e. \<not> aws_write e)) (by_state E v)" if "evp_State v \<notin> {''available'', ''rejected''}"
    using that unfolding by_state_def
    by (intro em.if_prog em.bindE available_stages_grow em.failE) auto
  with assms have "evp_State v \<in> {''available'', ''rejected''}"
    by (auto dest: preservesD new_events_emits)
  with assms available_needed [of E v s r t e] rejected_deletes [of E s r t e] show ?thesis
    by (auto simp: by_state_def)
qed

section \<open>Every change of the endpoint is needed\<close>

lemma findOrCreateEndpoint_writes:
  "preserves (emits (\<lambda>e. aws_write e \<longrightarrow> creates_endpoint e)) (findOrCreateVpcEndpoint E)"
  unfolding findOrCreateVpcEndpoint_def
  by (intro preserves_steady_emits steady_intros; simp add: aws_read_not_write)

lemma by_state_grows: "preserves (emits vpce_event) (by_state E v)"
  unfolding by_state_def endpointAvailable_def
  by (intro preserves_steady_emits steady_intros vpce_steps_steady; simp)

lemma created_endpoint_needed:
  assumes "findOrCreateVpcEndpoint E s = (q, u)" "e \<in> set (new_events s u)" "aws_write e" "emits A u t"
  shows "endpoint_need E s t e"
proof -
  have "creates_endpoint e"
    using new_events_emits [OF preservesD [OF findOrCreateEndpoint_writes assms(1)] assms(2)] assms(3) by simp
  from findOrCreateEndpoint_creates [OF assms(1,2) this] obtain c p w
    where o: "obtain_endpoint E c (rc_resource s) s = (p, w)" "e \<in> set (new_events s w)" and wu: "emits (\<lambda>_. True) w u"
    by blast
  have "emits (\<lambda>_. True) w t" using wu assms(4) by (blast intro: emits_trans emits_any)
  with obtain_endpoint_creates [OF o \<open>creates_endpoint e\<close>] show ?thesis
    unfolding endpoint_need_def by (auto intro: reported_later)
qed

lemma endpoint_needed:
  assumes "validateVPCEndpoint E s = (r, t)" "e \<in> set (new_events s t)" "aws_write e"
  shows "endpoint_need E s t e"
proof -
  obtain q u where f: "findOrCreateVpcEndpoint E s = (q, u)" by fastforce
  show ?thesis
  proof (cases "\<exists>v. q = Ok v")
    case False
    with f assms(1) have "t = u" by (cases q) (auto simp: validateVPCEndpoint_def bindE_run)
    with created_endpoint_needed [OF f _ assms(3) emits_refl] assms(2) show ?thesis by simp
  next
    case True
    then obtain v where v: "findOrCreateVpcEndpoint E s = (Ok v, u)" using f by blast
    have b: "by_state E v u = (r, t)" using validateVPCEndpoint_stages [OF v] assms(1) by simp
    have ut: "emits vpce_event u t" using by_state_grows b by (rule preservesD)
    note o = findOrCreate_Ok [OF v]
    from assms(2) new_events_trans [OF o(2) ut] consider "e \<in> set (new_events s u)" | "e \<in> set (new_events u t)" by auto
    then show ?thesis
    proof cases
      case 1
      from f this assms(3) ut show ?thesis by (rule created_endpoint_needed)
    next
      case 2
      have su: "rc_spec u = rc_spec s" "st_VPCId (rc_status u) = st_VPCId (rc_status s)"
        "st_VPCEndpointServiceName (rc_status u) = st_VPCEndpointServiceName (rc_status s)"
        "st_SecurityGroupId (rc_status u) = st_SecurityGroupId (rc_status s)"
        by (subst o(6), simp)+
      have "modify_need E v s t m" if "modify_need E v u t m" for m
        using that wanted_sooner [OF _ o(2) su(1) o(4) su(2,3)] unfolding modify_need_def by (auto simp: su o(5))
      with by_state_needed [OF b 2 assms(3)] seen_later [OF o(1) ut] o(3) show ?thesis
        by (elim disjE conjE exE) (simp_all add: endpoint_need_def, blast+)
    qed
  qed
qed

text \<open>
  C13: changes of the endpoint are needed. Whatever a validation of the endpoint comes to, the only
  requests of it that change AWS are these, each after AWS reported in the same run what makes it
  necessary: a creation, when no endpoint has the id of the status and none has the name and tags; a
  modification of an available endpoint, that adds or removes exactly the subnets or security groups
  in which the report differs from what is wanted, or turns on private DNS that is wanted and off; and
  the deletion of an endpoint that was reported as rejected. None of these requests is empty.
\<close>

theorem endpoint_changes_are_needed:
  assumes "validateVPCEndpoint E s = (r, t)" "e \<in> set (new_events s t)" "aws_write e"
  shows "endpoint_need E s t e"
  by (rule endpoint_needed [OF assms])

theorem endpoint_changes_are_needed_witness:
  "list_ex (\<lambda>e. aws_write e \<and> endpoint_need create_env new_state (snd (validateVPCEndpoint create_env new_state)) e)
     (new_events new_state (snd (validateVPCEndpoint create_env new_state)))"
  using new_endpoint_created endpoint_changes_are_needed [OF prod.collapse [symmetric] new_endpoint_created]
  unfolding list_ex_iff by (intro bexI conjI) simp_all

end
