(* ===== verification/NeededDns.thy ===== *)
theory NeededDns
  imports NeededEndpoint
begin

text \<open>
  The changes that the stages of the custom DNS make in AWS and in the cluster, each with what makes
  it necessary: a zone that is missing, a default tag that is missing or different, a record that is
  not known to be right, a VPC that is not in the zone, a service that is missing or points elsewhere.
\<close>

section \<open>What makes a change necessary\<close>

text \<open>A default tag that AWS reported missing from the zone, or with another value.\<close>

definition differs :: "(string \<times> string) list \<Rightarrow> ec2Tag \<Rightarrow> bool" where
  "differs pairs x \<longleftrightarrow> (\<exists>k. et_Key x = Some k \<and>
     (case map_of (gomap pairs) k of None \<Rightarrow> True | Some v \<Rightarrow> et_Value x \<noteq> Some v))"

definition tags_need :: "env \<Rightarrow> reconciler \<Rightarrow> reconciler \<Rightarrow> awsConfig \<Rightarrow> string \<Rightarrow> ec2Tag list \<Rightarrow> bool" where
  "tags_need E s t c zoneId expected \<longleftrightarrow>
     \<not> lib_IsStatusConditionTrue (lib E) (st_Conditions (rc_status s)) AWSRoute53TagsCondition \<and>
     zoneId = st_HostedZoneId (rc_status s) \<and>
     (\<exists>info tags pairs. rc_clusterInfo s = Some info \<and> GenerateR53Tags (ci_clusterTag info) = Inr expected \<and>
        reported (r53_ListTagsForResource (r53 E)) (R53 c (DoListTagsForResource zoneId)) (Some tags) s t \<and>
        tag_pairs tags = Some pairs \<and> list_ex (differs pairs) expected)"

definition zone_need :: "env \<Rightarrow> reconciler \<Rightarrow> reconciler \<Rightarrow> awsConfig \<Rightarrow> string \<Rightarrow> string \<Rightarrow> string \<Rightarrow> bool" where
  "zone_need E s t c domain vpc reg \<longleftrightarrow>
     st_HostedZoneId (rc_status s) = '''' \<and> domain \<noteq> '''' \<and>
     fst (resolveDomainName E s) = Ok domain \<and> vpc = st_VPCId (rc_status s) \<and>
     \<not> phz_AutoDiscover (ve_Zone (rc_resource s)) \<and> phz_Id (ve_Zone (rc_resource s)) = '''' \<and>
     (\<exists>info summaries zones. rc_clusterInfo s = Some info \<and> reg = ci_region info \<and>
       reported (r53_ListHostedZonesByVPC (r53 E)) (R53 c (DoListHostedZonesByVPC vpc reg)) summaries s t \<and>
       list_all (\<lambda>z. \<exists>n. hs_Name z = Some n \<and> trim_right n (CHR ''.'') \<noteq> domain) summaries \<and>
       reported (r53_ListHostedZonesByName (r53 E)) (R53 c (DoListHostedZonesByName domain)) zones s t \<and>
       list_all (\<lambda>z. \<exists>n. hz_Name z = Some n \<and>
         \<not> (trim_right n (CHR ''.'') = domain \<and> hz_PrivateZone z = Some True)) zones)"

definition record_need :: "env \<Rightarrow> reconciler \<Rightarrow> reconciler \<Rightarrow> awsConfig \<Rightarrow> resourceRecordSet \<Rightarrow> bool" where
  "record_need E s t c rrs \<longleftrightarrow>
     (let holds = lib_IsStatusConditionTrue (lib E) (st_Conditions (rc_status s))
      in \<not> (holds AWSRoute53RecordCondition \<and> holds AWSVpcEndpointCondition)) \<and>
     (\<exists>name vpce val rest. rrs = cname_record name val \<and> evp_State vpce = ''available'' \<and>
        evp_DnsEntries vpce = val # rest \<and>
        reported (ec2_DescribeVpcEndpoints (ec2 E))
          (Ec2 c (DoDescribeVpcEndpoints [] [st_VPCEndpointId (rc_status s)])) [vpce] s t)"

text \<open>The zone that is looked at may come from the cache.\<close>

definition association_need :: "env \<Rightarrow> reconciler \<Rightarrow> string \<Rightarrow> string \<Rightarrow> string \<Rightarrow> bool" where
  "association_need E s zoneId vpc reg \<longleftrightarrow> zoneId = st_HostedZoneId (rc_status s) \<and>
     (\<exists>resp ids. fst (getHostedZoneCached E zoneId s) = Ok resp \<and> gh_VPCs resp = List.map Some ids \<and>
        list_ex (\<lambda>v. av_VpcId v = vpc \<and> av_Region v = reg \<and> vpc \<notin> set ids)
          (phz_AssociatedVpcs (ve_Zone (rc_resource s))))"

definition service_lookup :: "reconciler \<Rightarrow> event" where
  "service_lookup s = K8s (DoGetService (ve_Namespace (rc_resource s))
     (ens_Name (rec_ExternalNameService (phz_Record (ve_Zone (rc_resource s))))))"

text \<open>The API server does not know the service.\<close>

definition service_missing :: "env \<Rightarrow> reconciler \<Rightarrow> bool" where
  "service_missing E s \<longleftrightarrow> (case k8s_GetService (k8s E) (history s @ [service_lookup s]) of
     Inl err \<Rightarrow> lib_IsNotFound (lib E) err | Inr _ \<Rightarrow> False)"

definition dns_need :: "env \<Rightarrow> reconciler \<Rightarrow> reconciler \<Rightarrow> event \<Rightarrow> bool" where
  "dns_need E s t e = (case e of
     R53 c (DoCreateHostedZone domain vpc reg) \<Rightarrow> zone_need E s t c domain vpc reg
   | R53 c (DoChangeTagsForResource zoneId expected) \<Rightarrow>
       tags_need E (snd (findOrCreatePrivateHostedZone E s)) t c zoneId expected
   | R53 c (DoUpsertResourceRecordSet rrs zoneId) \<Rightarrow> record_need E s t c rrs
   | R53 c (DoCreateVPCAssociationAuthorization zoneId vpc reg) \<Rightarrow> association_need E s zoneId vpc reg
   | R53 c (DoAssociateVPCWithHostedZone zoneId vpc reg) \<Rightarrow> association_need E s zoneId vpc reg
   | K8s (DoCreateService svc) \<Rightarrow> service_missing E s
   | K8s (DoUpdateService svc) \<Rightarrow>
       (\<exists>found. reported (k8s_GetService (k8s E)) (service_lookup s) found s t \<and>
          svc_ExternalName found \<noteq> svc_ExternalName svc \<and>
          svc = found\<lparr>svc_ExternalName := svc_ExternalName svc\<rparr>)
   | _ \<Rightarrow> False)"

text \<open>The events that change something in AWS or change a service of the cluster.\<close>

fun dns_change :: "event \<Rightarrow> bool" where
  "dns_change (K8s (DoCreateService _)) = True"
| "dns_change (K8s (DoUpdateService _)) = True"
| "dns_change e = aws_write e"

lemma dns_change_read: "aws_read e \<Longrightarrow> \<not> dns_change e" "lookup_event e \<Longrightarrow> \<not> dns_change e"
  by (cases e rule: dns_change.cases; simp add: aws_read_not_write)+

section \<open>Tags\<close>

definition tag_step :: "env \<Rightarrow> awsConfig \<Rightarrow> changeTagsInput \<Rightarrow> (string \<times> string) list \<Rightarrow> ec2Tag \<Rightarrow> unit rprog" where
  "tag_step E c input pairs t =
     bindE (deref (et_Key t)) (\<lambda>k.
     bindE (case map_of (gomap pairs) k of
              None \<Rightarrow> ret True
            | Some v \<Rightarrow> bindE (deref (et_Value t)) (\<lambda>expected. ret (v \<noteq> expected))) (\<lambda>missing.
     whenE missing
       (mapErr (Wrapf ''failed tag hosted zone with default tags %w'' [])
          (ChangeTagsForResource E c input))))"

definition tags_verified :: "env \<Rightarrow> unit rprog" where
  "tags_verified E = bindE (setCondition E AWSRoute53TagsCondition ConditionTrue ''TagsVerified''
     ''Route53 hosted zone tags are correct'') (\<lambda>_. updateStatus E)"

lemma tag_step_needed:
  "preserves (emits (\<lambda>e. e = R53 c (DoChangeTagsForResource (cti_ResourceId input) (cti_AddTags input)) \<and> differs pairs x))
     (tag_step E c input pairs x)"
proof (rule preservesI)
  fix s r t
  assume "tag_step E c input pairs x s = (r, t)"
  then show "emits (\<lambda>e. e = R53 c (DoChangeTagsForResource (cti_ResourceId input) (cti_AddTags input)) \<and> differs pairs x) s t"
    by (cases "et_Key x"; cases "map_of (gomap pairs) (the (et_Key x))"; cases "et_Value x")
      (auto simp: tag_step_def ChangeTagsForResource_def differs_def run_simps emits_def split: if_splits sum.splits)
qed

lemma tag_steps_needed:
  "preserves (emits (\<lambda>e. e = R53 c (DoChangeTagsForResource (cti_ResourceId input) (cti_AddTags input)) \<and> list_ex (differs pairs) xs))
     (forE (tag_step E c input pairs) xs)"
  by (rule em.forE) (rule preserves_emits_weaken [OF tag_step_needed], auto simp: list_ex_iff)

lemma createTags_stages:
  assumes "createMissingPrivateZoneTags E s = (r, t)" "e \<in> set (new_events s t)" "aws_write e"
  shows "\<exists>c info tags pairs expected. e = R53 c (DoChangeTagsForResource (st_HostedZoneId (rc_status s)) expected) \<and>
    rc_clusterInfo s = Some info \<and> GenerateR53Tags (ci_clusterTag info) = Inr expected \<and>
    reported (r53_ListTagsForResource (r53 E))
      (R53 c (DoListTagsForResource (st_HostedZoneId (rc_status s)))) (Some tags) s t \<and>
    tag_pairs tags = Some pairs \<and> list_ex (differs pairs) expected"
proof (cases "rc_awsClient s")
  case None
  with assms show ?thesis by (simp add: createMissingPrivateZoneTags_def run_simps new_events_def)
next
  case (Some c)
  let ?z = "st_HostedZoneId (rc_status s)"
  define k where "k listed = bindE clusterTag (\<lambda>tag.
     bindE (mapErr (Wrapf (''failed to generate hosted zone'' @ [CHR 0x27] @ ''s default tags %w'') [])
              (liftS (GenerateDefaultTagsForHostedZoneInput ?z tag))) (\<lambda>input.
     bindE (deref listed) (\<lambda>tags.
     bindE (deref (tag_pairs tags)) (\<lambda>pairs.
     bindE (forE (tag_step E c input pairs) (cti_AddTags input)) (\<lambda>_. tags_verified E)))))" for listed
  let ?list = "mapErr (Wrapf (''failed to list zone'' @ [CHR 0x27] @ ''s tags %w'') []) (FetchPrivateZoneTags E c ?z)"
  have run: "bindE ?list k s = (r, t)"
    using assms(1) Some unfolding createMissingPrivateZoneTags_def k_def tag_step_def [abs_def] tags_verified_def
    by (simp add: bindE_run [of status] bindE_run [of awsClient] status_run awsClient_run)
  have verified: "preserves (emits (\<lambda>e. \<not> aws_write e)) (tags_verified E)"
    unfolding tags_verified_def by (intro preserves_steady_emits steady_intros) simp
  have grow: "preserves (emits (\<lambda>_. True)) (k x)" for x
    unfolding k_def clusterTag_def
    by (intro emits_intros verified [THEN emits_any_prog] tag_step_needed [THEN emits_any_prog])
  have list: "preserves (calls aws_read) ?list" by (intro calls_intros r53_readers)
  obtain listed u where l: "?list s = (Ok listed, u)" and k: "k listed u = (r, t)" and e: "e \<in> set (new_events u t)"
    by (rule event_later [OF run assms(2) preserves_calls_emits [OF list] grow])
      (use assms(3) in \<open>auto dest: aws_read_not_write\<close>)
  have su: "rc_clusterInfo u = rc_clusterInfo s" using reader_frame [OF list l] by simp
  from k e obtain info input tags pairs where info: "rc_clusterInfo u = Some info"
    and input: "GenerateDefaultTagsForHostedZoneInput ?z (ci_clusterTag info) = Inr input"
    and tags: "listed = Some tags" "tag_pairs tags = Some pairs"
    and f: "bindE (forE (tag_step E c input pairs) (cti_AddTags input)) (\<lambda>_. tags_verified E) u = (r, t)"
    unfolding k_def
    by (cases "rc_clusterInfo u"; cases "GenerateDefaultTagsForHostedZoneInput ?z (ci_clusterTag (the (rc_clusterInfo u)))";
        cases listed; cases "tag_pairs (the listed)")
      (auto simp: bindE_run [of clusterTag] bindE_run [of "mapErr _ _"] bindE_run [of "deref _"] clusterTag_run
        mapErr_run liftS_run deref_run new_events_def)
  obtain q w where "forE (tag_step E c input pairs) (cti_AddTags input) u = (q, w)" "e \<in> set (new_events u w)"
    by (rule event_earlier [OF f e tag_steps_needed verified]) (use assms(3) in simp)
  then have "e = R53 c (DoChangeTagsForResource (cti_ResourceId input) (cti_AddTags input))"
    "list_ex (differs pairs) (cti_AddTags input)"
    using preservesD [OF tag_steps_needed] by (blast dest: new_events_emits)+
  moreover have "cti_ResourceId input = ?z" "GenerateR53Tags (ci_clusterTag info) = Inr (cti_AddTags input)"
    using input by (auto simp: GenerateDefaultTagsForHostedZoneInput_def split: sum.splits)
  moreover have "reported (r53_ListTagsForResource (r53 E)) (R53 c (DoListTagsForResource ?z)) listed s u"
    using l by (auto simp: FetchPrivateZoneTags_def mapErr_Ok dest: invoke_reported)
  note reported_later [OF this preservesD [OF grow k]]
  ultimately show ?thesis using info su tags by auto
qed

section \<open>The stages\<close>

lemma zone_stage_quiet:
  "preserves (steady (\<lambda>e. \<not> dns_change e)) (discovered_zone E st)"
  "preserves (steady (\<lambda>e. \<not> dns_change e)) (zone_by_id E i)"
  "preserves (steady (\<lambda>e. dns_change e \<longrightarrow> creates_zone e)) (findOrCreatePrivateHostedZone E)"
  "preserves (steady (\<lambda>e. dns_change e \<longrightarrow> aws_write e)) (tags_if_needed E)"
  unfolding discovered_zone_def zone_by_id_def adoptZone_def tags_if_needed_def createMissingPrivateZoneTags_def
    findOrCreatePrivateHostedZone_def resolveDomainName_def zoneForDomain_def zone_in_vpc_def private_zone_named_def
    useHostedZone_def createPrivateHostedZone_def Let_def
  by (intro steady_intros getHostedZoneCached_steady; simp add: dns_change_read)+

lemma creates_zoneD: "creates_zone e \<Longrightarrow> \<exists>c domain vpc reg. e = R53 c (DoCreateHostedZone domain vpc reg)"
  by (cases e rule: creates_zone.cases) simp_all

lemma zone_stage_needed:
  assumes "validateR53PrivateHostedZone E s = (r, t)" "e \<in> set (new_events s t)" "dns_change e"
  shows "dns_need E s t e"
proof -
  have quiet: False if "preserves (steady (\<lambda>e. \<not> dns_change e)) m" "m s = (r, t)" for m :: "unit rprog"
    using preservesD [OF that] assms(2,3) by (auto dest: steady_event)
  have run: "bindE (findOrCreatePrivateHostedZone E) (\<lambda>_. tags_if_needed E) s = (r, t)"
    using assms(1,2) quiet [OF zone_stage_quiet(1)] quiet [OF zone_stage_quiet(2)]
    by (auto simp: validateR53PrivateHostedZone_run Let_def new_events_def split: if_splits)
  note stages = zone_stage_quiet(3,4) [THEN preserves_steady_emits]
  from run assms(2) stages show ?thesis
  proof (cases rule: event_split)
    case (first q u)
    with preservesD [OF stages(1)] assms(3) have "creates_zone e" by (blast dest: new_events_emits)
    then obtain c domain vpc reg where e: "e = R53 c (DoCreateHostedZone domain vpc reg)" by (blast dest: creates_zoneD)
    with zone_created_only_if_missing [OF assms(1)] assms(2) show ?thesis
      by (simp add: dns_need_def zone_need_def)
  next
    case (second x u)
    from preservesD [OF stages(2) second(2)] second(3) assms(3) have w: "aws_write e" by (blast dest: new_events_emits)
    have u: "u = snd (findOrCreatePrivateHostedZone E s)" using second(1) by simp
    from second(2,3) have "\<not> lib_IsStatusConditionTrue (lib E) (st_Conditions (rc_status u)) AWSRoute53TagsCondition"
      and "createMissingPrivateZoneTags E u = (r, t)"
      by (auto simp: tags_if_needed_def run_simps new_events_def split: if_splits)
    with createTags_stages [OF _ second(3) w] show ?thesis
      by (fastforce simp: dns_need_def tags_need_def u [symmetric])
  qed
qed

lemma record_stage_quiet:
  "preserves (steady (\<lambda>e. dns_change e \<longrightarrow> upserts e)) (validateR53HostedZoneRecord E)"
  unfolding validateR53HostedZoneRecord_def generateRoute53Record_def upsertRecord_def Let_def
  by (intro steady_intros getHostedZoneCached_steady; simp add: dns_change_read)

lemma upsertsD: "upserts e \<Longrightarrow> \<exists>c rrs zoneId. e = R53 c (DoUpsertResourceRecordSet rrs zoneId)"
  by (cases e rule: upserts.cases) simp_all

lemma record_stage_needed:
  assumes "validateR53HostedZoneRecord E s = (r, t)" "e \<in> set (new_events s t)" "dns_change e"
  shows "dns_need E s t e"
proof -
  from preservesD [OF record_stage_quiet assms(1)] assms(2,3) have "upserts e" by (blast dest: steady_event)
  then obtain c rrs zoneId where e: "e = R53 c (DoUpsertResourceRecordSet rrs zoneId)" by (blast dest: upsertsD)
  let ?holds = "lib_IsStatusConditionTrue (lib E) (st_Conditions (rc_status s))"
  have "\<not> (?holds AWSRoute53RecordCondition \<and> ?holds AWSVpcEndpointCondition)"
    using assms(1,2) by (auto simp: validateR53HostedZoneRecord_def run_simps new_events_def)
  moreover from record_upsert [OF assms(1), of c rrs zoneId] assms(2) e obtain vpce val rest name
    where "reported (ec2_DescribeVpcEndpoints (ec2 E))
      (Ec2 c (DoDescribeVpcEndpoints [] [st_VPCEndpointId (rc_status s)])) [vpce] s t"
      "evp_State vpce = ''available''" "evp_DnsEntries vpce = val # rest" "rrs = cname_record name val"
    unfolding Let_def by blast
  ultimately show ?thesis unfolding e dns_need_def record_need_def Let_def by auto
qed

section \<open>Associations\<close>

fun associates :: "string \<Rightarrow> associatedVpc \<Rightarrow> event \<Rightarrow> bool" where
  "associates zoneId v (R53 _ (DoCreateVPCAssociationAuthorization z i reg)) = (z = zoneId \<and> i = av_VpcId v \<and> reg = av_Region v)"
| "associates zoneId v (R53 _ (DoAssociateVPCWithHostedZone z i reg)) = (z = zoneId \<and> i = av_VpcId v \<and> reg = av_Region v)"
| "associates zoneId v e = (\<not> dns_change e)"

lemma associates_read: "aws_read e \<Longrightarrow> associates z v e" "lookup_event e \<Longrightarrow> associates z v e"
  by (cases "(z, v, e)" rule: associates.cases; simp add: dns_change_read)+

lemma associateVpc_associates:
  assumes "associateVpc E ids v s = (r, t)"
  shows "emits (\<lambda>e. dns_change e \<longrightarrow> av_VpcId v \<notin> set ids \<and> associates (st_HostedZoneId (rc_status s)) v e) s t"
proof (cases "av_VpcId v \<in> set ids")
  case True
  with assms show ?thesis by (simp add: associateVpc_run emits_refl)
next
  case False
  let ?z = "st_HostedZoneId (rc_status s)"
  have k: "preserves (emits (associates ?z v)) (CreateVPCAssociationAuthorization E c ?z (av_VpcId v) (av_Region v) :: unit rprog)"
    "preserves (emits (associates ?z v)) (associate_with E ?z v)" for c
    unfolding associate_with_def
    by (intro preserves_steady_emits steady_intros steady_modify invalidateHostedZoneCache_steady; simp add: associates_read)+
  have "preserves (emits (associates ?z v)) (bindE (CreateVPCAssociationAuthorization E c ?z (av_VpcId v) (av_Region v))
      (\<lambda>_. associate_with E ?z v))" for c
    by (intro em.bindE k)
  from preservesD [OF this] assms False have "emits (associates ?z v) s t"
    by (auto simp: associateVpc_run emits_refl split: option.splits)
  with False show ?thesis by (auto elim: emits_weaken)
qed

lemma associateVpc_status: "preserves (same rc_resource) (associateVpc E ids v)"
  unfolding associateVpc_def invalidateHostedZoneCache_def with_cache_def
  by (intro same_intros same_modify r53_calls [where A = "\<lambda>_. True", simplified, THEN preserves_calls_same]; simp)

lemma associateVpcs_needed:
  assumes "forE (associateVpc E ids) vs s = (r, t)" "e \<in> set (new_events s t)" "dns_change e"
  shows "list_ex (\<lambda>v. av_VpcId v \<notin> set ids \<and> associates (st_HostedZoneId (rc_status s)) v e) vs"
  using assms
proof (induction vs arbitrary: s)
  case Nil
  then show ?case by (simp add: ret_eq new_events_def)
next
  case (Cons v vs)
  have grow: "preserves (emits (\<lambda>_. True)) (associateVpc E ids v)" for v
    by (rule preservesI) (blast intro: emits_any associateVpc_associates)
  from Cons.prems(1) have "bindE (associateVpc E ids v) (\<lambda>_. forE (associateVpc E ids) vs) s = (r, t)" by simp
  from this Cons.prems(2) grow em.forE [OF grow] show ?case
  proof (cases rule: event_split)
    case (first q u)
    with associateVpc_associates [OF first(1)] Cons.prems(3) show ?thesis by (auto dest: new_events_emits)
  next
    case (second x u)
    have "rc_resource u = rc_resource s" by (rule sameD [OF associateVpc_status second(1)])
    with Cons.IH [OF second(2,3) Cons.prems(3)] show ?thesis by simp
  qed
qed

lemma associatesD:
  "associates z v e \<Longrightarrow> dns_change e \<Longrightarrow> \<exists>c. e = R53 c (DoCreateVPCAssociationAuthorization z (av_VpcId v) (av_Region v)) \<or>
     e = R53 c (DoAssociateVPCWithHostedZone z (av_VpcId v) (av_Region v))"
  by (cases "(z, v, e)" rule: associates.cases) auto

lemma authorization_stage_needed:
  assumes "validateR53HostedZoneAuthorization E s = (r, t)" "e \<in> set (new_events s t)" "dns_change e"
  shows "dns_need E s t e"
proof -
  let ?z = "st_HostedZoneId (rc_status s)" and ?vpcs = "phz_AssociatedVpcs (ve_Zone (rc_resource s))"
  let ?k2 = "\<lambda>ids. forE (associateVpc E ids) ?vpcs" and ?k = "\<lambda>resp. bindE (mapE deref (gh_VPCs resp))
    (\<lambda>ids. forE (associateVpc E ids) ?vpcs)"
  have run: "bindE (getHostedZoneCached E ?z) ?k s = (r, t)"
    using assms(1,2)
    by (auto simp: validateR53HostedZoneAuthorization_def bindE_run [of resource] resource_run run_eqs new_events_def
        split: if_splits)
  have grow: "preserves (emits (\<lambda>_. True)) (associateVpc E ids v)" for ids v
    by (rule preservesI) (blast intro: emits_any associateVpc_associates)
  have grow2: "preserves (emits (\<lambda>_. True)) (?k2 ids)" for ids by (intro em.forE grow)
  have grow1: "preserves (emits (\<lambda>_. True)) (?k resp)" for resp by (intro em.bindE em.mapE em.deref grow2)
  have quiet: "preserves (emits (\<lambda>e. \<not> dns_change e)) (getHostedZoneCached E ?z)"
    by (rule preserves_steady_emits, rule getHostedZoneCached_steady) (rule dns_change_read)
  obtain resp u where g: "getHostedZoneCached E ?z s = (Ok resp, u)" and k: "?k resp u = (r, t)"
    and eu: "e \<in> set (new_events u t)"
    by (rule event_later [OF run assms(2) quiet grow1]) (use assms(3) in simp)
  have "preserves (emits (\<lambda>_. False)) (mapE deref (gh_VPCs resp))" by (intro em.mapE em.deref)
  then obtain ids w where i: "mapE deref (gh_VPCs resp) u = (Ok ids :: (error, string list) outcome, w)"
    and f: "?k2 ids w = (r, t)" and ew: "e \<in> set (new_events w t)"
    by (rule event_later [OF k eu _ grow2]) simp
  have w: "rc_resource w = rc_resource s" "gh_VPCs resp = List.map Some ids"
    using mapE_deref [OF i] getHostedZoneCached_keeps [OF g] by simp_all
  from associateVpcs_needed [OF f ew assms(3)] w obtain v where v: "v \<in> set ?vpcs" "av_VpcId v \<notin> set ids" "associates ?z v e"
    by (auto simp: list_ex_iff)
  from associatesD [OF v(3) assms(3)] v(1,2) g w show ?thesis
    by (auto simp: dns_need_def association_need_def list_ex_iff)
qed

section \<open>The service\<close>

lemma service_parts_quiet:
  "preserves (emits (\<lambda>e. \<not> dns_change e)) (serviceFailed E err)"
  "preserves (emits (\<lambda>e. dns_change e \<longrightarrow> e = K8s (DoCreateService expected))) (createService E expected)"
  "preserves (emits (\<lambda>e. dns_change e \<longrightarrow> svc_ExternalName found \<noteq> svc_ExternalName expected \<and>
     e = K8s (DoUpdateService (found\<lparr>svc_ExternalName := svc_ExternalName expected\<rparr>)))) (fixService E expected found)"
proof -
  show failed: "preserves (emits (\<lambda>e. \<not> dns_change e)) (serviceFailed E err)" for err
    unfolding serviceFailed_def by (intro preserves_steady_emits steady_intros; simp)
  show "preserves (emits (\<lambda>e. dns_change e \<longrightarrow> e = K8s (DoCreateService expected))) (createService E expected)"
    unfolding createService_def by (intro preserves_steady_emits steady_intros; simp)
  let ?A = "\<lambda>e. dns_change e \<longrightarrow> svc_ExternalName found \<noteq> svc_ExternalName expected \<and>
     e = K8s (DoUpdateService (found\<lparr>svc_ExternalName := svc_ExternalName expected\<rparr>))"
  have failed': "preserves (emits ?A) (serviceFailed E err)" for err
    by (rule preserves_emits_weaken [OF failed]) simp
  have "preserves (emits ?A) (bindE (attempt (invoke (K8s (DoUpdateService (found\<lparr>svc_ExternalName := svc_ExternalName expected\<rparr>)))
       (k8s_UpdateService (k8s E)))) (\<lambda>updated. case updated of
          Inl err \<Rightarrow> serviceFailed E err
        | Inr _ \<Rightarrow> bindE (setCondition E ExternalNameServiceCondition ConditionTrue ''Reconciled'' '''') (\<lambda>_. updateStatus E)))"
    if "svc_ExternalName found \<noteq> svc_ExternalName expected"
    using that
    by (intro em.bindE em.attempt em.case_sum_prog failed' preserves_steady_emits [OF steady_setCondition]
        preserves_steady_emits [OF steady_updateStatus] calls_invoke [THEN preserves_calls_emits]) simp_all
  then show "preserves (emits ?A) (fixService E expected found)"
    unfolding fixService_def Let_def by (rule em.whenE)
qed

lemma generated_service_state: "generateExternalNameService E s = (q, t) \<Longrightarrow> t = s"
  by (auto simp: generateExternalNameService_def bindE_run resource_run run_eqs split: if_splits sum.splits)

lemma service_stage_needed:
  assumes "validateExternalNameService E s = (r, t)" "e \<in> set (new_events s t)" "dns_change e"
  shows "dns_need E s t e"
proof -
  let ?get = "invoke (service_lookup s) (k8s_GetService (k8s E))"
  let ?k = "\<lambda>expected got. case got of
      Inl err \<Rightarrow> if lib_IsNotFound (lib E) err then createService E expected else serviceFailed E err
    | Inr found \<Rightarrow> fixService E expected found"
  have run: "bindE (generateExternalNameService E) (\<lambda>expected. bindE (attempt ?get) (?k expected)) s = (r, t)"
    using assms(1,2)
    by (auto simp: validateExternalNameService_def bindE_run [of resource] resource_run run_eqs new_events_def
        service_lookup_def Let_def split: if_splits)
  obtain q u where gen: "generateExternalNameService E s = (q, u)" by fastforce
  with generated_service_state have u: "u = s" by blast
  from run gen assms(2) u obtain expected where "bindE (attempt ?get) (?k expected) s = (r, t)"
    by (cases q) (auto simp: bindE_run [of "generateExternalNameService E"] new_events_def)
  then obtain got where k: "?k expected got (s\<lparr>history := history s @ [service_lookup s]\<rparr>) = (r, t)"
    and got: "got = k8s_GetService (k8s E) (history s @ [service_lookup s])"
    using assms(2,3)
    by (auto simp: bindE_run [of "attempt _"] attempt_run invoke_run new_events_def service_lookup_def
        split: sum.splits if_splits)
  let ?w = "s\<lparr>history := history s @ [service_lookup s]\<rparr>"
  have grow: "preserves (emits (\<lambda>_. True)) (?k expected got)"
    by (intro em.case_sum_prog em.if_prog service_parts_quiet [THEN emits_any_prog])
  from preservesD [OF this k] assms(2,3) have e: "e \<in> set (new_events ?w t)"
    by (auto simp: emits_def new_events_def service_lookup_def)
  show ?thesis
  proof (cases got)
    case (Inl err)
    with k e assms(3) have "lib_IsNotFound (lib E) err" "createService E expected ?w = (r, t)"
      by (auto split: if_splits dest: preservesD [OF service_parts_quiet(1)] new_events_emits)
    with preservesD [OF service_parts_quiet(2)] e assms(3) have "e = K8s (DoCreateService expected)"
      by (blast dest: new_events_emits)
    with Inl got \<open>lib_IsNotFound (lib E) err\<close> show ?thesis by (simp add: dns_need_def service_missing_def)
  next
    case (Inr found)
    with k have f: "fixService E expected found ?w = (r, t)" by simp
    from preservesD [OF service_parts_quiet(3) this] e assms(3)
    have d: "svc_ExternalName found \<noteq> svc_ExternalName expected"
      "e = K8s (DoUpdateService (found\<lparr>svc_ExternalName := svc_ExternalName expected\<rparr>))"
      by (blast dest: new_events_emits)+
    have "?get s = (Ok found, ?w)" using got [symmetric] Inr by (simp add: invoke_run)
    from reported_later [OF invoke_reported [OF this] preservesD [OF service_parts_quiet(3) f]] d show ?thesis
      by (auto simp: dns_need_def)
  qed
qed

section \<open>Every change of the DNS is needed\<close>

definition dns_stages :: "env \<Rightarrow> unit rprog list" where
  "dns_stages E = [validateR53PrivateHostedZone E, validateR53HostedZoneRecord E,
     validateR53HostedZoneAuthorization E, validateExternalNameService E]"

lemma dns_needed:
  assumes "stage \<in> set (dns_stages E)" "stage s = (r, t)" "e \<in> set (new_events s t)" "dns_change e"
  shows "dns_need E s t e"
  using assms(1,2) zone_stage_needed [OF _ assms(3,4)] record_stage_needed [OF _ assms(3,4)]
    authorization_stage_needed [OF _ assms(3,4)] service_stage_needed [OF _ assms(3,4)]
  by (auto simp: dns_stages_def)

text \<open>
  C14: changes of the custom DNS are needed. Whatever a stage of the custom DNS comes to, the only
  requests of it that change AWS or a service are these: a zone is created when AWS reported none of
  its domain; the default tags are set when they are not known to be verified and AWS reported one
  that is missing or has another value; the record is written when the conditions do not say that it
  is there for an available endpoint, with the name of an endpoint AWS reported available; a VPC is
  authorized and associated when the spec names it and the zone does not list it; the service is
  created when the API server does not know it, and updated when it points elsewhere, in nothing but
  its target.
\<close>

theorem dns_changes_are_needed:
  assumes "stage \<in> set (dns_stages E)" "stage s = (r, t)" "e \<in> set (new_events s t)" "dns_change e"
  shows "dns_need E s t e"
  by (rule dns_needed [OF assms])

theorem dns_changes_are_needed_witness:
  "let t = snd (validateR53HostedZoneRecord record_env record_state) in
   list_ex (\<lambda>e. dns_change e \<and> dns_need record_env record_state t e) (new_events record_state t)"
  using record_written
    dns_changes_are_needed [where stage = "validateR53HostedZoneRecord record_env", OF _ prod.collapse [symmetric] record_written]
  unfolding list_ex_iff Let_def by (intro bexI conjI) (simp_all add: dns_stages_def)

end
