(* ===== verification/Settled.thy ===== *)
theory Settled
  imports Runs NeededDns
begin

text \<open>
  Where AWS reports what the resource asks for, a live reconciliation changes nothing in AWS: the three
  stages of the validation leave a settled resource alone, and leave it settled for the next stage.
\<close>

section \<open>Answers\<close>

text \<open>\<open>says respond call x\<close>: the call is answered \<open>x\<close>, whenever it is made and with whichever client.\<close>

definition says :: "'a responder \<Rightarrow> (awsConfig \<Rightarrow> event) \<Rightarrow> 'a \<Rightarrow> bool" where
  "says respond call x \<longleftrightarrow> (\<forall>h c. respond (h @ [call c]) = Inr x)"

lemma says_reported: "says respond call x \<Longrightarrow> reported respond (call c) y s t \<Longrightarrow> y = x"
  unfolding says_def reported_def by (metis append_assoc sum.inject(2))

definition complete_answers :: "env \<Rightarrow> bool" where
  "complete_answers E \<longleftrightarrow>
     (\<forall>h rules. ec2_DescribeSecurityGroupRules (ec2 E) h = Inr rules \<longrightarrow> list_all complete rules) \<and>
     (\<forall>h sgs. ec2_DescribeSecurityGroups (ec2 E) h = Inr sgs \<longrightarrow> None \<notin> esg_GroupId ` set sgs)"

lemma read_not_write: "aws_read e \<Longrightarrow> \<not> aws_write e" "lookup_event e \<Longrightarrow> \<not> aws_write e"
  by (cases e; simp)+

section \<open>The security group\<close>

text \<open>
  The group of the status has all tags and grants all permissions that the spec wants, for the node
  groups and the address range of the VPC that AWS reports.
\<close>

definition settled_group :: "env \<Rightarrow> reconciler \<Rightarrow> bool" where
  "settled_group E s \<longleftrightarrow>
     (let st = rc_status s; g = st_SecurityGroupId st; spec = sp_SecurityGroup (rc_spec s);
          groups = ec2_DescribeSecurityGroups (ec2 E)
      in g \<noteq> '''' \<and>
      (\<exists>sg nodes rules vpc others cidr n info tags.
         esg_GroupId sg = Some g \<and>
         says groups (\<lambda>c. Ec2 c (DoDescribeSecurityGroups [] [g])) [sg] \<and>
         GenerateSecurityGroupName (st_InfraId st) (ve_Name (rc_resource s)) = Ok n \<and>
         says groups (\<lambda>c. Ec2 c (DoDescribeSecurityGroups (own_filters (st_InfraId st) n) [])) [sg] \<and>
         rc_clusterInfo s = Some info \<and> GenerateAwsTags n (ci_clusterTag info) = Inr tags \<and>
         set tags \<subseteq> set (esg_Tags sg) \<and>
         says groups (\<lambda>c. Ec2 c (DoDescribeSecurityGroups (node_filters (st_InfraId st)) [])) nodes \<and>
         says (ec2_DescribeSecurityGroupRules (ec2 E))
           (\<lambda>c. Ec2 c (DoDescribeSecurityGroupRules [\<lparr>flt_Name = ''group-id'', flt_Values = [g]\<rparr>])) rules \<and>
         (if sg_UseVpcCidr spec
          then ev_CidrBlock vpc = Some cidr \<and>
            says (ec2_DescribeVpcs (ec2 E)) (\<lambda>c. Ec2 c (DoDescribeVpcs [] [st_VPCId st])) (vpc # others)
          else cidr = '''') \<and>
         (let ids = List.map (the \<circ> esg_GroupId) nodes
          in desired False (sg_UseVpcCidr spec) cidr ids (sg_IngressRules spec) \<subseteq> granted rules \<and>
             desired True (sg_UseVpcCidr spec) cidr ids (sg_EgressRules spec) \<subseteq> granted rules)))"

lemma settled_group_quiet:
  assumes "settled_group E s" "complete_answers E" "validateSecurityGroup E s = (r, t)" "e \<in> set (new_events s t)"
  shows "\<not> aws_write e"
proof
  assume w: "aws_write e"
  have need: "group_need E s t e"
    by (rule group_needed [OF assms(3,4) w]) (use assms(2) in \<open>auto simp: complete_answers_def\<close>)
  let ?st = "rc_status s" and ?spec = "sp_SecurityGroup (rc_spec s)"
  let ?g = "st_SecurityGroupId ?st" and ?groups = "ec2_DescribeSecurityGroups (ec2 E)"
  from assms(1) obtain sg nodes rules vpc others cidr n info tags where g: "?g \<noteq> ''''" "esg_GroupId sg = Some ?g"
    and s1: "says ?groups (\<lambda>c. Ec2 c (DoDescribeSecurityGroups [] [?g])) [sg]"
    and n: "GenerateSecurityGroupName (st_InfraId ?st) (ve_Name (rc_resource s)) = Ok n"
    and s2: "says ?groups (\<lambda>c. Ec2 c (DoDescribeSecurityGroups (own_filters (st_InfraId ?st) n) [])) [sg]"
    and t: "rc_clusterInfo s = Some info" "GenerateAwsTags n (ci_clusterTag info) = Inr tags" "set tags \<subseteq> set (esg_Tags sg)"
    and s3: "says ?groups (\<lambda>c. Ec2 c (DoDescribeSecurityGroups (node_filters (st_InfraId ?st)) [])) nodes"
    and s4: "says (ec2_DescribeSecurityGroupRules (ec2 E))
           (\<lambda>c. Ec2 c (DoDescribeSecurityGroupRules [\<lparr>flt_Name = ''group-id'', flt_Values = [?g]\<rparr>])) rules"
    and s5: "if sg_UseVpcCidr ?spec
          then ev_CidrBlock vpc = Some cidr \<and>
            says (ec2_DescribeVpcs (ec2 E)) (\<lambda>c. Ec2 c (DoDescribeVpcs [] [st_VPCId ?st])) (vpc # others)
          else cidr = ''''"
    and d: "desired False (sg_UseVpcCidr ?spec) cidr (List.map (the \<circ> esg_GroupId) nodes) (sg_IngressRules ?spec) \<subseteq> granted rules"
      "desired True (sg_UseVpcCidr ?spec) cidr (List.map (the \<circ> esg_GroupId) nodes) (sg_EgressRules ?spec) \<subseteq> granted rules"
    unfolding settled_group_def Let_def by blast
  have sg: "x = sg" if "reported_group E s t x" for x
    using that n says_reported [OF s1] says_reported [OF s2] unfolding reported_group_def by fastforce
  have found: "fst (FilterSecurityGroupById E c ?g s) = Ok (Some [sg])" for c
    using g(1) s1 by (simp add: FilterSecurityGroupById_def says_def run_simps)
  have cidr: "x = cidr" if "vpc_cidr E c (rc_resource s) x s t" for c x
  proof (cases "sg_UseVpcCidr ?spec")
    case True
    with s5 have v: "ev_CidrBlock vpc = Some cidr"
      "says (ec2_DescribeVpcs (ec2 E)) (\<lambda>c. Ec2 c (DoDescribeVpcs [] [st_VPCId ?st])) (vpc # others)" by simp_all
    from that True v(1) show ?thesis by (auto simp: vpc_cidr_def dest!: says_reported [OF v(2)])
  qed (use that s5 in \<open>simp add: vpc_cidr_def\<close>)
  have "\<not> rule_need E s t egress i" for egress i
  proof
    assume "rule_need E s t egress i"
    then obtain c x h rs sgs z where x: "reported_group E s t x" "esg_GroupId x = Some h" and r: "group_rules E c h rs s t"
      and n: "node_groups E c (st_InfraId ?st) sgs s t" and z: "vpc_cidr E c (rc_resource s) z s t"
      and q: "requested egress (au_IpPermissions i) = desired egress (sg_UseVpcCidr ?spec) z (List.map (the \<circ> esg_GroupId) sgs)
          (if egress then sg_EgressRules ?spec else sg_IngressRules ?spec) - granted rs"
      "requested egress (au_IpPermissions i) \<noteq> {}"
      unfolding rule_need_def Let_def by blast
    have "h = ?g" using sg [OF x(1)] x(2) g(2) by simp
    with r have "rs = rules" by (simp add: group_rules_def says_reported [OF s4])
    moreover have "sgs = nodes" using n by (simp add: node_groups_def says_reported [OF s3])
    moreover have "z = cidr" using z by (rule cidr)
    moreover note q d
    ultimately show False by (cases egress) auto
  qed
  with need w sg found n t show False
    by (cases e rule: aws_write.cases; auto simp: group_need_def split: ec2Call.splits)
qed

lemma settled_reported:
  assumes "settled_group E s" "reported_group E s t x"
  shows "esg_GroupId x = Some (st_SecurityGroupId (rc_status s))"
proof -
  let ?st = "rc_status s" and ?groups = "ec2_DescribeSecurityGroups (ec2 E)"
  from assms(1) obtain sg n where sg: "esg_GroupId sg = Some (st_SecurityGroupId ?st)"
    and s1: "says ?groups (\<lambda>c. Ec2 c (DoDescribeSecurityGroups [] [st_SecurityGroupId ?st])) [sg]"
    and n: "GenerateSecurityGroupName (st_InfraId ?st) (ve_Name (rc_resource s)) = Ok n"
    and s2: "says ?groups (\<lambda>c. Ec2 c (DoDescribeSecurityGroups (own_filters (st_InfraId ?st) n) [])) [sg]"
    unfolding settled_group_def Let_def by blast
  have "x = sg"
    using assms(2) n says_reported [OF s1] says_reported [OF s2] unfolding reported_group_def by fastforce
  with sg show ?thesis by simp
qed

text \<open>What the stage of the group leaves for the later ones.\<close>

definition holds :: "env \<Rightarrow> reconciler \<Rightarrow> string \<Rightarrow> bool" where
  "holds E s ty = lib_IsStatusConditionTrue (lib E) (st_Conditions (rc_status s)) ty"

definition later_context :: "env \<Rightarrow> reconciler \<Rightarrow> _" where
  "later_context E s = (rc_spec s, ve_Meta (rc_resource s), rc_clusterInfo s, rc_EnablePrivateDns s,
     st_VPCEndpointId (rc_status s), st_InfraId (rc_status s), st_VPCId (rc_status s),
     st_VPCEndpointServiceName (rc_status s), st_HostedZoneId (rc_status s),
     holds E s AWSRoute53RecordCondition, holds E s AWSRoute53TagsCondition)"

lemma security_condition_name:
  "AWSSecurityGroupCondition \<noteq> AWSRoute53RecordCondition" "AWSSecurityGroupCondition \<noteq> AWSRoute53TagsCondition"
  by (simp_all add: AWSSecurityGroupCondition_def AWSRoute53RecordCondition_def AWSRoute53TagsCondition_def)

lemma same_reads: "preserves (same g) (isConditionTrue E ty)" "preserves (same g) (age E)"
  unfolding isConditionTrue_def age_def by (auto simp: preserves_def same_def run_simps)

lemma group_stage_same:
  assumes "condition_laws E"
  shows "preserves (same (later_context E)) (validateSecurityGroup E)"
  unfolding validateSecurityGroup_def findOrCreateSecurityGroup_def foundSecurityGroup_def createMissingSecurityGroup_def
    createMissingSecurityGroupTags_def generateMissingSecurityGroupRules_def lookupVpcCidr_def setCondition_def Let_def
  by (intro same_intros sm.liftO sm.case_list_prog same_events same_reads;
      simp add: later_context_def holds_def condition_set_other [OF assms] security_condition_name)

lemma group_stage_id:
  assumes "settled_group E s" "validateSecurityGroup E s = (Ok (), t)"
  shows "st_SecurityGroupId (rc_status t) = st_SecurityGroupId (rc_status s)"
proof -
  from assms(2) obtain sg s1 s2 inputs s3 c rs s4 where
    1: "findOrCreateSecurityGroup E s = (Ok sg, s1)"
    and 2: "createMissingSecurityGroupTags E sg s1 = (Ok (), s2)"
    and 3: "generateMissingSecurityGroupRules E sg s2 = (Ok inputs, s3)"
    and 4: "AuthorizeSecurityGroupRules E c (fst inputs) (snd inputs) s3 = (Ok rs, s4)"
    and 5: "whenReady E s4 = (Ok (), t)"
    unfolding validateSecurityGroup_def whenReady_def [symmetric] by (auto simp: bindE_Ok awsClient_eq)
  have "st_SecurityGroupId (rc_status t) = st_SecurityGroupId (rc_status s1)"
    using keepsD [OF sg_steps_keep(1) 2] keepsD [OF sg_steps_keep(2) 3] keepsD [OF whenReady_frame(2) 5]
      authorize_Ok [OF 4] by auto
  with yieldsD [OF findOrCreateSecurityGroup_yields 1] settled_reported [OF assms(1) findOrCreateSecurityGroup_Ok [OF 1]]
  show ?thesis by simp
qed

section \<open>The endpoint\<close>

text \<open>
  The endpoint of the status is available and has the subnets, the security group and the private DNS
  that are wanted.
\<close>

definition answered_subnets :: "env \<Rightarrow> reconciler \<Rightarrow> string set \<Rightarrow> bool" where
  "answered_subnets E s ids \<longleftrightarrow>
     (let st = rc_status s; vpc = sp_Vpc (rc_spec s)
      in if vpc_AutoDiscoverSubnets vpc
         then \<exists>subnets azs. subnets \<noteq> [] \<and>
           says (ec2_DescribeSubnets (ec2 E)) (\<lambda>c. Ec2 c (DoDescribeSubnets (concat (List.map tag_filter
             (subnet_tags (rc_resource s) (rc_clusterInfo s) @ [\<lparr>tag_Key = privateSubnetTagKey, tag_Value = ''''\<rparr>]))) []))
             subnets \<and>
           says (ec2_DescribeVpcEndpointServices (ec2 E))
             (\<lambda>c. Ec2 c (DoDescribeVpcEndpointServices [st_VPCEndpointServiceName st])) [azs] \<and>
           ids = in_zones (st_VPCId st) azs subnets
         else ids = set (vpc_SubnetIds vpc))"

definition wanted_endpoint :: "env \<Rightarrow> reconciler \<Rightarrow> ec2VpcEndpoint \<Rightarrow> bool" where
  "wanted_endpoint E s v \<longleftrightarrow> evp_State v = ''available'' \<and>
     (rc_EnablePrivateDns s \<and> sp_EnablePrivateDns (rc_spec s) \<longrightarrow> evp_PrivateDnsEnabled v = Some True) \<and>
     {g. Some g \<in> set (evp_Groups v)} = {st_SecurityGroupId (rc_status s)} \<and>
     answered_subnets E s (set (evp_SubnetIds v))"

text \<open>It is found by the id in the status and by its tags.\<close>

definition found_endpoint :: "env \<Rightarrow> reconciler \<Rightarrow> ec2VpcEndpoint \<Rightarrow> bool" where
  "found_endpoint E s v \<longleftrightarrow>
     (let st = rc_status s; i = st_VPCEndpointId st; endpoints = ec2_DescribeVpcEndpoints (ec2 E)
      in i \<noteq> '''' \<and> evp_VpcEndpointId v = Some i \<and>
        says endpoints (\<lambda>c. Ec2 c (DoDescribeVpcEndpoints [] [i])) [v] \<and>
        (\<exists>n info. GenerateVPCEndpointName (st_InfraId st) (ve_Name (rc_resource s)) = Ok n \<and> rc_clusterInfo s = Some info \<and>
           says endpoints (\<lambda>c. Ec2 c (DoDescribeVpcEndpoints (vpce_filters (ci_clusterTag info) n) [])) [v]))"

definition settled_endpoint :: "env \<Rightarrow> reconciler \<Rightarrow> bool" where
  "settled_endpoint E s \<longleftrightarrow> (\<exists>v. found_endpoint E s v \<and> wanted_endpoint E s v)"

lemma settled_subnets:
  assumes "wanted_subnets E s t ids" "answered_subnets E s X"
  shows "ids = X"
proof (cases "vpc_AutoDiscoverSubnets (sp_Vpc (rc_spec s))")
  case True
  let ?tags = "subnet_tags (rc_resource s) (rc_clusterInfo s)"
  from True assms(2) obtain subnets azs where n: "subnets \<noteq> []"
    and d: "says (ec2_DescribeSubnets (ec2 E)) (\<lambda>c. Ec2 c (DoDescribeSubnets (concat (List.map tag_filter
              (?tags @ [\<lparr>tag_Key = privateSubnetTagKey, tag_Value = ''''\<rparr>]))) [])) subnets"
    and a: "says (ec2_DescribeVpcEndpointServices (ec2 E))
              (\<lambda>c. Ec2 c (DoDescribeVpcEndpointServices [st_VPCEndpointServiceName (rc_status s)])) [azs]"
    and X: "X = in_zones (st_VPCId (rc_status s)) azs subnets" unfolding answered_subnets_def Let_def by auto
  from True assms(1) obtain c azs' subnets' where f: "found_subnets E c ?tags subnets' s t"
    and r: "reported (ec2_DescribeVpcEndpointServices (ec2 E))
          (Ec2 c (DoDescribeVpcEndpointServices [st_VPCEndpointServiceName (rc_status s)])) [azs'] s t"
    and ids: "ids = in_zones (st_VPCId (rc_status s)) azs' subnets'"
    unfolding wanted_subnets_def by auto
  have "azs' = azs" using says_reported [OF a r] by simp
  moreover have "subnets' = subnets"
    using f n says_reported [OF d] unfolding found_subnets_def described_subnets_def Let_def by blast
  ultimately show ?thesis using ids X by simp
qed (use assms in \<open>simp add: wanted_subnets_def answered_subnets_def\<close>)

lemma found_endpoint_kept:
  assumes "found_endpoint E s v" "validateVPCEndpoint E s = (r, t)" "e \<in> set (new_events s t)"
  shows "\<not> creates_endpoint e"
proof
  assume c: "creates_endpoint e"
  then have "aws_write e" by (cases e rule: creates_endpoint.cases) simp_all
  with endpoint_needed [OF assms(2,3)] have need: "endpoint_need E s t e" .
  let ?i = "st_VPCEndpointId (rc_status s)"
  have "fst (DescribeSingleVPCEndpointById E cl ?i s) = Ok (Some [v])" for cl
    using assms(1) by (simp add: DescribeSingleVPCEndpointById_def found_endpoint_def says_def run_simps Let_def)
  with need c show False
    by (cases e rule: creates_endpoint.cases) (auto simp: endpoint_need_def)
qed

lemma found_endpoint_seen:
  assumes "found_endpoint E s v" "seen E s t x" "\<And>e. e \<in> set (new_events s t) \<Longrightarrow> \<not> creates_endpoint e"
  shows "x = v"
proof -
  let ?st = "rc_status s" and ?endpoints = "ec2_DescribeVpcEndpoints (ec2 E)"
  from assms(1) obtain n info where n: "GenerateVPCEndpointName (st_InfraId ?st) (ve_Name (rc_resource s)) = Ok n"
    and i: "rc_clusterInfo s = Some info"
    and s1: "says ?endpoints (\<lambda>c. Ec2 c (DoDescribeVpcEndpoints [] [st_VPCEndpointId ?st])) [v]"
    and s2: "says ?endpoints (\<lambda>c. Ec2 c (DoDescribeVpcEndpoints (vpce_filters (ci_clusterTag info) n) [])) [v]"
    unfolding found_endpoint_def Let_def by blast
  have "\<not> reported (ec2_CreateVpcEndpoint (ec2 E)) (Ec2 c (DoCreateVpcEndpoint vpc svc tags)) y s t" for c vpc svc tags y
    using assms(3) [of "Ec2 c (DoCreateVpcEndpoint vpc svc tags)"] by (auto dest: reported_event)
  with assms(2) n i says_reported [OF s1] says_reported [OF s2] show ?thesis
    unfolding seen_def by fastforce
qed

lemma wanted_endpoint_unmodified:
  assumes "wanted_endpoint E s v"
  shows "\<not> modify_need E v s t m"
proof
  let ?st = "rc_status s"
  assume "modify_need E v s t m"
  then consider "rc_EnablePrivateDns s" "sp_EnablePrivateDns (rc_spec s)" "evp_PrivateDnsEnabled v \<noteq> Some True"
    | ids where "wanted_subnets E s t ids" "subnet_difference v ids m"
    | "group_difference v (st_SecurityGroupId ?st) m"
    unfolding modify_need_def by blast
  then show False
  proof cases
    case (2 ids)
    have "ids = set (evp_SubnetIds v)"
      by (rule settled_subnets [OF 2(1)]) (use assms in \<open>simp add: wanted_endpoint_def\<close>)
    with 2(2) show False by (auto simp: subnet_difference_def)
  next
    case 3
    have g: "{g. Some g \<in> set (evp_Groups v)} = {st_SecurityGroupId ?st}" using assms by (simp add: wanted_endpoint_def)
    from 3 obtain xs where "xs \<noteq> []" "set xs = {}" unfolding group_difference_def Let_def g Diff_cancel by blast
    then show False by simp
  qed (use assms in \<open>simp add: wanted_endpoint_def\<close>)
qed

lemma settled_endpoint_quiet:
  assumes "settled_endpoint E s" "validateVPCEndpoint E s = (r, t)" "e \<in> set (new_events s t)"
  shows "\<not> aws_write e"
proof
  assume w: "aws_write e"
  from assms(1) obtain v where v: "found_endpoint E s v" "wanted_endpoint E s v" unfolding settled_endpoint_def by blast
  note kept = found_endpoint_kept [OF v(1) assms(2)]
  have same: "x = v" if "seen E s t x" for x
    by (rule found_endpoint_seen [OF v(1) that kept])
  have "evp_State v = ''available''" using v(2) by (simp add: wanted_endpoint_def)
  with endpoint_needed [OF assms(2,3) w] w kept [OF assms(3)] same wanted_endpoint_unmodified [OF v(2)] show False
    by (cases e rule: aws_write.cases; auto simp: endpoint_need_def split: ec2Call.splits)
qed

text \<open>A validation of a settled endpoint that succeeds leaves its condition true, and the DNS as it was.\<close>

lemma available_keeps_zone: "preserves (keeps st_HostedZoneId) (endpointAvailable E v)"
  unfolding endpointAvailable_def set_pending_metric_def enablePrivateDns_def ensureVpcEndpointSubnets_def
    expectedSubnetIds_def discoverSubnets_def ensureVpcEndpointSecurityGroups_def Let_def
  by (intro keeps_intros; simp)

lemma settled_endpoint_Ok:
  assumes "condition_laws E" "settled_endpoint E s" "validateVPCEndpoint E s = (Ok (), t)"
  shows "holds E t AWSVpcEndpointCondition"
    and "st_HostedZoneId (rc_status t) = st_HostedZoneId (rc_status s)"
    and "holds E t AWSRoute53RecordCondition = holds E s AWSRoute53RecordCondition"
    and "holds E t AWSRoute53TagsCondition = holds E s AWSRoute53TagsCondition"
proof -
  from assms(2) obtain v where v: "found_endpoint E s v" "wanted_endpoint E s v" unfolding settled_endpoint_def by blast
  from assms(3) obtain x u where f: "findOrCreateVpcEndpoint E s = (Ok x, u)" and b: "by_state E x u = (Ok (), t)"
    by (rule validateVPCEndpoint_Ok)
  note o = findOrCreate_Ok [OF f]
  have ut: "emits vpce_event u t" by (rule preservesD [OF by_state_grows b])
  have "x = v"
  proof (rule found_endpoint_seen [OF v(1) o(1)])
    fix e
    assume "e \<in> set (new_events s u)"
    then have "e \<in> set (new_events s t)" by (simp add: new_events_trans [OF o(2) ut])
    with v(1) assms(3) show "\<not> creates_endpoint e" by (rule found_endpoint_kept)
  qed
  with v(2) have "evp_State x = ''available''" by (simp add: wanted_endpoint_def)
  with b have a: "endpointAvailable E x u = (Ok (), t)" by (simp add: by_state_def)
  have u: "st_Conditions (rc_status u) = st_Conditions (rc_status s)" "st_HostedZoneId (rc_status u) = st_HostedZoneId (rc_status s)"
    by (subst o(6), simp)+
  show "holds E t AWSVpcEndpointCondition" using available_conditions [OF assms(1) a] by (simp add: holds_def)
  show "st_HostedZoneId (rc_status t) = st_HostedZoneId (rc_status s)" using keepsD [OF available_keeps_zone a] u by simp
  show "holds E t AWSRoute53RecordCondition = holds E s AWSRoute53RecordCondition"
    "holds E t AWSRoute53TagsCondition = holds E s AWSRoute53TagsCondition"
    using available_keeps_conditions [OF assms(1) a] condition_names u by (simp_all add: holds_def)
qed

section \<open>The DNS\<close>

text \<open>
  The status has a zone, the conditions say that its tags and the record are right, and whatever AWS
  answers about a zone lists the VPCs that are to be associated.
\<close>

definition settled_dns :: "env \<Rightarrow> reconciler \<Rightarrow> bool" where
  "settled_dns E s \<longleftrightarrow> st_HostedZoneId (rc_status s) \<noteq> '''' \<and>
     holds E s AWSRoute53RecordCondition \<and> holds E s AWSRoute53TagsCondition \<and>
     (\<forall>h resp. r53_GetHostedZone (r53 E) h = Inr resp \<longrightarrow>
        list_all (\<lambda>v. Some (av_VpcId v) \<in> set (gh_VPCs resp))
          (phz_AssociatedVpcs (dns_Route53PrivateHostedZone (sp_CustomDns (rc_spec s)))))"

lemma getHostedZoneCached_answer:
  assumes "getHostedZoneCached E i s = (Ok resp, t)" "cache_genuine E s"
  shows "\<exists>h. r53_GetHostedZone (r53 E) h = Inr resp"
proof -
  have fresh: "\<exists>h. r53_GetHostedZone (r53 E) h = Inr resp" if "fetchHostedZone E i u = (Ok resp, t)" for u
    using that by (rule fetchHostedZone_Ok) (auto simp: answered_def)
  from assms(1) show ?thesis
  proof (cases rule: getHostedZoneCached_cases)
    case (hit e)
    then have "genuine E (history s) i e" using assms(2) unfolding cache_genuine_def by (blast dest: zc.soundD)
    with hit show ?thesis unfolding genuine_def answered_def by auto
  qed (auto intro: fresh)
qed

lemma zone_parts_keep:
  "preserves (keeps st_Conditions) (discovered_zone E st)"
  "preserves (keeps st_Conditions) (zone_by_id E i)"
  "preserves (keeps st_Conditions) (findOrCreatePrivateHostedZone E)"
  unfolding discovered_zone_def zone_by_id_def adoptZone_def findOrCreatePrivateHostedZone_def resolveDomainName_def
    zoneForDomain_def zone_in_vpc_def private_zone_named_def useHostedZone_def createPrivateHostedZone_def
    getHostedZoneCached_def fetchHostedZone_def with_cache_def Let_def
  by (intro keeps_intros keeps_modify; simp)+

lemma tagged_zone_keeps:
  assumes "holds E s AWSRoute53TagsCondition" "validateR53PrivateHostedZone E s = (r, t)"
  shows "st_Conditions (rc_status t) = st_Conditions (rc_status s)"
proof -
  have "st_Conditions (rc_status t) = st_Conditions (rc_status s)"
    if "bindE (findOrCreatePrivateHostedZone E) (\<lambda>_. tags_if_needed E) s = (r, t)"
  proof -
    obtain q u where f: "findOrCreatePrivateHostedZone E s = (q, u)" by fastforce
    have "st_Conditions (rc_status u) = st_Conditions (rc_status s)" by (rule keepsD [OF zone_parts_keep(3) f])
    with that f assms(1) show ?thesis
      by (cases q) (auto simp: bindE_run [of "findOrCreatePrivateHostedZone E"] tags_if_needed_def run_simps holds_def)
  qed
  with assms(2) show ?thesis
    by (auto simp: validateR53PrivateHostedZone_run Let_def keepsD [OF zone_parts_keep(1)] keepsD [OF zone_parts_keep(2)]
        split: if_splits)
qed

fun zone_write :: "event \<Rightarrow> bool" where
  "zone_write (R53 _ (DoCreateHostedZone _ _ _)) = True"
| "zone_write (R53 _ (DoChangeTagsForResource _ _)) = True"
| "zone_write _ = False"

lemma zone_stage_writes:
  "preserves (steady (\<lambda>e. aws_write e \<longrightarrow> zone_write e)) (validateR53PrivateHostedZone E)"
  "preserves (steady (\<lambda>e. \<not> aws_write e)) (validateExternalNameService E)"
  unfolding validateR53PrivateHostedZone_def createMissingPrivateZoneTags_def adoptZone_def
    findOrCreatePrivateHostedZone_def resolveDomainName_def zoneForDomain_def zone_in_vpc_def
    private_zone_named_def useHostedZone_def createPrivateHostedZone_def
    validateExternalNameService_def generateExternalNameService_def createService_def
    fixService_def serviceFailed_def Let_def
  by (intro steady_intros getHostedZoneCached_steady; simp add: read_not_write)+

lemma settled_zone_quiet:
  assumes "settled_dns E s" "validateR53PrivateHostedZone E s = (r, t)" "e \<in> set (new_events s t)"
  shows "\<not> aws_write e"
proof
  assume "aws_write e"
  then have c: "dns_change e" by (cases e rule: dns_change.cases) simp_all
  have need: "dns_need E s t e" by (rule zone_stage_needed [OF assms(2,3) c])
  have "st_Conditions (rc_status (snd (findOrCreatePrivateHostedZone E s))) = st_Conditions (rc_status s)"
    by (rule keepsD [OF zone_parts_keep(3) prod.collapse [symmetric]])
  with assms(1) have "\<not> tags_need E (snd (findOrCreatePrivateHostedZone E s)) t c z tags" for c z tags
    by (simp add: tags_need_def settled_dns_def holds_def)
  moreover have "\<not> zone_need E s t c domain vpc reg" for c domain vpc reg
    using assms(1) by (simp add: zone_need_def settled_dns_def)
  moreover have "zone_write e"
    using preservesD [OF zone_stage_writes(1) assms(2)] assms(3) \<open>aws_write e\<close> by (blast dest: steady_event)
  ultimately show False using need by (cases e rule: zone_write.cases) (auto simp: dns_need_def)
qed

text \<open>An association is only asked for when the zone does not list the VPC.\<close>

fun associates_write :: "event \<Rightarrow> bool" where
  "associates_write (R53 _ (DoCreateVPCAssociationAuthorization _ _ _)) = True"
| "associates_write (R53 _ (DoAssociateVPCWithHostedZone _ _ _)) = True"
| "associates_write _ = False"

lemma authorization_writes:
  "preserves (steady (\<lambda>e. aws_write e \<longrightarrow> associates_write e)) (validateR53HostedZoneAuthorization E)"
  unfolding validateR53HostedZoneAuthorization_def associateVpc_def
  by (intro steady_intros steady_modify getHostedZoneCached_steady invalidateHostedZoneCache_steady; simp add: read_not_write)

lemma settled_authorization_quiet:
  assumes "\<And>h resp. r53_GetHostedZone (r53 E) h = Inr resp \<Longrightarrow>
      list_all (\<lambda>v. Some (av_VpcId v) \<in> set (gh_VPCs resp)) (phz_AssociatedVpcs (ve_Zone (rc_resource s)))"
    and "cache_genuine E s" "validateR53HostedZoneAuthorization E s = (r, t)" "e \<in> set (new_events s t)"
  shows "\<not> aws_write e"
proof
  assume w: "aws_write e"
  then have c: "dns_change e" by (cases e rule: dns_change.cases) simp_all
  have need: "dns_need E s t e" by (rule authorization_stage_needed [OF assms(3,4) c])
  have "associates_write e" using preservesD [OF authorization_writes assms(3)] assms(4) w by (blast dest: steady_event)
  with need obtain z vpc reg where "association_need E s z vpc reg"
    by (cases e rule: associates_write.cases) (auto simp: dns_need_def)
  then obtain resp ids v where g: "fst (getHostedZoneCached E z s) = Ok resp" "gh_VPCs resp = List.map Some ids"
    and v: "v \<in> set (phz_AssociatedVpcs (ve_Zone (rc_resource s)))" "av_VpcId v \<notin> set ids"
    by (auto simp: association_need_def list_ex_iff)
  from g(1) have "getHostedZoneCached E z s = (Ok resp, snd (getHostedZoneCached E z s))" by (simp add: prod_eq_iff)
  from getHostedZoneCached_answer [OF this assms(2)] assms(1)
  have "list_all (\<lambda>v. Some (av_VpcId v) \<in> set (gh_VPCs resp)) (phz_AssociatedVpcs (ve_Zone (rc_resource s)))" by blast
  with g(2) v show False by (auto simp: list_all_iff)
qed

lemma settled_dns_quiet:
  assumes "settled_dns E s" "holds E s AWSVpcEndpointCondition" "cache_genuine E s"
    and "validateCustomDns E s = (r, t)" "e \<in> set (new_events s t)"
  shows "\<not> aws_write e"
proof (cases "rc_EnablePrivateDns s \<and> sp_EnablePrivateDns (rc_spec s)")
  case True
  with assms(4,5) show ?thesis by (simp add: validateCustomDns_def run_simps new_events_def)
next
  case False
  let ?later = "bindE (validateR53HostedZoneAuthorization E) (\<lambda>_. validateExternalNameService E)"
  have grow: "preserves (emits (\<lambda>_. True)) (validateR53PrivateHostedZone E)"
      "preserves (emits (\<lambda>_. True)) (validateR53HostedZoneRecord E)"
      "preserves (emits (\<lambda>_. True)) (validateR53HostedZoneAuthorization E)"
      "preserves (emits (\<lambda>_. True)) (validateExternalNameService E)"
    using validateR53PrivateHostedZone_steady validateR53HostedZoneRecord_steady validateR53HostedZoneAuthorization_steady
      validateExternalNameService_steady by (blast intro: emits_any_prog preserves_steady_emits)+
  have "bindE (validateR53PrivateHostedZone E) (\<lambda>_. bindE (validateR53HostedZoneRecord E) (\<lambda>_. ?later)) s = (r, t)"
    using assms(4) False by (simp add: validateCustomDns_def run_simps bindE_ret_right)
  from this assms(5) grow(1) em.bindE [OF grow(2) em.bindE [OF grow(3,4)]] show ?thesis
  proof (cases rule: event_split)
    case (first q u)
    with settled_zone_quiet [OF assms(1)] show ?thesis by blast
  next
    case (second x u)
    have u: "st_Conditions (rc_status u) = st_Conditions (rc_status s)"
      by (rule tagged_zone_keeps [OF _ second(1)]) (use assms(1) in \<open>simp add: settled_dns_def\<close>)
    have spec: "rc_spec u = rc_spec s"
      using preservesD [OF validateR53PrivateHostedZone_steady second(1)] by (simp add: steady_def)
    have gen: "cache_genuine E u" using preservesD [OF zone_cached second(1)] assms(3) by (simp add: cached_def)
    have "validateR53HostedZoneRecord E u = (Ok (), u)"
      using assms(1,2) u by (simp add: validateR53HostedZoneRecord_def run_simps settled_dns_def holds_def)
    with second(2) have later: "?later u = (r, t)" by (simp add: bindE_run [of "validateR53HostedZoneRecord E"])
    from later second(3) grow(3) preserves_steady_emits [OF zone_stage_writes(2)] show ?thesis
    proof (cases rule: event_split)
      case (first q w)
      from assms(1) spec show ?thesis
        by (intro settled_authorization_quiet [OF _ gen first(1,2)]) (simp add: settled_dns_def)
    next
      case (second y w)
      with preservesD [OF zone_stage_writes(2) second(2)] show ?thesis by (blast dest: steady_event)
    qed
  qed
qed

section \<open>A settled resource\<close>

definition settled :: "env \<Rightarrow> reconciler \<Rightarrow> bool" where
  "settled E s \<longleftrightarrow> settled_group E s \<and> settled_endpoint E s \<and> settled_dns E s \<and> cache_genuine E s"

text \<open>What the three notions look at.\<close>

definition endpoint_key :: "reconciler \<Rightarrow> _" where
  "endpoint_key s = (rc_spec s, ve_Name (rc_resource s), rc_clusterInfo s, rc_EnablePrivateDns s,
     st_SecurityGroupId (rc_status s), st_VPCEndpointId (rc_status s), st_InfraId (rc_status s),
     st_VPCId (rc_status s), st_VPCEndpointServiceName (rc_status s))"

lemma settled_endpoint_cong:
  assumes "endpoint_key t = endpoint_key s" "settled_endpoint E s"
  shows "settled_endpoint E t"
proof -
  from assms(1) have k: "rc_spec t = rc_spec s" "ve_Name (rc_resource t) = ve_Name (rc_resource s)"
    "rc_clusterInfo t = rc_clusterInfo s" "rc_EnablePrivateDns t = rc_EnablePrivateDns s"
    "st_SecurityGroupId (rc_status t) = st_SecurityGroupId (rc_status s)"
    "st_VPCEndpointId (rc_status t) = st_VPCEndpointId (rc_status s)" "st_InfraId (rc_status t) = st_InfraId (rc_status s)"
    "st_VPCId (rc_status t) = st_VPCId (rc_status s)"
    "st_VPCEndpointServiceName (rc_status t) = st_VPCEndpointServiceName (rc_status s)"
    by (simp_all add: endpoint_key_def)
  have tags: "subnet_tags (rc_resource t) (rc_clusterInfo t) = subnet_tags (rc_resource s) (rc_clusterInfo s)"
    by (simp add: subnet_tags_def k)
  have "answered_subnets E t ids = answered_subnets E s ids" for ids
    unfolding answered_subnets_def Let_def tags unfolding k ..
  then have "wanted_endpoint E t v = wanted_endpoint E s v" for v unfolding wanted_endpoint_def k by simp
  moreover have "found_endpoint E t v = found_endpoint E s v" for v unfolding found_endpoint_def Let_def k ..
  ultimately show ?thesis using assms(2) by (simp add: settled_endpoint_def)
qed

lemma settled_dns_cong:
  assumes "rc_spec t = rc_spec s" "st_HostedZoneId (rc_status t) = st_HostedZoneId (rc_status s)"
    and "holds E t AWSRoute53RecordCondition = holds E s AWSRoute53RecordCondition"
    and "holds E t AWSRoute53TagsCondition = holds E s AWSRoute53TagsCondition" "settled_dns E s"
  shows "settled_dns E t"
  using assms(5) by (simp add: settled_dns_def assms(1-4))

lemma validations_quiet:
  assumes "condition_laws E" "complete_answers E" "settled E s"
    and "validateResources (validations E) s = (r, t)" "e \<in> set (new_events s t)"
  shows "\<not> aws_write e"
proof -
  from assms(3) have s: "settled_group E s" "settled_endpoint E s" "settled_dns E s" "cache_genuine E s"
    by (simp_all add: settled_def)
  have grow: "preserves (emits (\<lambda>_. True)) (validateSecurityGroup E)" "preserves (emits (\<lambda>_. True)) (validateVPCEndpoint E)"
      "preserves (emits (\<lambda>_. True)) (validateCustomDns E)"
    using validateSecurityGroup_steady validateVPCEndpoint_steady validateCustomDns_steady
    by (blast intro: emits_any_prog preserves_steady_emits)+
  have "bindE (validateSecurityGroup E) (\<lambda>_. bindE (validateVPCEndpoint E) (\<lambda>_. validateCustomDns E)) s = (r, t)"
    using assms(4) by (simp add: validations_def bindE_ret_right)
  from this assms(5) grow(1) em.bindE [OF grow(2,3)] show ?thesis
  proof (cases rule: event_split)
    case (first q u)
    with settled_group_quiet [OF s(1) assms(2)] show ?thesis by blast
  next
    case (second x u)
    have ctx: "later_context E u = later_context E s" by (rule sameD [OF group_stage_same [OF assms(1)] second(1)])
    have ve: "settled_endpoint E u"
      by (rule settled_endpoint_cong [OF _ s(2)])
        (use ctx group_stage_id [OF s(1)] second(1) in \<open>simp add: endpoint_key_def later_context_def\<close>)
    have dns: "settled_dns E u"
      by (rule settled_dns_cong [OF _ _ _ _ s(3)]) (use ctx in \<open>simp_all add: later_context_def\<close>)
    have gen: "cache_genuine E u" using preservesD [OF security_group_cached second(1)] s(4) by (simp add: cached_def)
    from second(2,3) grow(2,3) show ?thesis
    proof (cases rule: event_split)
      case (first q w)
      with settled_endpoint_quiet [OF ve] show ?thesis by blast
    next
      case (second y w)
      then have v: "validateVPCEndpoint E u = (Ok (), w)" by simp
      note o = settled_endpoint_Ok [OF assms(1) ve v]
      have "rc_spec w = rc_spec u" using preservesD [OF validateVPCEndpoint_steady v] by (simp add: steady_def)
      then have "settled_dns E w" by (rule settled_dns_cong [OF _ o(2-4) dns])
      moreover have "cache_genuine E w" using preservesD [OF endpoint_cached v] gen by (simp add: cached_def)
      ultimately show ?thesis using settled_dns_quiet o(1) second(2,3) by blast
    qed
  qed
qed

lemma settled_registered:
  assumes "settled E s" "registerFinalizer E s = (r, t)"
  shows "settled E t"
proof -
  have "endpoint_key t = endpoint_key s \<and> rc_status t = rc_status s \<and> rc_hostedZoneCache t = rc_hostedZoneCache s"
    using assms(2)
    by (auto simp: registerFinalizer_def has_finalizer_def set_finalizers_def updateVpcEndpoint_def run_simps endpoint_key_def
        split: if_splits sum.splits)
  then have k: "endpoint_key t = endpoint_key s" "rc_status t = rc_status s" "rc_hostedZoneCache t = rc_hostedZoneCache s"
    by simp_all
  have g: "settled_group E t"
    using assms(1) k(1,2) by (simp add: settled_def settled_group_def endpoint_key_def)
  have "emits (\<lambda>_. True) s t" using preservesD [OF registerFinalizer_emits assms(2)] by (rule emits_any)
  then have "cache_genuine E t" using assms(1) k(3) by (auto simp: settled_def intro: cache_genuine_frame)
  with g settled_endpoint_cong [OF k(1)] settled_dns_cong [of t s E] assms(1) k(1,2) show ?thesis
    by (simp add: settled_def endpoint_key_def holds_def)
qed

text \<open>
  C18: a settled resource is left alone. If the security group, the endpoint and the zone that AWS reports
  for a live resource already are what it asks for (the group has the tags and grants the permissions that
  are wanted, the endpoint is available with the wanted subnets, group and private DNS, the conditions say
  that the record and the tags are right, and the zone lists the VPCs to associate), then a
  reconciliation changes nothing in AWS, whatever else it comes to.
\<close>

theorem settled_resource_is_left_alone:
  assumes "condition_laws E" "complete_answers E" "settled E s"
  shows "list_all (\<lambda>e. \<not> aws_write e) (new_events s (snd (reconcileLive E s)))"
proof -
  obtain r t where run: "reconcileLive E s = (r, t)" by fastforce
  have reg: "preserves (emits (\<lambda>e. \<not> aws_write e)) (registerFinalizer E)"
    by (rule preserves_emits_weaken [OF registerFinalizer_emits]) auto
  have val: "preserves (emits (\<lambda>_. True)) (attempt (validateResources (validations E)))"
    by (intro em.attempt preserves_steady_emits [OF vals.pipeline_steady, THEN emits_any_prog])
  let ?k = "\<lambda>validated. case validated of
       Inl err \<Rightarrow> validationError E err
     | Inr _ \<Rightarrow> bindE resource (\<lambda>v.
         bindE (if isVpcEndpointReady v then deleteNotReady else setNotReady E) (\<lambda>_. ret (requeue_after (seconds (15 * 60)))))"
  have k: "preserves (emits (\<lambda>e. \<not> aws_write e)) (?k x)" for x
    unfolding validationError_def deleteNotReady_def setNotReady_def
    by (intro preserves_steady_emits steady_intros awsUnauthorized_steady) simp_all
  have "\<not> aws_write e" if e: "e \<in> set (new_events s t)" for e
    using run [unfolded reconcileLive_split] e reg emits_any_prog [OF preserves_steady_emits [OF validatePhase_steady]]
  proof (cases rule: event_split)
    case (first q u)
    with preservesD [OF reg] show ?thesis by (blast dest: new_events_emits)
  next
    case (second x u)
    have u: "settled E u" by (rule settled_registered [OF assms(3) second(1)])
    from second(2) [unfolded validatePhase_def] second(3) val k show ?thesis
    proof (cases rule: event_split)
      case (first q w)
      then obtain p where "validateResources (validations E) u = (p, w)"
        by (auto simp: attempt_run split: prod.splits outcome.splits)
      from validations_quiet [OF assms(1,2) u this first(2)] show ?thesis .
    next
      case (second y w)
      with preservesD [OF k] show ?thesis by (blast dest: new_events_emits)
    qed
  qed
  with run show ?thesis by (simp add: list_all_iff)
qed

text \<open>A settled account: the group with its rule, the endpoint, and a resource with true conditions.\<close>

definition settled_env :: env where
  "settled_env = ref_env\<lparr>ec2 := ref_ec2\<lparr>ec2_DescribeSecurityGroups := (\<lambda>h. Inr [sample_group]),
     ec2_DescribeSecurityGroupRules := (\<lambda>h. Inr [sample_aws_rule\<lparr>esr_ReferencedGroupInfo := Some (Some ''sg-1'')\<rparr>]),
     ec2_DescribeVpcEndpoints := (\<lambda>h. Inr [sample_vpce\<lparr>evp_SubnetIds := [''subnet-1''], evp_Groups := [Some ''sg-1'']\<rparr>])\<rparr>\<rparr>"

definition settled_state :: reconciler where
  "settled_state = ruled_state\<lparr>rc_resource := (rc_resource ruled_state)\<lparr>ve_Status := sample_status\<lparr>st_HostedZoneId := ''Z1'',
     st_Conditions := List.map (\<lambda>ty. \<lparr>cd_Type = ty, cd_Status = ConditionTrue, cd_Reason = '''', cd_Message = ''''\<rparr>)
       [AWSRoute53RecordCondition, AWSRoute53TagsCondition]\<rparr>\<rparr>\<rparr>"

theorem settled_resource_is_left_alone_witness:
  "list_all (\<lambda>e. \<not> aws_write e) (new_events settled_state (snd (reconcileLive settled_env settled_state)))"
proof -
  have "settled_group settled_env settled_state"
    by (auto simp: settled_group_def says_def sgn.short GenerateAwsTags_def settled_env_def settled_state_def ruled_state_def
        sample_group_def sample_rule_def sample_aws_rule_def desired_def permission_def granted_def rule_targets_def
        sample_defs Let_def)
  moreover have "settled_endpoint settled_env settled_state"
    by (simp add: settled_endpoint_def found_endpoint_def wanted_endpoint_def answered_subnets_def says_def vpn.short
        settled_env_def settled_state_def ruled_state_def sample_vpce_def sample_defs Let_def)
  moreover have "settled_dns settled_env settled_state"
    by (simp add: settled_dns_def holds_def settled_env_def settled_state_def ruled_state_def ref_defs sample_defs)
  moreover have "cache_genuine settled_env settled_state"
    by (simp add: cache_genuine_def zc.sound_def settled_state_def ruled_state_def sample_defs)
  moreover have "condition_laws settled_env" by (rule ref_laws) (simp add: settled_env_def)
  moreover have "complete_answers settled_env"
    by (simp add: complete_answers_def settled_env_def sample_group_def sample_aws_rule_def complete_def)
  ultimately show ?thesis by (intro settled_resource_is_left_alone) (simp_all add: settled_def)
qed

end
