(* ===== verification/Total.thy ===== *)
theory Total
  imports Reconciler Libraries
begin

text \<open>
  Total correctness of programs. \<open>leads I J m Q\<close>: from every state with \<open>I\<close> the program returns a value
  with \<open>Q\<close>, without an error or a panic, and leaves a state with \<open>J\<close>. There is a rule for each operator of
  programs, and for a call that is answered as it is hoped; \<open>wins I m Q\<close> is the case of an invariant.
\<close>

section \<open>The judgement\<close>

definition leads :: "('s \<Rightarrow> bool) \<Rightarrow> ('s \<Rightarrow> bool) \<Rightarrow> ('s, error, 'a) prog \<Rightarrow> ('a \<Rightarrow> bool) \<Rightarrow> bool" where
  "leads I J m Q \<longleftrightarrow> (\<forall>s. I s \<longrightarrow> (\<exists>x t. m s = (Ok x, t) \<and> J t \<and> Q x))"

abbreviation wins :: "('s \<Rightarrow> bool) \<Rightarrow> ('s, error, 'a) prog \<Rightarrow> ('a \<Rightarrow> bool) \<Rightarrow> bool" where
  "wins I m Q \<equiv> leads I I m Q"

lemma leadsD: "leads I J m Q \<Longrightarrow> I s \<Longrightarrow> \<exists>x t. m s = (Ok x, t) \<and> J t \<and> Q x"
  by (simp add: leads_def)

lemma leadsI: "(\<And>s. I s \<Longrightarrow> \<exists>x t. m s = (Ok x, t) \<and> J t \<and> Q x) \<Longrightarrow> leads I J m Q"
  by (simp add: leads_def)

lemma leads_pre: "leads I J m Q \<Longrightarrow> (\<And>s. I' s \<Longrightarrow> I s) \<Longrightarrow> leads I' J m Q"
  by (simp add: leads_def)

lemma leads_post: "leads I J m Q \<Longrightarrow> (\<And>s. J s \<Longrightarrow> J' s) \<Longrightarrow> (\<And>x. Q x \<Longrightarrow> R x) \<Longrightarrow> leads I J' m R"
  by (fastforce simp: leads_def)

lemma leads_split: "leads (\<lambda>s. I s \<and> A s) J m Q \<Longrightarrow> leads (\<lambda>s. I s \<and> \<not> A s) J m Q \<Longrightarrow> leads I J m Q"
  by (auto simp: leads_def)

lemma leads_ret: "Q x \<Longrightarrow> wins I (ret x) Q"
  by (simp add: leads_def ret_run)

lemma leads_bindE:
  assumes "leads I J m Q" "\<And>x. Q x \<Longrightarrow> leads J K (f x) R"
  shows "leads I K (bindE m f) R"
proof (rule leadsI)
  fix s
  assume "I s"
  with assms(1) obtain x t where "m s = (Ok x, t)" "J t" "Q x" by (blast dest: leadsD)
  moreover from this assms(2) obtain y u where "f x t = (Ok y, u)" "K u" "R y" by (blast dest: leadsD)
  ultimately show "\<exists>y u. bindE m f s = (Ok y, u) \<and> K u \<and> R y" by (simp add: bindE_run)
qed

lemma leads_seq: "leads I J m (\<lambda>_. True) \<Longrightarrow> (\<And>x. leads J K (f x) R) \<Longrightarrow> leads I K (bindE m f) R"
  by (rule leads_bindE)

lemma wins_bindE: "wins I m Q \<Longrightarrow> (\<And>x. Q x \<Longrightarrow> wins I (f x) R) \<Longrightarrow> wins I (bindE m f) R"
  by (rule leads_bindE)

lemma wins_seq: "wins I m (\<lambda>_. True) \<Longrightarrow> (\<And>x. wins I (f x) R) \<Longrightarrow> wins I (bindE m f) R"
  by (rule leads_bindE)

lemma leads_attempt: "leads I J m Q \<Longrightarrow> leads I J (attempt m) (\<lambda>r. \<exists>x. r = Inr x \<and> Q x)"
  by (fastforce simp: leads_def attempt_run)

lemma leads_mapErr: "leads I J m Q \<Longrightarrow> leads I J (mapErr f m) Q"
  by (fastforce simp: leads_def mapErr_run)

lemma leads_whenE: "(b \<Longrightarrow> wins I m (\<lambda>_. True)) \<Longrightarrow> wins I (whenE b m) (\<lambda>_. True)"
  by (cases b) (simp_all add: whenE_def leads_ret)

lemma leads_deref: "x = Some y \<Longrightarrow> Q y \<Longrightarrow> wins I (deref x) Q"
  by (simp add: leads_def deref_run)

lemma bindE_deref_Some: "bindE (deref (Some x)) f = f x"
  by (simp add: deref_def bindE_ret_left)

lemma leads_liftS: "r = Inr x \<Longrightarrow> Q x \<Longrightarrow> wins I (liftS r) Q"
  by (simp add: leads_def liftS_run)

lemma leads_liftO: "r = Ok x \<Longrightarrow> Q x \<Longrightarrow> wins I (liftO r) Q"
  by (simp add: leads_def liftO_run)

lemma leads_forE: "(\<And>x. x \<in> set xs \<Longrightarrow> wins I (f x) (\<lambda>_. True)) \<Longrightarrow> wins I (forE f xs) (\<lambda>_. True)"
  by (induction xs) (auto intro!: leads_ret leads_bindE)

section \<open>Answers that help\<close>

text \<open>Updates are stored, deletions are carried out or find the thing gone, questions have an answer with \<open>Q\<close>.\<close>

definition accepts :: "unit responder \<Rightarrow> bool" where
  "accepts respond \<longleftrightarrow> (\<forall>h. respond h = Inr ())"

definition deletes :: "unit responder \<Rightarrow> string \<Rightarrow> bool" where
  "deletes respond code \<longleftrightarrow> (\<forall>h. case respond h of Inr _ \<Rightarrow> True
     | Inl err \<Rightarrow> (case as_api_error err of None \<Rightarrow> False | Some ae \<Rightarrow> fst ae = code))"

definition answers :: "'a responder \<Rightarrow> ('a \<Rightarrow> bool) \<Rightarrow> bool" where
  "answers respond Q \<longleftrightarrow> (\<forall>h. \<exists>x. respond h = Inr x \<and> Q x)"

lemma accepts_answers: "accepts respond \<Longrightarrow> answers respond (\<lambda>_. True)"
  by (simp add: accepts_def answers_def)

end
