(* ===== verification/Healthy.thy ===== *)
theory Healthy
  imports Total Runs
begin

text \<open>
  A live reconciliation comes to its end: with an account that answers as AWS documents and lacks nothing
  but what the operator may add, every validation succeeds, the conditions turn true, and the resource is
  looked at again in 15 minutes. The stages are taken one by one with \<open>leads\<close> (Total); \<open>prepared\<close> is what
  the parse of the cluster information leaves for them, and their pre- and postconditions are about the status.
\<close>

section \<open>A healthy account\<close>

definition group_given :: "ec2SecurityGroup \<Rightarrow> bool" where
  "group_given g \<longleftrightarrow> esg_GroupId g \<noteq> None \<and> list_all (\<lambda>t. et_Key t \<noteq> None \<and> et_Value t \<noteq> None) (esg_Tags g)"

definition endpoint_up :: "ec2VpcEndpoint \<Rightarrow> bool" where
  "endpoint_up v \<longleftrightarrow> evp_VpcEndpointId v \<noteq> None \<and> evp_VpcEndpointId v \<noteq> Some '''' \<and> evp_State v = ''available'' \<and>
     None \<notin> set (evp_Groups v) \<and> evp_DnsEntries v \<noteq> []"

definition subnet_given :: "ec2Subnet \<Rightarrow> bool" where
  "subnet_given s \<longleftrightarrow> es_SubnetId s \<noteq> None \<and> es_VpcId s \<noteq> None \<and> es_AvailabilityZone s \<noteq> None"

definition summary_given :: "hostedZoneSummary \<Rightarrow> bool" where
  "summary_given hz \<longleftrightarrow> hs_Name hz \<noteq> None \<and> hs_HostedZoneId hz \<noteq> None \<and> hs_HostedZoneId hz \<noteq> Some ''''"

definition zone_given :: "hostedZone \<Rightarrow> bool" where
  "zone_given hz \<longleftrightarrow> hz_Name hz \<noteq> None \<and> (case hz_Id hz of None \<Rightarrow> False | Some i \<Rightarrow> parse_zone_id i \<noteq> '''')"

definition found_zone :: "string \<Rightarrow> getHostedZoneOutput \<Rightarrow> bool" where
  "found_zone z resp \<longleftrightarrow> (case gh_HostedZone resp of None \<Rightarrow> False
     | Some hz \<Rightarrow> hz_Id hz = Some (''/hostedzone/'' @ z) \<and> hz_Name hz \<noteq> None)"

text \<open>
  The requests succeed; the group, the endpoint and the subnets that are searched for are there, the
  endpoint is available, and an answer has the fields that AWS documents. The zones may have to be made.
\<close>

definition healthy_ec2 :: "ec2Api \<Rightarrow> bool" where
  "healthy_ec2 A \<longleftrightarrow>
     answers (ec2_DescribeSecurityGroups A) (\<lambda>gs. gs \<noteq> [] \<and> list_all group_given gs) \<and>
     answers (ec2_DescribeSecurityGroupRules A) (list_all complete) \<and>
     answers (ec2_AuthorizeSecurityGroupIngress A) (\<lambda>_. True) \<and>
     answers (ec2_AuthorizeSecurityGroupEgress A) (\<lambda>_. True) \<and>
     answers (ec2_DescribeVpcs A) (\<lambda>vs. vs \<noteq> [] \<and> list_all (\<lambda>v. ev_CidrBlock v \<noteq> None) vs) \<and>
     answers (ec2_DescribeVpcEndpoints A) (\<lambda>vs. length vs = 1 \<and> list_all endpoint_up vs) \<and>
     answers (ec2_DescribeSubnets A) (\<lambda>ss. ss \<noteq> [] \<and> list_all subnet_given ss) \<and>
     answers (ec2_DescribeVpcEndpointServices A) (\<lambda>ds. length ds = 1) \<and>
     accepts (ec2_CreateTags A) \<and> accepts (ec2_ModifyVpcEndpoint A)"

definition healthy_r53 :: "r53Api \<Rightarrow> bool" where
  "healthy_r53 A \<longleftrightarrow>
     (\<forall>h c z. z \<noteq> '''' \<longrightarrow>
        (\<exists>resp. r53_GetHostedZone A (h @ [R53 c (DoGetHostedZone (''/hostedzone/'' @ z))]) = Inr resp \<and> found_zone z resp)) \<and>
     answers (r53_ListHostedZonesByVPC A) (list_all summary_given) \<and>
     answers (r53_ListHostedZonesByName A) (list_all zone_given) \<and>
     answers (r53_CreateHostedZone A) (\<lambda>hz. case hz of None \<Rightarrow> False | Some z \<Rightarrow> zone_given z) \<and>
     answers (r53_ListTagsForResource A) (\<lambda>ts. case ts of None \<Rightarrow> False
        | Some tags \<Rightarrow> list_all (\<lambda>t. et_Key t \<noteq> None \<and> et_Value t \<noteq> None) tags) \<and>
     accepts (r53_ChangeTagsForResource A) \<and> accepts (r53_ChangeResourceRecordSets A)"

definition healthy :: "env \<Rightarrow> bool" where
  "healthy E \<longleftrightarrow> healthy_ec2 (ec2 E) \<and> healthy_r53 (r53 E) \<and>
     accepts (k8s_UpdateStatus (k8s E)) \<and> accepts (k8s_UpdateVpcEndpoint (k8s E))"

lemma healthyD:
  assumes "healthy E"
  shows "answers (ec2_DescribeSecurityGroups (ec2 E)) (\<lambda>gs. gs \<noteq> [] \<and> list_all group_given gs)"
    and "answers (ec2_DescribeSecurityGroupRules (ec2 E)) (list_all complete)"
    and "answers (ec2_AuthorizeSecurityGroupIngress (ec2 E)) (\<lambda>_. True)"
    and "answers (ec2_AuthorizeSecurityGroupEgress (ec2 E)) (\<lambda>_. True)"
    and "answers (ec2_DescribeVpcs (ec2 E)) (\<lambda>vs. vs \<noteq> [] \<and> list_all (\<lambda>v. ev_CidrBlock v \<noteq> None) vs)"
    and "answers (ec2_DescribeVpcEndpoints (ec2 E)) (\<lambda>vs. length vs = 1 \<and> list_all endpoint_up vs)"
    and "answers (ec2_DescribeSubnets (ec2 E)) (\<lambda>ss. ss \<noteq> [] \<and> list_all subnet_given ss)"
    and "answers (ec2_DescribeVpcEndpointServices (ec2 E)) (\<lambda>ds. length ds = 1)"
    and "answers (ec2_CreateTags (ec2 E)) (\<lambda>_. True)" "answers (ec2_ModifyVpcEndpoint (ec2 E)) (\<lambda>_. True)"
    and "answers (r53_ListHostedZonesByVPC (r53 E)) (list_all summary_given)"
    and "answers (r53_ListHostedZonesByName (r53 E)) (list_all zone_given)"
    and "answers (r53_CreateHostedZone (r53 E)) (\<lambda>hz. case hz of None \<Rightarrow> False | Some z \<Rightarrow> zone_given z)"
    and "answers (r53_ListTagsForResource (r53 E)) (\<lambda>ts. case ts of None \<Rightarrow> False
        | Some tags \<Rightarrow> list_all (\<lambda>t. et_Key t \<noteq> None \<and> et_Value t \<noteq> None) tags)"
    and "answers (r53_ChangeTagsForResource (r53 E)) (\<lambda>_. True)" "answers (r53_ChangeResourceRecordSets (r53 E)) (\<lambda>_. True)"
    and "answers (k8s_UpdateStatus (k8s E)) (\<lambda>_. True)" "answers (k8s_UpdateVpcEndpoint (k8s E)) (\<lambda>_. True)"
  using assms by (auto simp: healthy_def healthy_ec2_def healthy_r53_def intro: accepts_answers)

section \<open>What the stages start from\<close>

definition informed :: "vpcEndpointSpec \<Rightarrow> vpcEndpointStatus \<Rightarrow> bool" where
  "informed spec v \<longleftrightarrow> st_InfraId v \<noteq> '''' \<and> st_VPCEndpointServiceName v \<noteq> '''' \<and>
     (sg_UseVpcCidr (sp_SecurityGroup spec) \<longrightarrow> st_VPCId v \<noteq> '''')"

definition cache_found :: "zoneCache \<Rightarrow> bool" where
  "cache_found c \<longleftrightarrow> (\<forall>z e. z \<noteq> '''' \<longrightarrow> cache_lookup c z = Some e \<longrightarrow> found_zone z (ce_response e))"

definition prepared :: "vpcEndpointSpec \<Rightarrow> (vpcEndpointStatus \<Rightarrow> bool) \<Rightarrow> reconciler \<Rightarrow> bool" where
  "prepared spec P s \<longleftrightarrow> rc_awsClient s \<noteq> None \<and>
     (case rc_clusterInfo s of None \<Rightarrow> False | Some ci \<Rightarrow> ci_clusterTag ci \<noteq> '''') \<and>
     rc_spec s = spec \<and> cache_found (rc_hostedZoneCache s) \<and> informed spec (rc_status s) \<and> P (rc_status s)"

lemma prep_reads:
  "wins (prepared spec P) resource (\<lambda>v. informed spec (ve_Status v) \<and> P (ve_Status v))"
  "wins (prepared spec P) status (\<lambda>v. informed spec v \<and> P v)"
  "wins (prepared spec P) awsClient (\<lambda>_. True)"
  "wins (prepared spec P) clusterTag (\<lambda>t. t \<noteq> '''')"
  "wins (prepared spec P) region (\<lambda>_. True)"
  "wins (prepared spec P) (getsE g) (\<lambda>_. True)"
  "wins (prepared spec P) (isConditionTrue E ty) (\<lambda>_. True)"
  "wins (prepared spec P) (now E) (\<lambda>_. True)"
  "wins (prepared spec P) (range_order_now E) (\<lambda>_. True)"
  "wins (prepared spec P) (age E) (\<lambda>_. True)"
  by (auto simp: leads_def prepared_def resource_run status_run awsClient_run getsE_run isConditionTrue_run clusterTag_def
      region_def now_def range_order_now_def age_def run_simps split: option.splits)

lemma prep_spec:
  "wins (prepared spec P) resource (\<lambda>v. ve_Spec v = spec \<and> informed spec (ve_Status v) \<and> P (ve_Status v))"
  by (auto simp: leads_def prepared_def resource_run)

lemma prep_emit: "wins (prepared spec P) (emit e) (\<lambda>_. True)"
  by (simp add: leads_def prepared_def emit_run)

lemma prep_events:
  "wins (prepared spec P) (record_normal reason) (\<lambda>_. True)" "wins (prepared spec P) (metric m) (\<lambda>_. True)"
  unfolding record_normal_def metric_def by (rule prep_emit)+

lemma prep_invoke: "answers respond Q \<Longrightarrow> wins (prepared spec P) (invoke ev respond) Q"
  unfolding answers_def leads_def
proof (intro allI impI)
  fix s
  assume a: "\<forall>h. \<exists>x. respond h = Inr x \<and> Q x" and r: "prepared spec P s"
  obtain x where "respond (history s @ [ev]) = Inr x" "Q x" using a by blast
  with r show "\<exists>x t. invoke ev respond s = (Ok x, t) \<and> prepared spec P t \<and> Q x" by (auto simp: invoke_run prepared_def)
qed

lemma prep_set_status:
  assumes "\<And>v. P v \<Longrightarrow> Q (f v)" "\<And>v. informed spec v \<Longrightarrow> informed spec (f v)"
  shows "leads (prepared spec P) (prepared spec Q) (set_status f) (\<lambda>_. True)"
  using assms by (auto simp: leads_def prepared_def set_status_run)

lemma prep_updateStatus: "healthy E \<Longrightarrow> wins (prepared spec P) (updateStatus E) (\<lambda>_. True)"
  unfolding updateStatus_def by (rule wins_bindE [OF prep_reads(1)]) (intro prep_invoke healthyD(17))

lemma prep_with_cache: "(\<And>c. cache_found c \<Longrightarrow> cache_found (f c)) \<Longrightarrow> wins (prepared spec P) (with_cache f) (\<lambda>_. True)"
  by (simp add: leads_def prepared_def with_cache_def modifyE_run)

text \<open>Which conditions are true, and whether the status names an endpoint and a zone.\<close>

definition reached :: "env \<Rightarrow> string set \<Rightarrow> bool \<Rightarrow> bool \<Rightarrow> vpcEndpointStatus \<Rightarrow> bool" where
  "reached E C ep zone v \<longleftrightarrow> (\<forall>ty\<in>C. lib_IsStatusConditionTrue (lib E) (st_Conditions v) ty) \<and>
     (ep \<longrightarrow> st_VPCEndpointId v \<noteq> '''') \<and> (zone \<longrightarrow> st_HostedZoneId v \<noteq> '''')"

abbreviation at :: "env \<Rightarrow> vpcEndpointSpec \<Rightarrow> string set \<Rightarrow> bool \<Rightarrow> bool \<Rightarrow> reconciler \<Rightarrow> bool" where
  "at E spec C ep zone \<equiv> prepared spec (reached E C ep zone)"

lemma at_condition_true:
  assumes "condition_laws E"
  shows "leads (at E spec C ep zone) (at E spec (insert ty C) ep zone) (setCondition E ty ConditionTrue reason msg) (\<lambda>_. True)"
  unfolding setCondition_def
  by (rule prep_set_status) (use assms in \<open>auto simp: reached_def informed_def condition_laws_def\<close>)

lemma at_condition_other:
  assumes "condition_laws E" "ty \<notin> C"
  shows "wins (at E spec C ep zone) (setCondition E ty st reason msg) (\<lambda>_. True)"
  unfolding setCondition_def
  by (rule prep_set_status) (use assms in \<open>auto simp: reached_def informed_def condition_laws_def\<close>)

section \<open>The security group\<close>

lemma has_all_tags_given:
  assumes "list_all (\<lambda>t. et_Key t \<noteq> None \<and> et_Value t \<noteq> None) tags"
  shows "\<exists>b. has_all_tags tags kvs ks = Some b"
proof -
  have "\<exists>b. has_tag ts k v = Some b" if "list_all (\<lambda>t. et_Key t \<noteq> None \<and> et_Value t \<noteq> None) ts" for ts k v
    using that by (induction ts) (auto split: option.splits)
  from this [OF assms] show ?thesis
  proof (induction ks)
    case (Cons k ks)
    then obtain b where "has_tag tags k (case map_of kvs k of None \<Rightarrow> '''' | Some v \<Rightarrow> v) = Some b" by blast
    with Cons show ?case by auto
  qed auto
qed

lemma group_found:
  assumes "healthy E" "group_given g"
  shows "wins (at E spec C ep zone) (foundSecurityGroup E g) group_given"
  using assms(2) unfolding foundSecurityGroup_def group_given_def
  by (auto intro!: wins_bindE [where Q = "\<lambda>_. True"] leads_deref leads_ret leads_mapErr prep_updateStatus assms(1)
      prep_set_status simp: reached_def informed_def)

lemma at_findGroup:
  assumes "healthy E"
  shows "wins (at E spec C ep zone) (findOrCreateSecurityGroup E) group_given"
proof -
  note groups = prep_invoke [OF healthyD(1) [OF assms]]
  have byId: "wins (at E spec C ep zone) (FilterSecurityGroupById E c i)
      (\<lambda>r. case r of None \<Rightarrow> False | Some gs \<Rightarrow> list_all group_given gs)" for c i
    unfolding FilterSecurityGroupById_def
    by (auto intro!: leads_ret wins_bindE [OF leads_attempt [OF groups]])
  have byTags: "wins (at E spec C ep zone) (FilterSecurityGroupByDefaultTags E c i n) (\<lambda>gs. gs \<noteq> [] \<and> list_all group_given gs)"
    if "i \<noteq> ''''" for c i n
    unfolding FilterSecurityGroupByDefaultTags_def
    by (rule wins_seq [OF leads_liftS]) (use that in \<open>simp_all add: GetClusterLegacyTagKey_def groups\<close>)
  have search: "wins (at E spec C ep zone) (bindE (liftO (GenerateSecurityGroupName i n)) (\<lambda>sgName.
     bindE (FilterSecurityGroupByDefaultTags E c i sgName) (\<lambda>byTags.
     case byTags of [] \<Rightarrow> createMissingSecurityGroup E c sgName | sg # _ \<Rightarrow> foundSecurityGroup E sg))) group_given"
    if i: "i \<noteq> ''''" for c i n
  proof -
    obtain m where "GenerateSecurityGroupName i n = Ok m" using sgn.total [OF i] by blast
    then show ?thesis
      by (rule wins_seq [OF leads_liftO], simp) (rule wins_bindE [OF byTags [OF i]], auto split: list.split intro: group_found assms)
  qed
  show ?thesis
    unfolding findOrCreateSecurityGroup_def
    by (rule wins_bindE [OF prep_reads(1)], rule wins_bindE [OF prep_reads(3)], rule wins_bindE [OF byId])
      (auto split: option.splits list.split intro: group_found assms search simp: informed_def)
qed

lemma at_groupTags:
  assumes "healthy E" "group_given g"
  shows "wins (at E spec C ep zone) (createMissingSecurityGroupTags E g) (\<lambda>_. True)"
proof -
  obtain gid where gid: "esg_GroupId g = Some gid" using assms(2) by (auto simp: group_given_def)
  have name: "wins (at E spec C ep zone) (mapErr f (liftO (GenerateSecurityGroupName i n))) (\<lambda>m. m \<noteq> '''')" if i: "i \<noteq> ''''" for f i n
  proof -
    obtain m where m: "GenerateSecurityGroupName i n = Ok m" using sgn.total [OF i] by blast
    moreover from sgn.suffixed [OF m] have "m \<noteq> ''''" by auto
    ultimately show ?thesis by (intro leads_mapErr leads_liftO)
  qed
  have map: "wins (at E spec C ep zone) (liftO (GenerateAwsTagsAsMap m t)) (\<lambda>_. True)" if "m \<noteq> ''''" "t \<noteq> ''''" for m t
    by (rule leads_liftO [OF GenerateAwsTagsAsMap_Ok [OF that]]) simp
  have present: "wins (at E spec C ep zone) (deref (tagsContains ord (esg_Tags g) kvs)) (\<lambda>_. True)" for ord kvs
    using has_all_tags_given [of "esg_Tags g"] assms(2) unfolding group_given_def tagsContains_def
    by (auto intro: leads_deref)
  have tags: "wins (at E spec C ep zone) (mapErr f (liftS (GenerateAwsTags m t))) (\<lambda>_. True)" if "m \<noteq> ''''" "t \<noteq> ''''" for f m t
    using that by (intro leads_mapErr leads_liftS) (simp_all add: GenerateAwsTags_def)
  show ?thesis
    unfolding createMissingSecurityGroupTags_def CreateTags_def gid
    by (rule wins_bindE [OF prep_reads(1)], rule wins_bindE [OF name], simp add: informed_def,
        rule wins_bindE [OF prep_reads(4)], rule wins_seq [OF map], assumption+, rule wins_seq [OF prep_reads(9)],
        rule wins_seq [OF present], rule leads_whenE, rule wins_seq [OF tags], assumption+, rule wins_seq [OF prep_reads(3)])
      (auto intro!: wins_seq [OF leads_deref] wins_seq [OF leads_mapErr] prep_events prep_invoke healthyD(9) assms(1))
qed

lemma at_groupRules:
  assumes "healthy E" "group_given g"
  shows "wins (at E spec C ep zone) (generateMissingSecurityGroupRules E g) (\<lambda>_. True)"
proof -
  obtain gid where gid: "esg_GroupId g = Some gid" using assms(2) by (auto simp: group_given_def)
  have nodes: "wins (at E spec C ep zone) (FilterClusterNodeSecurityGroupsByDefaultTags E c i) (list_all group_given)"
    if "i \<noteq> ''''" for c i
    unfolding FilterClusterNodeSecurityGroupsByDefaultTags_def Let_def
    by (rule wins_seq [OF leads_liftS], use that in \<open>simp add: GetClusterLegacyTagKey_def\<close>, simp,
        rule wins_seq [OF leads_liftS], use that in \<open>simp add: GetClusterCapiTagKey_def\<close>, simp,
        rule leads_post [OF prep_invoke [OF healthyD(1) [OF assms(1)]]], assumption, simp)
  have cidrs: "wins (at E spec C ep zone) (GetVpcCidrBlock E c v) (\<lambda>_. True)" if "v \<noteq> ''''" for c v
    using that unfolding GetVpcCidrBlock_def
    by (auto intro!: wins_bindE [OF leads_attempt [OF prep_invoke [OF healthyD(5) [OF assms(1)]]]] leads_ret split: list.split)
  have cidr: "wins (at E spec C ep zone) (lookupVpcCidr E) (\<lambda>_. True)"
    unfolding lookupVpcCidr_def
    by (rule wins_bindE [OF prep_spec]) (simp add: informed_def leads_ret wins_seq [OF prep_reads(3)] leads_mapErr cidrs)
  have missing: "\<exists>perms. collect (missing_for_rule e u cidr (List.map esg_GroupId gs) rules) rs = Some perms"
    if "list_all complete rules" "list_all group_given gs" for e u cidr gs rules rs
  proof -
    have "List.map esg_GroupId gs = List.map Some (List.map (the \<circ> esg_GroupId) gs)"
      using that(2) by (auto simp: list_all_iff group_given_def)
    then show ?thesis using missing_exact [of rules] that(1) by (metis list_all_iff)
  qed
  have ingress: "wins (at E spec C ep zone) (deref (missingIngress u cidr (List.map esg_GroupId gs) rules rs)) (\<lambda>_. True)"
    and egress: "wins (at E spec C ep zone) (deref (missingEgress u cidr (List.map esg_GroupId gs) rules rs)) (\<lambda>_. True)"
    if "list_all complete rules" "list_all group_given gs" for u cidr gs rules rs
    using missing [OF that] unfolding missingIngress_def missingEgress_def by (metis leads_deref)+
  show ?thesis
    unfolding generateMissingSecurityGroupRules_def DescribeSecurityGroupRules_def gid Let_def
    by (rule wins_seq [OF prep_reads(3)], rule wins_seq [OF leads_deref], rule refl, simp,
        rule wins_bindE [OF prep_invoke [OF healthyD(2) [OF assms(1)]]], rule wins_bindE [OF prep_reads(1)],
        rule wins_bindE [OF nodes], simp add: informed_def, rule wins_seq [OF cidr], rule wins_seq [OF ingress], assumption+,
        rule wins_seq [OF egress], assumption+, rule wins_seq [OF leads_post [OF prep_reads(4)]], assumption, simp,
        rule leads_ret, simp)
qed

lemma at_authorizes:
  assumes "healthy E"
  shows "wins (at E spec C ep zone) (AuthorizeSecurityGroupRules E c i e) (\<lambda>_. True)"
  unfolding AuthorizeSecurityGroupRules_def
  by (intro wins_seq leads_ret) (auto intro: leads_ret prep_invoke healthyD(3,4) assms)

lemma group_stage:
  assumes "condition_laws E" "healthy E"
  shows "leads (at E spec C ep zone) (at E spec (insert AWSSecurityGroupCondition C) ep zone) (validateSecurityGroup E) (\<lambda>_. True)"
  unfolding validateSecurityGroup_def
  by (rule leads_bindE [OF at_findGroup [OF assms(2)]], rule leads_seq [OF at_groupTags [OF assms(2)]], assumption,
      rule leads_seq [OF at_groupRules [OF assms(2)]], assumption, rule leads_seq [OF prep_reads(3)],
      rule leads_seq [OF at_authorizes [OF assms(2)]], rule leads_seq [OF prep_reads(7)],
      rule leads_seq [OF leads_whenE], rule wins_seq [OF prep_reads(10)], rule prep_events(2),
      rule leads_seq [OF at_condition_true [OF assms(1)]], rule prep_updateStatus [OF assms(2)])

section \<open>The endpoint\<close>

lemma at_findEndpoint:
  assumes "healthy E"
  shows "leads (at E spec C ep zone) (at E spec C True zone) (findOrCreateVpcEndpoint E) endpoint_up"
proof -
  note found = prep_invoke [OF healthyD(6) [OF assms]]
  have byId: "wins (at E spec C ep zone) (DescribeSingleVPCEndpointById E c i)
      (\<lambda>r. case r of None \<Rightarrow> False | Some vs \<Rightarrow> list_all endpoint_up vs)" for c i
    unfolding DescribeSingleVPCEndpointById_def
    by (auto intro!: leads_ret wins_bindE [OF leads_attempt [OF found]])
  have byTags: "wins (at E spec C ep zone) (FilterVPCEndpointByDefaultTags E c t n) (\<lambda>vs. vs \<noteq> [] \<and> list_all endpoint_up vs)"
    if "t \<noteq> ''''" for c t n
    using that unfolding FilterVPCEndpointByDefaultTags_def
    by simp (rule leads_post [OF found], assumption, auto)
  have name: "wins (at E spec C ep zone) (liftO (GenerateVPCEndpointName i n)) (\<lambda>_. True)" if i: "i \<noteq> ''''" for i n
  proof -
    obtain m where "GenerateVPCEndpointName i n = Ok m" using vpn.total [OF i] by blast
    then show ?thesis by (rule leads_liftO) simp
  qed
  have search: "wins (at E spec C ep zone) (bindE (liftO (GenerateVPCEndpointName i n)) (\<lambda>vpceName. bindE clusterTag (\<lambda>tag.
      bindE (FilterVPCEndpointByDefaultTags E c tag vpceName) (\<lambda>byTags. case byTags of vpce # _ \<Rightarrow> ret vpce
       | [] \<Rightarrow> create vpceName tag)))) endpoint_up" if "i \<noteq> ''''" for i n c create
    by (rule wins_seq [OF name [OF that]], rule wins_bindE [OF prep_reads(4)], rule wins_bindE [OF byTags], assumption)
      (auto split: list.split intro: leads_ret)
  have adopt: "leads (at E spec C ep zone) (at E spec C True zone) (bindE (deref (evp_VpcEndpointId vpce)) (\<lambda>vpceId.
      bindE (set_status (\<lambda>v. v\<lparr>st_VPCEndpointId := vpceId, st_Status := evp_State vpce\<rparr>)) (\<lambda>_.
      bindE (mapErr (Wrapf ''failed to update status: %w'' []) (updateStatus E)) (\<lambda>_. ret vpce)))) endpoint_up"
    if up: "endpoint_up vpce" for vpce
  proof -
    obtain i where i: "evp_VpcEndpointId vpce = Some i" "i \<noteq> ''''" using up by (auto simp: endpoint_up_def)
    have "leads (at E spec C ep zone) (at E spec C True zone)
        (set_status (\<lambda>v. v\<lparr>st_VPCEndpointId := i, st_Status := evp_State vpce\<rparr>)) (\<lambda>_. True)"
      by (rule prep_set_status) (use i(2) in \<open>auto simp: reached_def informed_def\<close>)
    then have "leads (at E spec C ep zone) (at E spec C True zone)
      (bindE (set_status (\<lambda>v. v\<lparr>st_VPCEndpointId := i, st_Status := evp_State vpce\<rparr>)) (\<lambda>_.
      bindE (mapErr (Wrapf ''failed to update status: %w'' []) (updateStatus E)) (\<lambda>_. ret vpce))) endpoint_up"
      by (rule leads_seq) (intro wins_seq leads_mapErr prep_updateStatus assms leads_ret up)
    then show ?thesis unfolding i(1) by (simp add: bindE_deref_Some)
  qed
  show ?thesis
    unfolding findOrCreateVpcEndpoint_def
    by (rule leads_bindE [OF prep_reads(1)], rule leads_seq [OF prep_reads(3)], rule leads_bindE [OF byId],
        rule leads_bindE [OF _ adopt])
      (auto split: option.splits list.split intro: leads_ret search simp: informed_def)
qed

lemma at_modify: "healthy E \<Longrightarrow> wins (at E spec C ep zone) (ModifyVpcEndpoint E c input) (\<lambda>_. True)"
  unfolding ModifyVpcEndpoint_def by (intro prep_invoke healthyD(10))

lemma at_subnets:
  assumes "healthy E"
  shows "wins (at E spec C ep zone) (expectedSubnetIds E) (\<lambda>_. True)"
proof -
  note found = prep_invoke [OF healthyD(7) [OF assms]]
  have auto: "wins (at E spec C ep zone) (AutodiscoverPrivateSubnets E c t tags) (list_all subnet_given)" for c t tags
    unfolding AutodiscoverPrivateSubnets_def DescribeSubnetsByTags_def
    by (rule wins_bindE [OF found]) (auto intro: leads_ret)
  have info: "wins (at E spec C ep zone) (getsE rc_clusterInfo) (\<lambda>i. case i of None \<Rightarrow> False | Some ci \<Rightarrow> ci_clusterTag ci \<noteq> '''')"
    by (simp add: leads_def getsE_run prepared_def)
  have discover: "wins (at E spec C ep zone) (discoverSubnets E) (list_all subnet_given)"
    unfolding discoverSubnets_def Let_def
    by (rule wins_bindE [OF prep_reads(1)], rule wins_seq [OF prep_reads(3)])
      (auto intro!: auto wins_bindE [OF info] split: option.splits)
  have azs: "wins (at E spec C ep zone) (GetVpcEndpointServiceAZs E c n) (\<lambda>_. True)" if "n \<noteq> ''''" for c n
    using that unfolding GetVpcEndpointServiceAZs_def
    by (auto intro!: wins_bindE [OF prep_invoke [OF healthyD(8) [OF assms]]] leads_ret split: list.splits)
  have pick: "wins (at E spec C ep zone) (deref (collect (pick_subnet v allowed) subnets)) (\<lambda>_. True)"
    if "list_all subnet_given subnets" for v allowed subnets
  proof -
    have "\<exists>ids. pick_subnet v allowed s = Some ids" if "subnet_given s" for s
      using that by (induction allowed) (auto simp: subnet_given_def)
    then have "\<exists>ids. collect (pick_subnet v allowed) subnets = Some ids"
      using that by (intro collect_total) (force simp: list_all_iff)
    then show ?thesis by (auto intro: leads_deref)
  qed
  show ?thesis
    unfolding expectedSubnetIds_def
    by (rule wins_bindE [OF prep_reads(1)])
      (auto intro!: leads_ret wins_bindE [OF discover] wins_seq [OF prep_reads(3)] wins_seq [OF azs] pick simp: informed_def)
qed

lemma at_configured:
  assumes "healthy E" "endpoint_up v"
  shows "wins (at E spec C ep zone) (ensureVpcEndpointSubnets E v) (\<lambda>_. True)"
    and "wins (at E spec C ep zone) (ensureVpcEndpointSecurityGroups E v) (\<lambda>_. True)"
    and "wins (at E spec C ep zone) (enablePrivateDns E v) (\<lambda>_. True)"
proof -
  note modify = at_modify [OF assms(1)]
  show "wins (at E spec C ep zone) (ensureVpcEndpointSubnets E v) (\<lambda>_. True)"
    unfolding ensureVpcEndpointSubnets_def Let_def case_prod_beta
    by (intro wins_seq [OF at_subnets [OF assms(1)]] wins_seq [OF prep_reads(9)] wins_seq [OF leads_whenE] leads_whenE
        wins_seq [OF prep_reads(3)] leads_mapErr modify)
  show "wins (at E spec C ep zone) (enablePrivateDns E v) (\<lambda>_. True)"
    unfolding enablePrivateDns_def
    by (intro wins_seq [OF prep_reads(6)] wins_seq [OF leads_post [OF prep_reads(1)]] leads_whenE wins_seq [OF prep_reads(3)]
        wins_seq [OF leads_mapErr] modify prep_events) simp_all
  have "\<exists>d. diffVpcEndpointSecurityGroups ord v res = Some d" for ord res
  proof -
    have "\<exists>zs. collect (map_option (\<lambda>i. [i])) (evp_Groups v) = Some zs"
      using assms(2) by (intro collect_total notI) (auto simp: endpoint_up_def)
    then show ?thesis by (auto simp: diffVpcEndpointSecurityGroups_def)
  qed
  then have diff: "wins (at E spec C ep zone) (deref (diffVpcEndpointSecurityGroups ord v res)) (\<lambda>_. True)" for ord res
    by (metis leads_deref)
  show "wins (at E spec C ep zone) (ensureVpcEndpointSecurityGroups E v) (\<lambda>_. True)"
    unfolding ensureVpcEndpointSecurityGroups_def case_prod_beta
    by (intro wins_seq [OF leads_post [OF prep_reads(1)]] wins_seq [OF prep_reads(9)] wins_seq [OF diff] wins_seq [OF leads_whenE]
        leads_whenE wins_seq [OF prep_reads(3)] modify) simp_all
qed

lemma endpoint_stage:
  assumes "condition_laws E" "healthy E" "AWSRoute53RecordCondition \<notin> C" "AWSRoute53TagsCondition \<notin> C"
  shows "leads (at E spec C ep zone) (at E spec (insert AWSVpcEndpointCondition C) True zone) (validateVPCEndpoint E) (\<lambda>_. True)"
proof -
  have invalidate: "wins (at E spec C True zone) (invalidateRoute53RecordCondition E) (\<lambda>_. True)"
    unfolding invalidateRoute53RecordCondition_def
    by (intro wins_seq [OF prep_reads(7)] wins_seq [OF leads_whenE] leads_whenE at_condition_other assms)
  have pending: "wins (at E spec C True zone) (set_pending_metric n) (\<lambda>_. True)" for n
    unfolding set_pending_metric_def by (rule wins_bindE [OF prep_reads(1)]) (rule prep_events)
  have available: "leads (at E spec C True zone) (at E spec (insert AWSVpcEndpointCondition C) True zone) (endpointAvailable E v) (\<lambda>_. True)"
    if "endpoint_up v" for v
    unfolding endpointAvailable_def
    by (rule leads_seq [OF pending], rule leads_seq [OF at_configured(3) [OF assms(2) that]],
        rule leads_seq [OF leads_mapErr [OF at_configured(1) [OF assms(2) that]]],
        rule leads_seq [OF leads_mapErr [OF at_configured(2) [OF assms(2) that]]], rule leads_seq [OF prep_reads(7)],
        rule leads_seq [OF leads_whenE], rule wins_seq [OF prep_reads(10)], rule prep_events(2),
        rule leads_seq [OF at_condition_true [OF assms(1)]], rule prep_updateStatus [OF assms(2)])
  have same: "wins (at E spec C True zone) (whenE b (bindE (invalidateRoute53RecordCondition E) (\<lambda>_.
      bindE (set_status (\<lambda>v. v\<lparr>st_VPCEndpointId := i\<rparr>)) (\<lambda>_. updateStatus E)))) (\<lambda>_. True)" if "i \<noteq> ''''" for b i
  proof -
    have "wins (at E spec C True zone) (set_status (\<lambda>v. v\<lparr>st_VPCEndpointId := i\<rparr>)) (\<lambda>_. True)"
      by (rule prep_set_status) (use that in \<open>auto simp: reached_def informed_def\<close>)
    then show ?thesis by (intro leads_whenE wins_seq [OF invalidate] wins_seq prep_updateStatus assms)
  qed
  have rest: "leads (at E spec C True zone) (at E spec (insert AWSVpcEndpointCondition C) True zone)
    (bindE (deref (evp_VpcEndpointId vpce)) (\<lambda>vpceId.
     bindE status (\<lambda>st.
     bindE (whenE (st_VPCEndpointId st \<noteq> vpceId)
              (bindE (invalidateRoute53RecordCondition E) (\<lambda>_.
               bindE (set_status (\<lambda>v. v\<lparr>st_VPCEndpointId := vpceId\<rparr>)) (\<lambda>_.
               updateStatus E)))) (\<lambda>_. endpointAvailable E vpce)))) (\<lambda>_. True)" if up: "endpoint_up vpce" for vpce
  proof -
    obtain i where i: "evp_VpcEndpointId vpce = Some i" "i \<noteq> ''''" using up by (auto simp: endpoint_up_def)
    show ?thesis unfolding i(1)
      by (simp add: bindE_deref_Some)
        (rule leads_bindE [OF prep_reads(2)], rule leads_seq [OF same [OF i(2)]], rule available [OF up])
  qed
  show ?thesis
    unfolding validateVPCEndpoint_def
    by (rule leads_bindE [OF at_findEndpoint [OF assms(2)]])
      (use rest in \<open>simp add: endpoint_up_def\<close>)
qed

section \<open>The zone and the record\<close>

text \<open>A zone is found in the cache or in AWS, and an entry of the cache is a zone that was found.\<close>

lemma at_cached:
  assumes "healthy E" "z \<noteq> ''''"
  shows "wins (prepared spec P) (getHostedZoneCached E z) (found_zone z)"
proof -
  have fetch: "wins (prepared spec P) (fetchHostedZone E z) (found_zone z)"
  proof (rule leadsI)
    fix s
    assume s: "prepared spec P s"
    then obtain c where c: "rc_awsClient s = Some c" by (auto simp: prepared_def)
    obtain resp where r: "r53_GetHostedZone (r53 E) (history s @ [R53 c (DoGetHostedZone (''/hostedzone/'' @ z))]) = Inr resp"
      "found_zone z resp" using assms unfolding healthy_def healthy_r53_def by blast
    have "cache_found (cache_store z \<lparr>ce_response = resp, ce_fetchedAt = t\<rparr> (rc_hostedZoneCache s))" for t
      using s r(2) by (auto simp: prepared_def cache_found_def cache_store_def cache_make_def cache_lookup_def split: option.splits if_splits)
    with s c r show "\<exists>x t. fetchHostedZone E z s = (Ok x, t) \<and> prepared spec P t \<and> found_zone z x"
      by (simp add: fetchHostedZone_def GetHostedZone_def now_def with_cache_def run_simps prepared_def)
  qed
  have make: "wins (prepared spec P) (with_cache cache_make) (\<lambda>_. True)"
    by (rule prep_with_cache) (auto simp: cache_found_def cache_make_def cache_lookup_def split: option.splits)
  have drop: "wins (prepared spec P) (with_cache (cache_drop z)) (\<lambda>_. True)"
    by (rule prep_with_cache) (auto simp: cache_found_def cache_drop_def cache_lookup_def split: option.splits if_splits)
  have look: "wins (prepared spec P) (getsE (\<lambda>s. cache_lookup (rc_hostedZoneCache s) z))
      (\<lambda>entry. case entry of None \<Rightarrow> True | Some e \<Rightarrow> found_zone z (ce_response e))"
    using assms(2) by (auto simp: leads_def getsE_run prepared_def cache_found_def split: option.split)
  show ?thesis
    unfolding getHostedZoneCached_def
    by (rule wins_seq [OF make], rule wins_bindE [OF look])
      (auto split: option.splits intro!: fetch wins_seq [OF prep_reads(8)] leads_ret wins_seq [OF drop])
qed

text \<open>The resources that are looked at: no private DNS names of AWS, a hosted zone by its domain name, a record in it.\<close>

definition plain_dns :: "vpcEndpointSpec \<Rightarrow> bool" where
  "plain_dns spec \<longleftrightarrow> (let zone = dns_Route53PrivateHostedZone (sp_CustomDns spec) in
     \<not> sp_EnablePrivateDns spec \<and> \<not> phz_AutoDiscover zone \<and> phz_Id zone = '''' \<and> phz_DomainName zone \<noteq> '''' \<and> phz_AssociatedVpcs zone = [] \<and>
     ens_Name (rec_ExternalNameService (phz_Record zone)) = '''')"

lemma at_set_zone:
  assumes "z \<noteq> ''''"
  shows "leads (at E spec C ep zone) (at E spec C ep True) (set_status (\<lambda>v. v\<lparr>st_HostedZoneId := z\<rparr>)) (\<lambda>_. True)"
  by (rule prep_set_status) (use assms in \<open>auto simp: reached_def informed_def\<close>)

lemma findE_wins:
  assumes "\<And>x. x \<in> set xs \<Longrightarrow> wins I (f x) (\<lambda>_. True)"
  shows "wins I (findE f xs) (\<lambda>r. case r of None \<Rightarrow> True | Some x \<Rightarrow> x \<in> set xs)"
  using assms
proof (induction xs)
  case (Cons x xs)
  have "wins I (findE f xs) (case_option True (\<lambda>y. y = x \<or> y \<in> set xs))"
    by (rule leads_post [OF Cons.IH]) (auto intro: Cons.prems split: option.splits)
  with Cons.prems show ?case by (auto intro!: wins_bindE [where Q = "\<lambda>_. True"] leads_ret)
qed (simp add: leads_ret)

text \<open>A zone for the domain: the one of the VPC, a private one of that name, or a new one.\<close>

lemma zone_created:
  assumes "healthy E"
  shows "leads (at E spec C ep zone) (at E spec C ep True) (createPrivateHostedZone E c d) (\<lambda>_. True)"
proof -
  have rest: "leads (at E spec C ep zone) (at E spec C ep True) (bindE (deref created) (\<lambda>hz. bindE (deref (hz_Id hz)) (\<lambda>zoneId.
     bindE (set_status (\<lambda>v. v\<lparr>st_HostedZoneId := parse_zone_id zoneId\<rparr>)) (\<lambda>_.
     bindE (record_normal ''Created'') (\<lambda>_. mapErr f (updateStatus E)))))) (\<lambda>_. True)"
    if c: "case created of None \<Rightarrow> False | Some z \<Rightarrow> zone_given z" for created f
  proof -
    obtain hz i where "created = Some hz" "hz_Id hz = Some i" "parse_zone_id i \<noteq> ''''"
      using c by (auto simp: zone_given_def split: option.splits)
    then show ?thesis
      by (simp add: bindE_deref_Some leads_seq [OF at_set_zone] wins_seq [OF prep_events(1)] leads_mapErr prep_updateStatus assms)
  qed
  show ?thesis
    unfolding createPrivateHostedZone_def CreateHostedZone_def
    by (rule leads_bindE [OF prep_reads(2)], rule leads_seq [OF prep_reads(5)],
        rule leads_bindE [OF leads_mapErr [OF prep_invoke [OF healthyD(13) [OF assms]]]], rule rest)
qed

lemma zone_for_domain:
  assumes "healthy E"
  shows "leads (prepared spec (\<lambda>v. reached E C ep zone v \<and> st_HostedZoneId v = '''')) (at E spec C ep True) (zoneForDomain E d) (\<lambda>_. True)"
    (is "leads ?unset _ _ _")
proof -
  have summaries: "wins I (findE (zone_in_vpc d) hs) (\<lambda>r. case r of None \<Rightarrow> True | Some x \<Rightarrow> summary_given x)"
    if given: "list_all summary_given hs" for I and hs :: "hostedZoneSummary list"
  proof (rule leads_post [OF findE_wins])
    fix x
    assume "x \<in> set hs"
    with given obtain n where "hs_Name x = Some n" by (auto simp: list_all_iff summary_given_def)
    then show "wins I (zone_in_vpc d x) (\<lambda>_. True)" by (simp add: zone_in_vpc_def bindE_deref_Some leads_ret)
  qed (use given in \<open>auto simp: list_all_iff split: option.splits\<close>)
  have zones: "wins I (findE (private_zone_named d) hs) (\<lambda>r. case r of None \<Rightarrow> True | Some x \<Rightarrow> zone_given x)"
    if given: "list_all zone_given hs" for I and hs :: "hostedZone list"
  proof (rule leads_post [OF findE_wins])
    fix x
    assume "x \<in> set hs"
    with given obtain n where "hz_Name x = Some n" by (auto simp: list_all_iff zone_given_def)
    then show "wins I (private_zone_named d x) (\<lambda>_. True)" by (simp add: private_zone_named_def bindE_deref_Some leads_ret)
  qed (use given in \<open>auto simp: list_all_iff split: option.splits\<close>)
  have byName: "leads (at E spec C ep zone) (at E spec C ep True) (bindE (deref (hz_Id hz)) (useHostedZone E)) (\<lambda>_. True)"
    if z: "zone_given hz" for hz
  proof -
    obtain i where "hz_Id hz = Some i" "parse_zone_id i \<noteq> ''''" using z by (auto simp: zone_given_def split: option.splits)
    then show ?thesis
      by (simp add: bindE_deref_Some useHostedZone_def leads_seq [OF at_set_zone] leads_mapErr prep_updateStatus assms)
  qed
  have new: "leads (at E spec C ep zone) (at E spec C ep True) (bindE (mapErr f (ListHostedZonesByName E c d)) (\<lambda>zones.
     bindE (findE (private_zone_named d) zones) (\<lambda>byName. case byName of
         Some hz \<Rightarrow> bindE (deref (hz_Id hz)) (useHostedZone E)
       | None \<Rightarrow> createPrivateHostedZone E c d))) (\<lambda>_. True)" for f c
    unfolding ListHostedZonesByName_def
    by (rule leads_bindE [OF leads_mapErr [OF prep_invoke [OF healthyD(12) [OF assms]]]], rule leads_bindE [OF zones], assumption)
      (auto split: option.splits intro: byName zone_created assms)
  have inVpc: "leads (at E spec C ep zone) (at E spec C ep True) (bindE (deref (hs_HostedZoneId hz)) (\<lambda>zoneId.
     whenE ('''' \<noteq> zoneId) (bindE (set_status (\<lambda>v. v\<lparr>st_HostedZoneId := zoneId\<rparr>)) (\<lambda>_. updateStatus E)))) (\<lambda>_. True)"
    if z: "summary_given hz" for hz
  proof -
    obtain i where "hs_HostedZoneId hz = Some i" "i \<noteq> ''''" using z by (auto simp: summary_given_def)
    then show ?thesis
      by (simp add: bindE_deref_Some whenE_def leads_seq [OF at_set_zone] prep_updateStatus assms)
  qed
  have weaken: "?unset s \<Longrightarrow> at E spec C ep zone s" for s by (simp add: prepared_def)
  show ?thesis
    unfolding zoneForDomain_def ListHostedZonesByVPC_def
    by (rule leads_bindE [OF prep_reads(2)], rule leads_seq [OF prep_reads(5)], rule leads_seq [OF prep_reads(3)],
        rule leads_bindE [OF prep_invoke [OF healthyD(11) [OF assms]]], rule leads_bindE [OF summaries], assumption)
      (auto split: option.splits intro: leads_pre [OF inVpc weaken] leads_pre [OF new weaken])
qed

lemma zone_stage:
  assumes "healthy E" "plain_dns spec"
  shows "leads (at E spec C ep zone) (at E spec C ep True) (findOrCreatePrivateHostedZone E) (\<lambda>_. True)"
proof (rule leads_split [where A = "\<lambda>s. st_HostedZoneId (rc_status s) \<noteq> ''''"])
  have "leads (at E spec C ep True) (at E spec C ep True) (findOrCreatePrivateHostedZone E) (\<lambda>_. True)"
    unfolding findOrCreatePrivateHostedZone_def
    by (rule wins_bindE [OF prep_reads(2)])
      (auto simp: reached_def found_zone_def bindE_deref_Some split: option.splits intro!: wins_bindE [OF at_cached] leads_ret assms)
  then show "leads (\<lambda>s. at E spec C ep zone s \<and> st_HostedZoneId (rc_status s) \<noteq> '''') (at E spec C ep True)
      (findOrCreatePrivateHostedZone E) (\<lambda>_. True)"
    by (rule leads_pre) (auto simp: prepared_def reached_def)
  have name: "wins (prepared spec P) (resolveDomainName E) (\<lambda>d. d \<noteq> '''')" for P
    unfolding resolveDomainName_def Let_def
    by (rule wins_bindE [OF prep_spec]) (use assms(2) in \<open>auto simp: plain_dns_def Let_def intro: leads_ret\<close>)
  have "leads (prepared spec (\<lambda>v. reached E C ep zone v \<and> st_HostedZoneId v = '''')) (at E spec C ep True)
      (findOrCreatePrivateHostedZone E) (\<lambda>_. True)"
    unfolding findOrCreatePrivateHostedZone_def
    by (rule leads_bindE [OF prep_reads(2)], simp, rule leads_bindE [OF name]) (simp add: whenE_def zone_for_domain assms)
  then show "leads (\<lambda>s. at E spec C ep zone s \<and> \<not> st_HostedZoneId (rc_status s) \<noteq> '''') (at E spec C ep True)
      (findOrCreatePrivateHostedZone E) (\<lambda>_. True)"
    by (rule leads_pre) (auto simp: prepared_def)
qed

lemma tag_pairs_given:
  "list_all (\<lambda>t. et_Key t \<noteq> None \<and> et_Value t \<noteq> None) tags \<Longrightarrow> \<exists>kvs. tag_pairs tags = Some kvs"
  by (induction tags) (auto split: option.splits)

lemma zone_tags_stage:
  assumes "condition_laws E" "healthy E"
  shows "leads (at E spec C ep zone) (at E spec (insert AWSRoute53TagsCondition C) ep zone) (createMissingPrivateZoneTags E) (\<lambda>_. True)"
proof -
  have input: "wins (at E spec C ep zone) (mapErr f (liftS (GenerateDefaultTagsForHostedZoneInput z tag)))
      (\<lambda>i. list_all (\<lambda>t. et_Key t \<noteq> None \<and> et_Value t \<noteq> None) (cti_AddTags i))" if "tag \<noteq> ''''" for f z tag
    by (rule leads_mapErr, rule leads_liftS, use that in \<open>simp add: GenerateDefaultTagsForHostedZoneInput_def GenerateR53Tags_def\<close>) simp
  have each: "wins (at E spec C ep zone) (forE (\<lambda>t.
              bindE (deref (et_Key t)) (\<lambda>k.
              bindE (case map_of (gomap actual) k of
                       None \<Rightarrow> ret True
                     | Some v \<Rightarrow> bindE (deref (et_Value t)) (\<lambda>expected. ret (v \<noteq> expected))) (\<lambda>missing.
              whenE missing (mapErr f (ChangeTagsForResource E c input))))) tags) (\<lambda>_. True)"
    if tags: "list_all (\<lambda>t. et_Key t \<noteq> None \<and> et_Value t \<noteq> None) tags" for actual f c input tags
  proof (rule leads_forE)
    fix t
    assume "t \<in> set tags"
    with tags obtain k v where "et_Key t = Some k" "et_Value t = Some v" by (auto simp: list_all_iff)
    then show "wins (at E spec C ep zone) (bindE (deref (et_Key t)) (\<lambda>k.
              bindE (case map_of (gomap actual) k of
                       None \<Rightarrow> ret True
                     | Some v \<Rightarrow> bindE (deref (et_Value t)) (\<lambda>expected. ret (v \<noteq> expected))) (\<lambda>missing.
              whenE missing (mapErr f (ChangeTagsForResource E c input))))) (\<lambda>_. True)"
      by (auto simp: bindE_deref_Some ChangeTagsForResource_def split: option.splits
          intro!: wins_seq leads_ret leads_whenE leads_mapErr prep_invoke healthyD(15) assms(2))
  qed
  have rest: "leads (at E spec C ep zone) (at E spec (insert AWSRoute53TagsCondition C) ep zone)
     (bindE (setCondition E AWSRoute53TagsCondition ConditionTrue r m) (\<lambda>_. updateStatus E)) (\<lambda>_. True)" for r m
    by (rule leads_seq [OF at_condition_true [OF assms(1)]]) (rule prep_updateStatus [OF assms(2)])
  have given: "leads (at E spec C ep zone) J (bindE (deref out) (\<lambda>tags. bindE (deref (tag_pairs tags)) g)) (\<lambda>_. True)"
    if o: "case out of None \<Rightarrow> False | Some tags \<Rightarrow> list_all (\<lambda>t. et_Key t \<noteq> None \<and> et_Value t \<noteq> None) tags"
      and g: "\<And>kvs. leads (at E spec C ep zone) J (g kvs) (\<lambda>_. True)" for out g J
  proof -
    obtain tags kvs where "out = Some tags" "tag_pairs tags = Some kvs"
      using o tag_pairs_given by (fastforce split: option.splits)
    with g show ?thesis by (simp add: bindE_deref_Some)
  qed
  show ?thesis
    unfolding createMissingPrivateZoneTags_def FetchPrivateZoneTags_def
    by (rule leads_bindE [OF prep_reads(2)], rule leads_seq [OF prep_reads(3)],
        rule leads_bindE [OF leads_mapErr [OF prep_invoke [OF healthyD(14) [OF assms(2)]]]],
        rule leads_bindE [OF prep_reads(4)], rule leads_bindE [OF input], assumption, rule given, assumption,
        rule leads_seq [OF each], assumption, rule rest)
qed

lemma prep_condition:
  "wins (prepared spec P) (isConditionTrue E ty)
     (\<lambda>b. \<exists>v. P v \<and> b = lib_IsStatusConditionTrue (lib E) (st_Conditions v) ty)"
  by (auto simp: leads_def isConditionTrue_run prepared_def)

lemma at_more: "at E spec (insert ty C) ep zone s \<Longrightarrow> at E spec C ep zone s"
  by (simp add: prepared_def reached_def)

lemma private_zone_stage:
  assumes "condition_laws E" "healthy E" "plain_dns spec"
  shows "leads (at E spec C ep zone) (at E spec C ep True) (validateR53PrivateHostedZone E) (\<lambda>_. True)"
proof -
  have tags: "wins (at E spec C ep True) (createMissingPrivateZoneTags E) (\<lambda>_. True)"
    by (rule leads_post [OF zone_tags_stage [OF assms(1,2)] at_more])
  show ?thesis
    unfolding validateR53PrivateHostedZone_def
    by (rule leads_bindE [OF prep_spec])
      (use assms(3) in \<open>auto simp: plain_dns_def Let_def
        intro!: leads_seq [OF zone_stage [OF assms(2,3)]] wins_seq [OF prep_reads(7)] leads_whenE tags\<close>)
qed

lemma record_generated:
  assumes "healthy E"
  shows "wins (at E spec C True zone) (generateRoute53Record E) (\<lambda>r. r \<noteq> None)"
proof -
  have byId: "wins (at E spec C True zone) (DescribeSingleVPCEndpointById E c i)
      (\<lambda>r. case r of Some (v # vs) \<Rightarrow> endpoint_up v | _ \<Rightarrow> False)" if "i \<noteq> ''''" for c i
    using that unfolding DescribeSingleVPCEndpointById_def
    by (auto intro!: leads_ret wins_bindE [OF leads_attempt [OF prep_invoke [OF healthyD(6) [OF assms]]]]
        split: list.split simp: length_Suc_conv)
  show ?thesis
    unfolding generateRoute53Record_def
    by (rule wins_bindE [OF prep_reads(1)])
      (auto simp: reached_def endpoint_up_def split: option.splits list.splits
        intro!: wins_seq [OF prep_reads(3)] wins_bindE [OF byId] leads_ret)
qed

lemma record_upserted:
  assumes "condition_laws E" "healthy E" "found_zone z resp"
  shows "leads (at E spec C ep zone) (at E spec (insert AWSRoute53RecordCondition C) ep zone) (upsertRecord E resp value) (\<lambda>_. True)"
proof -
  obtain hz i n where hz: "gh_HostedZone resp = Some hz" "hz_Id hz = Some i" "hz_Name hz = Some n"
    using assms(3) by (auto simp: found_zone_def split: option.splits)
  have named: "wins (at E spec C ep zone) (set_status (\<lambda>v. v\<lparr>st_ResourceRecordSet := name\<rparr>)) (\<lambda>_. True)" for name
    by (rule prep_set_status) (auto simp: reached_def informed_def)
  show ?thesis
    unfolding upsertRecord_def UpsertResourceRecordSet_def Let_def hz bindE_deref_Some
    by (rule leads_seq [OF leads_post [OF prep_reads(1)]], assumption, simp, simp add: hz bindE_deref_Some,
        rule leads_seq [OF prep_reads(3)], rule leads_seq [OF prep_invoke [OF healthyD(16) [OF assms(2)]]],
        rule leads_seq [OF prep_reads(7)], rule leads_seq [OF leads_whenE], rule wins_seq [OF prep_reads(10)],
        rule prep_events(2), rule leads_seq [OF named], rule leads_seq [OF at_condition_true [OF assms(1)]],
        rule prep_updateStatus [OF assms(2)])
qed

lemma record_stage:
  assumes "condition_laws E" "healthy E" "AWSVpcEndpointCondition \<in> C"
  shows "leads (at E spec C True True) (at E spec (insert AWSRoute53RecordCondition C) True True) (validateR53HostedZoneRecord E) (\<lambda>_. True)"
    (is "leads _ ?J _ _")
proof (rule leads_split [where A = "\<lambda>s. lib_IsStatusConditionTrue (lib E) (st_Conditions (rc_status s)) AWSRoute53RecordCondition"])
  have "wins ?J (validateR53HostedZoneRecord E) (\<lambda>_. True)"
    unfolding validateR53HostedZoneRecord_def
    by (rule wins_bindE [OF prep_condition], rule wins_bindE [OF prep_condition])
      (use assms(3) in \<open>auto simp: reached_def intro: leads_ret\<close>)
  then show "leads (\<lambda>s. at E spec C True True s \<and> lib_IsStatusConditionTrue (lib E) (st_Conditions (rc_status s)) AWSRoute53RecordCondition)
      ?J (validateR53HostedZoneRecord E) (\<lambda>_. True)"
    by (rule leads_pre) (auto simp: prepared_def reached_def)
  let ?P = "\<lambda>v. reached E C True True v \<and> \<not> lib_IsStatusConditionTrue (lib E) (st_Conditions v) AWSRoute53RecordCondition"
  have weaken: "prepared spec ?P s \<Longrightarrow> at E spec C True True s" for s by (simp add: prepared_def)
  have made: "leads (at E spec C True True) ?J (bindE (getHostedZoneCached E z) (\<lambda>resp.
     bindE (attempt (generateRoute53Record E)) (\<lambda>generated.
     case generated of Inr (Some value) \<Rightarrow> upsertRecord E resp value | _ \<Rightarrow> ret ()))) (\<lambda>_. True)" if "z \<noteq> ''''" for z
    by (rule leads_bindE [OF at_cached [OF assms(2) that]], rule leads_bindE [OF leads_attempt [OF record_generated [OF assms(2)]]])
      (auto intro: record_upserted [OF assms(1,2)])
  have "leads (prepared spec ?P) ?J (validateR53HostedZoneRecord E) (\<lambda>_. True)"
    unfolding validateR53HostedZoneRecord_def
    by (rule leads_bindE [OF prep_condition], rule leads_seq [OF prep_reads(7)])
      (auto simp: reached_def intro!: leads_bindE [OF prep_reads(2)] leads_pre [OF made weaken])
  then show "leads (\<lambda>s. at E spec C True True s \<and> \<not> lib_IsStatusConditionTrue (lib E) (st_Conditions (rc_status s)) AWSRoute53RecordCondition)
      ?J (validateR53HostedZoneRecord E) (\<lambda>_. True)"
    by (rule leads_pre) (auto simp: prepared_def)
qed

section \<open>The reconciliation\<close>

lemma dns_stage:
  assumes "condition_laws E" "healthy E" "plain_dns spec" "AWSVpcEndpointCondition \<in> C"
  shows "leads (at E spec C True zone) (at E spec (insert AWSRoute53RecordCondition C) True True) (validateCustomDns E) (\<lambda>_. True)"
proof -
  let ?D = "insert AWSRoute53RecordCondition C"
  have unassociated: "wins (at E spec ?D True True) (validateR53HostedZoneAuthorization E) (\<lambda>_. True)"
    unfolding validateR53HostedZoneAuthorization_def
    by (rule wins_bindE [OF prep_spec]) (use assms(3) in \<open>simp add: plain_dns_def Let_def leads_ret\<close>)
  have unnamed: "wins (at E spec ?D True True) (validateExternalNameService E) (\<lambda>_. True)"
    unfolding validateExternalNameService_def Let_def
    by (rule wins_bindE [OF prep_spec]) (use assms(3) in \<open>simp add: plain_dns_def Let_def leads_ret\<close>)
  have stages: "leads (at E spec C True zone) (at E spec ?D True True) (validateResources
      [validateR53PrivateHostedZone E, validateR53HostedZoneRecord E, validateR53HostedZoneAuthorization E,
       validateExternalNameService E]) (\<lambda>_. True)"
    unfolding validateResources_Cons validateResources_Nil
    by (intro leads_seq [OF private_zone_stage [OF assms(1,2,3)]] leads_seq [OF record_stage [OF assms(1,2,4)]]
        wins_seq [OF unassociated] wins_seq [OF unnamed] leads_ret) simp
  show ?thesis
    unfolding validateCustomDns_def
    by (rule leads_seq [OF prep_reads(6)], rule leads_bindE [OF prep_spec]) (use assms(3) stages in \<open>simp add: plain_dns_def Let_def\<close>)
qed

definition Served :: "string set" where
  "Served = {AWSRoute53RecordCondition, AWSVpcEndpointCondition, AWSSecurityGroupCondition}"

lemma validations_succeed:
  assumes "condition_laws E" "healthy E" "plain_dns spec"
  shows "leads (at E spec {} False False) (at E spec Served True True) (validateResources (validations E)) (\<lambda>_. True)"
proof -
  let ?G = "{AWSSecurityGroupCondition}"
  have off: "AWSRoute53RecordCondition \<notin> ?G" "AWSRoute53TagsCondition \<notin> ?G" by (simp_all add: condition_type_defs)
  show ?thesis
    unfolding validations_def validateResources_Cons validateResources_Nil Served_def
    by (rule leads_seq [OF group_stage [OF assms(1,2)]], rule leads_seq [OF endpoint_stage [OF assms(1,2) off]],
        rule leads_seq [OF dns_stage [OF assms]], simp, rule leads_ret, simp)
qed

lemma live_stage:
  assumes "condition_laws E" "healthy E" "plain_dns spec"
  shows "leads (at E spec {} False False) (at E spec Served True True) (reconcileLive E) (\<lambda>r. r = requeue_after (seconds (15 * 60)))"
proof -
  have finalizers: "wins (prepared spec P) (set_finalizers f) (\<lambda>_. True)" for P f
    by (simp add: leads_def set_finalizers_def modifyE_run prepared_def)
  have register: "wins (at E spec {} False False) (registerFinalizer E) (\<lambda>_. True)"
    unfolding registerFinalizer_def has_finalizer_def updateVpcEndpoint_def
    by (intro wins_seq leads_whenE leads_post [OF prep_reads(1)] prep_reads(6) finalizers prep_invoke healthyD(18) assms(2)) simp_all
  have gauge: "wins (prepared spec P) (if b then deleteNotReady else setNotReady E) (\<lambda>_. True)" for P b
    unfolding deleteNotReady_def setNotReady_def
    by (auto intro!: wins_seq [OF leads_post [OF prep_reads(1)]] wins_seq [OF prep_reads(10)] prep_events(2))
  show ?thesis
    unfolding reconcileLive_def
    by (rule leads_seq [OF register], rule leads_bindE [OF leads_attempt [OF validations_succeed [OF assms]]])
      (auto intro!: wins_seq [OF leads_post [OF prep_reads(1)]] wins_seq [OF gauge] leads_ret)
qed

lemma genuine_found:
  assumes "healthy E" "cache_genuine E s"
  shows "cache_found (rc_hostedZoneCache s)"
  unfolding cache_found_def
proof (intro allI impI)
  fix z e
  assume "z \<noteq> ''''" "cache_lookup (rc_hostedZoneCache s) z = Some e"
  with assms(2) have "genuine E (history s) z e" by (auto simp: cache_genuine_def dest: zc.soundD)
  then obtain h c where "r53_GetHostedZone (r53 E) (h @ [R53 c (DoGetHostedZone (''/hostedzone/'' @ z))]) = Inr (ce_response e)"
    by (auto simp: genuine_def answered_def)
  moreover from assms(1) \<open>z \<noteq> ''''\<close> obtain resp where
    "r53_GetHostedZone (r53 E) (h @ [R53 c (DoGetHostedZone (''/hostedzone/'' @ z))]) = Inr resp" "found_zone z resp"
    unfolding healthy_def healthy_r53_def by blast
  ultimately show "found_zone z (ce_response e)" by simp
qed

lemma parsed_ready:
  assumes "reachable rounds E s" "healthy E" "parseClusterInfo E True (fetched_state ns n v s) = (Ok (), u)"
    and "sg_UseVpcCidr (sp_SecurityGroup (ve_Spec v)) \<longrightarrow> st_VPCId (rc_status u) \<noteq> ''''"
  shows "at E (ve_Spec v) {} False False u"
proof -
  have spec: "rc_spec u = ve_Spec v" using preservesD [OF parseClusterInfo_steady assms(3)] by (simp add: steady_def)
  have "cache_genuine E (fetched_state ns n v s)"
    by (rule cache_genuine_frame [OF reachable_cache_genuine [OF assms(1)], of "\<lambda>_. True"])
      (simp_all add: emits_def fetched_state_def)
  with preservesD [OF cluster_info_cached(1) assms(3)] have "cache_genuine E u" by (simp add: cached_def)
  then have "cache_found (rc_hostedZoneCache u)" by (rule genuine_found [OF assms(2)])
  with parse_Ok [OF assms(3)] spec assms(4) show ?thesis
    by (auto simp: prepared_def informed_def reached_def)
qed

text \<open>
  C4: a live resource is served. Where AWS answers as documented and has the group, the endpoint and the
  subnets that the operator looks for, a reconciliation of a resource with a plain hosted zone succeeds
  once the cluster information is parsed: the group, the endpoint and the record are reported as ready, the status
  names the endpoint and the zone, whether the zone was cached, found or created, and the resource is looked at
  again in 15 minutes.
\<close>

theorem live_reconcile_completes:
  assumes "condition_laws E" "healthy E" "reachable rounds E s"
    and "fetches E ns n s v" "om_DeletionTimestamp (ve_Meta v) = None" "plain_dns (ve_Spec v)"
    and "parseClusterInfo E True (fetched_state ns n v s) = (Ok (), u)"
    and "sg_UseVpcCidr (sp_SecurityGroup (ve_Spec v)) \<longrightarrow> st_VPCId (rc_status u) \<noteq> ''''"
  shows "\<exists>t. Reconcile rounds E ns n s = (Ok (requeue_after (seconds (15 * 60))), t) \<and>
    conditionNow E t AWSSecurityGroupCondition \<and> conditionNow E t AWSVpcEndpointCondition \<and>
    conditionNow E t AWSRoute53RecordCondition \<and>
    st_VPCEndpointId (rc_status t) \<noteq> '''' \<and> st_HostedZoneId (rc_status t) \<noteq> ''''"
proof -
  have "at E (ve_Spec v) {} False False u" by (rule parsed_ready [OF assms(3,2,7,8)])
  with leadsD [OF live_stage [OF assms(1,2,6)]] obtain t
    where t: "reconcileLive E u = (Ok (requeue_after (seconds (15 * 60))), t)" "at E (ve_Spec v) Served True True t" by blast
  have "parsePhase E False (fetched_state ns n v s) = (Ok (), u)"
    using assms(7) by (simp add: parsePhase_def bindE_run attempt_run ret_run)
  then have "Reconcile rounds E ns n s = (Ok (requeue_after (seconds (15 * 60))), t)"
    using assms(4,5) t(1) by (simp add: Reconcile_fetched reconcileFetched_run bindE_run Let_def)
  with t(2) show ?thesis by (auto simp: prepared_def reached_def Served_def conditionNow_def)
qed

text \<open>An account with one group, endpoint and subnet, and a zone for every id; the zone of the resource has to be made.\<close>

definition served_endpoint :: vpcEndpoint where
  "served_endpoint = sample_endpoint\<lparr>ve_Spec := sample_spec\<lparr>sp_CustomDns := \<lparr>dns_Route53PrivateHostedZone =
     sample_zone\<lparr>phz_DomainName := ''svc.example.com'',
       phz_Record := \<lparr>rec_Hostname = ''api'', rec_ExternalNameService = \<lparr>ens_Name = ''''\<rparr>\<rparr>\<rparr>\<rparr>\<rparr>\<rparr>"

definition served_env :: env where
  "served_env = parse_env\<lparr>
     k8s := k8s parse_env\<lparr>k8s_GetVpcEndpoint := (\<lambda>h. Inr served_endpoint)\<rparr>,
     ec2 := ref_ec2\<lparr>
       ec2_DescribeSecurityGroups := (\<lambda>h. Inr [\<lparr>esg_GroupId = Some ''sg-1'', esg_Tags = []\<rparr>]),
       ec2_DescribeVpcs := (\<lambda>h. Inr [\<lparr>ev_VpcId = Some ''vpc-1'', ev_CidrBlock = Some ''10.0.0.0/16''\<rparr>]),
       ec2_DescribeVpcEndpoints := (\<lambda>h. Inr [sample_vpce]),
       ec2_DescribeSubnets := (\<lambda>h. Inr [\<lparr>es_SubnetId = Some ''subnet-1'', es_VpcId = Some ''vpc-1'',
          es_AvailabilityZone = Some ''us-east-1a''\<rparr>]),
       ec2_DescribeVpcEndpointServices := (\<lambda>h. Inr [[''us-east-1a'']])\<rparr>,
     r53 := ref_r53\<lparr>
       r53_GetHostedZone := (\<lambda>h. Inr \<lparr>gh_HostedZone = Some \<lparr>hz_Id = (case last h of R53 _ (DoGetHostedZone p) \<Rightarrow> Some p | _ \<Rightarrow> None),
          hz_Name = Some ''svc.example.com.'', hz_PrivateZone = Some True\<rparr>, gh_VPCs = []\<rparr>),
       r53_CreateHostedZone := (\<lambda>h. Inr (Some \<lparr>hz_Id = Some ''/hostedzone/Z1'', hz_Name = Some ''svc.example.com.'',
          hz_PrivateZone = Some True\<rparr>))\<rparr>\<rparr>"

lemma served_env_healthy: "healthy served_env"
  by (simp add: healthy_def healthy_ec2_def healthy_r53_def answers_def accepts_def served_env_def parse_env_def ref_defs
      found_zone_def group_given_def endpoint_up_def subnet_given_def zone_given_def sample_vpce_def parse_zone_id_def scan_word_def)

lemma served_env_parses:
  "\<exists>u. parseClusterInfo served_env True (fetched_state ns n served_endpoint sample_state) = (Ok (), u)"
  by (simp add: parseClusterInfo_def parseInfraId_def is_hcp_def GetInfrastructureName_def GetClusterLegacyTagKey_def
      set_clusterInfo_def getVpcEndpointServiceName_def findServiceName_def parseRegion_def establishAwsClient_def
      load_config_def set_awsClient_def parseVpcId_def served_env_def parse_env_def served_endpoint_def fetched_state_def
      run_simps ref_defs sample_defs)

theorem live_reconcile_completes_witness:
  "\<exists>t. Reconcile 1 served_env ''default'' ''example'' sample_state = (Ok (requeue_after (seconds (15 * 60))), t) \<and>
    conditionNow served_env t AWSRoute53RecordCondition \<and> st_HostedZoneId (rc_status t) \<noteq> ''''"
proof -
  obtain u where u: "parseClusterInfo served_env True (fetched_state ''default'' ''example'' served_endpoint sample_state) = (Ok (), u)"
    using served_env_parses by blast
  have r: "reachable 1 served_env sample_state" by (rule reachable.start) (simp add: sample_state_def)
  have lib: "lib served_env = ref_lib" by (simp add: served_env_def parse_env_def)
  have f: "fetches served_env ''default'' ''example'' sample_state served_endpoint" by (simp add: fetches_def served_env_def)
  have d: "om_DeletionTimestamp (ve_Meta served_endpoint) = None" "plain_dns (ve_Spec served_endpoint)"
    "\<not> sg_UseVpcCidr (sp_SecurityGroup (ve_Spec served_endpoint))"
    by (simp_all add: served_endpoint_def plain_dns_def sample_defs Let_def)
  show ?thesis
    using live_reconcile_completes [OF ref_laws(1) [OF lib] served_env_healthy r f d(1,2) u] d(3) by blast
qed

end
