(* ===== verification/Deletion.thy ===== *)
theory Deletion
  imports VpcEndpointController Total
begin

text \<open>
  The deletion of a resource comes to an end: with an account and a cluster that cooperate, the cleanup
  succeeds and the finalizer is removed. Each stage of the cleanup keeps the invariant \<open>ready\<close> and
  succeeds (\<open>wins\<close>, Total).
\<close>

section \<open>An account and a cluster that cooperate\<close>

definition cooperative :: "env \<Rightarrow> bool" where
  "cooperative E \<longleftrightarrow>
     accepts (k8s_UpdateStatus (k8s E)) \<and> accepts (k8s_UpdateVpcEndpoint (k8s E)) \<and>
     answers (k8s_GetDNS (k8s E)) (\<lambda>_. True) \<and>
     answers (r53_GetHostedZone (r53 E))
       (\<lambda>resp. case gh_HostedZone resp of None \<Rightarrow> True | Some hz \<Rightarrow> hz_Id hz \<noteq> None) \<and>
     answers (r53_ListResourceRecordSets (r53 E)) (list_all (\<lambda>rr. rrs_Name rr \<noteq> None)) \<and>
     accepts (r53_ChangeResourceRecordSets (r53 E)) \<and>
     deletes (r53_DeleteHostedZone (r53 E)) ''NoSuchHostedZone'' \<and>
     deletes (ec2_DeleteVpcEndpoints (ec2 E)) ''InvalidVpcEndpoint.NotFound'' \<and>
     deletes (ec2_DeleteSecurityGroup (ec2 E)) ''InvalidGroup.NotFound'' \<and>
     (\<forall>h. lib_ContextErr (lib E) h = None)"

text \<open>
  An endpoint goes: once AWS was asked to delete it, AWS reports it deleted or does not know it, or it
  is still being deleted, but not after 24 waits of the poll loop. A call of EC2 takes at most a second,
  and so does a wait in addition to its five seconds, so that 24 waits end within the three minutes of
  the loop.
\<close>

fun is_wait :: "event \<Rightarrow> bool" where
  "is_wait (Slept _) = True"
| "is_wait _ = False"

definition waits :: "event list \<Rightarrow> nat" where
  "waits h = length (filter is_wait h)"

lemma waits_simps [simp]: "waits (h @ [e]) = waits h + (if is_wait e then 1 else 0)"
  by (simp add: waits_def)

lemma waits_two: "waits (h @ [d, e]) = waits h + (if is_wait d then 1 else 0) + (if is_wait e then 1 else 0)"
  by (simp add: waits_def)

definition vanishes :: "env \<Rightarrow> nat \<Rightarrow> bool" where
  "vanishes E from \<longleftrightarrow> (\<forall>i c d h. Ec2 d (DoDeleteVpcEndpoints [i]) \<in> set h \<longrightarrow>
     (case ec2_DescribeVpcEndpoints (ec2 E) (h @ [Ec2 c (DoDescribeVpcEndpoints [] [i])]) of
        Inl err \<Rightarrow> (case as_api_error err of None \<Rightarrow> False | Some ae \<Rightarrow> fst ae = ''InvalidVpcEndpointId.NotFound'')
      | Inr [v] \<Rightarrow> evp_State v = ''deleted'' \<or> evp_State v = ''deleting'' \<and> waits h < from + 24
      | Inr _ \<Rightarrow> False))"

definition second :: int where
  "second = 1000000000"

definition timely :: "env \<Rightarrow> bool" where
  "timely E \<longleftrightarrow> (\<forall>h. (\<forall>c x. lib_Now (lib E) (h @ [Ec2 c x]) \<le> lib_Now (lib E) h + second) \<and>
     lib_Now (lib E) (h @ [Slept pollInterval]) \<le> lib_Now (lib E) h + pollInterval + second)"

text \<open>There is a client, and the waits so far are counted.\<close>

definition ready :: "nat \<Rightarrow> reconciler \<Rightarrow> bool" where
  "ready from s \<longleftrightarrow> rc_awsClient s \<noteq> None \<and> from \<le> waits (history s)"

lemma wins_emit: "wins (ready from) (emit e) (\<lambda>_. True)"
  by (simp add: leads_def emit_run ready_def)

lemma wins_reads:
  "wins (ready from) resource (\<lambda>_. True)" "wins (ready from) status (\<lambda>_. True)" "wins (ready from) awsClient (\<lambda>_. True)"
  "wins (ready from) (getsE g) (\<lambda>_. True)" "wins (ready from) (isConditionTrue E ty) (\<lambda>_. True)"
  by (auto simp: leads_def resource_run status_run awsClient_run getsE_run isConditionTrue_run ready_def)

lemma wins_set_status: "wins (ready from) (set_status f) (\<lambda>_. True)" "wins (ready from) (setCondition E ty st reason msg) (\<lambda>_. True)"
  by (simp_all add: leads_def set_status_run setCondition_run ready_def)

lemma wins_events: "wins (ready from) (record_normal reason) (\<lambda>_. True)" "wins (ready from) (metric m) (\<lambda>_. True)"
  unfolding record_normal_def metric_def by (rule wins_emit)+

lemma wins_invoke: "answers respond Q \<Longrightarrow> wins (ready from) (invoke ev respond) Q"
  unfolding answers_def leads_def
proof (intro allI impI)
  fix s
  assume a: "\<forall>h. \<exists>x. respond h = Inr x \<and> Q x" and r: "ready from s"
  obtain x where "respond (history s @ [ev]) = Inr x" "Q x" using a by blast
  with r show "\<exists>x t. invoke ev respond s = (Ok x, t) \<and> ready from t \<and> Q x" by (auto simp: invoke_run ready_def)
qed

lemma wins_accept: "accepts respond \<Longrightarrow> wins (ready from) (invoke ev respond) (\<lambda>_. True)"
  by (rule wins_invoke) (simp add: accepts_def answers_def)

lemma wins_delete:
  assumes "deletes respond code"
  shows "wins (ready from) (attempt (invoke ev respond))
    (\<lambda>r. r = Inr () \<or> (\<exists>err ae. r = Inl err \<and> as_api_error err = Some ae \<and> fst ae = code))"
proof (rule leadsI)
  fix s
  assume "ready from s"
  moreover have "case respond (history s @ [ev]) of Inr _ \<Rightarrow> True
     | Inl err \<Rightarrow> (case as_api_error err of None \<Rightarrow> False | Some ae \<Rightarrow> fst ae = code)"
    using assms unfolding deletes_def by blast
  ultimately show "\<exists>r t. attempt (invoke ev respond) s = (Ok r, t) \<and> ready from t \<and>
      (r = Inr () \<or> (\<exists>err ae. r = Inl err \<and> as_api_error err = Some ae \<and> fst ae = code))"
    by (auto simp: attempt_run invoke_run ready_def split: sum.splits option.splits)
qed

lemma cooperativeD:
  assumes "cooperative E"
  shows "accepts (k8s_UpdateStatus (k8s E))" "accepts (k8s_UpdateVpcEndpoint (k8s E))"
    and "answers (k8s_GetDNS (k8s E)) (\<lambda>_. True)"
    and "answers (r53_GetHostedZone (r53 E))
       (\<lambda>resp. case gh_HostedZone resp of None \<Rightarrow> True | Some hz \<Rightarrow> hz_Id hz \<noteq> None)"
    and "answers (r53_ListResourceRecordSets (r53 E)) (list_all (\<lambda>rr. rrs_Name rr \<noteq> None))"
    and "accepts (r53_ChangeResourceRecordSets (r53 E))"
    and "deletes (r53_DeleteHostedZone (r53 E)) ''NoSuchHostedZone''"
    and "deletes (ec2_DeleteVpcEndpoints (ec2 E)) ''InvalidVpcEndpoint.NotFound''"
    and "deletes (ec2_DeleteSecurityGroup (ec2 E)) ''InvalidGroup.NotFound''"
    and "lib_ContextErr (lib E) h = None"
  using assms unfolding cooperative_def by simp_all

section \<open>The stages of the cleanup\<close>

lemma wins_updateStatus: "cooperative E \<Longrightarrow> wins (ready from) (updateStatus E) (\<lambda>_. True)"
  unfolding updateStatus_def by (intro wins_seq wins_reads wins_accept cooperativeD)

lemma wins_deleteRecordSet:
  "cooperative E \<Longrightarrow> rrs_Name rr \<noteq> None \<Longrightarrow> wins (ready from) (DeleteResourceRecordSet E c rr z) (\<lambda>_. True)"
  unfolding DeleteResourceRecordSet_def
  by (auto intro!: wins_bindE leads_deref wins_accept cooperativeD)

lemma wins_deleteRecord:
  assumes "cooperative E"
  shows "wins (ready from) (deleteRecord E st) (\<lambda>_. True)"
proof -
  have "wins (ready from) (deleteNamedRecord E c hz n rr) (\<lambda>_. True)" if "rrs_Name rr \<noteq> None" "hz_Id hz \<noteq> None" for c hz n rr
    using that unfolding deleteNamedRecord_def
    by (auto intro!: wins_bindE [where Q = "\<lambda>_. True"] leads_whenE wins_deleteRecordSet assms intro: leads_deref)
  then have "wins (ready from) (bindE (ListResourceRecordSets E c i) (\<lambda>rrsets. forE (deleteNamedRecord E c hz n) rrsets)) (\<lambda>_. True)"
    if "hz_Id hz \<noteq> None" for c i hz n
    using that unfolding ListResourceRecordSets_def
    by (auto intro!: wins_bindE wins_invoke cooperativeD(5) [OF assms] leads_forE simp: list_all_iff)
  then have zone: "wins (ready from) (case gh_HostedZone resp of None \<Rightarrow> ret ()
      | Some hz \<Rightarrow> bindE (ListResourceRecordSets E c i) (\<lambda>rrsets. forE (deleteNamedRecord E c hz n) rrsets)) (\<lambda>_. True)"
    if "case gh_HostedZone resp of None \<Rightarrow> True | Some hz \<Rightarrow> hz_Id hz \<noteq> None" for resp c i n
    using that by (auto intro: leads_ret split: option.splits)
  show ?thesis
    unfolding deleteRecord_def GetHostedZone_def
    by (rule wins_seq [OF wins_reads(3)], rule wins_bindE [OF wins_invoke [OF cooperativeD(4) [OF assms]]])
      (intro wins_seq zone wins_set_status wins_events wins_updateStatus assms)
qed

lemma wins_cleanupZone:
  assumes "cooperative E"
  shows "wins (ready from) (cleanupZone E) (\<lambda>_. True)"
proof -
  have owns: "wins (ready from) (ownsZone E) (\<lambda>_. True)"
  proof -
    have "wins (ready from) (attempt (invoke (K8s (DoGetDNS DefaultDnsesName)) (k8s_GetDNS (k8s E)))) (\<lambda>r. \<exists>x. r = Inr x \<and> True)"
      by (intro leads_attempt wins_invoke cooperativeD assms)
    then have "wins (ready from) (bindE (attempt (invoke (K8s (DoGetDNS DefaultDnsesName)) (k8s_GetDNS (k8s E)))) (\<lambda>dns.
       case dns of Inl err \<Rightarrow> if is_hcp sp then ret True else failE err | Inr baseDomain \<Rightarrow> ret (d \<noteq> baseDomain))) (\<lambda>_. True)" for sp d
      by (rule wins_bindE) (auto intro: leads_ret)
    then show ?thesis
      unfolding ownsZone_def by (intro wins_bindE [OF wins_reads(1)]) (auto intro: leads_ret)
  qed
  have forget: "wins (ready from) (forgetZone E) (\<lambda>_. True)"
    unfolding forgetZone_def by (intro wins_seq wins_events wins_set_status wins_updateStatus assms)
  have "wins (ready from) (deleteZone E z) (\<lambda>_. True)" for z
    unfolding deleteZone_def DeleteHostedZone_def
    by (intro wins_bindE [OF wins_reads(3)] wins_bindE [OF wins_delete [OF cooperativeD(7) [OF assms]]])
      (auto simp: zoneDeleted_def intro: wins_events forget)
  then show ?thesis
    unfolding cleanupZone_def by (intro wins_seq wins_reads leads_whenE owns)
qed

lemma wins_cleanupGroup:
  assumes "cooperative E"
  shows "wins (ready from) (cleanupGroup E) (\<lambda>_. True)"
proof -
  have "wins (ready from) (DeleteSecurityGroup E c g) (\<lambda>_. True)" for c g
    unfolding DeleteSecurityGroup_def
    by (rule wins_bindE [OF wins_delete [OF cooperativeD(9) [OF assms]]]) (auto intro: leads_ret)
  then have "wins (ready from) (bindE (attempt (DeleteSecurityGroup E c g)) (groupDeleted E)) (\<lambda>_. True)" for c g
    by (rule wins_bindE [OF leads_attempt]) (auto simp: groupDeleted_def intro: wins_events)
  then show ?thesis
    unfolding cleanupGroup_def deleteGroup_def by (intro wins_bindE [OF wins_reads(2)] leads_whenE wins_bindE [OF wins_reads(3)])
qed

section \<open>The wait for the endpoint\<close>

text \<open>With \<open>j\<close> waits behind it, the loop has time for another poll, and by the 24th the endpoint is gone.\<close>

lemma poll_wins:
  assumes "cooperative E" "vanishes E from" "timely E" "i \<noteq> ''''"
    and "rc_awsClient s \<noteq> None" "from + j \<le> waits (history s)" "25 \<le> j + n"
    and "lib_Now (lib E) (history s) \<le> start + int j * (pollInterval + 2 * second)" "j \<le> 24"
    and "Ec2 d (DoDeleteVpcEndpoints [i]) \<in> set (history s)"
  shows "\<exists>t. pollDeletion n E c i (start + pollTimeout) s = (Ok (), t) \<and> ready from t \<and> st_VPCEndpointId (rc_status t) = ''''"
  using assms(5-)
proof (induction n arbitrary: s j)
  case 0
  then show ?case by simp
next
  case (Suc n)
  let ?ask = "Ec2 c (DoDescribeVpcEndpoints [] [i])"
  let ?h = "history s @ [?ask]"
  have "int j * (pollInterval + 2 * second) \<le> 24 * (pollInterval + 2 * second)"
    using Suc.prems(5) by (intro mult_right_mono) (simp_all add: pollInterval_def second_def)
  then have time: "lib_Now (lib E) (history s) < start + pollTimeout"
    using Suc.prems(4) by (simp add: pollInterval_def second_def pollTimeout_def)
  have gone: "\<exists>t. forgetEndpoint (s\<lparr>history := ?h\<rparr>) = (Ok (), t) \<and> ready from t \<and> st_VPCEndpointId (rc_status t) = ''''"
    using Suc.prems(1,2) by (simp add: forgetEndpoint_def set_status_run ready_def)
  have "case ec2_DescribeVpcEndpoints (ec2 E) ?h of
     Inl err \<Rightarrow> (case as_api_error err of None \<Rightarrow> False | Some ae \<Rightarrow> fst ae = ''InvalidVpcEndpointId.NotFound'')
   | Inr [v] \<Rightarrow> evp_State v = ''deleted'' \<or> evp_State v = ''deleting'' \<and> waits (history s) < from + 24
   | Inr _ \<Rightarrow> False"
    using assms(2) Suc.prems(6) unfolding vanishes_def by blast
  then consider (unknown) err ae where "ec2_DescribeVpcEndpoints (ec2 E) ?h = Inl err" "as_api_error err = Some ae"
      "fst ae = ''InvalidVpcEndpointId.NotFound''"
    | (deleted) v where "ec2_DescribeVpcEndpoints (ec2 E) ?h = Inr [v]" "evp_State v = ''deleted''"
    | (deleting) v where "ec2_DescribeVpcEndpoints (ec2 E) ?h = Inr [v]" "evp_State v = ''deleting''" "waits (history s) < from + 24"
    by (auto split: sum.splits option.splits list.splits)
  then show ?case
  proof cases
    case unknown
    with gone time assms(4) as_api_error_returned [OF unknown(2)] show ?thesis by (simp add: DescribeSingleVPCEndpointById_def run_simps)
  next
    case deleted
    with gone time assms(4) show ?thesis by (simp add: DescribeSingleVPCEndpointById_def run_simps)
  next
    case deleting
    let ?s = "s\<lparr>history := ?h @ [Slept pollInterval]\<rparr>"
    have "lib_Now (lib E) ?h \<le> lib_Now (lib E) (history s) + second"
      "lib_Now (lib E) (?h @ [Slept pollInterval]) \<le> lib_Now (lib E) ?h + pollInterval + second"
      using assms(3) unfolding timely_def by blast+
    with Suc.prems(4) have now: "lib_Now (lib E) (history ?s) \<le> start + int (Suc j) * (pollInterval + 2 * second)"
      by (simp add: algebra_simps)
    have "\<exists>t. pollDeletion n E c i (start + pollTimeout) ?s = (Ok (), t) \<and> ready from t \<and> st_VPCEndpointId (rc_status t) = ''''"
      by (rule Suc.IH [OF _ _ _ now]) (use Suc.prems deleting(3) in \<open>auto simp: waits_two\<close>)
    with deleting time assms(4) cooperativeD(10) [OF assms(1)] show ?thesis
      by (simp add: DescribeSingleVPCEndpointById_def waitInterval_def run_simps emit_run)
  qed
qed

lemma awaits_wins:
  assumes "cooperative E" "vanishes E from" "timely E" "25 \<le> rounds" "i \<noteq> ''''"
    and "ready from s" "Ec2 d (DoDeleteVpcEndpoints [i]) \<in> set (history s)"
  shows "\<exists>t. awaitDeletion rounds E c i s = (Ok (), t) \<and> ready from t"
proof -
  let ?s = "s\<lparr>history := history s @ [Recorded ''Normal'' ''Deleted'']\<rparr>"
  have "\<exists>t. pollDeletion rounds E c i (lib_Now (lib E) (history ?s) + pollTimeout) ?s = (Ok (), t) \<and>
      ready from t \<and> st_VPCEndpointId (rc_status t) = ''''"
    by (rule poll_wins [where j = 0, OF assms(1-3,5)]) (use assms(4,6,7) in \<open>simp_all add: ready_def\<close>)
  then show ?thesis by (auto simp: awaitDeletion_def run_simps)
qed

lemma wins_deleteEndpoint:
  assumes "cooperative E" "vanishes E from" "timely E" "25 \<le> rounds" "i \<noteq> ''''"
  shows "wins (ready from) (deleteEndpoint rounds E i) (\<lambda>_. True)"
proof (rule leadsI)
  fix s
  assume s: "ready from s"
  let ?e = "Ec2 (the (rc_awsClient s)) (DoDeleteVpcEndpoints [i])"
  let ?s = "s\<lparr>history := history s @ [?e]\<rparr>"
  have deletes: "deletes (ec2_DeleteVpcEndpoints (ec2 E)) ''InvalidVpcEndpoint.NotFound''" by (rule cooperativeD [OF assms(1)])
  have "ec2_DeleteVpcEndpoints (ec2 E) h \<noteq> Inl CalleePanic" for h
    using spec [OF deletes [unfolded deletes_def], of h] by auto
  then have run: "deleteEndpoint rounds E i s =
      endpointDeleted rounds E (the (rc_awsClient s)) i (ec2_DeleteVpcEndpoints (ec2 E) (history ?s)) ?s"
    using s by (auto simp: deleteEndpoint_def DeleteVPCEndpoint_def run_simps ready_def split: sum.splits if_splits)
  have "ready from ?s" using s by (simp add: ready_def)
  moreover from this have "\<exists>t. awaitDeletion rounds E (the (rc_awsClient s)) i ?s = (Ok (), t) \<and> ready from t"
    by (rule awaits_wins [OF assms, where d = "the (rc_awsClient s)"]) simp
  moreover from deletes have "case ec2_DeleteVpcEndpoints (ec2 E) (history ?s) of Inr _ \<Rightarrow> True
     | Inl err \<Rightarrow> (case as_api_error err of None \<Rightarrow> False | Some ae \<Rightarrow> fst ae = ''InvalidVpcEndpoint.NotFound'')"
    unfolding deletes_def by blast
  ultimately show "\<exists>x t. deleteEndpoint rounds E i s = (Ok x, t) \<and> ready from t \<and> True"
    unfolding run endpointDeleted_def
    by (auto simp: forgetEndpoint_def record_normal_def run_simps ready_def waits_two split: sum.splits option.splits)
qed

lemma wins_cleanupEndpoint:
  assumes "cooperative E" "vanishes E from" "timely E" "25 \<le> rounds"
  shows "wins (ready from) (cleanupEndpoint rounds E) (\<lambda>_. True)"
proof -
  have "wins (ready from) cleanupMetrics (\<lambda>_. True)"
    unfolding cleanupMetrics_def by (intro wins_seq wins_reads leads_whenE wins_events)
  then show ?thesis
    unfolding cleanupEndpoint_def by (intro wins_seq wins_reads leads_whenE wins_set_status wins_updateStatus wins_deleteEndpoint assms)
qed

text \<open>
  The record stage looks for the hosted zone, and may create it, if the status has a record but no zone;
  with the zone in the status, or no record, it needs nothing but the deletions.
\<close>

definition record_found :: "env \<Rightarrow> reconciler \<Rightarrow> bool" where
  "record_found E s \<longleftrightarrow> st_HostedZoneId (rc_status s) \<noteq> '''' \<or> \<not> conditionNow E s AWSRoute53RecordCondition"

lemma cleanupRecord_wins:
  assumes "cooperative E" "record_found E s" "ready from s"
  shows "\<exists>t. cleanupRecord E s = (Ok (), t) \<and> ready from t"
proof (cases "conditionNow E s AWSRoute53RecordCondition")
  case True
  with assms(2) have z: "st_HostedZoneId (rc_status s) \<noteq> ''''" by (simp add: record_found_def)
  obtain t where t: "deleteRecord E (rc_status s) s = (Ok (), t)" "ready from t"
    using leadsD [OF wins_deleteRecord [OF assms(1)] assms(3)] by auto
  with z True assms(3) show ?thesis
    by (auto simp: cleanupRecord_def conditionNow_def run_simps)
qed (use assms in \<open>simp add: cleanupRecord_def conditionNow_def run_simps\<close>)

lemma cleanup_wins:
  assumes "cooperative E" "vanishes E from" "timely E" "25 \<le> rounds" "record_found E s" "ready from s"
  shows "\<exists>t. cleanupAwsResources rounds E s = (Ok (), t) \<and> ready from t"
proof -
  let ?s = "s\<lparr>history := history s @ [Recorded ''Normal'' ''CleanupStarted'']\<rparr>"
  have "record_found E ?s" "ready from ?s" using assms(5,6) by (simp_all add: record_found_def conditionNow_def ready_def)
  then obtain t where t: "cleanupRecord E ?s = (Ok (), t)" "ready from t" using cleanupRecord_wins [OF assms(1)] by blast
  have "wins (ready from) (bindE (cleanupZone E) (\<lambda>_. bindE (cleanupEndpoint rounds E) (\<lambda>_.
      bindE (cleanupGroup E) (\<lambda>_. record_normal ''CleanupComplete'')))) (\<lambda>_. True)"
    by (intro wins_seq wins_cleanupZone wins_cleanupEndpoint wins_cleanupGroup wins_events assms)
  from leadsD [OF this t(2)] t(1) show ?thesis
    by (auto simp: cleanupAwsResources_def bindE_run [of "record_normal ''CleanupStarted''"] record_normal_def
        emit_run [of "Recorded ''Normal'' ''CleanupStarted''"] bindE_run [of "emit (Recorded ''Normal'' ''CleanupStarted'')"]
        bindE_run [of "cleanupRecord _"])
qed

section \<open>The reconciliation\<close>

lemma parsePhase_client:
  assumes "parsePhase E d s = (Ok (), u)"
  shows "rc_awsClient u \<noteq> None"
proof (cases "parseClusterInfo E True s")
  case (Pair r t)
  show ?thesis
  proof (cases r)
    case (Ok x)
    with Pair assms show ?thesis using parse_Ok by (fastforce simp: parsePhase_def bindE_run attempt_run ret_run)
  next
    case (Err e)
    with Pair assms have "d" "degradedClient E e t = (Ok (), u)"
      by (auto simp: parsePhase_def bindE_run attempt_run failE_run split: if_splits prod.splits outcome.splits)
    then show ?thesis
      by (auto simp: degradedClient_def set_awsClient_def cleanupFailure_def run_simps
          split: option.splits if_splits sum.splits prod.splits outcome.splits)
  qed (use Pair assms in \<open>simp_all add: parsePhase_def bindE_run attempt_run\<close>)
qed

lemma deletionDone_wins:
  assumes "cooperative E"
  shows "\<exists>t. deletionDone E s = (Ok no_requeue, t) \<and> K8s (DoUpdateVpcEndpoint (released E (rc_resource s))) \<in> set (new_events s t)"
  using cooperativeD(2) [OF assms]
  by (auto simp: deletionDone_def removeFinalizer_def set_finalizers_def updateVpcEndpoint_def deleteNotReady_def
      run_simps released_def accepts_def new_events_def)

lemma cleanup_steady: "preserves (steady (\<lambda>_. True)) (cleanupAwsResources rounds E)"
  unfolding cleanupAwsResources_def
  by (intro steady_intros cleanupRecord_steady [THEN preserves_steady_weaken] stages_steady [THEN preserves_steady_weaken]) simp_all

lemma cleanup_keeps_meta:
  assumes "cleanupAwsResources rounds E s = (r, t)"
  shows "ve_Meta (rc_resource t) = ve_Meta (rc_resource s)"
  using preservesD [OF cleanup_steady assms] by (simp add: steady_def)

lemma reconcileDeletion_wins:
  assumes "finalizer_laws E" "cooperative E" "vanishes E from" "timely E" "25 \<le> rounds" "record_found E s" "ready from s"
  shows "\<exists>t. reconcileDeletion rounds E s = (Ok no_requeue, t) \<and>
    (avoFinalizer \<in> set (om_Finalizers (ve_Meta (rc_resource s))) \<longrightarrow>
     (\<exists>w. K8s (DoUpdateVpcEndpoint w) \<in> set (new_events s t) \<and>
       om_Finalizers (ve_Meta w) = lib_RemoveFinalizer (lib E) (om_Finalizers (ve_Meta (rc_resource s))) avoFinalizer))"
proof (cases "avoFinalizer \<in> set (om_Finalizers (ve_Meta (rc_resource s)))")
  case True
  obtain u where u: "cleanupAwsResources rounds E s = (Ok (), u)" using cleanup_wins [OF assms(2-)] by blast
  obtain t where t: "deletionDone E u = (Ok no_requeue, t)"
    "K8s (DoUpdateVpcEndpoint (released E (rc_resource u))) \<in> set (new_events u t)" using deletionDone_wins [OF assms(2)] by blast
  have "emits (\<lambda>_. True) s u" "emits (\<lambda>_. True) u t"
    using preservesD [OF cleanup_steady u] deletionDone_history [OF t(1)] by (auto simp: steady_def emits_def)
  with t(2) have "K8s (DoUpdateVpcEndpoint (released E (rc_resource u))) \<in> set (new_events s t)"
    by (auto simp: emits_def new_events_def)
  moreover have "reconcileDeletion rounds E s = (Ok no_requeue, t)"
    using True u t(1) assms(1)
    by (simp add: reconcileDeletion_def has_finalizer_def finalizer_laws_def bindE_run getsE_run attempt_run deletionDone_def)
  ultimately show ?thesis using cleanup_keeps_meta [OF u] by (auto simp: released_def)
next
  case False
  with assms(1) show ?thesis
    by (simp add: reconcileDeletion_def has_finalizer_def finalizer_laws_def deleteNotReady_def run_simps)
qed

text \<open>
  C3: a deletion comes to an end. Suppose the API server stores the updates, AWS carries out the
  deletions or says that the thing is gone, the endpoint disappears within 24 waits of the poll loop, no
  call takes more than a second, and the fetched status names the hosted zone of its record, if it
  has one. Then the reconciliation of a resource under deletion, once an AWS client is found,
  succeeds without a requeue, and if the resource has the finalizer it is updated without it.
\<close>

theorem deletion_completes:
  assumes "finalizer_laws E" "cooperative E" "timely E" "vanishes E (waits (history s))" "25 \<le> rounds"
    and "fetches E ns n s v" "om_DeletionTimestamp (ve_Meta v) \<noteq> None"
    and "st_HostedZoneId (ve_Status v) \<noteq> '''' \<or>
      \<not> lib_IsStatusConditionTrue (lib E) (st_Conditions (ve_Status v)) AWSRoute53RecordCondition"
    and "parsePhase E True (fetched_state ns n v s) = (Ok (), u)"
  shows "\<exists>t. Reconcile rounds E ns n s = (Ok no_requeue, t) \<and>
    (avoFinalizer \<notin> set (om_Finalizers (ve_Meta v)) \<or>
     (\<exists>w. K8s (DoUpdateVpcEndpoint w) \<in> set (new_events s t) \<and> avoFinalizer \<notin> set (om_Finalizers (ve_Meta w))))"
proof -
  let ?s = "fetched_state ns n v s"
  have "steady setup_event ?s u" by (rule preservesD [OF parsePhase_steady assms(9)])
  then have meta: "ve_Meta (rc_resource u) = ve_Meta v" and grown: "emits (\<lambda>_. True) s u"
    by (auto simp: steady_def emits_def)
  then have "ready (waits (history s)) u" using parsePhase_client [OF assms(9)] by (auto simp: ready_def emits_def waits_def)
  moreover have "record_found E u"
    using keepsD [OF parsePhase_keeps assms(9)] assms(8) by (simp add: record_found_def conditionNow_def)
  ultimately obtain t where t: "reconcileDeletion rounds E u = (Ok no_requeue, t)"
    "avoFinalizer \<in> set (om_Finalizers (ve_Meta v)) \<longrightarrow> (\<exists>w. K8s (DoUpdateVpcEndpoint w) \<in> set (new_events u t) \<and>
       om_Finalizers (ve_Meta w) = lib_RemoveFinalizer (lib E) (om_Finalizers (ve_Meta v)) avoFinalizer)"
    using reconcileDeletion_wins [OF assms(1,2,4,3,5)] meta by metis
  have "Reconcile rounds E ns n s = (Ok no_requeue, t)"
    using assms(6,7,9) t(1) by (simp add: Reconcile_fetched reconcileFetched_run bindE_run)
  moreover have "set (new_events u t) \<subseteq> set (new_events s t)"
    using grown preservesD [OF reconcileDeletion_grows t(1)] by (auto simp: emits_def new_events_def)
  moreover have "avoFinalizer \<notin> set (lib_RemoveFinalizer (lib E) fs avoFinalizer)" for fs
    using assms(1) by (simp add: finalizer_laws_def)
  ultimately show ?thesis using t(2) by (metis subsetD)
qed

text \<open>An account that takes three waits to delete the endpoint.\<close>

definition slow_env :: env where
  "slow_env = deleting_env\<lparr>ec2 := gone_ec2\<lparr>ec2_DescribeVpcEndpoints := (\<lambda>h.
     Inr [sample_vpce\<lparr>evp_State := if waits h < 3 then ''deleting'' else ''deleted''\<rparr>])\<rparr>\<rparr>"

lemma slow_env_cooperates:
  "cooperative slow_env" "timely slow_env" "vanishes slow_env k" "finalizer_laws slow_env"
  by (simp_all add: cooperative_def timely_def vanishes_def deletes_def accepts_def answers_def ref_laws slow_env_def
      deleting_env_def gone_env_def gone_ec2_def ref_defs second_def pollInterval_def)

theorem deletion_completes_witness:
  "\<exists>t. Reconcile 25 slow_env ''default'' ''example'' sample_state = (Ok no_requeue, t) \<and>
     (\<exists>w. K8s (DoUpdateVpcEndpoint w) \<in> set (new_events sample_state t) \<and> avoFinalizer \<notin> set (om_Finalizers (ve_Meta w)))"
proof -
  let ?s = "fetched_state ''default'' ''example'' sample_deleting sample_state"
  have "parsePhase slow_env True ?s = (Ok (), snd (parsePhase slow_env True ?s))"
    by (simp add: parsePhase_def reconcile_run run_simps fetched_state_def slow_env_def deleting_env_def gone_env_def
        gone_ec2_def ref_defs sample_deleting_def sample_defs)
  from deletion_completes [OF slow_env_cooperates(4,1-3) _ _ _ _ this] show ?thesis
    by (auto simp: fetches_def slow_env_def deleting_env_def sample_deleting_def sample_defs gone_env_def ref_defs)
qed

text \<open>
  An endpoint that AWS does not know any more, by the code with which it answers a search for it
  (\<open>DescribeSingleVPCEndpointById\<close>), makes the cleanup fail: the deletion expects another code.
\<close>

definition unknown_env :: env where
  "unknown_env = ref_env\<lparr>ec2 := gone_ec2\<lparr>ec2_DeleteVpcEndpoints :=
     (\<lambda>h. Inl (ApiError ''InvalidVpcEndpointId.NotFound'' ''does not exist''))\<rparr>\<rparr>"

lemma unknown_endpoint_fails_cleanup:
  "fst (cleanupEndpoint rounds unknown_env sample_state) = Err (ApiError ''InvalidVpcEndpointId.NotFound'' ''does not exist'')"
  by (simp add: cleanup_run_defs run_simps unknown_env_def gone_ec2_def ref_defs sample_defs)

end
