(* ===== verification/Mocks.thy ===== *)
theory Mocks
  imports Ec2Client Libraries
begin

text \<open>
  The account and the cluster that the tests of the repository run against (pkg/aws_client/mock.go,
  pkg/testutil/mock.go), as parts of an environment. \<open>MockedEC2\<close> and \<open>MockedRoute53\<close> embed the
  interface they mock, which no constructor sets: a method that a mock does not define is called on a nil
  interface and panics (\<open>nil_ec2\<close>, \<open>nil_r53\<close>). What a mock remembers of earlier calls is read off the history.
\<close>

section \<open>Constants\<close>

definition MockAWSRegion :: string where
  "MockAWSRegion = ''us-gov-west-1''"

definition MockDomainName :: string where
  "MockDomainName = ''mock-domain.com''"

definition MockInfrastructureName :: string where
  "MockInfrastructureName = ''mock-12345''"

definition MockVpcEndpointId :: string where
  "MockVpcEndpointId = ''vpce-12345''"

definition MockVpcEndpointDnsName :: string where
  "MockVpcEndpointDnsName = ''vpce-12345.amazonaws.com''"

definition MockLegacyClusterTag :: string where
  "MockLegacyClusterTag = ''kubernetes.io/cluster/mock-12345''"

definition MockClusterNameTag :: string where
  "MockClusterNameTag = ''mock-12345-vpce''"

definition MockHostedZoneId :: string where
  "MockHostedZoneId = ''R53HZ12345''"

definition MockPublicSubnetId :: string where
  "MockPublicSubnetId = ''subnet-pub12345''"

definition MockPrivateSubnetId :: string where
  "MockPrivateSubnetId = ''subnet-priv12345''"

definition MockSecurityGroupId :: string where
  "MockSecurityGroupId = ''sg-12345''"

definition MockVpcId :: string where
  "MockVpcId = ''vpc-12345''"

definition MockVpcEndpointServiceName :: string where
  "MockVpcEndpointServiceName = ''com.amazonaws.vpce.service.mock-12345''"

definition MockVpcEndpointServiceId :: string where
  "MockVpcEndpointServiceId = ''vpce-svc-12345''"

definition MockVpcCidr :: string where
  "MockVpcCidr = ''10.0.0.0/16''"

section \<open>EC2\<close>

definition nil_method :: "'a responder" where
  "nil_method h = Inl CalleePanic"

text \<open>
  The nil interface. The waiter and the paginator are not methods of it but functions of the SDK that call
  \<open>DescribeSecurityGroups\<close> and \<open>DescribeVpcEndpoints\<close>.
\<close>

definition nil_ec2 :: ec2Api where
  "nil_ec2 = \<lparr>ec2_DescribeSecurityGroups = nil_method, ec2_CreateSecurityGroup = nil_method,
     ec2_WaitSecurityGroupExists = nil_method, ec2_DeleteSecurityGroup = nil_method,
     ec2_DescribeSecurityGroupRules = nil_method, ec2_AuthorizeSecurityGroupIngress = nil_method,
     ec2_AuthorizeSecurityGroupEgress = nil_method, ec2_CreateTags = nil_method,
     ec2_DescribeVpcEndpoints = nil_method, ec2_VpcEndpointPages = (\<lambda>h. [nil_method h]),
     ec2_CreateVpcEndpoint = nil_method, ec2_DeleteVpcEndpoints = nil_method, ec2_ModifyVpcEndpoint = nil_method,
     ec2_DescribeVpcs = nil_method, ec2_DescribeSubnets = nil_method, ec2_DescribeVpcEndpointServices = nil_method,
     ec2_DescribeVpcEndpointConnections = nil_method, ec2_AcceptVpcEndpointConnections = nil_method\<rparr>"

text \<open>
  A mocked method sees the parameters of its call, the last event of the history. \<open>None\<close> are the parameters
  on which it panics (a filter without values), and those of a call of another method.
\<close>

fun ec2_parameters :: "event list \<Rightarrow> ec2Call option" where
  "ec2_parameters [] = None"
| "ec2_parameters h = (case last h of Ec2 _ call \<Rightarrow> Some call | _ \<Rightarrow> None)"

definition mocked :: "(ec2Call \<Rightarrow> (error + 'a) option) \<Rightarrow> 'a responder" where
  "mocked method h =
     (case Option.bind (ec2_parameters h) method of None \<Rightarrow> Inl CalleePanic | Some answer \<Rightarrow> answer)"

lemma mocked_call [simp]:
  "h \<noteq> [] \<Longrightarrow> mocked m h = (case last h of
     Ec2 _ call \<Rightarrow> (case m call of None \<Rightarrow> Inl CalleePanic | Some answer \<Rightarrow> answer) | _ \<Rightarrow> Inl CalleePanic)"
  by (cases h) (auto simp: mocked_def split: event.split)

record mockedSubnet =
  ms_Subnet :: ec2Subnet
  ms_Tags :: "ec2Tag list"

definition mockSubnets :: "mockedSubnet list" where
  "mockSubnets =
     [\<lparr>ms_Subnet = \<lparr>es_SubnetId = Some MockPrivateSubnetId, es_VpcId = Some MockVpcId, es_AvailabilityZone = None\<rparr>,
       ms_Tags = [\<lparr>et_Key = Some privateSubnetTagKey, et_Value = None\<rparr>,
                  \<lparr>et_Key = Some MockLegacyClusterTag, et_Value = Some ''shared''\<rparr>]\<rparr>,
      \<lparr>ms_Subnet = \<lparr>es_SubnetId = Some MockPublicSubnetId, es_VpcId = Some MockVpcId, es_AvailabilityZone = None\<rparr>,
       ms_Tags = []\<rparr>]"

text \<open>The search of a subnet for the wanted tag keys: are they all found after one of the keys?\<close>

primrec all_tags_found :: "ec2Tag list \<Rightarrow> nat \<Rightarrow> nat \<Rightarrow> string list \<Rightarrow> bool" where
  "all_tags_found tags wanted foundTags [] = False"
| "all_tags_found tags wanted foundTags (tagKey # tagKeys) =
     (let foundTags = foundTags + length (filter (\<lambda>t. et_Key t = Some tagKey) tags)
      in foundTags = wanted \<or> all_tags_found tags wanted foundTags tagKeys)"

definition mock_DescribeSubnets ::
    "range_order \<Rightarrow> mockedSubnet list \<Rightarrow> ec2Call \<Rightarrow> (error + ec2Subnet list) option" where
  "mock_DescribeSubnets ord subnets call =
     (case call of
        DoDescribeSubnets filters _ \<Rightarrow>
          (let tagKeys = range_keys ord (concat (List.map flt_Values filters));
               found = (\<lambda>s. all_tags_found (ms_Tags s) (length tagKeys) 0 tagKeys)
           in Some (Inr (case List.find found subnets of None \<Rightarrow> [] | Some s \<Rightarrow> [ms_Subnet s])))
      | _ \<Rightarrow> None)"

definition mock_CreateSecurityGroup :: "ec2Call \<Rightarrow> (error + string option) option" where
  "mock_CreateSecurityGroup call = Some (Inr (Some MockSecurityGroupId))"

text \<open>The groups that are asked for by id, or one for the first filter by tag key or by \<open>Tag:Name\<close>.\<close>

fun mock_filtered_group :: "ec2Filter list \<Rightarrow> (error + ec2SecurityGroup list) option" where
  "mock_filtered_group [] = Some (Inr [])"
| "mock_filtered_group (f # fs) =
     (if flt_Name f = ''tag-key'' then
        (case flt_Values f of
           [] \<Rightarrow> None
         | v # _ \<Rightarrow> Some (Inr [\<lparr>esg_GroupId = Some MockSecurityGroupId, esg_Tags = [\<lparr>et_Key = Some v, et_Value = None\<rparr>]\<rparr>]))
      else if flt_Name f = ''Tag:Name'' then
        (case flt_Values f of
           [] \<Rightarrow> None
         | v # _ \<Rightarrow> Some (Inr [\<lparr>esg_GroupId = Some MockSecurityGroupId,
               esg_Tags = [\<lparr>et_Key = Some ''Name'', et_Value = Some v\<rparr>]\<rparr>]))
      else mock_filtered_group fs)"

definition mock_DescribeSecurityGroups :: "ec2Call \<Rightarrow> (error + ec2SecurityGroup list) option" where
  "mock_DescribeSecurityGroups call =
     (case call of
        DoDescribeSecurityGroups filters groupIds \<Rightarrow>
          (if groupIds \<noteq> [] then Some (Inr (List.map (\<lambda>i. \<lparr>esg_GroupId = Some i, esg_Tags = []\<rparr>) groupIds))
           else mock_filtered_group filters)
      | _ \<Rightarrow> None)"

definition mock_bad_rule :: "bool \<Rightarrow> ec2SecurityGroupRule" where
  "mock_bad_rule egress = \<lparr>esr_IsEgress = Some egress, esr_IpProtocol = Some ''tcp'', esr_FromPort = Some 1,
     esr_ToPort = Some 1, esr_CidrIpv4 = Some ''0.0.0.0/0'', esr_ReferencedGroupInfo = None\<rparr>"

definition mock_DescribeSecurityGroupRules :: "ec2Call \<Rightarrow> (error + ec2SecurityGroupRule list) option" where
  "mock_DescribeSecurityGroupRules call = Some (Inr [mock_bad_rule False, mock_bad_rule True])"

definition mock_DescribeVpcs :: "ec2Call \<Rightarrow> (error + ec2Vpc list) option" where
  "mock_DescribeVpcs call =
     (case call of
        DoDescribeVpcs _ (vpcId # _) \<Rightarrow> Some (Inr [\<lparr>ev_VpcId = Some vpcId, ev_CidrBlock = Some MockVpcCidr\<rparr>])
      | DoDescribeVpcs _ [] \<Rightarrow> Some (Inr [])
      | _ \<Rightarrow> None)"

definition mock_authorized :: "ipPermission \<Rightarrow> ec2SecurityGroupRule" where
  "mock_authorized p = \<lparr>esr_IsEgress = None, esr_IpProtocol = Some (ip_Protocol p), esr_FromPort = Some (ip_FromPort p),
     esr_ToPort = Some (ip_ToPort p), esr_CidrIpv4 = None, esr_ReferencedGroupInfo = None\<rparr>"

definition mock_AuthorizeSecurityGroupIngress :: "ec2Call \<Rightarrow> (error + ec2SecurityGroupRule list) option" where
  "mock_AuthorizeSecurityGroupIngress call =
     (case call of
        DoAuthorizeSecurityGroupIngress params \<Rightarrow> Some (Inr (List.map mock_authorized (au_IpPermissions params)))
      | _ \<Rightarrow> None)"

definition mock_AuthorizeSecurityGroupEgress :: "ec2Call \<Rightarrow> (error + ec2SecurityGroupRule list) option" where
  "mock_AuthorizeSecurityGroupEgress call =
     (case call of
        DoAuthorizeSecurityGroupEgress params \<Rightarrow> Some (Inr (List.map mock_authorized (au_IpPermissions params)))
      | _ \<Rightarrow> None)"

definition mock_CreateVpcEndpoint :: "ec2Call \<Rightarrow> (error + ec2VpcEndpoint option) option" where
  "mock_CreateVpcEndpoint call = Some (Inr (Some \<lparr>evp_VpcEndpointId = Some MockVpcEndpointId, evp_VpcId = None,
     evp_State = ''available'', evp_PrivateDnsEnabled = None, evp_SubnetIds = [], evp_Groups = [], evp_DnsEntries = []\<rparr>))"

text \<open>\<open>LastCreateVpcEndpointInput\<close>: VPC, service and tags of the last endpoint that was asked for.\<close>

fun created_by :: "event \<Rightarrow> (string \<times> string \<times> ec2Tag list) list" where
  "created_by (Ec2 _ (DoCreateVpcEndpoint vpcId serviceName tags)) = [(vpcId, serviceName, tags)]"
| "created_by _ = []"

definition LastCreateVpcEndpointInput :: "event list \<Rightarrow> (string \<times> string \<times> ec2Tag list) option" where
  "LastCreateVpcEndpointInput h =
     (case rev (concat (List.map created_by h)) of [] \<Rightarrow> None | input # _ \<Rightarrow> Some input)"

definition mock_AcceptVpcEndpointConnections :: "ec2Call \<Rightarrow> (error + unit) option" where
  "mock_AcceptVpcEndpointConnections call =
     (case call of
        DoAcceptVpcEndpointConnections _ [] \<Rightarrow>
          Some (Inl (Errorf (''1 validation error(s) found.'' @ [CHR 0x0A] @ ''- missing required field'') []))
      | DoAcceptVpcEndpointConnections _ _ \<Rightarrow> Some (Inr ())
      | _ \<Rightarrow> None)"

text \<open>\<open>deletedVpceIds\<close>: the ids of all earlier calls of \<open>DeleteVpcEndpoints\<close>.\<close>

fun deleted_by :: "event \<Rightarrow> string list" where
  "deleted_by (Ec2 _ (DoDeleteVpcEndpoints ids)) = ids"
| "deleted_by _ = []"

definition deletedVpceIds :: "event list \<Rightarrow> string set" where
  "deletedVpceIds h = set (concat (List.map deleted_by h))"

definition mock_endpoint :: "string \<Rightarrow> ec2VpcEndpoint" where
  "mock_endpoint vpceId = \<lparr>evp_VpcEndpointId = Some vpceId, evp_VpcId = None, evp_State = ''available'',
     evp_PrivateDnsEnabled = None, evp_SubnetIds = [], evp_Groups = [], evp_DnsEntries = [Some MockVpcEndpointDnsName]\<rparr>"

text \<open>The endpoint that is asked for by id, if it was not deleted, or one for a filter by tag key.\<close>

definition mock_filtered_endpoint :: "ec2Filter list \<Rightarrow> (error + ec2VpcEndpoint list) option" where
  "mock_filtered_endpoint filters =
     (case List.find (\<lambda>f. flt_Name f = ''tag-key'') filters of
        None \<Rightarrow> Some (Inr [])
      | Some f \<Rightarrow> if flt_Values f = [] then None else Some (Inr [mock_endpoint MockVpcEndpointId]))"

definition mock_DescribeVpcEndpoints :: "string set \<Rightarrow> ec2Call \<Rightarrow> (error + ec2VpcEndpoint list) option" where
  "mock_DescribeVpcEndpoints deleted call =
     (case call of
        DoDescribeVpcEndpoints _ (vpceId # _) \<Rightarrow>
          Some (if vpceId \<in> deleted
                then Inl (ApiError ''InvalidVpcEndpointId.NotFound''
                            (''VpcEndpointId '' @ [CHR 0x27] @ vpceId @ [CHR 0x27] @ '' does not exist''))
                else Inr [mock_endpoint vpceId])
      | DoDescribeVpcEndpoints filters [] \<Rightarrow> mock_filtered_endpoint filters
      | _ \<Rightarrow> None)"

text \<open>The waiter of the SDK is done when \<open>DescribeSecurityGroups\<close> answers without an error.\<close>

definition mock_WaitSecurityGroupExists :: "ec2Call \<Rightarrow> (error + unit) option" where
  "mock_WaitSecurityGroupExists call =
     (case call of
        DoWaitSecurityGroupExists groupId \<Rightarrow>
          map_option (map_sum id (\<lambda>_. ())) (mock_DescribeSecurityGroups (DoDescribeSecurityGroups [] [groupId]))
      | _ \<Rightarrow> None)"

text \<open>
  The mocked EC2, for a set of subnets and the iteration order of maps. The paginator of the SDK makes one
  page of an answer without a next token. \<open>DescribeVpcEndpointServices\<close> is not mocked.
\<close>

definition accepts_all :: "ec2Call \<Rightarrow> (error + unit) option" where
  "accepts_all call = Some (Inr ())"

definition MockedEC2 :: "libApi \<Rightarrow> mockedSubnet list \<Rightarrow> ec2Api" where
  "MockedEC2 L subnets = nil_ec2\<lparr>
     ec2_DescribeSubnets := (\<lambda>h. mocked (mock_DescribeSubnets (lib_Range L h) subnets) h),
     ec2_CreateSecurityGroup := mocked mock_CreateSecurityGroup,
     ec2_DeleteSecurityGroup := mocked accepts_all,
     ec2_DescribeSecurityGroups := mocked mock_DescribeSecurityGroups,
     ec2_WaitSecurityGroupExists := mocked mock_WaitSecurityGroupExists,
     ec2_DescribeSecurityGroupRules := mocked mock_DescribeSecurityGroupRules,
     ec2_DescribeVpcs := mocked mock_DescribeVpcs,
     ec2_AuthorizeSecurityGroupIngress := mocked mock_AuthorizeSecurityGroupIngress,
     ec2_AuthorizeSecurityGroupEgress := mocked mock_AuthorizeSecurityGroupEgress,
     ec2_CreateTags := mocked accepts_all,
     ec2_CreateVpcEndpoint := mocked mock_CreateVpcEndpoint,
     ec2_AcceptVpcEndpointConnections := mocked mock_AcceptVpcEndpointConnections,
     ec2_DescribeVpcEndpointConnections := mocked (\<lambda>_. Some (Inr [])),
     ec2_DeleteVpcEndpoints := mocked accepts_all,
     ec2_DescribeVpcEndpoints := (\<lambda>h. mocked (mock_DescribeVpcEndpoints (deletedVpceIds h)) h),
     ec2_VpcEndpointPages := (\<lambda>h. [mocked (mock_DescribeVpcEndpoints (deletedVpceIds h)) h]),
     ec2_ModifyVpcEndpoint := mocked accepts_all\<rparr>"

section \<open>Route 53\<close>

definition nil_r53 :: r53Api where
  "nil_r53 = \<lparr>r53_GetHostedZone = nil_method, r53_ListHostedZonesByVPC = nil_method,
     r53_ListHostedZonesByName = nil_method, r53_ListResourceRecordSets = nil_method,
     r53_ChangeResourceRecordSets = nil_method, r53_CreateHostedZone = nil_method, r53_DeleteHostedZone = nil_method,
     r53_ListTagsForResource = nil_method, r53_ChangeTagsForResource = nil_method,
     r53_CreateVPCAssociationAuthorization = nil_method, r53_AssociateVPCWithHostedZone = nil_method\<rparr>"

definition mockResourceRecordSet :: resourceRecordSet where
  "mockResourceRecordSet = \<lparr>rrs_Name = Some ''mock'', rrs_Type = ''CNAME'', rrs_TTL = Some 300,
     rrs_Values = [Some MockVpcEndpointDnsName]\<rparr>"

fun r53_parameters :: "event list \<Rightarrow> r53Call option" where
  "r53_parameters [] = None"
| "r53_parameters h = (case last h of R53 _ call \<Rightarrow> Some call | _ \<Rightarrow> None)"

lemma r53_parameters_call [simp]:
  "h \<noteq> [] \<Longrightarrow> r53_parameters h = (case last h of R53 _ call \<Rightarrow> Some call | _ \<Rightarrow> None)"
  by (cases h) auto

definition mock_GetHostedZone :: getHostedZoneOutput where
  "mock_GetHostedZone = \<lparr>gh_HostedZone = Some \<lparr>hz_Id = Some (''/hostedzone/'' @ MockHostedZoneId),
     hz_Name = Some ''example.com.'', hz_PrivateZone = None\<rparr>, gh_VPCs = []\<rparr>"

definition mock_ListHostedZonesByName :: "r53Call option \<Rightarrow> (error + hostedZone list) option" where
  "mock_ListHostedZonesByName call =
     (case call of
        Some (DoListHostedZonesByName dnsName) \<Rightarrow>
          Some (Inr [\<lparr>hz_Id = Some MockHostedZoneId, hz_Name = Some dnsName, hz_PrivateZone = None\<rparr>])
      | _ \<Rightarrow> None)"

definition mock_ListHostedZonesByVPC :: "hostedZoneSummary list" where
  "mock_ListHostedZonesByVPC = [\<lparr>hs_HostedZoneId = Some MockHostedZoneId, hs_Name = Some ''example.com.''\<rparr>]"

text \<open>Not mocked are the creation and the deletion of a zone, and the association of VPCs with it.\<close>

definition MockedRoute53 :: r53Api where
  "MockedRoute53 = nil_r53\<lparr>
     r53_GetHostedZone := (\<lambda>h. Inr mock_GetHostedZone),
     r53_ListHostedZonesByName := (\<lambda>h. case mock_ListHostedZonesByName (r53_parameters h) of
        None \<Rightarrow> Inl CalleePanic | Some answer \<Rightarrow> answer),
     r53_ListResourceRecordSets := (\<lambda>h. Inr [mockResourceRecordSet]),
     r53_ChangeResourceRecordSets := (\<lambda>h. Inr ()),
     r53_ListTagsForResource := (\<lambda>h. Inr (Some [])),
     r53_ListHostedZonesByVPC := (\<lambda>h. Inr mock_ListHostedZonesByVPC),
     r53_ChangeTagsForResource := (\<lambda>h. Inr ())\<rparr>"

text \<open>The account whose changes of records are throttled.\<close>

definition MockedThrottlingRoute53 :: r53Api where
  "MockedThrottlingRoute53 = MockedRoute53\<lparr>
     r53_ChangeResourceRecordSets := (\<lambda>h. Inl (ApiError ''Throttling'' ''Rate exceeded''))\<rparr>"

section \<open>The cluster\<close>

definition mockDnses :: string where
  "mockDnses = MockDomainName"

definition mockInfrastructure :: infrastructure where
  "mockInfrastructure = \<lparr>inf_PlatformStatus = Some \<lparr>ps_Type = ''AWS'', ps_AWSRegion = Some MockAWSRegion\<rparr>,
     inf_InfrastructureName = MockInfrastructureName\<rparr>"

text \<open>A client of a cluster that holds the two objects; the fake client is not under src/.\<close>

definition NewDefaultMock :: "k8sApi \<Rightarrow> k8sApi" where
  "NewDefaultMock fake = fake\<lparr>
     k8s_GetDNS := (\<lambda>h. Inr mockDnses),
     k8s_GetInfrastructure := (\<lambda>h. Inr mockInfrastructure)\<rparr>"

section \<open>The clients of the tests\<close>

text \<open>A client is what it talks to; the constructors of client.go put the two APIs, or the one, together.\<close>

definition NewAwsClientWithServiceClients :: "ec2Api \<Rightarrow> r53Api \<Rightarrow> env \<Rightarrow> env" where
  "NewAwsClientWithServiceClients ec2Client route53Client E = E\<lparr>ec2 := ec2Client, r53 := route53Client\<rparr>"

definition NewVpcEndpointAcceptanceAwsClientWithServiceClients :: "ec2Api \<Rightarrow> env \<Rightarrow> env" where
  "NewVpcEndpointAcceptanceAwsClientWithServiceClients ec2Client E = E\<lparr>ec2 := ec2Client\<rparr>"

lemmas client_defs [simp] = NewAwsClientWithServiceClients_def NewVpcEndpointAcceptanceAwsClientWithServiceClients_def

definition NewMockedAwsClient :: "env \<Rightarrow> env" where
  "NewMockedAwsClient E = NewAwsClientWithServiceClients (MockedEC2 (lib E) []) MockedRoute53 E"

definition NewMockedEC2WithSubnets :: "libApi \<Rightarrow> ec2Api" where
  "NewMockedEC2WithSubnets L = MockedEC2 L mockSubnets"

definition NewMockedAwsClientWithSubnets :: "env \<Rightarrow> env" where
  "NewMockedAwsClientWithSubnets E =
     NewAwsClientWithServiceClients (NewMockedEC2WithSubnets (lib E)) MockedRoute53 E"

definition NewMockedVpceAcceptanceAwsClient :: "env \<Rightarrow> env" where
  "NewMockedVpceAcceptanceAwsClient E =
     NewVpcEndpointAcceptanceAwsClientWithServiceClients (MockedEC2 (lib E) []) E"

definition NewMockedThrottlingAwsClient :: "env \<Rightarrow> env" where
  "NewMockedThrottlingAwsClient E =
     NewAwsClientWithServiceClients (MockedEC2 (lib E) []) MockedThrottlingRoute53 E"

end
