(* ===== verification/MockTests.thy ===== *)
theory MockTests
  imports Deletion DnsResults Mocks
begin

text \<open>
  The tests of the repository that run a reconciler or a client against the mocked account, as lemmas
  about the model: what a test expects of the code is what the model does. The reconciler of a test is
  \<open>tested\<close>, with the spec and status that the test gives; the fake client of the cluster is that of
  \<open>ref_env\<close>. Two comments of the tests say what the mocks do not do.
\<close>

section \<open>Reconcilers of the tests\<close>

definition empty_spec :: vpcEndpointSpec where
  "empty_spec = sample_spec\<lparr>sp_ServiceName := '''', sp_Region := '''',
     sp_Vpc := \<lparr>vpc_AutoDiscoverSubnets = False, vpc_SubnetIds = [], vpc_Ids = [], vpc_Tags = [], vpc_SubnetTags = []\<rparr>\<rparr>"

definition empty_status :: vpcEndpointStatus where
  "empty_status = \<lparr>st_Status = '''', st_SecurityGroupId = '''', st_VPCId = '''', st_VPCEndpointId = '''',
     st_VPCEndpointServiceName = '''', st_HostedZoneId = '''', st_ResourceRecordSet = '''', st_InfraId = '''', st_Conditions = []\<rparr>"

definition tested :: "bool \<Rightarrow> vpcEndpointSpec \<Rightarrow> vpcEndpointStatus \<Rightarrow> reconciler" where
  "tested enabled spec st = sample_state\<lparr>rc_EnablePrivateDns := enabled,
     rc_clusterInfo := Some \<lparr>ci_clusterTag = MockLegacyClusterTag, ci_region = ''us-east-1''\<rparr>,
     rc_resource := \<lparr>ve_Meta = sample_meta\<lparr>om_Name := ''mock1''\<rparr>, ve_Spec = spec, ve_Status = st\<rparr>\<rparr>"

definition with_zone :: "string \<Rightarrow> vpcEndpointSpec" where
  "with_zone domain = empty_spec\<lparr>sp_CustomDns := \<lparr>dns_Route53PrivateHostedZone = sample_zone\<lparr>phz_DomainName := domain\<rparr>\<rparr>\<rparr>"

definition has_condition :: "string \<Rightarrow> condition_status \<Rightarrow> condition" where
  "has_condition ty st = \<lparr>cd_Type = ty, cd_Status = st, cd_Reason = '''', cd_Message = ''''\<rparr>"

definition mock_env :: env where
  "mock_env = NewMockedAwsClientWithSubnets ref_env"

definition throttling_env :: env where
  "throttling_env = NewMockedThrottlingAwsClient ref_env"

lemmas mock_constants = MockDomainName_def MockInfrastructureName_def MockVpcEndpointId_def MockVpcEndpointDnsName_def
  MockLegacyClusterTag_def MockHostedZoneId_def MockSecurityGroupId_def MockVpcId_def MockVpcCidr_def

lemmas mock_answers = mock_DescribeSubnets_def mock_CreateSecurityGroup_def mock_DescribeSecurityGroups_def
  mock_DescribeSecurityGroupRules_def mock_DescribeVpcs_def mock_AuthorizeSecurityGroupIngress_def
  mock_AuthorizeSecurityGroupEgress_def mock_CreateVpcEndpoint_def mock_AcceptVpcEndpointConnections_def
  mock_DescribeVpcEndpoints_def mock_filtered_endpoint_def accepts_all_def mock_GetHostedZone_def
  mock_ListHostedZonesByName_def mock_ListHostedZonesByVPC_def mock_WaitSecurityGroupExists_def mock_endpoint_def mock_authorized_def mock_bad_rule_def

text \<open>What the two environments are made of.\<close>

lemma mock_fields [simp]:
  "lib mock_env = ref_lib" "lib throttling_env = ref_lib" "k8s mock_env = ref_k8s" "k8s throttling_env = ref_k8s"
  "ec2 mock_env = MockedEC2 ref_lib mockSubnets" "ec2 throttling_env = MockedEC2 ref_lib []"
  "r53 mock_env = MockedRoute53" "r53 throttling_env = MockedThrottlingRoute53"
  by (simp_all add: mock_env_def throttling_env_def NewMockedAwsClientWithSubnets_def NewMockedEC2WithSubnets_def
      NewMockedThrottlingAwsClient_def ref_env_def)

lemma ref_fields [simp]:
  "lib_SetStatusCondition ref_lib = set_condition" "lib_IsStatusConditionTrue ref_lib = condition_true"
  "lib_Range ref_lib h = insertion_order" "k8s_UpdateStatus ref_k8s h = Inr ()"
  by (simp_all add: ref_lib_def ref_k8s_def)

lemmas mock_accounts = MockedEC2_def MockedRoute53_def MockedThrottlingRoute53_def

lemmas tested_defs = tested_def empty_spec_def empty_status_def with_zone_def has_condition_def

section \<open>Tests of the clients\<close>

lemma test_DescribeSingleVPCEndpointById:
  "fst (DescribeSingleVPCEndpointById mock_env c MockVpcEndpointId (s :: world)) = Ok (Some [mock_endpoint MockVpcEndpointId])"
  if "history s = []"
  using that by (simp add: DescribeSingleVPCEndpointById_def run_simps mock_accounts mock_answers deletedVpceIds_def mock_constants)

lemma test_GetVpcCidrBlock:
  "fst (GetVpcCidrBlock mock_env c MockVpcId (s :: world)) = Ok MockVpcCidr"
  "\<exists>e. fst (GetVpcCidrBlock mock_env c '''' s) = Err e"
  by (simp_all add: GetVpcCidrBlock_def run_simps mock_accounts mock_answers mock_constants)

lemma test_CreateSecurityGroup:
  "\<exists>g. fst (CreateSecurityGroup mock_env c ''name'' MockVpcId MockLegacyClusterTag (s :: world)) = Ok (Some g)"
  by (simp add: CreateSecurityGroup_def GenerateAwsTags_def run_simps mock_accounts mock_answers mock_constants)

lemma test_AuthorizeSecurityGroupRules:
  assumes "au_IpPermissions i = [p]" "au_IpPermissions e = [q]"
  shows "\<exists>rules. fst (AuthorizeSecurityGroupRules mock_env c i e (s :: world)) = Ok rules \<and> length rules = 2"
  using assms by (simp add: AuthorizeSecurityGroupRules_def run_simps mock_accounts mock_answers)

lemma test_AutodiscoverPrivateSubnets:
  "\<exists>subnets. fst (AutodiscoverPrivateSubnets mock_env c MockLegacyClusterTag [] (s :: world)) = Ok subnets"
  "\<exists>e. fst (AutodiscoverPrivateSubnets mock_env c ''doesn't exist'' [] s) = Err e"
  by (simp_all add: AutodiscoverPrivateSubnets_def DescribeSubnetsByTags_def tag_filter_def run_simps mock_accounts mock_answers
      mockSubnets_def mock_constants privateSubnetTagKey_def range_keys_def)

lemma test_AcceptVpcEndpointConnections:
  "fst (AcceptVpcEndpointConnections mock_env c MockVpcEndpointServiceId ids (s :: world)) = Ok ()"
  by (cases ids) (simp_all add: AcceptVpcEndpointConnections_def run_simps mock_accounts mock_answers)

section \<open>Tests of the reconciler\<close>

lemma test_isVpcEndpointReady:
  "\<not> isVpcEndpointReady (rc_resource (tested b spec empty_status))"
  "isVpcEndpointReady (rc_resource (tested b spec (empty_status\<lparr>st_Conditions := [has_condition AWSSecurityGroupCondition ConditionTrue,
     has_condition AWSVpcEndpointCondition ConditionTrue, has_condition AWSRoute53RecordCondition ConditionTrue]\<rparr>)))"
  "\<not> isVpcEndpointReady (rc_resource (tested b spec (empty_status\<lparr>st_Conditions := [has_condition AWSSecurityGroupCondition ConditionTrue,
     has_condition AWSVpcEndpointCondition ConditionFalse]\<rparr>)))"
  "\<not> isVpcEndpointReady (rc_resource (tested b spec (empty_status\<lparr>st_Conditions := [has_condition AWSSecurityGroupCondition ConditionFalse]\<rparr>)))"
  "isVpcEndpointReady (rc_resource (tested b spec (empty_status\<lparr>st_Conditions := [has_condition AWSSecurityGroupCondition ConditionTrue,
     has_condition AWSVpcEndpointCondition ConditionTrue]\<rparr>)))"
  by (simp_all add: isVpcEndpointReady_def tested_defs)

text \<open>The record is not written again while its condition and that of the endpoint are true.\<close>

definition recorded_status :: "condition_status \<Rightarrow> condition_status \<Rightarrow> vpcEndpointStatus" where
  "recorded_status recorded available = empty_status\<lparr>st_VPCEndpointId := MockVpcEndpointId, st_HostedZoneId := ''Z12345'',
     st_Conditions := [has_condition AWSRoute53RecordCondition recorded, has_condition AWSVpcEndpointCondition available]\<rparr>"

lemmas record_run = validateR53HostedZoneRecord_def getHostedZoneCached_def fetchHostedZone_def with_cache_def
  GetHostedZone_def generateRoute53Record_def DescribeSingleVPCEndpointById_def upsertRecord_def
  UpsertResourceRecordSet_def cname_record_def recorded_status_def deletedVpceIds_def cache_make_def cache_lookup_def
  trim_right_def Let_def

lemma test_validateR53HostedZoneRecord:
  "fst (validateR53HostedZoneRecord throttling_env (tested False empty_spec (recorded_status ConditionTrue ConditionTrue))) = Ok ()"
  "fst (validateR53HostedZoneRecord throttling_env (tested False empty_spec (recorded_status ConditionFalse ConditionTrue)))
     = Err (ApiError ''Throttling'' ''Rate exceeded'')"
  "fst (validateR53HostedZoneRecord throttling_env (tested False empty_spec (recorded_status ConditionTrue ConditionFalse)))
     = Err (ApiError ''Throttling'' ''Rate exceeded'')"
  by (simp_all add: record_run run_simps mock_accounts mock_answers mock_constants tested_defs sample_defs
      AWSRoute53RecordCondition_def AWSVpcEndpointCondition_def)

lemma test_invalidateRoute53RecordCondition:
  "condition_true (st_Conditions (rc_status (snd (invalidateRoute53RecordCondition mock_env
     (tested False empty_spec (recorded_status ConditionTrue ConditionTrue)))))) AWSRoute53RecordCondition = False"
  "rc_status (snd (invalidateRoute53RecordCondition mock_env (tested False empty_spec (recorded_status ConditionFalse b))))
     = recorded_status ConditionFalse b"
  "rc_status (snd (invalidateRoute53RecordCondition mock_env (tested False empty_spec empty_status))) = empty_status"
  by (simp_all add: invalidateRoute53RecordCondition_def recorded_status_def run_simps mock_accounts mock_constants tested_defs
      sample_defs AWSRoute53RecordCondition_def AWSVpcEndpointCondition_def AWSRoute53TagsCondition_def)

lemma test_generateRoute53Record:
  "fst (generateRoute53Record mock_env (tested False empty_spec (empty_status\<lparr>st_VPCEndpointId := MockVpcEndpointId\<rparr>)))
     = Ok (Some (Some MockVpcEndpointDnsName))"
  "\<exists>e. fst (generateRoute53Record mock_env (tested False empty_spec empty_status)) = Err e"
  by (simp_all add: record_run run_simps mock_accounts mock_answers mock_constants tested_defs sample_defs)

lemma test_findOrCreateVpcEndpoint:
  "fst (findOrCreateVpcEndpoint mock_env (tested False empty_spec (empty_status\<lparr>st_VPCEndpointId := MockVpcEndpointId\<rparr>)))
     = Ok (mock_endpoint MockVpcEndpointId)"
  "st_Status (rc_status (snd (findOrCreateVpcEndpoint mock_env (tested False empty_spec
     (empty_status\<lparr>st_VPCEndpointId := MockVpcEndpointId\<rparr>))))) = ''available''"
  "st_Status (rc_status (snd (findOrCreateVpcEndpoint mock_env (tested False empty_spec
     (empty_status\<lparr>st_VPCId := MockVpcId, st_InfraId := MockInfrastructureName\<rparr>))))) = ''available''"
  by (simp_all add: findOrCreateVpcEndpoint_def DescribeSingleVPCEndpointById_def FilterVPCEndpointByDefaultTags_def
      GenerateVPCEndpointName_def generateName_def deletedVpceIds_def record_normal_def OperatorTagKey_def run_simps mock_accounts mock_answers mock_constants tested_defs sample_defs)

lemmas endpoint_run = validateVPCEndpoint_def findOrCreateVpcEndpoint_def DescribeSingleVPCEndpointById_def
  FilterVPCEndpointByDefaultTags_def GenerateVPCEndpointName_def generateName_def deletedVpceIds_def
  ensureVpcEndpointSubnets_def expectedSubnetIds_def ensureVpcEndpointSecurityGroups_def diffVpcEndpointSecurityGroups_def
  endpointAvailable_def enablePrivateDns_def set_pending_metric_def modify_input_def ModifyVpcEndpoint_def StringSliceTwoWayDiff_def
  range_keys_def Let_def collect_def

lemma test_validateVPCEndpoint:
  "\<exists>t. validateVPCEndpoint mock_env (tested b (empty_spec\<lparr>sp_EnablePrivateDns := p\<rparr>)
       (empty_status\<lparr>st_VPCEndpointId := MockVpcEndpointId\<rparr>)) = (Ok (), t) \<and>
     condition_true (st_Conditions (rc_status t)) AWSVpcEndpointCondition"
  by (cases b; cases p; simp add: endpoint_run run_simps mock_accounts mock_answers mock_constants tested_defs sample_defs)

text \<open>The security group: found by its id or by its tags, completed with tags and rules.\<close>

definition tested_rule :: "int32 \<Rightarrow> string \<Rightarrow> securityGroupRule" where
  "tested_rule port cidr = \<lparr>sgr_CidrIp = cidr, sgr_FromPort = port, sgr_ToPort = port, sgr_Protocol = ''tcp''\<rparr>"

definition with_rules :: "bool \<Rightarrow> securityGroupRule list \<Rightarrow> securityGroupRule list \<Rightarrow> vpcEndpointSpec" where
  "with_rules vpcCidr ingress egress = empty_spec\<lparr>sp_SecurityGroup :=
     \<lparr>sg_IngressRules = ingress, sg_EgressRules = egress, sg_UseVpcCidr = vpcCidr\<rparr>\<rparr>"

definition infra_status :: vpcEndpointStatus where
  "infra_status = empty_status\<lparr>st_InfraId := MockInfrastructureName\<rparr>"

definition tested_group :: ec2SecurityGroup where
  "tested_group = \<lparr>esg_GroupId = Some MockSecurityGroupId, esg_Tags = []\<rparr>"

lemmas group_run = validateSecurityGroup_def findOrCreateSecurityGroup_def FilterSecurityGroupById_def
  foundSecurityGroup_def GenerateSecurityGroupName_def generateName_def FilterSecurityGroupByDefaultTags_def
  GetClusterLegacyTagKey_def GetClusterCapiTagKey_def LegacyClusterTagPrefix_def createMissingSecurityGroupTags_def
  GenerateAwsTagsAsMap_def GenerateAwsTags_def tagsContains_def CreateTags_def generateMissingSecurityGroupRules_def
  DescribeSecurityGroupRules_def FilterClusterNodeSecurityGroupsByDefaultTags_def lookupVpcCidr_def GetVpcCidrBlock_def
  missingIngress_def missingEgress_def missing_for_rule_def avoAndAwsSecurityGroupRuleCandidate_def authorize_input_def
  AuthorizeSecurityGroupRules_def with_rules_def tested_rule_def infra_status_def tested_group_def Let_def collect_def

lemma test_findOrCreateSecurityGroup:
  "\<exists>g. fst (findOrCreateSecurityGroup mock_env (tested b empty_spec (empty_status\<lparr>st_SecurityGroupId := MockSecurityGroupId\<rparr>))) = Ok g"
  "\<exists>g. fst (findOrCreateSecurityGroup mock_env (tested b empty_spec infra_status)) = Ok g"
  by (simp_all add: group_run run_simps mock_accounts mock_answers mock_constants tested_defs sample_defs)

lemma test_avoAndAwsSecurityGroupRuleCandidate:
  "avoAndAwsSecurityGroupRuleCandidate True (tested_rule 0 cidr) \<lparr>esr_IsEgress = Some True, esr_IpProtocol = Some ''tcp'',
     esr_FromPort = Some 0, esr_ToPort = Some 0, esr_CidrIpv4 = None, esr_ReferencedGroupInfo = None\<rparr> = Some True"
  "avoAndAwsSecurityGroupRuleCandidate False (tested_rule 0 cidr) \<lparr>esr_IsEgress = Some True, esr_IpProtocol = Some ''tcp'',
     esr_FromPort = Some 0, esr_ToPort = Some 0, esr_CidrIpv4 = None, esr_ReferencedGroupInfo = None\<rparr> = Some False"
  by (simp_all add: avoAndAwsSecurityGroupRuleCandidate_def tested_rule_def)

text \<open>The numbers of permissions that a group lacks for the rules of a spec; \<open>None\<close> is an error.\<close>

definition missing_numbers :: "vpcEndpointSpec \<Rightarrow> vpcEndpointStatus \<Rightarrow> (nat \<times> nat) option" where
  "missing_numbers spec st = (case fst (generateMissingSecurityGroupRules mock_env tested_group (tested False spec st)) of
     Ok (i, e) \<Rightarrow> Some (length (au_IpPermissions i), length (au_IpPermissions e)) | _ \<Rightarrow> None)"

lemma test_generateMissingSecurityGroupRules:
  "missing_numbers (with_rules False [tested_rule 0 ''0.0.0.0/0'', tested_rule 0 '''']
     [tested_rule 0 ''0.0.0.0/0'', tested_rule 0 '''']) infra_status = Some (2, 2)"
  "missing_numbers (with_rules True [tested_rule 443 ''''] [tested_rule 443 '''']) (infra_status\<lparr>st_VPCId := MockVpcId\<rparr>)
     = Some (1, 1)"
  "missing_numbers (with_rules True [tested_rule 443 ''192.168.1.0/24'', tested_rule 8080 ''''] [])
     (infra_status\<lparr>st_VPCId := MockVpcId\<rparr>) = Some (2, 0)"
  "missing_numbers (with_rules True [tested_rule 443 ''''] []) infra_status = None"
  by (simp_all add: missing_numbers_def group_run run_simps mock_accounts mock_answers mock_constants tested_defs sample_defs)

lemma test_validateSecurityGroup:
  "\<exists>t. validateSecurityGroup mock_env (tested b (with_rules False [tested_rule 0 ''''] [tested_rule 0 ''''])
       (infra_status\<lparr>st_SecurityGroupId := MockSecurityGroupId\<rparr>)) = (Ok (), t) \<and>
     condition_true (st_Conditions (rc_status t)) AWSSecurityGroupCondition"
  by (simp add: group_run run_simps mock_accounts mock_answers mock_constants tested_defs sample_defs gomap_def)

section \<open>Tests of the hosted zone\<close>

lemmas zone_run = validateR53PrivateHostedZone_def findOrCreatePrivateHostedZone_def getHostedZoneCached_def
  fetchHostedZone_def with_cache_def cache_make_def cache_lookup_def GetHostedZone_def createMissingPrivateZoneTags_def
  FetchPrivateZoneTags_def GenerateDefaultTagsForHostedZoneInput_def GenerateR53Tags_def
  ChangeTagsForResource_def resolveDomainName_def zoneForDomain_def zone_in_vpc_def ListHostedZonesByVPC_def
  trim_right_def

definition tagged_status :: "condition_status \<Rightarrow> vpcEndpointStatus" where
  "tagged_status tagged = empty_status\<lparr>st_HostedZoneId := MockHostedZoneId, st_VPCId := MockVpcId,
     st_Conditions := [has_condition AWSRoute53TagsCondition tagged]\<rparr>"

lemma test_validateR53PrivateHostedZone:
  "fst (validateR53PrivateHostedZone throttling_env (tested False (with_zone ''example.com'') (tagged_status ConditionTrue))) = Ok ()"
  "\<exists>t. validateR53PrivateHostedZone mock_env (tested False (with_zone ''example.com'') (tagged_status ConditionFalse)) = (Ok (), t) \<and>
     condition_true (st_Conditions (rc_status t)) AWSRoute53TagsCondition"
  by (simp_all add: zone_run tagged_status_def run_simps mock_accounts mock_answers mock_constants tested_defs sample_defs
      AWSRoute53TagsCondition_def)

text \<open>
  The comment of this test says that the mocked Route 53 would answer \<open>ListTagsForResource\<close> with an error;
  the throttling mock answers with no tags, and the tags are written.
\<close>

lemma throttling_mock_lists_tags:
  "r53_ListTagsForResource MockedThrottlingRoute53 h = Inr (Some [])"
  "fst (validateR53PrivateHostedZone throttling_env (tested False (with_zone ''example.com'') (tagged_status ConditionFalse))) = Ok ()"
  by (simp_all add: zone_run tagged_status_def run_simps mock_accounts mock_answers mock_constants tested_defs sample_defs
      AWSRoute53TagsCondition_def)

text \<open>
  The test of the reuse of a zone expects that the search by VPC finds nothing; the mock has a zone of
  that name in the VPC, so that the search by name is never made.
\<close>

lemma mock_finds_zone_by_vpc:
  "\<exists>t. findOrCreatePrivateHostedZone mock_env (tested False (with_zone ''example.com'') (empty_status\<lparr>st_VPCId := MockVpcId\<rparr>)) = (Ok (), t) \<and>
     st_HostedZoneId (rc_status t) = MockHostedZoneId \<and>
     (\<forall>c n. R53 c (DoListHostedZonesByName n) \<notin> set (history t))"
  by (simp add: zone_run run_simps mock_accounts mock_answers mock_constants tested_defs sample_defs)

text \<open>All the default tags are written once for every tag that is missing.\<close>

lemma tags_written_once_per_tag:
  "length (filter (\<lambda>e. \<exists>c z tags. e = R53 c (DoChangeTagsForResource z tags))
     (history (snd (validateR53PrivateHostedZone mock_env (tested False (with_zone ''example.com'') (tagged_status ConditionFalse)))))) = 3"
  by (simp add: zone_run tagged_status_def run_simps mock_accounts mock_answers mock_constants tested_defs sample_defs
      AWSRoute53TagsCondition_def)

text \<open>
  The test of the private DNS expects the validation of a resource without custom DNS to return
  without an error. Its comment says that no part of Route 53 is entered; the zone of the empty id is
  asked for, unless the private DNS of the endpoint is used.
\<close>

lemma test_validateCustomDns:
  "\<exists>t. validateCustomDns mock_env (tested b (empty_spec\<lparr>sp_EnablePrivateDns := p\<rparr>) empty_status) = (Ok (), t) \<and>
     st_Conditions (rc_status t) = [] \<and>
     ((\<exists>c. R53 c (DoGetHostedZone ''/hostedzone/'') \<in> set (history t)) \<longleftrightarrow> \<not> (b \<and> p))"
  by (cases b; cases p; simp add: validateCustomDns_def validateResources_Cons validateResources_Nil zone_run record_run
      validateR53HostedZoneAuthorization_def validateExternalNameService_def run_simps mock_accounts mock_answers
      mock_constants tested_defs sample_defs)

text \<open>The mock knows the name filter as \<open>Tag:Name\<close>, and no client sends a filter of that name.\<close>

lemma mock_misses_name_filter:
  "mock_DescribeSecurityGroups (DoDescribeSecurityGroups [\<lparr>flt_Name = ''tag:Name'', flt_Values = [n]\<rparr>] []) = Some (Inr [])"
  by (simp add: mock_DescribeSecurityGroups_def)

section \<open>The cleanup\<close>

text \<open>
  The mocked account carries out the deletion of an endpoint and of a group, and an endpoint that was
  deleted is unknown from then on. It has no method to delete a hosted zone.
\<close>

lemma mocked_client [simp]:
  "ec2 (NewMockedAwsClientWithSubnets E) = MockedEC2 (lib E) mockSubnets"
  "r53 (NewMockedAwsClientWithSubnets E) = MockedRoute53"
  "k8s (NewMockedAwsClientWithSubnets E) = k8s E" "lib (NewMockedAwsClientWithSubnets E) = lib E"
  by (simp_all add: NewMockedAwsClientWithSubnets_def NewMockedEC2WithSubnets_def)

lemma accepting: "accepts respond \<Longrightarrow> respond h = Inr ()"
  by (simp add: accepts_def)

lemma mocked_record:
  assumes "accepts (k8s_UpdateStatus (k8s E))" "rc_awsClient s = Some c"
    and "st_HostedZoneId (rc_status s) \<noteq> '''' \<or> \<not> conditionNow E s AWSRoute53RecordCondition"
  shows "\<exists>t. cleanupRecord (NewMockedAwsClientWithSubnets E) s = (Ok (), t) \<and> rc_awsClient t = Some c \<and>
    rc_spec t = rc_spec s \<and> st_HostedZoneId (rc_status t) = st_HostedZoneId (rc_status s)"
  using assms(2,3)
  by (auto simp: cleanupRecord_def deleteRecord_def deleteNamedRecord_def GetHostedZone_def ListResourceRecordSets_def
      DeleteResourceRecordSet_def conditionNow_def run_simps accepting [OF assms(1)] mock_accounts mock_answers
      mockResourceRecordSet_def)

lemma mocked_endpoint:
  assumes "accepts (k8s_UpdateStatus (k8s E))" "rc_awsClient s = Some c" "0 < rounds"
  shows "\<exists>t. cleanupEndpoint rounds (NewMockedAwsClientWithSubnets E) s = (Ok (), t) \<and> rc_awsClient t = Some c"
proof -
  obtain n where "rounds = Suc n" using assms(3) by (cases rounds) auto
  with assms(2) show ?thesis
    by (auto simp: cleanupEndpoint_def cleanupMetrics_def deleteEndpoint_def endpointDeleted_def DeleteVPCEndpoint_def
        awaitDeletion_def DescribeSingleVPCEndpointById_def forgetEndpoint_def run_simps accepting [OF assms(1)]
        MockedEC2_def mock_DescribeVpcEndpoints_def accepts_all_def pollTimeout_def deletedVpceIds_def)
qed

lemma mocked_group:
  assumes "accepts (k8s_UpdateStatus (k8s E))" "rc_awsClient s = Some c"
  shows "\<exists>t. cleanupGroup (NewMockedAwsClientWithSubnets E) s = (Ok (), t)"
  using assms(2)
  by (auto simp: cleanupGroup_def deleteGroup_def groupDeleted_def DeleteSecurityGroup_def run_simps accepting [OF assms(1)]
      MockedEC2_def accepts_all_def)

text \<open>The zone is the operator's own: the spec names a domain, and not by the base domain of the cluster.\<close>

definition deletable_zone :: "string \<Rightarrow> vpcEndpointSpec \<Rightarrow> bool" where
  "deletable_zone baseDomain spec \<longleftrightarrow>
     (let zone = dns_Route53PrivateHostedZone (sp_CustomDns spec) in
      (phz_DomainName zone \<noteq> '''' \<or> phz_DomainNameRef zone \<noteq> None) \<and> phz_DomainName zone \<noteq> baseDomain)"

lemma mocked_zone:
  assumes "\<And>h. k8s_GetDNS (k8s E) h = Inr baseDomain" "rc_awsClient s = Some c"
  shows "\<exists>t. cleanupZone (NewMockedAwsClientWithSubnets E) s =
      (if st_HostedZoneId (rc_status s) \<noteq> '''' \<and> deletable_zone baseDomain (rc_spec s) then Panic else Ok (), t) \<and>
    rc_awsClient t = Some c"
  using assms
  by (auto simp: cleanupZone_def ownsZone_def deleteZone_def DeleteHostedZone_def run_simps deletable_zone_def mock_accounts
      nil_r53_def nil_method_def)

lemma zone_stages_emit:
  "preserves (emits (\<lambda>e. deletion_phase e \<in> {None, Some DnsPhase}))
     (bindE (record_normal ''CleanupStarted'') (\<lambda>_. bindE (cleanupRecord E) (\<lambda>_. cleanupZone E)))"
  by (intro preserves_steady_emits sy.bindE steady_events cleanupRecord_steady [THEN preserves_steady_weaken]
      stages_steady [THEN preserves_steady_weaken]) (auto dest: dns_event_phase quiet_phase event_phases)

text \<open>
  C7: the cleanup against the mocked account. The test of the cleanup runs it for two resources; the
  model shows what the mock does for every resource whose record, if it has one, is in the hosted zone of
  the status. If there is no zone in the status, or not one of the operator's own, the cleanup succeeds with
  a single round of the poll loop, as the test expects: it leaves no endpoint in the status and has asked for
  the deletion of the endpoint and of the security group that the status named. If the zone is to be
  deleted, the test would panic, since the mock embeds a nil interface and has no \<open>DeleteHostedZone\<close>; the
  endpoint and the group are not reached.
\<close>

theorem mocked_cleanup:
  assumes "accepts (k8s_UpdateStatus (k8s E))" "\<And>h. k8s_GetDNS (k8s E) h = Inr baseDomain"
    and "0 < rounds" "rc_awsClient s \<noteq> None"
    and "st_HostedZoneId (rc_status s) \<noteq> '''' \<or> \<not> conditionNow E s AWSRoute53RecordCondition"
  shows "\<exists>r t. cleanupAwsResources rounds (NewMockedAwsClientWithSubnets E) s = (r, t) \<and>
    (if st_HostedZoneId (rc_status s) \<noteq> '''' \<and> deletable_zone baseDomain (rc_spec s)
     then r = Panic \<and> list_all (\<lambda>e. deletion_phase e \<in> {None, Some DnsPhase}) (new_events s t)
     else r = Ok () \<and> st_VPCEndpointId (rc_status t) = '''' \<and>
       (st_VPCEndpointId (rc_status s) = '''' \<or>
        (\<exists>c. Ec2 c (DoDeleteVpcEndpoints [st_VPCEndpointId (rc_status s)]) \<in> set (new_events s t))) \<and>
       (st_SecurityGroupId (rc_status s) = '''' \<or>
        (\<exists>c. Ec2 c (DoDeleteSecurityGroup (st_SecurityGroupId (rc_status s))) \<in> set (new_events s t))))"
proof -
  let ?M = "NewMockedAwsClientWithSubnets E"
  let ?s1 = "s\<lparr>history := history s @ [Recorded ''Normal'' ''CleanupStarted'']\<rparr>"
  let ?panics = "st_HostedZoneId (rc_status s) \<noteq> '''' \<and> deletable_zone baseDomain (rc_spec s)"
  obtain c where c: "rc_awsClient s = Some c" using assms(4) by auto
  have s1: "record_normal ''CleanupStarted'' s = (Ok (), ?s1)" by (simp add: record_normal_def run_simps)
  obtain s2 where s2: "cleanupRecord ?M ?s1 = (Ok (), s2)" "rc_awsClient s2 = Some c"
    "rc_spec s2 = rc_spec s" "st_HostedZoneId (rc_status s2) = st_HostedZoneId (rc_status s)"
    using mocked_record [OF assms(1), of ?s1 c] assms(5) c by (auto simp: conditionNow_def)
  obtain s3 where s3: "cleanupZone ?M s2 = (if ?panics then Panic else Ok (), s3)" "rc_awsClient s3 = Some c"
    using mocked_zone [OF assms(2) s2(2)] s2(3,4) by auto
  show ?thesis
  proof (cases ?panics)
    case True
    with s1 s2 s3 have z: "bindE (record_normal ''CleanupStarted'') (\<lambda>_. bindE (cleanupRecord ?M) (\<lambda>_. cleanupZone ?M)) s = (Panic, s3)"
      by (simp add: bindE_run)
    with s1 s2 s3 True have "cleanupAwsResources rounds ?M s = (Panic, s3)"
      by (simp add: cleanupAwsResources_def bindE_run)
    with True new_events_emits [OF preservesD [OF zone_stages_emit z]] show ?thesis
      by (auto simp: list_all_iff)
  next
    case False
    obtain s4 where s4: "cleanupEndpoint rounds ?M s3 = (Ok (), s4)" "rc_awsClient s4 = Some c"
      using mocked_endpoint [OF assms(1) s3(2) assms(3)] by blast
    obtain s5 where "cleanupGroup ?M s4 = (Ok (), s5)" using mocked_group [OF assms(1) s4(2)] by blast
    with s1 s2 s3 s4 False obtain t where t: "cleanupAwsResources rounds ?M s = (Ok (), t)"
      by (auto simp: cleanupAwsResources_def bindE_run record_normal_def emit_run)
    with False cleanup_complete [OF t] show ?thesis by simp
  qed
qed

theorem mocked_cleanup_witness:
  "fst (cleanupAwsResources 1 mock_env (tested False (with_zone ''svc.example.com'') (empty_status\<lparr>st_HostedZoneId := MockHostedZoneId\<rparr>)))
     = Panic \<and>
   fst (cleanupAwsResources 1 mock_env (tested False empty_spec (empty_status\<lparr>st_SecurityGroupId := MockSecurityGroupId,
     st_VPCEndpointId := MockVpcEndpointId\<rparr>))) = Ok ()"
proof -
  have k8s: "accepts (k8s_UpdateStatus (k8s ref_env))" "k8s_GetDNS (k8s ref_env) h = Inr ''cluster.example.com''" for h
    by (simp_all add: accepts_def ref_defs)
  note run = mocked_cleanup [OF this, of 1 "tested False (with_zone ''svc.example.com'') (empty_status\<lparr>st_HostedZoneId := MockHostedZoneId\<rparr>)"]
    mocked_cleanup [OF this, of 1 "tested False empty_spec
      (empty_status\<lparr>st_SecurityGroupId := MockSecurityGroupId, st_VPCEndpointId := MockVpcEndpointId\<rparr>)"]
  show ?thesis
    using run unfolding mock_env_def
    by (auto simp: conditionNow_def tested_defs sample_defs deletable_zone_def mock_constants ref_env_def ref_lib_def)
qed

end
