(* ===== verification/Spec2Isabelle.thy ===== *)
theory Spec2Isabelle
  imports Acceptance Template TemplateMemory DeepCopyV1 Startup Registration Metrics Settled Healthy MockTests
begin

text \<open>
  A model of the AWS VPCE operator and the theorems that make it correct. The operator
  reconciles VpcEndpoint resources of a Kubernetes cluster with AWS: for each of them it keeps a
  security group, an interface VPC endpoint, a Route 53 private hosted zone with a record, and an
  ExternalName service; it deletes them when the resource goes. Two smaller controllers accept
  endpoint connections (VpcEndpointAcceptance) and stamp out VpcEndpoints for hosted control
  planes (VpcEndpointTemplate).

  The model. A Go function that may fail is a program (Prelude): a function from the state to an
  outcome (a value, an error, a panic, or the divergence of a loop whose fuel is used up) and the
  state it leaves, also when it fails. The state of the VpcEndpoint controller is the record
  \<open>reconciler\<close> (Reconciler): the resource in hand, the AWS client, the cluster information, the
  zone cache and the history of all calls made so far. Everything the operator cannot decide is
  an argument, the record \<open>env\<close> (World): what AWS and the API server answer, what the helper
  libraries compute and what the clock says are functions of the history, so that no two calls
  need to be answered alike, and a call may also panic instead of answering (\<open>CalleePanic\<close>), as a method of the
  nil interface in a mock does; the order in which a Go map is ranged over comes from there too.
  Theorems that need more of a library than that it answers have its documented laws as
  hypotheses (Libraries), and \<open>ref_env\<close> satisfies them all.

  The theories and what they model.
  Prelude, GoStd, World: programs, frames, the parts of the Go library the code uses
  (\<open>fmt.Sscanf\<close>, \<open>strings.TrimRight\<close>, error chains), the calls and their history.
  Api: api/v1alpha2 and api/v1alpha1, one record per struct.
  SliceDiff, Naming: pkg/util. Ec2Client, Route53Client: pkg/aws_client. Lookups: pkg/dnses,
  pkg/hostedcontrolplanes, pkg/infrastructures and pkg/secrets.
  ClusterInfo, SecurityGroups, Endpoints, ZoneCache, CustomDns: controllers/vpcendpoint/helpers.go
  and validation.go. Cleanup: cleanup.go. Cleaned: what a cleanup that succeeds has seen to, over the answers of
  AWS. OwnWrites: what a cleanup may write. VpcEndpointController: vpcendpoint_controller.go.
  DnsResults: what the validations of CustomDns achieve. Runs: properties of the VpcEndpoint
  controller that span stages or reconciliations. Needed, NeededEndpoint, NeededDns: why each change
  is asked for, per stage of a live reconciliation. Settled: a reconciliation with nothing to do.
  Total: total correctness of programs. Deletion: the cleanup and the end of a deletion. Healthy: the
  end of a live reconciliation.
  Acceptance, Template: controllers/vpcendpointacceptance and controllers/vpcendpointtemplate.
  GoMemory: pointers, slices and maps as addresses in a memory of cells, and the contract of a deep copy. ApiMemory:
  the structs of the API types with addresses in them, and what they stand for in a memory. Metav1: the deep
  copies of the Kubernetes library as parameters with their contract. DeepCopyV2, DeepCopyV1: the two
  zz_generated.deepcopy.go. TemplateMemory: the endpoints that the template controller builds, in memory.
  Startup: main.go, from the configuration file on, and the health check of controllers/util.
  Registration: groupversion_info.go and the init functions, the scheme that main.go makes of them, and the kinds
  that the controllers watch.
  Metrics: the collectors of the two metrics.go and their registration.
  Mocks: the mocked account and cluster of pkg/aws_client/mock.go and pkg/testutil/mock.go.
  MockTests: tests of the repository against these mocks, as lemmas about the model.

  How the proofs go. The locale \<open>frame\<close> lifts a reflexive and transitive relation on states from
  the steps of a program to the program. Its interpretations are: the events a program may add to
  the history (\<open>emits\<close>, \<open>calls\<close>), what of the reconciler it leaves alone (\<open>steady\<close>, \<open>keeps\<close>), the
  phases of a deletion (\<open>span\<close>), invariants (\<open>guarded\<close>), the zone id that a run has written (\<open>announces\<close>), the order of the authorization and the
  association of a VPC (\<open>orders\<close>), the invariant of the zone cache (\<open>cached\<close>). The other locales are the interfaces
  between components: \<open>deep_copy\<close>, \<open>two_way_diff\<close>, \<open>resource_namer\<close>, \<open>zone_cache\<close>, \<open>validation_pipeline\<close>.
  A theorem about a run then locates an event in the stage that can emit it, and uses what the
  stages before it established: \<open>reported respond ev x s t\<close> says that between two states of a run
  the call \<open>ev\<close> was made and answered with \<open>x\<close>.

  What the theorems show. The deletion: its order, that it returns (Cleanup); that the security group goes only
  after AWS reported the endpoint gone, and that a cleanup that succeeds had every deletion accepted or found nothing
  to delete (Cleaned); that the finalizer goes last, that a deletion writes only what is the resource's own, and which
  requeue a reconciliation ends with (VpcEndpointController). Each stage of a live reconciliation against an
  abstract specification: the cluster information that the later stages read (ClusterInfo); the
  permissions granted and requested against those that are wanted, as sets (SecurityGroups); the
  settings of an endpoint before and after the requests of a run (Endpoints); the record, the
  associations and the service (DnsResults). Every request that changes AWS answers a difference
  between what AWS reported in the same run and what the resource asks for (Needed, NeededEndpoint,
  NeededDns), so that a resource for which everything is as it asks is left alone (Settled), and what
  is created has the tags by which it is found again (Runs). A deletion comes to an end if the account
  and the cluster cooperate (Deletion), and so does a live reconciliation, with the group, the endpoint and
  the record reported as ready (Healthy): the judgement \<open>leads I J m Q\<close> says that \<open>m\<close> returns a value with
  \<open>Q\<close> from every state with \<open>I\<close> and leaves one with \<open>J\<close>, with one rule per operator of programs (Total). The zone cache holds
  answers of AWS, in every state that any number of reconciliations reach (\<open>reachable\<close>), and what
  it returns is less than two minutes old. The acceptance controller accepts exactly the
  connections that the criteria let in; the template controller makes the VpcEndpoints of a
  hosted control plane equal to the template. No update of a metric panics (Metrics).
  The deep copy of a spec and that of a list of resources have the value of the original and no memory in
  common with it (DeepCopyV2), so that the components can treat resources as values; of the endpoints that the
  template controller builds, only the labels are in the memory of the template (TemplateMemory). The model does
  what the translated tests of the repository expect. The mocked account that they run against cooperates with
  a deletion unless a hosted zone is to be deleted, a method that the mock does not have: then the run panics
  (MockTests). Some theorems show where the code does not do what
  it means to: a replaced endpoint keeps its DNS record, the safeguard of the cluster's zone has a
  gap, an error of the security group is hidden, duplicates of a template are kept, a name can be
  one character too long, the
  labels of a template are shared with what is built from it.

  Bounds. The only loop that may go on is the wait for the endpoint in the cleanup; it is run
  with a number of rounds. With an interval of 5 seconds and a deadline of 3 minutes, and a clock
  that advances while the loop sleeps, 37 rounds are proved enough (Cleanup), so that every
  other theorem holds for the code when \<open>rounds\<close> is at least that; for an endpoint that disappears
  within 24 waits, 25 rounds are enough (Deletion). Durations are integers
  (nanoseconds); int32 ports are 32 bit words; characters are bytes.

  Not modelled. The log, the text of events on the resource, the command line flags, the rate limits
  with which the controllers are registered, and the help texts of metrics (the updates of metrics are
  events). An AWS client is the configuration it was made from: the constructors that load a configuration and wrap
  clients of the SDK are calls of it. What the API server writes back into an object after an update is taken to be
  the object that was sent. Two reconciliations of one reconciler do not run at the same time, as is the default of the
  controller runtime. The capacity of a slice is not modelled, no copy depends on it; a nil slice and an empty one are told
  apart in memory and are the same value. The generated OpenAPI definitions are data for the API
  server; the end-to-end tests need a cluster.
\<close>

end
